(* ===== verification/Prelude.thy ===== *)
theory Prelude
  imports Main "HOL-Library.Word" "HOL-Library.Char_ord" "HOL-Library.List_Lexorder"
    "HOL-Library.Sublist" "HOL-Library.Multiset"
begin

text \<open>
  Shared vocabulary: UUIDs, times and errors, and the parts of Go's strings, strconv and fmt
  packages that the modelled code uses.  A Go string is a byte sequence, so it is a char list
  here, and comparison of strings is the lexicographic order of their bytes.  A UUID is the
  16 byte array of github.com/google/uuid, read as a 128 bit word; uuid.Nil is 0.  A time is a
  number of nanoseconds.  An error is its sentinel (the text of the errors.New value that it
  wraps, or the empty string) followed by the rest of its message, so that errors.Is compares
  sentinels and Error() is their concatenation.
\<close>

named_theorems step_intros
  \<open>operations as sequences of appends\<close>

section \<open>Types\<close>

type_synonym uuid = "128 word"
type_synonym time = int

abbreviation uuid_nil :: uuid where
  "uuid_nil \<equiv> 0"

datatype err = Err (sentinel: string) (detail: string)

definition err_is :: "err \<Rightarrow> string \<Rightarrow> bool" where
  "err_is e s \<longleftrightarrow> sentinel e = s"

definition err_message :: "err \<Rightarrow> string" where
  "err_message e = sentinel e @ detail e"

abbreviation microsecond :: int where "microsecond \<equiv> 1000"
abbreviation second :: int where "second \<equiv> 1000000000"
abbreviation minute :: int where "minute \<equiv> 60000000000"
abbreviation hour :: int where "hour \<equiv> 3600000000000"

section \<open>Strings\<close>

text \<open>strings.HasPrefix, strings.TrimPrefix, strings.Cut, strings.Contains, strings.Join.\<close>

definition has_prefix :: "string \<Rightarrow> string \<Rightarrow> bool" where
  "has_prefix s p \<longleftrightarrow> take (length p) s = p"

definition trim_prefix :: "string \<Rightarrow> string \<Rightarrow> string" where
  "trim_prefix s p = (if has_prefix s p then drop (length p) s else s)"

fun cut :: "char \<Rightarrow> string \<Rightarrow> (string \<times> string) option" where
  "cut c [] = None"
| "cut c (x # xs) =
     (if x = c then Some ([], xs) else map_option (\<lambda>(a, b). (x # a, b)) (cut c xs))"

fun str_contains :: "string \<Rightarrow> string \<Rightarrow> bool" where
  "str_contains [] m = (m = [])"
| "str_contains (c # s) m = (has_prefix (c # s) m \<or> str_contains s m)"

fun join :: "string \<Rightarrow> string list \<Rightarrow> string" where
  "join sep [] = []"
| "join sep [s] = s"
| "join sep (s # t # ts) = s @ sep @ join sep (t # ts)"

lemma has_prefix_iff: "has_prefix s p \<longleftrightarrow> (\<exists>t. s = p @ t)"
  by (auto simp: has_prefix_def) (metis append_take_drop_id)

lemma has_prefix_append [simp]: "has_prefix (p @ s) p"
  by (simp add: has_prefix_def)

lemma trim_prefix_append [simp]: "trim_prefix (p @ s) p = s"
  by (simp add: trim_prefix_def)

lemma cut_None_iff: "cut c s = None \<longleftrightarrow> c \<notin> set s"
  by (induction s) auto

lemma cut_Some: "cut c s = Some (a, b) \<Longrightarrow> s = a @ c # b \<and> c \<notin> set a"
  by (induction s arbitrary: a) (auto split: if_splits)

lemma cut_append: "c \<notin> set a \<Longrightarrow> cut c (a @ c # b) = Some (a, b)"
  by (induction a) auto

text \<open>
  strings.TrimSpace removes the UTF-8 encodings of the code points with the White_Space
  property at both ends.
\<close>

definition space_encodings :: "string list" where
  "space_encodings =
     [[CHR 0x20], [CHR 0x09], [CHR 0x0A], [CHR 0x0B], [CHR 0x0C], [CHR 0x0D],
      [CHR 0xC2, CHR 0x85], [CHR 0xC2, CHR 0xA0], [CHR 0xE1, CHR 0x9A, CHR 0x80],
      [CHR 0xE2, CHR 0x80, CHR 0x80], [CHR 0xE2, CHR 0x80, CHR 0x81],
      [CHR 0xE2, CHR 0x80, CHR 0x82], [CHR 0xE2, CHR 0x80, CHR 0x83],
      [CHR 0xE2, CHR 0x80, CHR 0x84], [CHR 0xE2, CHR 0x80, CHR 0x85],
      [CHR 0xE2, CHR 0x80, CHR 0x86], [CHR 0xE2, CHR 0x80, CHR 0x87],
      [CHR 0xE2, CHR 0x80, CHR 0x88], [CHR 0xE2, CHR 0x80, CHR 0x89],
      [CHR 0xE2, CHR 0x80, CHR 0x8A], [CHR 0xE2, CHR 0x80, CHR 0xA8],
      [CHR 0xE2, CHR 0x80, CHR 0xA9], [CHR 0xE2, CHR 0x80, CHR 0xAF],
      [CHR 0xE2, CHR 0x81, CHR 0x9F], [CHR 0xE3, CHR 0x80, CHR 0x80]]"

fun strip_fuel :: "nat \<Rightarrow> string list \<Rightarrow> string \<Rightarrow> string" where
  "strip_fuel 0 es s = s"
| "strip_fuel (Suc n) es s =
     (case find (has_prefix s) es of
        None \<Rightarrow> s
      | Some e \<Rightarrow> strip_fuel n es (drop (length e) s))"

text \<open>Every round drops at least one byte, so one round per byte is enough.\<close>

definition strip :: "string list \<Rightarrow> string \<Rightarrow> string" where
  "strip es s = strip_fuel (length s) es s"

definition trim_left :: "string \<Rightarrow> string" where
  "trim_left s = strip space_encodings s"

definition trim_right :: "string \<Rightarrow> string" where
  "trim_right s = rev (strip (map rev space_encodings) (rev s))"

definition trim_space :: "string \<Rightarrow> string" where
  "trim_space s = trim_right (trim_left s)"

lemma strip_fuel_suffix: "\<exists>p. s = p @ strip_fuel n es s"
proof (induction n arbitrary: s)
  case (Suc n)
  show ?case
  proof (cases "find (has_prefix s) es")
    case (Some e)
    obtain p where "drop (length e) s = p @ strip_fuel n es (drop (length e) s)"
      using Suc.IH by blast
    then have "s = (take (length e) s @ p) @ strip_fuel n es (drop (length e) s)"
      by (metis append.assoc append_take_drop_id)
    with Some show ?thesis by (metis option.simps(5) strip_fuel.simps(2))
  qed auto
qed auto

lemma strip_fuel_done:
  assumes "\<forall>e \<in> set es. e \<noteq> []" and "length s \<le> n" and "e \<in> set es"
  shows "\<not> has_prefix (strip_fuel n es s) e"
  using assms(2)
proof (induction n arbitrary: s)
  case 0
  then show ?case using assms(1,3) by (auto simp: has_prefix_def)
next
  case (Suc n)
  show ?case
  proof (cases "find (has_prefix s) es")
    case None
    then have "\<not> has_prefix s e" using assms(3) by (simp add: find_None_iff)
    with None show ?thesis by simp
  next
    case (Some d)
    then have "d \<in> set es" by (auto simp: find_Some_iff)
    then have "0 < length d" using assms(1) by auto
    then have "length (drop (length d) s) \<le> n"
      unfolding length_drop using Suc.prems by linarith
    with Suc.IH Some show ?thesis by simp
  qed
qed

lemma strip_done:
  "\<forall>e \<in> set es. e \<noteq> [] \<Longrightarrow> e \<in> set es \<Longrightarrow> \<not> has_prefix (strip es s) e"
  by (simp add: strip_def strip_fuel_done)

lemma strip_fuel_noop:
  "\<forall>e \<in> set es. \<not> has_prefix s e \<Longrightarrow> strip_fuel n es s = s"
  by (cases n) (auto simp: find_Some_iff split: option.splits)

lemma strip_noop: "\<forall>e \<in> set es. \<not> has_prefix s e \<Longrightarrow> strip es s = s"
  by (simp add: strip_def strip_fuel_noop)

lemma strip_Nil [simp]: "strip es [] = []"
  by (simp add: strip_def)

lemma space_encodings_nonempty: "\<forall>e \<in> set space_encodings. e \<noteq> []"
  by (simp add: space_encodings_def)

lemma trim_right_prefix: "\<exists>q. s = trim_right s @ q"
proof -
  obtain p where "rev s = p @ strip (map rev space_encodings) (rev s)"
    using strip_fuel_suffix unfolding strip_def by blast
  then have "rev (rev s) = rev (p @ strip (map rev space_encodings) (rev s))" by metis
  then show ?thesis by (auto simp: trim_right_def)
qed

lemma trim_left_no_space: "e \<in> set space_encodings \<Longrightarrow> \<not> has_prefix (trim_left s) e"
  by (simp add: trim_left_def strip_done space_encodings_nonempty)

lemma trim_left_trim_space: "trim_left (trim_space s) = trim_space s"
proof -
  obtain q where q: "trim_left s = trim_space s @ q"
    using trim_right_prefix [of "trim_left s"] by (auto simp: trim_space_def)
  have "\<not> has_prefix (trim_space s) e" if "e \<in> set space_encodings" for e
    using trim_left_no_space [OF that, of s] q by (auto simp: has_prefix_iff)
  then show ?thesis by (simp add: trim_left_def strip_noop)
qed

lemma trim_right_idem: "trim_right (trim_right s) = trim_right s"
proof -
  have "\<not> has_prefix (strip (map rev space_encodings) (rev s)) e"
    if "e \<in> set (map rev space_encodings)" for e
    by (rule strip_done [OF _ that]) (use space_encodings_nonempty in auto)
  then show ?thesis by (simp add: trim_right_def strip_noop)
qed

lemma trim_space_idem [simp]: "trim_space (trim_space s) = trim_space s"
  by (simp add: trim_space_def [of "trim_space s"] trim_left_trim_space)
     (simp add: trim_space_def trim_right_idem)

text \<open>
  strings.ToLower and strings.ToUpper on the letters that can end up in an ASCII word: besides
  the ASCII letters these are the Kelvin sign and the dotted capital I (lower case k, i), and the
  long s and the dotless i (upper case S, I).  Other letters keep a byte above 127, so that the
  result is not among the accepted words, whatever they are.
\<close>

definition lower_char :: "char \<Rightarrow> char" where
  "lower_char c = (if CHR ''A'' \<le> c \<and> c \<le> CHR ''Z'' then char_of (of_char c + 32 :: nat) else c)"
definition upper_char :: "char \<Rightarrow> char" where
  "upper_char c = (if CHR ''a'' \<le> c \<and> c \<le> CHR ''z'' then char_of (of_char c - 32 :: nat) else c)"

fun to_lower :: "string \<Rightarrow> string" where
  "to_lower (a # b # c # s) =
     (if [a, b] = [CHR 0xC4, CHR 0xB0] then CHR ''i'' # to_lower (c # s)
      else if [a, b, c] = [CHR 0xE2, CHR 0x84, CHR 0xAA] then CHR ''k'' # to_lower s
      else lower_char a # to_lower (b # c # s))"
| "to_lower [a, b] = (if [a, b] = [CHR 0xC4, CHR 0xB0] then ''i'' else [lower_char a, lower_char b])"
| "to_lower [a] = [lower_char a]"
| "to_lower [] = []"

fun to_upper :: "string \<Rightarrow> string" where
  "to_upper (a # b # s) =
     (if [a, b] = [CHR 0xC5, CHR 0xBF] then CHR ''S'' # to_upper s
      else if [a, b] = [CHR 0xC4, CHR 0xB1] then CHR ''I'' # to_upper s
      else upper_char a # to_upper (b # s))"
| "to_upper [a] = [upper_char a]"
| "to_upper [] = []"

section \<open>Decimal rendering\<close>

definition digit_char :: "nat \<Rightarrow> char" where
  "digit_char n = ''0123456789'' ! n"

fun nat_str :: "nat \<Rightarrow> string" where
  "nat_str n = (if n < 10 then [digit_char n] else nat_str (n div 10) @ [digit_char (n mod 10)])"

declare nat_str.simps [simp del]

text \<open>The \<open>%d\<close> verb and strconv.Itoa.\<close>

definition itoa :: "int \<Rightarrow> string" where
  "itoa i = (if i < 0 then CHR ''-'' # nat_str (nat (- i)) else nat_str (nat i))"

definition char_digit :: "char \<Rightarrow> nat option" where
  "char_digit c = (if CHR ''0'' \<le> c \<and> c \<le> CHR ''9'' then Some (of_char c - 48) else None)"

fun parse_digits :: "nat \<Rightarrow> string \<Rightarrow> nat option" where
  "parse_digits acc [] = Some acc"
| "parse_digits acc (c # cs) =
     (case char_digit c of None \<Rightarrow> None | Some d \<Rightarrow> parse_digits (acc * 10 + d) cs)"

definition parse_nat :: "string \<Rightarrow> nat option" where
  "parse_nat s = (if s = [] then None else parse_digits 0 s)"

definition parse_int :: "string \<Rightarrow> int option" where
  "parse_int s = (case s of
     c # cs \<Rightarrow> if c = CHR ''-'' then map_option (\<lambda>n. - int n) (parse_nat cs)
               else map_option int (parse_nat s)
   | [] \<Rightarrow> None)"

lemma less_10_list: "(n::nat) < 10 \<Longrightarrow> n \<in> set [0, 1, 2, 3, 4, 5, 6, 7, 8, 9]"
  by (simp; arith)

lemma char_digit_digit_char: "n < 10 \<Longrightarrow> char_digit (digit_char n) = Some n"
  by (drule less_10_list) (auto simp: digit_char_def char_digit_def less_eq_char_def)

lemma digit_char_not_minus: "n < 10 \<Longrightarrow> digit_char n \<noteq> CHR ''-''"
  by (drule less_10_list) (auto simp: digit_char_def)

lemma parse_digits_append:
  "parse_digits acc (xs @ ys) =
     (case parse_digits acc xs of None \<Rightarrow> None | Some n \<Rightarrow> parse_digits n ys)"
  by (induction xs arbitrary: acc) (auto split: option.splits)

lemma parse_digits_nat_str: "parse_digits 0 (nat_str n) = Some n"
proof (induction n rule: nat_str.induct)
  case (1 n)
  then show ?case
    by (subst nat_str.simps) (auto simp: parse_digits_append char_digit_digit_char)
qed

lemma nat_str_nonempty [simp]: "nat_str n \<noteq> []"
  by (subst nat_str.simps) simp

lemma parse_nat_nat_str [simp]: "parse_nat (nat_str n) = Some n"
  by (simp add: parse_nat_def parse_digits_nat_str)

lemma nat_str_hd: "hd (nat_str n) \<noteq> CHR ''-''"
proof (induction n rule: nat_str.induct)
  case (1 n)
  then show ?case by (subst nat_str.simps) (simp add: digit_char_not_minus)
qed

lemma parse_int_itoa [simp]: "parse_int (itoa i) = Some i"
proof -
  have "parse_int (nat_str n) = Some (int n)" for n
    using nat_str_hd [of n] by (cases "nat_str n") (auto simp: parse_int_def simp flip: parse_nat_nat_str)
  then show ?thesis by (auto simp: itoa_def parse_int_def)
qed

lemma itoa_inject [simp]: "itoa i = itoa j \<longleftrightarrow> i = j"
  by (metis option.inject parse_int_itoa)

section \<open>Quoting\<close>

text \<open>
  The \<open>%q\<close> verb (strconv.Quote).  Bytes of printable non-ASCII characters are copied.
\<close>

definition hex_char :: "nat \<Rightarrow> char" where
  "hex_char n = ''0123456789abcdef'' ! n"

definition quote_char :: "char \<Rightarrow> string" where
  "quote_char c =
    (if c = CHR 0x22 then [CHR 0x5C, CHR 0x22]
     else if c = CHR 0x5C then [CHR 0x5C, CHR 0x5C]
     else if c = CHR 0x07 then [CHR 0x5C, CHR ''a'']
     else if c = CHR 0x08 then [CHR 0x5C, CHR ''b'']
     else if c = CHR 0x0C then [CHR 0x5C, CHR ''f'']
     else if c = CHR 0x0A then [CHR 0x5C, CHR ''n'']
     else if c = CHR 0x0D then [CHR 0x5C, CHR ''r'']
     else if c = CHR 0x09 then [CHR 0x5C, CHR ''t'']
     else if c = CHR 0x0B then [CHR 0x5C, CHR ''v'']
     else if c < CHR 0x20 \<or> c = CHR 0x7F
       then [CHR 0x5C, CHR ''x'', hex_char (of_char c div 16), hex_char (of_char c mod 16)]
     else [c])"

definition quote :: "string \<Rightarrow> string" where
  "quote s = [CHR 0x22] @ concat (map quote_char s) @ [CHR 0x22]"

section \<open>Lists as Go sets and slices\<close>

text \<open>sort.Strings and slices.Sort on strings.\<close>

definition sort_strings :: "string list \<Rightarrow> string list" where
  "sort_strings xs = sort xs"

lemma sort_strings_set [simp]: "set (sort_strings xs) = set xs"
  by (simp add: sort_strings_def)

lemma sort_strings_mset [simp]: "mset (sort_strings xs) = mset xs"
  by (simp add: sort_strings_def)

lemma sort_strings_sorted [simp]: "sorted (sort_strings xs)"
  by (simp add: sort_strings_def)

lemma sort_strings_perm: "mset xs = mset ys \<Longrightarrow> sort_strings xs = sort_strings ys"
  by (simp add: sort_strings_def properties_for_sort)

lemma count_filter_perm: "mset xs = mset ys \<Longrightarrow> length (filter P xs) = length (filter P ys)"
  by (metis mset_filter size_mset)

end
