(* ===== verification/Graph.thy ===== *)
theory Graph
  imports Prelude
begin

text \<open>
  Reachability over a table of edges.  The SQL of the repository walks the work_item_relations
  table with recursive CTEs; a CTE with UNION computes the least set that holds the seed rows and
  is closed under the recursive join.  \<open>reach\<close> computes that set, round by round, and
  \<open>set_reach\<close> says that it is the image of the seeds under the reflexive transitive closure.
\<close>

definition targets :: "('a \<times> 'a) list \<Rightarrow> 'a list \<Rightarrow> 'a list" where
  "targets es S = remdups (filter (\<lambda>v. v \<notin> set S) (map snd (filter (\<lambda>e. fst e \<in> set S) es)))"

lemma set_targets: "set (targets es S) = {v. v \<notin> set S \<and> (\<exists>u \<in> set S. (u, v) \<in> set es)}"
  by (force simp: targets_def)

fun reach_fuel :: "nat \<Rightarrow> ('a \<times> 'a) list \<Rightarrow> 'a list \<Rightarrow> 'a list" where
  "reach_fuel 0 es S = S"
| "reach_fuel (Suc n) es S = (let T = targets es S in if T = [] then S else reach_fuel n es (S @ T))"

text \<open>Every round adds the target of an edge, so one round per edge is enough.\<close>

definition reach :: "('a \<times> 'a) list \<Rightarrow> 'a list \<Rightarrow> 'a list" where
  "reach es S = reach_fuel (length es) es S"

lemma reach_fuel_sound:
  "v \<in> set (reach_fuel n es S) \<Longrightarrow> \<exists>u \<in> set S. (u, v) \<in> (set es)\<^sup>*"
proof (induction n arbitrary: S)
  case (Suc n)
  show ?case
  proof (cases "targets es S = []")
    case False
    with Suc.prems have "v \<in> set (reach_fuel n es (S @ targets es S))" by simp
    then obtain u where u: "u \<in> set (S @ targets es S)" "(u, v) \<in> (set es)\<^sup>*"
      using Suc.IH by blast
    show ?thesis
    proof (cases "u \<in> set S")
      case False
      then obtain w where "w \<in> set S" "(w, u) \<in> set es"
        using u(1) by (auto simp: set_targets)
      with u(2) show ?thesis by (meson converse_rtrancl_into_rtrancl)
    qed (use u in blast)
  qed (use Suc in auto)
qed auto

lemma reach_fuel_mono: "set S \<subseteq> set (reach_fuel n es S)"
proof (induction n arbitrary: S)
  case (Suc n)
  then show ?case using Suc [of "S @ targets es S"] by (auto simp: Let_def)
qed simp

definition unseen :: "('a \<times> 'a) list \<Rightarrow> 'a list \<Rightarrow> nat" where
  "unseen es S = length (filter (\<lambda>e. snd e \<notin> set S) es)"

lemma filter_length_less:
  assumes "\<And>x. P x \<Longrightarrow> Q x" and "x \<in> set xs" and "Q x" and "\<not> P x"
  shows "length (filter P xs) < length (filter Q xs)"
  using assms(2)
proof (induction xs)
  case (Cons y ys)
  have le: "length (filter P zs) \<le> length (filter Q zs)" for zs
    using assms(1) by (induction zs) (auto simp: le_Suc_eq)
  show ?case
  proof (cases "y = x")
    case True
    then show ?thesis using assms(3,4) le [of ys] by simp
  next
    case False
    then show ?thesis using Cons assms(1) by (auto simp: less_SucI)
  qed
qed simp

lemma unseen_decreases:
  assumes "targets es S \<noteq> []"
  shows "unseen es (S @ targets es S) < unseen es S"
proof -
  obtain v where v: "v \<in> set (targets es S)" using assms by (meson list.set_sel(1))
  then obtain u where "(u, v) \<in> set es" "v \<notin> set S" by (auto simp: set_targets)
  with v show ?thesis
    unfolding unseen_def by (intro filter_length_less [where x = "(u, v)"]) auto
qed

lemma reach_fuel_closed:
  "unseen es S \<le> n \<Longrightarrow> targets es (reach_fuel n es S) = []"
proof (induction n arbitrary: S)
  case 0
  then have "unseen es S = 0" by simp
  then have "targets es S = []" using unseen_decreases [of es S] by fastforce
  then show ?case by simp
next
  case (Suc n)
  show ?case
  proof (cases "targets es S = []")
    case False
    with Suc.prems unseen_decreases [OF False] have "unseen es (S @ targets es S) \<le> n" by simp
    with Suc.IH False show ?thesis by (simp add: Let_def)
  qed simp
qed

lemma reach_closed:
  assumes "(u, v) \<in> set es" and "u \<in> set (reach es S)"
  shows "v \<in> set (reach es S)"
proof -
  have "targets es (reach es S) = []"
    by (simp add: reach_def reach_fuel_closed unseen_def)
  then have "set (targets es (reach es S)) = {}" by simp
  with assms show ?thesis by (auto simp: set_targets)
qed

theorem set_reach: "set (reach es S) = (set es)\<^sup>* `` set S"
proof
  show "set (reach es S) \<subseteq> (set es)\<^sup>* `` set S"
    using reach_fuel_sound unfolding reach_def by fastforce
  show "(set es)\<^sup>* `` set S \<subseteq> set (reach es S)"
  proof
    fix v assume "v \<in> (set es)\<^sup>* `` set S"
    then obtain u where u: "u \<in> set S" "(u, v) \<in> (set es)\<^sup>*" by blast
    from u(2) show "v \<in> set (reach es S)"
    proof (induction rule: rtrancl_induct)
      case base
      show ?case using u(1) reach_fuel_mono [of S "length es" es] by (auto simp: reach_def)
    next
      case (step y z)
      show ?case by (rule reach_closed [OF step.hyps(2) step.IH])
    qed
  qed
qed

lemma rtrancl_Image_Image: "R\<^sup>* `` (R `` S) = R\<^sup>+ `` S"
  by (auto simp: trancl_unfold_left intro: rtrancl_into_trancl2 dest: tranclD)

end
