(* ===== verification/Json.thy ===== *)
theory Json
  imports Prelude
begin

text \<open>
  JSON values as encoding/json decodes them with UseNumber, and the canonical encoding of
  internal/events/canonical.go.  A Go map is an association list without a duplicate key; the
  order of the list stands for the unspecified iteration order of the map.  The lemmas show that
  the encoding does not depend on that order and that two values with the same encoding are equal
  up to it, so that the encoding identifies a payload.
\<close>

datatype json =
    JNull
  | JBool bool
  | JNum string
  | JStr string
  | JArr "json list"
  | JObj "(string \<times> json) list"

definition jint :: "int \<Rightarrow> json" where
  "jint i = JNum (itoa i)"

section \<open>Reading payload fields\<close>

text \<open>
  json.Unmarshal into a struct: a missing key and a null leave the zero value, any other type
  mismatch is an error.
\<close>

definition jget :: "json \<Rightarrow> string \<Rightarrow> json" where
  "jget j k = (case j of
     JObj kvs \<Rightarrow> (case map_of kvs k of Some v \<Rightarrow> v | None \<Rightarrow> JNull)
   | _ \<Rightarrow> JNull)"

definition jobject :: "json \<Rightarrow> bool" where
  "jobject j \<longleftrightarrow> (case j of JObj _ \<Rightarrow> True | JNull \<Rightarrow> True | _ \<Rightarrow> False)"

definition ErrDecode :: err where
  "ErrDecode = Err '''' ''json: cannot unmarshal''"

definition jstring :: "json \<Rightarrow> err + string" where
  "jstring j = (case j of JStr s \<Rightarrow> Inr s | JNull \<Rightarrow> Inr [] | _ \<Rightarrow> Inl ErrDecode)"

definition jinteger :: "json \<Rightarrow> err + int" where
  "jinteger j = (case j of
     JNum t \<Rightarrow> (case parse_int t of Some i \<Rightarrow> Inr i | None \<Rightarrow> Inl ErrDecode)
   | JNull \<Rightarrow> Inr 0
   | _ \<Rightarrow> Inl ErrDecode)"

definition jboolean :: "json \<Rightarrow> err + bool" where
  "jboolean j = (case j of JBool b \<Rightarrow> Inr b | JNull \<Rightarrow> Inr False | _ \<Rightarrow> Inl ErrDecode)"

fun jstrings_of :: "json list \<Rightarrow> err + string list" where
  "jstrings_of [] = Inr []"
| "jstrings_of (j # js) =
     (case jstring j of Inl e \<Rightarrow> Inl e
      | Inr s \<Rightarrow> (case jstrings_of js of Inl e \<Rightarrow> Inl e | Inr ss \<Rightarrow> Inr (s # ss)))"

definition jstrings :: "json \<Rightarrow> err + string list" where
  "jstrings j = (case j of JArr js \<Rightarrow> jstrings_of js | JNull \<Rightarrow> Inr [] | _ \<Rightarrow> Inl ErrDecode)"

lemma jstrings_of_map [simp]: "jstrings_of (map JStr ss) = Inr ss"
  by (induction ss) (auto simp: jstring_def)

lemma jinteger_jint [simp]: "jinteger (jint i) = Inr i"
  by (simp add: jinteger_def jint_def)

lemma jstring_simps [simp]: "jstring (JStr s) = Inr s" "jstring JNull = Inr []"
  by (simp_all add: jstring_def)

lemma jboolean_simps [simp]: "jboolean (JBool b) = Inr b" "jboolean JNull = Inr False"
  by (simp_all add: jboolean_def)

lemma jstrings_simps [simp]: "jstrings (JArr (map JStr ss)) = Inr ss" "jstrings JNull = Inr []"
  by (simp_all add: jstrings_def)

lemma jget_simps [simp]:
  "jget (JObj []) k = JNull"
  "jget (JObj ((k', v) # kvs)) k = (if k = k' then v else jget (JObj kvs) k)"
  "jget JNull k = JNull"
  by (auto simp: jget_def)

lemma jobject_JObj [simp]: "jobject (JObj kvs)" "jobject JNull"
  by (simp_all add: jobject_def)

section \<open>String literals\<close>

text \<open>
  json.Marshal of a string, HTML escaping included.  Decoded strings are valid UTF-8, so a byte
  above 127 is copied, except the encodings of U+2028 and U+2029.
\<close>

abbreviation QUOTE :: char where "QUOTE \<equiv> CHR 0x22"
abbreviation BSL :: char where "BSL \<equiv> CHR 0x5C"

definition esc_byte :: "char \<Rightarrow> string" where
  "esc_byte c =
    (if c = QUOTE \<or> c = BSL then [BSL, c]
     else if c = CHR 0x08 then [BSL, CHR ''b'']
     else if c = CHR 0x0C then [BSL, CHR ''f'']
     else if c = CHR 0x0A then [BSL, CHR ''n'']
     else if c = CHR 0x0D then [BSL, CHR ''r'']
     else if c = CHR 0x09 then [BSL, CHR ''t'']
     else if c < CHR 0x20 \<or> c = CHR ''<'' \<or> c = CHR ''>'' \<or> c = CHR ''&''
       then [BSL, CHR ''u'', CHR ''0'', CHR ''0'',
             hex_char (of_char c div 16), hex_char (of_char c mod 16)]
     else [c])"

definition line_sep :: "string \<Rightarrow> bool" where
  "line_sep s \<longleftrightarrow> take 3 s = [CHR 0xE2, CHR 0x80, CHR 0xA8] \<or> take 3 s = [CHR 0xE2, CHR 0x80, CHR 0xA9]"

fun esc :: "string \<Rightarrow> string" where
  "esc [] = []"
| "esc (c # cs) =
     (if line_sep (c # cs)
      then [BSL, CHR ''u'', CHR ''2'', CHR ''0'', CHR ''2'',
            (if cs ! 1 = CHR 0xA8 then CHR ''8'' else CHR ''9'')] @ esc (drop 2 cs)
      else esc_byte c @ esc cs)"

definition json_string :: "string \<Rightarrow> string" where
  "json_string s = QUOTE # esc s @ [QUOTE]"

section \<open>The canonical encoding\<close>

fun write_canonical :: "json \<Rightarrow> string" where
  "write_canonical JNull = ''null''"
| "write_canonical (JBool b) = (if b then ''true'' else ''false'')"
| "write_canonical (JNum t) = t"
| "write_canonical (JStr s) = json_string s"
| "write_canonical (JArr js) = ''['' @ join '','' (map write_canonical js) @ '']''"
| "write_canonical (JObj kvs) =
     ''{'' @ join '',''
       (map (\<lambda>(k, t). json_string k @ '':'' @ t)
          (sort_key fst (map (\<lambda>kv. (fst kv, write_canonical (snd kv))) kvs))) @ ''}''"

definition CanonicalJSON :: "json \<Rightarrow> string" where
  "CanonicalJSON v = (if v = JNull then ''{}'' else write_canonical v)"

text \<open>The same printer without the sort, and the sort as a normal form of the value.\<close>

fun print_json :: "json \<Rightarrow> string" where
  "print_json JNull = ''null''"
| "print_json (JBool b) = (if b then ''true'' else ''false'')"
| "print_json (JNum t) = t"
| "print_json (JStr s) = json_string s"
| "print_json (JArr js) = ''['' @ join '','' (map print_json js) @ '']''"
| "print_json (JObj kvs) =
     ''{'' @ join '','' (map (\<lambda>kv. json_string (fst kv) @ '':'' @ print_json (snd kv)) kvs) @ ''}''"

fun jnorm :: "json \<Rightarrow> json" where
  "jnorm (JArr js) = JArr (map jnorm js)"
| "jnorm (JObj kvs) = JObj (sort_key fst (map (\<lambda>kv. (fst kv, jnorm (snd kv))) kvs))"
| "jnorm j = j"

fun jwf :: "json \<Rightarrow> bool" where
  "jwf (JNum t) \<longleftrightarrow> t \<noteq> [] \<and> set t \<subseteq> set ''0123456789+-.eE''"
| "jwf (JArr js) \<longleftrightarrow> (\<forall>j \<in> set js. jwf j)"
| "jwf (JObj kvs) \<longleftrightarrow> distinct (map fst kvs) \<and> (\<forall>kv \<in> set kvs. jwf (snd kv))"
| "jwf j \<longleftrightarrow> True"

lemma sort_key_map_snd:
  "sort_key fst (map (\<lambda>kv. (fst kv, f (snd kv))) kvs) =
     map (\<lambda>kv. (fst kv, f (snd kv))) (sort_key fst kvs)"
proof -
  have ins: "insort_key fst (fst kv, f (snd kv)) (map (\<lambda>kv. (fst kv, f (snd kv))) xs) =
      map (\<lambda>kv. (fst kv, f (snd kv))) (insort_key fst kv xs)" for kv xs
    by (induction xs) auto
  show ?thesis by (induction kvs) (auto simp: sort_key_def ins)
qed

lemma write_canonical_eq: "write_canonical j = print_json (jnorm j)"
proof (induction j rule: write_canonical.induct)
  case (5 js)
  then show ?case by (simp cong: map_cong)
next
  case (6 kvs)
  then have "map (\<lambda>kv. (fst kv, write_canonical (snd kv))) kvs =
      map (\<lambda>kv. (fst kv, print_json (snd kv))) (map (\<lambda>kv. (fst kv, jnorm (snd kv))) kvs)"
    by simp
  then show ?case
    by (simp only: write_canonical.simps jnorm.simps print_json.simps
          sort_key_map_snd [where f = print_json])
       (simp add: comp_def)
qed auto

section \<open>Injectivity\<close>

text \<open>A decoder for string literals: the left inverse of the encoder.\<close>

definition hex_val :: "char \<Rightarrow> nat" where
  "hex_val c = (if c \<le> CHR ''9'' then of_char c - 48 else of_char c - 87)"

definition unescape4 :: "char \<Rightarrow> char \<Rightarrow> char \<Rightarrow> string" where
  "unescape4 a c d =
     (if a = CHR ''2'' then [CHR 0xE2, CHR 0x80, (if d = CHR ''8'' then CHR 0xA8 else CHR 0xA9)]
      else [char_of (16 * hex_val c + hex_val d)])"

definition unescape1 :: "char \<Rightarrow> char" where
  "unescape1 e =
     (if e = CHR ''b'' then CHR 0x08 else if e = CHR ''f'' then CHR 0x0C
      else if e = CHR ''n'' then CHR 0x0A else if e = CHR ''r'' then CHR 0x0D
      else if e = CHR ''t'' then CHR 0x09 else e)"

fun scan :: "string \<Rightarrow> (string \<times> string) option" where
  "scan [] = None"
| "scan (x # xs) =
     (if x = QUOTE then Some ([], xs)
      else if x = BSL then
        (case xs of
           [] \<Rightarrow> None
         | e # ys \<Rightarrow>
             if e = CHR ''u'' then
               (case ys of
                  a # b # c # d # zs \<Rightarrow> map_option (\<lambda>(s, r). (unescape4 a c d @ s, r)) (scan zs)
                | _ \<Rightarrow> None)
             else map_option (\<lambda>(s, r). (unescape1 e # s, r)) (scan ys))
      else map_option (\<lambda>(s, r). (x # s, r)) (scan xs))"

lemma less_16_list: "(n::nat) < 16 \<Longrightarrow> n \<in> set [0, 1, 2, 3, 4, 5, 6, 7, 8, 9, 10, 11, 12, 13, 14, 15]"
  by (simp; arith)

lemma hex_val_hex_char: "n < 16 \<Longrightarrow> hex_val (hex_char n) = n"
  by (drule less_16_list) (auto simp: hex_val_def hex_char_def less_eq_char_def)

lemma hex_pair: "char_of (16 * hex_val (hex_char (of_char c div 16)) +
    hex_val (hex_char (of_char c mod 16))) = c"
proof -
  have "n div 16 < 16" if "n < 256" for n :: nat using that by arith
  from this [OF nat_of_char_less_256] have "of_char c div 16 < (16::nat)" .
  then show ?thesis by (simp add: hex_val_hex_char)
qed

lemma scan_esc_byte:
  assumes "\<not> line_sep (c # cs)"
  shows "scan (esc_byte c @ r) = map_option (\<lambda>(s, r). (c # s, r)) (scan r)"
  by (auto simp: esc_byte_def unescape1_def unescape4_def hex_pair)

lemma scan_esc: "scan (esc s @ QUOTE # r) = Some (s, r)"
proof (induction s rule: esc.induct)
  case (2 c cs)
  show ?case
  proof (cases "line_sep (c # cs)")
    case True
    then obtain d where d: "c = CHR 0xE2" "take 2 cs = [CHR 0x80, d]" "d = CHR 0xA8 \<or> d = CHR 0xA9"
      by (auto simp: line_sep_def numeral_eq_Suc)
    then have cs: "cs = CHR 0x80 # d # drop 2 cs"
      by (metis append_Cons append_Nil append_take_drop_id)
    then have nth: "cs ! 1 = d" by (metis One_nat_def nth_Cons_0 nth_Cons_Suc)
    have "scan (esc (drop 2 cs) @ QUOTE # r) = Some (drop 2 cs, r)" using 2 True by simp
    then show ?thesis
      using True d cs nth by (auto simp: unescape4_def)
  next
    case False
    then show ?thesis using 2 scan_esc_byte [OF False] by simp
  qed
qed simp

lemma json_string_split:
  assumes "json_string s @ r = json_string s' @ r'"
  shows "s = s' \<and> r = r'"
proof -
  have "scan (esc s @ QUOTE # r) = scan (esc s' @ QUOTE # r')"
    using assms by (simp add: json_string_def)
  then show ?thesis by (simp add: scan_esc)
qed


text \<open>
  What follows a number must not continue it.  The first character of a printed value tells its
  kind, so two printed values followed by delimiters agree only when the values do.
\<close>

abbreviation number_chars :: string where
  "number_chars \<equiv> ''0123456789+-.eE''"

definition delim :: "string \<Rightarrow> bool" where
  "delim r \<longleftrightarrow> r = [] \<or> hd r \<notin> set number_chars"

lemma delim_Cons [simp]: "delim (c # r) \<longleftrightarrow> c \<notin> set number_chars"
  by (simp add: delim_def)

lemma number_split:
  assumes "set t \<subseteq> set number_chars" "set t' \<subseteq> set number_chars"
    and "delim r" "delim r'" and "t @ r = t' @ r'"
  shows "t = t' \<and> r = r'"
  using assms
proof (induction t arbitrary: t')
  case Nil
  then show ?case by (cases t') (auto simp: delim_def)
next
  case (Cons c t)
  show ?case
  proof (cases t')
    case Nil
    with Cons.prems show ?thesis by (auto simp: delim_def)
  next
    case (Cons d u)
    with Cons.prems have "t @ r = u @ r'" by simp
    then have "t = u \<and> r = r'" using Cons.prems Cons by (intro Cons.IH) auto
    with Cons Cons.prems show ?thesis by simp
  qed
qed

definition head_class :: "json \<Rightarrow> char set" where
  "head_class j = (case j of
     JNull \<Rightarrow> {CHR ''n''} | JBool b \<Rightarrow> {if b then CHR ''t'' else CHR ''f''}
   | JNum _ \<Rightarrow> set number_chars | JStr _ \<Rightarrow> {QUOTE} | JArr _ \<Rightarrow> {CHR ''[''} | JObj _ \<Rightarrow> {CHR ''{''})"

lemma print_json_head: "jwf j \<Longrightarrow> \<exists>c u. print_json j = c # u \<and> c \<in> head_class j"
proof (cases j)
  case (JNum t)
  then show "jwf j \<Longrightarrow> ?thesis" by (cases t) (auto simp: head_class_def)
qed (simp_all add: head_class_def json_string_def)

lemma join_Cons: "join sep (x # xs) = (if xs = [] then x else x @ sep @ join sep xs)"
  by (cases xs) auto

text \<open>
  A separated list of printed items up to a closing character \<open>z\<close>, for items that satisfy the
  splitting property and never start with \<open>z\<close> or the separator.
\<close>

lemma join_split:
  assumes item: "\<And>x x' r r'. x \<in> set xs \<Longrightarrow> x' \<in> set xs' \<Longrightarrow> delim r \<Longrightarrow> delim r' \<Longrightarrow>
      f x @ r = f x' @ r' \<Longrightarrow> x = x' \<and> r = r'"
    and head: "\<And>x. x \<in> set xs \<union> set xs' \<Longrightarrow> f x \<noteq> [] \<and> hd (f x) \<noteq> z"
    and z: "z \<notin> set number_chars" "z \<noteq> CHR '',''"
    and eq: "join '','' (map f xs) @ z # r = join '','' (map f xs') @ z # r'"
  shows "xs = xs' \<and> r = r'"
  using item head eq
proof (induction xs arbitrary: xs')
  case Nil
  show ?case
  proof (cases xs')
    case (Cons y ys)
    then have "f y \<noteq> []" "hd (f y) \<noteq> z" using Nil.prems(2) [of y] by auto
    moreover have "z # r = f y @ (if ys = [] then z # r' else '','' @ join '','' (map f ys) @ z # r')"
      using Nil.prems(3) Cons by (simp add: join_Cons)
    ultimately show ?thesis by (metis hd_append2 list.sel(1))
  qed (use Nil.prems in simp)
next
  case (Cons x xs)
  show ?case
  proof (cases xs')
    case Nil
    then have "f x \<noteq> []" "hd (f x) \<noteq> z" using Cons.prems(2) [of x] by auto
    moreover have "z # r' = f x @ (if xs = [] then z # r else '','' @ join '','' (map f xs) @ z # r)"
      using Cons.prems(3) Nil by (cases "xs = []") (simp_all add: join_Cons)
    ultimately show ?thesis by (metis hd_append2 list.sel(1))
  next
    case (Cons y ys)
    let ?t = "if xs = [] then z # r else '','' @ join '','' (map f xs) @ z # r"
    let ?u = "if ys = [] then z # r' else '','' @ join '','' (map f ys) @ z # r'"
    have eq: "f x @ ?t = f y @ ?u"
      using Cons.prems(3) Cons by (cases "xs = []"; cases "ys = []") (simp_all add: join_Cons)
    have "delim ?t" "delim ?u" using z(1) by simp_all
    then have xy: "x = y" "?t = ?u" using Cons.prems(1) [of x y ?t ?u] Cons eq by auto
    show ?thesis
    proof (cases "xs = []")
      case True
      then have "ys = []" using xy(2) z(2) by (auto split: if_splits)
      with True xy Cons show ?thesis by simp
    next
      case False
      then have "ys \<noteq> []" using xy(2) z(2) by (auto split: if_splits)
      with False xy(2) have "join '','' (map f xs) @ z # r = join '','' (map f ys) @ z # r'" by simp
      have "xs = ys \<and> r = r'"
      proof (rule Cons.IH)
        fix a b s s'
        assume "a \<in> set xs" "b \<in> set ys" "delim s" "delim s'" "f a @ s = f b @ s'"
        then show "a = b \<and> s = s'" using Cons.prems(1) [of a b s s'] Cons by simp
      next
        fix a assume "a \<in> set xs \<union> set ys"
        then show "f a \<noteq> [] \<and> hd (f a) \<noteq> z" using Cons.prems(2) [of a] Cons by auto
      qed fact
      with xy(1) Cons show ?thesis by simp
    qed
  qed
qed


lemma head_class_disjoint:
  "c \<in> head_class j \<Longrightarrow> c \<in> head_class j' \<Longrightarrow>
   (case (j, j') of (JNull, JNull) \<Rightarrow> True | (JBool b, JBool b') \<Rightarrow> b = b'
      | (JNum _, JNum _) \<Rightarrow> True | (JStr _, JStr _) \<Rightarrow> True
      | (JArr _, JArr _) \<Rightarrow> True | (JObj _, JObj _) \<Rightarrow> True | _ \<Rightarrow> False)"
  by (cases j; cases j') (auto simp: head_class_def split: if_splits)

lemma print_json_same_class:
  assumes "jwf j" "jwf j'" "print_json j @ r = print_json j' @ r'"
  obtains c where "c \<in> head_class j" "c \<in> head_class j'"
proof -
  obtain c u where "print_json j = c # u" "c \<in> head_class j"
    using print_json_head [OF assms(1)] by blast
  moreover obtain d v where "print_json j' = d # v" "d \<in> head_class j'"
    using print_json_head [OF assms(2)] by blast
  ultimately show ?thesis using assms(3) that by auto
qed

lemma print_json_not_close:
  assumes "jwf j" "z \<in> {CHR '']'', CHR ''}'', CHR '',''}"
  shows "print_json j \<noteq> [] \<and> hd (print_json j) \<noteq> z"
proof -
  obtain c u where cu: "print_json j = c # u" "c \<in> head_class j"
    using print_json_head [OF assms(1)] by blast
  have "z \<notin> head_class j" using assms(2) by (cases j) (auto simp: head_class_def)
  with cu show ?thesis by auto
qed

lemma print_json_split:
  "jwf j \<Longrightarrow> jwf j' \<Longrightarrow> delim r \<Longrightarrow> delim r' \<Longrightarrow>
   print_json j @ r = print_json j' @ r' \<Longrightarrow> j = j' \<and> r = r'"
proof (induction j arbitrary: j' r r')
  case JNull
  obtain c where "c \<in> head_class JNull" "c \<in> head_class j'"
    using print_json_same_class JNull.prems(1,2,5) .
  from head_class_disjoint [OF this] JNull.prems show ?case by (cases j') auto
next
  case (JBool b)
  obtain c where "c \<in> head_class (JBool b)" "c \<in> head_class j'"
    using print_json_same_class JBool.prems(1,2,5) .
  from head_class_disjoint [OF this] JBool.prems show ?case by (cases j') auto
next
  case (JNum t)
  obtain c where "c \<in> head_class (JNum t)" "c \<in> head_class j'"
    using print_json_same_class JNum.prems(1,2,5) .
  from head_class_disjoint [OF this] obtain t' where "j' = JNum t'" by (cases j') auto
  with JNum.prems show ?case using number_split [of t t' r r'] by simp
next
  case (JStr s)
  obtain c where "c \<in> head_class (JStr s)" "c \<in> head_class j'"
    using print_json_same_class JStr.prems(1,2,5) .
  from head_class_disjoint [OF this] obtain s' where "j' = JStr s'" by (cases j') auto
  with JStr.prems show ?case using json_string_split [of s r s' r'] by simp
next
  case (JArr js)
  obtain c where "c \<in> head_class (JArr js)" "c \<in> head_class j'"
    using print_json_same_class JArr.prems(1,2,5) .
  from head_class_disjoint [OF this] obtain js' where j': "j' = JArr js'" by (cases j') auto
  have "js = js' \<and> r = r'"
  proof (rule join_split [where f = print_json and z = "CHR '']''"])
    fix x x' r r'
    assume "x \<in> set js" "x' \<in> set js'" "delim r" "delim r'" "print_json x @ r = print_json x' @ r'"
    then show "x = x' \<and> r = r'" using JArr.IH [of x x' r r'] JArr.prems(1,2) j' by auto
  next
    fix x assume "x \<in> set js \<union> set js'"
    then have "jwf x" using JArr.prems(1,2) j' by auto
    then show "print_json x \<noteq> [] \<and> hd (print_json x) \<noteq> CHR '']''"
      by (rule print_json_not_close) simp
  qed (use JArr.prems(5) j' in simp_all)
  with j' show ?case by simp
next
  case (JObj kvs)
  obtain c where "c \<in> head_class (JObj kvs)" "c \<in> head_class j'"
    using print_json_same_class JObj.prems(1,2,5) .
  from head_class_disjoint [OF this] obtain kvs' where j': "j' = JObj kvs'" by (cases j') auto
  have "kvs = kvs' \<and> r = r'"
  proof (rule join_split [where z = "CHR ''}''"
        and f = "\<lambda>kv. json_string (fst kv) @ '':'' @ print_json (snd kv)"])
    fix x x' r r'
    assume x: "x \<in> set kvs" "x' \<in> set kvs'" "delim r" "delim r'"
      and "(json_string (fst x) @ '':'' @ print_json (snd x)) @ r =
        (json_string (fst x') @ '':'' @ print_json (snd x')) @ r'"
    then have "json_string (fst x) @ '':'' @ print_json (snd x) @ r =
        json_string (fst x') @ '':'' @ print_json (snd x') @ r'" by simp
    from json_string_split [OF this]
    have "fst x = fst x'" "print_json (snd x) @ r = print_json (snd x') @ r'" by simp_all
    moreover have "jwf (snd x)" "jwf (snd x')" using x JObj.prems(1,2) j' by auto
    moreover have "snd x \<in> Basic_BNFs.snds x" by (cases x) simp
    ultimately have "snd x = snd x' \<and> r = r'"
      using JObj.IH [of x "snd x" "snd x'" r r'] x by blast
    with \<open>fst x = fst x'\<close> show "x = x' \<and> r = r'" by (simp add: prod_eq_iff)
  qed (use JObj.prems(5) j' in \<open>simp_all add: json_string_def\<close>)
  with j' show ?case by simp
qed

lemma jwf_jnorm: "jwf j \<Longrightarrow> jwf (jnorm j)"
proof (induction j rule: jnorm.induct)
  case (2 kvs)
  have "distinct (map fst (sort_key fst kvs))" if "distinct (map fst kvs)" for kvs :: "(string \<times> json) list"
    using that by (metis mset_eq_imp_distinct_iff mset_map mset_sort)
  with 2 show ?case by (auto simp: sort_key_map_snd comp_def)
qed auto


section \<open>Order independence\<close>

text \<open>Equality up to the order of the keys of every object.\<close>

inductive same_value :: "json \<Rightarrow> json \<Rightarrow> bool" where
  leaf: "same_value j j"
| arr: "list_all2 same_value js js' \<Longrightarrow> same_value (JArr js) (JArr js')"
| obj: "list_all2 (\<lambda>a b. fst a = fst b \<and> same_value (snd a) (snd b)) kvs kvs'' \<Longrightarrow>
     mset kvs'' = mset kvs' \<Longrightarrow> same_value (JObj kvs) (JObj kvs')"

lemma sort_key_unique:
  assumes "mset xs = mset ys" and "distinct (map fst xs)"
  shows "sort_key fst xs = sort_key fst ys"
proof (rule map_sorted_distinct_set_unique [where f = fst])
  have set: "set xs = set ys" using assms(1) by (rule mset_eq_setD)
  have dist: "distinct (map fst (sort_key fst zs))" if "mset zs = mset xs" for zs
    using that assms(2) by (metis mset_eq_imp_distinct_iff mset_map mset_sort)
  show "inj_on fst (set (sort_key fst xs) \<union> set (sort_key fst ys))"
    using assms(2) set by (simp add: distinct_map)
  show "distinct (map fst (sort_key fst xs))" "distinct (map fst (sort_key fst ys))"
    using dist assms(1) by auto
  show "set (sort_key fst xs) = set (sort_key fst ys)" using set by simp
qed simp_all

lemma list_all2_map_eq: "list_all2 (\<lambda>a b. f a = f b) xs ys \<Longrightarrow> map f xs = map f ys"
  by (induction rule: list_all2_induct) auto

lemma jnorm_same_value: "same_value j j' \<Longrightarrow> jwf j \<Longrightarrow> jwf j' \<Longrightarrow> jnorm j = jnorm j'"
proof (induction rule: same_value.induct)
  case (arr js js')
  then have "list_all2 (\<lambda>a b. jnorm a = jnorm b) js js'"
    by (fastforce simp: list_all2_conv_all_nth)
  then show ?case by (auto dest: list_all2_map_eq)
next
  case (obj kvs kvs'' kvs')
  let ?f = "\<lambda>kv. (fst kv, jnorm (snd kv))"
  have dist: "distinct (map fst kvs')" using obj.prems(2) by simp
  have wf: "jwf (snd b)" if "b \<in> set kvs''" for b
    using that obj.hyps obj.prems(2) by (metis jwf.simps(3) mset_eq_setD)
  from obj.IH have "list_all2 (\<lambda>a b. ?f a = ?f b) kvs kvs''"
    by (rule list.rel_mono_strong) (use wf obj.prems(1) in auto)
  then have "map ?f kvs = map ?f kvs''" by (rule list_all2_map_eq)
  moreover have "sort_key fst (map ?f kvs'') = sort_key fst (map ?f kvs')"
  proof (rule sort_key_unique)
    show "mset (map ?f kvs'') = mset (map ?f kvs')" using obj.hyps by simp
    have "distinct (map fst kvs'')"
      using dist obj.hyps by (metis mset_eq_imp_distinct_iff mset_map [of fst])
    then show "distinct (map fst (map ?f kvs''))" by (simp add: comp_def)
  qed
  ultimately show ?case by (simp only: jnorm.simps)
qed simp

text \<open>The value that the encoding stands for: null is the empty object, keys are sorted.\<close>

definition canonical_value :: "json \<Rightarrow> json" where
  "canonical_value v = (if v = JNull then JObj [] else jnorm v)"

lemma CanonicalJSON_eq: "CanonicalJSON v = print_json (canonical_value v)"
  by (simp add: CanonicalJSON_def canonical_value_def write_canonical_eq)

lemma jwf_canonical_value: "jwf v \<Longrightarrow> jwf (canonical_value v)"
  by (simp add: canonical_value_def jwf_jnorm)

lemma CanonicalJSON_split:
  assumes "jwf v" "jwf v'" "delim r" "delim r'" "CanonicalJSON v @ r = CanonicalJSON v' @ r'"
  shows "canonical_value v = canonical_value v' \<and> r = r'"
  using assms print_json_split jwf_canonical_value unfolding CanonicalJSON_eq by blast

lemma same_value_JNull: "same_value j j' \<Longrightarrow> j = JNull \<longleftrightarrow> j' = JNull"
  by (auto elim: same_value.cases)

section \<open>The normal form decides equality of values\<close>

lemma mset_map_eq_permute:
  "mset (map f xs) = mset (map f ys) \<Longrightarrow> \<exists>zs. mset zs = mset ys \<and> map f zs = map f xs"
proof (induction xs arbitrary: ys)
  case (Cons x xs)
  then have "f x \<in> set (map f ys)" by (metis list.set_intros(1) list.simps(9) mset_eq_setD)
  then obtain y as bs where ys: "ys = as @ y # bs" "f x = f y" by (auto dest: split_list)
  with Cons.prems have "mset (map f xs) = mset (map f (as @ bs))" by simp
  then obtain zs where "mset zs = mset (as @ bs)" "map f zs = map f xs" using Cons.IH by blast
  with ys have "mset (y # zs) = mset ys" "map f (y # zs) = map f (x # xs)" by simp_all
  then show ?case by blast
qed simp

lemma jnorm_shape:
  "jnorm j = JNull \<longleftrightarrow> j = JNull" "jnorm j = JBool b \<longleftrightarrow> j = JBool b"
  "jnorm j = JNum t \<longleftrightarrow> j = JNum t" "jnorm j = JStr s \<longleftrightarrow> j = JStr s"
  by (cases j; auto)+

lemma map_eq_list_all2: "map f xs = map f ys \<Longrightarrow> list_all2 (\<lambda>a b. a \<in> set xs \<and> f a = f b) xs ys"
proof (induction xs arbitrary: ys)
  case (Cons x xs)
  then obtain y zs where "ys = y # zs" "f x = f y" "map f xs = map f zs" by (cases ys) auto
  have "list_all2 (\<lambda>a b. a \<in> set xs \<and> f a = f b) xs zs"
    by (rule Cons.IH) fact
  then have "list_all2 (\<lambda>a b. a \<in> set (x # xs) \<and> f a = f b) xs zs"
    by (rule list.rel_mono_strong) auto
  with \<open>ys = y # zs\<close> \<open>f x = f y\<close> show ?case by simp
qed simp

lemma jnorm_eq_same_value: "jnorm j = jnorm j' \<Longrightarrow> same_value j j'"
proof (induction j arbitrary: j')
  case (JArr js)
  from JArr.prems obtain js' where j': "j' = JArr js'" "map jnorm js = map jnorm js'"
    by (cases j') auto
  have "list_all2 same_value js js'"
    by (rule list.rel_mono_strong [OF map_eq_list_all2 [OF j'(2)]]) (use JArr.IH in auto)
  then show ?case by (simp add: j'(1) same_value.arr)
next
  case (JObj kvs)
  let ?f = "\<lambda>kv. (fst kv, jnorm (snd kv))"
  from JObj.prems obtain kvs' where j': "j' = JObj kvs'" by (cases j') auto
  have "sort_key fst (map ?f kvs) = sort_key fst (map ?f kvs')"
    using JObj.prems by (simp only: j' jnorm.simps json.inject)
  then have "mset (sort_key fst (map ?f kvs)) = mset (sort_key fst (map ?f kvs'))" by (rule arg_cong)
  then have "mset (map ?f kvs) = mset (map ?f kvs')" by (simp only: mset_sort)
  then obtain zs where zs: "mset zs = mset kvs'" "map ?f zs = map ?f kvs"
    by (blast dest: mset_map_eq_permute)
  have "list_all2 (\<lambda>a b. fst a = fst b \<and> same_value (snd a) (snd b)) kvs zs"
    by (rule list.rel_mono_strong [OF map_eq_list_all2 [OF zs(2) [symmetric]]])
       (use JObj.IH in \<open>fastforce simp: snds.simps\<close>)
  then show ?case using zs(1) by (auto simp: j' intro: same_value.obj)
qed (auto simp: jnorm_shape eq_commute [of _ "jnorm _"] intro: same_value.leaf)

end
