(* ===== verification/Decoder.thy ===== *)
theory Decoder
  imports Json "HOL-Library.AList"
begin

text \<open>
  encoding/json as the request paths use it: json.Decoder with UseNumber reading the first value
  of a byte string, and json.Unmarshal reading the whole of it.  String literals are unescaped and
  repaired as the standard library does (surrogate pairs are joined, lone surrogates and bytes that
  are not UTF-8 become U+FFFD), the last of several equal keys wins, and more than 10000 nested
  containers are refused.  The lemmas show that decoding undoes the canonical encoding of
  internal/events/canonical.go, and that every decoded value can be encoded and decoded again.
\<close>

section \<open>UTF-8\<close>

definition byte :: "char \<Rightarrow> int" where
  "byte c = of_char c"

definition continuation :: "char \<Rightarrow> bool" where
  "continuation c \<longleftrightarrow> 0x80 \<le> byte c \<and> byte c \<le> 0xBF"

text \<open>
  The bytes that may follow a first byte: how many, and the range of the second one (the table of
  utf8.DecodeRune).
\<close>

definition rune_shape :: "int \<Rightarrow> (nat \<times> int \<times> int) option" where
  "rune_shape b =
     (if 0xC2 \<le> b \<and> b \<le> 0xDF then Some (1, 0x80, 0xBF)
      else if b = 0xE0 then Some (2, 0xA0, 0xBF)
      else if b = 0xED then Some (2, 0x80, 0x9F)
      else if 0xE1 \<le> b \<and> b \<le> 0xEF then Some (2, 0x80, 0xBF)
      else if b = 0xF0 then Some (3, 0x90, 0xBF)
      else if 0xF1 \<le> b \<and> b \<le> 0xF3 then Some (3, 0x80, 0xBF)
      else if b = 0xF4 then Some (3, 0x80, 0x8F)
      else None)"

definition rune_tail :: "char \<Rightarrow> string \<Rightarrow> nat option" where
  "rune_tail c cs =
     (case rune_shape (byte c) of
        None \<Rightarrow> None
      | Some (n, lo, hi) \<Rightarrow>
          if length (take n cs) = n \<and> list_all continuation (take n cs) \<and>
             lo \<le> byte (hd cs) \<and> byte (hd cs) \<le> hi
          then Some n else None)"

text \<open>utf8.AppendRune for a code point that is no surrogate.\<close>

definition utf8 :: "int \<Rightarrow> string" where
  "utf8 r = map char_of
     (if r < 0x80 then [r]
      else if r < 0x800 then [0xC0 + r div 64, 0x80 + r mod 64]
      else if r < 0x10000 then [0xE0 + r div 4096, 0x80 + r div 64 mod 64, 0x80 + r mod 64]
      else [0xF0 + r div 262144, 0x80 + r div 4096 mod 64, 0x80 + r div 64 mod 64,
            0x80 + r mod 64])"

definition replacement :: string where
  "replacement = [CHR 0xEF, CHR 0xBF, CHR 0xBD]"

function utf8_ok :: "string \<Rightarrow> bool" where
  "utf8_ok [] = True"
| "utf8_ok (c # cs) =
     (if byte c < 0x80 then utf8_ok cs
      else case rune_tail c cs of None \<Rightarrow> False | Some n \<Rightarrow> utf8_ok (drop n cs))"
  by pat_completeness auto

termination by (relation "measure length") auto

section \<open>String literals\<close>

definition hex_nibble :: "char \<Rightarrow> int option" where
  "hex_nibble c =
     (if CHR ''0'' \<le> c \<and> c \<le> CHR ''9'' then Some (byte c - 48)
      else if CHR ''a'' \<le> c \<and> c \<le> CHR ''f'' then Some (byte c - 87)
      else if CHR ''A'' \<le> c \<and> c \<le> CHR ''F'' then Some (byte c - 55)
      else None)"

definition hex4 :: "string \<Rightarrow> int option" where
  "hex4 s = (case s of
     a # b # c # d # _ \<Rightarrow>
       (case (hex_nibble a, hex_nibble b, hex_nibble c, hex_nibble d) of
          (Some i, Some j, Some k, Some l) \<Rightarrow> Some (i * 4096 + j * 256 + k * 16 + l)
        | _ \<Rightarrow> None)
   | _ \<Rightarrow> None)"

definition surrogate :: "int \<Rightarrow> bool" where
  "surrogate r \<longleftrightarrow> 0xD800 \<le> r \<and> r < 0xE000"

text \<open>A low surrogate escape after a high one (utf16.DecodeRune).\<close>

definition joined_rune :: "int \<Rightarrow> string \<Rightarrow> int option" where
  "joined_rune r s = (case s of
     x # y # t \<Rightarrow>
       if x = BSL \<and> y = CHR ''u'' \<and> 0xD800 \<le> r \<and> r < 0xDC00 then
         (case hex4 t of
            Some q \<Rightarrow> if 0xDC00 \<le> q \<and> q < 0xE000
                       then Some ((r - 0xD800) * 1024 + (q - 0xDC00) + 0x10000) else None
          | None \<Rightarrow> None)
       else None
   | _ \<Rightarrow> None)"

definition plain_escape :: "char \<Rightarrow> char option" where
  "plain_escape e =
     (if e = QUOTE \<or> e = BSL \<or> e = CHR ''/'' then Some e
      else if e = CHR ''b'' then Some (CHR 0x08) else if e = CHR ''f'' then Some (CHR 0x0C)
      else if e = CHR ''n'' then Some (CHR 0x0A) else if e = CHR ''r'' then Some (CHR 0x0D)
      else if e = CHR ''t'' then Some (CHR 0x09) else None)"

definition emit :: "string \<Rightarrow> (string \<times> string) option \<Rightarrow> (string \<times> string) option" where
  "emit w = map_option (\<lambda>(s, r). (w @ s, r))"

function str_lit :: "string \<Rightarrow> (string \<times> string) option" where
  "str_lit [] = None"
| "str_lit (c # cs) =
     (if c = QUOTE then Some ([], cs)
      else if c = BSL then
        (case cs of
           [] \<Rightarrow> None
         | e # ys \<Rightarrow>
             if e = CHR ''u'' then
               (case hex4 ys of
                  None \<Rightarrow> None
                | Some r \<Rightarrow>
                    (case joined_rune r (drop 4 ys) of
                       Some q \<Rightarrow> emit (utf8 q) (str_lit (drop 10 ys))
                     | None \<Rightarrow> emit (if surrogate r then replacement else utf8 r)
                                (str_lit (drop 4 ys))))
             else (case plain_escape e of
                     None \<Rightarrow> None | Some d \<Rightarrow> emit [d] (str_lit ys)))
      else if byte c < 0x20 then None
      else if byte c < 0x80 then emit [c] (str_lit cs)
      else (case rune_tail c cs of
              None \<Rightarrow> emit replacement (str_lit cs)
            | Some n \<Rightarrow> emit (c # take n cs) (str_lit (drop n cs))))"
  by pat_completeness auto

termination by (relation "measure length") auto

section \<open>Numbers\<close>

definition digit :: "char \<Rightarrow> bool" where
  "digit c \<longleftrightarrow> c \<in> set ''0123456789''"

definition exp_lit :: "string \<Rightarrow> string \<Rightarrow> (string \<times> string) option" where
  "exp_lit acc s = (case s of
     [] \<Rightarrow> Some (acc, [])
   | e # cs \<Rightarrow>
       if e = CHR ''e'' \<or> e = CHR ''E'' then
         (let sign = (if cs \<noteq> [] \<and> (hd cs = CHR ''+'' \<or> hd cs = CHR ''-'') then [hd cs] else []);
              ds = drop (length sign) cs
          in if takeWhile digit ds = [] then None
             else Some (acc @ e # sign @ takeWhile digit ds, dropWhile digit ds))
       else Some (acc, s))"

definition frac_lit :: "string \<Rightarrow> string \<Rightarrow> (string \<times> string) option" where
  "frac_lit acc s = (case s of
     [] \<Rightarrow> exp_lit acc s
   | c # cs \<Rightarrow>
       if c = CHR ''.'' then
         (if takeWhile digit cs = [] then None
          else exp_lit (acc @ c # takeWhile digit cs) (dropWhile digit cs))
       else exp_lit acc s)"

definition num_lit :: "string \<Rightarrow> (string \<times> string) option" where
  "num_lit s =
     (let sign = (if s \<noteq> [] \<and> hd s = CHR ''-'' then ''-'' else []);
          t = drop (length sign) s
      in case t of
           [] \<Rightarrow> None
         | c # cs \<Rightarrow>
             if c = CHR ''0'' then frac_lit (sign @ [c]) cs
             else if digit c then frac_lit (sign @ takeWhile digit t) (dropWhile digit t)
             else None)"

definition number_ok :: "string \<Rightarrow> bool" where
  "number_ok t \<longleftrightarrow> num_lit t = Some (t, [])"

section \<open>Values\<close>

definition json_space :: "char \<Rightarrow> bool" where
  "json_space c \<longleftrightarrow> c = CHR 0x20 \<or> c = CHR 0x09 \<or> c = CHR 0x0A \<or> c = CHR 0x0D"

definition skip_space :: "string \<Rightarrow> string" where
  "skip_space s = dropWhile json_space s"

text \<open>The items of an array or object up to the closing character; at most one per byte.\<close>

fun items_lit :: "(string \<Rightarrow> ('a \<times> string) option) \<Rightarrow> char \<Rightarrow> nat \<Rightarrow> string \<Rightarrow>
    ('a list \<times> string) option"
where
  "items_lit p z 0 s = None"
| "items_lit p z (Suc n) s =
     (case p s of
        None \<Rightarrow> None
      | Some (x, r) \<Rightarrow>
          (case skip_space r of
             [] \<Rightarrow> None
           | c # cs \<Rightarrow>
               if c = z then Some ([x], cs)
               else if c = CHR '','' then map_option (\<lambda>(xs, q). (x # xs, q)) (items_lit p z n cs)
               else None))"

definition member_lit :: "(string \<Rightarrow> (json \<times> string) option) \<Rightarrow> string \<Rightarrow>
    ((string \<times> json) \<times> string) option"
where
  "member_lit p s = (case skip_space s of
     [] \<Rightarrow> None
   | q # cs \<Rightarrow>
       if q \<noteq> QUOTE then None
       else (case str_lit cs of
               None \<Rightarrow> None
             | Some (k, r) \<Rightarrow>
                 (case skip_space r of
                    [] \<Rightarrow> None
                  | c # t \<Rightarrow>
                      if c = CHR '':'' then map_option (\<lambda>(v, u). ((k, v), u)) (p t) else None)))"

definition obj_of :: "(string \<times> json) list \<Rightarrow> (string \<times> json) list" where
  "obj_of kvs = foldl (\<lambda>m kv. AList.update (fst kv) (snd kv) m) [] kvs"

definition word_lit :: "string \<Rightarrow> json \<Rightarrow> string \<Rightarrow> (json \<times> string) option" where
  "word_lit w j s = (if has_prefix s w then Some (j, drop (length w) s) else None)"

function value_lit :: "int \<Rightarrow> string \<Rightarrow> (json \<times> string) option" where
  "value_lit d s = (case skip_space s of
     [] \<Rightarrow> None
   | c # cs \<Rightarrow>
       if c = CHR ''{'' then
         (if d \<le> 0 then None
          else case skip_space cs of
            [] \<Rightarrow> None
          | x # xs \<Rightarrow>
              if x = CHR ''}'' then Some (JObj [], xs)
              else map_option (\<lambda>(kvs, r). (JObj (obj_of kvs), r))
                     (items_lit (member_lit (\<lambda>t. value_lit (d - 1) t)) (CHR ''}'')
                        (length cs) cs))
       else if c = CHR ''['' then
         (if d \<le> 0 then None
          else case skip_space cs of
            [] \<Rightarrow> None
          | x # xs \<Rightarrow>
              if x = CHR '']'' then Some (JArr [], xs)
              else map_option (\<lambda>(js, r). (JArr js, r))
                     (items_lit (\<lambda>t. value_lit (d - 1) t) (CHR '']'') (length cs) cs))
       else if c = QUOTE then map_option (\<lambda>(v, r). (JStr v, r)) (str_lit cs)
       else if c = CHR ''n'' then word_lit ''null'' JNull (c # cs)
       else if c = CHR ''t'' then word_lit ''true'' (JBool True) (c # cs)
       else if c = CHR ''f'' then word_lit ''false'' (JBool False) (c # cs)
       else map_option (\<lambda>(t, r). (JNum t, r)) (num_lit (c # cs)))"
  by pat_completeness auto

termination by (relation "measure (\<lambda>(d, s). nat d)") auto

declare value_lit.simps [simp del]

definition max_nesting :: int where
  "max_nesting = 10000"

text \<open>json.NewDecoder(r).Decode(&v): the first value, whatever follows it.\<close>

definition Decode :: "string \<Rightarrow> json option" where
  "Decode s = map_option fst (value_lit max_nesting s)"

text \<open>json.Unmarshal(data, &v): nothing but space may follow the value.\<close>

definition Unmarshal :: "string \<Rightarrow> json option" where
  "Unmarshal s = (case value_lit max_nesting s of
     Some (v, r) \<Rightarrow> if skip_space r = [] then Some v else None
   | None \<Rightarrow> None)"

text \<open>The values that decoding yields: nested at most \<open>d\<close> deep, with distinct keys.\<close>

fun value_ok :: "int \<Rightarrow> json \<Rightarrow> bool" where
  "value_ok d JNull \<longleftrightarrow> True"
| "value_ok d (JBool b) \<longleftrightarrow> True"
| "value_ok d (JNum t) \<longleftrightarrow> number_ok t"
| "value_ok d (JStr s) \<longleftrightarrow> utf8_ok s"
| "value_ok d (JArr js) \<longleftrightarrow> 0 < d \<and> (\<forall>j \<in> set js. value_ok (d - 1) j)"
| "value_ok d (JObj kvs) \<longleftrightarrow> 0 < d \<and> distinct (map fst kvs) \<and>
     (\<forall>kv \<in> set kvs. utf8_ok (fst kv) \<and> value_ok (d - 1) (snd kv))"

section \<open>Reading back what was printed\<close>

lemma digits_app:
  assumes "r = [] \<or> \<not> digit (hd r)" "\<forall>c \<in> set ds. digit c"
  shows "takeWhile digit (ds @ r) = ds" "dropWhile digit (ds @ r) = r"
  using assms by (cases r; simp)+

lemma delim_no_digit: "delim r \<Longrightarrow> r = [] \<or> \<not> digit (hd r)"
  by (auto simp: delim_def digit_def)

lemma delim_cases: "delim r \<Longrightarrow> r = [] \<or> (\<exists>c t. r = c # t \<and> c \<notin> set number_chars)"
  by (cases r) auto

lemma digits_number: "set (takeWhile digit ds) \<subseteq> set number_chars"
  by (auto simp: digit_def dest!: set_takeWhileD)

lemma digit_plain: "digit c \<Longrightarrow> c \<noteq> CHR ''+'' \<and> c \<noteq> CHR ''-''"
  by (auto simp: digit_def)

lemma exp_lit_Some:
  assumes "exp_lit acc s = Some (t, r)"
  obtains u where "s = u @ r" "t = acc @ u"
    "\<And>acc' r'. delim r' \<Longrightarrow> exp_lit acc' (u @ r') = Some (acc' @ u, r')"
    "u = [] \<or> hd u \<in> {CHR ''e'', CHR ''E''}" "set u \<subseteq> set number_chars"
proof (cases s)
  case (Cons e cs)
  show ?thesis
  proof (cases "e = CHR ''e'' \<or> e = CHR ''E''")
    case True
    define sign where "sign = (if cs \<noteq> [] \<and> (hd cs = CHR ''+'' \<or> hd cs = CHR ''-'') then [hd cs] else [])"
    define ds where "ds = drop (length sign) cs"
    have cs: "cs = sign @ ds" by (cases cs) (auto simp: sign_def ds_def)
    have ne: "takeWhile digit ds \<noteq> []" and t: "t = acc @ e # sign @ takeWhile digit ds" "r = dropWhile digit ds"
      using assms True Cons by (auto simp: exp_lit_def Let_def simp flip: sign_def ds_def split: if_split_asm)
    let ?u = "e # sign @ takeWhile digit ds"
    show ?thesis
    proof (rule that [of ?u])
      show "s = ?u @ r" using Cons cs t by simp
      show "set ?u \<subseteq> set number_chars"
        using True digits_number [of ds] by (auto simp: sign_def)
      fix acc' r' assume r': "delim r'"
      have tw: "takeWhile digit (takeWhile digit ds @ r') = takeWhile digit ds"
        "dropWhile digit (takeWhile digit ds @ r') = r'"
        using digits_app [OF delim_no_digit [OF r'], of "takeWhile digit ds"] set_takeWhileD by metis+
      have hd: "hd (takeWhile digit ds @ r') \<noteq> CHR ''+'' \<and> hd (takeWhile digit ds @ r') \<noteq> CHR ''-''"
      proof -
        obtain d ws where w: "takeWhile digit ds = d # ws" using ne by (cases "takeWhile digit ds") auto
        then have "digit d" by (metis list.set_intros(1) set_takeWhileD)
        then show ?thesis using w digit_plain by simp
      qed
      show "exp_lit acc' (?u @ r') = Some (acc' @ ?u, r')"
        using True tw ne hd by (auto simp: exp_lit_def sign_def)
    qed (use t True in auto)
  next
    case False
    then have "t = acc" "r = s" using assms Cons by (auto simp: exp_lit_def)
    then show ?thesis
      by (intro that [of "[]"]) (auto simp: exp_lit_def dest!: delim_cases)
  qed
next
  case Nil
  then have "t = acc" "r = s" using assms by (auto simp: exp_lit_def)
  then show ?thesis
    by (intro that [of "[]"]) (auto simp: exp_lit_def dest!: delim_cases)
qed

lemma frac_lit_Some:
  assumes "frac_lit acc s = Some (t, r)"
  obtains u where "s = u @ r" "t = acc @ u"
    "\<And>acc' r'. delim r' \<Longrightarrow> frac_lit acc' (u @ r') = Some (acc' @ u, r')"
    "u = [] \<or> hd u \<in> {CHR ''.'', CHR ''e'', CHR ''E''}" "set u \<subseteq> set number_chars"
proof (cases "s \<noteq> [] \<and> hd s = CHR ''.''")
  case True
  then obtain cs where cs: "s = CHR ''.'' # cs" by (cases s) auto
  define ds where "ds = takeWhile digit cs"
  have s: "s = CHR ''.'' # ds @ dropWhile digit cs" using cs by (simp add: ds_def)
  have ne: "ds \<noteq> []" and e: "exp_lit (acc @ CHR ''.'' # ds) (dropWhile digit cs) = Some (t, r)"
    using assms cs by (simp_all add: frac_lit_def ds_def split: if_split_asm)
  obtain u where u: "dropWhile digit cs = u @ r" "t = (acc @ CHR ''.'' # ds) @ u"
    "\<And>acc' r'. delim r' \<Longrightarrow> exp_lit acc' (u @ r') = Some (acc' @ u, r')"
    "u = [] \<or> hd u \<in> {CHR ''e'', CHR ''E''}" "set u \<subseteq> set number_chars"
    using exp_lit_Some [OF e] by blast
  show ?thesis
  proof (rule that [of "CHR ''.'' # ds @ u"])
    show "set (CHR ''.'' # ds @ u) \<subseteq> set number_chars"
      using u(5) digits_number [of cs] by (simp add: ds_def)
    fix acc' r' assume r': "delim r'"
    then have "u @ r' = [] \<or> \<not> digit (hd (u @ r'))"
      using u(4) delim_no_digit by (cases u) (auto simp: digit_def)
    moreover have "\<forall>c \<in> set ds. digit c" unfolding ds_def by (auto dest: set_takeWhileD)
    ultimately have "takeWhile digit (ds @ u @ r') = ds" "dropWhile digit (ds @ u @ r') = u @ r'"
      using digits_app by blast+
    then show "frac_lit acc' ((CHR ''.'' # ds @ u) @ r') = Some (acc' @ CHR ''.'' # ds @ u, r')"
      using u(3) [OF r'] ne by (simp add: frac_lit_def)
  qed (use s u in auto)
next
  case False
  then have e: "exp_lit acc s = Some (t, r)"
    using assms by (cases s) (auto simp: frac_lit_def)
  obtain u where u: "s = u @ r" "t = acc @ u"
    "\<And>acc' r'. delim r' \<Longrightarrow> exp_lit acc' (u @ r') = Some (acc' @ u, r')"
    "u = [] \<or> hd u \<in> {CHR ''e'', CHR ''E''}" "set u \<subseteq> set number_chars"
    using exp_lit_Some [OF e] by blast
  show ?thesis
  proof (rule that [of u])
    fix acc' r' assume r': "delim r'"
    then have "u @ r' = [] \<or> hd (u @ r') \<noteq> CHR ''.''"
      using u(4) by (cases u) (auto dest!: delim_cases)
    then have "frac_lit acc' (u @ r') = exp_lit acc' (u @ r')"
      by (cases "u @ r'") (auto simp: frac_lit_def)
    then show "frac_lit acc' (u @ r') = Some (acc' @ u, r')" using u(3) [OF r'] by simp
  qed (use u in auto)
qed

lemma num_lit_Some:
  assumes "num_lit s = Some (t, r)"
  shows "s = t @ r \<and> t \<noteq> [] \<and> hd t \<in> set ''-0123456789'' \<and> set t \<subseteq> set number_chars \<and>
    (\<forall>r'. delim r' \<longrightarrow> num_lit (t @ r') = Some (t, r'))"
proof -
  define sign where "sign = (if s \<noteq> [] \<and> hd s = CHR ''-'' then ''-'' else [])"
  define b where "b = drop (length sign) s"
  have s: "s = sign @ b" by (cases s) (auto simp: sign_def b_def)
  have sign_eq: "(if sign @ x \<noteq> [] \<and> hd (sign @ x) = CHR ''-'' then ''-'' else []) = sign"
    if "x \<noteq> [] \<and> digit (hd x)" for x
    using that by (auto simp: sign_def digit_def)
  obtain c cs where b: "b = c # cs"
    using assms by (cases b) (auto simp: num_lit_def Let_def simp flip: sign_def b_def)
  have dc: "digit c"
    using assms b by (auto simp: num_lit_def Let_def digit_def simp flip: sign_def b_def split: if_split_asm)
  define ds where "ds = (if c = CHR ''0'' then ''0'' else takeWhile digit b)"
  define rest where "rest = (if c = CHR ''0'' then cs else dropWhile digit b)"
  have ds: "ds \<noteq> []" "digit (hd ds)" "\<forall>x \<in> set ds. digit x" "b = ds @ rest" "hd ds = c"
    "c = CHR ''0'' \<longrightarrow> ds = ''0''"
    using b dc by (auto simp: ds_def rest_def digit_def dest: set_takeWhileD)
  have "frac_lit (sign @ ds) rest = Some (t, r)"
    using assms b dc by (auto simp: num_lit_def Let_def ds_def rest_def simp flip: sign_def b_def
      split: if_split_asm)
  then obtain u where u: "rest = u @ r" "t = (sign @ ds) @ u"
    "\<And>acc' r'. delim r' \<Longrightarrow> frac_lit acc' (u @ r') = Some (acc' @ u, r')"
    "u = [] \<or> hd u \<in> {CHR ''.'', CHR ''e'', CHR ''E''}" "set u \<subseteq> set number_chars"
    by (rule frac_lit_Some) (rule that)
  have "num_lit (t @ r') = Some (t, r')" if r': "delim r'" for r'
  proof -
    have stop: "u @ r' = [] \<or> \<not> digit (hd (u @ r'))"
      using u(4) delim_no_digit [OF r'] by (cases u) (auto simp: digit_def)
    have "num_lit (sign @ ds @ u @ r') = frac_lit (sign @ ds) (u @ r')"
    proof (cases "c = CHR ''0''")
      case True
      then show ?thesis using ds sign_eq [of "ds @ u @ r'"]
        by (simp add: num_lit_def Let_def digit_def)
    next
      case False
      obtain ws where w: "ds = c # ws" using ds(1,5) by (cases ds) auto
      have "takeWhile digit (ds @ u @ r') = ds" "dropWhile digit (ds @ u @ r') = u @ r'"
        using digits_app [OF stop ds(3)] by blast+
      then show ?thesis using False dc w sign_eq [of "ds @ u @ r'"]
        by (simp add: num_lit_def Let_def)
    qed
    then show ?thesis using u(2) u(3) [OF r'] by simp
  qed
  moreover have "hd t \<in> set ''-0123456789''" "t \<noteq> []"
    using u(2) ds(1,2) by (auto simp: sign_def digit_def split: if_splits)
  moreover have "set t \<subseteq> set number_chars"
    using u(2,5) digits_number [of b] by (auto simp: sign_def ds_def split: if_splits)
  ultimately show ?thesis using s ds(4) u(1,2) by auto
qed

lemma rune_shape_pos: "rune_shape b = Some (n, lo, hi) \<Longrightarrow> 0 < n"
  by (auto simp: rune_shape_def split: if_split_asm)

lemma rune_tail_prefix:
  assumes "rune_tail c cs = Some n" "take n ds = take n cs"
  shows "rune_tail c ds = Some n"
proof -
  obtain lo hi where sh: "rune_shape (byte c) = Some (n, lo, hi)"
    and t: "length (take n cs) = n" "list_all continuation (take n cs)" "lo \<le> byte (hd cs)" "byte (hd cs) \<le> hi"
    using assms(1) by (auto simp: rune_tail_def split: option.split_asm prod.split_asm if_split_asm)
  have "hd ds = hd cs" using rune_shape_pos [OF sh] t(1) assms(2) by (metis hd_take)
  moreover have "length (take n ds) = n" using t(1) assms(2) by simp
  ultimately show ?thesis using sh t assms(2) by (simp add: rune_tail_def del: length_take)
qed

lemma rune_tail_le: "rune_tail c cs = Some n \<Longrightarrow> n \<le> length cs"
  by (auto simp: rune_tail_def split: option.split_asm prod.split_asm if_split_asm)

lemma rune_tail_append: "rune_tail c cs = Some n \<Longrightarrow> rune_tail c (cs @ s) = Some n \<and> n \<le> length cs"
  using rune_tail_prefix [of c cs n "cs @ s"] rune_tail_le [of c cs n] by simp

lemma rune_tail_take: "rune_tail c cs = Some n \<Longrightarrow> rune_tail c (take n cs @ s) = Some n"
  using rune_tail_prefix [of c cs n "take n cs @ s"] rune_tail_le [of c cs n] by simp

lemma rune_tail_continuation: "rune_tail c cs = Some n \<Longrightarrow> list_all continuation (take n cs)"
  by (auto simp: rune_tail_def split: option.splits if_split_asm)

lemma utf8_ok_append: "utf8_ok w \<Longrightarrow> utf8_ok s \<Longrightarrow> utf8_ok (w @ s)"
proof (induction w rule: utf8_ok.induct)
  case (2 c cs)
  show ?case
  proof (cases "byte c < 0x80")
    case False
    then obtain n where n: "rune_tail c cs = Some n" "utf8_ok (drop n cs)"
      using 2(3) by (auto split: option.splits)
    with rune_tail_append [OF n(1), of s] False 2 show ?thesis by simp
  qed (use 2 in simp)
qed simp

lemma byte_char_of [simp]: "byte (char_of n) = n mod 256"
  by (simp add: byte_def)

lemma byte_int: "byte c = int (of_char c)"
  by (simp add: byte_def of_nat_of_char)

lemma utf8_ok_utf8:
  assumes "0 \<le> r" "r < 0x110000" "\<not> surrogate r"
  shows "utf8_ok (utf8 r)"
proof -
  consider "r < 0x80" | "0x80 \<le> r" "r < 0x800" | "0x800 \<le> r" "r < 0x10000" | "0x10000 \<le> r"
    by linarith
  then show ?thesis
  proof cases
    case 2
    then have "2 \<le> r div 64" "r div 64 < 32" "0 \<le> r mod 64" "r mod 64 < 64" by auto
    then show ?thesis using 2 by (simp add: utf8_def rune_tail_def rune_shape_def continuation_def)
  next
    case 3
    define a b c where "a = r div 4096" and "b = r div 64 mod 64" and "c = r mod 64"
    have "a = r div 64 div 64" by (simp add: a_def flip: zdiv_zmult2_eq)
    then have r64: "r div 64 = 64 * a + b" by (simp add: b_def)
    have "r div 64 < 864 \<or> 896 \<le> r div 64" using assms(1,3) by (auto simp: surrogate_def)
    moreover have "32 \<le> r div 64" using 3 by auto
    moreover have ab: "0 \<le> a" "a < 16" "0 \<le> b" "b < 64" "0 \<le> c" "c < 64"
      using 3 by (auto simp: a_def b_def c_def)
    ultimately have "a = 13 \<Longrightarrow> b < 32" "a = 0 \<Longrightarrow> 32 \<le> b" using r64 by linarith+
    then show ?thesis using 3 ab
      by (auto simp: utf8_def rune_tail_def rune_shape_def continuation_def simp flip: a_def b_def c_def)
  next
    case 4
    define a b c d where "a = r div 262144" and "b = r div 4096 mod 64" and "c = r div 64 mod 64"
      and "d = r mod 64"
    have "a = r div 4096 div 64" by (simp add: a_def flip: zdiv_zmult2_eq)
    then have r4096: "r div 4096 = 64 * a + b" by (simp add: b_def)
    have "r div 4096 < 272" "16 \<le> r div 4096" using 4 assms by auto
    moreover have ab: "0 \<le> a" "a < 5" "0 \<le> b" "b < 64" "0 \<le> c" "c < 64" "0 \<le> d" "d < 64"
      using 4 assms by (auto simp: a_def b_def c_def d_def)
    ultimately have "a = 4 \<Longrightarrow> b < 16" "a = 0 \<Longrightarrow> 16 \<le> b" using r4096 by linarith+
    moreover have "a \<in> set [0, 1, 2, 3, 4]" using ab by (simp; arith)
    ultimately show ?thesis using 4 ab
      by (auto simp: utf8_def rune_tail_def rune_shape_def continuation_def simp flip: a_def b_def c_def d_def)
  qed (use assms(1) in \<open>simp add: utf8_def\<close>)
qed

lemma hex_nibble_less: "hex_nibble c = Some i \<Longrightarrow> 0 \<le> i \<and> i < 16"
proof -
  have n: "c \<le> d \<longleftrightarrow> byte c \<le> byte d" for c d by (simp add: less_eq_char_def byte_int)
  show "hex_nibble c = Some i \<Longrightarrow> 0 \<le> i \<and> i < 16"
    by (auto simp: hex_nibble_def n split: if_split_asm) (auto simp: byte_def)
qed

lemma hex4_less: "hex4 s = Some r \<Longrightarrow> 0 \<le> r \<and> r < 0x10000"
proof -
  assume "hex4 s = Some r"
  then obtain a b c d i j k l where "s = a # b # c # d # drop 4 s"
    "hex_nibble a = Some i" "hex_nibble b = Some j" "hex_nibble c = Some k" "hex_nibble d = Some l"
    "r = i * 4096 + j * 256 + k * 16 + l"
    by (auto simp: hex4_def split: list.split_asm option.split_asm)
  then show ?thesis using hex_nibble_less [of a i] hex_nibble_less [of b j] hex_nibble_less [of c k]
      hex_nibble_less [of d l] by simp
qed

lemma joined_rune_bounds: "joined_rune r s = Some q \<Longrightarrow> 0x10000 \<le> q \<and> q < 0x110000"
  by (auto simp: joined_rune_def split: list.splits if_split_asm option.splits)

lemma emit_Some: "emit w x = Some (s, r) \<longleftrightarrow> (\<exists>s'. x = Some (s', r) \<and> s = w @ s')"
  by (auto simp: emit_def)

lemma utf8_ok_replacement [simp]: "utf8_ok replacement"
  by (simp add: replacement_def rune_tail_def rune_shape_def continuation_def byte_def)

lemma byte_plain_escape: "plain_escape e = Some d \<Longrightarrow> byte d < 0x80"
  by (auto simp: plain_escape_def byte_def split: if_split_asm)

text \<open>A decoded string is valid UTF-8.\<close>

lemma str_lit_utf8: "str_lit s = Some (v, r) \<Longrightarrow> utf8_ok v"
proof (induction s arbitrary: v r rule: str_lit.induct)
  case (2 c cs)
  show ?case
  proof (cases "c = QUOTE \<or> c \<noteq> BSL")
    case True
    then consider "c = QUOTE" | "byte c < 0x80" "c \<noteq> QUOTE" | "0x80 \<le> byte c" "c \<noteq> QUOTE" by linarith
    then show ?thesis
    proof cases
      case 3
      then show ?thesis
      proof (cases "rune_tail c cs")
        case None
        then obtain w where w: "str_lit cs = Some (w, r)" "v = replacement @ w"
          using 3 True 2(7) by (auto simp: emit_Some)
        then have "utf8_ok w" using 2(5) 3 True None by auto
        then show ?thesis using w by (simp add: utf8_ok_append)
      next
        case (Some n)
        then obtain w where w: "str_lit (drop n cs) = Some (w, r)" "v = c # take n cs @ w"
          using 3 True 2(7) by (auto simp: emit_Some)
        then have "utf8_ok w" using 2(6) 3 True Some by auto
        moreover have "n \<le> length cs" using rune_tail_append Some by blast
        ultimately show ?thesis using w 3 rune_tail_take [OF Some, of w] by (simp add: min_def)
      qed
    qed (use True 2 in \<open>auto simp: emit_Some split: if_split_asm\<close>)
  next
    case False
    then obtain e ys where e: "c = BSL" "cs = e # ys" using 2 by (cases cs) auto
    show ?thesis
    proof (cases "e = CHR ''u''")
      case True
      then obtain q where q: "hex4 ys = Some q" using 2 e by (cases "hex4 ys") auto
      show ?thesis
      proof (cases "joined_rune q (drop 4 ys)")
        case None
        have "utf8_ok (if surrogate q then replacement else utf8 q)"
          using hex4_less [OF q] utf8_ok_utf8 [of q] by simp
        then show ?thesis using None q True e 2 by (auto simp: emit_Some intro!: utf8_ok_append)
      next
        case (Some p)
        have "utf8_ok (utf8 p)"
          using joined_rune_bounds [OF Some] utf8_ok_utf8 [of p] by (simp add: surrogate_def)
        then show ?thesis using Some q True e 2 by (auto simp: emit_Some intro!: utf8_ok_append)
      qed
    next
      case False
      then show ?thesis using e 2
        by (auto simp: emit_Some split: option.splits dest: byte_plain_escape)
    qed
  qed
qed simp

section \<open>Decoding undoes encoding\<close>

lemma hex_nibble_hex_char: "n < 16 \<Longrightarrow> hex_nibble (hex_char n) = Some (int n)"
  by (drule less_16_list) (auto simp: hex_nibble_def hex_char_def less_eq_char_def byte_def)

lemma byte_code_div_mod:
  "int (of_char c div 16) * 16 + int (of_char c mod 16) = byte c" "of_char c div 16 < (16 :: nat)"
proof -
  have n: "n div 16 < 16" if "n < 256" for n :: nat using that by arith
  show "of_char c div 16 < (16 :: nat)" using n [OF nat_of_char_less_256] .
  have "int (of_char c div 16 * 16 + of_char c mod 16) = byte c" unfolding byte_int div_mult_mod_eq ..
  then show "int (of_char c div 16) * 16 + int (of_char c mod 16) = byte c"
    by (simp only: of_nat_add of_nat_mult of_nat_numeral)
qed

lemma char_of_byte [simp]: "char_of (byte c) = c"
  by (simp add: byte_def)

lemma char_less_byte: "c < d \<longleftrightarrow> byte c < byte d"
  by (simp add: less_char_def byte_int)

lemma hex4_byte: "hex4 (CHR ''0'' # CHR ''0'' # hex_char (of_char c div 16) # hex_char (of_char c mod 16) # t) =
    Some (byte c)"
proof -
  have zero: "hex_nibble (CHR ''0'') = Some 0" by (simp add: hex_nibble_def byte_def less_eq_char_def)
  have h: "hex_nibble (hex_char (of_char c div 16)) = Some (int (of_char c div 16))"
    "hex_nibble (hex_char (of_char c mod 16)) = Some (int (of_char c mod 16))"
    using byte_code_div_mod(2) [of c] hex_nibble_hex_char by simp_all
  show ?thesis using byte_code_div_mod(1) [of c] by (simp only: hex4_def list.case zero h option.case prod.case) simp
qed

lemma str_lit_escape_u:
  assumes "hex4 (h @ t) = Some q" "length h = 4" "\<not> surrogate q"
  shows "str_lit (BSL # CHR ''u'' # h @ t) = emit (utf8 q) (str_lit t)"
proof -
  have "joined_rune q t = None" using assms(3) by (auto simp: joined_rune_def surrogate_def split: list.split option.split)
  then show ?thesis using assms by simp
qed

lemma byte_space: "byte (CHR 0x20) = 32"
  by (simp add: byte_def)

lemma str_lit_esc_byte:
  assumes "byte c < 0x80"
  shows "str_lit (esc_byte c @ t) = emit [c] (str_lit t)"
proof (cases "length (esc_byte c) = 6")
  case True
  then have e: "esc_byte c = BSL # CHR ''u'' # [CHR ''0'', CHR ''0'', hex_char (of_char c div 16), hex_char (of_char c mod 16)]"
    by (auto simp: esc_byte_def byte_def split: if_split_asm)
  have "\<not> surrogate (byte c)" "utf8 (byte c) = [c]"
    using assms by (simp_all add: surrogate_def utf8_def)
  then show ?thesis
    using str_lit_escape_u [of "[CHR ''0'', CHR ''0'', hex_char (of_char c div 16), hex_char (of_char c mod 16)]" t "byte c"]
    unfolding e by (simp only: hex4_byte append_Cons append_Nil list.size simp_thms)
next
  case False
  then show ?thesis
    using assms by (auto simp: esc_byte_def plain_escape_def char_less_byte byte_space split: if_split_asm)
qed

lemma esc_byte_high:
  assumes "0x80 \<le> byte c"
  shows "esc_byte c = [c]"
proof -
  have "c \<notin> set [QUOTE, BSL, CHR 0x08, CHR 0x0C, CHR 0x0A, CHR 0x0D, CHR 0x09, CHR ''<'', CHR ''>'', CHR ''&'']"
    using assms by (auto simp: byte_def)
  moreover have "\<not> c < CHR 0x20" using assms unfolding char_less_byte by (simp add: byte_def)
  ultimately show ?thesis by (simp add: esc_byte_def)
qed

lemma esc_continuation: "list_all continuation ws \<Longrightarrow> esc (ws @ t) = ws @ esc t"
proof (induction ws)
  case (Cons w ws)
  then have "0x80 \<le> byte w" "byte w \<le> 0xBF" by (simp_all add: continuation_def)
  then have "w \<noteq> CHR 0xE2" "esc_byte w = [w]" by (auto simp: byte_def esc_byte_high)
  then have "\<not> line_sep (w # ws @ t)" "esc_byte w = [w]" by (simp_all add: line_sep_def)
  with Cons show ?case by simp
qed simp

lemma sep_chars: "char_of (226 :: int) = CHR 0xE2" "char_of (128 :: int) = CHR 0x80"
    "char_of (168 :: int) = CHR 0xA8" "char_of (169 :: int) = CHR 0xA9"
  by code_simp+

lemma str_lit_esc: "utf8_ok s \<Longrightarrow> str_lit (esc s @ QUOTE # r) = Some (s, r)"
proof (induction s rule: utf8_ok.induct)
  case (2 c cs)
  show ?case
  proof (cases "byte c < 0x80")
    case True
    then have "\<not> line_sep (c # cs)" by (auto simp: line_sep_def byte_def)
    then show ?thesis using 2 True str_lit_esc_byte [OF True] by (simp add: emit_def)
  next
    case False
    then obtain n where n: "rune_tail c cs = Some n" "utf8_ok (drop n cs)"
      using 2(3) by (auto split: option.split_asm)
    have IH: "str_lit (esc (drop n cs) @ QUOTE # r) = Some (drop n cs, r)"
      using 2(2) [OF False n(1)] n(2) by simp
    show ?thesis
    proof (cases "line_sep (c # cs)")
      case True
      then obtain d where d: "c = CHR 0xE2" "take 2 cs = [CHR 0x80, d]" "d = CHR 0xA8 \<or> d = CHR 0xA9"
        by (auto simp: line_sep_def numeral_eq_Suc)
      then have cs: "cs = CHR 0x80 # d # drop 2 cs"
        by (metis append_Cons append_Nil append_take_drop_id)
      then have nth: "cs ! 1 = d" by (metis One_nat_def nth_Cons_0 nth_Cons_Suc)
      have "n = 2" using n(1) d(1)
        by (auto simp: rune_tail_def rune_shape_def byte_def split: if_split_asm)
      then have IH2: "str_lit (esc (drop 2 cs) @ QUOTE # r) = Some (drop 2 cs, r)" using IH by simp
      define q :: int where "q = (if d = CHR 0xA8 then 0x2028 else 0x2029)"
      define h where "h = [CHR ''2'', CHR ''0'', CHR ''2'', if d = CHR 0xA8 then CHR ''8'' else CHR ''9'']"
      have "hex4 (h @ t) = Some q" for t
        by (simp add: h_def q_def hex4_def hex_nibble_def less_eq_char_def byte_def)
      moreover have "\<not> surrogate q" "utf8 q = [CHR 0xE2, CHR 0x80, d]"
        using d(3) sep_chars by (auto simp: q_def surrogate_def utf8_def)
      moreover have "length h = 4" by (simp add: h_def)
      ultimately have "str_lit (BSL # CHR ''u'' # h @ esc (drop 2 cs) @ QUOTE # r) =
          Some (CHR 0xE2 # CHR 0x80 # d # drop 2 cs, r)"
        using str_lit_escape_u [of h "esc (drop 2 cs) @ QUOTE # r" q] IH2 by (simp add: emit_def)
      moreover have "esc (c # cs) = BSL # CHR ''u'' # h @ esc (drop 2 cs)"
        using True nth by (simp add: h_def)
      ultimately show ?thesis using d(1) cs by (simp only: append_Cons append_assoc)
    next
      case nosep: False
      have "esc_byte c = [c]" using False by (simp add: esc_byte_high)
      moreover have "esc cs = take n cs @ esc (drop n cs)"
        using esc_continuation [OF rune_tail_continuation [OF n(1)], of "drop n cs"] by simp
      ultimately have e: "esc (c # cs) @ QUOTE # r = c # take n cs @ esc (drop n cs) @ QUOTE # r"
        using nosep by simp
      have "c \<noteq> QUOTE" "c \<noteq> BSL" using False by (auto simp: byte_def)
      then show ?thesis unfolding e
        using False IH rune_tail_take [OF n(1)] rune_tail_le [OF n(1)] by (simp add: emit_def min_def)
    qed
  qed
qed simp

lemma skip_space_id: "s = [] \<or> \<not> json_space (hd s) \<Longrightarrow> skip_space s = s"
  by (cases s) (auto simp: skip_space_def)

lemma items_lit_join:
  assumes "\<And>x t. x \<in> set xs \<Longrightarrow> delim t \<Longrightarrow> p (f x @ t) = Some (x, t)"
    and "xs \<noteq> []" "length xs \<le> n" "z \<notin> set number_chars" "\<not> json_space z" "z \<noteq> CHR '',''"
  shows "items_lit p z n (join '','' (map f xs) @ z # r) = Some (xs, r)"
  using assms
proof (induction xs arbitrary: n)
  case (Cons x xs)
  then obtain m where n: "n = Suc m" "length xs \<le> m" by (cases n) auto
  show ?case
  proof (cases "xs = []")
    case True
    then show ?thesis using n Cons.prems(1) [of x "z # r"] Cons.prems(4-6)
      by (simp add: skip_space_id)
  next
    case False
    then have "items_lit p z m (join '','' (map f xs) @ z # r) = Some (xs, r)"
      using Cons n by auto
    moreover have "p (f x @ CHR '','' # join '','' (map f xs) @ z # r) =
        Some (x, CHR '','' # join '','' (map f xs) @ z # r)"
      using Cons.prems(1) [of x] by simp
    ultimately show ?thesis using n False Cons.prems(6)
      by (simp add: join_Cons skip_space_id json_space_def)
  qed
qed simp

lemma length_join_items: "\<forall>x \<in> set xs. f x \<noteq> [] \<Longrightarrow> length xs \<le> length (join '','' (map f xs))"
proof (induction xs)
  case (Cons x xs)
  then have "0 < length (f x)" by simp
  with Cons show ?case by (cases "xs = []") (auto simp: join_Cons Suc_le_eq)
qed simp

lemma obj_of_distinct: "distinct (map fst kvs) \<Longrightarrow> obj_of kvs = kvs"
proof (induction kvs rule: rev_induct)
  case (snoc kv kvs)
  have "AList.update k v m = m @ [(k, v)]" if "k \<notin> fst ` set m" for k :: string and v :: json and m
    using that by (induction m) auto
  with snoc show ?case by (simp add: obj_of_def)
qed (simp add: obj_of_def)

lemma number_ok_facts:
  assumes "number_ok t"
  shows "t \<noteq> []" "hd t \<in> set ''-0123456789''" "delim r \<Longrightarrow> num_lit (t @ r) = Some (t, r)"
  using num_lit_Some assms unfolding number_ok_def by blast+

lemma printed_head:
  assumes "value_ok d j"
  obtains c u where "print_json j = c # u" "\<not> json_space c" "c \<notin> {CHR '']'', CHR ''}'', CHR '',''}"
proof -
  have "\<exists>c u. print_json j = c # u \<and> \<not> json_space c \<and> c \<notin> {CHR '']'', CHR ''}'', CHR '',''}"
  proof (cases j)
    case (JNum t)
    then show ?thesis using assms number_ok_facts [of t] by (cases t) (auto simp: json_space_def)
  qed (auto simp: json_space_def json_string_def)
  then show ?thesis using that by blast
qed

lemma member_lit_print:
  assumes "utf8_ok (fst kv)" "p (print_json (snd kv) @ t) = Some (snd kv, t)"
  shows "member_lit p ((json_string (fst kv) @ '':'' @ print_json (snd kv)) @ t) = Some (kv, t)"
  using assms str_lit_esc [of "fst kv"]
  by (simp add: member_lit_def json_string_def skip_space_id json_space_def)

lemma value_lit_print: "value_ok d j \<Longrightarrow> delim r \<Longrightarrow> value_lit d (print_json j @ r) = Some (j, r)"
proof (induction j arbitrary: d r)
  case (JNum t)
  note t = number_ok_facts [of t]
  obtain c u where cu: "t = c # u" "c \<in> set ''-0123456789''" using t(1,2) JNum.prems by (cases t) auto
  then have "value_lit d (t @ r) = map_option (\<lambda>(t, r). (JNum t, r)) (num_lit (t @ r))"
    by (subst value_lit.simps) (auto simp: skip_space_id json_space_def)
  then show ?case using t(3) JNum.prems by simp
next
  case (JStr s)
  then show ?case using str_lit_esc [of s r]
    by (subst value_lit.simps) (simp add: json_string_def skip_space_id json_space_def)
next
  case (JArr js)
  show ?case
  proof (cases js)
    case Nil
    then show ?thesis using JArr.prems by (subst value_lit.simps) (simp add: skip_space_id json_space_def)
  next
    case (Cons j0 js0)
    have ne: "\<forall>x \<in> set js. print_json x \<noteq> []" 
    proof
      fix x assume "x \<in> set js"
      then have "value_ok (d - 1) x" using JArr.prems(1) by simp
      then obtain c u where "print_json x = c # u" by (rule printed_head)
      then show "print_json x \<noteq> []" by simp
    qed
    obtain c u where cu: "print_json j0 = c # u" "\<not> json_space c" "c \<notin> {CHR '']'', CHR ''}'', CHR '',''}"
      using printed_head [of "d - 1" j0] JArr.prems(1) Cons by auto
    define t where "t = join '','' (map print_json js) @ CHR '']'' # r"
    obtain v where t: "t = c # v" using cu Cons that
      by (cases "js0 = []") (simp_all add: t_def join_Cons)
    have "items_lit (\<lambda>t. value_lit (d - 1) t) (CHR '']'') (length t) t = Some (js, r)"
      unfolding t_def
    proof (rule items_lit_join)
      show "length js \<le> length (join '','' (map print_json js) @ CHR '']'' # r)"
        using length_join_items [OF ne] by simp
      fix x t assume "x \<in> set js" "delim t"
      then show "value_lit (d - 1) (print_json x @ t) = Some (x, t)"
        using JArr.IH [of x] JArr.prems(1) by simp
    qed (use Cons in \<open>simp_all add: json_space_def\<close>)
    then have "value_lit d (CHR ''['' # t) = Some (JArr js, r)"
      using JArr.prems(1) t cu by (subst value_lit.simps) (simp add: skip_space_id json_space_def)
    then show ?thesis by (simp add: t_def)
  qed
next
  case (JObj kvs)
  let ?f = "\<lambda>kv. json_string (fst kv) @ '':'' @ print_json (snd kv)"
  show ?case
  proof (cases kvs)
    case Nil
    then show ?thesis using JObj.prems by (subst value_lit.simps) (simp add: skip_space_id json_space_def)
  next
    case (Cons kv0 kvs0)
    define t where "t = join '','' (map ?f kvs) @ CHR ''}'' # r"
    obtain v where t: "t = QUOTE # v" using Cons that
      by (cases "kvs0 = []") (simp_all add: t_def join_Cons json_string_def)
    have "items_lit (member_lit (\<lambda>t. value_lit (d - 1) t)) (CHR ''}'') (length t) t = Some (kvs, r)"
      unfolding t_def
    proof (rule items_lit_join)
      show "length kvs \<le> length (join '','' (map ?f kvs) @ CHR ''}'' # r)"
        using length_join_items [of kvs ?f] by (simp add: json_string_def)
      fix x t assume "x \<in> set kvs" "delim t"
      moreover from this have "utf8_ok (fst x)" "value_ok (d - 1) (snd x)" using JObj.prems(1) by auto
      ultimately show "member_lit (\<lambda>t. value_lit (d - 1) t) (?f x @ t) = Some (x, t)"
        using member_lit_print [of x] JObj.IH [of x "snd x"] by (auto simp: snds.simps)
    qed (use Cons in \<open>simp_all add: json_space_def\<close>)
    then have "value_lit d (CHR ''{'' # t) = Some (JObj kvs, r)"
      using JObj.prems(1) t by (subst value_lit.simps) (simp add: skip_space_id json_space_def obj_of_distinct)
    then show ?thesis by (simp add: t_def)
  qed
qed (subst value_lit.simps; simp add: skip_space_id json_space_def word_lit_def has_prefix_def)+

section \<open>Decoded values\<close>

lemma items_lit_Some: "items_lit p z n s = Some (xs, r) \<Longrightarrow> x \<in> set xs \<Longrightarrow> \<exists>t u. p t = Some (x, u)"
proof (induction n arbitrary: s xs)
  case (Suc n)
  then obtain y q where y: "p s = Some (y, q)" by (auto split: option.split_asm)
  then consider "xs = [y]" | t ys where "xs = y # ys" "items_lit p z n t = Some (ys, r)"
    using Suc.prems(1) by (auto split: list.split_asm if_split_asm)
  then show ?case using Suc.IH Suc.prems(2) y by cases auto
qed simp

lemma member_lit_Some:
  assumes "member_lit p s = Some (kv, r)"
  shows "utf8_ok (fst kv) \<and> (\<exists>t u. p t = Some (snd kv, u))"
proof -
  obtain cs k t u v q where "str_lit cs = Some (k, t)" "p u = Some (v, q)" "kv = (k, v)"
    using assms by (auto simp: member_lit_def split: list.split_asm if_split_asm option.split_asm)
  then show ?thesis using str_lit_utf8 by auto
qed

lemma obj_of_facts: "distinct (map fst (obj_of kvs)) \<and> set (obj_of kvs) \<subseteq> set kvs"
proof (induction kvs rule: rev_induct)
  case (snoc kv kvs)
  have "set (AList.update k v m) \<subseteq> insert (k, v) (set m)" for k :: string and v :: json and m
    by (induction m) auto
  from this [of "fst kv" "snd kv" "obj_of kvs"] snoc show ?case
    by (auto simp: obj_of_def distinct_update)
qed (simp add: obj_of_def)

lemma num_lit_ok: "num_lit s = Some (t, r) \<Longrightarrow> number_ok t"
  using num_lit_Some [of s t r] by (auto simp: number_ok_def delim_def dest: spec [where x = "[]"])

lemma value_lit_ok: "value_lit d s = Some (j, r) \<Longrightarrow> value_ok d j"
proof (induction "nat d" arbitrary: d s j r rule: less_induct)
  case (less d)
  obtain c cs where s: "skip_space s = c # cs"
    using less.prems by (subst (asm) value_lit.simps) (auto split: list.split_asm)
  note eq = less.prems [unfolded value_lit.simps [of d s] s list.case]
  consider "c = CHR ''{''" | "c = CHR ''[''" | "c \<notin> {CHR ''{'', CHR ''[''}" by blast
  then show ?case
  proof cases
    case 1
    then have d: "0 < d" using eq by (simp split: if_split_asm)
    have "value_ok d (JObj (obj_of kvs))"
      if it: "items_lit (member_lit (\<lambda>t. value_lit (d - 1) t)) (CHR ''}'') (length cs) cs = Some (kvs, r)" for kvs
    proof -
      have "utf8_ok (fst kv) \<and> value_ok (d - 1) (snd kv)" if kv: "kv \<in> set kvs" for kv
      proof -
        obtain t u where m: "member_lit (\<lambda>t. value_lit (d - 1) t) t = Some (kv, u)"
          using items_lit_Some [OF it kv] by blast
        from member_lit_Some [OF m] show ?thesis using less.hyps [of "d - 1"] d by fastforce
      qed
      then show ?thesis using obj_of_facts [of kvs] d by auto
    qed
    then show ?thesis using eq 1 d by (auto split: list.split_asm if_split_asm)
  next
    case 2
    then have d: "0 < d" using eq by (simp split: if_split_asm)
    have "value_ok (d - 1) x"
      if "items_lit (\<lambda>t. value_lit (d - 1) t) (CHR '']'') (length cs) cs = Some (js, r)" "x \<in> set js" for js x
      using items_lit_Some [OF that] less.hyps [of "d - 1"] d by fastforce
    then show ?thesis using eq 2 d by (auto split: list.split_asm if_split_asm)
  next
    case 3
    then show ?thesis using eq num_lit_ok [of "c # cs"] str_lit_utf8 [of cs]
      by (auto simp: word_lit_def split: if_split_asm)
  qed
qed

lemma value_ok_jwf: "value_ok d j \<Longrightarrow> jwf j"
proof (induction j arbitrary: d)
  case (JNum t)
  then show ?case using num_lit_Some [of t t "[]"] by (simp add: number_ok_def)
next
  case (JObj kvs)
  then show ?case by (auto simp: snds.simps)
qed auto

lemma value_ok_jnorm: "value_ok d j \<Longrightarrow> value_ok d (jnorm j)"
proof (induction j arbitrary: d)
  case (JObj kvs)
  have "distinct (map fst (sort_key fst kvs))"
    using JObj.prems by (metis mset_eq_imp_distinct_iff mset_map mset_sort value_ok.simps(6))
  then show ?case using JObj by (auto simp: sort_key_map_snd comp_def snds.simps)
qed auto

lemma Decode_ok: "Decode s = Some v \<Longrightarrow> value_ok max_nesting v"
  by (auto simp: Decode_def dest: value_lit_ok)

lemma Unmarshal_Decode: "Unmarshal s = Some v \<Longrightarrow> Decode s = Some v"
  by (auto simp: Decode_def Unmarshal_def split: option.split_asm if_split_asm)

lemma value_ok_canonical: "value_ok max_nesting v \<Longrightarrow> value_ok max_nesting (canonical_value v)"
  by (simp add: canonical_value_def value_ok_jnorm max_nesting_def)

lemma Decode_print:
  "value_ok max_nesting v \<Longrightarrow> delim r \<Longrightarrow> Decode (print_json v @ r) = Some v"
  by (simp add: Decode_def value_lit_print)

text \<open>
  C38: decoding the canonical encoding of any decoded request body gives the same value back, with
  the keys of its objects in order, whatever follows the encoding in the stream.
\<close>
theorem canonical_json_roundtrip:
  assumes "Decode body = Some v" "delim rest"
  shows "Decode (CanonicalJSON v @ rest) = Some (canonical_value v)"
  unfolding CanonicalJSON_eq
  using Decode_print [OF value_ok_canonical [OF Decode_ok [OF assms(1)]] assms(2)] .

definition pair_body :: string where
  "pair_body = ''{ '' @ [QUOTE] @ ''b'' @ [QUOTE] @ '': [1, 2.5e3 ], '' @ [QUOTE] @ ''a'' @ [QUOTE] @ '':'' @
     [QUOTE, BSL] @ ''u00e9'' @ [QUOTE] @ ''}''"

definition pair_value :: json where
  "pair_value = JObj [(''b'', JArr [JNum ''1'', JNum ''2.5e3'']), (''a'', JStr [CHR 0xC3, CHR 0xA9])]"

lemma pair_body_decodes: "Decode pair_body = Some pair_value"
  by code_simp

theorem canonical_json_roundtrip_witness:
  "Decode (CanonicalJSON pair_value @ '' rest'') = Some (canonical_value pair_value)"
  by (rule canonical_json_roundtrip [OF pair_body_decodes]) simp


end
