(* ===== verification/Domain.thy ===== *)
theory Domain
  imports Json
begin

text \<open>
  internal/domain: event kinds, subject kinds, the lifecycle of a work item, sources, review
  statuses, tokens, work items, node ids and cross-node references.  Go's string types stay
  strings, because the code converts arbitrary strings to them and checks \<open>Valid\<close> afterwards.
  \<open>ext\<close> collects the external functions that the program calls: the digest of crypto/sha256, the
  functions of github.com/google/uuid and the RFC 3339 rendering of a time.
\<close>

record ext =
  sha256 :: "string \<Rightarrow> string"
  uuid_string :: "uuid \<Rightarrow> string"
  uuid_parse :: "string \<Rightarrow> uuid option"
  uuid_sha1 :: "uuid \<Rightarrow> string \<Rightarrow> uuid"
  time_format :: "time \<Rightarrow> string"
  time_parse :: "string \<Rightarrow> time option"

text \<open>Documented behaviour of the external functions: Parse inverts String, and so on.\<close>

definition ext_ok :: "ext \<Rightarrow> bool" where
  "ext_ok E \<longleftrightarrow>
     (\<forall>u. uuid_parse E (uuid_string E u) = Some u) \<and>
     (\<forall>b. length (sha256 E b) = 32) \<and>
     (\<forall>t. 1000 dvd t \<longrightarrow> time_parse E (time_format E t) = Some t)"

text \<open>uuid.NameSpaceURL of the library.\<close>

definition NameSpaceURL :: uuid where
  "NameSpaceURL = 0x6ba7b8119dad11d180b400c04fd430c8"

section \<open>Event and subject kinds\<close>

abbreviation EventTokenCreated :: string where "EventTokenCreated \<equiv> ''token.created''"
abbreviation EventTokenRevoked :: string where "EventTokenRevoked \<equiv> ''token.revoked''"
abbreviation EventIdempotencyRecorded :: string where "EventIdempotencyRecorded \<equiv> ''idempotency.recorded''"
abbreviation EventMessageCaptured :: string where "EventMessageCaptured \<equiv> ''message.captured''"
abbreviation EventWorkItemCreated :: string where "EventWorkItemCreated \<equiv> ''work_item.created''"
abbreviation EventWorkItemTransitioned :: string where "EventWorkItemTransitioned \<equiv> ''work_item.transitioned''"
abbreviation EventWorkItemEventAppended :: string where "EventWorkItemEventAppended \<equiv> ''work_item.event_appended''"
abbreviation EventWorkItemRelationAdded :: string where "EventWorkItemRelationAdded \<equiv> ''work_item.relation_added''"
abbreviation EventWorkItemMetadataUpdated :: string where "EventWorkItemMetadataUpdated \<equiv> ''work_item.metadata_updated''"
abbreviation EventXylemExhausted :: string where "EventXylemExhausted \<equiv> ''xylem.exhausted''"
abbreviation EventSignalReceived :: string where "EventSignalReceived \<equiv> ''signal.received''"
abbreviation EventDeterministicErrorReported :: string where "EventDeterministicErrorReported \<equiv> ''deterministic_error.reported''"
abbreviation EventDeterministicErrorMasked :: string where "EventDeterministicErrorMasked \<equiv> ''deterministic_error.masked''"
abbreviation EventDeterministicErrorUnmasked :: string where "EventDeterministicErrorUnmasked \<equiv> ''deterministic_error.unmasked''"
abbreviation EventEscalationRequested :: string where "EventEscalationRequested \<equiv> ''escalation.requested''"
abbreviation EventSubactorGrantRequested :: string where "EventSubactorGrantRequested \<equiv> ''subactor_grant.requested''"
abbreviation EventSubactorGrantGranted :: string where "EventSubactorGrantGranted \<equiv> ''subactor_grant.granted''"
abbreviation EventSubactorGrantDenied :: string where "EventSubactorGrantDenied \<equiv> ''subactor_grant.denied''"
abbreviation EventSubactorGrantEscalated :: string where "EventSubactorGrantEscalated \<equiv> ''subactor_grant.escalated''"
abbreviation EventCultivarActivationRequested :: string where "EventCultivarActivationRequested \<equiv> ''cultivar_activation.requested''"
abbreviation EventCultivarActivationGranted :: string where "EventCultivarActivationGranted \<equiv> ''cultivar_activation.granted''"
abbreviation EventCultivarActivationDenied :: string where "EventCultivarActivationDenied \<equiv> ''cultivar_activation.denied''"
abbreviation EventCultivarActivationEscalated :: string where "EventCultivarActivationEscalated \<equiv> ''cultivar_activation.escalated''"
abbreviation EventApprovalCreated :: string where "EventApprovalCreated \<equiv> ''approval.created''"
abbreviation EventApprovalDecided :: string where "EventApprovalDecided \<equiv> ''approval.decided''"
abbreviation EventApprovalExpired :: string where "EventApprovalExpired \<equiv> ''approval.expired''"
abbreviation EventHTTPConnectorActionRequested :: string where "EventHTTPConnectorActionRequested \<equiv> ''http_connector.action_requested''"
abbreviation EventHTTPConnectorActionApproved :: string where "EventHTTPConnectorActionApproved \<equiv> ''http_connector.action_approved''"
abbreviation EventHTTPConnectorActionSent :: string where "EventHTTPConnectorActionSent \<equiv> ''http_connector.action_sent''"
abbreviation EventPatienceBreached :: string where "EventPatienceBreached \<equiv> ''patience.breached''"
abbreviation EventConvergenceVerdictRecorded :: string where "EventConvergenceVerdictRecorded \<equiv> ''convergence.verdict_recorded''"
abbreviation EventConvergenceChecksProposed :: string where "EventConvergenceChecksProposed \<equiv> ''convergence.checks_proposed''"
abbreviation EventDispatchRequested :: string where "EventDispatchRequested \<equiv> ''dispatch.requested''"
abbreviation EventPolicyProfileSwitched :: string where "EventPolicyProfileSwitched \<equiv> ''policy_profile.switched''"
abbreviation EventTropismDefined :: string where "EventTropismDefined \<equiv> ''tropism.defined''"
abbreviation EventCultivarDefined :: string where "EventCultivarDefined \<equiv> ''cultivar.defined''"
abbreviation EventProjectionDefined :: string where "EventProjectionDefined \<equiv> ''projection.defined''"
abbreviation EventNodeRegistered :: string where "EventNodeRegistered \<equiv> ''node.registered''"
abbreviation EventNodeRouteUpdated :: string where "EventNodeRouteUpdated \<equiv> ''node.route_updated''"
abbreviation EventCommandQueued :: string where "EventCommandQueued \<equiv> ''command.queued''"
abbreviation EventCommandAcked :: string where "EventCommandAcked \<equiv> ''command.acked''"

definition AllEventKinds :: "string list" where
  "AllEventKinds =
    [EventTokenCreated, EventTokenRevoked, EventIdempotencyRecorded, EventMessageCaptured,
     EventWorkItemCreated, EventWorkItemTransitioned, EventWorkItemEventAppended,
     EventWorkItemRelationAdded, EventWorkItemMetadataUpdated, EventXylemExhausted,
     EventSignalReceived, EventDeterministicErrorReported, EventDeterministicErrorMasked,
     EventDeterministicErrorUnmasked, EventEscalationRequested, EventSubactorGrantRequested,
     EventSubactorGrantGranted, EventSubactorGrantDenied, EventSubactorGrantEscalated,
     EventCultivarActivationRequested, EventCultivarActivationGranted,
     EventCultivarActivationDenied, EventCultivarActivationEscalated, EventApprovalCreated,
     EventApprovalDecided, EventApprovalExpired, EventHTTPConnectorActionRequested,
     EventHTTPConnectorActionApproved, EventHTTPConnectorActionSent, EventPatienceBreached,
     EventConvergenceVerdictRecorded, EventConvergenceChecksProposed, EventDispatchRequested,
     EventPolicyProfileSwitched, EventTropismDefined, EventCultivarDefined,
     EventProjectionDefined, EventNodeRegistered, EventNodeRouteUpdated, EventCommandQueued,
     EventCommandAcked]"

abbreviation SubjectToken :: string where "SubjectToken \<equiv> ''token''"
abbreviation SubjectIdempotencyKey :: string where "SubjectIdempotencyKey \<equiv> ''idempotency_key''"
abbreviation SubjectMessage :: string where "SubjectMessage \<equiv> ''message''"
abbreviation SubjectWorkItem :: string where "SubjectWorkItem \<equiv> ''work_item''"
abbreviation SubjectSignal :: string where "SubjectSignal \<equiv> ''signal''"
abbreviation SubjectDeterministicError :: string where "SubjectDeterministicError \<equiv> ''deterministic_error''"
abbreviation SubjectEscalation :: string where "SubjectEscalation \<equiv> ''escalation''"
abbreviation SubjectSubactorGrant :: string where "SubjectSubactorGrant \<equiv> ''subactor_grant''"
abbreviation SubjectCultivarActivation :: string where "SubjectCultivarActivation \<equiv> ''cultivar_activation''"
abbreviation SubjectApproval :: string where "SubjectApproval \<equiv> ''approval''"
abbreviation SubjectHTTPConnectorAction :: string where "SubjectHTTPConnectorAction \<equiv> ''http_connector_action''"
abbreviation SubjectTropism :: string where "SubjectTropism \<equiv> ''tropism''"
abbreviation SubjectCultivar :: string where "SubjectCultivar \<equiv> ''cultivar''"
abbreviation SubjectProjection :: string where "SubjectProjection \<equiv> ''projection''"
abbreviation SubjectConvergence :: string where "SubjectConvergence \<equiv> ''convergence''"
abbreviation SubjectPolicyProfile :: string where "SubjectPolicyProfile \<equiv> ''policy_profile''"
abbreviation SubjectNode :: string where "SubjectNode \<equiv> ''node''"

section \<open>Sources, verdicts, tokens\<close>

abbreviation SourceHuman :: string where "SourceHuman \<equiv> ''human''"
abbreviation SourceAgent :: string where "SourceAgent \<equiv> ''agent''"
abbreviation SourceSystem :: string where "SourceSystem \<equiv> ''system''"

definition source_valid :: "string \<Rightarrow> bool" where
  "source_valid s \<longleftrightarrow> s = SourceHuman \<or> s = SourceAgent \<or> s = SourceSystem"

abbreviation VerdictAccept :: string where "VerdictAccept \<equiv> ''accept''"
abbreviation VerdictReject :: string where "VerdictReject \<equiv> ''reject''"
abbreviation VerdictEscalate :: string where "VerdictEscalate \<equiv> ''escalate''"

definition verdict_valid :: "string \<Rightarrow> bool" where
  "verdict_valid v \<longleftrightarrow> v = VerdictAccept \<or> v = VerdictReject \<or> v = VerdictEscalate"

record token =
  tok_id :: uuid
  tok_name :: string
  tok_hash :: string
  tok_is_root :: bool
  tok_scopes :: "string list"
  tok_source :: string
  tok_created_at :: time
  tok_revoked_at :: "time option"

definition severity_valid :: "string \<Rightarrow> bool" where
  "severity_valid s \<longleftrightarrow> s \<in> set [''info'', ''warning'', ''error'', ''critical'']"

section \<open>The work item lifecycle\<close>

abbreviation WorkItemCaptured :: string where "WorkItemCaptured \<equiv> ''captured''"
abbreviation WorkItemTriaged :: string where "WorkItemTriaged \<equiv> ''triaged''"
abbreviation WorkItemPlanned :: string where "WorkItemPlanned \<equiv> ''planned''"
abbreviation WorkItemAwaitingApproval :: string where "WorkItemAwaitingApproval \<equiv> ''awaiting_approval''"
abbreviation WorkItemRunning :: string where "WorkItemRunning \<equiv> ''running''"
abbreviation WorkItemBlocked :: string where "WorkItemBlocked \<equiv> ''blocked''"
abbreviation WorkItemDone :: string where "WorkItemDone \<equiv> ''done''"
abbreviation WorkItemFailed :: string where "WorkItemFailed \<equiv> ''failed''"
abbreviation WorkItemCanceled :: string where "WorkItemCanceled \<equiv> ''canceled''"

definition state_valid :: "string \<Rightarrow> bool" where
  "state_valid s \<longleftrightarrow> s \<in> set [WorkItemCaptured, WorkItemTriaged, WorkItemPlanned,
     WorkItemAwaitingApproval, WorkItemRunning, WorkItemBlocked, WorkItemDone, WorkItemFailed,
     WorkItemCanceled]"

definition state_terminal :: "string \<Rightarrow> bool" where
  "state_terminal s \<longleftrightarrow> s \<in> set [WorkItemDone, WorkItemFailed, WorkItemCanceled]"

definition CanTransition :: "string \<Rightarrow> string \<Rightarrow> bool" where
  "CanTransition frm dest =
     (if \<not> state_valid frm \<or> \<not> state_valid dest then False
      else if frm = dest then True
      else if state_terminal frm then False
      else True)"

abbreviation HumanReviewBlocked :: string where "HumanReviewBlocked \<equiv> ''blocked''"
abbreviation HumanReviewWavedThrough :: string where "HumanReviewWavedThrough \<equiv> ''waved_through''"
abbreviation HumanReviewApproved :: string where "HumanReviewApproved \<equiv> ''approved''"

definition human_review_valid :: "string \<Rightarrow> bool" where
  "human_review_valid s \<longleftrightarrow>
     s = HumanReviewBlocked \<or> s = HumanReviewWavedThrough \<or> s = HumanReviewApproved"

abbreviation EscalationRuleHandToHuman :: string where "EscalationRuleHandToHuman \<equiv> ''hand_to_human''"

definition escalation_rule_valid :: "string \<Rightarrow> bool" where
  "escalation_rule_valid r \<longleftrightarrow> r = EscalationRuleHandToHuman"

record work_item =
  wi_id :: uuid
  wi_title :: string
  wi_body :: string
  wi_state :: string
  wi_state_reason :: "string option"
  wi_checks :: "string list"
  wi_human_review :: string
  wi_created_by :: "uuid option"
  wi_created_at :: time
  wi_state_entered_at :: time
  wi_updated_at :: time

text \<open>The run of a work item: each transition must be allowed from the state it leaves.\<close>

inductive lifecycle :: "string \<Rightarrow> string \<Rightarrow> bool" where
  stay: "state_valid s \<Longrightarrow> lifecycle s s"
| move: "lifecycle s t \<Longrightarrow> CanTransition t u \<Longrightarrow> lifecycle s u"

lemma CanTransition_terminal: "CanTransition s t \<Longrightarrow> state_terminal s \<Longrightarrow> t = s"
  by (auto simp: CanTransition_def split: if_splits)

lemma CanTransition_valid: "CanTransition s t \<Longrightarrow> state_valid s \<and> state_valid t"
  by (auto simp: CanTransition_def split: if_splits)

lemma lifecycle_terminal: "lifecycle s t \<Longrightarrow> state_terminal s \<Longrightarrow> t = s"
  by (induction rule: lifecycle.induct) (auto dest: CanTransition_terminal)

section \<open>Node ids and cross-node references\<close>

definition MaxNodeIDLen :: nat where
  "MaxNodeIDLen = 32"

definition node_id_char :: "char \<Rightarrow> bool" where
  "node_id_char r \<longleftrightarrow>
     (CHR ''a'' \<le> r \<and> r \<le> CHR ''z'') \<or> (CHR ''0'' \<le> r \<and> r \<le> CHR ''9'') \<or> r = CHR ''-''"

definition ValidNodeID :: "string \<Rightarrow> bool" where
  "ValidNodeID s =
     (if length s = 0 \<or> length s > MaxNodeIDLen then False
      else if s ! 0 = CHR ''-'' \<or> s ! (length s - 1) = CHR ''-'' then False
      else list_all node_id_char s)"

definition ParseQualifiedRef :: "ext \<Rightarrow> string \<Rightarrow> (string \<times> uuid) option" where
  "ParseQualifiedRef E ref =
     (case cut CHR '':'' ref of
        Some (pre, rest) \<Rightarrow>
          (case uuid_parse E rest of
             None \<Rightarrow> None
           | Some parsed \<Rightarrow> if \<not> ValidNodeID pre then None else Some (pre, parsed))
      | None \<Rightarrow> map_option (\<lambda>parsed. ([], parsed)) (uuid_parse E ref))"

definition FormatQualifiedRef :: "ext \<Rightarrow> string \<Rightarrow> uuid \<Rightarrow> string" where
  "FormatQualifiedRef E nodeID uid =
     (if nodeID = [] then uuid_string E uid else nodeID @ '':'' @ uuid_string E uid)"

lemma ValidNodeID_no_colon: "ValidNodeID s \<Longrightarrow> CHR '':'' \<notin> set s"
  by (auto simp: ValidNodeID_def list_all_iff node_id_char_def less_eq_char_def split: if_splits)

lemma ValidNodeID_nonempty: "ValidNodeID s \<Longrightarrow> s \<noteq> []"
  by (auto simp: ValidNodeID_def)

section \<open>A concrete instance of the external functions\<close>

text \<open>
  One concrete choice of the external functions, on which theorems that hold for any such functions are
  applied: a digest that holds the length of its input, decimal UUIDs and decimal times.
\<close>

definition decimal_ext :: ext where
  "decimal_ext = \<lparr>sha256 = (\<lambda>s. replicate 15 CHR 0x00 @ [char_of (length s)] @ replicate 16 CHR 0x00),
     uuid_string = (\<lambda>u. nat_str (unat u)), uuid_parse = (\<lambda>s. map_option of_nat (parse_nat s)),
     uuid_sha1 = (\<lambda>ns s. of_nat (length s + 1)),
     time_format = itoa, time_parse = parse_int\<rparr>"

lemma decimal_ext_ok: "ext_ok decimal_ext"
  by (simp add: ext_ok_def decimal_ext_def)

lemma decimal_ext_sel [simp]:
  "uuid_string decimal_ext u = nat_str (unat u)"
  "uuid_parse decimal_ext s = map_option of_nat (parse_nat s)"
  "uuid_sha1 decimal_ext ns s = of_nat (length s + 1)"
  "time_format decimal_ext = itoa" "time_parse decimal_ext = parse_int"
  by (simp_all add: decimal_ext_def)

section \<open>Properties of references\<close>

text \<open>
  Parsing undoes formatting for every reference the program can form, a bare UUID or a UUID
  under a valid node id.
\<close>

theorem qualified_ref_roundtrip:
  assumes "ext_ok E" "n = [] \<or> ValidNodeID n"
    and "\<And>v. CHR '':'' \<notin> set (uuid_string E v)"
  shows "ParseQualifiedRef E (FormatQualifiedRef E n u) = Some (n, u)"
proof (cases "n = []")
  case True
  have "cut CHR '':'' (uuid_string E u) = None" using assms(3) by (simp add: cut_None_iff)
  with True assms(1) show ?thesis
    by (simp add: ParseQualifiedRef_def FormatQualifiedRef_def ext_ok_def)
next
  case False
  with assms(2) have n: "ValidNodeID n" by simp
  then have "cut CHR '':'' (n @ CHR '':'' # uuid_string E u) = Some (n, uuid_string E u)"
    by (intro cut_append ValidNodeID_no_colon)
  with n False assms(1) show ?thesis
    by (simp add: ParseQualifiedRef_def FormatQualifiedRef_def ext_ok_def)
qed

lemma nat_str_no_colon: "CHR '':'' \<notin> set (nat_str n)"
proof
  assume "CHR '':'' \<in> set (nat_str n)"
  then obtain a b where ab: "nat_str n = a @ CHR '':'' # b" by (auto dest: split_list)
  have "parse_digits 0 (nat_str n) = Some n" by (rule parse_digits_nat_str)
  then show False
    by (auto simp: ab parse_digits_append char_digit_def split: option.splits)
qed

theorem qualified_ref_roundtrip_witness:
  "ParseQualifiedRef decimal_ext (FormatQualifiedRef decimal_ext ''edge-1'' 7) = Some (''edge-1'', 7)"
proof (rule qualified_ref_roundtrip [OF decimal_ext_ok])
  show "''edge-1'' = [] \<or> ValidNodeID ''edge-1''" by code_simp
  show "CHR '':'' \<notin> set (uuid_string decimal_ext v)" for v by (simp add: nat_str_no_colon)
qed

text \<open>
  A successful parse of a qualified reference yields a node id that is empty or valid, so
  that no two of its references are confused: formatting the result and parsing again is stable.
\<close>

theorem parsed_ref_is_canonical:
  assumes "ParseQualifiedRef E r = Some (n, u)"
  shows "(n = [] \<longrightarrow> uuid_parse E r = Some u) \<and>
    (n \<noteq> [] \<longrightarrow> ValidNodeID n \<and> (\<exists>s. r = n @ '':'' @ s \<and> uuid_parse E s = Some u))"
  using assms
  by (auto simp: ParseQualifiedRef_def dest: cut_Some ValidNodeID_nonempty
      split: option.splits if_splits)

theorem parsed_ref_is_canonical_witness:
  "ValidNodeID ''edge-1'' \<and>
    (\<exists>s. ''edge-1:7'' = ''edge-1'' @ '':'' @ s \<and> uuid_parse decimal_ext s = Some 7)"
proof -
  have "ParseQualifiedRef decimal_ext ''edge-1:7'' = Some (''edge-1'', 7)" by code_simp
  from parsed_ref_is_canonical [OF this] show ?thesis by blast
qed

end
