(* ===== verification/Events.thy ===== *)
theory Events
  imports Domain
begin

text \<open>
  internal/events and internal/projections: the deterministic identity of an event, the only
  write path into the log (Writer.Append), the projector registry that derives tables from
  events, and the fold of the log that cmd/meristem/rebuild.go performs.  The log is the list of
  rows of the events table in the order of its seq column, the tables are a value of type 'p.
\<close>

unbundle bit_operations_syntax

record spec =
  sp_subject_kind :: string
  sp_subject_id :: uuid
  sp_kind :: string
  sp_source :: string
  sp_actor :: "uuid option"
  sp_payload :: json
  sp_discriminator :: string

record event =
  ev_id :: uuid
  ev_occurred_at :: time
  ev_actor :: "uuid option"
  ev_source :: string
  ev_subject_kind :: string
  ev_subject_id :: uuid
  ev_kind :: string
  ev_payload :: json

section \<open>The bytes of a UUID\<close>

fun digits256 :: "nat \<Rightarrow> nat \<Rightarrow> nat list" where
  "digits256 0 n = []"
| "digits256 (Suc k) n = digits256 k (n div 256) @ [n mod 256]"

definition undigits256 :: "nat list \<Rightarrow> nat" where
  "undigits256 ds = foldl (\<lambda>a d. a * 256 + d) 0 ds"

definition uuid_bytes :: "uuid \<Rightarrow> string" where
  "uuid_bytes u = map char_of (digits256 16 (unat u))"

definition bytes_uuid :: "string \<Rightarrow> uuid" where
  "bytes_uuid bs = of_nat (undigits256 (map of_char bs))"

lemma length_digits256 [simp]: "length (digits256 k n) = k"
  by (induction k arbitrary: n) auto

lemma digits256_less: "d \<in> set (digits256 k n) \<Longrightarrow> d < 256"
  by (induction k arbitrary: n) auto

lemma map_of_char_digits [simp]:
  "map (of_char :: char \<Rightarrow> nat) (map char_of (digits256 k n)) = digits256 k n"
  unfolding map_map by (rule map_idI) (use digits256_less [of _ k n] in auto)

lemma undigits_digits: "undigits256 (digits256 k n) = n mod 256 ^ k"
proof (induction k arbitrary: n)
  case (Suc k)
  have "undigits256 (digits256 (Suc k) n) = undigits256 (digits256 k (n div 256)) * 256 + n mod 256"
    by (simp add: undigits256_def)
  also have "\<dots> = n mod 256 ^ Suc k"
    by (simp add: Suc.IH mod_mult2_eq mult.commute)
  finally show ?case .
qed (simp add: undigits256_def)

lemma digits_undigits:
  "\<forall>d \<in> set ds. d < 256 \<Longrightarrow> digits256 (length ds) (undigits256 ds) = ds"
  by (induction ds rule: rev_induct) (auto simp: undigits256_def)

lemma undigits256_less:
  "\<forall>d \<in> set ds. d < 256 \<Longrightarrow> undigits256 ds < 256 ^ length ds"
proof (induction ds rule: rev_induct)
  case (snoc d ds)
  then have "undigits256 ds + 1 \<le> 256 ^ length ds" "d < 256" by auto
  then have "(undigits256 ds + 1) * 256 \<le> 256 ^ length ds * 256" by (intro mult_right_mono) auto
  then show ?case using \<open>d < 256\<close> by (simp add: undigits256_def)
qed (simp add: undigits256_def)

lemma length_uuid_bytes [simp]: "length (uuid_bytes u) = 16"
  by (simp add: uuid_bytes_def)

lemma bytes_uuid_bytes [simp]: "bytes_uuid (uuid_bytes u) = u"
proof -
  have "map of_char (uuid_bytes u) = digits256 16 (unat u)"
    unfolding uuid_bytes_def map_map
    by (rule map_idI) (use digits256_less [of _ 16 "unat u"] in auto)
  moreover have "unat u < 256 ^ 16" by (rule order.strict_trans2 [OF unsigned_less]) simp
  ultimately show ?thesis by (simp add: bytes_uuid_def undigits_digits)
qed

lemma uuid_bytes_inject [simp]: "uuid_bytes u = uuid_bytes v \<longleftrightarrow> u = v"
  by (metis bytes_uuid_bytes)

lemma uuid_bytes_uuid:
  assumes "length bs = 16"
  shows "uuid_bytes (bytes_uuid bs) = bs"
proof -
  let ?ds = "map of_char bs :: nat list"
  have small: "\<forall>d \<in> set ?ds. d < 256" by auto
  have "undigits256 ?ds < 2 ^ 128" using undigits256_less [OF small] assms by simp
  then have "unat (bytes_uuid bs) = undigits256 ?ds"
    by (simp add: bytes_uuid_def unat_of_nat take_bit_nat_eq_self flip: take_bit_eq_mod)
  then have "uuid_bytes (bytes_uuid bs) = map char_of ?ds"
    using digits_undigits [OF small] assms by (simp add: uuid_bytes_def)
  also have "\<dots> = bs" by (simp add: map_idI)
  finally show ?thesis .
qed

section \<open>Event identity\<close>

definition spec_validate :: "spec \<Rightarrow> err option" where
  "spec_validate s =
     (if sp_subject_kind s = [] then Some (Err [] ''events: SubjectKind is required'')
      else if sp_subject_id s = uuid_nil then Some (Err [] ''events: SubjectID is required'')
      else if sp_kind s = [] then Some (Err [] ''events: Kind is required'')
      else if \<not> source_valid (sp_source s)
        then Some (Err [] (''events: Source '' @ quote (sp_source s) @
          '' is not one of human|agent|system''))
      else None)"

text \<open>The bytes that are written to the digest.\<close>

definition id_preimage :: "spec \<Rightarrow> string" where
  "id_preimage s =
     sp_subject_kind s @ '':'' @ uuid_bytes (sp_subject_id s) @ '':'' @ sp_kind s @ '':'' @
     CanonicalJSON (sp_payload s) @
     (if sp_discriminator s \<noteq> [] then '':'' @ sp_discriminator s else [])"

definition stamp_version :: "char \<Rightarrow> char" where
  "stamp_version c = char_of (unat (((of_char c :: 8 word) AND 0x0f) OR 0x50))"

definition stamp_variant :: "char \<Rightarrow> char" where
  "stamp_variant c = char_of (unat (((of_char c :: 8 word) AND 0x3f) OR 0x80))"

definition stamp_id :: "string \<Rightarrow> string" where
  "stamp_id bs = bs[6 := stamp_version (bs ! 6), 8 := stamp_variant (bs ! 8)]"

definition DeterministicID :: "ext \<Rightarrow> spec \<Rightarrow> err + uuid" where
  "DeterministicID E s =
     (case spec_validate s of
        Some e \<Rightarrow> Inl e
      | None \<Rightarrow> Inr (bytes_uuid (stamp_id (take 16 (sha256 E (id_preimage s))))))"

section \<open>The registry of projectors\<close>

type_synonym 'p projector = "string \<times> (event \<Rightarrow> 'p \<Rightarrow> err + 'p)"

fun apply_all :: "(event \<Rightarrow> 'p \<Rightarrow> err + 'p) list \<Rightarrow> event \<Rightarrow> 'p \<Rightarrow> err + 'p" where
  "apply_all [] ev p = Inr p"
| "apply_all (f # fs) ev p = (case f ev p of Inl e \<Rightarrow> Inl e | Inr p' \<Rightarrow> apply_all fs ev p')"

definition registry_apply :: "'p projector list \<Rightarrow> event \<Rightarrow> 'p \<Rightarrow> err + 'p" where
  "registry_apply reg ev p =
     apply_all (map snd (filter (\<lambda>pr. fst pr = ev_kind ev) reg)) ev p"

section \<open>The log, Append and the rebuild\<close>

record 'p store =
  log :: "event list"
  proj :: 'p

definition stored_payload :: "json \<Rightarrow> json" where
  "stored_payload j = (if j = JNull then JObj [] else j)"

definition event_of :: "time \<Rightarrow> uuid \<Rightarrow> spec \<Rightarrow> event" where
  "event_of now i s =
     \<lparr>ev_id = i, ev_occurred_at = now, ev_actor = sp_actor s, ev_source = sp_source s,
      ev_subject_kind = sp_subject_kind s, ev_subject_id = sp_subject_id s,
      ev_kind = sp_kind s, ev_payload = sp_payload s\<rparr>"

definition as_stored :: "event \<Rightarrow> event" where
  "as_stored ev = ev\<lparr>ev_payload := stored_payload (ev_payload ev)\<rparr>"

definition Append ::
  "ext \<Rightarrow> 'p projector list \<Rightarrow> time \<Rightarrow> 'p store \<Rightarrow> spec \<Rightarrow> err + uuid \<times> bool \<times> 'p store"
where
  "Append E reg now st s =
     (case DeterministicID E s of
        Inl e \<Rightarrow> Inl e
      | Inr i \<Rightarrow>
          if i \<in> ev_id ` set (log st) then Inr (i, False, st)
          else (case registry_apply reg (event_of now i s) (proj st) of
                  Inl e \<Rightarrow> Inl e
                | Inr p \<Rightarrow> Inr (i, True,
                    \<lparr>log = log st @ [as_stored (event_of now i s)], proj = p\<rparr>)))"

fun foldEvents :: "'p projector list \<Rightarrow> event list \<Rightarrow> 'p \<Rightarrow> err + 'p" where
  "foldEvents reg [] p = Inr p"
| "foldEvents reg (ev # evs) p =
     (case registry_apply reg ev p of Inl e \<Rightarrow> Inl e | Inr p' \<Rightarrow> foldEvents reg evs p')"

text \<open>
  Operations compose appends in one transaction, which has one clock reading (now()): a run of
  successful appends.
\<close>

inductive appends :: "ext \<Rightarrow> 'p projector list \<Rightarrow> time \<Rightarrow> 'p store \<Rightarrow> 'p store \<Rightarrow> bool"
  for E reg now where
  none: "appends E reg now st st"
| more: "appends E reg now st st' \<Longrightarrow> Append E reg now st' s = Inr (i, fresh, st'') \<Longrightarrow>
    appends E reg now st st''"

text \<open>The history of a database: any number of transactions, at any times.\<close>

inductive history :: "ext \<Rightarrow> 'p projector list \<Rightarrow> 'p \<Rightarrow> 'p store \<Rightarrow> bool"
  for E reg p0 where
  empty: "history E reg p0 \<lparr>log = [], proj = p0\<rparr>"
| commit: "history E reg p0 st \<Longrightarrow> appends E reg now st st' \<Longrightarrow> history E reg p0 st'"

section \<open>Identity\<close>

lemma spec_validate_None:
  "spec_validate s = None \<longleftrightarrow> sp_subject_kind s \<noteq> [] \<and> sp_subject_id s \<noteq> uuid_nil \<and>
     sp_kind s \<noteq> [] \<and> source_valid (sp_source s)"
  by (auto simp: spec_validate_def)

lemma stamp_version_bits: "(of_char (stamp_version c) :: nat) div 16 = 5"
  and stamp_variant_bits: "(of_char (stamp_variant c) :: nat) div 64 = 2"
proof -
  let ?w = "of_char c :: 8 word"
  have less: "unat w < 256" for w :: "8 word"
    by (rule order.strict_trans2 [OF unsigned_less]) simp
  have "(of_char (stamp_version c) :: nat) div 16 = unat (drop_bit 4 ((?w AND 0x0f) OR 0x50))"
    by (simp add: stamp_version_def less unat_div drop_bit_eq_div)
  also have "drop_bit 4 ((?w AND 0x0f) OR 0x50) = 5"
    by (rule bit_word_eqI) (auto simp: bit_simps less_Suc_eq numeral_eq_Suc)
  finally show "(of_char (stamp_version c) :: nat) div 16 = 5" by simp
  have "(of_char (stamp_variant c) :: nat) div 64 = unat (drop_bit 6 ((?w AND 0x3f) OR 0x80))"
    by (simp add: stamp_variant_def less unat_div drop_bit_eq_div)
  also have "drop_bit 6 ((?w AND 0x3f) OR 0x80) = 2"
    by (rule bit_word_eqI) (auto simp: bit_simps less_Suc_eq numeral_eq_Suc)
  finally show "(of_char (stamp_variant c) :: nat) div 64 = 2" by simp
qed

lemma DeterministicID_Inr:
  "(\<exists>i. DeterministicID E s = Inr i) \<longleftrightarrow> spec_validate s = None"
  by (auto simp: DeterministicID_def split: option.splits)

lemma stamp_id_nth:
  assumes "length bs = 16"
  shows "stamp_id bs ! 6 = stamp_version (bs ! 6)" "stamp_id bs ! 8 = stamp_variant (bs ! 8)"
    "length (stamp_id bs) = 16"
  using assms by (simp_all add: stamp_id_def)

lemma DeterministicID_bytes:
  assumes "ext_ok E" "DeterministicID E s = Inr i"
  shows "uuid_bytes i = stamp_id (take 16 (sha256 E (id_preimage s)))"
proof -
  have "length (take 16 (sha256 E (id_preimage s))) = 16"
    using assms(1) by (simp add: ext_ok_def)
  then have "length (stamp_id (take 16 (sha256 E (id_preimage s)))) = 16" by (rule stamp_id_nth)
  then show ?thesis
    using assms(2) by (auto simp: DeterministicID_def uuid_bytes_uuid split: option.splits)
qed

lemma DeterministicID_not_nil:
  assumes "ext_ok E" "DeterministicID E s = Inr i"
  shows "i \<noteq> uuid_nil"
proof
  assume "i = uuid_nil"
  have "length (take 16 (sha256 E (id_preimage s))) = 16"
    using assms(1) by (simp add: ext_ok_def)
  then have "of_char (uuid_bytes i ! 6) div 16 = (5::nat)"
    by (simp add: DeterministicID_bytes [OF assms] stamp_id_nth stamp_version_bits)
  moreover have "of_char (uuid_bytes uuid_nil ! 6) = (0::nat)" by code_simp
  ultimately show False using \<open>i = uuid_nil\<close> by simp
qed

text \<open>
  The parts of the preimage can be read back: the kinds hold no colon, the subject id has a
  fixed length, and the encoding of the payload ends before the discriminator starts.
\<close>

lemma colon_split:
  assumes "a @ CHR '':'' # r = b @ CHR '':'' # q" "CHR '':'' \<notin> set a" "CHR '':'' \<notin> set b"
  shows "a = b \<and> r = q"
proof -
  have "Some (a, r) = Some (b, q)"
    unfolding cut_append [OF assms(2), symmetric] cut_append [OF assms(3), symmetric]
    by (simp only: assms(1))
  then show ?thesis by simp
qed

lemma delim_discriminator:
  "delim (if d \<noteq> [] then '':'' @ d else [])"
  by (auto simp: delim_def)

lemma id_preimage_parts:
  assumes eq: "id_preimage s = id_preimage t"
    and colon: "CHR '':'' \<notin> set (sp_subject_kind s)" "CHR '':'' \<notin> set (sp_subject_kind t)"
      "CHR '':'' \<notin> set (sp_kind s)" "CHR '':'' \<notin> set (sp_kind t)"
    and wf: "jwf (sp_payload s)" "jwf (sp_payload t)"
  shows "sp_subject_kind s = sp_subject_kind t \<and> sp_subject_id s = sp_subject_id t \<and>
    sp_kind s = sp_kind t \<and> canonical_value (sp_payload s) = canonical_value (sp_payload t) \<and>
    sp_discriminator s = sp_discriminator t"
proof -
  let ?tail = "\<lambda>s. if sp_discriminator s \<noteq> [] then '':'' @ sp_discriminator s else []"
  let ?k = "\<lambda>s. sp_kind s @ CHR '':'' # CanonicalJSON (sp_payload s) @ ?tail s"
  have 1: "sp_subject_kind s = sp_subject_kind t \<and>
      uuid_bytes (sp_subject_id s) @ CHR '':'' # ?k s = uuid_bytes (sp_subject_id t) @ CHR '':'' # ?k t"
    by (rule colon_split) (use eq colon in \<open>simp_all add: id_preimage_def\<close>)
  then have 2: "sp_subject_id s = sp_subject_id t \<and> ?k s = ?k t" by simp
  then have 3: "sp_kind s = sp_kind t \<and>
      CanonicalJSON (sp_payload s) @ ?tail s = CanonicalJSON (sp_payload t) @ ?tail t"
    by (intro colon_split) (use colon in simp_all)
  then have "canonical_value (sp_payload s) = canonical_value (sp_payload t) \<and> ?tail s = ?tail t"
    by (intro CanonicalJSON_split) (use wf delim_discriminator in auto)
  with 1 2 3 show ?thesis by (auto split: if_splits)
qed

section \<open>Append\<close>

lemma Append_cases:
  assumes "Append E reg now st s = Inr (i, fresh, st')"
  obtains (replay) "\<not> fresh" "DeterministicID E s = Inr i" "i \<in> ev_id ` set (log st)" "st' = st"
  | (insert) p where "fresh" "DeterministicID E s = Inr i" "i \<notin> ev_id ` set (log st)"
      "registry_apply reg (event_of now i s) (proj st) = Inr p"
      "st' = \<lparr>log = log st @ [as_stored (event_of now i s)], proj = p\<rparr>"
proof -
  obtain j where j: "DeterministicID E s = Inr j"
    using assms by (cases "DeterministicID E s") (simp_all add: Append_def)
  show thesis
  proof (cases "j \<in> ev_id ` set (log st)")
    case True
    with assms j show thesis by (intro replay) (simp_all add: Append_def)
  next
    case False
    with assms j obtain p where p: "registry_apply reg (event_of now j s) (proj st) = Inr p"
      by (cases "registry_apply reg (event_of now j s) (proj st)") (simp_all add: Append_def)
    with assms j False have "i = j" "fresh"
        "st' = \<lparr>log = log st @ [as_stored (event_of now i s)], proj = p\<rparr>"
      by (auto simp: Append_def)
    with j p False show thesis by (intro insert) simp_all
  qed
qed

lemma Append_error:
  "Append E reg now st s = Inl e \<longleftrightarrow>
     spec_validate s = Some e \<or>
     (\<exists>i. DeterministicID E s = Inr i \<and> i \<notin> ev_id ` set (log st) \<and>
        registry_apply reg (event_of now i s) (proj st) = Inl e)"
  by (auto simp: Append_def DeterministicID_def split: sum.splits if_splits option.splits)

lemma as_stored_sel [simp]:
  "ev_id (as_stored ev) = ev_id ev" "ev_kind (as_stored ev) = ev_kind ev"
  "ev_payload (as_stored ev) = stored_payload (ev_payload ev)"
  "ev_subject_id (as_stored ev) = ev_subject_id ev"
  "ev_subject_kind (as_stored ev) = ev_subject_kind ev"
  "ev_actor (as_stored ev) = ev_actor ev" "ev_source (as_stored ev) = ev_source ev"
  "ev_occurred_at (as_stored ev) = ev_occurred_at ev"
  by (simp_all add: as_stored_def)

lemma event_of_sel [simp]:
  "ev_id (event_of now i s) = i" "ev_kind (event_of now i s) = sp_kind s"
  "ev_payload (event_of now i s) = sp_payload s"
  "ev_subject_id (event_of now i s) = sp_subject_id s"
  "ev_subject_kind (event_of now i s) = sp_subject_kind s"
  "ev_actor (event_of now i s) = sp_actor s" "ev_source (event_of now i s) = sp_source s"
  "ev_occurred_at (event_of now i s) = now"
  by (simp_all add: event_of_def)

lemma Append_replay:
  assumes "Append E reg now st s = Inr (i, fresh, st')"
    and "id_preimage t = id_preimage s" and "spec_validate t = None"
  shows "Append E reg now' st' t = Inr (i, False, st')"
proof -
  have i: "DeterministicID E s = Inr i" "i \<in> ev_id ` set (log st')"
    using assms(1) by (auto elim!: Append_cases)
  then have "spec_validate s = None" using DeterministicID_Inr by metis
  with i(1) assms(2,3) have "DeterministicID E t = Inr i" by (simp add: DeterministicID_def)
  with i show ?thesis by (simp add: Append_def)
qed

lemma Append_appends: "Append E reg now st s = Inr (i, fresh, st') \<Longrightarrow> appends E reg now st st'"
  by (blast intro: appends.intros)

lemma appends_trans:
  "appends E reg now st' st'' \<Longrightarrow> appends E reg now st st' \<Longrightarrow> appends E reg now st st''"
  by (induction rule: appends.induct) (auto intro: appends.intros)

lemma appends_log: "appends E reg now st st' \<Longrightarrow> \<exists>evs. log st' = log st @ evs"
proof (induction rule: appends.induct)
  case (more st st' s i fresh st'')
  then show ?case by (auto elim!: Append_cases)
qed simp

lemma appends_distinct:
  "appends E reg now st st' \<Longrightarrow> distinct (map ev_id (log st)) \<Longrightarrow> distinct (map ev_id (log st'))"
proof (induction rule: appends.induct)
  case (more st st' s i fresh st'')
  from more.hyps(2) more.IH [OF more.prems] show ?case by (auto elim!: Append_cases)
qed

lemma foldEvents_append:
  "foldEvents reg (evs @ evs') p =
     (case foldEvents reg evs p of Inl e \<Rightarrow> Inl e | Inr p' \<Rightarrow> foldEvents reg evs' p')"
  by (induction evs arbitrary: p) (auto split: sum.splits)

section \<open>Rebuilding the tables from the log\<close>

text \<open>
  The live path hands the projectors the caller's payload, the rebuild the stored one; the two
  differ only for a nil payload, which is stored as \<open>{}\<close>.  What a registry owes its clients is
  that no projector sees the difference.
\<close>

locale projection_registry =
  fixes reg :: "'p projector list"
  assumes null_payload: "registry_apply reg (as_stored ev) p = registry_apply reg ev p"
begin

lemma appends_fold:
  "appends E reg now st st' \<Longrightarrow> foldEvents reg (log st) p0 = Inr (proj st) \<Longrightarrow>
   foldEvents reg (log st') p0 = Inr (proj st')"
proof (induction rule: appends.induct)
  case (more st st' s i fresh st'')
  from more.hyps(2) more.IH [OF more.prems] show ?case
    by (auto elim!: Append_cases simp: foldEvents_append null_payload)
qed

lemma rebuild: "history E reg p0 st \<Longrightarrow> foldEvents reg (log st) p0 = Inr (proj st)"
  by (induction rule: history.induct) (auto dest: appends_fold)

end

lemma history_distinct: "history E reg p0 st \<Longrightarrow> distinct (map ev_id (log st))"
  by (induction rule: history.induct) (auto dest: appends_distinct)

lemma null_payload_by_kind:
  assumes "\<And>k f ev. (k, f) \<in> set reg \<Longrightarrow> ev_kind ev = k \<Longrightarrow> f (as_stored ev) = f ev"
  shows "registry_apply reg (as_stored ev) p = registry_apply reg ev p"
proof -
  have "apply_all fs (as_stored ev) p = apply_all fs ev p"
    if "\<And>f. f \<in> set fs \<Longrightarrow> f (as_stored ev) = f ev" for fs and p :: 'a
    using that by (induction fs arbitrary: p) (auto split: sum.splits)
  moreover have "f (as_stored ev) = f ev"
    if "f \<in> set (map snd (filter (\<lambda>pr. fst pr = ev_kind ev) reg))" for f
    using that assms by force
  ultimately have "apply_all (map snd (filter (\<lambda>pr. fst pr = ev_kind ev) reg)) (as_stored ev) p =
      apply_all (map snd (filter (\<lambda>pr. fst pr = ev_kind ev) reg)) ev p"
    by blast
  then show ?thesis by (simp add: registry_apply_def)
qed

section \<open>Specs that ask for the same event\<close>

lemma canonical_value_eq: "canonical_value v = jnorm (stored_payload v)"
  by (simp add: canonical_value_def stored_payload_def)

lemma jwf_stored_payload [simp]: "jwf v \<Longrightarrow> jwf (stored_payload v)"
  by (simp add: stored_payload_def)

lemma CanonicalJSON_eq_iff:
  assumes "jwf v" "jwf v'"
  shows "CanonicalJSON v = CanonicalJSON v' \<longleftrightarrow> same_value (stored_payload v) (stored_payload v')"
proof
  assume "CanonicalJSON v = CanonicalJSON v'"
  then have "canonical_value v = canonical_value v'"
    using CanonicalJSON_split [OF assms, of "[]" "[]"] by (simp add: delim_def)
  then show "same_value (stored_payload v) (stored_payload v')"
    by (simp add: canonical_value_eq jnorm_eq_same_value)
next
  assume "same_value (stored_payload v) (stored_payload v')"
  then show "CanonicalJSON v = CanonicalJSON v'"
    using assms by (simp add: CanonicalJSON_eq canonical_value_eq jnorm_same_value)
qed

text \<open>Two specs ask for the same event when all that enters its identity agrees.\<close>

definition same_spec :: "spec \<Rightarrow> spec \<Rightarrow> bool" where
  "same_spec s t \<longleftrightarrow> sp_subject_kind s = sp_subject_kind t \<and> sp_subject_id s = sp_subject_id t \<and>
     sp_kind s = sp_kind t \<and> same_value (stored_payload (sp_payload s)) (stored_payload (sp_payload t)) \<and>
     sp_discriminator s = sp_discriminator t"

lemma id_preimage_same_spec:
  assumes "jwf (sp_payload s)" "jwf (sp_payload t)" "same_spec s t"
  shows "id_preimage s = id_preimage t"
  using assms by (simp add: id_preimage_def same_spec_def CanonicalJSON_eq_iff)

section \<open>A concrete instance\<close>

definition length_id :: "nat \<Rightarrow> uuid" where
  "length_id n = bytes_uuid (stamp_id (replicate 15 CHR 0x00 @ [char_of n]))"

lemma length_id_bytes:
  "uuid_bytes (length_id n) = stamp_id (replicate 15 CHR 0x00 @ [char_of n])"
  unfolding length_id_def by (rule uuid_bytes_uuid [OF stamp_id_nth(3)]) simp

lemma length_id_eq_iff: "length_id m = length_id n \<longleftrightarrow> m mod 256 = n mod 256"
proof
  assume "length_id m = length_id n"
  then have "uuid_bytes (length_id m) ! 15 = uuid_bytes (length_id n) ! 15" by simp
  then have "char_of m = (char_of n :: char)"
    by (simp add: length_id_bytes stamp_id_def nth_append)
  then have "of_char (char_of m) = (of_char (char_of n) :: nat)" by (rule arg_cong)
  then show "m mod 256 = n mod 256" by simp
next
  assume "m mod 256 = n mod 256"
  then have "char_of m = (char_of n :: char)" by (metis char_of_mod_256)
  then show "length_id m = length_id n" by (simp only: length_id_def)
qed

lemma decimal_ext_id:
  "spec_validate s = None \<Longrightarrow> DeterministicID decimal_ext s = Inr (length_id (length (id_preimage s)))"
  by (simp add: DeterministicID_def decimal_ext_def length_id_def)

definition note_spec :: "string \<Rightarrow> spec" where
  "note_spec t = \<lparr>sp_subject_kind = ''work_item'', sp_subject_id = 7, sp_kind = ''note'',
     sp_source = ''human'', sp_actor = None, sp_payload = JObj [(''text'', JStr t)],
     sp_discriminator = []\<rparr>"

lemma note_spec_valid [simp]: "spec_validate (note_spec t) = None"
  by (simp add: note_spec_def spec_validate_def source_valid_def)

abbreviation empty_store :: "'p \<Rightarrow> 'p store" where
  "empty_store p \<equiv> \<lparr>log = [], proj = p\<rparr>"

lemma append_note:
  "Append decimal_ext [] now (empty_store ()) (note_spec t) =
     Inr (length_id (length (id_preimage (note_spec t))), True,
       \<lparr>log = [as_stored (event_of now (length_id (length (id_preimage (note_spec t)))) (note_spec t))], proj = ()\<rparr>)"
  by (simp add: Append_def decimal_ext_id registry_apply_def)

definition created_spec :: spec where
  "created_spec = \<lparr>sp_subject_kind = SubjectWorkItem, sp_subject_id = 7, sp_kind = EventWorkItemCreated,
     sp_source = SourceHuman, sp_actor = Some 3, sp_payload = JObj [(''title'', JStr ''tend'')],
     sp_discriminator = []\<rparr>"

lemma created_spec_valid: "spec_validate created_spec = None"
  by (simp add: created_spec_def spec_validate_def source_valid_def)

section \<open>Properties\<close>

text \<open>
  C6: Append is idempotent.  Once a spec has been appended, any later request for the same
  event - its payload with the keys in any order, by any actor, at any later time and after any
  further appends - returns the id of the stored event, reports that nothing was inserted and
  changes neither the log nor the tables.
\<close>

theorem append_idempotent:
  assumes "Append E reg now st s = Inr (i, fresh, st')"
    and "appends E reg now' st' st''"
    and "same_spec s t" "jwf (sp_payload s)" "jwf (sp_payload t)" "spec_validate t = None"
  shows "Append E reg now'' st'' t = Inr (i, False, st'')"
proof -
  have i: "DeterministicID E s = Inr i" "i \<in> ev_id ` set (log st')"
    using assms(1) by (auto elim!: Append_cases)
  then have "spec_validate s = None" using DeterministicID_Inr by metis
  with i(1) have "DeterministicID E t = Inr i"
    using id_preimage_same_spec [OF assms(4,5,3)] assms(6) by (simp add: DeterministicID_def)
  moreover have "i \<in> ev_id ` set (log st'')" using i(2) appends_log [OF assms(2)] by auto
  ultimately show ?thesis by (simp add: Append_def)
qed

theorem append_idempotent_witness:
  "Append decimal_ext [] 9 \<lparr>log = [as_stored (event_of 5 (length_id (length (id_preimage (note_spec ''a''))))
       (note_spec ''a''))], proj = ()\<rparr> (note_spec ''a''\<lparr>sp_source := ''agent''\<rparr>) =
     Inr (length_id (length (id_preimage (note_spec ''a''))), False,
       \<lparr>log = [as_stored (event_of 5 (length_id (length (id_preimage (note_spec ''a''))))
       (note_spec ''a''))], proj = ()\<rparr>)"
  by (rule append_idempotent [OF append_note appends.none])
     (simp_all add: same_spec_def note_spec_def same_value.leaf spec_validate_def source_valid_def)

text \<open>
  Two well-formed payloads have the same canonical encoding exactly when they are the same
  JSON value up to the order of object keys at every level, nil and null standing for the empty
  object.
\<close>

theorem canonical_json_identifies:
  assumes "jwf v" "jwf v'"
  shows "CanonicalJSON v = CanonicalJSON v' \<longleftrightarrow> same_value (stored_payload v) (stored_payload v')"
  using assms by (rule CanonicalJSON_eq_iff)

theorem canonical_json_identifies_witness:
  "CanonicalJSON (JObj [(''a'', JNum ''1''), (''b'', JNull)]) =
     CanonicalJSON (JObj [(''b'', JNull), (''a'', JNum ''1'')]) \<longleftrightarrow>
   same_value (stored_payload (JObj [(''a'', JNum ''1''), (''b'', JNull)]))
     (stored_payload (JObj [(''b'', JNull), (''a'', JNum ''1'')]))"
  by (rule canonical_json_identifies) simp_all

text \<open>
  C12: The bytes hashed into an event id determine the event: for kinds without a colon (every
  kind the program declares), equal preimages come from the same subject, kind, discriminator
  and payload value, so that no two different events share an id without a collision of SHA-256.
\<close>

theorem event_identity_is_injective:
  assumes "CHR '':'' \<notin> set (sp_subject_kind s)" "CHR '':'' \<notin> set (sp_subject_kind t)"
    and "CHR '':'' \<notin> set (sp_kind s)" "CHR '':'' \<notin> set (sp_kind t)"
    and "jwf (sp_payload s)" "jwf (sp_payload t)"
  shows "id_preimage s = id_preimage t \<longleftrightarrow> same_spec s t"
proof
  assume "id_preimage s = id_preimage t"
  from id_preimage_parts [OF this assms] show "same_spec s t"
    unfolding same_spec_def canonical_value_eq by (blast dest: jnorm_eq_same_value)
qed (rule id_preimage_same_spec [OF assms(5,6)])

theorem event_identity_is_injective_witness:
  "id_preimage (note_spec ''a'') \<noteq> id_preimage (note_spec ''b'')"
proof -
  have "\<not> same_spec (note_spec ''a'') (note_spec ''b'')"
    by (auto simp: same_spec_def note_spec_def stored_payload_def elim!: same_value.cases)
  then show ?thesis
    using event_identity_is_injective [of "note_spec ''a''" "note_spec ''b''"]
    by (simp add: note_spec_def)
qed

text \<open>
  Every id DeterministicID returns is a name-based UUID (version 5, RFC 4122 variant) and
  never the nil UUID; it returns one exactly for the specs that pass validation.
\<close>

theorem event_id_shape:
  assumes "ext_ok E"
  shows "case DeterministicID E s of
      Inl e \<Rightarrow> spec_validate s = Some e
    | Inr i \<Rightarrow> spec_validate s = None \<and> i \<noteq> uuid_nil \<and>
        of_char (uuid_bytes i ! 6) div 16 = (5::nat) \<and> of_char (uuid_bytes i ! 8) div 64 = (2::nat)"
proof (cases "DeterministicID E s")
  case (Inr i)
  have "length (take 16 (sha256 E (id_preimage s))) = 16"
    using assms by (simp add: ext_ok_def)
  with Inr show ?thesis
    using DeterministicID_not_nil [OF assms Inr] DeterministicID_Inr [of E s]
    by (simp add: DeterministicID_bytes [OF assms Inr] stamp_id_nth stamp_version_bits stamp_variant_bits)
qed (simp add: DeterministicID_def split: option.splits)

theorem event_id_shape_witness:
  "case DeterministicID decimal_ext (note_spec ''a'') of
      Inl e \<Rightarrow> spec_validate (note_spec ''a'') = Some e
    | Inr i \<Rightarrow> spec_validate (note_spec ''a'') = None \<and> i \<noteq> uuid_nil \<and>
        of_char (uuid_bytes i ! 6) div 16 = (5::nat) \<and> of_char (uuid_bytes i ! 8) div 64 = (2::nat)"
  by (rule event_id_shape [OF decimal_ext_ok])

end
