(* ===== verification/Tables.thy ===== *)
theory Tables
  imports Events
begin

text \<open>
  The tables that the projectors write: their rows, and the three kinds of SQL writes that
  occur, INSERT ... ON CONFLICT DO NOTHING, INSERT ... ON CONFLICT DO UPDATE and UPDATE ...
  WHERE key = k.  A table is the list of its rows in insertion order.
\<close>

section \<open>Reading and writing rows by key\<close>

definition get_row :: "('r \<Rightarrow> 'k) \<Rightarrow> 'k \<Rightarrow> 'r list \<Rightarrow> 'r option" where
  "get_row key k rows = find (\<lambda>r. key r = k) rows"

definition insert_row :: "('r \<Rightarrow> 'k) \<Rightarrow> 'r \<Rightarrow> 'r list \<Rightarrow> 'r list" where
  "insert_row key r rows = (if key r \<in> set (map key rows) then rows else rows @ [r])"

definition update_row :: "('r \<Rightarrow> 'k) \<Rightarrow> 'k \<Rightarrow> ('r \<Rightarrow> 'r) \<Rightarrow> 'r list \<Rightarrow> 'r list" where
  "update_row key k f rows = map (\<lambda>r. if key r = k then f r else r) rows"

definition upsert_row :: "('r \<Rightarrow> 'k) \<Rightarrow> ('r \<Rightarrow> 'r) \<Rightarrow> 'r \<Rightarrow> 'r list \<Rightarrow> 'r list" where
  "upsert_row key f r rows =
     (if key r \<in> set (map key rows) then update_row key (key r) f rows else rows @ [r])"

lemma get_row_None: "get_row key k rows = None \<longleftrightarrow> k \<notin> set (map key rows)"
  by (auto simp: get_row_def find_None_iff)

lemma get_row_Some: "get_row key k rows = Some r \<Longrightarrow> key r = k \<and> r \<in> set rows"
  by (auto simp: get_row_def find_Some_iff)

lemma find_append: "find P (xs @ ys) = (case find P xs of None \<Rightarrow> find P ys | Some x \<Rightarrow> Some x)"
  by (induction xs) auto

lemma get_row_append:
  "get_row key k (rows @ rs) =
     (case get_row key k rows of None \<Rightarrow> get_row key k rs | Some r \<Rightarrow> Some r)"
  by (simp add: get_row_def find_append split: option.splits)

lemma get_row_single [simp]: "get_row key k [r] = (if key r = k then Some r else None)"
  by (simp add: get_row_def)

lemma get_row_insert_row [simp]:
  "get_row key k (insert_row key r rows) =
     (case get_row key k rows of Some r' \<Rightarrow> Some r' | None \<Rightarrow> if key r = k then Some r else None)"
  using get_row_None [of key k rows]
  by (auto simp: insert_row_def get_row_def find_append split: option.splits)

lemma get_row_update_row [simp]:
  assumes "\<And>r. key (f r) = key r"
  shows "get_row key k (update_row key k' f rows) =
     (if k = k' then map_option f (get_row key k rows) else get_row key k rows)"
  by (induction rows) (auto simp: get_row_def update_row_def assms)

lemma map_key_update_row [simp]:
  "(\<And>r. key (f r) = key r) \<Longrightarrow> map key (update_row key k f rows) = map key rows"
  by (auto simp: update_row_def)

lemma get_row_upsert_row [simp]:
  assumes "\<And>r. key (f r) = key r"
  shows "get_row key k (upsert_row key f r rows) =
     (if k = key r then Some (case get_row key k rows of Some r' \<Rightarrow> f r' | None \<Rightarrow> r)
      else get_row key k rows)"
proof (cases "key r \<in> set (map key rows)")
  case True
  then obtain r' where "get_row key (key r) rows = Some r'"
    using get_row_None [of key "key r" rows] by auto
  with True show ?thesis by (auto simp: upsert_row_def assms)
next
  case False
  then have "get_row key (key r) rows = None" by (simp only: get_row_None) simp
  with False show ?thesis by (auto simp: upsert_row_def get_row_append split: option.splits)
qed

lemma distinct_insert_row [simp]:
  "distinct (map key rows) \<Longrightarrow> distinct (map key (insert_row key r rows))"
  by (auto simp: insert_row_def)

lemma distinct_upsert_row [simp]:
  "(\<And>r. key (f r) = key r) \<Longrightarrow> distinct (map key rows) \<Longrightarrow>
   distinct (map key (upsert_row key f r rows))"
  by (auto simp: upsert_row_def)

lemma set_update_row:
  "r \<in> set (update_row key k f rows) \<Longrightarrow> r \<in> set rows \<or> (\<exists>r' \<in> set rows. key r' = k \<and> r = f r')"
  by (auto simp: update_row_def split: if_splits)

lemma set_insert_row: "r' \<in> set (insert_row key r rows) \<Longrightarrow> r' \<in> set rows \<or> r' = r"
  by (auto simp: insert_row_def split: if_splits)

section \<open>Rows\<close>

record relation =
  rel_parent :: uuid
  rel_child :: uuid
  rel_created_at :: time

record approval =
  ap_id :: uuid
  ap_work_item :: uuid
  ap_status :: string
  ap_summary :: string
  ap_request :: json
  ap_requested_by :: "uuid option"
  ap_requested_source :: string
  ap_created_at :: time
  ap_expires_at :: time
  ap_decided_by :: "uuid option"
  ap_decision_source :: "string option"
  ap_decided_at :: "time option"
  ap_decision :: "string option"
  ap_decision_reason :: string
  ap_updated_at :: time

record idempotency_row =
  ik_token :: uuid
  ik_scope :: string
  ik_key :: string
  ik_request_hash :: string
  ik_status :: int
  ik_body :: json
  ik_created_at :: time
  ik_expires_at :: time

record verdict_row =
  cv_event :: uuid
  cv_work_item :: uuid
  cv_identity :: string
  cv_version :: int
  cv_attempt :: int
  cv_digest :: string
  cv_disposition :: string
  cv_reason :: string
  cv_config :: json
  cv_signals :: json
  cv_actor :: "uuid option"
  cv_source :: string
  cv_at :: time

record job =
  jb_id :: uuid
  jb_kind :: string
  jb_work_item :: uuid
  jb_state :: string
  jb_payload :: json
  jb_attempts :: int
  jb_lease_until :: "time option"
  jb_created_at :: time
  jb_updated_at :: time

record node =
  nd_id :: string
  nd_base_url :: "string option"
  nd_direct_url :: "string option"
  nd_relay_via :: "string list"
  nd_status :: string
  nd_created_at :: time
  nd_updated_at :: time

record command_row =
  cq_id :: uuid
  cq_target :: string
  cq_path :: string
  cq_body :: json
  cq_origin_key :: string
  cq_origin_actor :: "uuid option"
  cq_queued_at :: time
  cq_state :: string
  cq_status_code :: "int option"
  cq_ok :: "bool option"
  cq_acked_at :: "time option"

record active_profile =
  pp_name :: string
  pp_fingerprint :: string
  pp_switched_at :: time
  pp_switched_by :: "uuid option"

record message =
  ms_id :: uuid
  ms_source :: string
  ms_actor :: "uuid option"
  ms_work_item :: uuid
  ms_created_at :: time

record message_part =
  mp_id :: uuid
  mp_message :: uuid
  mp_ordinal :: int
  mp_text :: string

record signal_row =
  sr_id :: uuid
  sr_received_at :: time
  sr_actor :: "uuid option"
  sr_source :: string
  sr_kind :: string
  sr_dedupe_key :: "string option"
  sr_fingerprint :: string
  sr_work_spec :: json
  sr_work_item :: "uuid option"
  sr_created_work_item :: bool

record det_error =
  de_id :: uuid
  de_component :: string
  de_code :: string
  de_message :: string
  de_severity :: string
  de_details :: json
  de_reported_by :: "uuid option"
  de_reported_at :: time
  de_updated_at :: time
  de_masked :: bool
  de_mask_reason :: "string option"
  de_masked_by :: "uuid option"
  de_masked_at :: "time option"

record connector_action =
  ca_id :: uuid
  ca_work_item :: uuid
  ca_mode :: string
  ca_method :: string
  ca_url :: string
  ca_request :: json
  ca_status :: string
  ca_approval :: "uuid option"
  ca_response_status :: "int option"
  ca_response_body :: string
  ca_error :: string
  ca_requested_by :: "uuid option"
  ca_source :: string
  ca_created_at :: time
  ca_updated_at :: time

record outbox_row =
  ob_id :: uuid
  ob_kind :: string
  ob_action :: uuid
  ob_state :: string
  ob_payload :: json
  ob_attempts :: int
  ob_lease_until :: "time option"
  ob_created_at :: time
  ob_updated_at :: time

record projection_row =
  pj_name :: string
  pj_version :: int
  pj_type :: string
  pj_rootstock :: bool
  pj_filter :: json
  pj_description :: string
  pj_event :: uuid
  pj_defined_at :: time
  pj_defined_by :: "uuid option"
  pj_source :: string

text \<open>Rows of the registry: a name with its version, and the budgets of a cultivar.\<close>

record tropism =
  tr_name :: string
  tr_version :: int
  tr_reducer :: "string \<times> int"
  tr_params :: json
  tr_description :: string

record xylem =
  xy_max_attempts :: int
  xy_max_wall_seconds :: int
  xy_max_depth :: int
  xy_max_children :: int
  xy_max_running :: int
  xy_max_events :: "(string \<times> int) list"

record cultivar =
  cu_name :: string
  cu_version :: int
  cu_rootstock :: bool
  cu_tropism :: "string \<times> int"
  cu_briefing :: string
  cu_scopes :: "string list"
  cu_xylem :: xylem
  cu_phloem :: string
  cu_description :: string

record tables =
  t_tokens :: "token list"
  t_work_items :: "work_item list"
  t_relations :: "relation list"
  t_approvals :: "approval list"
  t_idempotency :: "idempotency_row list"
  t_verdicts :: "verdict_row list"
  t_jobs :: "job list"
  t_nodes :: "node list"
  t_commands :: "command_row list"
  t_profile :: "active_profile option"
  t_tropisms :: "tropism list"
  t_cultivars :: "cultivar list"
  t_messages :: "message list"
  t_message_parts :: "message_part list"
  t_signals :: "signal_row list"
  t_det_errors :: "det_error list"
  t_actions :: "connector_action list"
  t_outbox :: "outbox_row list"
  t_projections :: "projection_row list"

definition no_tables :: tables where
  "no_tables = \<lparr>t_tokens = [], t_work_items = [], t_relations = [], t_approvals = [],
     t_idempotency = [], t_verdicts = [], t_jobs = [], t_nodes = [], t_commands = [],
     t_profile = None, t_tropisms = [], t_cultivars = [], t_messages = [],
     t_message_parts = [], t_signals = [], t_det_errors = [], t_actions = [], t_outbox = [],
     t_projections = []\<rparr>"

type_synonym db = "tables store"

text \<open>A string, or NULL for the empty one (SQL NULLIF(s, '')).\<close>

definition null_if_empty :: "string \<Rightarrow> string option" where
  "null_if_empty s = (if s = [] then None else Some s)"

text \<open>A uuid.UUID field of a payload struct: absent or null gives uuid.Nil.\<close>

definition juuid :: "ext \<Rightarrow> json \<Rightarrow> err + uuid" where
  "juuid E j = (case j of
     JStr s \<Rightarrow> (case uuid_parse E s of Some u \<Rightarrow> Inr u | None \<Rightarrow> Inl ErrDecode)
   | JNull \<Rightarrow> Inr uuid_nil
   | _ \<Rightarrow> Inl ErrDecode)"

definition juid :: "ext \<Rightarrow> uuid \<Rightarrow> json" where
  "juid E u = JStr (uuid_string E u)"

text \<open>A *uuid.UUID field: absent or null gives nil.\<close>

definition juuid_opt :: "ext \<Rightarrow> json \<Rightarrow> err + uuid option" where
  "juuid_opt E j = (if j = JNull then Inr None else map_sum id Some (juuid E j))"

lemma juuid_juid [simp]: "ext_ok E \<Longrightarrow> juuid E (juid E u) = Inr u"
  by (simp add: juuid_def juid_def ext_ok_def)

text \<open>The SQL operator payload->>'k': NULL when the key is absent or null.\<close>

definition jtext :: "json \<Rightarrow> string \<Rightarrow> string option" where
  "jtext j k = (case jget j k of
     JStr s \<Rightarrow> Some s | JNull \<Rightarrow> None | v \<Rightarrow> Some (print_json v))"

definition jint_field :: "json \<Rightarrow> string \<Rightarrow> err + int" where
  "jint_field j k = jinteger (jget j k)"

text \<open>sourceForActor, which every service package repeats.\<close>

definition sourceForActor :: "token \<Rightarrow> string" where
  "sourceForActor actor =
     (if source_valid (tok_source actor) then tok_source actor else SourceHuman)"

lemma sourceForActor_valid [simp]: "source_valid (sourceForActor a)"
  by (simp add: sourceForActor_def source_valid_def)

text \<open>
  Sequencing of fallible steps.  \<open>bind\<close> is the Go idiom \<open>if err != nil { return err }\<close>.
\<close>

definition bind_err :: "'e + 'a \<Rightarrow> ('a \<Rightarrow> 'e + 'b) \<Rightarrow> 'e + 'b" where
  "bind_err m f = (case m of Inl e \<Rightarrow> Inl e | Inr x \<Rightarrow> f x)"

lemma bind_err_simps [simp]: "bind_err (Inl e) f = Inl e" "bind_err (Inr x) f = f x"
  by (simp_all add: bind_err_def)

lemma bind_err_Inr: "bind_err m f = Inr y \<longleftrightarrow> (\<exists>x. m = Inr x \<and> f x = Inr y)"
  by (auto simp: bind_err_def split: sum.splits)

lemma bind_err_Inr_E:
  assumes "bind_err m f = Inr y"
  obtains x where "m = Inr x" "f x = Inr y"
  using assms by (auto simp: bind_err_Inr)

lemma bind_err_Inl: "bind_err m f = Inl e \<longleftrightarrow> m = Inl e \<or> (\<exists>x. m = Inr x \<and> f x = Inl e)"
  by (auto simp: bind_err_def split: sum.splits)

definition guard_err :: "bool \<Rightarrow> 'e \<Rightarrow> 'e + unit" where
  "guard_err ok e = (if ok then Inr () else Inl e)"

lemma guard_err_simps [simp]:
  "guard_err ok e = Inr u \<longleftrightarrow> ok" "guard_err ok e = Inl e' \<longleftrightarrow> \<not> ok \<and> e' = e"
  by (auto simp: guard_err_def)

end
