(* ===== verification/Feed.thy ===== *)
theory Feed
  imports Tables
begin

text \<open>
  internal/feed: the classification of event kinds (taxonomy.go), projection filters, and the
  paging of the log by sequence number (feed.go).  A feed item is a row of the events table, so
  it is an event here; where the sequence number matters a row is a pair of it and the event.
\<close>

section \<open>Taxonomy\<close>

abbreviation KindClassLifecycle :: string where "KindClassLifecycle \<equiv> ''lifecycle''"
abbreviation KindClassDecision :: string where "KindClassDecision \<equiv> ''decision''"
abbreviation KindClassProgress :: string where "KindClassProgress \<equiv> ''progress''"
abbreviation KindClassAdmin :: string where "KindClassAdmin \<equiv> ''admin''"

definition ErrUnknownKind :: string where "ErrUnknownKind = ''feed: unknown event kind''"
definition ErrUnknownKindClass :: string where "ErrUnknownKindClass = ''feed: unknown kind class''"
definition ErrKindNotAllowed :: string where
  "ErrKindNotAllowed = ''feed: kind not allowed in projection''"
definition ErrClassNotAllowed :: string where
  "ErrClassNotAllowed = ''feed: kind class not allowed in projection''"
definition ErrEmptyFilter :: string where "ErrEmptyFilter = ''feed: projection filter is empty''"

record projection_filter =
  pf_kinds :: "string list"
  pf_classes :: "string list"

definition KnownEventKind :: "string \<Rightarrow> bool" where
  "KnownEventKind kind \<longleftrightarrow> kind \<in> set AllEventKinds"

definition KnownKindClass :: "string \<Rightarrow> bool" where
  "KnownKindClass class \<longleftrightarrow>
     class \<in> set [KindClassLifecycle, KindClassDecision, KindClassProgress, KindClassAdmin]"

text \<open>The cases of the switch in StaticKindClass.\<close>

definition lifecycle_kinds :: "string list" where
  "lifecycle_kinds =
     [EventWorkItemCreated, EventWorkItemTransitioned, EventWorkItemRelationAdded,
      EventWorkItemMetadataUpdated, EventXylemExhausted, EventSignalReceived,
      EventEscalationRequested, EventApprovalCreated, EventApprovalExpired,
      EventHTTPConnectorActionRequested, EventHTTPConnectorActionApproved,
      EventPatienceBreached, EventDispatchRequested]"

definition decision_kinds :: "string list" where
  "decision_kinds =
     [EventMessageCaptured, EventSubactorGrantRequested, EventSubactorGrantGranted,
      EventSubactorGrantDenied, EventSubactorGrantEscalated, EventCultivarActivationRequested,
      EventCultivarActivationGranted, EventCultivarActivationDenied,
      EventCultivarActivationEscalated, EventApprovalDecided, EventConvergenceVerdictRecorded,
      EventConvergenceChecksProposed, EventPolicyProfileSwitched, EventTropismDefined,
      EventCultivarDefined, EventProjectionDefined]"

definition admin_kinds :: "string list" where
  "admin_kinds =
     [EventTokenCreated, EventTokenRevoked, EventIdempotencyRecorded,
      EventDeterministicErrorReported, EventDeterministicErrorMasked,
      EventDeterministicErrorUnmasked, EventNodeRegistered, EventNodeRouteUpdated,
      EventCommandQueued, EventCommandAcked]"

text \<open>Class, whether the payload decides the class, and whether the kind is known.\<close>

definition StaticKindClass :: "string \<Rightarrow> string \<times> bool \<times> bool" where
  "StaticKindClass kind =
     (if kind \<in> set lifecycle_kinds then (KindClassLifecycle, False, True)
      else if kind = EventWorkItemEventAppended then ([], True, True)
      else if kind \<in> set decision_kinds then (KindClassDecision, False, True)
      else if kind = EventHTTPConnectorActionSent then (KindClassProgress, False, True)
      else if kind \<in> set admin_kinds then (KindClassAdmin, False, True)
      else ([], False, False))"

definition ProjectableKind :: "string \<Rightarrow> bool" where
  "ProjectableKind kind =
     (let (class, _, ok) = StaticKindClass kind in ok \<and> class \<noteq> KindClassAdmin)"

definition ProjectableKindClass :: "string \<Rightarrow> bool" where
  "ProjectableKindClass class \<longleftrightarrow> class \<noteq> KindClassAdmin \<and> KnownKindClass class"

fun dedupe_from :: "string list \<Rightarrow> string list \<Rightarrow> string list" where
  "dedupe_from seen [] = []"
| "dedupe_from seen (v # vs) =
     (let v' = trim_space v in
      if v' = [] \<or> v' \<in> set seen then dedupe_from seen vs
      else v' # dedupe_from (v' # seen) vs)"

definition dedupeTrimmed :: "string list \<Rightarrow> string list" where
  "dedupeTrimmed vs = sort_strings (dedupe_from [] vs)"

fun check_kinds :: "string list \<Rightarrow> err option" where
  "check_kinds [] = None"
| "check_kinds (k # ks) =
     (if \<not> KnownEventKind k then Some (Err ErrUnknownKind ('': '' @ k))
      else if \<not> ProjectableKind k then Some (Err ErrKindNotAllowed ('': '' @ k))
      else check_kinds ks)"

fun check_classes :: "string list \<Rightarrow> err option" where
  "check_classes [] = None"
| "check_classes (c # cs) =
     (if \<not> KnownKindClass c then Some (Err ErrUnknownKindClass ('': '' @ c))
      else if \<not> ProjectableKindClass c then Some (Err ErrClassNotAllowed ('': '' @ c))
      else check_classes cs)"

definition NormalizeProjectionFilter :: "projection_filter \<Rightarrow> err + projection_filter" where
  "NormalizeProjectionFilter f =
     (let kinds = dedupeTrimmed (pf_kinds f); classes = dedupeTrimmed (pf_classes f) in
      if kinds = [] \<and> classes = [] then Inl (Err ErrEmptyFilter [])
      else case check_kinds kinds of
        Some e \<Rightarrow> Inl e
      | None \<Rightarrow> (case check_classes classes of
          Some e \<Rightarrow> Inl e
        | None \<Rightarrow> Inr \<lparr>pf_kinds = kinds, pf_classes = classes\<rparr>))"

text \<open>ClassifyItem: a payload that is not an object of strings counts as progress.\<close>

definition ClassifyEvent :: "string \<Rightarrow> json \<Rightarrow> string option" where
  "ClassifyEvent kind payload =
     (let (class, dynamic, ok) = StaticKindClass kind in
      if \<not> ok then None
      else if \<not> dynamic then Some class
      else if \<not> jobject payload then Some KindClassProgress
      else case (jstring (jget payload ''inner_kind''), jstring (jget payload ''kind'')) of
        (Inr inner, Inr k) \<Rightarrow>
          (let inner' = (if trim_space inner = [] then trim_space k else trim_space inner) in
           Some (if has_prefix inner' ''coordination.'' then KindClassDecision
                 else KindClassProgress))
      | _ \<Rightarrow> Some KindClassProgress)"

definition ClassifyItem :: "event \<Rightarrow> string option" where
  "ClassifyItem item = ClassifyEvent (ev_kind item) (ev_payload item)"

definition Matches :: "projection_filter \<Rightarrow> event \<Rightarrow> bool" where
  "Matches f item =
     (if ev_kind item \<in> set (pf_kinds f) then True
      else case ClassifyItem item of
        None \<Rightarrow> False
      | Some class \<Rightarrow> class \<in> set (pf_classes f))"

definition add_kind :: "string \<Rightarrow> string list \<Rightarrow> string list" where
  "add_kind k ks = (if k \<in> set ks then ks else ks @ [k])"

definition query_step :: "string list \<Rightarrow> string \<Rightarrow> string list \<Rightarrow> string list" where
  "query_step classes kind ks =
     (let (class, dynamic, ok) = StaticKindClass kind in
      if \<not> ok \<or> class = KindClassAdmin then ks
      else
        let ks1 = (if class \<in> set classes then add_kind kind ks else ks) in
        if dynamic \<and> (KindClassDecision \<in> set classes \<or> KindClassProgress \<in> set classes)
        then add_kind kind ks1 else ks1)"

definition QueryKinds :: "projection_filter \<Rightarrow> string list" where
  "QueryKinds f =
     fold (query_step (pf_classes f)) AllEventKinds (fold add_kind (pf_kinds f) [])"

definition IncludedKinds :: "string list" where
  "IncludedKinds =
    [EventMessageCaptured, EventWorkItemCreated, EventWorkItemTransitioned,
     EventWorkItemEventAppended, EventWorkItemRelationAdded, EventWorkItemMetadataUpdated,
     EventXylemExhausted, EventSignalReceived, EventDeterministicErrorReported,
     EventDeterministicErrorMasked, EventDeterministicErrorUnmasked, EventEscalationRequested,
     EventSubactorGrantRequested, EventSubactorGrantGranted, EventSubactorGrantDenied,
     EventSubactorGrantEscalated, EventCultivarActivationRequested,
     EventCultivarActivationGranted, EventCultivarActivationDenied,
     EventCultivarActivationEscalated, EventApprovalCreated, EventApprovalDecided,
     EventApprovalExpired, EventHTTPConnectorActionRequested, EventHTTPConnectorActionApproved,
     EventHTTPConnectorActionSent, EventPatienceBreached, EventConvergenceVerdictRecorded,
     EventConvergenceChecksProposed, EventDispatchRequested, EventPolicyProfileSwitched,
     EventTropismDefined, EventCultivarDefined, EventProjectionDefined]"

definition ExcludedKinds :: "string list" where
  "ExcludedKinds =
    [EventTokenCreated, EventTokenRevoked, EventIdempotencyRecorded, EventNodeRegistered,
     EventNodeRouteUpdated, EventCommandQueued, EventCommandAcked]"

section \<open>Paging\<close>

type_synonym row = "int \<times> event"

definition defaultLimit :: nat where "defaultLimit = 50"
definition maxLimit :: nat where "maxLimit = 200"

definition clamp_limit :: "int \<Rightarrow> nat" where
  "clamp_limit limit = (if limit \<le> 0 \<or> limit > int maxLimit then defaultLimit else nat limit)"

text \<open>The loop over the rows of one batch: it stops as soon as there are more than limit items.\<close>

fun scan_rows :: "(event \<Rightarrow> bool) \<Rightarrow> nat \<Rightarrow> row list \<Rightarrow> row list \<Rightarrow> int \<Rightarrow> nat \<Rightarrow> row list \<times> int \<times> nat" where
  "scan_rows m limit [] items scannedSeq scanned = (items, scannedSeq, scanned)"
| "scan_rows m limit (r # rs) items scannedSeq scanned =
     (if m (snd r) then
        if length (items @ [r]) > limit then (items @ [r], fst r, scanned + 1)
        else scan_rows m limit rs (items @ [r]) (fst r) (scanned + 1)
      else scan_rows m limit rs items (fst r) (scanned + 1))"

definition select_after :: "string list \<Rightarrow> int \<Rightarrow> row list \<Rightarrow> row list" where
  "select_after kinds s rows = filter (\<lambda>r. ev_kind (snd r) \<in> set kinds \<and> s < fst r) rows"

definition batchLimit :: nat where "batchLimit = maxLimit + 1"

text \<open>A full batch moves the position on by at least one row, so one round per row is enough.\<close>

fun batches ::
  "nat \<Rightarrow> string list \<Rightarrow> (event \<Rightarrow> bool) \<Rightarrow> nat \<Rightarrow> row list \<Rightarrow> row list \<Rightarrow> int \<Rightarrow> int \<Rightarrow> row list \<times> int"
where
  "batches 0 kinds m limit rows items fromSeq scannedSeq = (items, scannedSeq)"
| "batches (Suc n) kinds m limit rows items fromSeq scannedSeq =
     (if \<not> length items \<le> limit then (items, scannedSeq)
      else
        let (items', scannedSeq', scanned) =
          scan_rows m limit (take batchLimit (select_after kinds fromSeq rows)) items scannedSeq 0
        in if length items' > limit \<or> scanned < batchLimit then (items', scannedSeq')
           else batches n kinds m limit rows items' scannedSeq' scannedSeq')"

record page =
  pg_items :: "row list"
  pg_next :: int
  pg_has_more :: bool

definition filter_kinds :: "projection_filter option \<Rightarrow> string list" where
  "filter_kinds f = (case f of None \<Rightarrow> IncludedKinds | Some f \<Rightarrow> QueryKinds f)"

definition filter_matches :: "projection_filter option \<Rightarrow> event \<Rightarrow> bool" where
  "filter_matches f e = (case f of None \<Rightarrow> True | Some f \<Rightarrow> Matches f e)"

definition queryAfter :: "row list \<Rightarrow> int \<Rightarrow> nat \<Rightarrow> projection_filter option \<Rightarrow> page" where
  "queryAfter rows cur limit f =
     (let (items, scannedSeq) =
        batches (Suc (length rows)) (filter_kinds f) (filter_matches f) limit rows [] cur cur;
        hasMore = (length items > limit);
        items' = (if hasMore then take limit items else items)
      in if items' = [] then \<lparr>pg_items = [], pg_next = scannedSeq, pg_has_more = False\<rparr>
         else \<lparr>pg_items = items',
               pg_next = (if hasMore then fst (last items') else scannedSeq),
               pg_has_more = hasMore\<rparr>)"

definition TailFiltered :: "row list \<Rightarrow> int \<Rightarrow> int \<Rightarrow> projection_filter option \<Rightarrow> row list" where
  "TailFiltered rows fromSeq limit f = pg_items (queryAfter rows fromSeq (clamp_limit limit) f)"

definition head_seq :: "row list \<Rightarrow> int" where
  "head_seq rows = (if rows = [] then 0 else Max (set (map fst rows)))"

definition cursorExists :: "row list \<Rightarrow> int \<Rightarrow> bool" where
  "cursorExists rows s \<longleftrightarrow> s \<in> set (map fst rows)"

section \<open>The taxonomy is total and its filters are sound\<close>

lemma set_AllEventKinds:
  "set AllEventKinds = set lifecycle_kinds \<union> set decision_kinds \<union> set admin_kinds \<union>
     {EventWorkItemEventAppended, EventHTTPConnectorActionSent}"
  by (simp only: AllEventKinds_def lifecycle_kinds_def decision_kinds_def admin_kinds_def
      list.simps Un_insert_left Un_empty_left insert_commute)

lemma StaticKindClass_known: "snd (snd (StaticKindClass kind)) \<longleftrightarrow> KnownEventKind kind"
  unfolding KnownEventKind_def set_AllEventKinds StaticKindClass_def by simp

lemma StaticKindClass_dynamic:
  "StaticKindClass kind = (class, True, ok) \<Longrightarrow> class = [] \<and> ok"
  by (simp add: StaticKindClass_def split: if_splits)

lemma ClassifyEvent_dynamic:
  "ClassifyEvent kind payload = Some class \<Longrightarrow> StaticKindClass kind = (c, True, ok) \<Longrightarrow>
   class = KindClassDecision \<or> class = KindClassProgress"
  by (auto simp: ClassifyEvent_def Let_def split: if_splits sum.splits)

lemma ClassifyEvent_static:
  "ClassifyEvent kind payload = Some class \<Longrightarrow> StaticKindClass kind = (c, False, ok) \<Longrightarrow>
   class = c \<and> ok"
  by (auto simp: ClassifyEvent_def split: if_splits)

lemma set_add_kind [simp]: "set (add_kind k ks) = insert k (set ks)"
  by (auto simp: add_kind_def)

lemma distinct_add_kind [simp]: "distinct ks \<Longrightarrow> distinct (add_kind k ks)"
  by (auto simp: add_kind_def)

lemma set_fold_add_kind: "set (fold add_kind ks acc) = set ks \<union> set acc"
  by (induction ks arbitrary: acc) auto

definition wanted :: "string list \<Rightarrow> string \<Rightarrow> bool" where
  "wanted classes kind =
     (let (class, dynamic, ok) = StaticKindClass kind in
      ok \<and> class \<noteq> KindClassAdmin \<and> (class \<in> set classes \<or>
        dynamic \<and> (KindClassDecision \<in> set classes \<or> KindClassProgress \<in> set classes)))"

lemma set_query_step:
  "set (query_step classes kind ks) = set ks \<union> (if wanted classes kind then {kind} else {})"
  by (cases "StaticKindClass kind") (auto simp: query_step_def wanted_def)

lemma set_fold_query_step:
  "set (fold (query_step classes) kinds acc) = set acc \<union> {k \<in> set kinds. wanted classes k}"
  by (induction kinds arbitrary: acc) (auto simp: set_query_step)

lemma set_QueryKinds:
  "set (QueryKinds f) = set (pf_kinds f) \<union> {k \<in> set AllEventKinds. wanted (pf_classes f) k}"
  by (simp add: QueryKinds_def set_fold_query_step set_fold_add_kind)

lemma query_kinds_cover:
  assumes "Matches f e" "KindClassAdmin \<notin> set (pf_classes f)"
  shows "ev_kind e \<in> set (QueryKinds f)"
proof (cases "ev_kind e \<in> set (pf_kinds f)")
  case False
  with assms obtain k where cls: "ClassifyEvent (ev_kind e) (ev_payload e) = Some k"
      "k \<in> set (pf_classes f)"
    by (auto simp: Matches_def ClassifyItem_def split: option.splits)
  obtain c d ok where s: "StaticKindClass (ev_kind e) = (c, d, ok)" by (metis prod_cases3)
  with cls(1) have ok: ok by (auto simp: ClassifyEvent_def split: if_splits)
  then have known: "ev_kind e \<in> set AllEventKinds"
    using StaticKindClass_known [of "ev_kind e"] s by (simp add: KnownEventKind_def)
  have "wanted (pf_classes f) (ev_kind e)"
  proof (cases d)
    case True
    have "c = []" by (rule StaticKindClass_dynamic [THEN conjunct1]) (use s True in simp)
    with True ok s cls ClassifyEvent_dynamic [OF cls(1)] show ?thesis
      by (auto simp: wanted_def)
  next
    case False
    have "k = c"
      by (rule ClassifyEvent_static [OF cls(1), THEN conjunct1]) (use s False in simp)
    with assms(2) False ok s cls(2) show ?thesis by (auto simp: wanted_def)
  qed
  with known show ?thesis by (simp add: set_QueryKinds)
qed (simp add: set_QueryKinds)

lemma check_kinds_None: "check_kinds ks = None \<longleftrightarrow> (\<forall>k \<in> set ks. KnownEventKind k \<and> ProjectableKind k)"
  by (induction ks) auto

lemma check_classes_None:
  "check_classes cs = None \<longleftrightarrow> (\<forall>c \<in> set cs. KnownKindClass c \<and> ProjectableKindClass c)"
  by (induction cs) auto

lemma set_dedupe_from: "set (dedupe_from seen vs) = (trim_space ` set vs - {[]}) - set seen"
  by (induction vs arbitrary: seen) (auto simp: Let_def)

lemma distinct_dedupe_from: "distinct (dedupe_from seen vs)"
  by (induction vs arbitrary: seen) (auto simp: Let_def set_dedupe_from)

lemma set_dedupeTrimmed: "set (dedupeTrimmed vs) = trim_space ` set vs - {[]}"
  by (simp add: dedupeTrimmed_def set_dedupe_from)

lemma dedupeTrimmed_distinct: "distinct (dedupeTrimmed vs)"
  by (metis dedupeTrimmed_def distinct_dedupe_from distinct_sort sort_strings_def)

lemma dedupeTrimmed_sorted: "sorted (dedupeTrimmed vs)"
  by (simp add: dedupeTrimmed_def)

lemma sorted_dedupe_unique:
  "set (dedupeTrimmed us) = set (dedupeTrimmed vs) \<Longrightarrow> dedupeTrimmed us = dedupeTrimmed vs"
  by (rule sorted_distinct_set_unique) (simp_all add: dedupeTrimmed_sorted dedupeTrimmed_distinct)

lemma dedupeTrimmed_idem [simp]: "dedupeTrimmed (dedupeTrimmed vs) = dedupeTrimmed vs"
proof (rule sorted_dedupe_unique)
  have "trim_space v = v" if "v \<in> set (dedupeTrimmed vs)" for v
    using that by (auto simp: set_dedupeTrimmed)
  then have "trim_space ` set (dedupeTrimmed vs) = set (dedupeTrimmed vs)" by simp
  moreover have "[] \<notin> set (dedupeTrimmed vs)" by (simp add: set_dedupeTrimmed)
  ultimately show "set (dedupeTrimmed (dedupeTrimmed vs)) = set (dedupeTrimmed vs)"
    by (simp add: set_dedupeTrimmed [of "dedupeTrimmed vs"])
qed

lemma NormalizeProjectionFilter_Inr:
  "NormalizeProjectionFilter f = Inr g \<longleftrightarrow>
     (dedupeTrimmed (pf_kinds f) \<noteq> [] \<or> dedupeTrimmed (pf_classes f) \<noteq> []) \<and>
     (\<forall>k \<in> set (dedupeTrimmed (pf_kinds f)). KnownEventKind k \<and> ProjectableKind k) \<and>
     (\<forall>c \<in> set (dedupeTrimmed (pf_classes f)). KnownKindClass c \<and> ProjectableKindClass c) \<and>
     g = \<lparr>pf_kinds = dedupeTrimmed (pf_kinds f), pf_classes = dedupeTrimmed (pf_classes f)\<rparr>"
  by (auto simp: NormalizeProjectionFilter_def Let_def split: option.splits
      simp flip: check_kinds_None check_classes_None)

lemma normalized_no_admin:
  "NormalizeProjectionFilter f = Inr g \<Longrightarrow> KindClassAdmin \<notin> set (pf_classes g)"
  by (auto simp: NormalizeProjectionFilter_Inr ProjectableKindClass_def)

lemma normalized_not_admin_event:
  assumes "NormalizeProjectionFilter f = Inr g" and "Matches g e"
  shows "ClassifyItem e \<noteq> Some KindClassAdmin"
proof
  assume admin: "ClassifyItem e = Some KindClassAdmin"
  obtain c d ok where s: "StaticKindClass (ev_kind e) = (c, d, ok)" by (metis prod_cases3)
  have "\<not> d"
    using ClassifyEvent_dynamic [of "ev_kind e" "ev_payload e" KindClassAdmin c ok] admin s
    by (auto simp: ClassifyItem_def)
  then have "StaticKindClass (ev_kind e) = (KindClassAdmin, False, ok)"
    using ClassifyEvent_static [of "ev_kind e" "ev_payload e" KindClassAdmin c ok] admin s
    by (simp add: ClassifyItem_def)
  then have "\<not> ProjectableKind (ev_kind e)" by (simp add: ProjectableKind_def)
  then have "ev_kind e \<notin> set (pf_kinds g)"
    using assms(1) by (auto simp: NormalizeProjectionFilter_Inr)
  with assms(2) admin normalized_no_admin [OF assms(1)] show False by (simp add: Matches_def)
qed

section \<open>Paging loses and repeats nothing\<close>

abbreviation by_seq :: "row list \<Rightarrow> bool" where
  "by_seq rows \<equiv> sorted_wrt (\<lambda>a b. fst a < fst b) rows"

lemma scan_rows_fits:
  "length items + length (filter (\<lambda>r. m (snd r)) rs) \<le> limit \<Longrightarrow>
   scan_rows m limit rs items s n =
     (items @ filter (\<lambda>r. m (snd r)) rs, (if rs = [] then s else fst (last rs)), n + length rs)"
  by (induction rs arbitrary: items s n) auto

lemma scan_rows_full:
  "length items \<le> limit \<Longrightarrow> limit < length items + length (filter (\<lambda>r. m (snd r)) rs) \<Longrightarrow>
   fst (scan_rows m limit rs items s n) =
     items @ take (limit + 1 - length items) (filter (\<lambda>r. m (snd r)) rs)"
proof (induction rs arbitrary: items s n)
  case (Cons r rs)
  consider "\<not> m (snd r)" | "m (snd r)" "length items = limit" | "m (snd r)" "length items < limit"
    using Cons.prems(1) by linarith
  then show ?case
  proof cases
    case 3
    then have "fst (scan_rows m limit rs (items @ [r]) (fst r) (n + 1)) =
        (items @ [r]) @ take (limit + 1 - length (items @ [r])) (filter (\<lambda>r. m (snd r)) rs)"
      by (intro Cons.IH) (use Cons.prems in auto)
    moreover have "limit + 1 - length items = Suc (limit + 1 - length (items @ [r]))"
      using 3 by simp
    ultimately show ?thesis using 3 by simp
  qed (use Cons in auto)
qed simp

lemma select_after_next:
  assumes "by_seq rows" "0 < n" "n \<le> length (select_after kinds s rows)"
  shows "select_after kinds (fst (last (take n (select_after kinds s rows)))) rows =
    drop n (select_after kinds s rows)"
proof -
  let ?S = "select_after kinds s rows"
  let ?q = "fst (last (take n ?S))"
  have sorted: "by_seq ?S" using assms(1) by (simp add: select_after_def sorted_wrt_filter)
  have ne: "take n ?S \<noteq> []" using assms(2,3) by auto
  then have last: "last (take n ?S) \<in> set (take n ?S)" by simp
  have sorted': "by_seq (take n ?S @ drop n ?S)" using sorted by simp
  have low: "\<not> ?q < fst r" if "r \<in> set (take n ?S)" for r
  proof -
    have eq: "take n ?S = butlast (take n ?S) @ [last (take n ?S)]" using ne by simp
    have "by_seq (butlast (take n ?S) @ [last (take n ?S)])"
      using sorted' unfolding eq [symmetric] by (simp add: sorted_wrt_append)
    moreover have "r \<in> set (butlast (take n ?S) @ [last (take n ?S)])"
      using that unfolding eq [symmetric] .
    ultimately show ?thesis unfolding sorted_wrt_append by fastforce
  qed
  have high: "?q < fst r" if "r \<in> set (drop n ?S)" for r
    using sorted' last that by (simp only: sorted_wrt_append)
  have "s < ?q" using last by (auto dest!: in_set_takeD simp: select_after_def)
  then have "select_after kinds ?q rows = filter (\<lambda>r. ?q < fst r) ?S"
    by (auto simp: select_after_def intro!: filter_cong)
  also have "\<dots> = filter (\<lambda>r. ?q < fst r) (take n ?S @ drop n ?S)" by simp
  also have "\<dots> = drop n ?S"
    unfolding filter_append using low high by (simp add: filter_empty_conv)
  finally show ?thesis .
qed

lemma batches_step:
  assumes "by_seq rows" "length items \<le> limit"
    and "length items + length (filter (\<lambda>r. m (snd r)) (take batchLimit (select_after kinds fr rows))) \<le> limit"
  shows "batches (Suc n) kinds m limit rows items fr sc =
    (let B = take batchLimit (select_after kinds fr rows);
         items' = items @ filter (\<lambda>r. m (snd r)) B;
         sc' = (if B = [] then sc else fst (last B))
     in if length B < batchLimit then (items', sc') else batches n kinds m limit rows items' sc' sc')"
  using assms by (simp add: scan_rows_fits Let_def split del: if_split) auto

lemma batches_full:
  assumes "length items \<le> limit"
    and "limit < length items + length (filter (\<lambda>r. m (snd r)) (take batchLimit (select_after kinds fr rows)))"
  shows "fst (batches (Suc n) kinds m limit rows items fr sc) =
    items @ take (limit + 1 - length items)
      (filter (\<lambda>r. m (snd r)) (take batchLimit (select_after kinds fr rows)))"
proof -
  let ?r = "scan_rows m limit (take batchLimit (select_after kinds fr rows)) items sc 0"
  have f: "fst ?r = items @ take (limit + 1 - length items)
      (filter (\<lambda>r. m (snd r)) (take batchLimit (select_after kinds fr rows)))"
    by (rule scan_rows_full [OF assms])
  then have "limit < length (fst ?r)" using assms(2) by simp
  with f assms(1) show ?thesis by (cases ?r) simp
qed

lemma batches_eq:
  assumes "by_seq rows" "length (select_after kinds fr rows) < n" "length items \<le> limit"
  shows "fst (batches n kinds m limit rows items fr sc) =
      items @ take (limit + 1 - length items) (filter (\<lambda>r. m (snd r)) (select_after kinds fr rows))"
    and "length items + length (filter (\<lambda>r. m (snd r)) (select_after kinds fr rows)) \<le> limit \<Longrightarrow>
      snd (batches n kinds m limit rows items fr sc) =
        (if select_after kinds fr rows = [] then sc else fst (last (select_after kinds fr rows)))"
proof -
  let ?M = "filter (\<lambda>r. m (snd r))"
  have "fst (batches n kinds m limit rows items fr sc) =
      items @ take (limit + 1 - length items) (?M (select_after kinds fr rows)) \<and>
    (length items + length (?M (select_after kinds fr rows)) \<le> limit \<longrightarrow>
      snd (batches n kinds m limit rows items fr sc) =
        (if select_after kinds fr rows = [] then sc else fst (last (select_after kinds fr rows))))"
    using assms(2,3)
  proof (induction n arbitrary: items fr sc)
    case (Suc n)
    let ?S = "select_after kinds fr rows"
    let ?B = "take batchLimit ?S"
    let ?D = "drop batchLimit ?S"
    have MS: "?M ?S = ?M ?B @ ?M ?D" by (simp flip: filter_append)
    show ?case
    proof (cases "length items + length (?M ?B) \<le> limit")
      case False
      then have full: "limit < length items + length (?M ?B)" by simp
      with batches_full [OF Suc.prems(2) full] show ?thesis by (simp add: MS del: batches.simps)
    next
      case fits: True
      note step = batches_step [OF assms(1) Suc.prems(2) fits, of n sc, unfolded Let_def]
      show ?thesis
      proof (cases "length ?B < batchLimit")
        case True
        then have "?B = ?S" by simp
        with step True fits show ?thesis by (auto simp del: batches.simps)
      next
        case False
        then have n: "0 < batchLimit" "batchLimit \<le> length ?S" by (auto simp: batchLimit_def)
        then have "?B \<noteq> []" "?S \<noteq> []" by auto
        have D: "select_after kinds (fst (last ?B)) rows = ?D"
          by (rule select_after_next [OF assms(1) n])
        have "length ?D < n" using Suc.prems(1) n by simp
        then have IH: "fst (batches n kinds m limit rows (items @ ?M ?B) (fst (last ?B)) (fst (last ?B))) =
            (items @ ?M ?B) @ take (limit + 1 - length (items @ ?M ?B)) (?M ?D)"
          "length (items @ ?M ?B) + length (?M ?D) \<le> limit \<longrightarrow>
            snd (batches n kinds m limit rows (items @ ?M ?B) (fst (last ?B)) (fst (last ?B))) =
              (if ?D = [] then fst (last ?B) else fst (last ?D))"
          using Suc.IH [of "fst (last ?B)" "items @ ?M ?B" "fst (last ?B)"] fits unfolding D by auto
        have last: "last ?S = (if ?D = [] then last ?B else last ?D)"
          by (metis append_Nil2 append_take_drop_id last_appendR)
        have rec: "batches (Suc n) kinds m limit rows items fr sc =
            batches n kinds m limit rows (items @ ?M ?B) (fst (last ?B)) (fst (last ?B))"
          unfolding step using False \<open>?B \<noteq> []\<close> by (simp only: if_False)
        have "take (limit + 1 - length items) (?M ?S) =
            ?M ?B @ take (limit + 1 - length (items @ ?M ?B)) (?M ?D)"
          unfolding MS using fits by simp
        moreover have "length items + length (?M ?S) = length (items @ ?M ?B) + length (?M ?D)"
          unfolding MS by simp
        ultimately show ?thesis
          unfolding rec IH(1) last using IH(2) \<open>?S \<noteq> []\<close>
          by (cases "?D = []") (simp_all only: append.assoc if_False if_True simp_thms)
      qed
    qed
  qed simp
  then show "fst (batches n kinds m limit rows items fr sc) =
      items @ take (limit + 1 - length items) (?M (select_after kinds fr rows))"
    and "length items + length (?M (select_after kinds fr rows)) \<le> limit \<Longrightarrow>
      snd (batches n kinds m limit rows items fr sc) =
        (if select_after kinds fr rows = [] then sc else fst (last (select_after kinds fr rows)))"
    by auto
qed

text \<open>The rows a watcher at position s still has to see.\<close>

definition pending :: "row list \<Rightarrow> projection_filter option \<Rightarrow> int \<Rightarrow> row list" where
  "pending rows f s =
     filter (\<lambda>r. filter_matches f (snd r)) (select_after (filter_kinds f) s rows)"

lemma select_after_filter:
  "s \<le> q \<Longrightarrow> filter (\<lambda>r. q < fst r) (select_after kinds s rows) = select_after kinds q rows"
  by (auto simp: select_after_def intro: filter_cong)

lemma pending_after:
  assumes "by_seq rows" "0 < n" "n \<le> length (pending rows f s)"
  shows "pending rows f (fst (last (take n (pending rows f s)))) = drop n (pending rows f s)"
proof -
  let ?P = "pending rows f s"
  have "pending rows f s = select_after (filter_kinds f) s
      (filter (\<lambda>r. filter_matches f (snd r)) rows)" for s
    by (auto simp: pending_def select_after_def intro: filter_cong)
  then show ?thesis
    using select_after_next [of "filter (\<lambda>r. filter_matches f (snd r)) rows" n "filter_kinds f" s]
      assms by (simp add: sorted_wrt_filter)
qed

lemma pending_last:
  assumes "by_seq rows"
  shows "pending rows f (if select_after (filter_kinds f) s rows = [] then s
    else fst (last (select_after (filter_kinds f) s rows))) = []"
proof (cases "select_after (filter_kinds f) s rows = []")
  case False
  let ?S = "select_after (filter_kinds f) s rows"
  from False have "select_after (filter_kinds f) (fst (last (take (length ?S) ?S))) rows = drop (length ?S) ?S"
    by (intro select_after_next [OF assms]) auto
  with False show ?thesis by (simp add: pending_def)
qed (simp add: pending_def)

lemma queryAfter_eq:
  assumes "by_seq rows" "0 < limit"
  shows "pg_items (queryAfter rows s limit f) = take limit (pending rows f s)"
    and "pg_has_more (queryAfter rows s limit f) \<longleftrightarrow> limit < length (pending rows f s)"
    and "pending rows f (pg_next (queryAfter rows s limit f)) = drop limit (pending rows f s)"
proof -
  let ?b = "batches (Suc (length rows)) (filter_kinds f) (filter_matches f) limit rows [] s s"
  have fuel: "length (select_after (filter_kinds f) s rows) < Suc (length rows)"
    by (simp add: select_after_def less_Suc_eq_le)
  have items: "fst ?b = take (limit + 1) (pending rows f s)"
    using batches_eq(1) [OF assms(1) fuel, of "[]" limit] by (simp add: pending_def del: batches.simps)
  have scanned: "snd ?b = (if select_after (filter_kinds f) s rows = [] then s
      else fst (last (select_after (filter_kinds f) s rows)))"
    if "length (pending rows f s) \<le> limit"
    using batches_eq(2) [OF assms(1) fuel, of "[]" limit] that
    by (simp add: pending_def del: batches.simps)
  have page: "pg_items (queryAfter rows s limit f) = take limit (pending rows f s) \<and>
     (pg_has_more (queryAfter rows s limit f) \<longleftrightarrow> limit < length (pending rows f s)) \<and>
     pg_next (queryAfter rows s limit f) =
       (if limit < length (pending rows f s) then fst (last (take limit (pending rows f s)))
        else snd ?b)"
  proof (cases ?b)
    case (Pair its sc)
    with items have "its = take (limit + 1) (pending rows f s)" by (simp del: batches.simps)
    with Pair assms(2) show ?thesis
      by (auto simp: queryAfter_def Let_def min_def simp del: batches.simps)
  qed
  then show "pg_items (queryAfter rows s limit f) = take limit (pending rows f s)"
    and "pg_has_more (queryAfter rows s limit f) \<longleftrightarrow> limit < length (pending rows f s)"
    by blast+
  show "pending rows f (pg_next (queryAfter rows s limit f)) = drop limit (pending rows f s)"
  proof (cases "limit < length (pending rows f s)")
    case True
    with page pending_after [OF assms, of f s] show ?thesis by simp
  next
    case False
    then have "length (pending rows f s) \<le> limit" by simp
    with page False scanned pending_last [OF assms(1), of f s] show ?thesis by simp
  qed
qed

text \<open>
  The position of a page is a maximum, so a row that becomes visible later with a smaller
  sequence number (its transaction took the number first and committed second) is skipped.
\<close>

lemma pending_skips_late: "fst r \<le> s \<Longrightarrow> pending (r # rows) f s = pending rows f s"
  by (simp add: pending_def select_after_def)

section \<open>Properties\<close>

lemma static_classes_disjoint:
  "EventWorkItemEventAppended \<notin> set lifecycle_kinds"
  by (simp add: lifecycle_kinds_def)

text \<open>
  The taxonomy is total: every event kind the program declares is classified, by its payload
  as decision or progress for work_item.event_appended and as a constant otherwise, and no other
  kind is.  Each declared kind is either offered by the feed or deliberately kept out of it.
\<close>

theorem taxonomy_total:
  "(ClassifyEvent kind payload = None \<longleftrightarrow> kind \<notin> set AllEventKinds) \<and>
   ClassifyEvent EventWorkItemEventAppended payload \<in> {Some KindClassDecision, Some KindClassProgress} \<and>
   (kind \<noteq> EventWorkItemEventAppended \<longrightarrow> ClassifyEvent kind payload = ClassifyEvent kind payload') \<and>
   set AllEventKinds = set IncludedKinds \<union> set ExcludedKinds \<and>
   set IncludedKinds \<inter> set ExcludedKinds = {}"
proof (intro conjI)
  show "ClassifyEvent kind payload = None \<longleftrightarrow> kind \<notin> set AllEventKinds"
    using StaticKindClass_known [of kind]
    by (auto simp: ClassifyEvent_def KnownEventKind_def Let_def split: prod.splits sum.splits)
  show "ClassifyEvent EventWorkItemEventAppended payload \<in> {Some KindClassDecision, Some KindClassProgress}"
    by (auto simp: ClassifyEvent_def StaticKindClass_def static_classes_disjoint Let_def split: sum.splits)
  show "kind \<noteq> EventWorkItemEventAppended \<longrightarrow>
      ClassifyEvent kind payload = ClassifyEvent kind payload'"
    by (simp add: ClassifyEvent_def StaticKindClass_def Let_def)
  show "set AllEventKinds = set IncludedKinds \<union> set ExcludedKinds"
    by code_simp
  show "set IncludedKinds \<inter> set ExcludedKinds = {}"
    by code_simp
qed

theorem taxonomy_total_witness:
  "ClassifyEvent EventWorkItemCreated JNull = ClassifyEvent EventWorkItemCreated (JObj [])"
  using taxonomy_total [of EventWorkItemCreated JNull "JObj []"] by simp

text \<open>
  An accepted projection filter is in normal form - trimmed, sorted, without duplicates, not
  empty, of known kinds and classes - and normalising it again gives it back; it never names an
  admin kind or class, so that no administrative event passes it.
\<close>

theorem normalized_filter_excludes_admin:
  assumes "NormalizeProjectionFilter f = Inr g"
  shows "NormalizeProjectionFilter g = Inr g \<and> (pf_kinds g \<noteq> [] \<or> pf_classes g \<noteq> []) \<and>
    sorted (pf_kinds g) \<and> distinct (pf_kinds g) \<and> sorted (pf_classes g) \<and> distinct (pf_classes g) \<and>
    (\<forall>e. Matches g e \<longrightarrow> ClassifyItem e \<noteq> Some KindClassAdmin)"
  using assms normalized_not_admin_event [OF assms]
  by (auto simp: NormalizeProjectionFilter_Inr dedupeTrimmed_sorted dedupeTrimmed_distinct)

theorem normalized_filter_excludes_admin_witness:
  "let g = \<lparr>pf_kinds = [EventWorkItemCreated], pf_classes = [KindClassDecision]\<rparr> in
   NormalizeProjectionFilter g = Inr g \<and> (pf_kinds g \<noteq> [] \<or> pf_classes g \<noteq> []) \<and>
    sorted (pf_kinds g) \<and> distinct (pf_kinds g) \<and> sorted (pf_classes g) \<and> distinct (pf_classes g) \<and>
    (\<forall>e. Matches g e \<longrightarrow> ClassifyItem e \<noteq> Some KindClassAdmin)"
  unfolding Let_def
  by (rule normalized_filter_excludes_admin
        [of "\<lparr>pf_kinds = ['' work_item.created'', EventWorkItemCreated], pf_classes = [KindClassDecision, []]\<rparr>"])
     code_simp

text \<open>
  The SQL prefilter loses nothing: every event that an accepted filter matches has one of
  the kinds that the query is restricted to.
\<close>

theorem prefilter_covers_filter:
  assumes "NormalizeProjectionFilter f = Inr g" "Matches g e"
  shows "ev_kind e \<in> set (QueryKinds g)"
  using query_kinds_cover [OF assms(2) normalized_no_admin [OF assms(1)]] .

theorem prefilter_covers_filter_witness:
  "ev_kind (event_of 5 4 created_spec) \<in>
     set (QueryKinds \<lparr>pf_kinds = [], pf_classes = [KindClassLifecycle]\<rparr>)"
  by (rule prefilter_covers_filter [of "\<lparr>pf_kinds = [], pf_classes = [KindClassLifecycle]\<rparr>"])
     code_simp+

text \<open>
  A page holds the first limit matching events after the cursor, in order, says correctly
  whether more are waiting, and its next cursor stands exactly behind the last event shown.
\<close>

theorem page_is_exact:
  assumes "by_seq rows" "0 < limit"
  shows "let page = queryAfter rows s limit f;
      due = filter (\<lambda>r. s < fst r \<and> ev_kind (snd r) \<in> set (filter_kinds f) \<and> filter_matches f (snd r)) rows
    in pg_items page = take limit due \<and> (pg_has_more page \<longleftrightarrow> limit < length due) \<and>
      pending rows f (pg_next page) = drop limit due"
proof -
  have "pending rows f s = filter (\<lambda>r. s < fst r \<and> ev_kind (snd r) \<in> set (filter_kinds f) \<and>
      filter_matches f (snd r)) rows"
    by (auto simp: pending_def select_after_def filter_filter intro: filter_cong)
  then show ?thesis using queryAfter_eq [OF assms, where s = s and f = f] by (simp add: Let_def)
qed

text \<open>A reader that follows the cursors of its pages.\<close>

fun read_pages :: "row list \<Rightarrow> int \<Rightarrow> nat \<Rightarrow> projection_filter option \<Rightarrow> nat \<Rightarrow> row list" where
  "read_pages rows s limit f 0 = []"
| "read_pages rows s limit f (Suc n) =
     pg_items (queryAfter rows s limit f) @ read_pages rows (pg_next (queryAfter rows s limit f)) limit f n"

lemma read_pages_eq:
  assumes "by_seq rows" "0 < limit"
  shows "read_pages rows s limit f n = take (n * limit) (pending rows f s)"
proof (induction n arbitrary: s)
  case (Suc n)
  have "take (Suc n * limit) xs = take limit xs @ take (n * limit) (drop limit xs)" for xs :: "row list"
    by (simp add: take_add)
  with Suc.IH show ?case using queryAfter_eq [OF assms] by simp
qed simp


definition three_rows :: "row list" where
  "three_rows = [(1, event_of 5 4 created_spec), (4, event_of 6 5 created_spec), (9, event_of 7 6 created_spec)]"

theorem page_is_exact_witness:
  "let page = queryAfter three_rows 1 1 None;
      due = filter (\<lambda>r. 1 < fst r \<and> ev_kind (snd r) \<in> set (filter_kinds None) \<and> filter_matches None (snd r)) three_rows
    in pg_items page = take 1 due \<and> (pg_has_more page \<longleftrightarrow> 1 < length due) \<and>
      pending three_rows None (pg_next page) = drop 1 due"
  by (rule page_is_exact) (simp_all add: three_rows_def)


end
