(* ===== verification/Safety.thy ===== *)
theory Safety
  imports Feed
begin

text \<open>
  internal/safety/policy.go: the resource policy, its named profiles, the startup gate and the
  fingerprint.  A Go map is an association list with distinct keys; where the code ranges over
  one, the model visits it in list order, which only decides which of several errors is returned.
\<close>

record policy =
  po_max_body :: int
  po_max_feed_wait :: time
  po_pool_max :: int
  po_pool_min :: int
  po_tick :: time
  po_patience :: "(string \<times> time) list"
  po_max_depth :: int
  po_max_children :: int
  po_max_running :: int
  po_max_events :: "(string \<times> int) list option"
  po_max_signal_items :: int

definition MaxPatienceBudget :: time where "MaxPatienceBudget = 30 * 24 * hour"
definition MaxPoolMaxConns :: int where "MaxPoolMaxConns = 64"
definition ProfileSteady :: string where "ProfileSteady = ''steady''"
definition ProfileBringUp :: string where "ProfileBringUp = ''bring-up''"

definition nonTerminalStates :: "string list" where
  "nonTerminalStates = [WorkItemCaptured, WorkItemTriaged, WorkItemPlanned,
     WorkItemAwaitingApproval, WorkItemRunning, WorkItemBlocked]"

definition defaultMaxEventsPerItemPerHourByClass :: "(string \<times> int) list" where
  "defaultMaxEventsPerItemPerHourByClass =
     [(KindClassLifecycle, 120), (KindClassDecision, 120), (KindClassProgress, 240)]"

definition DefaultPolicy :: policy where
  "DefaultPolicy = \<lparr>po_max_body = 1048576, po_max_feed_wait = 60 * second, po_pool_max = 10,
     po_pool_min = 1, po_tick = 30 * second,
     po_patience = [(WorkItemCaptured, 24 * hour), (WorkItemTriaged, 72 * hour),
       (WorkItemPlanned, 72 * hour), (WorkItemAwaitingApproval, 48 * hour),
       (WorkItemRunning, 24 * hour), (WorkItemBlocked, 7 * 24 * hour)],
     po_max_depth = 5, po_max_children = 32, po_max_running = 8,
     po_max_events = Some defaultMaxEventsPerItemPerHourByClass, po_max_signal_items = 30\<rparr>"

definition BringUpPolicy :: policy where
  "BringUpPolicy = \<lparr>po_max_body = 1048576, po_max_feed_wait = 60 * second, po_pool_max = 4,
     po_pool_min = 1, po_tick = 60 * second,
     po_patience = [(WorkItemCaptured, 7 * 24 * hour), (WorkItemTriaged, 14 * 24 * hour),
       (WorkItemPlanned, 14 * 24 * hour), (WorkItemAwaitingApproval, 7 * 24 * hour),
       (WorkItemRunning, 3 * 24 * hour), (WorkItemBlocked, 7 * 24 * hour)],
     po_max_depth = 5, po_max_children = 32, po_max_running = 8,
     po_max_events = Some defaultMaxEventsPerItemPerHourByClass, po_max_signal_items = 10\<rparr>"

definition Profiles :: "(string \<times> policy) list" where
  "Profiles = [(ProfileSteady, DefaultPolicy), (ProfileBringUp, BringUpPolicy)]"

definition ProfileByName :: "string \<Rightarrow> err + policy" where
  "ProfileByName name = (case map_of Profiles name of
     Some p \<Rightarrow> Inr p
   | None \<Rightarrow> Inl (Err [] (''safety: unknown policy profile '' @ quote name @
       ''; known profiles: '' @ join '', '' (sort_strings (map fst Profiles)))))"

text \<open>A key that is absent from a Go map reads as 0.\<close>

definition map_int :: "(string \<times> int) list \<Rightarrow> string \<Rightarrow> int" where
  "map_int m k = (case map_of m k of Some v \<Rightarrow> v | None \<Rightarrow> 0)"

fun first_error :: "('a \<Rightarrow> err option) \<Rightarrow> 'a list \<Rightarrow> err option" where
  "first_error f [] = None"
| "first_error f (x # xs) = (case f x of Some e \<Rightarrow> Some e | None \<Rightarrow> first_error f xs)"

definition safety_err :: "string \<Rightarrow> err option" where
  "safety_err s = Some (Err [] (''safety: '' @ s))"

definition validateEventRateBudgetMap :: "(string \<times> int) list option \<Rightarrow> err option" where
  "validateEventRateBudgetMap budgets = (case budgets of
     None \<Rightarrow> safety_err ''max_events_per_item_per_hour_by_class is required''
   | Some bs \<Rightarrow>
       (case first_error (\<lambda>class. if map_int bs class \<le> 0
            then safety_err (''max_events_per_item_per_hour_by_class['' @ class @ ''] must be positive'')
            else None) [KindClassLifecycle, KindClassDecision, KindClassProgress] of
          Some e \<Rightarrow> Some e
        | None \<Rightarrow> first_error (\<lambda>(class, m).
            if \<not> ProjectableKindClass class
            then safety_err (''max_events_per_item_per_hour_by_class['' @ class @
              ''] is not a projectable kind class'')
            else if m \<le> 0
            then safety_err (''max_events_per_item_per_hour_by_class['' @ class @ ''] must be positive'')
            else None) bs))"

definition patience_present :: "policy \<Rightarrow> string \<Rightarrow> err option" where
  "patience_present p state = (case map_of (po_patience p) state of
     None \<Rightarrow> safety_err (''missing patience budget for state '' @ quote state)
   | Some dur \<Rightarrow> if dur \<le> 0
       then safety_err (''patience budget for state '' @ quote state @ '' must be positive'')
       else None)"

definition patience_entry :: "string \<times> time \<Rightarrow> err option" where
  "patience_entry sd = (let (state, dur) = sd in
     if \<not> state_valid state
     then safety_err (''patience budget for unknown state '' @ quote state)
     else if state_terminal state
     then safety_err (''patience budget for terminal state '' @ quote state @ '' is meaningless'')
     else if dur \<le> 0
     then safety_err (''patience budget for state '' @ quote state @ '' must be positive'')
     else if dur > MaxPatienceBudget
     then safety_err (''patience budget for state '' @ quote state @ '' exceeds the finite cap'')
     else None)"

definition Validate :: "policy \<Rightarrow> err option" where
  "Validate p =
    (if po_max_body p \<le> 0 then safety_err ''max_request_body_bytes must be positive''
     else if po_max_feed_wait p \<le> 0 then safety_err ''max_feed_wait must be positive''
     else if po_pool_max p \<le> 0 then safety_err ''pool_max_conns must be positive''
     else if po_pool_max p > MaxPoolMaxConns
       then safety_err (''pool_max_conns must be <= '' @ itoa MaxPoolMaxConns)
     else if po_pool_min p \<le> 0 then safety_err ''pool_min_conns must be positive''
     else if po_pool_min p > po_pool_max p
       then safety_err ''pool_min_conns must be <= pool_max_conns''
     else if po_tick p \<le> 0 then safety_err ''worker_tick_interval must be positive''
     else if po_max_depth p < 0 then safety_err ''max_delegation_depth must be >= 0''
     else if po_max_children p \<le> 0 then safety_err ''max_children_per_item must be positive''
     else if po_max_running p \<le> 0
       then safety_err ''max_concurrent_running_items_per_token must be positive''
     else case validateEventRateBudgetMap (po_max_events p) of
       Some e \<Rightarrow> Some e
     | None \<Rightarrow>
         if po_max_signal_items p \<le> 0
         then safety_err ''max_signal_items_per_token_per_hour must be positive''
         else case first_error (patience_present p) nonTerminalStates of
           Some e \<Rightarrow> Some e
         | None \<Rightarrow> first_error patience_entry (po_patience p))"

definition MustValidateStartup :: "err + policy" where
  "MustValidateStartup =
     (case first_error (\<lambda>(name, p). Validate p) Profiles of
        Some e \<Rightarrow> Inl e
      | None \<Rightarrow> Inr DefaultPolicy)"

text \<open>int64(d.Seconds()) truncates.\<close>

definition duration_seconds :: "time \<Rightarrow> int" where
  "duration_seconds d = (if d < 0 then - ((- d) div second) else d div second)"

definition policy_json :: "policy \<Rightarrow> json" where
  "policy_json p = JObj
     [(''max_request_body_bytes'', jint (po_max_body p)),
      (''max_feed_wait_seconds'', jint (duration_seconds (po_max_feed_wait p))),
      (''pool_max_conns'', jint (po_pool_max p)), (''pool_min_conns'', jint (po_pool_min p)),
      (''worker_tick_seconds'', jint (duration_seconds (po_tick p))),
      (''max_delegation_depth'', jint (po_max_depth p)),
      (''max_children_per_item'', jint (po_max_children p)),
      (''max_concurrent_running_items_per_token'', jint (po_max_running p)),
      (''max_events_per_item_per_hour_by_class'',
        JObj (sort_key fst (map (\<lambda>(k, v). (k, jint v))
          (case po_max_events p of None \<Rightarrow> [] | Some m \<Rightarrow> m)))),
      (''max_signal_items_per_token_per_hour'', jint (po_max_signal_items p)),
      (''patience_seconds'',
        JObj (sort_key fst (map (\<lambda>(k, d). (k, jint (duration_seconds d))) (po_patience p))))]"

definition hex_string :: "string \<Rightarrow> string" where
  "hex_string bs = concat (map (\<lambda>c. [hex_char (of_char c div 16), hex_char (of_char c mod 16)]) bs)"

definition Fingerprint :: "ext \<Rightarrow> policy \<Rightarrow> string" where
  "Fingerprint E p = hex_string (take 8 (sha256 E (print_json (policy_json p))))"

section \<open>What a validated policy guarantees\<close>

lemma first_error_None: "first_error f xs = None \<longleftrightarrow> (\<forall>x \<in> set xs. f x = None)"
  by (induction xs) (auto split: option.splits)

lemma safety_err_not_None [simp]: "safety_err s \<noteq> None"
  by (simp add: safety_err_def)

lemma validateEventRateBudgetMap_None:
  "validateEventRateBudgetMap b = None \<longleftrightarrow>
     (\<exists>bs. b = Some bs \<and>
        (\<forall>class \<in> {KindClassLifecycle, KindClassDecision, KindClassProgress}. 0 < map_int bs class) \<and>
        (\<forall>(class, m) \<in> set bs. ProjectableKindClass class \<and> 0 < m))"
  by (cases b) (auto simp: validateEventRateBudgetMap_def first_error_None not_le
      split: option.splits if_splits)

lemma patience_present_None:
  "patience_present p s = None \<longleftrightarrow> (\<exists>d. map_of (po_patience p) s = Some d \<and> 0 < d)"
  by (auto simp: patience_present_def split: option.splits)

lemma patience_entry_None:
  "patience_entry (s, d) = None \<longleftrightarrow>
     state_valid s \<and> \<not> state_terminal s \<and> 0 < d \<and> d \<le> MaxPatienceBudget"
  by (auto simp: patience_entry_def)

lemma nonTerminalStates_iff: "s \<in> set nonTerminalStates \<longleftrightarrow> state_valid s \<and> \<not> state_terminal s"
  by (auto simp: nonTerminalStates_def state_valid_def state_terminal_def)

text \<open>
  The gate in one line: bounded inputs, bounded pool, positive budgets, and for exactly the
  non-terminal states a patience budget that is positive and at most 30 days.
\<close>

lemma Validate_None:
  assumes "distinct (map fst (po_patience p))"
  shows "Validate p = None \<longleftrightarrow>
     0 < po_max_body p \<and> 0 < po_max_feed_wait p \<and> 0 < po_pool_min p \<and>
     po_pool_min p \<le> po_pool_max p \<and> po_pool_max p \<le> MaxPoolMaxConns \<and> 0 < po_tick p \<and>
     0 \<le> po_max_depth p \<and> 0 < po_max_children p \<and> 0 < po_max_running p \<and>
     validateEventRateBudgetMap (po_max_events p) = None \<and> 0 < po_max_signal_items p \<and>
     fst ` set (po_patience p) = set nonTerminalStates \<and>
     (\<forall>(s, d) \<in> set (po_patience p). 0 < d \<and> d \<le> MaxPatienceBudget)"
proof -
  have 1: "Validate p = None \<longleftrightarrow>
     0 < po_max_body p \<and> 0 < po_max_feed_wait p \<and> 0 < po_pool_min p \<and>
     po_pool_min p \<le> po_pool_max p \<and> po_pool_max p \<le> MaxPoolMaxConns \<and> 0 < po_tick p \<and>
     0 \<le> po_max_depth p \<and> 0 < po_max_children p \<and> 0 < po_max_running p \<and>
     validateEventRateBudgetMap (po_max_events p) = None \<and> 0 < po_max_signal_items p \<and>
     (\<forall>s \<in> set nonTerminalStates. patience_present p s = None) \<and>
     (\<forall>sd \<in> set (po_patience p). patience_entry sd = None)"
    unfolding Validate_def by (auto simp: safety_err_def simp flip: first_error_None split: option.splits if_splits)
  have 2: "(\<forall>s \<in> set nonTerminalStates. patience_present p s = None) \<and>
       (\<forall>sd \<in> set (po_patience p). patience_entry sd = None) \<longleftrightarrow>
     fst ` set (po_patience p) = set nonTerminalStates \<and>
     (\<forall>(s, d) \<in> set (po_patience p). 0 < d \<and> d \<le> MaxPatienceBudget)"
    (is "?L \<longleftrightarrow> ?R")
  proof
    assume L: ?L
    have entry: "s \<in> set nonTerminalStates \<and> 0 < d \<and> d \<le> MaxPatienceBudget"
      if "(s, d) \<in> set (po_patience p)" for s d
    proof -
      have "patience_entry (s, d) = None" using L that by blast
      then show ?thesis by (simp add: patience_entry_None nonTerminalStates_iff)
    qed
    have "s \<in> fst ` set (po_patience p)" if "s \<in> set nonTerminalStates" for s
    proof -
      have "patience_present p s = None" using L that by blast
      then obtain d where "map_of (po_patience p) s = Some d"
        by (auto simp: patience_present_None)
      then show ?thesis by (force dest: map_of_SomeD)
    qed
    then have "fst ` set (po_patience p) = set nonTerminalStates" using entry by auto
    then show ?R using entry by auto
  next
    assume R: ?R
    have "patience_present p s = None" if "s \<in> set nonTerminalStates" for s
    proof -
      have "s \<in> fst ` set (po_patience p)" using R that by blast
      then obtain d where d: "(s, d) \<in> set (po_patience p)" by fastforce
      then have "map_of (po_patience p) s = Some d" by (rule map_of_is_SomeI [OF assms])
      moreover have "0 < d" using R d by blast
      ultimately show ?thesis by (simp add: patience_present_None)
    qed
    moreover have "patience_entry sd = None" if "sd \<in> set (po_patience p)" for sd
    proof (cases sd)
      case (Pair s d)
      have "s \<in> set nonTerminalStates" using R that Pair by (metis fst_conv image_eqI)
      moreover have "0 < d \<and> d \<le> MaxPatienceBudget" using R that Pair by blast
      ultimately show ?thesis by (simp add: Pair patience_entry_None nonTerminalStates_iff)
    qed
    ultimately show ?L by blast
  qed
  show ?thesis unfolding 1 2 by blast
qed

lemma profiles_valid: "(name, p) \<in> set Profiles \<Longrightarrow> Validate p = None"
proof -
  have "Validate DefaultPolicy = None" "Validate BringUpPolicy = None"
    by code_simp+
  then show "(name, p) \<in> set Profiles \<Longrightarrow> ?thesis" by (auto simp: Profiles_def)
qed

lemma MustValidateStartup_ok: "MustValidateStartup = Inr DefaultPolicy"
proof -
  have "first_error (\<lambda>(name, p). Validate p) Profiles = None"
    unfolding first_error_None using profiles_valid by auto
  then show ?thesis by (simp add: MustValidateStartup_def)
qed

section \<open>Properties\<close>

text \<open>
  The startup gate accepts exactly the finite policies: all input sizes, pools, ticks and
  budgets positive and within their caps, every projectable class budgeted, and a patience
  budget, positive and at most thirty days, for exactly the non-terminal states.
\<close>

theorem validated_policy_is_finite:
  assumes "distinct (map fst (po_patience p))"
  shows "Validate p = None \<longleftrightarrow>
     0 < po_max_body p \<and> 0 < po_max_feed_wait p \<and> 0 < po_pool_min p \<and>
     po_pool_min p \<le> po_pool_max p \<and> po_pool_max p \<le> 64 \<and> 0 < po_tick p \<and>
     0 \<le> po_max_depth p \<and> 0 < po_max_children p \<and> 0 < po_max_running p \<and>
     (\<exists>bs. po_max_events p = Some bs \<and>
        (\<forall>class \<in> {KindClassLifecycle, KindClassDecision, KindClassProgress}. 0 < map_int bs class) \<and>
        (\<forall>(class, m) \<in> set bs. ProjectableKindClass class \<and> 0 < m)) \<and>
     0 < po_max_signal_items p \<and>
     fst ` set (po_patience p) = {s. state_valid s \<and> \<not> state_terminal s} \<and>
     (\<forall>(s, d) \<in> set (po_patience p). 0 < d \<and> d \<le> 30 * 24 * hour)"
proof -
  have "set nonTerminalStates = {s. state_valid s \<and> \<not> state_terminal s}"
    using nonTerminalStates_iff by blast
  then show ?thesis
    unfolding Validate_None [OF assms] validateEventRateBudgetMap_None MaxPoolMaxConns_def
      MaxPatienceBudget_def by simp
qed

theorem validated_policy_is_finite_witness:
  "Validate (BringUpPolicy\<lparr>po_pool_max := 65\<rparr>) \<noteq> None \<and> po_pool_min BringUpPolicy \<le> po_pool_max BringUpPolicy"
  using validated_policy_is_finite [of "BringUpPolicy\<lparr>po_pool_max := 65\<rparr>"]
    validated_policy_is_finite [of BringUpPolicy] profiles_valid [of ProfileBringUp BringUpPolicy]
  by (simp add: BringUpPolicy_def)

text \<open>
  The startup gate lets the program start: both shipped policy profiles are valid, so the gate
  returns the default policy and no error.
\<close>

theorem profiles_pass_startup_gate:
  "MustValidateStartup = Inr DefaultPolicy \<and> list_all (\<lambda>(name, p). Validate p = None) Profiles"
  using MustValidateStartup_ok profiles_valid by (auto simp: list_all_iff)

end
