(* ===== verification/Convergence.thy ===== *)
theory Convergence
  imports Safety
begin

text \<open>
  internal/convergence: the reducers that turn signals into a verdict (reducers.go), Run and the
  recorded reduction (convergence.go), the inputs digest (digest.go), the retry budget
  (budget.go), the verdict event and its projector (events.go, projectors.go).  The reducer
  threshold_mean, which works on IEEE floating point scores, is not modelled; a score is the
  token of its JSON number.
\<close>

record signal =
  sg_kind :: string
  sg_model :: string
  sg_prompt_version :: string
  sg_sample_id :: string
  sg_pass :: "bool option"
  sg_score :: "string option"
  sg_raw :: string

record verdict =
  vd_disposition :: string
  vd_reason :: string

record reduction =
  rd_identity :: string
  rd_version :: int
  rd_attempt :: int
  rd_digest :: string
  rd_verdict :: verdict
  rd_config :: "(string \<times> json) list"
  rd_signals :: "signal list"

text \<open>A value of the interface Reducer, with the optional ReducerConfig.\<close>

record reducer =
  re_identity :: string
  re_version :: int
  re_config :: "(string \<times> json) list"
  re_reduce :: "signal list \<Rightarrow> verdict"

abbreviation verdict_of :: "string \<Rightarrow> string \<Rightarrow> verdict" where
  "verdict_of d r \<equiv> \<lparr>vd_disposition = d, vd_reason = r\<rparr>"

abbreviation icount :: "'a list \<Rightarrow> string" where
  "icount xs \<equiv> itoa (int (length xs))"

section \<open>Reducers\<close>

text \<open>The boolean readings of the signals of a kind; a blank kind selects every signal.\<close>

definition votes :: "string \<Rightarrow> signal list \<Rightarrow> bool list" where
  "votes kind sigs =
     map (\<lambda>s. the (sg_pass s))
       (filter (\<lambda>s. \<not> (kind \<noteq> [] \<and> sg_kind s \<noteq> kind) \<and> sg_pass s \<noteq> None) sigs)"

definition kind_config :: "string \<Rightarrow> (string \<times> json) list" where
  "kind_config kind = (if kind = [] then [] else [(''signal_kind'', JStr kind)])"

definition majority_reduce :: "string \<Rightarrow> signal list \<Rightarrow> verdict" where
  "majority_reduce kind sigs =
     (let bs = votes kind sigs; pass = filter (\<lambda>b. b) bs; fail = filter (\<lambda>b. \<not> b) bs;
          total = length pass + length fail in
      if total = 0
        then verdict_of VerdictEscalate ''no qualifying boolean signals to vote over''
      else if length pass * 2 > total
        then verdict_of VerdictAccept
          (icount pass @ ''/'' @ itoa (int total) @ '' graders passed (majority)'')
      else if length fail * 2 > total
        then verdict_of VerdictReject
          (icount fail @ ''/'' @ itoa (int total) @ '' graders failed (majority)'')
      else verdict_of VerdictEscalate
        (''tie: '' @ icount pass @ '' pass, '' @ icount fail @ '' fail''))"

definition MajorityVote :: "string \<Rightarrow> reducer" where
  "MajorityVote kind = \<lparr>re_identity = ''majority_vote'', re_version = 1,
     re_config = kind_config kind, re_reduce = majority_reduce kind\<rparr>"

definition unanimous_reduce :: "string \<Rightarrow> signal list \<Rightarrow> verdict" where
  "unanimous_reduce kind sigs =
     (let bs = votes kind sigs; failed = filter (\<lambda>b. \<not> b) bs in
      if bs = []
        then verdict_of VerdictEscalate
          ''no qualifying boolean signals; cannot require unanimity''
      else if failed \<noteq> []
        then verdict_of VerdictReject
          (icount failed @ ''/'' @ icount bs @ '' graders failed; unanimity required'')
      else verdict_of VerdictAccept (''all '' @ icount bs @ '' graders passed''))"

definition Unanimous :: "string \<Rightarrow> reducer" where
  "Unanimous kind = \<lparr>re_identity = ''unanimous'', re_version = 1,
     re_config = kind_config kind, re_reduce = unanimous_reduce kind\<rparr>"

definition checklistItemPrefix :: string where "checklistItemPrefix = ''checklist.item:''"

text \<open>The maps passed and failed of the loop over the signals, as the lists of their keys.\<close>

fun checklist_fold :: "signal list \<Rightarrow> string list \<times> string list \<Rightarrow> string list \<times> string list" where
  "checklist_fold [] pf = pf"
| "checklist_fold (s # ss) (passed, failed) =
     checklist_fold ss
       (if \<not> has_prefix (sg_kind s) checklistItemPrefix then (passed, failed)
        else case sg_pass s of
          None \<Rightarrow> (passed, failed)
        | Some b \<Rightarrow>
            let name = trim_prefix (sg_kind s) checklistItemPrefix in
            if b then (if name \<notin> set failed then (name # passed, failed) else (passed, failed))
            else (removeAll name passed, name # failed))"

definition checklist_reduce :: "string list \<Rightarrow> signal list \<Rightarrow> verdict" where
  "checklist_reduce required sigs =
     (if required = []
        then verdict_of VerdictEscalate
          ''no required checks declared; cannot claim convergence''
      else
        let (passed, failed) = checklist_fold sigs ([], []);
            failing = sort_strings (filter (\<lambda>n. n \<in> set failed) required);
            missing = sort_strings (filter (\<lambda>n. n \<notin> set failed \<and> n \<notin> set passed) required) in
        if missing = [] \<and> failing = []
          then verdict_of VerdictAccept (''all '' @ icount required @ '' required checks passed'')
        else verdict_of VerdictReject
          (join ''; ''
            ((if failing \<noteq> [] then [''failing: '' @ join '', '' failing] else []) @
             (if missing \<noteq> [] then [''missing: '' @ join '', '' missing] else []))))"

definition AllPassChecklist :: "string list \<Rightarrow> reducer" where
  "AllPassChecklist required = \<lparr>re_identity = ''all_pass_checklist'', re_version = 1,
     re_config = (if required = [] then [] else [(''required'', JArr (map JStr required))]),
     re_reduce = checklist_reduce required\<rparr>"

definition checksProposalValidKind :: string where
  "checksProposalValidKind = ''checks_proposal.valid''"

definition readings :: "string \<Rightarrow> signal list \<Rightarrow> (bool \<times> string) list" where
  "readings kind sigs =
     map (\<lambda>s. (the (sg_pass s), trim_space (sg_raw s)))
       (filter (\<lambda>s. sg_kind s = kind \<and> sg_pass s \<noteq> None) sigs)"

definition or_default :: "string \<Rightarrow> string \<Rightarrow> string" where
  "or_default s d = (if s = [] then d else s)"

definition checks_proposal_reduce :: "signal list \<Rightarrow> verdict" where
  "checks_proposal_reduce sigs =
     (let rs = readings checksProposalValidKind sigs;
          failures = map (\<lambda>r. or_default (snd r) ''proposal validation failed'')
            (filter (\<lambda>r. \<not> fst r) rs) in
      if failures \<noteq> [] then verdict_of VerdictReject (join ''; '' (sort_strings failures))
      else if list_ex fst rs then verdict_of VerdictAccept ''checks proposal validated''
      else verdict_of VerdictEscalate ''no checks_proposal.valid signal'')"

definition ChecksProposal :: reducer where
  "ChecksProposal = \<lparr>re_identity = ''checks_proposal'', re_version = 1, re_config = [],
     re_reduce = checks_proposal_reduce\<rparr>"

definition humanAckDecisionKind :: string where "humanAckDecisionKind = ''human_ack.decision''"

definition human_ack_reduce :: "signal list \<Rightarrow> verdict" where
  "human_ack_reduce sigs =
     (case readings humanAckDecisionKind sigs of
        [] \<Rightarrow> verdict_of VerdictEscalate ''no human_ack.decision signal''
      | (ok, raw) # _ \<Rightarrow>
          if ok then verdict_of VerdictAccept ''human acknowledged''
          else verdict_of VerdictReject (or_default raw ''human denied acknowledgement''))"

definition HumanAck :: reducer where
  "HumanAck = \<lparr>re_identity = ''human_ack'', re_version = 1, re_config = [],
     re_reduce = human_ack_reduce\<rparr>"

definition KnownReducer :: "string \<Rightarrow> int \<Rightarrow> bool" where
  "KnownReducer identity version =
     (if identity = re_identity (AllPassChecklist []) then version = re_version (AllPassChecklist [])
      else if identity = re_identity ChecksProposal then version = re_version ChecksProposal
      else if identity = re_identity HumanAck then version = re_version HumanAck
      else False)"

section \<open>Run\<close>

text \<open>json.Marshal of a Signal: the struct field source is written even when it is empty.\<close>

definition str_field :: "string \<Rightarrow> string \<Rightarrow> (string \<times> json) list" where
  "str_field k s = (if s = [] then [] else [(k, JStr s)])"

definition source_fields :: "signal \<Rightarrow> (string \<times> json) list" where
  "source_fields s = str_field ''model'' (sg_model s) @
     str_field ''prompt_version'' (sg_prompt_version s) @ str_field ''sample_id'' (sg_sample_id s)"

definition reading_fields :: "signal \<Rightarrow> (string \<times> json) list" where
  "reading_fields s =
     (case sg_pass s of None \<Rightarrow> [] | Some b \<Rightarrow> [(''pass'', JBool b)]) @
     (case sg_score s of None \<Rightarrow> [] | Some t \<Rightarrow> [(''score'', JNum t)]) @
     str_field ''raw'' (sg_raw s)"

definition signal_json :: "signal \<Rightarrow> json" where
  "signal_json s = JObj ([(''kind'', JStr (sg_kind s)), (''source'', JObj (source_fields s))] @
     reading_fields s)"

definition hex_digest :: "ext \<Rightarrow> json \<Rightarrow> string" where
  "hex_digest E j = hex_string (sha256 E (CanonicalJSON j))"

definition digestReductionInputs :: "ext \<Rightarrow> signal list \<Rightarrow> (string \<times> json) list \<Rightarrow> string" where
  "digestReductionInputs E sigs config =
     (if config = [] then hex_digest E (JArr (map signal_json sigs))
      else hex_digest E (JObj [(''reducer_config'', JObj config),
        (''signals'', JArr (map signal_json sigs))]))"

definition Run :: "ext \<Rightarrow> reducer \<Rightarrow> signal list \<Rightarrow> int \<Rightarrow> err + reduction" where
  "Run E r sigs attempt =
     (if attempt < 1
        then Inl (Err [] (''convergence: attempt must be >= 1, got '' @ itoa attempt))
      else
        let v = re_reduce r sigs in
        if \<not> verdict_valid (vd_disposition v)
          then Inl (Err [] (''convergence: reducer '' @ quote (re_identity r) @
            '' returned invalid disposition '' @ quote (vd_disposition v)))
        else Inr \<lparr>rd_identity = re_identity r, rd_version = re_version r, rd_attempt = attempt,
          rd_digest = digestReductionInputs E sigs (re_config r), rd_verdict = v,
          rd_config = re_config r, rd_signals = sigs\<rparr>)"

definition payload_signal :: "signal \<Rightarrow> json" where
  "payload_signal s = JObj ([(''kind'', JStr (sg_kind s))] @ reading_fields s @
     (if source_fields s \<noteq> [] then [(''source'', JObj (source_fields s))] else []))"

definition EventPayload :: "reduction \<Rightarrow> json" where
  "EventPayload red = JObj
     ([(''reducer_identity'', JStr (rd_identity red)), (''reducer_version'', jint (rd_version red)),
       (''attempt'', jint (rd_attempt red)), (''inputs_digest'', JStr (rd_digest red)),
       (''verdict'', JObj [(''disposition'', JStr (vd_disposition (rd_verdict red))),
          (''reason'', JStr (vd_reason (rd_verdict red)))]),
       (''signals'', JArr (map payload_signal (rd_signals red)))] @
      (if rd_config red \<noteq> [] then [(''reducer_config'', JObj (rd_config red))] else []))"

text \<open>The registry of reducers, a map from identities.\<close>

definition reducer_register ::
  "(string \<times> reducer) list \<Rightarrow> reducer \<Rightarrow> err + (string \<times> reducer) list" where
  "reducer_register reg r =
     (if re_identity r = [] then Inl (Err [] ''convergence: reducer identity is empty'')
      else if re_identity r \<in> fst ` set reg
        then Inl (Err [] (''convergence: reducer '' @ quote (re_identity r) @
          '' already registered''))
      else Inr ((re_identity r, r) # reg))"

definition reducer_get :: "(string \<times> reducer) list \<Rightarrow> string \<Rightarrow> err + reducer" where
  "reducer_get reg identity = (case map_of reg identity of
     None \<Rightarrow> Inl (Err ''convergence: unknown reducer'' ('': '' @ quote identity))
   | Some r \<Rightarrow> Inr r)"

fun register_all :: "reducer list \<Rightarrow> (string \<times> reducer) list \<Rightarrow> (string \<times> reducer) list" where
  "register_all [] reg = reg"
| "register_all (r # rs) reg =
     register_all rs (case reducer_register reg r of Inl e \<Rightarrow> reg | Inr reg' \<Rightarrow> reg')"

definition DefaultRegistry :: "(string \<times> reducer) list" where
  "DefaultRegistry = register_all [MajorityVote [], Unanimous [], ChecksProposal, HumanAck] []"

section \<open>The budget of a convergence loop\<close>

abbreviation EscalateFail :: string where "EscalateFail \<equiv> ''fail''"
abbreviation EscalateRequestApproval :: string where "EscalateRequestApproval \<equiv> ''request_approval''"
abbreviation EscalateHandToHuman :: string where "EscalateHandToHuman \<equiv> ''hand_to_human''"
abbreviation OutcomeAccept :: string where "OutcomeAccept \<equiv> ''accept''"
abbreviation OutcomeRetry :: string where "OutcomeRetry \<equiv> ''retry''"
abbreviation OutcomeEscalate :: string where "OutcomeEscalate \<equiv> ''escalate''"

record budget =
  bu_max_attempts :: int
  bu_escalation :: string

definition escalation_valid :: "string \<Rightarrow> bool" where
  "escalation_valid e \<longleftrightarrow> e = EscalateFail \<or> e = EscalateRequestApproval \<or> e = EscalateHandToHuman"

definition budget_validate :: "budget \<Rightarrow> err option" where
  "budget_validate b =
     (if bu_max_attempts b < 1
        then Some (Err [] (''convergence: budget MaxAttempts must be >= 1, got '' @
          itoa (bu_max_attempts b)))
      else if \<not> escalation_valid (bu_escalation b)
        then Some (Err [] (''convergence: budget Escalation '' @ quote (bu_escalation b) @
          '' is not a valid rule''))
      else None)"

definition budget_exhausted :: "budget \<Rightarrow> int \<Rightarrow> bool" where
  "budget_exhausted b attempt \<longleftrightarrow> attempt \<ge> bu_max_attempts b"

definition budget_next :: "budget \<Rightarrow> verdict \<Rightarrow> int \<Rightarrow> string \<times> string" where
  "budget_next b v attempt =
     (if vd_disposition v = VerdictAccept then (OutcomeAccept, [])
      else if vd_disposition v = VerdictEscalate then (OutcomeEscalate, bu_escalation b)
      else if budget_exhausted b attempt then (OutcomeEscalate, bu_escalation b)
      else (OutcomeRetry, []))"

text \<open>
  The loop the budget bounds: reduce, then retry with the next attempt as long as Next says so.
  The result is the outcome with the number of the attempt that decided.
\<close>

fun converge :: "nat \<Rightarrow> budget \<Rightarrow> (int \<Rightarrow> verdict) \<Rightarrow> int \<Rightarrow> (string \<times> string \<times> int) option" where
  "converge 0 b vs attempt = None"
| "converge (Suc n) b vs attempt =
     (case budget_next b (vs attempt) attempt of (out, rule) \<Rightarrow>
        if out = OutcomeRetry then converge n b vs (attempt + 1) else Some (out, rule, attempt))"

section \<open>The verdict event\<close>

text \<open>A json.RawMessage field: None when the key is absent.\<close>

definition jraw :: "json \<Rightarrow> string \<Rightarrow> json option" where
  "jraw j k = (case j of JObj kvs \<Rightarrow> map_of kvs k | _ \<Rightarrow> None)"

definition hex_digit :: "char \<Rightarrow> bool" where
  "hex_digit c \<longleftrightarrow> (CHR ''0'' \<le> c \<and> c \<le> CHR ''9'') \<or> (CHR ''a'' \<le> c \<and> c \<le> CHR ''f'') \<or>
     (CHR ''A'' \<le> c \<and> c \<le> CHR ''F'')"

record verdict_payload =
  vp_identity :: string
  vp_version :: int
  vp_attempt :: int
  vp_digest :: string
  vp_disposition :: string
  vp_reason :: string
  vp_config :: json
  vp_signals :: json

definition verdict_err :: "string \<Rightarrow> err" where
  "verdict_err s = Err [] (''convergence.verdict_recorded: '' @ s)"

definition decodeVerdictRecordedPayload :: "json \<Rightarrow> err + verdict_payload" where
  "decodeVerdictRecordedPayload j =
     bind_err (guard_err (jobject j \<and> jobject (jget j ''verdict'')) ErrDecode) (\<lambda>_.
     bind_err (jstring (jget j ''reducer_identity'')) (\<lambda>identity.
     bind_err (jinteger (jget j ''reducer_version'')) (\<lambda>version.
     bind_err (jinteger (jget j ''attempt'')) (\<lambda>attempt.
     bind_err (jstring (jget j ''inputs_digest'')) (\<lambda>digest.
     bind_err (jstring (jget (jget j ''verdict'') ''disposition'')) (\<lambda>disposition.
     bind_err (jstring (jget (jget j ''verdict'') ''reason'')) (\<lambda>reason.
     bind_err (guard_err (identity \<noteq> []) (verdict_err ''reducer_identity is required'')) (\<lambda>_.
     bind_err (guard_err (version \<ge> 1) (verdict_err ''reducer_version must be >= 1'')) (\<lambda>_.
     bind_err (guard_err (attempt \<ge> 1) (verdict_err ''attempt must be >= 1'')) (\<lambda>_.
     bind_err (guard_err (digest \<noteq> []) (verdict_err ''inputs_digest is required'')) (\<lambda>_.
     bind_err (guard_err (verdict_valid disposition)
       (verdict_err (''invalid disposition '' @ quote disposition))) (\<lambda>_.
     bind_err (guard_err (reason \<noteq> []) (verdict_err ''verdict.reason is required'')) (\<lambda>_.
     bind_err (guard_err (length digest = 64)
       (verdict_err ''inputs_digest must be 64 hex characters'')) (\<lambda>_.
     bind_err (guard_err (list_all hex_digit digest)
       (verdict_err ''inputs_digest must be hex'')) (\<lambda>_.
     bind_err (case jraw j ''signals'' of
         None \<Rightarrow> Inl (verdict_err ''signals must be valid JSON'')
       | Some (JArr ss) \<Rightarrow> Inr (JArr ss)
       | Some JNull \<Rightarrow> Inr JNull
       | Some _ \<Rightarrow> Inl (verdict_err ''signals must be a JSON array'')) (\<lambda>signals.
     bind_err (case jraw j ''reducer_config'' of
         None \<Rightarrow> Inr (JObj [])
       | Some c \<Rightarrow> if jobject c then Inr c
           else Inl (verdict_err ''reducer_config must be a JSON object'')) (\<lambda>config.
     Inr \<lparr>vp_identity = identity, vp_version = version, vp_attempt = attempt, vp_digest = digest,
       vp_disposition = disposition, vp_reason = reason, vp_config = config,
       vp_signals = signals\<rparr>)))))))))))))))))"

definition VerdictEventSpec ::
  "string \<Rightarrow> uuid option \<Rightarrow> uuid \<Rightarrow> reduction \<Rightarrow> err + spec" where
  "VerdictEventSpec source actor workItemID red =
     (if workItemID = uuid_nil then Inl (Err [] ''convergence: work_item_id is required'')
      else if \<not> source_valid source
        then Inl (Err [] (''convergence: source '' @ quote source @ '' is invalid''))
      else bind_err (decodeVerdictRecordedPayload (EventPayload red)) (\<lambda>_.
        Inr \<lparr>sp_subject_kind = SubjectConvergence, sp_subject_id = workItemID,
          sp_kind = EventConvergenceVerdictRecorded, sp_source = source, sp_actor = actor,
          sp_payload = EventPayload red, sp_discriminator = []\<rparr>))"

definition AppendVerdict ::
  "ext \<Rightarrow> tables projector list \<Rightarrow> time \<Rightarrow> db \<Rightarrow> string \<Rightarrow> uuid option \<Rightarrow> uuid \<Rightarrow> reduction \<Rightarrow>
   err + uuid \<times> bool \<times> db"
where
  "AppendVerdict E reg now st source actor workItemID red =
     bind_err (VerdictEventSpec source actor workItemID red) (Append E reg now st)"

definition verdictRecordedProjector :: "event \<Rightarrow> tables \<Rightarrow> err + tables" where
  "verdictRecordedProjector ev t =
     (if ev_subject_kind ev \<noteq> SubjectConvergence
        then Inl (verdict_err (''expected subject_kind '' @ quote SubjectConvergence @
          '', got '' @ quote (ev_subject_kind ev)))
      else if ev_subject_id ev = uuid_nil
        then Inl (verdict_err ''subject_id/work_item_id is required'')
      else bind_err (decodeVerdictRecordedPayload (ev_payload ev)) (\<lambda>p.
        let row = \<lparr>cv_event = ev_id ev, cv_work_item = ev_subject_id ev,
              cv_identity = vp_identity p, cv_version = vp_version p, cv_attempt = vp_attempt p,
              cv_digest = vp_digest p, cv_disposition = vp_disposition p,
              cv_reason = vp_reason p, cv_config = vp_config p, cv_signals = vp_signals p,
              cv_actor = ev_actor ev, cv_source = ev_source ev, cv_at = ev_occurred_at ev\<rparr>
        in Inr (t\<lparr>t_verdicts := upsert_row cv_event (\<lambda>_. row) row (t_verdicts t)\<rparr>)))"

definition convergence_projectors :: "tables projector list" where
  "convergence_projectors = [(EventConvergenceVerdictRecorded, verdictRecordedProjector)]"

section \<open>What every reducer owes Run\<close>

text \<open>
  The contract of the interface Reducer: a non-empty identity, a positive version, and a valid,
  explained verdict on every list of signals.  Most reducers are also symmetric: the order in
  which signals were recorded does not matter.
\<close>

locale reducer =
  fixes r :: reducer
  assumes identity: "re_identity r \<noteq> []"
    and version: "1 \<le> re_version r"
    and disposition: "verdict_valid (vd_disposition (re_reduce r sigs))"
    and reason: "vd_reason (re_reduce r sigs) \<noteq> []"
begin

lemma Run_total:
  "1 \<le> attempt \<Longrightarrow> Run E r sigs attempt = Inr \<lparr>rd_identity = re_identity r,
     rd_version = re_version r, rd_attempt = attempt,
     rd_digest = digestReductionInputs E sigs (re_config r), rd_verdict = re_reduce r sigs,
     rd_config = re_config r, rd_signals = sigs\<rparr>"
  by (simp add: Run_def disposition)

lemma Run_Inr_iff: "(\<exists>red. Run E r sigs attempt = Inr red) \<longleftrightarrow> 1 \<le> attempt"
  using Run_total [of attempt] by (auto simp: Run_def)

end

locale symmetric_reducer = reducer +
  assumes symmetric: "mset sigs = mset sigs' \<Longrightarrow> re_reduce r sigs = re_reduce r sigs'"
begin

lemma Run_symmetric:
  assumes "mset sigs = mset sigs'" "Run E r sigs attempt = Inr red" "Run E r sigs' attempt = Inr red'"
  shows "rd_verdict red = rd_verdict red'"
  using assms symmetric [OF assms(1)] by (auto simp: Run_def Let_def split: if_splits)

end

lemma votes_mset: "mset sigs = mset sigs' \<Longrightarrow> mset (votes kind sigs) = mset (votes kind sigs')"
  by (simp add: votes_def mset_map mset_filter)

lemma readings_mset:
  "mset sigs = mset sigs' \<Longrightarrow> mset (readings kind sigs) = mset (readings kind sigs')"
  by (simp add: readings_def mset_map mset_filter)

lemma list_ex_mset: "mset xs = mset ys \<Longrightarrow> list_ex P xs = list_ex P ys"
  by (metis list_ex_iff set_mset_mset)

lemma mset_Nil_iff: "mset xs = mset ys \<Longrightarrow> xs = [] \<longleftrightarrow> ys = []"
  by (metis mset_zero_iff)

lemma filter_mset_length: "mset xs = mset ys \<Longrightarrow> length (filter P xs) = length (filter P ys)"
  by (rule count_filter_perm)

lemma majority_valid:
  "verdict_valid (vd_disposition (majority_reduce kind sigs)) \<and>
   vd_reason (majority_reduce kind sigs) \<noteq> []"
  by (simp add: majority_reduce_def verdict_valid_def Let_def)

lemma unanimous_valid:
  "verdict_valid (vd_disposition (unanimous_reduce kind sigs)) \<and>
   vd_reason (unanimous_reduce kind sigs) \<noteq> []"
  by (simp add: unanimous_reduce_def verdict_valid_def Let_def)

text \<open>The readings of a named check: some signal of its kind passed, or some failed.\<close>

definition check_reads :: "signal list \<Rightarrow> string \<Rightarrow> bool \<Rightarrow> bool" where
  "check_reads sigs name b \<longleftrightarrow>
     (\<exists>s \<in> set sigs. sg_kind s = checklistItemPrefix @ name \<and> sg_pass s = Some b)"

lemma check_reads_Cons:
  "check_reads (s # sigs) name b \<longleftrightarrow>
     (sg_kind s = checklistItemPrefix @ name \<and> sg_pass s = Some b) \<or> check_reads sigs name b"
  by (auto simp: check_reads_def)

lemma checklist_fold_failed:
  "checklist_fold sigs (passed, failed) = (passed', failed') \<Longrightarrow>
   name \<in> set failed' \<longleftrightarrow> name \<in> set failed \<or> check_reads sigs name False"
proof (induction sigs "(passed, failed)" arbitrary: passed failed rule: checklist_fold.induct)
  case (2 s ss passed failed)
  then show ?case
    by (cases "sg_pass s") (auto simp: check_reads_Cons has_prefix_iff Let_def split: if_splits)
qed (simp add: check_reads_def)

lemma checklist_fold_passed:
  "checklist_fold sigs (passed, failed) = (passed', failed') \<Longrightarrow>
   name \<in> set passed' \<longleftrightarrow>
     (name \<in> set passed \<or> check_reads sigs name True \<and> name \<notin> set failed) \<and>
     \<not> check_reads sigs name False"
proof (induction sigs "(passed, failed)" arbitrary: passed failed rule: checklist_fold.induct)
  case (2 s ss passed failed)
  then show ?case
    by (cases "sg_pass s") (auto simp: check_reads_Cons has_prefix_iff Let_def split: if_splits)
qed (simp add: check_reads_def)

definition failing_checks :: "string list \<Rightarrow> signal list \<Rightarrow> string list" where
  "failing_checks required sigs = sort_strings (filter (\<lambda>n. check_reads sigs n False) required)"

definition missing_checks :: "string list \<Rightarrow> signal list \<Rightarrow> string list" where
  "missing_checks required sigs = sort_strings
     (filter (\<lambda>n. \<not> check_reads sigs n False \<and> \<not> check_reads sigs n True) required)"

lemma checklist_reduce_eq:
  "checklist_reduce required sigs =
     (if required = []
        then verdict_of VerdictEscalate
          ''no required checks declared; cannot claim convergence''
      else
        let failing = failing_checks required sigs; missing = missing_checks required sigs in
        if missing = [] \<and> failing = []
          then verdict_of VerdictAccept (''all '' @ icount required @ '' required checks passed'')
        else verdict_of VerdictReject
          (join ''; ''
            ((if failing \<noteq> [] then [''failing: '' @ join '', '' failing] else []) @
             (if missing \<noteq> [] then [''missing: '' @ join '', '' missing] else []))))"
proof -
  obtain passed failed where pf: "checklist_fold sigs ([], []) = (passed, failed)" by fastforce
  then have "n \<in> set failed \<longleftrightarrow> check_reads sigs n False"
    and "n \<in> set passed \<longleftrightarrow> check_reads sigs n True \<and> \<not> check_reads sigs n False" for n
    by (simp_all add: checklist_fold_failed [OF pf] checklist_fold_passed [OF pf])
  then have "filter (\<lambda>n. n \<in> set failed) required = filter (\<lambda>n. check_reads sigs n False) required"
    and "filter (\<lambda>n. n \<notin> set failed \<and> n \<notin> set passed) required =
      filter (\<lambda>n. \<not> check_reads sigs n False \<and> \<not> check_reads sigs n True) required"
    by (auto intro: filter_cong)
  then show ?thesis
    by (simp add: checklist_reduce_def pf failing_checks_def missing_checks_def)
qed

lemma checklist_accept_iff:
  "vd_disposition (checklist_reduce required sigs) = VerdictAccept \<longleftrightarrow>
     required \<noteq> [] \<and>
     (\<forall>n \<in> set required. check_reads sigs n True \<and> \<not> check_reads sigs n False)"
proof -
  have "missing_checks required sigs = [] \<longleftrightarrow>
      (\<forall>n \<in> set required. check_reads sigs n False \<or> check_reads sigs n True)"
    and "failing_checks required sigs = [] \<longleftrightarrow> (\<forall>n \<in> set required. \<not> check_reads sigs n False)"
    by (auto simp: missing_checks_def failing_checks_def sort_strings_def filter_empty_conv
        simp flip: set_empty2)
  then show ?thesis by (auto simp: checklist_reduce_eq Let_def)
qed

lemma check_reads_mset: "mset sigs = mset sigs' \<Longrightarrow> check_reads sigs = check_reads sigs'"
  unfolding check_reads_def by (metis set_mset_mset)

lemma checklist_symmetric:
  "mset sigs = mset sigs' \<Longrightarrow> checklist_reduce required sigs = checklist_reduce required sigs'"
  unfolding checklist_reduce_eq failing_checks_def missing_checks_def
  by (simp add: check_reads_mset [of sigs sigs'])

lemma join_nonempty: "xs \<noteq> [] \<Longrightarrow> \<forall>x \<in> set xs. x \<noteq> [] \<Longrightarrow> join sep xs \<noteq> []"
  by (cases xs rule: list.exhaust; cases "tl xs") auto

lemma checklist_valid:
  "verdict_valid (vd_disposition (checklist_reduce required sigs)) \<and>
   vd_reason (checklist_reduce required sigs) \<noteq> []"
  by (auto simp: checklist_reduce_eq verdict_valid_def Let_def)

lemma or_default_nonempty: "d \<noteq> [] \<Longrightarrow> or_default s d \<noteq> []"
  by (simp add: or_default_def)

lemma checks_proposal_valid:
  "verdict_valid (vd_disposition (checks_proposal_reduce sigs)) \<and>
   vd_reason (checks_proposal_reduce sigs) \<noteq> []"
proof -
  let ?fs = "map (\<lambda>r. or_default (snd r) ''proposal validation failed'')
      (filter (\<lambda>r. \<not> fst r) (readings checksProposalValidKind sigs))"
  have "join ''; '' (sort_strings ?fs) \<noteq> []" if "?fs \<noteq> []"
  proof (rule join_nonempty)
    show "sort_strings ?fs \<noteq> []" using that by (metis set_empty2 sort_strings_set)
    show "\<forall>x \<in> set (sort_strings ?fs). x \<noteq> []" by (auto simp: or_default_def split: if_splits)
  qed
  then show ?thesis by (simp add: checks_proposal_reduce_def verdict_valid_def Let_def)
qed

lemma human_ack_valid:
  "verdict_valid (vd_disposition (human_ack_reduce sigs)) \<and> vd_reason (human_ack_reduce sigs) \<noteq> []"
  by (auto simp: human_ack_reduce_def verdict_valid_def or_default_def split: list.splits)

lemma votes_symmetric:
  assumes "mset sigs = mset sigs'"
  shows "majority_reduce kind sigs = majority_reduce kind sigs'"
    and "unanimous_reduce kind sigs = unanimous_reduce kind sigs'"
proof -
  have bs: "mset (votes kind sigs) = mset (votes kind sigs')" by (rule votes_mset [OF assms])
  have f: "length (filter P (votes kind sigs)) = length (filter P (votes kind sigs'))" for P
    by (rule filter_mset_length [OF bs])
  show "majority_reduce kind sigs = majority_reduce kind sigs'"
    unfolding majority_reduce_def Let_def by (simp only: f)
  have n: "xs = [] \<longleftrightarrow> length xs = 0" for xs :: "bool list" by simp
  have "length (votes kind sigs) = length (votes kind sigs')" by (metis bs size_mset)
  then show "unanimous_reduce kind sigs = unanimous_reduce kind sigs'"
    unfolding unanimous_reduce_def Let_def n by (simp only: f)
qed

lemma checks_proposal_symmetric:
  assumes "mset sigs = mset sigs'"
  shows "checks_proposal_reduce sigs = checks_proposal_reduce sigs'"
proof -
  let ?f = "\<lambda>sigs. map (\<lambda>r. or_default (snd r) ''proposal validation failed'')
      (filter (\<lambda>r. \<not> fst r) (readings checksProposalValidKind sigs))"
  have rs: "mset (readings checksProposalValidKind sigs) = mset (readings checksProposalValidKind sigs')"
    by (rule readings_mset [OF assms])
  then have fs: "mset (?f sigs) = mset (?f sigs')" by (simp add: mset_map mset_filter)
  show ?thesis
    unfolding checks_proposal_reduce_def Let_def
    by (simp only: mset_Nil_iff [OF fs] sort_strings_perm [OF fs] list_ex_mset [OF rs])
qed

lemma reducer_sel [simp]:
  "re_identity (MajorityVote k) = ''majority_vote''" "re_version (MajorityVote k) = 1"
  "re_reduce (MajorityVote k) = majority_reduce k"
  "re_identity (Unanimous k) = ''unanimous''" "re_version (Unanimous k) = 1"
  "re_reduce (Unanimous k) = unanimous_reduce k"
  "re_identity (AllPassChecklist cs) = ''all_pass_checklist''" "re_version (AllPassChecklist cs) = 1"
  "re_reduce (AllPassChecklist cs) = checklist_reduce cs"
  "re_identity ChecksProposal = ''checks_proposal''" "re_version ChecksProposal = 1"
  "re_reduce ChecksProposal = checks_proposal_reduce"
  "re_identity HumanAck = ''human_ack''" "re_version HumanAck = 1"
  "re_reduce HumanAck = human_ack_reduce"
  by (simp_all add: MajorityVote_def Unanimous_def AllPassChecklist_def ChecksProposal_def
      HumanAck_def)

interpretation majority: symmetric_reducer "MajorityVote kind"
proof unfold_locales
  show "re_reduce (MajorityVote kind) sigs = re_reduce (MajorityVote kind) sigs'"
    if "mset sigs = mset sigs'" for sigs sigs'
    using votes_symmetric(1) [OF that] by (simp only: reducer_sel)
qed (use majority_valid in simp_all)

interpretation unanimous: symmetric_reducer "Unanimous kind"
proof unfold_locales
  show "re_reduce (Unanimous kind) sigs = re_reduce (Unanimous kind) sigs'"
    if "mset sigs = mset sigs'" for sigs sigs'
    using votes_symmetric(2) [OF that] by (simp only: reducer_sel)
qed (use unanimous_valid in simp_all)

interpretation checklist: symmetric_reducer "AllPassChecklist required"
proof unfold_locales
  show "re_reduce (AllPassChecklist required) sigs = re_reduce (AllPassChecklist required) sigs'"
    if "mset sigs = mset sigs'" for sigs sigs'
    using checklist_symmetric [OF that] by (simp only: reducer_sel)
qed (use checklist_valid in simp_all)

interpretation checks_proposal: symmetric_reducer ChecksProposal
proof unfold_locales
  show "re_reduce ChecksProposal sigs = re_reduce ChecksProposal sigs'"
    if "mset sigs = mset sigs'" for sigs sigs'
    using checks_proposal_symmetric [OF that] by (simp only: reducer_sel)
qed (use checks_proposal_valid in simp_all)

interpretation human_ack: reducer HumanAck
  by unfold_locales (use human_ack_valid in simp_all)

section \<open>The loop ends\<close>

lemma budget_next_retry:
  "fst (budget_next b v attempt) = OutcomeRetry \<Longrightarrow> attempt < bu_max_attempts b"
  by (auto simp: budget_next_def budget_exhausted_def split: if_splits)

lemma converge_stops:
  assumes "attempt + int n > bu_max_attempts b" "0 < n"
  shows "\<exists>out rule k. converge n b vs attempt = Some (out, rule, k) \<and> out \<noteq> OutcomeRetry \<and>
    attempt \<le> k \<and> k \<le> max attempt (bu_max_attempts b)"
  using assms
proof (induction n arbitrary: attempt)
  case (Suc n)
  obtain out rule where nx: "budget_next b (vs attempt) attempt = (out, rule)" by fastforce
  show ?case
  proof (cases "out = OutcomeRetry")
    case True
    then have less: "attempt < bu_max_attempts b"
      using budget_next_retry [of b "vs attempt" attempt] nx by simp
    then have "0 < n" using Suc.prems(1) by (cases n) auto
    with Suc.IH [of "attempt + 1"] Suc.prems(1) obtain out' rule' k where
      "converge n b vs (attempt + 1) = Some (out', rule', k)" "out' \<noteq> OutcomeRetry"
      "attempt + 1 \<le> k" "k \<le> max (attempt + 1) (bu_max_attempts b)"
      by auto
    with nx True less show ?thesis by auto
  next
    case False
    with nx show ?thesis by simp
  qed
qed simp

section \<open>Properties\<close>

definition pass_signal :: "string \<Rightarrow> bool \<Rightarrow> signal" where
  "pass_signal kind b = \<lparr>sg_kind = kind, sg_model = [], sg_prompt_version = [], sg_sample_id = [],
     sg_pass = Some b, sg_score = None, sg_raw = []\<rparr>"

text \<open>
  C10: No check, no convergence.  The checklist accepts only if checks are declared and every
  declared check has a passing signal and no failing one.
\<close>

theorem checklist_accepts_iff_all_pass:
  "(\<exists>red. Run E (AllPassChecklist required) sigs attempt = Inr red \<and>
      vd_disposition (rd_verdict red) = VerdictAccept) \<longleftrightarrow>
   1 \<le> attempt \<and> required \<noteq> [] \<and>
   (\<forall>n \<in> set required. check_reads sigs n True \<and> \<not> check_reads sigs n False)"
proof (cases "1 \<le> attempt")
  case True
  then show ?thesis using checklist_accept_iff by (simp add: checklist.Run_total)
qed (simp add: Run_def)

theorem checklist_accepts_iff_all_pass_witness:
  "\<nexists>red. Run decimal_ext (AllPassChecklist [''lint'', ''test''])
      [pass_signal ''checklist.item:lint'' True] 1 = Inr red \<and>
      vd_disposition (rd_verdict red) = VerdictAccept"
  unfolding checklist_accepts_iff_all_pass
  by (simp add: check_reads_def pass_signal_def checklistItemPrefix_def)

text \<open>
  The verdicts of the voting, checklist and proposal reducers do not depend on the order in
  which the signals were recorded, and never fail for a positive attempt.
\<close>

theorem verdict_order_independent:
  assumes "mset sigs = mset sigs'" "1 \<le> attempt"
    and "r \<in> {MajorityVote kind, Unanimous kind, AllPassChecklist required, ChecksProposal}"
  shows "\<exists>red red'. Run E r sigs attempt = Inr red \<and> Run E r sigs' attempt = Inr red' \<and>
    rd_verdict red = rd_verdict red' \<and> verdict_valid (vd_disposition (rd_verdict red)) \<and>
    vd_reason (rd_verdict red) \<noteq> []"
proof -
  have "symmetric_reducer r"
    using assms(3) majority.symmetric_reducer_axioms unanimous.symmetric_reducer_axioms
      checklist.symmetric_reducer_axioms checks_proposal.symmetric_reducer_axioms by blast
  then have r: "reducer r" and s: "re_reduce r sigs = re_reduce r sigs'"
    by (rule symmetric_reducer.axioms(1), rule symmetric_reducer.symmetric) fact
  show ?thesis
    unfolding reducer.Run_total [OF r assms(2)]
    using s reducer.disposition [OF r, of sigs] reducer.reason [OF r, of sigs] by simp
qed

theorem verdict_order_independent_witness:
  "\<exists>red red'. Run decimal_ext (MajorityVote []) [pass_signal ''a'' True, pass_signal ''b'' False] 1 = Inr red \<and>
    Run decimal_ext (MajorityVote []) [pass_signal ''b'' False, pass_signal ''a'' True] 1 = Inr red' \<and>
    rd_verdict red = rd_verdict red' \<and> verdict_valid (vd_disposition (rd_verdict red)) \<and>
    vd_reason (rd_verdict red) \<noteq> []"
  by (rule verdict_order_independent [where kind = "[]" and required = "[]"]) simp_all

lemma converge_outcome:
  "converge n b vs attempt = Some (out, rule, k) \<Longrightarrow>
   out = OutcomeAccept \<or> out = OutcomeEscalate \<and> rule = bu_escalation b"
proof (induction n arbitrary: attempt)
  case (Suc n)
  then show ?case by (auto simp: budget_next_def split: if_splits)
qed simp

text \<open>
  A convergence loop ends: after at most MaxAttempts reductions the budget says accept or
  escalate, whatever the verdicts are, and it escalates by its own rule unless it accepts.
\<close>

theorem convergence_loop_ends:
  assumes "1 \<le> bu_max_attempts b"
  shows "\<exists>out rule k. converge (nat (bu_max_attempts b)) b vs 1 = Some (out, rule, k) \<and>
    (out = OutcomeAccept \<or> out = OutcomeEscalate \<and> rule = bu_escalation b) \<and>
    1 \<le> k \<and> k \<le> bu_max_attempts b"
proof -
  obtain out rule k where c: "converge (nat (bu_max_attempts b)) b vs 1 = Some (out, rule, k)"
      "1 \<le> k" "k \<le> bu_max_attempts b"
    using converge_stops [of b 1 "nat (bu_max_attempts b)" vs] assms by auto
  then show ?thesis using converge_outcome [OF c(1)] by blast
qed

theorem convergence_loop_ends_witness:
  "\<exists>out rule k. converge (nat 2) \<lparr>bu_max_attempts = 2, bu_escalation = EscalateHandToHuman\<rparr>
      (\<lambda>_. verdict_of VerdictReject ''no'') 1 = Some (out, rule, k) \<and>
    (out = OutcomeAccept \<or> out = OutcomeEscalate \<and> rule = EscalateHandToHuman) \<and> 1 \<le> k \<and> k \<le> 2"
  using convergence_loop_ends [of "\<lparr>bu_max_attempts = 2, bu_escalation = EscalateHandToHuman\<rparr>"
      "\<lambda>_. verdict_of VerdictReject ''no''"] by simp

end
