(* ===== verification/Registry.thy ===== *)
theory Registry
  imports Convergence
begin

text \<open>
  internal/registry: versioned tropisms and cultivars.  A definition is an event; the tables
  tropisms and cultivars hold the latest version of each name, and older versions are read back
  from the log.  A json.RawMessage that is blank is None.
\<close>

definition ErrInvalidName :: string where "ErrInvalidName = ''registry: invalid name''"
definition ErrInvalidVersion :: string where "ErrInvalidVersion = ''registry: invalid version''"
definition ErrUnknownReducer :: string where "ErrUnknownReducer = ''registry: unknown_reducer''"
definition ErrUnknownTropism :: string where "ErrUnknownTropism = ''registry: unknown_tropism''"
definition ErrUnknownCultivar :: string where "ErrUnknownCultivar = ''registry: unknown_cultivar''"
definition ErrVersionConflict :: string where "ErrVersionConflict = ''registry: version_conflict''"
definition ErrRootstockImmutable :: string where
  "ErrRootstockImmutable = ''registry: rootstock_immutable''"
definition ErrInvalidPayload :: string where "ErrInvalidPayload = ''registry: invalid payload''"

definition subjectNamespace :: uuid where
  "subjectNamespace = 0xe6f914d2865955c786d328172a6e38c7"

definition TropismSubjectID :: "ext \<Rightarrow> string \<Rightarrow> uuid" where
  "TropismSubjectID E name = uuid_sha1 E subjectNamespace (''tropism|'' @ name)"

definition CultivarSubjectID :: "ext \<Rightarrow> string \<Rightarrow> uuid" where
  "CultivarSubjectID E name = uuid_sha1 E subjectNamespace (''cultivar|'' @ name)"

record tropism_input =
  ti_name :: string
  ti_version :: int
  ti_reducer :: "string \<times> int"
  ti_params :: "json option"
  ti_description :: string

section \<open>Normalisation\<close>

text \<open>The loop over the runes of a name, with the index of the rune and the length.\<close>

fun name_chars :: "nat \<Rightarrow> nat \<Rightarrow> string \<Rightarrow> bool" where
  "name_chars i n [] = True"
| "name_chars i n (r # rs) =
     ((CHR ''a'' \<le> r \<and> r \<le> CHR ''z'' \<or> CHR ''0'' \<le> r \<and> r \<le> CHR ''9'' \<or>
       r = CHR ''-'' \<and> 0 < i \<and> i + 1 < n) \<and> name_chars (i + 1) n rs)"

definition normalizeName :: "string \<Rightarrow> err + string" where
  "normalizeName name0 =
     (let name = trim_space name0 in
      if name = [] then Inl (Err ErrInvalidName '': name is required'')
      else if \<not> name_chars 0 (length name) name
        then Inl (Err ErrInvalidName ('': '' @ quote name @ '' must match [a-z0-9][a-z0-9-]*''))
      else if str_contains name ''--''
        then Inl (Err ErrInvalidName ('': '' @ quote name @ '' must not contain repeated hyphens''))
      else Inr name)"

definition normalizeJSONObject :: "json option \<Rightarrow> string \<Rightarrow> err + json" where
  "normalizeJSONObject raw field = (case raw of
     None \<Rightarrow> Inr (JObj [])
   | Some (JObj kvs) \<Rightarrow> Inr (jnorm (JObj kvs))
   | Some _ \<Rightarrow> Inl (Err ErrInvalidPayload ('': '' @ field @ '' must be a JSON object'')))"

definition tropism_payload :: "tropism \<Rightarrow> json" where
  "tropism_payload t = JObj
     [(''name'', JStr (tr_name t)), (''version'', jint (tr_version t)),
      (''reducer'', JObj [(''identity'', JStr (fst (tr_reducer t))),
         (''version'', jint (snd (tr_reducer t)))]),
      (''params'', tr_params t), (''description'', JStr (tr_description t))]"

definition normalizeTropismInput :: "tropism_input \<Rightarrow> err + tropism \<times> json" where
  "normalizeTropismInput inp =
     bind_err (normalizeName (ti_name inp)) (\<lambda>name.
     bind_err (guard_err (ti_version inp \<ge> 1)
       (Err ErrInvalidVersion '': version must be >= 1'')) (\<lambda>_.
     bind_err (guard_err (trim_space (fst (ti_reducer inp)) \<noteq> [] \<and> snd (ti_reducer inp) \<ge> 1)
       (Err ErrInvalidPayload '': reducer identity and version are required'')) (\<lambda>_.
     let identity = trim_space (fst (ti_reducer inp)) in
     bind_err (guard_err (KnownReducer identity (snd (ti_reducer inp)))
       (Err ErrUnknownReducer ('': no reducer '' @ identity @ ''@'' @ itoa (snd (ti_reducer inp))))) (\<lambda>_.
     bind_err (normalizeJSONObject (ti_params inp) ''params'') (\<lambda>params.
     let t = \<lparr>tr_name = name, tr_version = ti_version inp,
         tr_reducer = (identity, snd (ti_reducer inp)), tr_params = params,
         tr_description = trim_space (ti_description inp)\<rparr>
     in Inr (t, tropism_payload t))))))"

fun clean_scopes :: "nat \<Rightarrow> string list \<Rightarrow> string list \<Rightarrow> err + string list" where
  "clean_scopes i seen [] = Inr []"
| "clean_scopes i seen (s # ss) =
     (let scope = trim_space s in
      if scope = [] then Inl (Err ErrInvalidPayload ('': profile.scopes_template['' @ itoa (int i) @
        ''] is blank''))
      else if scope \<in> set seen then clean_scopes (i + 1) seen ss
      else map_sum id (\<lambda>r. scope # r) (clean_scopes (i + 1) (scope # seen) ss))"

text \<open>Assignment to a Go map, as an association list.\<close>

definition map_put :: "'k \<Rightarrow> 'v \<Rightarrow> ('k \<times> 'v) list \<Rightarrow> ('k \<times> 'v) list" where
  "map_put k v m = (k, v) # filter (\<lambda>kv. fst kv \<noteq> k) m"

fun normalizeXylemEventRateBudgets ::
  "(string \<times> int) list \<Rightarrow> (string \<times> int) list \<Rightarrow> err + (string \<times> int) list" where
  "normalizeXylemEventRateBudgets [] out = Inr out"
| "normalizeXylemEventRateBudgets ((raw, m) # kvs) out =
     (let class = trim_space raw in
      if class = [] then Inl (Err ErrInvalidPayload
        '': xylem.max_events_per_item_per_hour_by_class contains blank class'')
      else if \<not> ProjectableKindClass class then Inl (Err ErrInvalidPayload
        ('': xylem.max_events_per_item_per_hour_by_class['' @ class @
         ''] is not a projectable kind class''))
      else if m < 0 then Inl (Err ErrInvalidPayload
        ('': xylem.max_events_per_item_per_hour_by_class['' @ class @ ''] must be >= 0''))
      else normalizeXylemEventRateBudgets kvs (if m = 0 then out else map_put class m out))"

definition int_field :: "string \<Rightarrow> int \<Rightarrow> (string \<times> json) list" where
  "int_field k i = (if i = 0 then [] else [(k, jint i)])"

definition xylem_json :: "xylem \<Rightarrow> json" where
  "xylem_json x = JObj
     ([(''max_attempts'', jint (xy_max_attempts x)), (''max_wall_seconds'', jint (xy_max_wall_seconds x)),
       (''max_depth'', jint (xy_max_depth x))] @
      int_field ''max_children_per_item'' (xy_max_children x) @
      int_field ''max_concurrent_running_items_per_token'' (xy_max_running x) @
      (if xy_max_events x = [] then []
       else [(''max_events_per_item_per_hour_by_class'',
          JObj (sort_key fst (map (\<lambda>(k, v). (k, jint v)) (xy_max_events x))))]))"

definition cultivar_payload :: "cultivar \<Rightarrow> json" where
  "cultivar_payload c = JObj
     [(''name'', JStr (cu_name c)), (''version'', jint (cu_version c)),
      (''rootstock'', JBool (cu_rootstock c)),
      (''tropism'', JObj [(''name'', JStr (fst (cu_tropism c))),
         (''version'', jint (snd (cu_tropism c)))]),
      (''profile'', JObj [(''briefing'', JStr (cu_briefing c)),
         (''scopes_template'', JArr (map JStr (cu_scopes c)))]),
      (''xylem'', xylem_json (cu_xylem c)), (''phloem'', JStr (cu_phloem c)),
      (''description'', JStr (cu_description c))]"

definition require_payload :: "bool \<Rightarrow> string \<Rightarrow> err + unit" where
  "require_payload ok msg = guard_err ok (Err ErrInvalidPayload ('': '' @ msg))"

definition normalizeCultivarInput :: "cultivar \<Rightarrow> err + cultivar \<times> json" where
  "normalizeCultivarInput inp =
     bind_err (normalizeName (cu_name inp)) (\<lambda>name.
     bind_err (guard_err (cu_version inp \<ge> 1)
       (Err ErrInvalidVersion '': version must be >= 1'')) (\<lambda>_.
     bind_err (case normalizeName (fst (cu_tropism inp)) of
         Inl e \<Rightarrow> Inl (Err ErrInvalidPayload ('': tropism.name: '' @ err_message e))
       | Inr n \<Rightarrow> Inr n) (\<lambda>tropismName.
     bind_err (require_payload (snd (cu_tropism inp) \<ge> 1) ''tropism.version must be >= 1'') (\<lambda>_.
     bind_err (require_payload (trim_space (cu_briefing inp) \<noteq> []) ''profile.briefing is required'') (\<lambda>_.
     bind_err (clean_scopes 0 [] (cu_scopes inp)) (\<lambda>scopes.
     bind_err (require_payload (scopes \<noteq> []) ''profile.scopes_template is required'') (\<lambda>_.
     let x = cu_xylem inp in
     bind_err (require_payload (xy_max_attempts x \<ge> 1) ''xylem.max_attempts must be >= 1'') (\<lambda>_.
     bind_err (require_payload (xy_max_wall_seconds x \<ge> 1) ''xylem.max_wall_seconds must be >= 1'') (\<lambda>_.
     bind_err (require_payload (xy_max_depth x \<ge> 0) ''xylem.max_depth must be >= 0'') (\<lambda>_.
     bind_err (require_payload (xy_max_children x \<ge> 0) ''xylem.max_children_per_item must be >= 0'') (\<lambda>_.
     bind_err (require_payload (xy_max_running x \<ge> 0)
       ''xylem.max_concurrent_running_items_per_token must be >= 0'') (\<lambda>_.
     bind_err (normalizeXylemEventRateBudgets (xy_max_events x) []) (\<lambda>budgets.
     bind_err (require_payload (trim_space (cu_phloem inp) \<noteq> []) ''phloem is required'') (\<lambda>_.
     let c = inp\<lparr>cu_name := name, cu_tropism := (tropismName, snd (cu_tropism inp)),
         cu_briefing := trim_space (cu_briefing inp), cu_scopes := scopes,
         cu_xylem := x\<lparr>xy_max_events := budgets\<rparr>, cu_phloem := trim_space (cu_phloem inp),
         cu_description := trim_space (cu_description inp)\<rparr>
     in Inr (c, cultivar_payload c)))))))))))))))"

section \<open>Decoding a definition event\<close>

definition decodeTropism :: "json \<Rightarrow> err + tropism_input" where
  "decodeTropism j =
     bind_err (guard_err (jobject j \<and> jobject (jget j ''reducer'')) ErrDecode) (\<lambda>_.
     bind_err (jstring (jget j ''name'')) (\<lambda>name.
     bind_err (jinteger (jget j ''version'')) (\<lambda>version.
     bind_err (jstring (jget (jget j ''reducer'') ''identity'')) (\<lambda>identity.
     bind_err (jinteger (jget (jget j ''reducer'') ''version'')) (\<lambda>rversion.
     bind_err (jstring (jget j ''description'')) (\<lambda>description.
     Inr \<lparr>ti_name = name, ti_version = version, ti_reducer = (identity, rversion),
       ti_params = jraw j ''params'', ti_description = description\<rparr>))))))"

fun decode_budgets :: "(string \<times> json) list \<Rightarrow> err + (string \<times> int) list" where
  "decode_budgets [] = Inr []"
| "decode_budgets ((k, v) # kvs) =
     bind_err (jinteger v) (\<lambda>i. map_sum id (\<lambda>r. (k, i) # r) (decode_budgets kvs))"

definition decodeXylem :: "json \<Rightarrow> err + xylem" where
  "decodeXylem j =
     bind_err (guard_err (jobject j) ErrDecode) (\<lambda>_.
     bind_err (jinteger (jget j ''max_attempts'')) (\<lambda>a.
     bind_err (jinteger (jget j ''max_wall_seconds'')) (\<lambda>w.
     bind_err (jinteger (jget j ''max_depth'')) (\<lambda>d.
     bind_err (jinteger (jget j ''max_children_per_item'')) (\<lambda>c.
     bind_err (jinteger (jget j ''max_concurrent_running_items_per_token'')) (\<lambda>r.
     bind_err (case jget j ''max_events_per_item_per_hour_by_class'' of
         JObj kvs \<Rightarrow> decode_budgets kvs | JNull \<Rightarrow> Inr [] | _ \<Rightarrow> Inl ErrDecode) (\<lambda>ev.
     Inr \<lparr>xy_max_attempts = a, xy_max_wall_seconds = w, xy_max_depth = d, xy_max_children = c,
       xy_max_running = r, xy_max_events = ev\<rparr>)))))))"

definition decodeCultivar :: "json \<Rightarrow> err + cultivar" where
  "decodeCultivar j =
     bind_err (guard_err (jobject j \<and> jobject (jget j ''tropism'') \<and> jobject (jget j ''profile''))
       ErrDecode) (\<lambda>_.
     bind_err (jstring (jget j ''name'')) (\<lambda>name.
     bind_err (jinteger (jget j ''version'')) (\<lambda>version.
     bind_err (jboolean (jget j ''rootstock'')) (\<lambda>rootstock.
     bind_err (jstring (jget (jget j ''tropism'') ''name'')) (\<lambda>tname.
     bind_err (jinteger (jget (jget j ''tropism'') ''version'')) (\<lambda>tversion.
     bind_err (jstring (jget (jget j ''profile'') ''briefing'')) (\<lambda>briefing.
     bind_err (jstrings (jget (jget j ''profile'') ''scopes_template'')) (\<lambda>scopes.
     bind_err (decodeXylem (jget j ''xylem'')) (\<lambda>x.
     bind_err (jstring (jget j ''phloem'')) (\<lambda>phloem.
     bind_err (jstring (jget j ''description'')) (\<lambda>description.
     Inr \<lparr>cu_name = name, cu_version = version, cu_rootstock = rootstock,
       cu_tropism = (tname, tversion), cu_briefing = briefing, cu_scopes = scopes,
       cu_xylem = x, cu_phloem = phloem, cu_description = description\<rparr>)))))))))))"

definition subject_err :: "string \<Rightarrow> string \<Rightarrow> string \<Rightarrow> err" where
  "subject_err kind expected got =
     Err [] (kind @ '': expected subject_kind '' @ quote expected @ '', got '' @ quote got)"

definition tropismDefinedProjector :: "event \<Rightarrow> tables \<Rightarrow> err + tables" where
  "tropismDefinedProjector ev t =
     (if ev_subject_kind ev \<noteq> SubjectTropism
        then Inl (subject_err EventTropismDefined SubjectTropism (ev_subject_kind ev))
      else bind_err (decodeTropism (ev_payload ev)) (\<lambda>inp.
        bind_err (normalizeTropismInput inp) (\<lambda>(tr, _).
        Inr (t\<lparr>t_tropisms := upsert_row tr_name (\<lambda>_. tr) tr (t_tropisms t)\<rparr>))))"

definition cultivarDefinedProjector :: "event \<Rightarrow> tables \<Rightarrow> err + tables" where
  "cultivarDefinedProjector ev t =
     (if ev_subject_kind ev \<noteq> SubjectCultivar
        then Inl (subject_err EventCultivarDefined SubjectCultivar (ev_subject_kind ev))
      else bind_err (decodeCultivar (ev_payload ev)) (\<lambda>inp.
        bind_err (normalizeCultivarInput inp) (\<lambda>(cu, _).
        Inr (t\<lparr>t_cultivars := upsert_row cu_name (\<lambda>_. cu) cu (t_cultivars t)\<rparr>))))"

definition registry_projectors :: "tables projector list" where
  "registry_projectors =
     [(EventTropismDefined, tropismDefinedProjector), (EventCultivarDefined, cultivarDefinedProjector)]"

section \<open>Lookup\<close>

definition GetTropism :: "tables \<Rightarrow> string \<Rightarrow> err + tropism" where
  "GetTropism t name0 = bind_err (normalizeName name0) (\<lambda>name.
     case get_row tr_name name (t_tropisms t) of
       Some tr \<Rightarrow> Inr tr
     | None \<Rightarrow> Inl (Err ErrUnknownTropism ('': no tropism named '' @ name @ ''; consult registry.list'')))"

definition GetCultivar :: "tables \<Rightarrow> string \<Rightarrow> err + cultivar" where
  "GetCultivar t name0 = bind_err (normalizeName name0) (\<lambda>name.
     case get_row cu_name name (t_cultivars t) of
       Some cu \<Rightarrow> Inr cu
     | None \<Rightarrow> Inl (Err ErrUnknownCultivar ('': no cultivar named '' @ name @ ''; consult registry.list'')))"

text \<open>strconv.Atoi; the overflow of 64 bit integers is left out.\<close>

definition atoi :: "string \<Rightarrow> int option" where
  "atoi s = (case s of
     [] \<Rightarrow> None
   | c # cs \<Rightarrow> if c = CHR ''+'' then map_option int (parse_nat cs) else parse_int s)"

definition ParseCultivarRef :: "string \<Rightarrow> err + string \<times> int" where
  "ParseCultivarRef ref0 =
     (let ref = trim_space ref0 in
      if ref = [] then Inl (Err ErrInvalidPayload '': cultivar is required'')
      else case cut CHR ''@'' ref of
        None \<Rightarrow> map_sum id (\<lambda>n. (n, 0)) (normalizeName ref)
      | Some (before, after) \<Rightarrow>
          (case atoi (trim_space after) of
             Some v \<Rightarrow> if v < 1 then Inl (Err ErrInvalidVersion '': cultivar version must be >= 1'')
               else map_sum id (\<lambda>n. (n, v)) (normalizeName (trim_space before))
           | None \<Rightarrow> Inl (Err ErrInvalidVersion '': cultivar version must be >= 1'')))"

text \<open>ORDER BY occurred_at DESC, seq DESC LIMIT 1.\<close>

definition latest_event :: "event list \<Rightarrow> event option" where
  "latest_event evs = fold (\<lambda>e best. case best of
     None \<Rightarrow> Some e
   | Some b \<Rightarrow> if ev_occurred_at b \<le> ev_occurred_at e then Some e else Some b) evs None"

definition names_version :: "string \<Rightarrow> int \<Rightarrow> event \<Rightarrow> bool" where
  "names_version name version e \<longleftrightarrow>
     jtext (ev_payload e) ''name'' = Some name \<and>
     (case jtext (ev_payload e) ''version'' of None \<Rightarrow> False | Some v \<Rightarrow> parse_int v = Some version)"

definition GetCultivarRef :: "db \<Rightarrow> string \<Rightarrow> err + cultivar" where
  "GetCultivarRef st ref = bind_err (ParseCultivarRef ref) (\<lambda>(name, version).
     if version = 0 then GetCultivar (proj st) name
     else case latest_event (filter (\<lambda>e. ev_subject_kind e = SubjectCultivar \<and>
         ev_kind e = EventCultivarDefined \<and> names_version name version e) (log st)) of
       None \<Rightarrow> Inl (Err ErrUnknownCultivar ('': no cultivar named '' @ name @ ''@'' @ itoa version @
         ''; consult registry.list''))
     | Some e \<Rightarrow> bind_err (decodeCultivar (ev_payload e)) (\<lambda>inp.
         map_sum id fst (normalizeCultivarInput inp)))"

section \<open>Definition\<close>

definition definitionEventExists ::
  "ext \<Rightarrow> db \<Rightarrow> string \<Rightarrow> uuid \<Rightarrow> string \<Rightarrow> json \<Rightarrow> err + bool" where
  "definitionEventExists E st subjectKind subjectID kind payload =
     bind_err (DeterministicID E \<lparr>sp_subject_kind = subjectKind, sp_subject_id = subjectID,
       sp_kind = kind, sp_source = SourceSystem, sp_actor = None, sp_payload = payload,
       sp_discriminator = []\<rparr>) (\<lambda>i. Inr (i \<in> ev_id ` set (log st)))"

definition tropismVersionExists :: "db \<Rightarrow> string \<times> int \<Rightarrow> bool" where
  "tropismVersionExists st ref \<longleftrightarrow>
     list_ex (\<lambda>e. ev_kind e = EventTropismDefined \<and> ev_subject_kind e = SubjectTropism \<and>
       names_version (fst ref) (snd ref) e) (log st)"

definition sameTropism :: "tropism \<Rightarrow> tropism \<Rightarrow> bool" where
  "sameTropism current new \<longleftrightarrow> tr_name current = tr_name new \<and> tr_version current = tr_version new \<and>
     tr_reducer current = tr_reducer new \<and> tr_description current = tr_description new \<and>
     normalizeJSONObject (Some (tr_params current)) ''a'' = normalizeJSONObject (Some (tr_params new)) ''a''"

definition stringIntMapsEqual :: "(string \<times> int) list \<Rightarrow> (string \<times> int) list \<Rightarrow> bool" where
  "stringIntMapsEqual a b \<longleftrightarrow> length a = length b \<and> list_all (\<lambda>(k, v). map_int b k = v) a"

definition xylemEqual :: "xylem \<Rightarrow> xylem \<Rightarrow> bool" where
  "xylemEqual a b \<longleftrightarrow> xy_max_attempts a = xy_max_attempts b \<and>
     xy_max_wall_seconds a = xy_max_wall_seconds b \<and> xy_max_depth a = xy_max_depth b \<and>
     xy_max_children a = xy_max_children b \<and> xy_max_running a = xy_max_running b \<and>
     stringIntMapsEqual (xy_max_events a) (xy_max_events b)"

definition sameCultivar :: "cultivar \<Rightarrow> cultivar \<Rightarrow> bool" where
  "sameCultivar current new \<longleftrightarrow> cu_name current = cu_name new \<and> cu_version current = cu_version new \<and>
     cu_rootstock current = cu_rootstock new \<and> cu_tropism current = cu_tropism new \<and>
     cu_briefing current = cu_briefing new \<and> cu_scopes current = cu_scopes new \<and>
     xylemEqual (cu_xylem current) (cu_xylem new) \<and> cu_phloem current = cu_phloem new \<and>
     cu_description current = cu_description new"

definition definition_spec :: "string \<Rightarrow> uuid \<Rightarrow> string \<Rightarrow> token \<Rightarrow> json \<Rightarrow> spec" where
  "definition_spec subjectKind subjectID kind actor payload =
     \<lparr>sp_subject_kind = subjectKind, sp_subject_id = subjectID, sp_kind = kind,
      sp_source = sourceForActor actor, sp_actor = Some (tok_id actor), sp_payload = payload,
      sp_discriminator = []\<rparr>"

definition version_conflict :: "string \<Rightarrow> int \<Rightarrow> int \<Rightarrow> err" where
  "version_conflict name current got = Err ErrVersionConflict
     ('': '' @ name @ '' is at version '' @ itoa current @ ''; got '' @ itoa got)"

definition must_start_at_1 :: "string \<Rightarrow> int \<Rightarrow> err" where
  "must_start_at_1 name got = Err ErrVersionConflict
     ('': '' @ name @ '' must start at version 1; got '' @ itoa got)"

definition DefineTropism ::
  "ext \<Rightarrow> tables projector list \<Rightarrow> time \<Rightarrow> db \<Rightarrow> token \<Rightarrow> tropism_input \<Rightarrow> err + tropism \<times> bool \<times> db"
where
  "DefineTropism E reg now st actor inp =
     bind_err (normalizeTropismInput inp) (\<lambda>(new, payload).
     bind_err (case get_row tr_name (tr_name new) (t_tropisms (proj st)) of
         Some current \<Rightarrow>
           if sameTropism current new then Inr ()
           else if tr_version new \<noteq> tr_version current + 1 then
             bind_err (definitionEventExists E st SubjectTropism
                 (TropismSubjectID E (tr_name new)) EventTropismDefined payload) (\<lambda>exists.
               guard_err exists (version_conflict (tr_name new) (tr_version current) (tr_version new)))
           else Inr ()
       | None \<Rightarrow> guard_err (tr_version new = 1) (must_start_at_1 (tr_name new) (tr_version new))) (\<lambda>_.
     bind_err (Append E reg now st (definition_spec SubjectTropism
         (TropismSubjectID E (tr_name new)) EventTropismDefined actor payload)) (\<lambda>(_, fresh, st').
     bind_err (GetTropism (proj st') (tr_name new)) (\<lambda>out. Inr (out, fresh, st')))))"

definition DefineCultivarInTx ::
  "ext \<Rightarrow> tables projector list \<Rightarrow> time \<Rightarrow> db \<Rightarrow> token \<Rightarrow> cultivar \<Rightarrow> err + cultivar \<times> bool \<times> db"
where
  "DefineCultivarInTx E reg now st actor inp =
     bind_err (normalizeCultivarInput inp) (\<lambda>(new, payload).
     bind_err (guard_err (tropismVersionExists st (cu_tropism new))
       (Err ErrUnknownTropism ('': no tropism named '' @ fst (cu_tropism new) @ ''@'' @
         itoa (snd (cu_tropism new)) @ ''; consult registry.list''))) (\<lambda>_.
     bind_err (case get_row cu_name (cu_name new) (t_cultivars (proj st)) of
         Some current \<Rightarrow>
           if sameCultivar current new then Inr ()
           else bind_err (definitionEventExists E st SubjectCultivar
               (CultivarSubjectID E (cu_name new)) EventCultivarDefined payload) (\<lambda>exists.
             if exists then Inr ()
             else bind_err (guard_err (\<not> cu_rootstock current)
               (Err ErrRootstockImmutable ('': rootstock cultivar '' @ cu_name new @
                 '' cannot be redefined''))) (\<lambda>_.
             guard_err (cu_version new = cu_version current + 1)
               (version_conflict (cu_name new) (cu_version current) (cu_version new))))
       | None \<Rightarrow> guard_err (cu_version new = 1) (must_start_at_1 (cu_name new) (cu_version new))) (\<lambda>_.
     bind_err (Append E reg now st (definition_spec SubjectCultivar
         (CultivarSubjectID E (cu_name new)) EventCultivarDefined actor payload)) (\<lambda>(_, fresh, st').
     case get_row cu_name (cu_name new) (t_cultivars (proj st')) of
       None \<Rightarrow> Inl (Err ErrUnknownCultivar [])
     | Some out \<Rightarrow> Inr (out, fresh, st')))))"

end
