(* ===== verification/Cursor.thy ===== *)
theory Cursor
  imports Feed
begin

text \<open>
  Base64 (the RawURLEncoding and StdEncoding of encoding/base64, which skip carriage returns and
  newlines and ignore the unused bits of the last character) and the resume cursors of
  internal/feed/cursor.go: 8 big-endian bytes for the plain feed, a JSON envelope for a feed
  projection.
\<close>

section \<open>Base64\<close>

definition std_alphabet :: string where
  "std_alphabet = ''ABCDEFGHIJKLMNOPQRSTUVWXYZabcdefghijklmnopqrstuvwxyz0123456789+/''"

definition url_alphabet :: string where
  "url_alphabet = ''ABCDEFGHIJKLMNOPQRSTUVWXYZabcdefghijklmnopqrstuvwxyz0123456789-_''"

fun index_of :: "char \<Rightarrow> string \<Rightarrow> nat option" where
  "index_of c [] = None"
| "index_of c (x # xs) = (if x = c then Some 0 else map_option Suc (index_of c xs))"

fun to6 :: "nat list \<Rightarrow> nat list" where
  "to6 [] = []"
| "to6 [a] = [a div 4, (a mod 4) * 16]"
| "to6 [a, b] = [a div 4, (a mod 4) * 16 + b div 16, (b mod 16) * 4]"
| "to6 (a # b # c # r) =
     [a div 4, (a mod 4) * 16 + b div 16, (b mod 16) * 4 + c div 64, c mod 64] @ to6 r"

fun of6 :: "nat list \<Rightarrow> nat list option" where
  "of6 [] = Some []"
| "of6 [w] = None"
| "of6 [w, x] = Some [w * 4 + x div 16]"
| "of6 [w, x, y] = Some [w * 4 + x div 16, (x mod 16) * 16 + y div 4]"
| "of6 (w # x # y # z # r) =
     map_option (\<lambda>bs. [w * 4 + x div 16, (x mod 16) * 16 + y div 4, (y mod 4) * 64 + z] @ bs) (of6 r)"

fun values6 :: "string \<Rightarrow> string \<Rightarrow> nat list option" where
  "values6 alphabet [] = Some []"
| "values6 alphabet (c # cs) =
     (case index_of c alphabet of
        None \<Rightarrow> None
      | Some v \<Rightarrow> map_option (\<lambda>vs. v # vs) (values6 alphabet cs))"

definition encode6 :: "string \<Rightarrow> string \<Rightarrow> string" where
  "encode6 alphabet bs = map (\<lambda>v. alphabet ! v) (to6 (map of_char bs))"

definition decode6 :: "string \<Rightarrow> string \<Rightarrow> string option" where
  "decode6 alphabet s =
     (case values6 alphabet s of
        None \<Rightarrow> None
      | Some vs \<Rightarrow> map_option (map char_of) (of6 vs))"

definition no_newlines :: "string \<Rightarrow> string" where
  "no_newlines s = filter (\<lambda>c. c \<noteq> CHR 0x0A \<and> c \<noteq> CHR 0x0D) s"

definition raw_url_encode :: "string \<Rightarrow> string" where
  "raw_url_encode bs = encode6 url_alphabet bs"

definition raw_url_decode :: "string \<Rightarrow> string option" where
  "raw_url_decode s = decode6 url_alphabet (no_newlines s)"

definition padding :: "nat \<Rightarrow> string" where
  "padding n = (if n mod 3 = 1 then ''=='' else if n mod 3 = 2 then ''='' else [])"

definition std_encode :: "string \<Rightarrow> string" where
  "std_encode bs = encode6 std_alphabet bs @ padding (length bs)"

definition strip_padding :: "string \<Rightarrow> string" where
  "strip_padding s =
     (if drop (length s - 2) s = ''=='' then take (length s - 2) s
      else if drop (length s - 1) s = ''='' then take (length s - 1) s
      else s)"

definition std_decode :: "string \<Rightarrow> string option" where
  "std_decode s =
     (let s' = no_newlines s in
      if length s' mod 4 \<noteq> 0 then None else decode6 std_alphabet (strip_padding s'))"

lemma of6_to6: "\<forall>b \<in> set bs. b < 256 \<Longrightarrow> of6 (to6 bs) = Some bs"
proof (induction bs rule: to6.induct)
  case (4 a b c r)
  have "c div 64 < 4" "b div 16 < 16" using "4.prems" by (auto simp: less_mult_imp_div_less)
  with 4 show ?case by simp
qed (auto simp: less_mult_imp_div_less)

lemma to6_less: "\<forall>b \<in> set bs. b < 256 \<Longrightarrow> v \<in> set (to6 bs) \<Longrightarrow> v < 64"
proof (induction bs rule: to6.induct)
  case (2 a)
  then show ?case by auto
next
  case (3 a b)
  then have "b div 16 < 16" "a mod 4 < 4" "b mod 16 < 16" by auto
  with 3 show ?case by auto
next
  case (4 a b c r)
  then have "c div 64 < 4" "b div 16 < 16" "a mod 4 < 4" "b mod 16 < 16" by auto
  with 4 show ?case by auto
qed simp

lemma index_of_nth: "distinct cs \<Longrightarrow> v < length cs \<Longrightarrow> index_of (cs ! v) cs = Some v"
proof (induction cs arbitrary: v)
  case (Cons c cs)
  then show ?case by (cases v) auto
qed simp

lemma values6_map:
  "distinct alphabet \<Longrightarrow> \<forall>v \<in> set vs. v < length alphabet \<Longrightarrow>
   values6 alphabet (map (\<lambda>v. alphabet ! v) vs) = Some vs"
  by (induction vs) (auto simp: index_of_nth)

lemma decode6_encode6:
  assumes "distinct alphabet" "length alphabet = 64"
  shows "decode6 alphabet (encode6 alphabet bs) = Some bs"
proof -
  have small: "\<forall>b \<in> set (map of_char bs). b < (256::nat)" by auto
  have "values6 alphabet (encode6 alphabet bs) = Some (to6 (map of_char bs))"
    unfolding encode6_def
    by (rule values6_map [OF assms(1)]) (use to6_less [OF small] assms(2) in auto)
  then show ?thesis
    by (simp add: decode6_def of6_to6 [OF small] o_def)
qed

lemma alphabets:
  "distinct url_alphabet" "length url_alphabet = 64"
  "distinct std_alphabet" "length std_alphabet = 64"
  by code_simp+

lemma no_newlines_id: "set s \<subseteq> set cs \<Longrightarrow> CHR 0x0A \<notin> set cs \<Longrightarrow> CHR 0x0D \<notin> set cs \<Longrightarrow> no_newlines s = s"
  by (auto simp: no_newlines_def filter_id_conv)

lemma set_encode6:
  assumes "length alphabet = 64"
  shows "set (encode6 alphabet bs) \<subseteq> set alphabet"
proof -
  have small: "\<forall>b \<in> set (map of_char bs). b < (256::nat)" by auto
  show ?thesis using to6_less [OF small] assms by (auto simp: encode6_def)
qed

lemma raw_url_roundtrip [simp]: "raw_url_decode (raw_url_encode bs) = Some bs"
proof -
  have "CHR 0x0A \<notin> set url_alphabet" "CHR 0x0D \<notin> set url_alphabet" by code_simp+
  then have "no_newlines (encode6 url_alphabet bs) = encode6 url_alphabet bs"
    by (intro no_newlines_id [where cs = url_alphabet] set_encode6) (simp_all add: alphabets)
  then show ?thesis
    by (simp add: raw_url_decode_def raw_url_encode_def decode6_encode6 alphabets)
qed

section \<open>Cursors\<close>

definition ErrInvalidCursor :: string where "ErrInvalidCursor = ''invalid cursor''"
definition ErrCursorProjectionMismatch :: string where
  "ErrCursorProjectionMismatch = ''cursor projection mismatch''"

definition invalid_cursor :: "string \<Rightarrow> err" where
  "invalid_cursor d = Err ErrInvalidCursor d"

definition cursorRawSize :: nat where "cursorRawSize = 8"

record cursor =
  cu_seq :: int
  cu_projection :: string
  cu_definition :: int

text \<open>uint64(seq) and int64(u): two's complement in 64 bits.\<close>

definition encodeCursor :: "int \<Rightarrow> string" where
  "encodeCursor s = raw_url_encode (map char_of (digits256 cursorRawSize (nat (s mod 2 ^ 64))))"

definition int64_of :: "nat \<Rightarrow> int" where
  "int64_of n = (if n < 2 ^ 63 then int n else int n - 2 ^ 64)"

definition decodeCursor :: "string \<Rightarrow> err + cursor" where
  "decodeCursor s =
     (if s = [] then Inl (invalid_cursor [])
      else case raw_url_decode s of
        None \<Rightarrow> Inl (invalid_cursor '': illegal base64 data'')
      | Some raw \<Rightarrow>
          if length raw \<noteq> cursorRawSize
          then Inl (invalid_cursor ('': wrong length (got '' @ itoa (int (length raw)) @
            '' bytes, want 8)''))
          else let s = int64_of (undigits256 (map of_char raw)) in
            if s < 0 then Inl (invalid_cursor '': negative seq'')
            else Inr \<lparr>cu_seq = s, cu_projection = [], cu_definition = 0\<rparr>)"

text \<open>
  The envelope of a projection cursor.  \<open>parse\<close> stands for json.Unmarshal on bytes, a function of
  the standard library that is only assumed to read back what the encoder wrote.
\<close>

definition envelope :: "int \<Rightarrow> string \<Rightarrow> int \<Rightarrow> json" where
  "envelope s projection version = JObj [(''v'', jint 1), (''seq'', jint s),
     (''projection'', JStr projection), (''definition'', jint version)]"

definition encodeProjectionCursor :: "int \<Rightarrow> string \<Rightarrow> int \<Rightarrow> string" where
  "encodeProjectionCursor s projection version =
     raw_url_encode (print_json (envelope s projection version))"

definition decodeProjectionCursor :: "(string \<Rightarrow> json option) \<Rightarrow> string \<Rightarrow> err + cursor" where
  "decodeProjectionCursor parse s =
     (if s = [] then Inl (invalid_cursor [])
      else case raw_url_decode s of
        None \<Rightarrow> Inl (invalid_cursor '': illegal base64 data'')
      | Some raw \<Rightarrow> (case parse raw of
          None \<Rightarrow> Inl (invalid_cursor '': invalid JSON'')
        | Some j \<Rightarrow>
            (case bind_err (guard_err (jobject j) ErrDecode) (\<lambda>_.
              bind_err (jinteger (jget j ''v'')) (\<lambda>v.
              bind_err (jinteger (jget j ''seq'')) (\<lambda>q.
              bind_err (jstring (jget j ''projection'')) (\<lambda>p.
              bind_err (jinteger (jget j ''definition'')) (\<lambda>d. Inr (v, q, p, d)))))) of
              Inl e \<Rightarrow> Inl (invalid_cursor ('': '' @ err_message e))
            | Inr (v, q, p, d) \<Rightarrow>
                if v \<noteq> 1
                  then Inl (invalid_cursor ('': unsupported projection cursor version '' @ itoa v))
                else if q < 0 then Inl (invalid_cursor '': negative seq'')
                else if p = [] \<or> d < 1
                  then Inl (invalid_cursor '': missing projection identity'')
                else Inr \<lparr>cu_seq = q, cu_projection = p, cu_definition = d\<rparr>)))"

definition encodeCursorFor :: "int \<Rightarrow> string \<Rightarrow> int \<Rightarrow> string" where
  "encodeCursorFor s projection version =
     (if projection = [] then encodeCursor s else encodeProjectionCursor s projection version)"

definition decodeCursorForProjection ::
  "(string \<Rightarrow> json option) \<Rightarrow> string \<Rightarrow> string \<Rightarrow> int \<Rightarrow> err + cursor" where
  "decodeCursorForProjection parse s projection version =
     (if projection = [] then
        (case decodeCursor s of
           Inr c \<Rightarrow> Inr c
         | Inl e \<Rightarrow> (case decodeProjectionCursor parse s of
             Inr c \<Rightarrow> if cu_projection c \<noteq> []
               then Inl (Err ErrCursorProjectionMismatch ('': cursor belongs to projection '' @
                 quote (cu_projection c)))
               else Inl e
           | Inl _ \<Rightarrow> Inl e))
      else
        (case decodeProjectionCursor parse s of
           Inl e \<Rightarrow> (case decodeCursor s of
             Inr _ \<Rightarrow> Inl (Err ErrCursorProjectionMismatch
               ('': unprojected cursor cannot be used with projection '' @ quote projection))
           | Inl _ \<Rightarrow> Inl e)
         | Inr c \<Rightarrow>
             if cu_projection c \<noteq> projection \<or> cu_definition c \<noteq> version
             then Inl (Err ErrCursorProjectionMismatch ('': cursor belongs to '' @ cu_projection c @
               ''@'' @ itoa (cu_definition c) @ '', requested '' @ projection @ ''@'' @ itoa version))
             else Inr c))"

lemma encodeCursor_nonempty: "encodeCursor s \<noteq> []"
proof
  assume "encodeCursor s = []"
  then have "raw_url_decode (encodeCursor s) = Some []"
    by (simp add: raw_url_decode_def no_newlines_def decode6_def)
  then have "length (digits256 cursorRawSize (nat (s mod 2 ^ 64))) = 0"
    by (simp add: encodeCursor_def)
  then show False by (simp add: cursorRawSize_def)
qed

lemma decodeCursor_encodeCursor:
  assumes "0 \<le> s" "s < 2 ^ 63"
  shows "decodeCursor (encodeCursor s) = Inr \<lparr>cu_seq = s, cu_projection = [], cu_definition = 0\<rparr>"
proof -
  let ?ds = "digits256 8 (nat (s mod 2 ^ 64))"
  have s: "s mod 2 ^ 64 = s" using assms by (intro mod_pos_pos_trivial) auto
  have "raw_url_decode (encodeCursor s) = Some (map char_of ?ds)"
    by (simp add: encodeCursor_def cursorRawSize_def)
  moreover have "map of_char (map char_of ?ds :: string) = ?ds" by (rule map_of_char_digits)
  moreover have "nat s < 256 ^ 8" using assms by (simp add: nat_less_iff)
  then have "undigits256 ?ds = nat s" unfolding s undigits_digits by simp
  moreover have "int64_of (nat s) = s" using assms by (simp add: int64_of_def nat_less_iff)
  ultimately show ?thesis
    using encodeCursor_nonempty [of s] assms(1)
    by (simp add: decodeCursor_def cursorRawSize_def Let_def)
qed

lemma decodeCursor_nonneg: "decodeCursor s = Inr c \<Longrightarrow> 0 \<le> cu_seq c \<and> cu_seq c < 2 ^ 63"
proof -
  assume *: "decodeCursor s = Inr c"
  then obtain raw where raw: "raw_url_decode s = Some raw" "length raw = 8"
      "cu_seq c = int64_of (undigits256 (map of_char raw))" "0 \<le> cu_seq c"
    by (auto simp: decodeCursor_def cursorRawSize_def Let_def split: if_splits option.splits)
  have "undigits256 (map of_char raw) < 256 ^ length (map of_char raw :: nat list)"
    by (rule undigits256_less) auto
  with raw show ?thesis by (auto simp: int64_of_def split: if_splits)
qed

section \<open>Properties\<close>

text \<open>
  A cursor handed out for a sequence number is read back as that number, and whatever bytes
  a client sends, a decoded cursor holds a sequence number of the BIGSERIAL range.
\<close>

theorem cursor_roundtrip:
  "(0 \<le> s \<and> s < 2 ^ 63 \<longrightarrow>
     decodeCursor (encodeCursor s) = Inr \<lparr>cu_seq = s, cu_projection = [], cu_definition = 0\<rparr>) \<and>
   (\<forall>c. decodeCursor raw = Inr c \<longrightarrow> 0 \<le> cu_seq c \<and> cu_seq c < 2 ^ 63)"
  using decodeCursor_encodeCursor decodeCursor_nonneg by blast

theorem cursor_roundtrip_witness:
  "decodeCursor (encodeCursor 77) = Inr \<lparr>cu_seq = 77, cu_projection = [], cu_definition = 0\<rparr>"
  using cursor_roundtrip [of 77] by simp

end
