(* ===== verification/Projectors.thy ===== *)
theory Projectors
  imports Registry Cursor
begin

text \<open>
  The projection writers of auth, approvals, idempotency, workitems, jobqueue, policyprofile,
  nodes and crossnode (the projectors.go file of each package), with the normalisation helpers
  of workitems that its projectors share with its service.  CHECK constraints and unique indexes
  of the tables are errors of the projector; foreign keys, which the tables of a rebuild do not
  have, are left out.
\<close>

definition projector_err :: "string \<Rightarrow> string \<Rightarrow> err" where
  "projector_err kind msg = Err [] (kind @ '': '' @ msg)"

definition need :: "bool \<Rightarrow> string \<Rightarrow> string \<Rightarrow> err + unit" where
  "need ok kind msg = guard_err ok (projector_err kind msg)"

definition check_violation :: "string \<Rightarrow> err" where
  "check_violation name = Err [] (''violates constraint '' @ name)"

section \<open>Tokens\<close>

text \<open>
  The table tokens has its key, a unique hash, and a unique index on is_root over the tokens
  that are root and not revoked.
\<close>

definition active_root :: "token \<Rightarrow> bool" where
  "active_root tk \<longleftrightarrow> tok_is_root tk \<and> tok_revoked_at tk = None"

definition tokenCreatedProjector :: "event \<Rightarrow> tables \<Rightarrow> err + tables" where
  "tokenCreatedProjector ev t =
     bind_err (guard_err (jobject (ev_payload ev)) ErrDecode) (\<lambda>_.
     bind_err (jstring (jget (ev_payload ev) ''name'')) (\<lambda>name.
     bind_err (jstring (jget (ev_payload ev) ''hash'')) (\<lambda>hash.
     bind_err (jboolean (jget (ev_payload ev) ''is_root'')) (\<lambda>is_root.
     bind_err (jstrings (jget (ev_payload ev) ''scopes'')) (\<lambda>scopes.
     bind_err (jstring (jget (ev_payload ev) ''source'')) (\<lambda>source0.
     bind_err (need (name \<noteq> []) EventTokenCreated ''name is required'') (\<lambda>_.
     let source = (if source0 = [] then SourceHuman else source0) in
     bind_err (need (source_valid source) EventTokenCreated (''invalid source '' @ quote source0)) (\<lambda>_.
     case std_decode hash of
       None \<Rightarrow> Inl (projector_err EventTokenCreated ''decode hash'')
     | Some raw \<Rightarrow>
         let tk = \<lparr>tok_id = ev_subject_id ev, tok_name = name, tok_hash = raw,
               tok_is_root = is_root, tok_scopes = scopes, tok_source = source,
               tok_created_at = ev_occurred_at ev, tok_revoked_at = None\<rparr> in
         if tok_id tk \<in> tok_id ` set (t_tokens t) then Inr t
         else if raw \<in> tok_hash ` set (t_tokens t) then Inl (check_violation ''tokens_hash_key'')
         else if is_root \<and> list_ex active_root (t_tokens t)
           then Inl (check_violation ''tokens_single_active_root_idx'')
         else Inr (t\<lparr>t_tokens := insert_row tok_id tk (t_tokens t)\<rparr>)))))))))"

definition tokenRevokedProjector :: "event \<Rightarrow> tables \<Rightarrow> err + tables" where
  "tokenRevokedProjector ev t =
     Inr (t\<lparr>t_tokens := update_row tok_id (ev_subject_id ev)
       (\<lambda>tk. tk\<lparr>tok_revoked_at := Some (ev_occurred_at ev)\<rparr>) (t_tokens t)\<rparr>)"

section \<open>Approvals\<close>

abbreviation StatusPending :: string where "StatusPending \<equiv> ''pending''"
abbreviation DecisionApproved :: string where "DecisionApproved \<equiv> ''approved''"
abbreviation DecisionDenied :: string where "DecisionDenied \<equiv> ''denied''"
abbreviation DecisionExpired :: string where "DecisionExpired \<equiv> ''expired''"

definition approvalCreatedProjector :: "ext \<Rightarrow> event \<Rightarrow> tables \<Rightarrow> err + tables" where
  "approvalCreatedProjector E ev t =
     bind_err (guard_err (ev_subject_kind ev = SubjectApproval)
       (subject_err EventApprovalCreated SubjectApproval (ev_subject_kind ev))) (\<lambda>_.
     bind_err (guard_err (jobject (ev_payload ev)) ErrDecode) (\<lambda>_.
     bind_err (juuid E (jget (ev_payload ev) ''work_item_id'')) (\<lambda>wid.
     bind_err (jstring (jget (ev_payload ev) ''summary'')) (\<lambda>summary.
     bind_err (jstring (jget (ev_payload ev) ''expires_at'')) (\<lambda>expires.
     bind_err (need (wid \<noteq> uuid_nil) EventApprovalCreated ''work_item_id is required'') (\<lambda>_.
     bind_err (need (summary \<noteq> []) EventApprovalCreated ''summary is required'') (\<lambda>_.
     case time_parse E expires of
       None \<Rightarrow> Inl (projector_err EventApprovalCreated ''parse expires_at'')
     | Some expiresAt \<Rightarrow>
         let req = jget (ev_payload ev) ''request'';
             row = \<lparr>ap_id = ev_subject_id ev, ap_work_item = wid, ap_status = StatusPending,
               ap_summary = summary, ap_request = (if req = JNull then JObj [] else req),
               ap_requested_by = ev_actor ev, ap_requested_source = ev_source ev,
               ap_created_at = ev_occurred_at ev, ap_expires_at = expiresAt,
               ap_decided_by = None, ap_decision_source = None, ap_decided_at = None,
               ap_decision = None, ap_decision_reason = [],
               ap_updated_at = ev_occurred_at ev\<rparr>
         in Inr (t\<lparr>t_approvals := insert_row ap_id row (t_approvals t)\<rparr>))))))))"

definition decide_row :: "event \<Rightarrow> string \<Rightarrow> string \<Rightarrow> approval \<Rightarrow> approval" where
  "decide_row ev decision reason a = a\<lparr>ap_status := decision, ap_decided_by := ev_actor ev,
     ap_decision_source := Some (ev_source ev), ap_decided_at := Some (ev_occurred_at ev),
     ap_decision := Some decision, ap_decision_reason := reason,
     ap_updated_at := ev_occurred_at ev\<rparr>"

definition approvalDecidedProjector :: "event \<Rightarrow> tables \<Rightarrow> err + tables" where
  "approvalDecidedProjector ev t =
     bind_err (guard_err (ev_subject_kind ev = SubjectApproval)
       (subject_err EventApprovalDecided SubjectApproval (ev_subject_kind ev))) (\<lambda>_.
     bind_err (guard_err (jobject (ev_payload ev)) ErrDecode) (\<lambda>_.
     bind_err (jstring (jget (ev_payload ev) ''decision'')) (\<lambda>decision.
     bind_err (jstring (jget (ev_payload ev) ''reason'')) (\<lambda>reason.
     bind_err (need (decision = DecisionApproved \<or> decision = DecisionDenied)
       EventApprovalDecided (''invalid decision '' @ quote decision)) (\<lambda>_.
     Inr (t\<lparr>t_approvals := update_row ap_id (ev_subject_id ev) (decide_row ev decision reason)
       (t_approvals t)\<rparr>))))))"

definition approvalExpiredProjector :: "event \<Rightarrow> tables \<Rightarrow> err + tables" where
  "approvalExpiredProjector ev t =
     bind_err (guard_err (ev_subject_kind ev = SubjectApproval)
       (subject_err EventApprovalExpired SubjectApproval (ev_subject_kind ev))) (\<lambda>_.
     bind_err (guard_err (jobject (ev_payload ev)) ErrDecode) (\<lambda>_.
     bind_err (jstring (jget (ev_payload ev) ''reason'')) (\<lambda>reason.
     Inr (t\<lparr>t_approvals := update_row ap_id (ev_subject_id ev) (decide_row ev DecisionExpired reason)
       (t_approvals t)\<rparr>))))"

section \<open>Idempotency keys\<close>

definition idempotency_ttl :: time where "idempotency_ttl = 24 * hour"

definition ik_id :: "idempotency_row \<Rightarrow> uuid \<times> string \<times> string" where
  "ik_id r = (ik_token r, ik_scope r, ik_key r)"

definition idempotencyRecordedProjector :: "ext \<Rightarrow> event \<Rightarrow> tables \<Rightarrow> err + tables" where
  "idempotencyRecordedProjector E ev t =
     bind_err (guard_err (jobject (ev_payload ev)) ErrDecode) (\<lambda>_.
     bind_err (juuid E (jget (ev_payload ev) ''token_id'')) (\<lambda>tokenID.
     bind_err (jstring (jget (ev_payload ev) ''scope'')) (\<lambda>scope.
     bind_err (jstring (jget (ev_payload ev) ''key'')) (\<lambda>key.
     bind_err (jstring (jget (ev_payload ev) ''request_hash'')) (\<lambda>hash.
     bind_err (jinteger (jget (ev_payload ev) ''response_status'')) (\<lambda>status.
     bind_err (case jget (ev_payload ev) ''expires_at'' of
         JNull \<Rightarrow> Inr (ev_occurred_at ev + idempotency_ttl)
       | JStr s \<Rightarrow> (case time_parse E s of Some x \<Rightarrow> Inr x | None \<Rightarrow> Inl ErrDecode)
       | _ \<Rightarrow> Inl ErrDecode) (\<lambda>expires.
     bind_err (need (tokenID \<noteq> uuid_nil \<and> scope \<noteq> [] \<and> key \<noteq> []) EventIdempotencyRecorded
       ''token_id, scope and key are required'') (\<lambda>_.
     case std_decode hash of
       None \<Rightarrow> Inl (projector_err EventIdempotencyRecorded ''decode request hash'')
     | Some raw \<Rightarrow>
         let body = (case jraw (ev_payload ev) ''response_body'' of None \<Rightarrow> JObj [] | Some b \<Rightarrow> b);
             row = \<lparr>ik_token = tokenID, ik_scope = scope, ik_key = key, ik_request_hash = raw,
               ik_status = status, ik_body = body, ik_created_at = ev_occurred_at ev,
               ik_expires_at = expires\<rparr>
         in Inr (t\<lparr>t_idempotency := upsert_row ik_id
           (\<lambda>r. r\<lparr>ik_request_hash := raw, ik_status := status, ik_body := body,
              ik_expires_at := expires\<rparr>) row (t_idempotency t)\<rparr>)))))))))"

section \<open>Work items\<close>

definition ErrInvalidRequest :: string where "ErrInvalidRequest = ''workitems: invalid request''"

fun normalize_checks :: "nat \<Rightarrow> string list \<Rightarrow> err + string list" where
  "normalize_checks i [] = Inr []"
| "normalize_checks i (c # cs) =
     (if trim_space c = [] then Inl (Err ErrInvalidRequest
        ('': suggested_convergence_checks['' @ itoa (int i) @ ''] is blank''))
      else map_sum id (\<lambda>r. trim_space c # r) (normalize_checks (i + 1) cs))"

definition normalizeSuggestedConvergenceChecks :: "string list \<Rightarrow> err + string list" where
  "normalizeSuggestedConvergenceChecks cs = normalize_checks 0 cs"

definition normalizeHumanReviewStatus :: "string \<Rightarrow> err + string" where
  "normalizeHumanReviewStatus status =
     (if status = [] then Inr HumanReviewWavedThrough
      else if \<not> human_review_valid status
        then Inl (Err ErrInvalidRequest ('': invalid human_review_status '' @ quote status))
      else Inr status)"

definition workItemCreatedProjector :: "event \<Rightarrow> tables \<Rightarrow> err + tables" where
  "workItemCreatedProjector ev t =
     bind_err (guard_err (jobject (ev_payload ev)) ErrDecode) (\<lambda>_.
     bind_err (jstring (jget (ev_payload ev) ''title'')) (\<lambda>title.
     bind_err (jstring (jget (ev_payload ev) ''body'')) (\<lambda>body.
     bind_err (jstring (jget (ev_payload ev) ''state'')) (\<lambda>state0.
     bind_err (jstrings (jget (ev_payload ev) ''suggested_convergence_checks'')) (\<lambda>checks0.
     bind_err (jstring (jget (ev_payload ev) ''human_review_status'')) (\<lambda>review0.
     bind_err (need (title \<noteq> []) EventWorkItemCreated ''title is required'') (\<lambda>_.
     let state = (if state0 = [] then WorkItemCaptured else state0) in
     bind_err (normalizeSuggestedConvergenceChecks checks0) (\<lambda>checks.
     bind_err (normalizeHumanReviewStatus review0) (\<lambda>review.
     bind_err (guard_err (state_valid state) (check_violation ''work_items_state_check'')) (\<lambda>_.
     let row = \<lparr>wi_id = ev_subject_id ev, wi_title = title, wi_body = body, wi_state = state,
           wi_state_reason = None, wi_checks = checks, wi_human_review = review,
           wi_created_by = ev_actor ev, wi_created_at = ev_occurred_at ev,
           wi_state_entered_at = ev_occurred_at ev, wi_updated_at = ev_occurred_at ev\<rparr>
     in Inr (t\<lparr>t_work_items := insert_row wi_id row (t_work_items t)\<rparr>)))))))))))"

definition transition_row :: "event \<Rightarrow> string \<Rightarrow> string \<Rightarrow> string \<Rightarrow> work_item \<Rightarrow> work_item" where
  "transition_row ev frm dest reason w = w\<lparr>wi_state := dest,
     wi_state_reason := null_if_empty reason,
     wi_state_entered_at :=
       (if null_if_empty frm = None \<or> frm \<noteq> dest then ev_occurred_at ev else wi_state_entered_at w),
     wi_updated_at := ev_occurred_at ev\<rparr>"

definition workItemTransitionedProjector :: "event \<Rightarrow> tables \<Rightarrow> err + tables" where
  "workItemTransitionedProjector ev t =
     bind_err (guard_err (jobject (ev_payload ev)) ErrDecode) (\<lambda>_.
     bind_err (jstring (jget (ev_payload ev) ''from'')) (\<lambda>frm.
     bind_err (jstring (jget (ev_payload ev) ''to'')) (\<lambda>dest.
     bind_err (jstring (jget (ev_payload ev) ''reason'')) (\<lambda>reason.
     bind_err (need (dest \<noteq> []) EventWorkItemTransitioned ''to is required'') (\<lambda>_.
     if ev_subject_id ev \<in> wi_id ` set (t_work_items t) \<and> \<not> state_valid dest
     then Inl (check_violation ''work_items_state_check'')
     else Inr (t\<lparr>t_work_items := update_row wi_id (ev_subject_id ev)
       (transition_row ev frm dest reason) (t_work_items t)\<rparr>))))))"

definition touch_work_item :: "event \<Rightarrow> tables \<Rightarrow> tables" where
  "touch_work_item ev t = t\<lparr>t_work_items := update_row wi_id (ev_subject_id ev)
     (\<lambda>w. w\<lparr>wi_updated_at := ev_occurred_at ev\<rparr>) (t_work_items t)\<rparr>"

definition workItemEventAppendedProjector :: "event \<Rightarrow> tables \<Rightarrow> err + tables" where
  "workItemEventAppendedProjector ev t = Inr (touch_work_item ev t)"

definition checksProposedProjector :: "event \<Rightarrow> tables \<Rightarrow> err + tables" where
  "checksProposedProjector ev t =
     (if ev_subject_kind ev \<noteq> SubjectWorkItem
      then Inl (subject_err EventConvergenceChecksProposed SubjectWorkItem (ev_subject_kind ev))
      else Inr (touch_work_item ev t))"

definition rel_id :: "relation \<Rightarrow> uuid \<times> uuid" where
  "rel_id r = (rel_parent r, rel_child r)"

definition relationAddedProjector :: "ext \<Rightarrow> event \<Rightarrow> tables \<Rightarrow> err + tables" where
  "relationAddedProjector E ev t =
     bind_err (guard_err (jobject (ev_payload ev)) ErrDecode) (\<lambda>_.
     bind_err (juuid E (jget (ev_payload ev) ''parent_id'')) (\<lambda>parent.
     bind_err (juuid E (jget (ev_payload ev) ''child_id'')) (\<lambda>child.
     bind_err (need (parent \<noteq> uuid_nil \<and> child \<noteq> uuid_nil) EventWorkItemRelationAdded
       ''parent_id and child_id are required'') (\<lambda>_.
     bind_err (guard_err (parent \<noteq> child) (check_violation ''work_item_relations_check'')) (\<lambda>_.
     let row = \<lparr>rel_parent = parent, rel_child = child, rel_created_at = ev_occurred_at ev\<rparr>
     in Inr (t\<lparr>t_relations := insert_row rel_id row (t_relations t)\<rparr>))))))"

definition metadataUpdatedProjector :: "event \<Rightarrow> tables \<Rightarrow> err + tables" where
  "metadataUpdatedProjector ev t =
     (let dest = jget (ev_payload ev) ''to'' in
     bind_err (guard_err (jobject (ev_payload ev) \<and> jobject dest) ErrDecode) (\<lambda>_.
     bind_err (jstrings (jget dest ''suggested_convergence_checks'')) (\<lambda>checks0.
     bind_err (jstring (jget dest ''human_review_status'')) (\<lambda>review0.
     bind_err (normalizeSuggestedConvergenceChecks checks0) (\<lambda>checks.
     bind_err (normalizeHumanReviewStatus review0) (\<lambda>review.
     Inr (t\<lparr>t_work_items := update_row wi_id (ev_subject_id ev)
       (\<lambda>w. w\<lparr>wi_checks := checks, wi_human_review := review, wi_updated_at := ev_occurred_at ev\<rparr>)
       (t_work_items t)\<rparr>)))))))"

section \<open>Jobs, policy profile, nodes, command queue\<close>

abbreviation KindDispatch :: string where "KindDispatch \<equiv> ''dispatch''"
abbreviation JobPending :: string where "JobPending \<equiv> ''pending''"

definition dispatchRequestedProjector :: "event \<Rightarrow> tables \<Rightarrow> err + tables" where
  "dispatchRequestedProjector ev t =
     (if ev_subject_kind ev \<noteq> SubjectWorkItem
      then Inl (subject_err EventDispatchRequested SubjectWorkItem (ev_subject_kind ev))
      else let row = \<lparr>jb_id = ev_id ev, jb_kind = KindDispatch, jb_work_item = ev_subject_id ev,
             jb_state = JobPending, jb_payload = stored_payload (ev_payload ev), jb_attempts = 0,
             jb_lease_until = None, jb_created_at = ev_occurred_at ev,
             jb_updated_at = ev_occurred_at ev\<rparr>
        in Inr (t\<lparr>t_jobs := insert_row jb_id row (t_jobs t)\<rparr>))"

definition profileSwitchedProjector :: "event \<Rightarrow> tables \<Rightarrow> err + tables" where
  "profileSwitchedProjector ev t =
     bind_err (guard_err (ev_subject_kind ev = SubjectPolicyProfile)
       (subject_err EventPolicyProfileSwitched SubjectPolicyProfile (ev_subject_kind ev))) (\<lambda>_.
     bind_err (guard_err (jobject (ev_payload ev)) ErrDecode) (\<lambda>_.
     bind_err (jstring (jget (ev_payload ev) ''from'')) (\<lambda>_.
     bind_err (jstring (jget (ev_payload ev) ''to'')) (\<lambda>dest.
     bind_err (jstring (jget (ev_payload ev) ''fingerprint'')) (\<lambda>fp.
     bind_err (need (dest \<noteq> [] \<and> fp \<noteq> []) EventPolicyProfileSwitched
       ''to and fingerprint are required'') (\<lambda>_.
     Inr (t\<lparr>t_profile := Some \<lparr>pp_name = dest, pp_fingerprint = fp,
       pp_switched_at = ev_occurred_at ev, pp_switched_by = ev_actor ev\<rparr>\<rparr>)))))))"

definition payloadVersion :: "json \<Rightarrow> int" where
  "payloadVersion j =
     (if \<not> jobject j then 1
      else case jinteger (jget j ''payload_version'') of
        Inl _ \<Rightarrow> 1
      | Inr v \<Rightarrow> if v = 0 then 1 else v)"

definition need_version_1 :: "string \<Rightarrow> json \<Rightarrow> err + unit" where
  "need_version_1 kind j = need (payloadVersion j = 1) kind
     (''unknown payload_version '' @ itoa (payloadVersion j))"

definition validateNodeID :: "string \<Rightarrow> err + unit" where
  "validateNodeID nodeID = guard_err (ValidNodeID nodeID)
     (Err [] (''node_id '' @ quote nodeID @ '' is not a DNS-safe id''))"

fun relay_from :: "nat \<Rightarrow> string list \<Rightarrow> err + unit" where
  "relay_from i [] = Inr ()"
| "relay_from i (hop # hops) =
     (if \<not> ValidNodeID hop then Inl (Err [] (''relay_via['' @ itoa (int i) @ ''] '' @ quote hop @
        '' is not a DNS-safe node_id''))
      else relay_from (i + 1) hops)"

definition validateRelayVia :: "string list \<Rightarrow> err + unit" where
  "validateRelayVia relay = relay_from 0 relay"

definition jstring_opt :: "json \<Rightarrow> err + string option" where
  "jstring_opt j = (if j = JNull then Inr None else map_sum id Some (jstring j))"

definition nodeRegisteredProjector :: "event \<Rightarrow> tables \<Rightarrow> err + tables" where
  "nodeRegisteredProjector ev t =
     bind_err (guard_err (ev_subject_kind ev = SubjectNode)
       (subject_err EventNodeRegistered SubjectNode (ev_subject_kind ev))) (\<lambda>_.
     bind_err (need_version_1 EventNodeRegistered (ev_payload ev)) (\<lambda>_.
     bind_err (guard_err (jobject (ev_payload ev)) ErrDecode) (\<lambda>_.
     bind_err (jstring (jget (ev_payload ev) ''node_id'')) (\<lambda>nodeID.
     bind_err (jstring_opt (jget (ev_payload ev) ''base_url'')) (\<lambda>base.
     bind_err (jstring_opt (jget (ev_payload ev) ''direct_url'')) (\<lambda>direct.
     bind_err (jstrings (jget (ev_payload ev) ''relay_via'')) (\<lambda>relay.
     bind_err (jstring (jget (ev_payload ev) ''status'')) (\<lambda>status.
     bind_err (validateNodeID nodeID) (\<lambda>_.
     bind_err (need (status \<noteq> []) EventNodeRegistered ''status is required'') (\<lambda>_.
     bind_err (validateRelayVia relay) (\<lambda>_.
     let row = \<lparr>nd_id = nodeID, nd_base_url = base, nd_direct_url = direct, nd_relay_via = relay,
           nd_status = status, nd_created_at = ev_occurred_at ev,
           nd_updated_at = ev_occurred_at ev\<rparr>
     in Inr (t\<lparr>t_nodes := upsert_row nd_id (\<lambda>n. row\<lparr>nd_id := nd_id n, nd_created_at := nd_created_at n\<rparr>)
       row (t_nodes t)\<rparr>))))))))))))"

definition routeUpdatedProjector :: "event \<Rightarrow> tables \<Rightarrow> err + tables" where
  "routeUpdatedProjector ev t =
     bind_err (guard_err (ev_subject_kind ev = SubjectNode)
       (subject_err EventNodeRouteUpdated SubjectNode (ev_subject_kind ev))) (\<lambda>_.
     bind_err (need_version_1 EventNodeRouteUpdated (ev_payload ev)) (\<lambda>_.
     bind_err (guard_err (jobject (ev_payload ev)) ErrDecode) (\<lambda>_.
     bind_err (jstring (jget (ev_payload ev) ''node_id'')) (\<lambda>nodeID.
     bind_err (jstring_opt (jget (ev_payload ev) ''direct_url'')) (\<lambda>direct.
     bind_err (jstrings (jget (ev_payload ev) ''relay_via'')) (\<lambda>relay.
     bind_err (jstring (jget (ev_payload ev) ''status'')) (\<lambda>status.
     bind_err (validateNodeID nodeID) (\<lambda>_.
     bind_err (need (status \<noteq> []) EventNodeRouteUpdated ''status is required'') (\<lambda>_.
     bind_err (validateRelayVia relay) (\<lambda>_.
     Inr (t\<lparr>t_nodes := update_row nd_id nodeID
       (\<lambda>n. n\<lparr>nd_direct_url := direct, nd_relay_via := relay, nd_status := status,
          nd_updated_at := ev_occurred_at ev\<rparr>) (t_nodes t)\<rparr>)))))))))))"

definition commandQueuedProjector :: "ext \<Rightarrow> event \<Rightarrow> tables \<Rightarrow> err + tables" where
  "commandQueuedProjector E ev t =
     bind_err (guard_err (ev_subject_kind ev = SubjectNode)
       (subject_err EventCommandQueued SubjectNode (ev_subject_kind ev))) (\<lambda>_.
     bind_err (need_version_1 EventCommandQueued (ev_payload ev)) (\<lambda>_.
     bind_err (guard_err (jobject (ev_payload ev)) ErrDecode) (\<lambda>_.
     bind_err (jstring (jget (ev_payload ev) ''target_node_id'')) (\<lambda>target.
     bind_err (jstring (jget (ev_payload ev) ''command_path'')) (\<lambda>path.
     bind_err (jstring (jget (ev_payload ev) ''origin_idempotency_key'')) (\<lambda>key.
     bind_err (juuid_opt E (jget (ev_payload ev) ''origin_actor_token_id'')) (\<lambda>actor.
     bind_err (need (ValidNodeID target) EventCommandQueued
       (''target_node_id '' @ quote target @ '' is not a DNS-safe node id'')) (\<lambda>_.
     bind_err (need (path \<noteq> []) EventCommandQueued ''command_path is required'') (\<lambda>_.
     bind_err (need (key \<noteq> []) EventCommandQueued ''origin_idempotency_key is required'') (\<lambda>_.
     let row = \<lparr>cq_id = ev_id ev, cq_target = target, cq_path = path,
           cq_body = (case jraw (ev_payload ev) ''command_body'' of None \<Rightarrow> JObj [] | Some b \<Rightarrow> b),
           cq_origin_key = key, cq_origin_actor = actor, cq_queued_at = ev_occurred_at ev,
           cq_state = ''pending'', cq_status_code = None, cq_ok = None, cq_acked_at = None\<rparr>
     in Inr (t\<lparr>t_commands := insert_row cq_id row (t_commands t)\<rparr>)))))))))))"

definition commandAckedProjector :: "ext \<Rightarrow> event \<Rightarrow> tables \<Rightarrow> err + tables" where
  "commandAckedProjector E ev t =
     bind_err (guard_err (ev_subject_kind ev = SubjectNode)
       (subject_err EventCommandAcked SubjectNode (ev_subject_kind ev))) (\<lambda>_.
     bind_err (need_version_1 EventCommandAcked (ev_payload ev)) (\<lambda>_.
     bind_err (guard_err (jobject (ev_payload ev)) ErrDecode) (\<lambda>_.
     bind_err (juuid E (jget (ev_payload ev) ''command_queue_id'')) (\<lambda>qid.
     bind_err (jstring (jget (ev_payload ev) ''target_node_id'')) (\<lambda>_.
     bind_err (jinteger (jget (ev_payload ev) ''status_code'')) (\<lambda>code.
     bind_err (jboolean (jget (ev_payload ev) ''ok'')) (\<lambda>ok.
     bind_err (need (qid \<noteq> uuid_nil) EventCommandAcked ''command_queue_id is required'') (\<lambda>_.
     Inr (t\<lparr>t_commands := update_row cq_id qid
       (\<lambda>c. c\<lparr>cq_state := (if ok then ''done'' else ''failed''), cq_status_code := Some code,
          cq_ok := Some ok, cq_acked_at := Some (ev_occurred_at ev)\<rparr>) (t_commands t)\<rparr>)))))))))"

end
