(* ===== verification/Intake.thy ===== *)
theory Intake
  imports Projectors
begin

text \<open>
  The projection writers of the packages that take things in from outside: inbox (messages),
  signals, errorreporting (reports of the deterministic layer, masked and unmasked) and
  httpconnector (outgoing actions and their outbox).
\<close>

section \<open>Messages\<close>

definition message_part_id :: "ext \<Rightarrow> uuid \<Rightarrow> uuid" where
  "message_part_id E mid = uuid_sha1 E NameSpaceURL (uuid_string E mid @ '':0'')"

definition messageCapturedProjector :: "ext \<Rightarrow> event \<Rightarrow> tables \<Rightarrow> err + tables" where
  "messageCapturedProjector E ev t =
     bind_err (guard_err (jobject (ev_payload ev)) ErrDecode) (\<lambda>_.
     bind_err (juuid E (jget (ev_payload ev) ''work_item_id'')) (\<lambda>wid.
     bind_err (jstring (jget (ev_payload ev) ''text'')) (\<lambda>txt.
     bind_err (need (txt \<noteq> []) EventMessageCaptured ''text is required'') (\<lambda>_.
     let mid = ev_subject_id ev;
         msg = \<lparr>ms_id = mid, ms_source = ev_source ev, ms_actor = ev_actor ev, ms_work_item = wid,
           ms_created_at = ev_occurred_at ev\<rparr>;
         part = \<lparr>mp_id = message_part_id E mid, mp_message = mid, mp_ordinal = 0, mp_text = txt\<rparr>;
         t1 = t\<lparr>t_messages := insert_row ms_id msg (t_messages t)\<rparr>
     in if (mid, 0) \<in> (\<lambda>p. (mp_message p, mp_ordinal p)) ` set (t_message_parts t) then Inr t1
        else if mp_id part \<in> mp_id ` set (t_message_parts t)
          then Inl (check_violation ''message_parts_pkey'')
        else Inr (t1\<lparr>t_message_parts := t_message_parts t @ [part]\<rparr>)))))"

section \<open>Signals\<close>

fun hex_decode :: "string \<Rightarrow> string option" where
  "hex_decode [] = Some []"
| "hex_decode [c] = None"
| "hex_decode (c # d # cs) =
     (if hex_digit c \<and> hex_digit d
      then map_option (Cons (char_of (16 * hex_val c + hex_val d))) (hex_decode cs) else None)"

record signal_payload =
  sp_signal_kind :: string
  sp_dedupe_key :: string
  sp_fingerprint :: string
  sp_work_spec :: json
  sp_work_item :: uuid
  sp_created_work_item :: bool
  sp_admitted :: "bool option"

definition admitted :: "signal_payload \<Rightarrow> bool" where
  "admitted p \<longleftrightarrow> (case sp_admitted p of None \<Rightarrow> True | Some b \<Rightarrow> b)"

definition jboolean_opt :: "json \<Rightarrow> err + bool option" where
  "jboolean_opt j = (if j = JNull then Inr None else map_sum id Some (jboolean j))"

definition decodeSignalPayload :: "ext \<Rightarrow> json \<Rightarrow> err + signal_payload" where
  "decodeSignalPayload E j =
     bind_err (guard_err (jobject j) ErrDecode) (\<lambda>_.
     bind_err (jstring (jget j ''signal_kind'')) (\<lambda>kind.
     bind_err (jstring (jget j ''dedupe_key'')) (\<lambda>key.
     bind_err (jstring (jget j ''fingerprint'')) (\<lambda>fp.
     bind_err (juuid E (jget j ''work_item_id'')) (\<lambda>wid.
     bind_err (jboolean (jget j ''created_work_item'')) (\<lambda>created.
     bind_err (jboolean_opt (jget j ''item_creation_admitted'')) (\<lambda>adm.
     bind_err (need (kind \<noteq> []) EventSignalReceived ''signal_kind is required'') (\<lambda>_.
     bind_err (need (fp \<noteq> []) EventSignalReceived ''fingerprint is required'') (\<lambda>_.
     case hex_decode fp of
       None \<Rightarrow> Inl (projector_err EventSignalReceived ''fingerprint hex decode'')
     | Some raw \<Rightarrow> (case jraw j ''work_spec'' of
         None \<Rightarrow> Inl (projector_err EventSignalReceived ''work_spec must be valid JSON'')
       | Some spec \<Rightarrow>
           let p = \<lparr>sp_signal_kind = kind, sp_dedupe_key = key, sp_fingerprint = raw,
                 sp_work_spec = spec, sp_work_item = wid, sp_created_work_item = created,
                 sp_admitted = adm\<rparr>
           in if admitted p \<and> wid = uuid_nil
                then Inl (projector_err EventSignalReceived
                  ''work_item_id is required (service must resolve before append)'')
              else if \<not> admitted p \<and> wid \<noteq> uuid_nil
                then Inl (projector_err EventSignalReceived
                  ''budget-refused signal must not carry a work_item_id'')
              else Inr p))))))))))"

definition signalReceivedProjector :: "ext \<Rightarrow> event \<Rightarrow> tables \<Rightarrow> err + tables" where
  "signalReceivedProjector E ev t =
     bind_err (guard_err (ev_subject_kind ev = SubjectSignal)
       (subject_err EventSignalReceived SubjectSignal (ev_subject_kind ev))) (\<lambda>_.
     bind_err (decodeSignalPayload E (ev_payload ev)) (\<lambda>p.
     let row = \<lparr>sr_id = ev_subject_id ev, sr_received_at = ev_occurred_at ev,
           sr_actor = ev_actor ev, sr_source = ev_source ev, sr_kind = sp_signal_kind p,
           sr_dedupe_key = null_if_empty (sp_dedupe_key p), sr_fingerprint = sp_fingerprint p,
           sr_work_spec = sp_work_spec p,
           sr_work_item = (if sp_work_item p = uuid_nil then None else Some (sp_work_item p)),
           sr_created_work_item = sp_created_work_item p\<rparr>
     in Inr (t\<lparr>t_signals := upsert_row sr_id (\<lambda>_. row) row (t_signals t)\<rparr>)))"

section \<open>Reports of the deterministic layer\<close>

definition decodeReasonPayload :: "json \<Rightarrow> err + string" where
  "decodeReasonPayload j =
     bind_err (guard_err (jobject j) ErrDecode) (\<lambda>_. jstring (jget j ''reason''))"

definition errorReportedProjector :: "event \<Rightarrow> tables \<Rightarrow> err + tables" where
  "errorReportedProjector ev t =
     (let j = ev_payload ev; kind = EventDeterministicErrorReported in
     bind_err (guard_err (ev_subject_kind ev = SubjectDeterministicError)
       (subject_err kind SubjectDeterministicError (ev_subject_kind ev))) (\<lambda>_.
     bind_err (guard_err (jobject j) ErrDecode) (\<lambda>_.
     bind_err (jstring (jget j ''component'')) (\<lambda>component.
     bind_err (jstring (jget j ''code'')) (\<lambda>code.
     bind_err (jstring (jget j ''message'')) (\<lambda>message.
     bind_err (jstring (jget j ''severity'')) (\<lambda>severity.
     bind_err (need (component \<noteq> []) kind ''component is required'') (\<lambda>_.
     bind_err (need (code \<noteq> []) kind ''code is required'') (\<lambda>_.
     bind_err (need (message \<noteq> []) kind ''message is required'') (\<lambda>_.
     bind_err (need (severity_valid severity) kind (''invalid severity '' @ quote severity)) (\<lambda>_.
     case jraw j ''details'' of
       None \<Rightarrow> Inl (projector_err kind ''details must be valid JSON'')
     | Some (JObj kvs) \<Rightarrow>
         let row = \<lparr>de_id = ev_subject_id ev, de_component = component, de_code = code,
               de_message = message, de_severity = severity, de_details = JObj kvs,
               de_reported_by = ev_actor ev, de_reported_at = ev_occurred_at ev,
               de_updated_at = ev_occurred_at ev, de_masked = False, de_mask_reason = None,
               de_masked_by = None, de_masked_at = None\<rparr>
         in Inr (t\<lparr>t_det_errors := insert_row de_id row (t_det_errors t)\<rparr>)
     | Some _ \<Rightarrow> Inl (projector_err kind ''details must be a JSON object''))))))))))))"

definition update_det_error ::
  "ext \<Rightarrow> string \<Rightarrow> uuid \<Rightarrow> (det_error \<Rightarrow> det_error) \<Rightarrow> tables \<Rightarrow> err + tables" where
  "update_det_error E kind i f t =
     (if i \<notin> de_id ` set (t_det_errors t)
      then Inl (projector_err kind (''no deterministic_errors row for '' @ uuid_string E i))
      else Inr (t\<lparr>t_det_errors := update_row de_id i f (t_det_errors t)\<rparr>))"

definition errorMaskedProjector :: "ext \<Rightarrow> event \<Rightarrow> tables \<Rightarrow> err + tables" where
  "errorMaskedProjector E ev t =
     bind_err (guard_err (ev_subject_kind ev = SubjectDeterministicError)
       (subject_err EventDeterministicErrorMasked SubjectDeterministicError (ev_subject_kind ev))) (\<lambda>_.
     bind_err (decodeReasonPayload (ev_payload ev)) (\<lambda>reason.
     update_det_error E EventDeterministicErrorMasked (ev_subject_id ev)
       (\<lambda>r. r\<lparr>de_masked := True, de_mask_reason := null_if_empty reason, de_masked_by := ev_actor ev,
          de_masked_at := Some (ev_occurred_at ev), de_updated_at := ev_occurred_at ev\<rparr>) t))"

definition errorUnmaskedProjector :: "ext \<Rightarrow> event \<Rightarrow> tables \<Rightarrow> err + tables" where
  "errorUnmaskedProjector E ev t =
     bind_err (guard_err (ev_subject_kind ev = SubjectDeterministicError)
       (subject_err EventDeterministicErrorUnmasked SubjectDeterministicError (ev_subject_kind ev))) (\<lambda>_.
     bind_err (decodeReasonPayload (ev_payload ev)) (\<lambda>_.
     update_det_error E EventDeterministicErrorUnmasked (ev_subject_id ev)
       (\<lambda>r. r\<lparr>de_masked := False, de_mask_reason := None, de_masked_by := None,
          de_masked_at := None, de_updated_at := ev_occurred_at ev\<rparr>) t))"

section \<open>HTTP connector actions\<close>

abbreviation ModeRead :: string where "ModeRead \<equiv> ''read''"
abbreviation ModeWrite :: string where "ModeWrite \<equiv> ''write''"
abbreviation StatusRequested :: string where "StatusRequested \<equiv> ''requested''"
abbreviation StatusAwaitingApproval :: string where "StatusAwaitingApproval \<equiv> ''awaiting_approval''"
abbreviation StatusApproved :: string where "StatusApproved \<equiv> ''approved''"
abbreviation StatusSent :: string where "StatusSent \<equiv> ''sent''"

definition actionRequestedProjector :: "ext \<Rightarrow> event \<Rightarrow> tables \<Rightarrow> err + tables" where
  "actionRequestedProjector E ev t =
     (let j = ev_payload ev; kind = EventHTTPConnectorActionRequested in
     bind_err (guard_err (ev_subject_kind ev = SubjectHTTPConnectorAction)
       (subject_err kind SubjectHTTPConnectorAction (ev_subject_kind ev))) (\<lambda>_.
     bind_err (guard_err (jobject j) ErrDecode) (\<lambda>_.
     bind_err (juuid E (jget j ''work_item_id'')) (\<lambda>wid.
     bind_err (jstring (jget j ''mode'')) (\<lambda>mode.
     bind_err (jstring (jget j ''method'')) (\<lambda>method.
     bind_err (jstring (jget j ''url'')) (\<lambda>url.
     bind_err (juuid E (jget j ''approval_id'')) (\<lambda>approval.
     bind_err (need (wid \<noteq> uuid_nil) kind ''work_item_id is required'') (\<lambda>_.
     bind_err (need (mode = ModeRead \<or> mode = ModeWrite) kind (''invalid mode '' @ quote mode)) (\<lambda>_.
     bind_err (need (mode = ModeWrite \<longrightarrow> approval \<noteq> uuid_nil) kind
       ''approval_id is required for writes'') (\<lambda>_.
     let req = jget j ''request'';
         row = \<lparr>ca_id = ev_subject_id ev, ca_work_item = wid, ca_mode = mode, ca_method = method,
           ca_url = url, ca_request = (if req = JNull then JObj [] else req),
           ca_status = (if mode = ModeWrite then StatusAwaitingApproval else StatusRequested),
           ca_approval = (if mode = ModeWrite then Some approval else None),
           ca_response_status = None, ca_response_body = [], ca_error = [],
           ca_requested_by = ev_actor ev, ca_source = ev_source ev,
           ca_created_at = ev_occurred_at ev, ca_updated_at = ev_occurred_at ev\<rparr>
     in Inr (t\<lparr>t_actions := insert_row ca_id row (t_actions t)\<rparr>))))))))))))"

definition actionApprovedProjector :: "ext \<Rightarrow> event \<Rightarrow> tables \<Rightarrow> err + tables" where
  "actionApprovedProjector E ev t =
     (let j = ev_payload ev; kind = EventHTTPConnectorActionApproved in
     bind_err (guard_err (ev_subject_kind ev = SubjectHTTPConnectorAction)
       (subject_err kind SubjectHTTPConnectorAction (ev_subject_kind ev))) (\<lambda>_.
     bind_err (guard_err (jobject j) ErrDecode) (\<lambda>_.
     bind_err (juuid E (jget j ''work_item_id'')) (\<lambda>wid.
     bind_err (juuid E (jget j ''approval_id'')) (\<lambda>approval.
     bind_err (need (wid \<noteq> uuid_nil \<and> approval \<noteq> uuid_nil) kind
       ''work_item_id and approval_id are required'') (\<lambda>_.
     let row = \<lparr>ob_id = ev_id ev, ob_kind = ''http_connector.write'', ob_action = ev_subject_id ev,
           ob_state = ''pending'', ob_payload = stored_payload j, ob_attempts = 0,
           ob_lease_until = None, ob_created_at = ev_occurred_at ev,
           ob_updated_at = ev_occurred_at ev\<rparr>
     in Inr (t\<lparr>t_actions := update_row ca_id (ev_subject_id ev)
            (\<lambda>a. if ca_status a \<noteq> StatusSent
               then a\<lparr>ca_status := StatusApproved, ca_updated_at := ev_occurred_at ev\<rparr> else a)
            (t_actions t),
          t_outbox := insert_row ob_id row (t_outbox t)\<rparr>)))))))"

definition actionSentProjector :: "event \<Rightarrow> tables \<Rightarrow> err + tables" where
  "actionSentProjector ev t =
     (let j = ev_payload ev; kind = EventHTTPConnectorActionSent in
     bind_err (guard_err (ev_subject_kind ev = SubjectHTTPConnectorAction)
       (subject_err kind SubjectHTTPConnectorAction (ev_subject_kind ev))) (\<lambda>_.
     bind_err (guard_err (jobject j) ErrDecode) (\<lambda>_.
     bind_err (jinteger (jget j ''response_status'')) (\<lambda>status.
     bind_err (jstring (jget j ''response_body'')) (\<lambda>body.
     Inr (t\<lparr>t_actions := update_row ca_id (ev_subject_id ev)
       (\<lambda>a. a\<lparr>ca_status := StatusSent, ca_response_status := Some status, ca_response_body := body,
          ca_error := [], ca_updated_at := ev_occurred_at ev\<rparr>) (t_actions t)\<rparr>))))))"

end
