(* ===== verification/ProjectionDefs.thy ===== *)
theory ProjectionDefs
  imports Intake
begin

text \<open>
  internal/projectiondefs: named projections of the feed.  Definition is versioned (a new name
  starts at version 1, a redefinition adds one, a rootstock projection is immutable) and
  idempotent; the filter of a stored projection is in the normal form of the theory Feed.
\<close>

definition ErrProjectionInvalidName :: string where
  "ErrProjectionInvalidName = ''projectiondefs: invalid name''"
definition ErrProjectionInvalidVersion :: string where
  "ErrProjectionInvalidVersion = ''projectiondefs: invalid version''"
definition ErrProjectionInvalidPayload :: string where
  "ErrProjectionInvalidPayload = ''projectiondefs: invalid payload''"
definition ErrUnknownProjection :: string where
  "ErrUnknownProjection = ''projectiondefs: unknown_projection''"
definition ErrProjectionUnknownKind :: string where
  "ErrProjectionUnknownKind = ''projectiondefs: unknown_kind''"
definition ErrProjectionUnknownKindClass :: string where
  "ErrProjectionUnknownKindClass = ''projectiondefs: unknown_kind_class''"
definition ErrNotProjectable :: string where
  "ErrNotProjectable = ''projectiondefs: not_projectable''"
definition ErrProjectionVersionConflict :: string where
  "ErrProjectionVersionConflict = ''projectiondefs: version_conflict''"
definition ErrProjectionRootstockImmutable :: string where
  "ErrProjectionRootstockImmutable = ''projectiondefs: rootstock_immutable''"

abbreviation ProjectionTypeFeed :: string where "ProjectionTypeFeed \<equiv> ''feed''"

definition projectionNamespace :: uuid where
  "projectionNamespace = 0xfcb38b893d2b5a829d2690b790d8ac4d"

definition ProjectionSubjectID :: "ext \<Rightarrow> string \<Rightarrow> uuid" where
  "ProjectionSubjectID E name = uuid_sha1 E projectionNamespace (''projection|'' @ name)"

record projection =
  pd_name :: string
  pd_version :: int
  pd_type :: string
  pd_rootstock :: bool
  pd_filter :: projection_filter
  pd_description :: string

section \<open>Normalisation\<close>

definition normalizeProjectionName :: "string \<Rightarrow> err + string" where
  "normalizeProjectionName name0 =
     (let name = trim_space name0 in
      if name = [] then Inl (Err ErrProjectionInvalidName '': name is required'')
      else if \<not> name_chars 0 (length name) name
        then Inl (Err ErrProjectionInvalidName ('': '' @ quote name @ '' must match [a-z0-9][a-z0-9-]*''))
      else if str_contains name ''--''
        then Inl (Err ErrProjectionInvalidName ('': '' @ quote name @ '' must not contain repeated hyphens''))
      else Inr name)"

definition reservedNames :: "(string \<times> string) list" where
  "reservedNames = [(''work-item-brief'', ''brief projections require the R3 dispatch substrate'')]"

definition mapFeedFilterError :: "err \<Rightarrow> err" where
  "mapFeedFilterError e =
     (if err_is e ErrUnknownKind then Err ErrProjectionUnknownKind ('': '' @ err_message e)
      else if err_is e ErrUnknownKindClass
        then Err ErrProjectionUnknownKindClass ('': '' @ err_message e)
      else if err_is e ErrKindNotAllowed \<or> err_is e ErrClassNotAllowed
        then Err ErrNotProjectable ('': '' @ err_message e)
      else if err_is e ErrEmptyFilter
        then Err ErrProjectionInvalidPayload '': filter must include at least one kind or kind_class''
      else Err ErrProjectionInvalidPayload ('': '' @ err_message e))"

definition filter_json :: "projection_filter \<Rightarrow> json" where
  "filter_json f = JObj
     ((if pf_kinds f = [] then [] else [(''kinds'', JArr (map JStr (pf_kinds f)))]) @
      (if pf_classes f = [] then [] else [(''kind_classes'', JArr (map JStr (pf_classes f)))]))"

definition decode_filter :: "json \<Rightarrow> err + projection_filter" where
  "decode_filter j =
     bind_err (guard_err (jobject j) ErrDecode) (\<lambda>_.
     bind_err (jstrings (jget j ''kinds'')) (\<lambda>kinds.
     bind_err (jstrings (jget j ''kind_classes'')) (\<lambda>classes.
     Inr \<lparr>pf_kinds = kinds, pf_classes = classes\<rparr>)))"

definition projection_payload :: "projection \<Rightarrow> json" where
  "projection_payload p = JObj [(''name'', JStr (pd_name p)), (''version'', jint (pd_version p)),
     (''type'', JStr (pd_type p)), (''rootstock'', JBool (pd_rootstock p)),
     (''filter'', filter_json (pd_filter p)), (''description'', JStr (pd_description p))]"

definition normalizeProjectionInput :: "projection \<Rightarrow> err + projection \<times> json" where
  "normalizeProjectionInput inp =
     bind_err (normalizeProjectionName (pd_name inp)) (\<lambda>name.
     bind_err (case map_of reservedNames name of
         Some reason \<Rightarrow> Inl (Err ErrProjectionInvalidName ('': '' @ name @ '' is reserved: '' @ reason))
       | None \<Rightarrow> Inr ()) (\<lambda>_.
     bind_err (guard_err (pd_version inp \<ge> 1)
       (Err ErrProjectionInvalidVersion '': version must be >= 1'')) (\<lambda>_.
     let typ0 = trim_space (pd_type inp);
         typ = (if typ0 = [] then ProjectionTypeFeed else typ0) in
     bind_err (guard_err (typ = ProjectionTypeFeed)
       (Err ErrProjectionInvalidPayload ('': type must be '' @ quote ProjectionTypeFeed))) (\<lambda>_.
     case NormalizeProjectionFilter (pd_filter inp) of
       Inl e \<Rightarrow> Inl (mapFeedFilterError e)
     | Inr f \<Rightarrow>
         let p = \<lparr>pd_name = name, pd_version = pd_version inp, pd_type = typ,
               pd_rootstock = pd_rootstock inp, pd_filter = f,
               pd_description = trim_space (pd_description inp)\<rparr>
         in Inr (p, projection_payload p)))))"

section \<open>The projector\<close>

definition decodeProjection :: "json \<Rightarrow> err + projection" where
  "decodeProjection j =
     bind_err (guard_err (jobject j) ErrDecode) (\<lambda>_.
     bind_err (jstring (jget j ''name'')) (\<lambda>name.
     bind_err (jinteger (jget j ''version'')) (\<lambda>version.
     bind_err (jstring (jget j ''type'')) (\<lambda>typ.
     bind_err (jboolean (jget j ''rootstock'')) (\<lambda>rootstock.
     bind_err (decode_filter (jget j ''filter'')) (\<lambda>f.
     bind_err (jstring (jget j ''description'')) (\<lambda>description.
     map_sum id fst (normalizeProjectionInput \<lparr>pd_name = name, pd_version = version, pd_type = typ,
       pd_rootstock = rootstock, pd_filter = f, pd_description = description\<rparr>))))))))"

definition projectionDefinedProjector :: "event \<Rightarrow> tables \<Rightarrow> err + tables" where
  "projectionDefinedProjector ev t =
     bind_err (guard_err (ev_subject_kind ev = SubjectProjection)
       (subject_err EventProjectionDefined SubjectProjection (ev_subject_kind ev))) (\<lambda>_.
     bind_err (decodeProjection (ev_payload ev)) (\<lambda>p.
     let row = \<lparr>pj_name = pd_name p, pj_version = pd_version p, pj_type = pd_type p,
           pj_rootstock = pd_rootstock p, pj_filter = filter_json (pd_filter p),
           pj_description = pd_description p, pj_event = ev_id ev,
           pj_defined_at = ev_occurred_at ev, pj_defined_by = ev_actor ev,
           pj_source = ev_source ev\<rparr>
     in Inr (t\<lparr>t_projections := upsert_row pj_name (\<lambda>_. row) row (t_projections t)\<rparr>)))"

section \<open>Lookup and definition\<close>

definition scanProjection :: "projection_row \<Rightarrow> err + projection" where
  "scanProjection r =
     (case bind_err (decode_filter (pj_filter r)) NormalizeProjectionFilter of
        Inl e \<Rightarrow> Inl (Err [] (''projectiondefs: invalid stored filter: '' @ err_message e))
      | Inr f \<Rightarrow> Inr \<lparr>pd_name = pj_name r, pd_version = pj_version r, pd_type = pj_type r,
          pd_rootstock = pj_rootstock r, pd_filter = f, pd_description = pj_description r\<rparr>)"

definition GetProjection :: "tables \<Rightarrow> string \<Rightarrow> err + projection" where
  "GetProjection t name0 = bind_err (normalizeProjectionName name0) (\<lambda>name.
     case get_row pj_name name (t_projections t) of
       Some r \<Rightarrow> scanProjection r
     | None \<Rightarrow> Inl (Err ErrUnknownProjection ('': no projection named '' @ name @
         ''; consult projections.list'')))"

fun scan_projections :: "projection_row list \<Rightarrow> err + projection list" where
  "scan_projections [] = Inr []"
| "scan_projections (r # rs) =
     bind_err (scanProjection r) (\<lambda>p. map_sum id (Cons p) (scan_projections rs))"

definition ListProjections :: "tables \<Rightarrow> err + projection list" where
  "ListProjections t = scan_projections (sort_key pj_name (t_projections t))"

definition DefineProjection ::
  "ext \<Rightarrow> tables projector list \<Rightarrow> time \<Rightarrow> db \<Rightarrow> token \<Rightarrow> projection \<Rightarrow> err + projection \<times> bool \<times> db"
where
  "DefineProjection E reg now st actor inp =
     bind_err (normalizeProjectionInput inp) (\<lambda>(new, payload).
     let sid = ProjectionSubjectID E (pd_name new) in
     bind_err (case get_row pj_name (pd_name new) (t_projections (proj st)) of
         Some r \<Rightarrow> bind_err (scanProjection r) (\<lambda>current.
           if current = new then Inr ()
           else bind_err (definitionEventExists E st SubjectProjection sid EventProjectionDefined payload)
             (\<lambda>exists.
             if exists then Inr ()
             else bind_err (guard_err (\<not> pd_rootstock current)
               (Err ErrProjectionRootstockImmutable ('': rootstock projection '' @ pd_name new @
                 '' cannot be redefined''))) (\<lambda>_.
             guard_err (pd_version new = pd_version current + 1)
               (Err ErrProjectionVersionConflict ('': '' @ pd_name new @ '' is at version '' @
                 itoa (pd_version current) @ ''; got '' @ itoa (pd_version new))))))
       | None \<Rightarrow> guard_err (pd_version new = 1)
           (Err ErrProjectionVersionConflict ('': '' @ pd_name new @
             '' must start at version 1; got '' @ itoa (pd_version new)))) (\<lambda>_.
     bind_err (Append E reg now st (definition_spec SubjectProjection sid EventProjectionDefined
       actor payload)) (\<lambda>(_, fresh, st').
     map_sum id (\<lambda>p. (p, fresh, st')) (GetProjection (proj st') (pd_name new)))))"

end
