(* ===== verification/App.thy ===== *)
theory App
  imports ProjectionDefs
begin

text \<open>
  internal/app/projectors.go: the registry of all projectors in registration order and the event
  writer on it.  The registry keeps the law that makes the tables a fold of the log.
\<close>

definition auth_projectors :: "tables projector list" where
  "auth_projectors =
     [(EventTokenCreated, tokenCreatedProjector), (EventTokenRevoked, tokenRevokedProjector)]"

definition approvals_projectors :: "ext \<Rightarrow> tables projector list" where
  "approvals_projectors E =
     [(EventApprovalCreated, approvalCreatedProjector E),
      (EventApprovalDecided, approvalDecidedProjector),
      (EventApprovalExpired, approvalExpiredProjector)]"

definition idempotency_projectors :: "ext \<Rightarrow> tables projector list" where
  "idempotency_projectors E = [(EventIdempotencyRecorded, idempotencyRecordedProjector E)]"

definition workitems_projectors :: "ext \<Rightarrow> tables projector list" where
  "workitems_projectors E =
     [(EventWorkItemCreated, workItemCreatedProjector),
      (EventWorkItemTransitioned, workItemTransitionedProjector),
      (EventWorkItemEventAppended, workItemEventAppendedProjector),
      (EventConvergenceChecksProposed, checksProposedProjector),
      (EventWorkItemRelationAdded, relationAddedProjector E),
      (EventWorkItemMetadataUpdated, metadataUpdatedProjector)]"

definition jobqueue_projectors :: "tables projector list" where
  "jobqueue_projectors = [(EventDispatchRequested, dispatchRequestedProjector)]"

definition policyprofile_projectors :: "tables projector list" where
  "policyprofile_projectors = [(EventPolicyProfileSwitched, profileSwitchedProjector)]"

definition nodes_projectors :: "tables projector list" where
  "nodes_projectors = [(EventNodeRegistered, nodeRegisteredProjector),
     (EventNodeRouteUpdated, routeUpdatedProjector)]"

definition crossnode_projectors :: "ext \<Rightarrow> tables projector list" where
  "crossnode_projectors E = [(EventCommandQueued, commandQueuedProjector E),
     (EventCommandAcked, commandAckedProjector E)]"

definition errorreporting_projectors :: "ext \<Rightarrow> tables projector list" where
  "errorreporting_projectors E = [(EventDeterministicErrorReported, errorReportedProjector),
     (EventDeterministicErrorMasked, errorMaskedProjector E),
     (EventDeterministicErrorUnmasked, errorUnmaskedProjector E)]"

definition inbox_projectors :: "ext \<Rightarrow> tables projector list" where
  "inbox_projectors E = [(EventMessageCaptured, messageCapturedProjector E)]"

definition httpconnector_projectors :: "ext \<Rightarrow> tables projector list" where
  "httpconnector_projectors E = [(EventHTTPConnectorActionRequested, actionRequestedProjector E),
     (EventHTTPConnectorActionApproved, actionApprovedProjector E),
     (EventHTTPConnectorActionSent, actionSentProjector)]"

definition signals_projectors :: "ext \<Rightarrow> tables projector list" where
  "signals_projectors E = [(EventSignalReceived, signalReceivedProjector E)]"

definition projectiondefs_projectors :: "tables projector list" where
  "projectiondefs_projectors = [(EventProjectionDefined, projectionDefinedProjector)]"

definition NewProjectionRegistry :: "ext \<Rightarrow> tables projector list" where
  "NewProjectionRegistry E = auth_projectors @ approvals_projectors E @
     errorreporting_projectors E @ idempotency_projectors E @ inbox_projectors E @
     workitems_projectors E @ jobqueue_projectors @ httpconnector_projectors E @
     signals_projectors E @ policyprofile_projectors @ convergence_projectors @
     registry_projectors @ projectiondefs_projectors @ nodes_projectors @ crossnode_projectors E"

text \<open>app.NewEventWriter().Append\<close>

definition app_append :: "ext \<Rightarrow> time \<Rightarrow> db \<Rightarrow> spec \<Rightarrow> err + uuid \<times> bool \<times> db" where
  "app_append E now st s = Append E (NewProjectionRegistry E) now st s"

abbreviation app_appends :: "ext \<Rightarrow> time \<Rightarrow> db \<Rightarrow> db \<Rightarrow> bool" where
  "app_appends E \<equiv> appends E (NewProjectionRegistry E)"

abbreviation app_history :: "ext \<Rightarrow> db \<Rightarrow> bool" where
  "app_history E \<equiv> history E (NewProjectionRegistry E) no_tables"

lemmas registry_defs = NewProjectionRegistry_def auth_projectors_def approvals_projectors_def
  idempotency_projectors_def workitems_projectors_def jobqueue_projectors_def
  policyprofile_projectors_def convergence_projectors_def registry_projectors_def
  nodes_projectors_def crossnode_projectors_def errorreporting_projectors_def
  inbox_projectors_def httpconnector_projectors_def signals_projectors_def
  projectiondefs_projectors_def

lemma stored_payload_reads [simp]:
  "jget (stored_payload j) k = jget j k" "jobject (stored_payload j) = jobject j"
  "jraw (stored_payload j) k = jraw j k" "payloadVersion (stored_payload j) = payloadVersion j"
  "stored_payload (stored_payload j) = stored_payload j"
  by (simp_all add: stored_payload_def jraw_def payloadVersion_def)

lemma stored_payload_decodes [simp]:
  "decodeVerdictRecordedPayload (stored_payload j) = decodeVerdictRecordedPayload j"
  "decodeTropism (stored_payload j) = decodeTropism j"
  "decodeCultivar (stored_payload j) = decodeCultivar j"
  "decodeSignalPayload E (stored_payload j) = decodeSignalPayload E j"
  "decodeReasonPayload (stored_payload j) = decodeReasonPayload j"
  "decodeProjection (stored_payload j) = decodeProjection j"
  by (simp_all only: decodeVerdictRecordedPayload_def decodeTropism_def decodeCultivar_def
      decodeSignalPayload_def decodeReasonPayload_def decodeProjection_def stored_payload_reads)

lemma stored_event_helpers [simp]:
  "decide_row (as_stored ev) = decide_row ev" "transition_row (as_stored ev) = transition_row ev"
  "touch_work_item (as_stored ev) = touch_work_item ev"
  unfolding fun_eq_iff decide_row_def transition_row_def touch_work_item_def
  by (simp_all only: as_stored_sel simp_thms)

lemma projectors_as_stored:
  "tokenCreatedProjector (as_stored ev) = tokenCreatedProjector ev"
  "tokenRevokedProjector (as_stored ev) = tokenRevokedProjector ev"
  "approvalCreatedProjector E (as_stored ev) = approvalCreatedProjector E ev"
  "approvalDecidedProjector (as_stored ev) = approvalDecidedProjector ev"
  "approvalExpiredProjector (as_stored ev) = approvalExpiredProjector ev"
  "idempotencyRecordedProjector E (as_stored ev) = idempotencyRecordedProjector E ev"
  "workItemCreatedProjector (as_stored ev) = workItemCreatedProjector ev"
  "workItemTransitionedProjector (as_stored ev) = workItemTransitionedProjector ev"
  "workItemEventAppendedProjector (as_stored ev) = workItemEventAppendedProjector ev"
  "checksProposedProjector (as_stored ev) = checksProposedProjector ev"
  "relationAddedProjector E (as_stored ev) = relationAddedProjector E ev"
  "metadataUpdatedProjector (as_stored ev) = metadataUpdatedProjector ev"
  "dispatchRequestedProjector (as_stored ev) = dispatchRequestedProjector ev"
  "profileSwitchedProjector (as_stored ev) = profileSwitchedProjector ev"
  "verdictRecordedProjector (as_stored ev) = verdictRecordedProjector ev"
  "tropismDefinedProjector (as_stored ev) = tropismDefinedProjector ev"
  "cultivarDefinedProjector (as_stored ev) = cultivarDefinedProjector ev"
  "nodeRegisteredProjector (as_stored ev) = nodeRegisteredProjector ev"
  "routeUpdatedProjector (as_stored ev) = routeUpdatedProjector ev"
  "commandQueuedProjector E (as_stored ev) = commandQueuedProjector E ev"
  "commandAckedProjector E (as_stored ev) = commandAckedProjector E ev"
  "errorReportedProjector (as_stored ev) = errorReportedProjector ev"
  "errorMaskedProjector E (as_stored ev) = errorMaskedProjector E ev"
  "errorUnmaskedProjector E (as_stored ev) = errorUnmaskedProjector E ev"
  "messageCapturedProjector E (as_stored ev) = messageCapturedProjector E ev"
  "actionRequestedProjector E (as_stored ev) = actionRequestedProjector E ev"
  "actionApprovedProjector E (as_stored ev) = actionApprovedProjector E ev"
  "actionSentProjector (as_stored ev) = actionSentProjector ev"
  "signalReceivedProjector E (as_stored ev) = signalReceivedProjector E ev"
  "projectionDefinedProjector (as_stored ev) = projectionDefinedProjector ev"
  unfolding fun_eq_iff tokenCreatedProjector_def tokenRevokedProjector_def
    approvalCreatedProjector_def approvalDecidedProjector_def approvalExpiredProjector_def
    idempotencyRecordedProjector_def workItemCreatedProjector_def
    workItemTransitionedProjector_def workItemEventAppendedProjector_def
    checksProposedProjector_def relationAddedProjector_def metadataUpdatedProjector_def
    dispatchRequestedProjector_def profileSwitchedProjector_def verdictRecordedProjector_def
    tropismDefinedProjector_def cultivarDefinedProjector_def nodeRegisteredProjector_def
    routeUpdatedProjector_def commandQueuedProjector_def commandAckedProjector_def need_version_1_def Let_def
    errorReportedProjector_def errorMaskedProjector_def errorUnmaskedProjector_def
    messageCapturedProjector_def actionRequestedProjector_def actionApprovedProjector_def
    actionSentProjector_def signalReceivedProjector_def projectionDefinedProjector_def
  by (simp_all only: as_stored_sel stored_payload_reads stored_payload_decodes
      stored_event_helpers simp_thms)

interpretation app: projection_registry "NewProjectionRegistry E"
proof
  show "registry_apply (NewProjectionRegistry E) (as_stored ev) p =
      registry_apply (NewProjectionRegistry E) ev p" for ev p
  proof (rule null_payload_by_kind)
    fix k f ev assume "(k, f) \<in> set (NewProjectionRegistry E)"
    then show "f (as_stored ev) = f ev"
      unfolding registry_defs by (auto simp: projectors_as_stored)
  qed
qed

section \<open>Which projector an event reaches\<close>

lemma apply_all_single [simp]: "apply_all [f] ev p = f ev p"
  by (simp split: sum.splits)

lemma registry_apply_kinds:
  "ev_kind ev = EventTokenCreated \<Longrightarrow> registry_apply (NewProjectionRegistry E) ev = tokenCreatedProjector ev"
  "ev_kind ev = EventTokenRevoked \<Longrightarrow> registry_apply (NewProjectionRegistry E) ev = tokenRevokedProjector ev"
  "ev_kind ev = EventApprovalCreated \<Longrightarrow>
     registry_apply (NewProjectionRegistry E) ev = approvalCreatedProjector E ev"
  "ev_kind ev = EventApprovalDecided \<Longrightarrow>
     registry_apply (NewProjectionRegistry E) ev = approvalDecidedProjector ev"
  "ev_kind ev = EventApprovalExpired \<Longrightarrow>
     registry_apply (NewProjectionRegistry E) ev = approvalExpiredProjector ev"
  "ev_kind ev = EventIdempotencyRecorded \<Longrightarrow>
     registry_apply (NewProjectionRegistry E) ev = idempotencyRecordedProjector E ev"
  "ev_kind ev = EventWorkItemCreated \<Longrightarrow>
     registry_apply (NewProjectionRegistry E) ev = workItemCreatedProjector ev"
  "ev_kind ev = EventWorkItemTransitioned \<Longrightarrow>
     registry_apply (NewProjectionRegistry E) ev = workItemTransitionedProjector ev"
  "ev_kind ev = EventWorkItemEventAppended \<Longrightarrow>
     registry_apply (NewProjectionRegistry E) ev = workItemEventAppendedProjector ev"
  "ev_kind ev = EventConvergenceChecksProposed \<Longrightarrow>
     registry_apply (NewProjectionRegistry E) ev = checksProposedProjector ev"
  "ev_kind ev = EventWorkItemRelationAdded \<Longrightarrow>
     registry_apply (NewProjectionRegistry E) ev = relationAddedProjector E ev"
  "ev_kind ev = EventWorkItemMetadataUpdated \<Longrightarrow>
     registry_apply (NewProjectionRegistry E) ev = metadataUpdatedProjector ev"
  "ev_kind ev = EventDispatchRequested \<Longrightarrow>
     registry_apply (NewProjectionRegistry E) ev = dispatchRequestedProjector ev"
  "ev_kind ev = EventPolicyProfileSwitched \<Longrightarrow>
     registry_apply (NewProjectionRegistry E) ev = profileSwitchedProjector ev"
  "ev_kind ev = EventConvergenceVerdictRecorded \<Longrightarrow>
     registry_apply (NewProjectionRegistry E) ev = verdictRecordedProjector ev"
  "ev_kind ev = EventTropismDefined \<Longrightarrow>
     registry_apply (NewProjectionRegistry E) ev = tropismDefinedProjector ev"
  "ev_kind ev = EventCultivarDefined \<Longrightarrow>
     registry_apply (NewProjectionRegistry E) ev = cultivarDefinedProjector ev"
  "ev_kind ev = EventNodeRegistered \<Longrightarrow>
     registry_apply (NewProjectionRegistry E) ev = nodeRegisteredProjector ev"
  "ev_kind ev = EventNodeRouteUpdated \<Longrightarrow>
     registry_apply (NewProjectionRegistry E) ev = routeUpdatedProjector ev"
  "ev_kind ev = EventCommandQueued \<Longrightarrow>
     registry_apply (NewProjectionRegistry E) ev = commandQueuedProjector E ev"
  "ev_kind ev = EventCommandAcked \<Longrightarrow>
     registry_apply (NewProjectionRegistry E) ev = commandAckedProjector E ev"
  "ev_kind ev = EventDeterministicErrorReported \<Longrightarrow>
     registry_apply (NewProjectionRegistry E) ev = errorReportedProjector ev"
  "ev_kind ev = EventDeterministicErrorMasked \<Longrightarrow>
     registry_apply (NewProjectionRegistry E) ev = errorMaskedProjector E ev"
  "ev_kind ev = EventDeterministicErrorUnmasked \<Longrightarrow>
     registry_apply (NewProjectionRegistry E) ev = errorUnmaskedProjector E ev"
  "ev_kind ev = EventMessageCaptured \<Longrightarrow>
     registry_apply (NewProjectionRegistry E) ev = messageCapturedProjector E ev"
  "ev_kind ev = EventHTTPConnectorActionRequested \<Longrightarrow>
     registry_apply (NewProjectionRegistry E) ev = actionRequestedProjector E ev"
  "ev_kind ev = EventHTTPConnectorActionApproved \<Longrightarrow>
     registry_apply (NewProjectionRegistry E) ev = actionApprovedProjector E ev"
  "ev_kind ev = EventHTTPConnectorActionSent \<Longrightarrow>
     registry_apply (NewProjectionRegistry E) ev = actionSentProjector ev"
  "ev_kind ev = EventSignalReceived \<Longrightarrow>
     registry_apply (NewProjectionRegistry E) ev = signalReceivedProjector E ev"
  "ev_kind ev = EventProjectionDefined \<Longrightarrow>
     registry_apply (NewProjectionRegistry E) ev = projectionDefinedProjector ev"
  by (simp_all add: fun_eq_iff registry_apply_def registry_defs del: apply_all.simps)

section \<open>A concrete database\<close>

definition item7 :: work_item where
  "item7 = \<lparr>wi_id = 7, wi_title = ''tend'', wi_body = [], wi_state = WorkItemCaptured,
     wi_state_reason = None, wi_checks = [], wi_human_review = HumanReviewWavedThrough,
     wi_created_by = Some 3, wi_created_at = 5, wi_state_entered_at = 5, wi_updated_at = 5\<rparr>"

definition created_id :: uuid where
  "created_id = length_id (length (id_preimage created_spec))"

definition db7_at :: "uuid \<Rightarrow> db" where
  "db7_at i = \<lparr>log = [as_stored (event_of 5 i created_spec)],
     proj = no_tables\<lparr>t_work_items := [item7]\<rparr>\<rparr>"

definition db7 :: db where
  "db7 = db7_at created_id"

lemma created_spec_projects:
  "workItemCreatedProjector (event_of 5 i created_spec) no_tables =
     Inr (no_tables\<lparr>t_work_items := [item7]\<rparr>)"
  by code_simp

lemma append_created:
  "Append decimal_ext (NewProjectionRegistry decimal_ext) 5 (empty_store no_tables) created_spec =
    Inr (created_id, True, db7)"
proof -
  have "registry_apply (NewProjectionRegistry decimal_ext) (event_of 5 i created_spec) no_tables =
      Inr (no_tables\<lparr>t_work_items := [item7]\<rparr>)" for i
    using created_spec_projects by (simp add: registry_apply_kinds(7) created_spec_def)
  then show ?thesis
    by (simp add: Append_def decimal_ext_id created_spec_valid created_id_def db7_def db7_at_def)
qed

lemma history_db7: "app_history decimal_ext db7"
  by (rule history.commit [OF history.empty]) (rule Append_appends [OF append_created])



text \<open>
  The log only grows.  In every reachable database the event ids are pairwise distinct, and a
  further transaction leaves all earlier events where they are and appends events with new ids.
\<close>

theorem log_is_append_only:
  assumes "app_history E st" "app_appends E now st st'"
  shows "distinct (map ev_id (log st')) \<and> (\<exists>evs. log st' = log st @ evs)"
  using history_distinct [OF assms(1)] appends_distinct [OF assms(2)] appends_log [OF assms(2)]
  by blast

theorem log_is_append_only_witness:
  "distinct (map ev_id (log db7)) \<and> (\<exists>evs. log db7 = log db7 @ evs)"
  by (rule log_is_append_only [OF history_db7 appends.none])

end
