(* ===== verification/Frames.thy ===== *)
theory Frames
  imports App
begin

text \<open>
  Frame facts: which table each projector writes, lifted to one append of the application's
  registry.  They say that two components only meet where a projector of one writes a table that
  the other reads.
\<close>

named_theorems projector_frames \<open>a projector changes one table only\<close>

lemma tables_update_same [simp]:
  "t\<lparr>t_tokens := t_tokens t\<rparr> = (t :: tables)" "t\<lparr>t_work_items := t_work_items t\<rparr> = (t :: tables)"
  "t\<lparr>t_relations := t_relations t\<rparr> = (t :: tables)" "t\<lparr>t_approvals := t_approvals t\<rparr> = (t :: tables)"
  "t\<lparr>t_idempotency := t_idempotency t\<rparr> = (t :: tables)" "t\<lparr>t_verdicts := t_verdicts t\<rparr> = (t :: tables)"
  "t\<lparr>t_jobs := t_jobs t\<rparr> = (t :: tables)" "t\<lparr>t_nodes := t_nodes t\<rparr> = (t :: tables)"
  "t\<lparr>t_commands := t_commands t\<rparr> = (t :: tables)" "t\<lparr>t_profile := t_profile t\<rparr> = (t :: tables)"
  "t\<lparr>t_tropisms := t_tropisms t\<rparr> = (t :: tables)" "t\<lparr>t_cultivars := t_cultivars t\<rparr> = (t :: tables)"
  "t\<lparr>t_messages := t_messages t\<rparr> = (t :: tables)" "t\<lparr>t_message_parts := t_message_parts t\<rparr> = (t :: tables)"
  "t\<lparr>t_signals := t_signals t\<rparr> = (t :: tables)" "t\<lparr>t_det_errors := t_det_errors t\<rparr> = (t :: tables)"
  "t\<lparr>t_actions := t_actions t\<rparr> = (t :: tables)" "t\<lparr>t_outbox := t_outbox t\<rparr> = (t :: tables)"
  "t\<lparr>t_projections := t_projections t\<rparr> = (t :: tables)"
  by simp_all

lemma tokenCreatedProjector_frame [projector_frames]:
  "tokenCreatedProjector ev t = Inr t' \<Longrightarrow> t' = t\<lparr>t_tokens := t_tokens t'\<rparr>"
  unfolding tokenCreatedProjector_def
  by (auto simp: bind_err_Inr Let_def split: if_splits option.splits prod.splits)

lemma tokenRevokedProjector_frame [projector_frames]:
  "tokenRevokedProjector ev t = Inr t' \<Longrightarrow> t' = t\<lparr>t_tokens := t_tokens t'\<rparr>"
  unfolding tokenRevokedProjector_def
  by (auto simp: bind_err_Inr Let_def split: if_splits option.splits prod.splits)

lemma approvalCreatedProjector_frame [projector_frames]:
  "approvalCreatedProjector E ev t = Inr t' \<Longrightarrow> t' = t\<lparr>t_approvals := t_approvals t'\<rparr>"
  unfolding approvalCreatedProjector_def
  by (auto simp: bind_err_Inr Let_def split: if_splits option.splits prod.splits)

lemma approvalDecidedProjector_frame [projector_frames]:
  "approvalDecidedProjector ev t = Inr t' \<Longrightarrow> t' = t\<lparr>t_approvals := t_approvals t'\<rparr>"
  unfolding approvalDecidedProjector_def
  by (auto simp: bind_err_Inr Let_def split: if_splits option.splits prod.splits)

lemma approvalExpiredProjector_frame [projector_frames]:
  "approvalExpiredProjector ev t = Inr t' \<Longrightarrow> t' = t\<lparr>t_approvals := t_approvals t'\<rparr>"
  unfolding approvalExpiredProjector_def
  by (auto simp: bind_err_Inr Let_def split: if_splits option.splits prod.splits)

lemma idempotencyRecordedProjector_frame [projector_frames]:
  "idempotencyRecordedProjector E ev t = Inr t' \<Longrightarrow> t' = t\<lparr>t_idempotency := t_idempotency t'\<rparr>"
  unfolding idempotencyRecordedProjector_def
  by (auto simp: bind_err_Inr Let_def split: if_splits option.splits prod.splits)

lemma workItemCreatedProjector_frame [projector_frames]:
  "workItemCreatedProjector ev t = Inr t' \<Longrightarrow> t' = t\<lparr>t_work_items := t_work_items t'\<rparr>"
  unfolding workItemCreatedProjector_def
  by (auto simp: bind_err_Inr Let_def touch_work_item_def split: if_splits option.splits prod.splits)

lemma workItemTransitionedProjector_frame [projector_frames]:
  "workItemTransitionedProjector ev t = Inr t' \<Longrightarrow> t' = t\<lparr>t_work_items := t_work_items t'\<rparr>"
  unfolding workItemTransitionedProjector_def
  by (auto simp: bind_err_Inr Let_def touch_work_item_def split: if_splits option.splits prod.splits)

lemma workItemEventAppendedProjector_frame [projector_frames]:
  "workItemEventAppendedProjector ev t = Inr t' \<Longrightarrow> t' = t\<lparr>t_work_items := t_work_items t'\<rparr>"
  unfolding workItemEventAppendedProjector_def
  by (auto simp: bind_err_Inr Let_def touch_work_item_def split: if_splits option.splits prod.splits)

lemma checksProposedProjector_frame [projector_frames]:
  "checksProposedProjector ev t = Inr t' \<Longrightarrow> t' = t\<lparr>t_work_items := t_work_items t'\<rparr>"
  unfolding checksProposedProjector_def
  by (auto simp: bind_err_Inr Let_def touch_work_item_def split: if_splits option.splits prod.splits)

lemma relationAddedProjector_frame [projector_frames]:
  "relationAddedProjector E ev t = Inr t' \<Longrightarrow> t' = t\<lparr>t_relations := t_relations t'\<rparr>"
  unfolding relationAddedProjector_def
  by (auto simp: bind_err_Inr Let_def split: if_splits option.splits prod.splits)

lemma metadataUpdatedProjector_frame [projector_frames]:
  "metadataUpdatedProjector ev t = Inr t' \<Longrightarrow> t' = t\<lparr>t_work_items := t_work_items t'\<rparr>"
  unfolding metadataUpdatedProjector_def
  by (auto simp: bind_err_Inr Let_def touch_work_item_def split: if_splits option.splits prod.splits)

lemma dispatchRequestedProjector_frame [projector_frames]:
  "dispatchRequestedProjector ev t = Inr t' \<Longrightarrow> t' = t\<lparr>t_jobs := t_jobs t'\<rparr>"
  unfolding dispatchRequestedProjector_def
  by (auto simp: bind_err_Inr Let_def split: if_splits option.splits prod.splits)

lemma profileSwitchedProjector_frame [projector_frames]:
  "profileSwitchedProjector ev t = Inr t' \<Longrightarrow> t' = t\<lparr>t_profile := t_profile t'\<rparr>"
  unfolding profileSwitchedProjector_def
  by (auto simp: bind_err_Inr Let_def split: if_splits option.splits prod.splits)

lemma verdictRecordedProjector_frame [projector_frames]:
  "verdictRecordedProjector ev t = Inr t' \<Longrightarrow> t' = t\<lparr>t_verdicts := t_verdicts t'\<rparr>"
  unfolding verdictRecordedProjector_def
  by (auto simp: bind_err_Inr Let_def split: if_splits option.splits prod.splits)

lemma tropismDefinedProjector_frame [projector_frames]:
  "tropismDefinedProjector ev t = Inr t' \<Longrightarrow> t' = t\<lparr>t_tropisms := t_tropisms t'\<rparr>"
  unfolding tropismDefinedProjector_def
  by (auto simp: bind_err_Inr Let_def split: if_splits option.splits prod.splits)

lemma cultivarDefinedProjector_frame [projector_frames]:
  "cultivarDefinedProjector ev t = Inr t' \<Longrightarrow> t' = t\<lparr>t_cultivars := t_cultivars t'\<rparr>"
  unfolding cultivarDefinedProjector_def
  by (auto simp: bind_err_Inr Let_def split: if_splits option.splits prod.splits)

lemma nodeRegisteredProjector_frame [projector_frames]:
  "nodeRegisteredProjector ev t = Inr t' \<Longrightarrow> t' = t\<lparr>t_nodes := t_nodes t'\<rparr>"
  unfolding nodeRegisteredProjector_def
  by (auto simp: bind_err_Inr Let_def split: if_splits option.splits prod.splits)

lemma routeUpdatedProjector_frame [projector_frames]:
  "routeUpdatedProjector ev t = Inr t' \<Longrightarrow> t' = t\<lparr>t_nodes := t_nodes t'\<rparr>"
  unfolding routeUpdatedProjector_def
  by (auto simp: bind_err_Inr Let_def split: if_splits option.splits prod.splits)

lemma commandQueuedProjector_frame [projector_frames]:
  "commandQueuedProjector E ev t = Inr t' \<Longrightarrow> t' = t\<lparr>t_commands := t_commands t'\<rparr>"
  unfolding commandQueuedProjector_def
  by (auto simp: bind_err_Inr Let_def split: if_splits option.splits prod.splits)

lemma commandAckedProjector_frame [projector_frames]:
  "commandAckedProjector E ev t = Inr t' \<Longrightarrow> t' = t\<lparr>t_commands := t_commands t'\<rparr>"
  unfolding commandAckedProjector_def
  by (auto simp: bind_err_Inr Let_def split: if_splits option.splits prod.splits)

lemma errorReportedProjector_frame [projector_frames]:
  "errorReportedProjector ev t = Inr t' \<Longrightarrow> t' = t\<lparr>t_det_errors := t_det_errors t'\<rparr>"
  unfolding errorReportedProjector_def Let_def update_det_error_def
  by (elim bind_err_Inr_E) (auto split: if_splits option.splits json.splits)

lemma errorMaskedProjector_frame [projector_frames]:
  "errorMaskedProjector E ev t = Inr t' \<Longrightarrow> t' = t\<lparr>t_det_errors := t_det_errors t'\<rparr>"
  unfolding errorMaskedProjector_def Let_def update_det_error_def
  by (elim bind_err_Inr_E) (auto split: if_splits option.splits json.splits)

lemma errorUnmaskedProjector_frame [projector_frames]:
  "errorUnmaskedProjector E ev t = Inr t' \<Longrightarrow> t' = t\<lparr>t_det_errors := t_det_errors t'\<rparr>"
  unfolding errorUnmaskedProjector_def Let_def update_det_error_def
  by (elim bind_err_Inr_E) (auto split: if_splits option.splits json.splits)

lemma messageCapturedProjector_frame [projector_frames]:
  "messageCapturedProjector E ev t = Inr t' \<Longrightarrow> t' = t\<lparr>t_messages := t_messages t', t_message_parts := t_message_parts t'\<rparr>"
  unfolding messageCapturedProjector_def Let_def update_det_error_def
  by (elim bind_err_Inr_E) (auto split: if_splits option.splits json.splits)

lemma actionRequestedProjector_frame [projector_frames]:
  "actionRequestedProjector E ev t = Inr t' \<Longrightarrow> t' = t\<lparr>t_actions := t_actions t'\<rparr>"
  unfolding actionRequestedProjector_def Let_def update_det_error_def
  by (elim bind_err_Inr_E) (auto split: if_splits option.splits json.splits)

lemma actionApprovedProjector_frame [projector_frames]:
  "actionApprovedProjector E ev t = Inr t' \<Longrightarrow> t' = t\<lparr>t_actions := t_actions t', t_outbox := t_outbox t'\<rparr>"
  unfolding actionApprovedProjector_def Let_def update_det_error_def
  by (elim bind_err_Inr_E) (auto split: if_splits option.splits json.splits)

lemma actionSentProjector_frame [projector_frames]:
  "actionSentProjector ev t = Inr t' \<Longrightarrow> t' = t\<lparr>t_actions := t_actions t'\<rparr>"
  unfolding actionSentProjector_def Let_def update_det_error_def
  by (elim bind_err_Inr_E) (auto split: if_splits option.splits json.splits)

lemma signalReceivedProjector_frame [projector_frames]:
  "signalReceivedProjector E ev t = Inr t' \<Longrightarrow> t' = t\<lparr>t_signals := t_signals t'\<rparr>"
  unfolding signalReceivedProjector_def Let_def update_det_error_def
  by (elim bind_err_Inr_E) (auto split: if_splits option.splits json.splits)

lemma projectionDefinedProjector_frame [projector_frames]:
  "projectionDefinedProjector ev t = Inr t' \<Longrightarrow> t' = t\<lparr>t_projections := t_projections t'\<rparr>"
  unfolding projectionDefinedProjector_def Let_def update_det_error_def
  by (elim bind_err_Inr_E) (auto split: if_splits option.splits json.splits)

section \<open>Lifting to the registry\<close>

lemma registry_apply_rel:
  assumes step: "\<And>f t t'. (ev_kind ev, f) \<in> set reg \<Longrightarrow> f ev t = Inr t' \<Longrightarrow> R t t'"
    and refl: "\<And>t. R t t" and trans: "\<And>t u v. R t u \<Longrightarrow> R u v \<Longrightarrow> R t v"
    and run: "registry_apply reg ev t = Inr t'"
  shows "R t t'"
proof -
  have "R t t'" if "apply_all fs ev t = Inr t'" "\<And>f. f \<in> set fs \<Longrightarrow> (ev_kind ev, f) \<in> set reg"
    for fs t
    using that
  proof (induction fs arbitrary: t)
    case (Cons f fs)
    then obtain u where u: "f ev t = Inr u" "apply_all fs ev u = Inr t'"
      by (auto split: sum.splits)
    have "(ev_kind ev, f) \<in> set reg" using Cons.prems(2) by simp
    then have "R t u" using u(1) step [of f t u] by blast
    moreover have "R u t'" using Cons.prems(2) u(2) by (intro Cons.IH) auto
    ultimately show ?case by (rule trans)
  qed (simp add: refl)
  then show ?thesis using run by (force simp: registry_apply_def)
qed

definition work_item_kinds :: "string list" where
  "work_item_kinds = [EventWorkItemCreated, EventWorkItemTransitioned, EventWorkItemEventAppended,
     EventConvergenceChecksProposed, EventWorkItemMetadataUpdated]"

lemmas frames_work_items = projector_frames [THEN arg_cong [where f = t_work_items]]
lemmas frames_relations = projector_frames [THEN arg_cong [where f = t_relations]]
lemmas frames_approvals = projector_frames [THEN arg_cong [where f = t_approvals]]
lemmas frames_tokens = projector_frames [THEN arg_cong [where f = t_tokens]]
lemmas frames_verdicts = projector_frames [THEN arg_cong [where f = t_verdicts]]
lemmas frames_idempotency = projector_frames [THEN arg_cong [where f = t_idempotency]]
lemmas frames_tropisms = projector_frames [THEN arg_cong [where f = t_tropisms]]
lemmas frames_cultivars = projector_frames [THEN arg_cong [where f = t_cultivars]]

lemma apply_keeps_work_items:
  "registry_apply (NewProjectionRegistry E) ev t = Inr t' \<Longrightarrow> ev_kind ev \<notin> set work_item_kinds \<Longrightarrow>
   t_work_items t' = t_work_items t"
  by (rule registry_apply_rel [where R = "\<lambda>t t'. t_work_items t' = t_work_items t"])
     (auto simp: registry_defs work_item_kinds_def dest: frames_work_items)

lemma apply_keeps_relations:
  "registry_apply (NewProjectionRegistry E) ev t = Inr t' \<Longrightarrow> ev_kind ev \<noteq> EventWorkItemRelationAdded \<Longrightarrow>
   t_relations t' = t_relations t"
  by (rule registry_apply_rel [where R = "\<lambda>t t'. t_relations t' = t_relations t"])
     (auto simp: registry_defs dest: frames_relations)

lemma apply_keeps_approvals:
  "registry_apply (NewProjectionRegistry E) ev t = Inr t' \<Longrightarrow>
   ev_kind ev \<notin> {EventApprovalCreated, EventApprovalDecided, EventApprovalExpired} \<Longrightarrow>
   t_approvals t' = t_approvals t"
  by (rule registry_apply_rel [where R = "\<lambda>t t'. t_approvals t' = t_approvals t"])
     (auto simp: registry_defs dest: frames_approvals)

lemma apply_keeps_tokens:
  "registry_apply (NewProjectionRegistry E) ev t = Inr t' \<Longrightarrow>
   ev_kind ev \<notin> {EventTokenCreated, EventTokenRevoked} \<Longrightarrow> t_tokens t' = t_tokens t"
  by (rule registry_apply_rel [where R = "\<lambda>t t'. t_tokens t' = t_tokens t"])
     (auto simp: registry_defs dest: frames_tokens)

lemma apply_keeps_verdicts:
  "registry_apply (NewProjectionRegistry E) ev t = Inr t' \<Longrightarrow>
   ev_kind ev \<noteq> EventConvergenceVerdictRecorded \<Longrightarrow> t_verdicts t' = t_verdicts t"
  by (rule registry_apply_rel [where R = "\<lambda>t t'. t_verdicts t' = t_verdicts t"])
     (auto simp: registry_defs dest: frames_verdicts)

lemmas frames_profile = projector_frames [THEN arg_cong [where f = t_profile]]
lemmas frames_nodes = projector_frames [THEN arg_cong [where f = t_nodes]]
lemmas frames_commands = projector_frames [THEN arg_cong [where f = t_commands]]
lemmas frames_signals = projector_frames [THEN arg_cong [where f = t_signals]]
lemmas frames_det_errors = projector_frames [THEN arg_cong [where f = t_det_errors]]

lemma apply_keeps_idempotency:
  "registry_apply (NewProjectionRegistry E) ev t = Inr t' \<Longrightarrow>
   ev_kind ev \<noteq> EventIdempotencyRecorded \<Longrightarrow> t_idempotency t' = t_idempotency t"
  by (rule registry_apply_rel [where R = "\<lambda>t t'. t_idempotency t' = t_idempotency t"])
     (auto simp: registry_defs dest: frames_idempotency)

lemma apply_keeps_profile:
  "registry_apply (NewProjectionRegistry E) ev t = Inr t' \<Longrightarrow>
   ev_kind ev \<noteq> EventPolicyProfileSwitched \<Longrightarrow> t_profile t' = t_profile t"
  by (rule registry_apply_rel [where R = "\<lambda>t t'. t_profile t' = t_profile t"])
     (auto simp: registry_defs dest: frames_profile)

lemma apply_keeps_nodes:
  "registry_apply (NewProjectionRegistry E) ev t = Inr t' \<Longrightarrow>
   ev_kind ev \<notin> {EventNodeRegistered, EventNodeRouteUpdated} \<Longrightarrow> t_nodes t' = t_nodes t"
  by (rule registry_apply_rel [where R = "\<lambda>t t'. t_nodes t' = t_nodes t"])
     (auto simp: registry_defs dest: frames_nodes)

lemma apply_keeps_commands:
  "registry_apply (NewProjectionRegistry E) ev t = Inr t' \<Longrightarrow>
   ev_kind ev \<notin> {EventCommandQueued, EventCommandAcked} \<Longrightarrow> t_commands t' = t_commands t"
  by (rule registry_apply_rel [where R = "\<lambda>t t'. t_commands t' = t_commands t"])
     (auto simp: registry_defs dest: frames_commands)

lemma apply_keeps_signals:
  "registry_apply (NewProjectionRegistry E) ev t = Inr t' \<Longrightarrow>
   ev_kind ev \<noteq> EventSignalReceived \<Longrightarrow> t_signals t' = t_signals t"
  by (rule registry_apply_rel [where R = "\<lambda>t t'. t_signals t' = t_signals t"])
     (auto simp: registry_defs dest: frames_signals)

lemma apply_keeps_det_errors:
  "registry_apply (NewProjectionRegistry E) ev t = Inr t' \<Longrightarrow>
   ev_kind ev \<notin> {EventDeterministicErrorReported, EventDeterministicErrorMasked,
     EventDeterministicErrorUnmasked} \<Longrightarrow> t_det_errors t' = t_det_errors t"
  by (rule registry_apply_rel [where R = "\<lambda>t t'. t_det_errors t' = t_det_errors t"])
     (auto simp: registry_defs dest: frames_det_errors)

section \<open>Work items are never deleted, and the graph only grows\<close>

lemma projector_keeps_ids:
  "workItemTransitionedProjector ev t = Inr t' \<Longrightarrow> map wi_id (t_work_items t') = map wi_id (t_work_items t)"
  "workItemEventAppendedProjector ev t = Inr t' \<Longrightarrow> map wi_id (t_work_items t') = map wi_id (t_work_items t)"
  "checksProposedProjector ev t = Inr t' \<Longrightarrow> map wi_id (t_work_items t') = map wi_id (t_work_items t)"
  "metadataUpdatedProjector ev t = Inr t' \<Longrightarrow> map wi_id (t_work_items t') = map wi_id (t_work_items t)"
  by (auto simp: workItemTransitionedProjector_def workItemEventAppendedProjector_def
      checksProposedProjector_def metadataUpdatedProjector_def touch_work_item_def bind_err_Inr
      Let_def transition_row_def simp del: map_eq_conv split: if_splits)

lemma created_keeps_ids:
  "workItemCreatedProjector ev t = Inr t' \<Longrightarrow> set (map wi_id (t_work_items t)) \<subseteq> set (map wi_id (t_work_items t'))"
  by (auto simp: workItemCreatedProjector_def bind_err_Inr Let_def insert_row_def split: if_splits)

lemma apply_keeps_ids:
  assumes "registry_apply (NewProjectionRegistry E) ev t = Inr t'"
  shows "set (map wi_id (t_work_items t)) \<subseteq> set (map wi_id (t_work_items t'))"
proof (rule registry_apply_rel [OF _ _ _ assms,
      where R = "\<lambda>t t'. set (map wi_id (t_work_items t)) \<subseteq> set (map wi_id (t_work_items t'))"])
  fix f t t' assume f: "(ev_kind ev, f) \<in> set (NewProjectionRegistry E)" "f ev t = Inr t'"
  from f(1) consider "f = workItemCreatedProjector" | "f \<in> {workItemTransitionedProjector,
      workItemEventAppendedProjector, checksProposedProjector, metadataUpdatedProjector}"
    | "t_work_items t' = t_work_items t"
    unfolding registry_defs using f(2) by (auto dest: frames_work_items)
  then show "set (map wi_id (t_work_items t)) \<subseteq> set (map wi_id (t_work_items t'))"
  proof cases
    case 1
    with f(2) created_keeps_ids show ?thesis by blast
  next
    case 2
    with f(2) projector_keeps_ids have "map wi_id (t_work_items t') = map wi_id (t_work_items t)"
      by blast
    then show ?thesis by (simp only: order_refl)
  next
    case 3
    then show ?thesis by (simp only: order_refl)
  qed
qed auto

end
