(* ===== verification/Access.thy ===== *)
theory Access
  imports Tables Graph Feed
begin

text \<open>
  internal/access/access.go: which tools are advertised to a token, which work items and feed
  items it may read, and what it may write.  Tree scopes grant the descendants of a root in
  work_item_relations; the recursive query over that table is \<open>reach\<close> of the theory Graph.
\<close>

abbreviation ScopeWorkItemsRead :: string where "ScopeWorkItemsRead \<equiv> ''work_items.read''"
abbreviation ScopeWorkItemsReadAll :: string where "ScopeWorkItemsReadAll \<equiv> ''work_items.read_all''"
abbreviation ScopeWorkItemsWrite :: string where "ScopeWorkItemsWrite \<equiv> ''work_items.write''"
abbreviation ScopeWorkItemsWriteAll :: string where "ScopeWorkItemsWriteAll \<equiv> ''work_items.write_all''"
abbreviation ScopeWorkItemsCreate :: string where "ScopeWorkItemsCreate \<equiv> ''work_items.create''"
abbreviation ScopeFeedRead :: string where "ScopeFeedRead \<equiv> ''feed.read''"
abbreviation ScopeFeedReadAssigned :: string where "ScopeFeedReadAssigned \<equiv> ''feed.read_assigned''"
abbreviation ScopeInboxCapture :: string where "ScopeInboxCapture \<equiv> ''inbox.capture''"
abbreviation ScopePolicyProfileSwitch :: string where "ScopePolicyProfileSwitch \<equiv> ''policy_profile.switch''"
abbreviation ScopeRegistryWrite :: string where "ScopeRegistryWrite \<equiv> ''registry.write''"
abbreviation ScopeApprovalsDecide :: string where "ScopeApprovalsDecide \<equiv> ''approvals.decide''"
abbreviation scopeWorkItemsTreePrefix :: string where "scopeWorkItemsTreePrefix \<equiv> ''work_items.tree:''"

definition ErrDenied :: err where "ErrDenied = Err ''access: denied'' []"

section \<open>Scopes\<close>

definition scopeSet :: "string list \<Rightarrow> string set" where
  "scopeSet scopes = {s \<in> trim_space ` set scopes. s \<noteq> []}"

definition hasScope :: "token \<Rightarrow> string \<Rightarrow> bool" where
  "hasScope actor scope \<longleftrightarrow> list_ex (\<lambda>c. trim_space c = scope) (tok_scopes actor)"

definition legacyUnscoped :: "token \<Rightarrow> bool" where
  "legacyUnscoped actor \<longleftrightarrow> list_all (\<lambda>s. trim_space s = []) (tok_scopes actor)"

fun tree_roots :: "ext \<Rightarrow> string list \<Rightarrow> uuid list" where
  "tree_roots E [] = []"
| "tree_roots E (scope # scopes) =
     (let raw = trim_space scope in
      if \<not> has_prefix raw scopeWorkItemsTreePrefix then tree_roots E scopes
      else case uuid_parse E (trim_prefix raw scopeWorkItemsTreePrefix) of
        Some u \<Rightarrow> if u \<noteq> uuid_nil then u # tree_roots E scopes else tree_roots E scopes
      | None \<Rightarrow> tree_roots E scopes)"

definition workItemTreeRoots :: "ext \<Rightarrow> token \<Rightarrow> uuid list" where
  "workItemTreeRoots E actor = tree_roots E (tok_scopes actor)"

definition hasWorkItemTreeScope :: "ext \<Rightarrow> token \<Rightarrow> bool" where
  "hasWorkItemTreeScope E actor \<longleftrightarrow> workItemTreeRoots E actor \<noteq> []"

definition hasAny :: "string set \<Rightarrow> string list \<Rightarrow> bool" where
  "hasAny scopes candidates \<longleftrightarrow> list_ex (\<lambda>c. c \<in> scopes) candidates"

definition canReadWorkItems :: "string set \<Rightarrow> bool" where
  "canReadWorkItems scopes \<longleftrightarrow> ScopeWorkItemsRead \<in> scopes \<or> ScopeWorkItemsReadAll \<in> scopes \<or>
     ScopeWorkItemsWrite \<in> scopes \<or> ScopeWorkItemsWriteAll \<in> scopes"

definition canWriteWorkItems :: "string set \<Rightarrow> bool" where
  "canWriteWorkItems scopes \<longleftrightarrow> ScopeWorkItemsWrite \<in> scopes \<or> ScopeWorkItemsWriteAll \<in> scopes"

definition RequiresScopedPolicy :: "token \<Rightarrow> bool" where
  "RequiresScopedPolicy actor \<longleftrightarrow> \<not> tok_is_root actor \<and> \<not> legacyUnscoped actor"

section \<open>Tools\<close>

definition registry_define_tools :: "string list" where
  "registry_define_tools =
     [''registry.define_tropism'', ''registry.define_cultivar'', ''projections.define'']"

definition log_read_tools :: "string list" where
  "log_read_tools = [''deterministic_errors.list'', ''deterministic_errors.get'']"

definition tree_read_tools :: "string list" where
  "tree_read_tools = [''backlog.readiness'', ''registry.list'', ''registry.get'',
     ''projections.list'', ''projections.get'', ''work_items.list'', ''work_items.get'',
     ''approvals.get'', ''approvals.list_for_work_item'']"

definition tree_write_tools :: "string list" where
  "tree_write_tools = [''work_items.spawn_child'', ''work_items.append_event'',
     ''work_items.update_metadata'', ''work_items.transition'', ''convergence.propose_checks'',
     ''registry.activate_cultivar'', ''approvals.request'', ''connectors.http_request'']"

definition ToolVisible :: "ext \<Rightarrow> token \<Rightarrow> string \<Rightarrow> bool" where
  "ToolVisible E actor tool =
    (if tool = ''policy_profile.switch'' then
       (if tok_source actor \<noteq> SourceHuman \<or> tok_is_root actor then False
        else if legacyUnscoped actor then True
        else hasScope actor ScopePolicyProfileSwitch)
     else if tool \<in> set registry_define_tools then
       (if tok_is_root actor then False
        else if legacyUnscoped actor then True
        else hasScope actor ScopeRegistryWrite)
     else if tool = ''approvals.decide'' then
       (if tok_source actor \<noteq> SourceHuman \<or> tok_is_root actor then False
        else if legacyUnscoped actor then True
        else hasScope actor ScopeApprovalsDecide)
     else if tok_is_root actor \<or> legacyUnscoped actor then True
     else
       let scopes = scopeSet (tok_scopes actor) in
       if tool = ''inbox.capture''
         then tok_source actor = SourceHuman \<and> ScopeInboxCapture \<in> scopes
       else if tool = ''feed.read''
         then ScopeFeedRead \<in> scopes \<or>
           ScopeFeedReadAssigned \<in> scopes \<and> hasWorkItemTreeScope E actor
       else if tool \<in> set log_read_tools
         then hasAny scopes [''logs.read'', ''logs.read_details'', ''logs.read_restricted'',
           ''logs.read_masked'', ''logs.read_all'']
       else if tool \<in> set tree_read_tools
         then canReadWorkItems scopes \<and> (ScopeWorkItemsReadAll \<in> scopes \<or>
           ScopeWorkItemsWriteAll \<in> scopes \<or> hasWorkItemTreeScope E actor)
       else if tool = ''work_items.create''
         then ScopeWorkItemsCreate \<in> scopes \<or> ScopeWorkItemsWriteAll \<in> scopes
       else if tool \<in> set tree_write_tools
         then ScopeWorkItemsWriteAll \<in> scopes \<or>
           ScopeWorkItemsWrite \<in> scopes \<and> hasWorkItemTreeScope E actor
       else False)"

section \<open>Work items\<close>

definition edges :: "tables \<Rightarrow> (uuid \<times> uuid) list" where
  "edges t = map (\<lambda>r. (rel_parent r, rel_child r)) (t_relations t)"

definition workItemsInAnyTree :: "ext \<Rightarrow> tables \<Rightarrow> token \<Rightarrow> uuid list \<Rightarrow> uuid list" where
  "workItemsInAnyTree E t actor ids =
     (let roots = workItemTreeRoots E actor in
      if roots = [] \<or> ids = [] then []
      else let subtree = reach (edges t) roots in filter (\<lambda>u. u \<in> set subtree) ids)"

definition workItemInAnyTree :: "ext \<Rightarrow> tables \<Rightarrow> token \<Rightarrow> uuid \<Rightarrow> bool" where
  "workItemInAnyTree E t actor u \<longleftrightarrow> u \<in> set (workItemsInAnyTree E t actor [u])"

definition FilterWorkItems ::
  "ext \<Rightarrow> tables \<Rightarrow> token \<Rightarrow> work_item list \<Rightarrow> err + work_item list" where
  "FilterWorkItems E t actor items =
     (if tok_is_root actor \<or> legacyUnscoped actor \<or> hasScope actor ScopeWorkItemsReadAll \<or>
         hasScope actor ScopeWorkItemsWriteAll then Inr items
      else if \<not> canReadWorkItems (scopeSet (tok_scopes actor)) then Inl ErrDenied
      else let visible = workItemsInAnyTree E t actor (map wi_id items) in
        Inr (filter (\<lambda>i. wi_id i \<in> set visible) items))"

definition CanReadWorkItem :: "ext \<Rightarrow> tables \<Rightarrow> token \<Rightarrow> uuid \<Rightarrow> err option" where
  "CanReadWorkItem E t actor u =
     (if tok_is_root actor \<or> legacyUnscoped actor \<or> hasScope actor ScopeWorkItemsReadAll \<or>
         hasScope actor ScopeWorkItemsWriteAll then None
      else if \<not> canReadWorkItems (scopeSet (tok_scopes actor)) then Some ErrDenied
      else if \<not> workItemInAnyTree E t actor u then Some ErrDenied
      else None)"

definition CanCreateWorkItem :: "token \<Rightarrow> err option" where
  "CanCreateWorkItem actor =
     (if tok_is_root actor \<or> legacyUnscoped actor \<or> hasScope actor ScopeWorkItemsCreate \<or>
         hasScope actor ScopeWorkItemsWriteAll then None
      else Some ErrDenied)"

definition CanWriteWorkItem :: "ext \<Rightarrow> tables \<Rightarrow> token \<Rightarrow> uuid \<Rightarrow> err option" where
  "CanWriteWorkItem E t actor u =
     (if tok_is_root actor \<or> legacyUnscoped actor \<or> hasScope actor ScopeWorkItemsWriteAll then None
      else if \<not> canWriteWorkItems (scopeSet (tok_scopes actor)) then Some ErrDenied
      else if \<not> workItemInAnyTree E t actor u then Some ErrDenied
      else None)"

section \<open>The feed\<close>

definition two_uuids :: "ext \<Rightarrow> json \<Rightarrow> string \<Rightarrow> string \<Rightarrow> uuid list" where
  "two_uuids E payload k1 k2 =
     (if \<not> jobject payload then []
      else case (juuid E (jget payload k1), juuid E (jget payload k2)) of
        (Inr a, Inr b) \<Rightarrow>
          (if a \<noteq> uuid_nil then [a] else []) @ (if b \<noteq> uuid_nil then [b] else [])
      | _ \<Rightarrow> [])"

definition payloadWorkItemIDs :: "ext \<Rightarrow> event \<Rightarrow> uuid list" where
  "payloadWorkItemIDs E item =
     two_uuids E (ev_payload item) ''work_item_id'' ''human_work_item_id''"

definition relationIDs :: "ext \<Rightarrow> event \<Rightarrow> uuid list" where
  "relationIDs E item =
     ev_subject_id item # two_uuids E (ev_payload item) ''parent_id'' ''child_id''"

definition payload_anchored_kinds :: "string list" where
  "payload_anchored_kinds =
     [EventMessageCaptured, EventSignalReceived, EventEscalationRequested,
      EventSubactorGrantRequested, EventSubactorGrantGranted, EventSubactorGrantDenied,
      EventSubactorGrantEscalated, EventCultivarActivationRequested,
      EventCultivarActivationGranted, EventCultivarActivationDenied,
      EventCultivarActivationEscalated, EventApprovalCreated, EventApprovalDecided,
      EventApprovalExpired, EventHTTPConnectorActionRequested,
      EventHTTPConnectorActionApproved, EventHTTPConnectorActionSent]"

definition feedItemAnchors :: "ext \<Rightarrow> event \<Rightarrow> uuid list" where
  "feedItemAnchors E item =
     (let kind = ev_kind item in
      if kind = EventWorkItemRelationAdded then relationIDs E item
      else if kind = EventConvergenceChecksProposed then [ev_subject_id item]
      else if kind = EventConvergenceVerdictRecorded then [ev_subject_id item]
      else if kind \<in> set payload_anchored_kinds then payloadWorkItemIDs E item
      else if kind = EventTropismDefined \<or> kind = EventCultivarDefined \<or>
        kind = EventProjectionDefined then []
      else if ev_subject_kind item = SubjectWorkItem then [ev_subject_id item]
      else [])"

definition FilterFeedItems ::
  "ext \<Rightarrow> tables \<Rightarrow> token \<Rightarrow> event list \<Rightarrow> err + event list" where
  "FilterFeedItems E t actor items =
     (if tok_is_root actor \<or> legacyUnscoped actor \<or> hasScope actor ScopeFeedRead then Inr items
      else if \<not> hasScope actor ScopeFeedReadAssigned then Inl ErrDenied
      else
        let visible = workItemsInAnyTree E t actor (concat (map (feedItemAnchors E) items)) in
        Inr (filter (\<lambda>i. list_ex (\<lambda>u. u \<in> set visible) (feedItemAnchors E i)) items))"

section \<open>The specification: trees, unrestricted tokens, implied rights\<close>

definition in_tree :: "ext \<Rightarrow> tables \<Rightarrow> token \<Rightarrow> uuid \<Rightarrow> bool" where
  "in_tree E t actor u \<longleftrightarrow>
     u \<in> (set (edges t))\<^sup>* `` set (workItemTreeRoots E actor)"

lemma workItemsInAnyTree_set:
  "set (workItemsInAnyTree E t actor ids) = {u \<in> set ids. in_tree E t actor u}"
  by (auto simp: workItemsInAnyTree_def in_tree_def set_reach Let_def)

lemma workItemInAnyTree_iff [simp]: "workItemInAnyTree E t actor u \<longleftrightarrow> in_tree E t actor u"
  by (simp add: workItemInAnyTree_def workItemsInAnyTree_set)

lemma hasScope_scopeSet: "s \<noteq> [] \<Longrightarrow> hasScope actor s \<longleftrightarrow> s \<in> scopeSet (tok_scopes actor)"
  by (auto simp: hasScope_def scopeSet_def list_ex_iff)

lemma in_tree_mono:
  "in_tree E t actor u \<Longrightarrow> set (edges t) \<subseteq> set (edges t') \<Longrightarrow>
   set (workItemTreeRoots E actor) \<subseteq> set (workItemTreeRoots E actor') \<Longrightarrow> in_tree E t' actor' u"
  unfolding in_tree_def using rtrancl_mono [of "set (edges t)" "set (edges t')"] by blast

lemma in_tree_child: "in_tree E t actor u \<Longrightarrow> (u, v) \<in> set (edges t) \<Longrightarrow> in_tree E t actor v"
  unfolding in_tree_def by (meson Image_iff rtrancl_into_rtrancl)

text \<open>Tokens that no tree restricts when reading, or when writing.\<close>

definition reads_all :: "token \<Rightarrow> bool" where
  "reads_all actor \<longleftrightarrow> tok_is_root actor \<or> legacyUnscoped actor \<or>
     hasScope actor ScopeWorkItemsReadAll \<or> hasScope actor ScopeWorkItemsWriteAll"

definition writes_all :: "token \<Rightarrow> bool" where
  "writes_all actor \<longleftrightarrow> tok_is_root actor \<or> legacyUnscoped actor \<or>
     hasScope actor ScopeWorkItemsWriteAll"

lemma CanReadWorkItem_None:
  "CanReadWorkItem E t actor u = None \<longleftrightarrow> reads_all actor \<or>
     (hasScope actor ScopeWorkItemsRead \<or> hasScope actor ScopeWorkItemsWrite) \<and> in_tree E t actor u"
  by (auto simp: CanReadWorkItem_def reads_all_def canReadWorkItems_def hasScope_scopeSet)

lemma CanWriteWorkItem_None:
  "CanWriteWorkItem E t actor u = None \<longleftrightarrow> writes_all actor \<or>
     hasScope actor ScopeWorkItemsWrite \<and> in_tree E t actor u"
  by (auto simp: CanWriteWorkItem_def writes_all_def canWriteWorkItems_def hasScope_scopeSet)

lemma write_implies_read:
  "CanWriteWorkItem E t actor u = None \<Longrightarrow> CanReadWorkItem E t actor u = None"
  by (auto simp: CanReadWorkItem_None CanWriteWorkItem_None reads_all_def writes_all_def)

lemma FilterWorkItems_pointwise:
  assumes "FilterWorkItems E t actor items = Inr out"
  shows "out = filter (\<lambda>i. CanReadWorkItem E t actor (wi_id i) = None) items"
  using assms
  by (auto simp: FilterWorkItems_def CanReadWorkItem_def Let_def workItemsInAnyTree_set
      split: if_splits intro: filter_cong)

lemma FilterWorkItems_denied:
  "FilterWorkItems E t actor items = Inl e \<longleftrightarrow>
     e = ErrDenied \<and> \<not> reads_all actor \<and>
     \<not> hasScope actor ScopeWorkItemsRead \<and> \<not> hasScope actor ScopeWorkItemsWrite"
  by (auto simp: FilterWorkItems_def reads_all_def Let_def canReadWorkItems_def hasScope_scopeSet)

lemma FilterFeedItems_pointwise:
  assumes "FilterFeedItems E t actor items = Inr out"
  shows "out = filter (\<lambda>i. tok_is_root actor \<or> legacyUnscoped actor \<or> hasScope actor ScopeFeedRead \<or>
    (\<exists>u \<in> set (feedItemAnchors E i). in_tree E t actor u)) items"
  using assms
  by (auto simp: FilterFeedItems_def Let_def workItemsInAnyTree_set list_ex_iff
      split: if_splits intro!: filter_cong)

lemma ToolVisible_human_only:
  "tool \<in> {''policy_profile.switch'', ''approvals.decide''} \<Longrightarrow> ToolVisible E actor tool \<Longrightarrow>
   tok_source actor = SourceHuman \<and> \<not> tok_is_root actor"
  by (auto simp: ToolVisible_def registry_define_tools_def split: if_splits)

section \<open>Properties\<close>

text \<open>
  Reading a work item is allowed to exactly the unrestricted tokens and, with a read or
  write scope, to the tokens one of whose tree roots is an ancestor of the item (or the item
  itself) in the graph of relations; every other request is denied.
\<close>

theorem read_access:
  "CanReadWorkItem E t actor u =
     (if tok_is_root actor \<or> legacyUnscoped actor \<or> hasScope actor ScopeWorkItemsReadAll \<or>
         hasScope actor ScopeWorkItemsWriteAll \<or>
         (hasScope actor ScopeWorkItemsRead \<or> hasScope actor ScopeWorkItemsWrite) \<and>
         (\<exists>root \<in> set (workItemTreeRoots E actor). (root, u) \<in> (set (edges t))\<^sup>*)
      then None else Some ErrDenied)"
proof (cases "CanReadWorkItem E t actor u")
  case None
  then show ?thesis
    using CanReadWorkItem_None [of E t actor u] by (auto simp: reads_all_def in_tree_def Image_iff)
next
  case (Some e)
  then have "e = ErrDenied" by (auto simp: CanReadWorkItem_def split: if_splits)
  with Some show ?thesis
    using CanReadWorkItem_None [of E t actor u] by (auto simp: reads_all_def in_tree_def Image_iff)
qed

text \<open>
  C9: The list endpoint shows exactly the items that the single-item check lets the same token
  read, in the order of the list; it fails only for tokens without any right to read.
\<close>

theorem list_agrees_with_get:
  "FilterWorkItems E t actor items =
     (if reads_all actor \<or> hasScope actor ScopeWorkItemsRead \<or> hasScope actor ScopeWorkItemsWrite
      then Inr (filter (\<lambda>i. CanReadWorkItem E t actor (wi_id i) = None) items) else Inl ErrDenied)"
  using FilterWorkItems_pointwise [of E t actor items] FilterWorkItems_denied [of E t actor items]
  by (cases "FilterWorkItems E t actor items") auto

text \<open>
  The right to write an item includes the right to read it and to write every descendant of
  it, and neither right is lost when relations are added.
\<close>

theorem write_access_is_hereditary:
  assumes "CanWriteWorkItem E t actor u = None" "(u, v) \<in> (set (edges t))\<^sup>*"
    and "set (edges t) \<subseteq> set (edges t')"
  shows "CanReadWorkItem E t' actor v = None \<and> CanWriteWorkItem E t' actor v = None"
proof -
  have "in_tree E t actor u \<Longrightarrow> in_tree E t' actor v"
    using assms(2,3) rtrancl_mono [OF assms(3)]
    unfolding in_tree_def Image_iff by (meson rtrancl_trans subsetD)
  then have "CanWriteWorkItem E t' actor v = None"
    using assms(1) by (auto simp: CanWriteWorkItem_None)
  then show ?thesis by (simp add: write_implies_read)
qed

text \<open>
  The assigned feed shows a restricted token exactly the events anchored to a work item in
  one of its trees.
\<close>

theorem assigned_feed_shows_own_trees:
  assumes "FilterFeedItems E t actor items = Inr out"
    and "RequiresScopedPolicy actor" "\<not> hasScope actor ScopeFeedRead"
  shows "out = filter (\<lambda>i. \<exists>u \<in> set (feedItemAnchors E i).
    \<exists>root \<in> set (workItemTreeRoots E actor). (root, u) \<in> (set (edges t))\<^sup>*) items"
  using FilterFeedItems_pointwise [OF assms(1)] assms(2,3)
  by (simp add: RequiresScopedPolicy_def in_tree_def Image_iff)

definition agent9 :: token where
  "agent9 = \<lparr>tok_id = 9, tok_name = ''agent'', tok_hash = [], tok_is_root = False,
     tok_scopes = [''work_items.write'', ''feed.read_assigned'', ''work_items.tree:7''],
     tok_source = SourceAgent, tok_created_at = 0, tok_revoked_at = None\<rparr>"

definition tree78 :: tables where
  "tree78 = no_tables\<lparr>t_relations := [\<lparr>rel_parent = 7, rel_child = 8, rel_created_at = 1\<rparr>]\<rparr>"

theorem write_access_is_hereditary_witness:
  "CanReadWorkItem decimal_ext tree78 agent9 8 = None \<and> CanWriteWorkItem decimal_ext tree78 agent9 8 = None"
proof (rule write_access_is_hereditary)
  show "CanWriteWorkItem decimal_ext tree78 agent9 7 = None" by code_simp
  have "(7, 8) \<in> set (edges tree78)" by code_simp
  then show "(7, 8) \<in> (set (edges tree78))\<^sup>*" ..
qed simp

theorem assigned_feed_shows_own_trees_witness:
  "[event_of 5 4 created_spec] = filter (\<lambda>i. \<exists>u \<in> set (feedItemAnchors decimal_ext i).
    \<exists>root \<in> set (workItemTreeRoots decimal_ext agent9). (root, u) \<in> (set (edges tree78))\<^sup>*)
    [event_of 5 4 created_spec]"
  by (rule assigned_feed_shows_own_trees) code_simp+

end
