(* ===== verification/Workitems.thy ===== *)
theory Workitems
  imports Frames Access
begin

text \<open>
  internal/workitems/service.go: creation, child spawning, metadata, transitions and progress
  events of work items, under the xylem budgets (children per item, running items per token,
  events per item, hour and class).  An operation takes the clock, the database and the
  discriminator of its request, and returns its result with the database it committed: an
  exhausted budget commits the escalation and still returns an error.  The ids that
  newSubjectID draws are arguments.
\<close>

abbreviation ErrNotFound :: err where "ErrNotFound \<equiv> Err ''workitems: not found'' []"
definition ErrInvalidState :: string where "ErrInvalidState = ''workitems: invalid state''"
definition ErrInvalidTransition :: string where
  "ErrInvalidTransition = ''workitems: invalid transition''"
definition ErrRelationCycle :: err where
  "ErrRelationCycle = Err ''workitems: relation would create a cycle'' []"
definition ErrConvergenceChecksRequired :: string where
  "ErrConvergenceChecksRequired = ''workitems: convergence checks required''"
definition ErrUnexpectedEventDedupe :: string where
  "ErrUnexpectedEventDedupe = ''workitems: unexpected_event_dedupe: identical event already exists; if this is a distinct action, retry through the idempotency contract''"
definition ErrXylemBudgetExhausted :: string where
  "ErrXylemBudgetExhausted = ''workitems: xylem budget exhausted''"

record create_input =
  ci_title :: string
  ci_body :: string
  ci_actor :: token
  ci_state :: string
  ci_checks :: "string list"
  ci_human_review :: string
  ci_cultivar :: string
  ci_patience_seconds :: int
  ci_escalation_rule :: string

text \<open>A failed operation rolls its transaction back.\<close>

type_synonym 'a outcome = "(err + 'a) \<times> db"

definition rollback :: "db \<Rightarrow> err + 'a outcome \<Rightarrow> 'a outcome" where
  "rollback st r = (case r of Inl e \<Rightarrow> (Inl e, st) | Inr out \<Rightarrow> out)"

definition append_event :: "ext \<Rightarrow> time \<Rightarrow> spec \<Rightarrow> db \<Rightarrow> err + db" where
  "append_event E now s st = map_sum id (\<lambda>(_, _, st'). st') (app_append E now st s)"

definition work_item_spec :: "uuid \<Rightarrow> string \<Rightarrow> token \<Rightarrow> string \<Rightarrow> json \<Rightarrow> spec" where
  "work_item_spec wid kind actor disc payload =
     \<lparr>sp_subject_kind = SubjectWorkItem, sp_subject_id = wid, sp_kind = kind,
      sp_source = sourceForActor actor, sp_actor = Some (tok_id actor), sp_payload = payload,
      sp_discriminator = disc\<rparr>"

definition jstrs :: "string list \<Rightarrow> json" where
  "jstrs ss = JArr (map JStr ss)"

definition get_work_item :: "db \<Rightarrow> uuid \<Rightarrow> err + work_item" where
  "get_work_item st wid = (case get_row wi_id wid (t_work_items (proj st)) of
     Some w \<Rightarrow> Inr w | None \<Rightarrow> Inl ErrNotFound)"

section \<open>Launch metadata and budgets\<close>

text \<open>ORDER BY occurred_at ASC LIMIT 1, the first row of the log among equal times.\<close>

definition earliest_event :: "event list \<Rightarrow> event option" where
  "earliest_event evs = fold (\<lambda>e best. case best of
     None \<Rightarrow> Some e
   | Some b \<Rightarrow> if ev_occurred_at e < ev_occurred_at b then Some e else Some b) evs None"

definition is_event :: "string \<Rightarrow> uuid \<Rightarrow> string \<Rightarrow> event \<Rightarrow> bool" where
  "is_event subject_kind subject_id kind e \<longleftrightarrow>
     ev_subject_kind e = subject_kind \<and> ev_subject_id e = subject_id \<and> ev_kind e = kind"

definition workItemLaunchMetadata :: "db \<Rightarrow> uuid \<Rightarrow> err + string \<times> string" where
  "workItemLaunchMetadata st wid =
     (case earliest_event (filter (is_event SubjectWorkItem wid EventWorkItemCreated) (log st)) of
        None \<Rightarrow> Inr ([], [])
      | Some e \<Rightarrow>
          bind_err (guard_err (jobject (ev_payload e)) ErrDecode) (\<lambda>_.
          bind_err (jstring (jget (ev_payload e) ''cultivar'')) (\<lambda>cultivar.
          bind_err (jstring (jget (ev_payload e) ''escalation_rule'')) (\<lambda>rule.
          Inr (trim_space cultivar, rule)))))"

record xylem_budget =
  xb_max :: int
  xb_source :: string
  xb_cultivar :: string
  xb_rule :: string

definition launch_rule :: "string \<Rightarrow> err + string" where
  "launch_rule rule0 =
     (let rule = (if rule0 = [] then EscalationRuleHandToHuman else rule0) in
      if \<not> escalation_rule_valid rule
      then Inl (Err ErrInvalidRequest ('': invalid escalation_rule '' @ quote rule))
      else Inr rule)"

definition cultivar_override :: "db \<Rightarrow> string \<Rightarrow> (xylem \<Rightarrow> int) \<Rightarrow> xylem_budget \<Rightarrow> err + xylem_budget" where
  "cultivar_override st ref sel b =
     (if ref = [] then Inr b
      else bind_err (GetCultivarRef st ref) (\<lambda>c.
        let name = cu_name c @ ''@'' @ itoa (cu_version c) in
        Inr (if sel (cu_xylem c) > 0
          then b\<lparr>xb_cultivar := name, xb_max := sel (cu_xylem c), xb_source := ''cultivar:'' @ name\<rparr>
          else b\<lparr>xb_cultivar := name\<rparr>)))"

definition resolveChildCountBudget :: "db \<Rightarrow> uuid \<Rightarrow> err + xylem_budget" where
  "resolveChildCountBudget st parentID =
     bind_err (workItemLaunchMetadata st parentID) (\<lambda>(cultivar, rule0).
     bind_err (launch_rule rule0) (\<lambda>rule.
     cultivar_override st cultivar xy_max_children
       \<lparr>xb_max = po_max_children DefaultPolicy, xb_source = ''safety_policy'', xb_cultivar = [],
        xb_rule = rule\<rparr>))"

definition resolveConcurrentRunningBudget :: "db \<Rightarrow> uuid \<Rightarrow> err + xylem_budget" where
  "resolveConcurrentRunningBudget st wid =
     bind_err (workItemLaunchMetadata st wid) (\<lambda>(cultivar, rule0).
     bind_err (launch_rule rule0) (\<lambda>rule.
     cultivar_override st cultivar xy_max_running
       \<lparr>xb_max = po_max_running DefaultPolicy, xb_source = ''safety_policy'', xb_cultivar = [],
        xb_rule = rule\<rparr>))"

definition resolveEventRateBudget :: "db \<Rightarrow> uuid \<Rightarrow> string \<Rightarrow> err + xylem_budget" where
  "resolveEventRateBudget st wid class =
     bind_err (workItemLaunchMetadata st wid) (\<lambda>(cultivar, rule0).
     bind_err (launch_rule rule0) (\<lambda>rule.
     let m = map_int (case po_max_events DefaultPolicy of None \<Rightarrow> [] | Some bs \<Rightarrow> bs) class in
     if m \<le> 0
     then Inl (Err [] (''workitems: missing safety fallback for taxonomy class '' @ quote class))
     else cultivar_override st cultivar (\<lambda>x. map_int (xy_max_events x) class)
       \<lparr>xb_max = m, xb_source = ''safety_policy'', xb_cultivar = [], xb_rule = rule\<rparr>))"

definition countedChildCount :: "ext \<Rightarrow> db \<Rightarrow> uuid \<Rightarrow> int" where
  "countedChildCount E st parentID = int (length (filter
     (\<lambda>r. rel_parent r = parentID \<and>
       \<not> list_ex (\<lambda>e. ev_kind e = EventEscalationRequested \<and>
           jtext (ev_payload e) ''work_item_id'' = Some (uuid_string E parentID) \<and>
           jtext (ev_payload e) ''human_work_item_id'' = Some (uuid_string E (rel_child r))) (log st))
     (t_relations (proj st))))"

definition countedEventsInLastHourByClass :: "db \<Rightarrow> time \<Rightarrow> uuid \<Rightarrow> string \<Rightarrow> int" where
  "countedEventsInLastHourByClass st now wid class = int (length (filter
     (\<lambda>e. ev_subject_kind e = SubjectWorkItem \<and> ev_subject_id e = wid \<and>
       ev_occurred_at e \<ge> now - hour \<and> ClassifyItem e = Some class) (log st)))"

definition entered_running :: "work_item \<Rightarrow> event \<Rightarrow> bool" where
  "entered_running w e \<longleftrightarrow>
     ev_subject_kind e = SubjectWorkItem \<and> ev_subject_id e = wi_id w \<and>
     ev_occurred_at e = wi_state_entered_at w \<and>
     (ev_kind e = EventWorkItemCreated \<and>
        (case jtext (ev_payload e) ''state'' of None \<Rightarrow> WorkItemCaptured | Some s \<Rightarrow> s) = WorkItemRunning \<or>
      ev_kind e = EventWorkItemTransitioned \<and> jtext (ev_payload e) ''to'' = Some WorkItemRunning)"

definition runningCountForActor :: "db \<Rightarrow> uuid \<Rightarrow> uuid \<Rightarrow> int" where
  "runningCountForActor st excluding actorID = int (length (filter
     (\<lambda>w. wi_state w = WorkItemRunning \<and> wi_id w \<noteq> excluding \<and>
       (case find (entered_running w) (log st) of
          None \<Rightarrow> False
        | Some e \<Rightarrow> ev_actor e = Some actorID))
     (t_work_items (proj st))))"

definition lockActorToken :: "db \<Rightarrow> uuid \<Rightarrow> err + unit" where
  "lockActorToken st actorID =
     (if actorID = uuid_nil then Inl (Err [] ''workitems: actor token id is required for max_concurrent_running_items_per_token'')
      else if actorID \<notin> tok_id ` set (t_tokens (proj st))
        then Inl (Err [] ''workitems: actor token not found for max_concurrent_running_items_per_token'')
      else Inr ())"

section \<open>Escalation of an exhausted budget\<close>

definition deterministicEscalationID :: "ext \<Rightarrow> uuid \<Rightarrow> string \<Rightarrow> string \<Rightarrow> uuid" where
  "deterministicEscalationID E wid reason summary = uuid_sha1 E NameSpaceURL
     (join [CHR 0x00] [''meristem'', ''escalation'', uuid_string E wid, reason, summary])"

definition deterministicHumanWorkItemID :: "ext \<Rightarrow> uuid \<Rightarrow> uuid" where
  "deterministicHumanWorkItemID E escalationID = uuid_sha1 E NameSpaceURL
     (join [CHR 0x00] [''meristem'', ''escalation'', ''human-work-item'', uuid_string E escalationID])"

definition newlines :: "string" where "newlines = [CHR 0x0A, CHR 0x0A]"

definition humanWorkItemBody :: "ext \<Rightarrow> work_item \<Rightarrow> string \<Rightarrow> string \<Rightarrow> string" where
  "humanWorkItemBody E parent reason summary =
     ''Escalation requested for work_item '' @ uuid_string E (wi_id parent) @ ''.'' @ newlines @
     ''Reason: '' @ reason @ newlines @
     (if summary \<noteq> reason then ''Summary: '' @ summary @ newlines else []) @
     ''Respond by appending a human decision or by moving the original work_item out of blocked once resolved.''"

definition escalationExists :: "db \<Rightarrow> uuid \<Rightarrow> bool" where
  "escalationExists st escalationID \<longleftrightarrow>
     list_ex (is_event SubjectEscalation escalationID EventEscalationRequested) (log st)"

definition metadata_json :: "string list \<Rightarrow> string \<Rightarrow> json" where
  "metadata_json checks review = JObj [(''suggested_convergence_checks'', jstrs checks),
     (''human_review_status'', JStr review)]"

definition transition_json :: "string \<Rightarrow> string \<Rightarrow> string \<Rightarrow> json" where
  "transition_json frm dest reason =
     JObj [(''from'', JStr frm), (''to'', JStr dest), (''reason'', JStr reason)]"

definition escalation_json :: "ext \<Rightarrow> work_item \<Rightarrow> uuid \<Rightarrow> string \<Rightarrow> string \<Rightarrow> json" where
  "escalation_json E parent humanID reason summary =
     JObj [(''work_item_id'', juid E (wi_id parent)), (''human_work_item_id'', juid E humanID),
       (''reason'', JStr reason), (''summary'', JStr summary),
       (''origin_state'', JStr (wi_state parent)),
       (''origin_state_reason'', case wi_state_reason parent of None \<Rightarrow> JNull | Some r \<Rightarrow> JStr r)]"

definition human_item_json :: "ext \<Rightarrow> work_item \<Rightarrow> string \<Rightarrow> string \<Rightarrow> json" where
  "human_item_json E parent reason summary =
     JObj [(''title'', JStr (''Human attention: '' @ wi_title parent)),
       (''body'', JStr (humanWorkItemBody E parent reason summary)),
       (''state'', JStr WorkItemCaptured),
       (''suggested_convergence_checks'', jstrs [''human_response_recorded'']),
       (''human_review_status'', JStr HumanReviewBlocked)]"

definition relation_json :: "ext \<Rightarrow> uuid \<Rightarrow> uuid \<Rightarrow> json" where
  "relation_json E parent child = JObj [(''parent_id'', juid E parent), (''child_id'', juid E child)]"

definition requestXylemEscalationInTx ::
  "ext \<Rightarrow> time \<Rightarrow> db \<Rightarrow> work_item \<Rightarrow> string \<Rightarrow> string \<Rightarrow> token \<Rightarrow> err + db"
where
  "requestXylemEscalationInTx E now st parent reason summary actor =
     (let escalationID = deterministicEscalationID E (wi_id parent) reason summary;
          humanID = deterministicHumanWorkItemID E escalationID in
      if escalationExists st escalationID then Inr st
      else
        bind_err (append_event E now \<lparr>sp_subject_kind = SubjectEscalation,
          sp_subject_id = escalationID, sp_kind = EventEscalationRequested,
          sp_source = sourceForActor actor, sp_actor = Some (tok_id actor),
          sp_payload = escalation_json E parent humanID reason summary,
          sp_discriminator = []\<rparr> st) (\<lambda>st1.
        bind_err (append_event E now (work_item_spec humanID EventWorkItemCreated actor []
          (human_item_json E parent reason summary)) st1) (\<lambda>st2.
        bind_err (append_event E now (work_item_spec (wi_id parent) EventWorkItemRelationAdded actor []
          (relation_json E (wi_id parent) humanID)) st2) (\<lambda>st3.
        bind_err (append_event E now (work_item_spec (wi_id parent) EventWorkItemMetadataUpdated actor []
          (JObj [(''from'', metadata_json (wi_checks parent) (wi_human_review parent)),
             (''to'', metadata_json (wi_checks parent) HumanReviewBlocked)])) st3) (\<lambda>st4.
        if wi_state parent \<noteq> WorkItemBlocked
        then append_event E now (work_item_spec (wi_id parent) EventWorkItemTransitioned actor []
          (transition_json (wi_state parent) WorkItemBlocked
             (''human escalation requested: '' @ reason))) st4
        else Inr st4)))))"

text \<open>
  An exhausted budget is recorded, escalated by its rule and reported: Some error with the
  database to commit; None when the budget is not exhausted.
\<close>

definition exhaust ::
  "ext \<Rightarrow> time \<Rightarrow> db \<Rightarrow> work_item \<Rightarrow> token \<Rightarrow> xylem_budget \<Rightarrow> json \<Rightarrow> string \<Rightarrow> string \<Rightarrow> string \<Rightarrow>
   err + err option \<times> db"
where
  "exhaust E now st item actor b payload reason summary msg =
     bind_err (append_event E now (work_item_spec (wi_id item) EventXylemExhausted actor [] payload) st) (\<lambda>st1.
     bind_err (guard_err (xb_rule b = EscalationRuleHandToHuman)
       (Err [] (''workitems: unknown escalation rule '' @ quote (xb_rule b)))) (\<lambda>_.
     bind_err (requestXylemEscalationInTx E now st1 item reason summary actor) (\<lambda>st2.
     Inr (Some (Err ErrXylemBudgetExhausted msg), st2))))"

definition budget_text :: "string \<Rightarrow> int \<Rightarrow> xylem_budget \<Rightarrow> string" where
  "budget_text counter current b = counter @ ''='' @ itoa current @ '' max='' @ itoa (xb_max b) @
     '' source='' @ xb_source b"

definition item_text :: "ext \<Rightarrow> work_item \<Rightarrow> string" where
  "item_text E w = ''Work item '' @ uuid_string E (wi_id w) @ '' ('' @ wi_title w @ '')''"

definition budget_fields :: "xylem_budget \<Rightarrow> (string \<times> json) list" where
  "budget_fields b = [(''budget_source'', JStr (xb_source b)), (''cultivar'', JStr (xb_cultivar b)),
     (''escalation_rule'', JStr (xb_rule b))]"

definition enforceChildCountBudget ::
  "ext \<Rightarrow> time \<Rightarrow> db \<Rightarrow> work_item \<Rightarrow> uuid \<Rightarrow> create_input \<Rightarrow> err + err option \<times> db"
where
  "enforceChildCountBudget E now st parent childID inp =
     bind_err (resolveChildCountBudget st (wi_id parent)) (\<lambda>b.
     let current = countedChildCount E st (wi_id parent) in
     if current < xb_max b then Inr (None, st)
     else exhaust E now st parent (ci_actor inp) b
       (JObj ([(''budget'', JStr ''max_children_per_item''), (''current_children'', jint current),
          (''max_children_per_item'', jint (xb_max b))] @ budget_fields b @
         [(''attempted_child_id'', juid E childID), (''attempted_child_title'', JStr (ci_title inp)),
          (''parent_state'', JStr (wi_state parent)),
          (''count_excludes'', jstrs [''human_attention_escalation_children''])]))
       ''xylem budget exhausted: max_children_per_item''
       (item_text E parent @ '' exhausted max_children_per_item: '' @
          budget_text ''current_children'' current b)
       ('': max_children_per_item exhausted for parent '' @ uuid_string E (wi_id parent) @ '': '' @
          budget_text ''current_children'' current b))"

definition enforceConcurrentRunningBudget ::
  "ext \<Rightarrow> time \<Rightarrow> db \<Rightarrow> work_item \<Rightarrow> token \<Rightarrow> err + err option \<times> db"
where
  "enforceConcurrentRunningBudget E now st item actor =
     bind_err (lockActorToken st (tok_id actor)) (\<lambda>_.
     bind_err (resolveConcurrentRunningBudget st (wi_id item)) (\<lambda>b.
     let current = runningCountForActor st (wi_id item) (tok_id actor);
         who = ''actor token '' @ uuid_string E (tok_id actor) in
     if current < xb_max b then Inr (None, st)
     else exhaust E now st item actor b
       (JObj ([(''budget'', JStr ''max_concurrent_running_items_per_token''),
          (''current_running'', jint current),
          (''max_concurrent_running_items_per_token'', jint (xb_max b))] @ budget_fields b @
         [(''actor_token_id'', juid E (tok_id actor)), (''attempted_state'', JStr WorkItemRunning),
          (''work_item_state'', JStr (wi_state item)),
          (''count_scope'', JStr ''same_actor_token_current_running_epoch'')]))
       ''xylem budget exhausted: max_concurrent_running_items_per_token''
       (item_text E item @ '' exhausted max_concurrent_running_items_per_token for '' @ who @ '': '' @
          budget_text ''current_running'' current b)
       ('': max_concurrent_running_items_per_token exhausted for '' @ who @ '': '' @
          budget_text ''current_running'' current b)))"

definition enforceEventRateBudget ::
  "ext \<Rightarrow> time \<Rightarrow> db \<Rightarrow> work_item \<Rightarrow> uuid \<Rightarrow> string \<Rightarrow> string \<Rightarrow> string \<Rightarrow> token \<Rightarrow> err + err option \<times> db"
where
  "enforceEventRateBudget E now st item eventID kind innerKind class actor =
     bind_err (resolveEventRateBudget st (wi_id item) class) (\<lambda>b.
     let current = countedEventsInLastHourByClass st now (wi_id item) class in
     if current < xb_max b then Inr (None, st)
     else exhaust E now st item actor b
       (JObj ([(''budget'', JStr ''max_events_per_item_per_hour_by_class''),
          (''taxonomy_class'', JStr class), (''current_events'', jint current),
          (''max_events_per_item_per_hour'', jint (xb_max b)), (''window_seconds'', jint 3600)] @
         budget_fields b @
         [(''attempted_event_id'', juid E eventID), (''attempted_event_kind'', JStr kind),
          (''attempted_inner_kind'', JStr innerKind), (''actor_token_id'', juid E (tok_id actor)),
          (''work_item_state'', JStr (wi_state item)),
          (''count_scope'', JStr ''same_work_item_same_taxonomy_class_last_hour'')]))
       (''xylem budget exhausted: max_events_per_item_per_hour_by_class:'' @ class)
       (item_text E item @ '' exhausted max_events_per_item_per_hour_by_class for class '' @ class @
          '': current_events='' @ itoa current @ '' max='' @ itoa (xb_max b) @
          '' window_seconds=3600 source='' @ xb_source b)
       ('': max_events_per_item_per_hour_by_class exhausted for work item '' @
          uuid_string E (wi_id item) @ '' class '' @ class @ '': '' @
          budget_text ''current_events'' current b))"

definition appendWorkItemEventWithRateBudget ::
  "ext \<Rightarrow> time \<Rightarrow> db \<Rightarrow> work_item \<Rightarrow> spec \<Rightarrow> string \<Rightarrow> token \<Rightarrow> err + err option \<times> db"
where
  "appendWorkItemEventWithRateBudget E now st item s innerKind actor =
     bind_err (DeterministicID E s) (\<lambda>eventID.
     if eventID \<in> ev_id ` set (log st) then
       (if sp_discriminator s = []
        then Inl (Err ErrUnexpectedEventDedupe ('': kind='' @ sp_kind s @ '' subject='' @
          uuid_string E (sp_subject_id s)))
        else Inr (None, st))
     else case ClassifyEvent (sp_kind s) (sp_payload s) of
       None \<Rightarrow> Inl (Err [] (''workitems: classify event kind '' @ quote (sp_kind s) @
         '' for xylem budget''))
     | Some class \<Rightarrow>
         bind_err (enforceEventRateBudget E now st item eventID (sp_kind s) innerKind class actor)
           (\<lambda>(exhausted, st1). case exhausted of
              Some e \<Rightarrow> Inr (Some e, st1)
            | None \<Rightarrow> map_sum id (\<lambda>st2. (None, st2)) (append_event E now s st1)))"

section \<open>Operations\<close>

definition normalizeEscalationRule :: "string \<Rightarrow> err + string" where
  "normalizeEscalationRule rule =
     (if rule = [] then Inr []
      else if \<not> escalation_rule_valid rule
        then Inl (Err ErrInvalidRequest ('': invalid escalation_rule '' @ quote rule))
      else Inr rule)"

definition buildCreatedPayload ::
  "db \<Rightarrow> create_input \<Rightarrow> string \<Rightarrow> string list \<Rightarrow> string \<Rightarrow> err + json" where
  "buildCreatedPayload st inp state checks review =
     (let ref = trim_space (ci_cultivar inp) in
     bind_err (if ref = [] then Inr []
       else bind_err (GetCultivarRef st ref) (\<lambda>c.
         Inr [(''cultivar'', JStr (cu_name c @ ''@'' @ itoa (cu_version c)))])) (\<lambda>cultivar.
     bind_err (guard_err (ci_patience_seconds inp \<ge> 0)
       (Err ErrInvalidRequest '': patience_budget_seconds must be >= 0'')) (\<lambda>_.
     bind_err (guard_err (ci_patience_seconds inp \<le> MaxPatienceBudget div second)
       (Err ErrInvalidRequest '': patience_budget_seconds exceeds the finite cap; bounded patience admits no effectively-infinite budget'')) (\<lambda>_.
     bind_err (normalizeEscalationRule (ci_escalation_rule inp)) (\<lambda>rule.
     Inr (JObj ([(''title'', JStr (ci_title inp)), (''body'', JStr (ci_body inp)),
         (''state'', JStr state), (''suggested_convergence_checks'', jstrs checks),
         (''human_review_status'', JStr review)] @ cultivar @
        (if ci_patience_seconds inp > 0
         then [(''patience_budget_seconds'', jint (ci_patience_seconds inp))] else []) @
        (if rule \<noteq> [] then [(''escalation_rule'', JStr rule)] else []))))))))"

text \<open>The checks with which Create and SpawnChildWithID start.\<close>

definition prepare_create :: "db \<Rightarrow> create_input \<Rightarrow> err + json" where
  "prepare_create st inp =
     bind_err (guard_err (trim_space (ci_title inp) \<noteq> [])
       (Err ErrInvalidRequest '': title is required'')) (\<lambda>_.
     let state = (if ci_state inp = [] then WorkItemCaptured else ci_state inp) in
     bind_err (guard_err (state_valid state) (Err ErrInvalidState ('': '' @ quote state))) (\<lambda>_.
     bind_err (normalizeSuggestedConvergenceChecks (ci_checks inp)) (\<lambda>checks.
     bind_err (normalizeHumanReviewStatus (ci_human_review inp)) (\<lambda>review.
     buildCreatedPayload st inp state checks review))))"

definition work_item_Create ::
  "ext \<Rightarrow> time \<Rightarrow> db \<Rightarrow> uuid \<Rightarrow> create_input \<Rightarrow> work_item outcome" where
  "work_item_Create E now st wid inp = rollback st
     (bind_err (prepare_create st inp) (\<lambda>payload.
      bind_err (append_event E now
        (work_item_spec wid EventWorkItemCreated (ci_actor inp) [] payload) st) (\<lambda>st1.
      Inr (get_work_item st1 wid, st1))))"

definition childIsAncestorOf :: "tables \<Rightarrow> uuid \<Rightarrow> uuid \<Rightarrow> bool" where
  "childIsAncestorOf t child parent \<longleftrightarrow>
     child \<in> set (reach (map (\<lambda>e. (snd e, fst e)) (edges t))
       (map fst (filter (\<lambda>e. snd e = parent) (edges t))))"

definition childRelationExists :: "tables \<Rightarrow> uuid \<Rightarrow> uuid \<Rightarrow> bool" where
  "childRelationExists t parent child \<longleftrightarrow> (parent, child) \<in> set (edges t)"

definition SpawnChildWithID ::
  "ext \<Rightarrow> time \<Rightarrow> db \<Rightarrow> uuid \<Rightarrow> uuid \<Rightarrow> create_input \<Rightarrow> (work_item \<times> bool) outcome" where
  "SpawnChildWithID E now st parentID childID inp = rollback st
     (bind_err (prepare_create st inp) (\<lambda>payload.
      bind_err (guard_err (childID \<noteq> uuid_nil)
        (Err ErrInvalidRequest '': child id is required'')) (\<lambda>_.
      bind_err (get_work_item st parentID) (\<lambda>parent.
      bind_err (guard_err (childID \<noteq> parentID) ErrRelationCycle) (\<lambda>_.
      bind_err (guard_err (\<not> childIsAncestorOf (proj st) childID parentID) ErrRelationCycle) (\<lambda>_.
      bind_err (if childRelationExists (proj st) parentID childID then Inr (None, st)
        else enforceChildCountBudget E now st parent childID inp) (\<lambda>(exhausted, st1).
      case exhausted of
        Some e \<Rightarrow> Inr (Inl e, st1)
      | None \<Rightarrow>
          bind_err (app_append E now st1
            (work_item_spec childID EventWorkItemCreated (ci_actor inp) [] payload))
            (\<lambda>(_, createdFresh, st2).
          bind_err (app_append E now st2
            (work_item_spec parentID EventWorkItemRelationAdded (ci_actor inp) []
              (relation_json E parentID childID))) (\<lambda>(_, relationFresh, st3).
          Inr (map_sum id (\<lambda>w. (w, createdFresh \<or> relationFresh)) (get_work_item st3 childID), st3))))))))))"

definition SpawnChild ::
  "ext \<Rightarrow> time \<Rightarrow> db \<Rightarrow> uuid \<Rightarrow> uuid \<Rightarrow> create_input \<Rightarrow> work_item outcome" where
  "SpawnChild E now st newID parentID inp =
     (case SpawnChildWithID E now st parentID newID inp of (r, st') \<Rightarrow> (map_sum id fst r, st'))"

text \<open>Append under the rate budget, commit, and read the item back.\<close>

definition append_and_get ::
  "ext \<Rightarrow> time \<Rightarrow> db \<Rightarrow> work_item \<Rightarrow> spec \<Rightarrow> string \<Rightarrow> token \<Rightarrow> err + work_item outcome" where
  "append_and_get E now st current s innerKind actor =
     bind_err (appendWorkItemEventWithRateBudget E now st current s innerKind actor)
       (\<lambda>(exhausted, st1). Inr (case exhausted of
          Some e \<Rightarrow> (Inl e, st1)
        | None \<Rightarrow> (get_work_item st1 (wi_id current), st1)))"

definition UpdateMetadata ::
  "ext \<Rightarrow> time \<Rightarrow> db \<Rightarrow> string \<Rightarrow> uuid \<Rightarrow> string list \<Rightarrow> string \<Rightarrow> token \<Rightarrow> work_item outcome" where
  "UpdateMetadata E now st disc wid checks0 review0 actor = rollback st
     (bind_err (normalizeSuggestedConvergenceChecks checks0) (\<lambda>checks.
      bind_err (normalizeHumanReviewStatus review0) (\<lambda>review.
      bind_err (get_work_item st wid) (\<lambda>current.
      append_and_get E now st current
        (work_item_spec wid EventWorkItemMetadataUpdated actor disc
          (JObj [(''from'', metadata_json (wi_checks current) (wi_human_review current)),
             (''to'', metadata_json checks review)])) [] actor))))"

definition convergenceChecksRequired :: "work_item \<Rightarrow> string \<Rightarrow> bool" where
  "convergenceChecksRequired current dest =
     (if wi_checks current \<noteq> [] then False
      else if wi_state current \<notin> set [WorkItemCaptured, WorkItemTriaged] then False
      else dest \<notin> set [WorkItemCaptured, WorkItemTriaged, WorkItemBlocked, WorkItemFailed, WorkItemCanceled])"

definition Transition ::
  "ext \<Rightarrow> time \<Rightarrow> db \<Rightarrow> string \<Rightarrow> uuid \<Rightarrow> string \<Rightarrow> string \<Rightarrow> token \<Rightarrow> work_item outcome" where
  "Transition E now st disc wid dest reason actor = rollback st
     (bind_err (guard_err (state_valid dest) (Err ErrInvalidState ('': '' @ quote dest))) (\<lambda>_.
      bind_err (get_work_item st wid) (\<lambda>current.
      bind_err (guard_err (CanTransition (wi_state current) dest)
        (Err ErrInvalidTransition ('': from '' @ wi_state current @ '' to '' @ dest))) (\<lambda>_.
      bind_err (guard_err (\<not> convergenceChecksRequired current dest)
        (Err ErrConvergenceChecksRequired ('': item '' @ uuid_string E wid @ '' in '' @
          wi_state current @ '' needs a convergence-scribe child to define suggested_convergence_checks before moving to '' @ dest))) (\<lambda>_.
      bind_err (if dest = WorkItemRunning \<and> wi_state current \<noteq> WorkItemRunning
        then enforceConcurrentRunningBudget E now st current actor
        else Inr (None, st)) (\<lambda>(exhausted, st1).
      case exhausted of
        Some e \<Rightarrow> Inr (Inl e, st1)
      | None \<Rightarrow> append_and_get E now st1 current
          (work_item_spec wid EventWorkItemTransitioned actor disc
            (transition_json (wi_state current) dest reason)) [] actor))))))"

definition AppendEvent ::
  "ext \<Rightarrow> time \<Rightarrow> db \<Rightarrow> string \<Rightarrow> uuid \<Rightarrow> string \<Rightarrow> json \<Rightarrow> token \<Rightarrow> unit outcome" where
  "AppendEvent E now st disc wid innerKind payload actor = rollback st
     (bind_err (guard_err (trim_space innerKind \<noteq> [])
        (Err ErrInvalidRequest '': event kind is required'')) (\<lambda>_.
      bind_err (get_work_item st wid) (\<lambda>current.
      bind_err (appendWorkItemEventWithRateBudget E now st current
        (work_item_spec wid EventWorkItemEventAppended actor disc
          (JObj [(''inner_kind'', JStr innerKind), (''inner'', payload)])) innerKind actor)
        (\<lambda>(exhausted, st1). Inr (case exhausted of Some e \<Rightarrow> (Inl e, st1) | None \<Rightarrow> (Inr (), st1))))))"

definition work_item_List :: "db \<Rightarrow> string \<Rightarrow> int \<Rightarrow> work_item list" where
  "work_item_List st state limit0 =
     (let limit = (if limit0 \<le> 0 \<or> limit0 > 200 then 50 else limit0) in
      take (nat limit) (sort_key (\<lambda>w. - wi_updated_at w)
        (filter (\<lambda>w. state = [] \<or> wi_state w = state) (t_work_items (proj st)))))"

end
