(* ===== verification/WorkitemFacts.thy ===== *)
theory WorkitemFacts
  imports Workitems
begin

text \<open>
  Facts about the operations of Workitems.thy: each is a run of appends, which elimination rules
  take apart branch by branch; budgets either pass without a trace or commit their escalation;
  relations only grow and stay acyclic.  The transactions of a later time (\<open>later\<close>) extend the log,
  keep all work items and keep all relations.
\<close>

section \<open>Every operation is a run of appends\<close>

lemma map_sum_Inr: "map_sum id f m = Inr y \<longleftrightarrow> (\<exists>x. m = Inr x \<and> y = f x)"
  by (cases m) auto

lemma append_event_appends: "append_event E now s st = Inr st' \<Longrightarrow> app_appends E now st st'"
  by (auto simp: append_event_def map_sum_Inr app_append_def dest: Append_appends)

lemma requestXylemEscalation_appends:
  "requestXylemEscalationInTx E now st parent reason summary actor = Inr st' \<Longrightarrow>
   app_appends E now st st'"
  unfolding requestXylemEscalationInTx_def Let_def
  by (auto simp: bind_err_Inr split: if_splits intro: appends.none dest!: append_event_appends)
     (meson appends_trans)+

lemma exhaust_appends:
  "exhaust E now st item actor b payload reason summary msg = Inr (r, st') \<Longrightarrow>
   app_appends E now st st' \<and> r = Some (Err ErrXylemBudgetExhausted msg)"
  unfolding exhaust_def
  by (auto simp: bind_err_Inr dest!: append_event_appends requestXylemEscalation_appends
      intro: appends_trans)

text \<open>An enforced budget either lets the caller go on, changing nothing, or is exhausted.\<close>

definition enforced :: "ext \<Rightarrow> time \<Rightarrow> db \<Rightarrow> err option \<times> db \<Rightarrow> bool" where
  "enforced E now st r \<longleftrightarrow> app_appends E now st (snd r) \<and>
     (case fst r of None \<Rightarrow> snd r = st | Some e \<Rightarrow> err_is e ErrXylemBudgetExhausted)"

lemma enforced_None: "enforced E now st (None, st)"
  by (simp add: enforced_def appends.none)

lemma exhaust_enforced:
  "exhaust E now st item actor b payload reason summary msg = Inr r \<Longrightarrow> enforced E now st r"
  by (cases r) (auto simp: enforced_def err_is_def dest!: exhaust_appends)

lemma enforce_enforced:
  "enforceChildCountBudget E now st parent childID inp = Inr r \<Longrightarrow> enforced E now st r"
  "enforceConcurrentRunningBudget E now st item actor = Inr r \<Longrightarrow> enforced E now st r"
  "enforceEventRateBudget E now st item eventID kind innerKind class actor = Inr r \<Longrightarrow> enforced E now st r"
  unfolding enforceChildCountBudget_def enforceConcurrentRunningBudget_def
    enforceEventRateBudget_def
  by (auto simp: bind_err_Inr Let_def enforced_None split: if_splits dest: exhaust_enforced)

lemma enforced_cases:
  assumes "enforced E now st (x, st1)"
  obtains "x = None" "st1 = st" | e where "x = Some e" "err_is e ErrXylemBudgetExhausted"
  using assms by (cases x) (auto simp: enforced_def)

lemma appendWorkItemEvent_cases:
  assumes "appendWorkItemEventWithRateBudget E now st item s innerKind actor = Inr (x, st1)"
  obtains (replay) i where "x = None" "st1 = st" "DeterministicID E s = Inr i"
      "i \<in> ev_id ` set (log st)" "sp_discriminator s \<noteq> []"
  | (exhausted) e where "x = Some e" "err_is e ErrXylemBudgetExhausted" "app_appends E now st st1"
  | (appended) i c b where "x = None" "append_event E now s st = Inr st1"
      "DeterministicID E s = Inr i" "i \<notin> ev_id ` set (log st)"
      "ClassifyEvent (sp_kind s) (sp_payload s) = Some c"
      "resolveEventRateBudget st (wi_id item) c = Inr b"
      "countedEventsInLastHourByClass st now (wi_id item) c < xb_max b"
proof -
  obtain i where i: "DeterministicID E s = Inr i"
    using assms by (auto simp: appendWorkItemEventWithRateBudget_def bind_err_Inr)
  show thesis
  proof (cases "i \<in> ev_id ` set (log st)")
    case True
    with assms i show thesis
      by (intro replay) (auto simp: appendWorkItemEventWithRateBudget_def split: if_splits)
  next
    case False
    then obtain c r where cls: "ClassifyEvent (sp_kind s) (sp_payload s) = Some c"
      and r: "enforceEventRateBudget E now st item i (sp_kind s) innerKind c actor = Inr r"
      and rest: "(case r of (Some e, st2) \<Rightarrow> Inr (Some e, st2)
        | (None, st2) \<Rightarrow> map_sum id (\<lambda>st3. (None, st3)) (append_event E now s st2)) = Inr (x, st1)"
      using assms i
      by (auto simp: appendWorkItemEventWithRateBudget_def bind_err_Inr split: option.splits)
    obtain y st2 where y: "r = (y, st2)" by fastforce
    have enf: "enforced E now st (y, st2)" using enforce_enforced(3) [OF r] y by simp
    show thesis
    proof (cases y)
      case (Some e)
      with rest y enf show thesis by (intro exhausted [of e]) (auto simp: enforced_def)
    next
      case None
      with enf have st2: "st2 = st" by (simp add: enforced_def)
      obtain b where b: "resolveEventRateBudget st (wi_id item) c = Inr b"
        using r by (auto simp: enforceEventRateBudget_def bind_err_Inr)
      have "countedEventsInLastHourByClass st now (wi_id item) c < xb_max b"
        using r b y None exhaust_appends
        by (fastforce simp: enforceEventRateBudget_def Let_def split: if_splits)
      with None rest y st2 i False cls b show thesis
        by (intro appended [of i c b]) (auto simp: map_sum_Inr)
    qed
  qed
qed

lemma appendWorkItemEvent_appends:
  "appendWorkItemEventWithRateBudget E now st item s innerKind actor = Inr (x, st1) \<Longrightarrow>
   app_appends E now st st1"
  by (erule appendWorkItemEvent_cases) (auto intro: appends.none dest: append_event_appends)

lemma get_work_item_Inr:
  "get_work_item st wid = Inr w \<longleftrightarrow> get_row wi_id wid (t_work_items (proj st)) = Some w"
  by (auto simp: get_work_item_def split: option.splits)

lemma get_work_item_id: "get_work_item st wid = Inr w \<Longrightarrow> wi_id w = wid"
  by (auto simp: get_work_item_Inr dest: get_row_Some)

lemma appends_keep_items:
  "app_appends E now st st' \<Longrightarrow>
   set (map wi_id (t_work_items (proj st))) \<subseteq> set (map wi_id (t_work_items (proj st')))"
proof (induction rule: appends.induct)
  case (more st st' s i fresh st'')
  from more.hyps(2) have "set (map wi_id (t_work_items (proj st'))) \<subseteq>
      set (map wi_id (t_work_items (proj st'')))"
  proof (cases rule: Append_cases)
    case (insert p)
    from apply_keeps_ids [OF insert(4)] show ?thesis unfolding insert(5) by simp
  qed simp
  with more.IH show ?case by blast
qed simp

lemma get_work_item_after:
  assumes "app_appends E now st st'" "get_work_item st wid = Inr w"
  shows "\<exists>w'. get_work_item st' wid = Inr w'"
proof -
  have "wid \<in> set (map wi_id (t_work_items (proj st)))"
    using assms(2) by (auto simp: get_work_item_Inr dest!: get_row_Some)
  then have "wid \<in> set (map wi_id (t_work_items (proj st')))" using appends_keep_items [OF assms(1)] by blast
  then show ?thesis
    using get_row_None [of wi_id wid "t_work_items (proj st')"] by (auto simp: get_work_item_Inr)
qed

lemma rollback_eq:
  "rollback st r = (Inl e, st') \<longleftrightarrow> r = Inl e \<and> st' = st \<or> r = Inr (Inl e, st')"
  "rollback st r = (Inr x, st') \<longleftrightarrow> r = Inr (Inr x, st')"
  by (auto simp: rollback_def split: sum.splits)

lemma append_and_get_cases:
  assumes "append_and_get E now st current s innerKind actor = Inr (r, st1)"
    and "get_work_item st (wi_id current) = Inr current"
  obtains (replay) i where "r = Inr current" "st1 = st" "DeterministicID E s = Inr i"
      "i \<in> ev_id ` set (log st)" "sp_discriminator s \<noteq> []"
  | (exhausted) e where "r = Inl e" "err_is e ErrXylemBudgetExhausted" "app_appends E now st st1"
  | (appended) w i c b where "r = Inr w" "append_event E now s st = Inr st1"
      "get_work_item st1 (wi_id current) = Inr w"
      "DeterministicID E s = Inr i" "i \<notin> ev_id ` set (log st)"
      "ClassifyEvent (sp_kind s) (sp_payload s) = Some c"
      "resolveEventRateBudget st (wi_id current) c = Inr b"
      "countedEventsInLastHourByClass st now (wi_id current) c < xb_max b"
proof -
  obtain x st2 where x: "appendWorkItemEventWithRateBudget E now st current s innerKind actor = Inr (x, st2)"
    and r: "(r, st1) = (case x of Some e \<Rightarrow> (Inl e, st2) | None \<Rightarrow> (get_work_item st2 (wi_id current), st2))"
    using assms(1) by (auto simp: append_and_get_def bind_err_Inr)
  from x show thesis
  proof (cases rule: appendWorkItemEvent_cases)
    case (replay i)
    with r assms(2) show thesis by (intro that(1)) auto
  next
    case (exhausted e)
    with r show thesis by (intro that(2)) auto
  next
    case (appended i c b)
    then obtain w where "get_work_item st2 (wi_id current) = Inr w"
      using get_work_item_after [OF append_event_appends assms(2)] by blast
    with appended r show thesis by (intro that(3)) auto
  qed
qed

lemma append_and_get_appends:
  "append_and_get E now st current s innerKind actor = Inr (r, st1) \<Longrightarrow> app_appends E now st st1"
  by (auto simp: append_and_get_def bind_err_Inr dest!: appendWorkItemEvent_appends split: option.splits)

section \<open>Transition\<close>

lemma Transition_parts:
  assumes "Transition E now st disc wid dest reason actor = (r, st')"
  obtains (rejected) e where "r = Inl e" "st' = st"
  | (exhausted) e where "r = Inl e" "err_is e ErrXylemBudgetExhausted" "app_appends E now st st'"
  | (ran) current where "get_work_item st wid = Inr current" "state_valid dest"
      "CanTransition (wi_state current) dest" "\<not> convergenceChecksRequired current dest"
      "dest = WorkItemRunning \<and> wi_state current \<noteq> WorkItemRunning \<longrightarrow>
         enforceConcurrentRunningBudget E now st current actor = Inr (None, st)"
      "append_and_get E now st current (work_item_spec wid EventWorkItemTransitioned actor disc
         (transition_json (wi_state current) dest reason)) [] actor = Inr (r, st')"
proof (cases r)
  case (Inl e)
  show thesis
  proof (cases "st' = st")
    case True
    with Inl show thesis by (rule rejected)
  next
    case False
    with assms Inl obtain current x st1 where c: "get_work_item st wid = Inr current"
        "state_valid dest" "CanTransition (wi_state current) dest"
        "\<not> convergenceChecksRequired current dest"
      and x: "(if dest = WorkItemRunning \<and> wi_state current \<noteq> WorkItemRunning
        then enforceConcurrentRunningBudget E now st current actor else Inr (None, st)) = Inr (x, st1)"
      and k: "(case x of Some e \<Rightarrow> Inr (Inl e, st1) | None \<Rightarrow> append_and_get E now st1 current
          (work_item_spec wid EventWorkItemTransitioned actor disc
            (transition_json (wi_state current) dest reason)) [] actor) = Inr (r, st')"
      by (auto simp: Transition_def rollback_eq bind_err_Inr)
    have enf: "enforced E now st (x, st1)"
      using x enforce_enforced(2) enforced_None by (auto split: if_splits)
    show thesis
    proof (cases x)
      case None
      with enf have "st1 = st" by (simp add: enforced_def)
      with None x k c show thesis by (intro ran) (auto split: if_splits)
    next
      case (Some e')
      with k enf Inl show thesis by (intro exhausted) (auto simp: enforced_def)
    qed
  qed
next
  case (Inr w)
  with assms obtain current x st1 where c: "get_work_item st wid = Inr current"
      "state_valid dest" "CanTransition (wi_state current) dest"
      "\<not> convergenceChecksRequired current dest"
    and x: "(if dest = WorkItemRunning \<and> wi_state current \<noteq> WorkItemRunning
      then enforceConcurrentRunningBudget E now st current actor else Inr (None, st)) = Inr (x, st1)"
    and k: "(case x of Some e \<Rightarrow> Inr (Inl e, st1) | None \<Rightarrow> append_and_get E now st1 current
        (work_item_spec wid EventWorkItemTransitioned actor disc
          (transition_json (wi_state current) dest reason)) [] actor) = Inr (r, st')"
    by (auto simp: Transition_def rollback_eq bind_err_Inr)
  have enf: "enforced E now st (x, st1)"
    using x enforce_enforced(2) enforced_None by (auto split: if_splits)
  have "x = None" using k Inr by (cases x) auto
  moreover from this enf have "st1 = st" by (simp add: enforced_def)
  ultimately show thesis using x k c by (intro ran) (auto split: if_splits)
qed

lemma append_event_fresh:
  assumes "append_event E now s st = Inr st1" "DeterministicID E s = Inr i" "i \<notin> ev_id ` set (log st)"
  obtains p where "registry_apply (NewProjectionRegistry E) (event_of now i s) (proj st) = Inr p"
    "st1 = \<lparr>log = log st @ [as_stored (event_of now i s)], proj = p\<rparr>"
proof -
  from assms(1) obtain j fresh where "Append E (NewProjectionRegistry E) now st s = Inr (j, fresh, st1)"
    by (auto simp: append_event_def app_append_def map_sum_Inr)
  then show thesis
    using assms(2,3) that by (cases rule: Append_cases) auto
qed

lemma work_item_spec_sel [simp]:
  "sp_subject_kind (work_item_spec wid kind actor disc payload) = SubjectWorkItem"
  "sp_subject_id (work_item_spec wid kind actor disc payload) = wid"
  "sp_kind (work_item_spec wid kind actor disc payload) = kind"
  "sp_payload (work_item_spec wid kind actor disc payload) = payload"
  "sp_discriminator (work_item_spec wid kind actor disc payload) = disc"
  "sp_actor (work_item_spec wid kind actor disc payload) = Some (tok_id actor)"
  "sp_source (work_item_spec wid kind actor disc payload) = sourceForActor actor"
  by (simp_all add: work_item_spec_def)

lemma transition_json_reads [simp]:
  "jobject (transition_json frm dest reason)"
  "jget (transition_json frm dest reason) ''from'' = JStr frm"
  "jget (transition_json frm dest reason) ''to'' = JStr dest"
  "jget (transition_json frm dest reason) ''reason'' = JStr reason"
  by (simp_all add: transition_json_def)

lemma append_transitioned:
  assumes "append_event E now (work_item_spec wid EventWorkItemTransitioned actor disc
      (transition_json frm dest reason)) st = Inr st1"
    and "DeterministicID E (work_item_spec wid EventWorkItemTransitioned actor disc
      (transition_json frm dest reason)) = Inr i" "i \<notin> ev_id ` set (log st)"
  shows "\<exists>ev. ev_occurred_at ev = now \<and> ev_id ev = i \<and> log st1 = log st @ [as_stored ev] \<and>
    proj st1 = (proj st)\<lparr>t_work_items := update_row wi_id wid
      (transition_row ev frm dest reason) (t_work_items (proj st))\<rparr>"
proof -
  let ?s = "work_item_spec wid EventWorkItemTransitioned actor disc (transition_json frm dest reason)"
  obtain p where p: "registry_apply (NewProjectionRegistry E) (event_of now i ?s) (proj st) = Inr p"
      "st1 = \<lparr>log = log st @ [as_stored (event_of now i ?s)], proj = p\<rparr>"
    by (rule append_event_fresh [OF assms])
  then have "workItemTransitionedProjector (event_of now i ?s) (proj st) = Inr p"
    by (simp add: registry_apply_kinds)
  then have "p = (proj st)\<lparr>t_work_items := update_row wi_id wid
      (transition_row (event_of now i ?s) frm dest reason) (t_work_items (proj st))\<rparr>"
    by (auto simp: workItemTransitionedProjector_def bind_err_Inr split: if_splits)
  with p(2) show ?thesis by (intro exI [of _ "event_of now i ?s"]) simp
qed

lemma wi_id_transition_row [simp]: "wi_id (transition_row ev frm dest reason w) = wi_id w"
  by (simp add: transition_row_def)

lemma Transition_Inr_cases:
  assumes "Transition E now st disc wid dest reason actor = (Inr w, st')"
  obtains (replay) current where "get_work_item st wid = Inr current"
      "CanTransition (wi_state current) dest" "\<not> convergenceChecksRequired current dest"
      "w = current" "st' = st" "disc \<noteq> []"
  | (moved) current ev where "get_work_item st wid = Inr current"
      "CanTransition (wi_state current) dest" "\<not> convergenceChecksRequired current dest"
      "ev_occurred_at ev = now" "log st' = log st @ [as_stored ev]"
      "proj st' = (proj st)\<lparr>t_work_items := update_row wi_id wid
        (transition_row ev (wi_state current) dest reason) (t_work_items (proj st))\<rparr>"
      "w = transition_row ev (wi_state current) dest reason current"
  using assms
proof (cases rule: Transition_parts)
  case (ran current)
  have wid: "wi_id current = wid" by (rule get_work_item_id [OF ran(1)])
  have "get_work_item st (wi_id current) = Inr current" using ran(1) wid by simp
  with ran(6) show thesis
  proof (cases rule: append_and_get_cases)
    case (replay i)
    with ran show thesis by (intro that(1)) auto
  next
    case (appended w' i c b)
    then obtain ev where ev: "ev_occurred_at ev = now" "log st' = log st @ [as_stored ev]"
      "proj st' = (proj st)\<lparr>t_work_items := update_row wi_id wid
        (transition_row ev (wi_state current) dest reason) (t_work_items (proj st))\<rparr>"
      using append_transitioned [OF appended(2,4,5)] by blast
    have "get_row wi_id wid (t_work_items (proj st')) = Some w"
      using appended(1,3) wid by (simp add: get_work_item_Inr)
    with ev(3) ran(1) have "w = transition_row ev (wi_state current) dest reason current"
      by (simp add: get_work_item_Inr)
    with ev ran show thesis by (intro that(2)) auto
  qed auto
qed auto

lemma Transition_error_rolls_back:
  "Transition E now st disc wid dest reason actor = (Inl e, st') \<Longrightarrow>
   st' = st \<or> err_is e ErrXylemBudgetExhausted"
proof (erule Transition_parts)
  fix current
  assume "get_work_item st wid = Inr current"
    "append_and_get E now st current (work_item_spec wid EventWorkItemTransitioned actor disc
       (transition_json (wi_state current) dest reason)) [] actor = Inr (Inl e, st')"
  then show ?thesis
    by (auto elim!: append_and_get_cases dest: get_work_item_id)
qed auto

lemma Transition_appends:
  "Transition E now st disc wid dest reason actor = (r, st') \<Longrightarrow> app_appends E now st st'"
  by (erule Transition_parts) (auto intro: appends.none dest: append_and_get_appends)

lemma Transition_terminal:
  assumes "Transition E now st disc wid dest reason actor = (Inr w, st')"
    and "get_work_item st wid = Inr current" "state_terminal (wi_state current)"
  shows "wi_state w = wi_state current"
  using assms(1)
  by (cases rule: Transition_Inr_cases)
     (use assms(2,3) CanTransition_terminal in \<open>auto simp: transition_row_def\<close>)

text \<open>Any run of successful transitions, of this item and of others, follows the lifecycle.\<close>

inductive transitions :: "ext \<Rightarrow> db \<Rightarrow> db \<Rightarrow> bool" for E where
  start: "transitions E st st"
| step: "transitions E st st' \<Longrightarrow> Transition E now st' disc wid dest reason actor = (Inr w, st'') \<Longrightarrow>
    transitions E st st''"

lemma transitions_lifecycle:
  assumes "transitions E st st'" "get_work_item st wid = Inr w" "state_valid (wi_state w)"
  shows "\<exists>w'. get_work_item st' wid = Inr w' \<and> lifecycle (wi_state w) (wi_state w')"
  using assms
proof (induction rule: transitions.induct)
  case (step st st' now disc wid' dest reason actor w'' st'')
  then obtain v where v: "get_work_item st' wid = Inr v" "lifecycle (wi_state w) (wi_state v)"
    by blast
  from step.hyps(2) show ?case
  proof (cases rule: Transition_Inr_cases)
    case (replay current)
    with v show ?thesis by blast
  next
    case (moved current ev)
    show ?thesis
    proof (cases "wid' = wid")
      case True
      with v(1) moved(1) have "current = v" by simp
      with moved True have "get_work_item st'' wid = Inr (transition_row ev (wi_state v) dest reason v)"
        by (simp add: get_work_item_Inr)
      moreover have "lifecycle (wi_state w) dest"
        using v(2) moved(2) \<open>current = v\<close> by (auto intro: lifecycle.move)
      ultimately show ?thesis by (auto simp: transition_row_def)
    next
      case False
      with v(1) moved have "get_work_item st'' wid = Inr v" by (simp add: get_work_item_Inr)
      with v(2) show ?thesis by blast
    qed
  qed
qed (auto intro: lifecycle.stay)

section \<open>Children: the graph stays acyclic and the budget is kept\<close>

lemma childIsAncestorOf_iff:
  "childIsAncestorOf t child parent \<longleftrightarrow> (child, parent) \<in> (set (edges t))\<^sup>+"
proof -
  let ?R = "set (edges t)"
  have "set (map (\<lambda>e. (snd e, fst e)) (edges t)) = ?R\<inverse>" by force
  moreover have "set (map fst (filter (\<lambda>e. snd e = parent) (edges t))) = ?R\<inverse> `` {parent}" by force
  ultimately have "set (reach (map (\<lambda>e. (snd e, fst e)) (edges t))
        (map fst (filter (\<lambda>e. snd e = parent) (edges t)))) =
      (?R\<inverse>)\<^sup>* `` (?R\<inverse> `` {parent})"
    by (simp only: set_reach)
  also have "\<dots> = (?R\<inverse>)\<^sup>+ `` {parent}" by (rule rtrancl_Image_Image)
  finally show ?thesis by (simp add: childIsAncestorOf_def trancl_converse)
qed

lemma relation_json_reads [simp]:
  "jobject (relation_json E parent child)"
  "jget (relation_json E parent child) ''parent_id'' = juid E parent"
  "jget (relation_json E parent child) ''child_id'' = juid E child"
  by (simp_all add: relation_json_def)

lemma edges_insert_row:
  "edges (t\<lparr>t_relations := insert_row rel_id r (t_relations t)\<rparr>) =
     (if rel_id r \<in> set (edges t) then edges t else edges t @ [rel_id r])"
  by (auto simp: edges_def insert_row_def rel_id_def)

lemma append_relation_edges:
  assumes "ext_ok E"
    and "app_append E now st (work_item_spec wid EventWorkItemRelationAdded actor disc
      (relation_json E parent child)) = Inr (i, fresh, st')"
  shows "set (edges (proj st')) \<subseteq> insert (parent, child) (set (edges (proj st)))"
    and "fresh \<Longrightarrow> (parent, child) \<in> set (edges (proj st')) \<and> parent \<noteq> child"
proof -
  let ?s = "work_item_spec wid EventWorkItemRelationAdded actor disc (relation_json E parent child)"
  have "set (edges (proj st')) \<subseteq> insert (parent, child) (set (edges (proj st))) \<and>
    (fresh \<longrightarrow> (parent, child) \<in> set (edges (proj st')) \<and> parent \<noteq> child)"
    using assms(2) unfolding app_append_def
  proof (cases rule: Append_cases)
    case (insert p)
    then have "relationAddedProjector E (event_of now i ?s) (proj st) = Inr p"
      by (simp add: registry_apply_kinds)
    then have "parent \<noteq> child"
      and p: "p = (proj st)\<lparr>t_relations := insert_row rel_id
        \<lparr>rel_parent = parent, rel_child = child, rel_created_at = now\<rparr> (t_relations (proj st))\<rparr>"
      using assms(1)
      by (auto simp: relationAddedProjector_def bind_err_Inr guard_err_def split: if_splits)
    with insert(5) show ?thesis by (auto simp: edges_insert_row rel_id_def)
  qed auto
  then show "set (edges (proj st')) \<subseteq> insert (parent, child) (set (edges (proj st)))"
    and "fresh \<Longrightarrow> (parent, child) \<in> set (edges (proj st')) \<and> parent \<noteq> child"
    by auto
qed

lemma append_keeps_edges:
  "app_append E now st s = Inr (i, fresh, st') \<Longrightarrow> sp_kind s \<noteq> EventWorkItemRelationAdded \<Longrightarrow>
   edges (proj st') = edges (proj st)"
  unfolding app_append_def
  by (erule Append_cases) (auto simp: edges_def dest: apply_keeps_relations)

section \<open>Later transactions\<close>

lemma app_append_appends: "app_append E now st s = Inr (i, fresh, st') \<Longrightarrow> app_appends E now st st'"
  by (auto simp: app_append_def dest: Append_appends)

lemma append_event_prefix: "append_event E now s st = Inr st' \<Longrightarrow> prefix (log st) (log st')"
  by (auto simp: prefix_def dest!: append_event_appends appends_log)

lemma apply_edges_grow:
  assumes "registry_apply (NewProjectionRegistry E) ev t = Inr t'"
  shows "set (edges t) \<subseteq> set (edges t')"
proof (cases "ev_kind ev = EventWorkItemRelationAdded")
  case False
  with apply_keeps_relations [OF assms] show ?thesis by (simp add: edges_def)
next
  case True
  with assms have "relationAddedProjector E ev t = Inr t'" by (simp add: registry_apply_kinds)
  then obtain r where "t' = t\<lparr>t_relations := insert_row rel_id r (t_relations t)\<rparr>"
    by (auto simp: relationAddedProjector_def bind_err_Inr Let_def)
  then show ?thesis by (auto simp: edges_insert_row)
qed

lemma appends_edges: "app_appends E now st st' \<Longrightarrow> set (edges (proj st)) \<subseteq> set (edges (proj st'))"
proof (induction rule: appends.induct)
  case (more st st' s i fresh st'')
  from more.hyps(2) have "set (edges (proj st')) \<subseteq> set (edges (proj st''))"
  proof (cases rule: Append_cases)
    case (insert p)
    from apply_edges_grow [OF insert(4)] insert(5) show ?thesis by simp
  qed simp
  with more.IH show ?case by blast
qed simp

text \<open>Any number of later transactions.\<close>

inductive later :: "ext \<Rightarrow> db \<Rightarrow> db \<Rightarrow> bool" for E where
  now: "later E st st"
| tx: "later E st st1 \<Longrightarrow> app_appends E t st1 st2 \<Longrightarrow> later E st st2"

lemma later_prefix: "later E st st' \<Longrightarrow> prefix (log st) (log st')"
proof (induction rule: later.induct)
  case (tx st st1 t st2)
  then show ?case using appends_log [OF tx(2)] by (auto simp: prefix_def)
qed simp

lemma later_items:
  "later E st st' \<Longrightarrow> set (map wi_id (t_work_items (proj st))) \<subseteq> set (map wi_id (t_work_items (proj st')))"
proof (induction rule: later.induct)
  case (tx st st1 t st2)
  then show ?case using appends_keep_items [OF tx(2)] by blast
qed simp

lemma later_edges: "later E st st' \<Longrightarrow> set (edges (proj st)) \<subseteq> set (edges (proj st'))"
proof (induction rule: later.induct)
  case (tx st st1 t st2)
  then show ?case using appends_edges [OF tx(2)] by blast
qed simp

section \<open>Spawning children\<close>

lemma SpawnChild_parts:
  assumes "SpawnChildWithID E now st parentID childID inp = (r, st')"
  obtains (rejected) e where "r = Inl e" "st' = st"
  | (exhausted) e where "r = Inl e" "err_is e ErrXylemBudgetExhausted" "app_appends E now st st'"
  | (ran) payload parent cid cfresh st2 rid rfresh where "prepare_create st inp = Inr payload"
      "get_work_item st parentID = Inr parent" "childID \<noteq> uuid_nil" "childID \<noteq> parentID"
      "\<not> childIsAncestorOf (proj st) childID parentID"
      "childRelationExists (proj st) parentID childID \<or>
         enforceChildCountBudget E now st parent childID inp = Inr (None, st)"
      "app_append E now st (work_item_spec childID EventWorkItemCreated (ci_actor inp) [] payload) =
         Inr (cid, cfresh, st2)"
      "app_append E now st2 (work_item_spec parentID EventWorkItemRelationAdded (ci_actor inp) []
         (relation_json E parentID childID)) = Inr (rid, rfresh, st')"
      "r = map_sum id (\<lambda>w. (w, cfresh \<or> rfresh)) (get_work_item st' childID)"
proof (cases "\<exists>e. r = Inl e \<and> st' = st")
  case True
  then show thesis using rejected by blast
next
  case False
  with assms obtain payload parent x st1 where c: "prepare_create st inp = Inr payload"
      "get_work_item st parentID = Inr parent" "childID \<noteq> uuid_nil" "childID \<noteq> parentID"
      "\<not> childIsAncestorOf (proj st) childID parentID"
    and x: "(if childRelationExists (proj st) parentID childID then Inr (None, st)
        else enforceChildCountBudget E now st parent childID inp) = Inr (x, st1)"
    and k: "(case x of Some e \<Rightarrow> Inr (Inl e, st1) | None \<Rightarrow>
          bind_err (app_append E now st1
            (work_item_spec childID EventWorkItemCreated (ci_actor inp) [] payload))
            (\<lambda>(_, createdFresh, st2).
          bind_err (app_append E now st2
            (work_item_spec parentID EventWorkItemRelationAdded (ci_actor inp) []
              (relation_json E parentID childID))) (\<lambda>(_, relationFresh, st3).
          Inr (map_sum id (\<lambda>w. (w, createdFresh \<or> relationFresh)) (get_work_item st3 childID), st3))))
        = Inr (r, st')"
    by (cases r) (auto simp: SpawnChildWithID_def rollback_eq bind_err_Inr)
  have enf: "enforced E now st (x, st1)"
    using x enforce_enforced(1) enforced_None by (auto split: if_splits)
  show thesis
  proof (cases x)
    case (Some e)
    with k enf show thesis by (intro exhausted [of e]) (auto simp: enforced_def)
  next
    case None
    with enf have "st1 = st" by (simp add: enforced_def)
    with None k obtain cid cfresh st2 rid rfresh where
      "app_append E now st (work_item_spec childID EventWorkItemCreated (ci_actor inp) [] payload) =
         Inr (cid, cfresh, st2)"
      "app_append E now st2 (work_item_spec parentID EventWorkItemRelationAdded (ci_actor inp) []
         (relation_json E parentID childID)) = Inr (rid, rfresh, st')"
      "r = map_sum id (\<lambda>w. (w, cfresh \<or> rfresh)) (get_work_item st' childID)"
      by (auto simp: bind_err_Inr)
    moreover have "childRelationExists (proj st) parentID childID \<or>
         enforceChildCountBudget E now st parent childID inp = Inr (None, st)"
      using x None \<open>st1 = st\<close> by (auto split: if_splits)
    ultimately show thesis using c by (intro ran) auto
  qed
qed

lemma SpawnChild_acyclic:
  assumes "ext_ok E" "SpawnChildWithID E now st parentID childID inp = (Inr out, st')"
    and "acyclic (set (edges (proj st)))"
  shows "acyclic (set (edges (proj st')))"
  using assms(2)
proof (cases rule: SpawnChild_parts)
  case (ran payload parent cid cfresh st2 rid rfresh)
  have "edges (proj st2) = edges (proj st)" using append_keeps_edges [OF ran(7)] by simp
  with append_relation_edges(1) [OF assms(1) ran(8)]
  have "set (edges (proj st')) \<subseteq> insert (parentID, childID) (set (edges (proj st)))" by simp
  moreover have "(childID, parentID) \<notin> (set (edges (proj st)))\<^sup>*"
    using ran(4,5) by (auto simp: childIsAncestorOf_iff rtrancl_eq_or_trancl)
  then have "acyclic (insert (parentID, childID) (set (edges (proj st))))"
    using assms(3) by (simp add: acyclic_insert)
  ultimately show ?thesis by (metis acyclic_subset)
qed auto

lemma SpawnChild_budget:
  assumes "SpawnChildWithID E now st parentID childID inp = (Inr out, st')"
    and "\<not> childRelationExists (proj st) parentID childID"
  shows "\<exists>b. resolveChildCountBudget st parentID = Inr b \<and> countedChildCount E st parentID < xb_max b"
  using assms(1)
proof (cases rule: SpawnChild_parts)
  case (ran payload parent cid cfresh st2 rid rfresh)
  then have "enforceChildCountBudget E now st parent childID inp = Inr (None, st)"
    using assms(2) by blast
  with ran(2) show ?thesis
    by (fastforce simp: enforceChildCountBudget_def bind_err_Inr Let_def
        dest!: exhaust_appends dest: get_work_item_id split: if_splits)
qed auto

lemma SpawnChild_appends:
  "SpawnChildWithID E now st parentID childID inp = (r, st') \<Longrightarrow> app_appends E now st st'"
  by (erule SpawnChild_parts)
     (auto intro: appends.none appends_trans dest!: Append_appends simp: app_append_def)

end
