(* ===== verification/WorkitemProperties.thy ===== *)
theory WorkitemProperties
  imports WorkitemFacts
begin

text \<open>
  The properties of the work item service, and small databases on which its operations run.
\<close>

section \<open>Concrete databases\<close>

definition triage_spec :: spec where
  "triage_spec = work_item_spec 7 EventWorkItemTransitioned agent9 []
     (transition_json WorkItemCaptured WorkItemTriaged ''seen'')"

definition safety_budget :: "int \<Rightarrow> xylem_budget" where
  "safety_budget m = \<lparr>xb_max = m, xb_source = ''safety_policy'', xb_cultivar = [],
     xb_rule = EscalationRuleHandToHuman\<rparr>"

lemma lens: "length (id_preimage triage_spec) = 100" "length (id_preimage created_spec) = 61"
  by code_simp+
lemma cls: "ClassifyEvent (sp_kind triage_spec) (sp_payload triage_spec) = Some KindClassLifecycle"
  by code_simp
lemma res: "resolveEventRateBudget (db7_at i) 7 KindClassLifecycle = Inr (safety_budget 120)"
  by code_simp
lemma cnt: "countedEventsInLastHourByClass (db7_at i) 9 7 KindClassLifecycle = 1"
  by code_simp
lemma enf: "enforceEventRateBudget decimal_ext 9 (db7_at i) item7 j k ik KindClassLifecycle agent9 = Inr (None, db7_at i)"
  by (simp add: enforceEventRateBudget_def res cnt item7_def safety_budget_def)
lemma proj_triage: "workItemTransitionedProjector (event_of 9 j triage_spec) (proj (db7_at i)) =
  Inr (no_tables\<lparr>t_work_items := [item7\<lparr>wi_state := WorkItemTriaged, wi_state_reason := Some ''seen'', wi_state_entered_at := 9, wi_updated_at := 9\<rparr>]\<rparr>)"
  by code_simp

definition item7_triaged :: work_item where
  "item7_triaged = item7\<lparr>wi_state := WorkItemTriaged, wi_state_reason := Some ''seen'',
     wi_state_entered_at := 9, wi_updated_at := 9\<rparr>"

definition db7_triaged :: db where
  "db7_triaged = \<lparr>log = log db7 @ [as_stored (event_of 9 (length_id 100) triage_spec)],
     proj = no_tables\<lparr>t_work_items := [item7_triaged]\<rparr>\<rparr>"

lemma triage_id: "DeterministicID decimal_ext triage_spec = Inr (length_id 100)"
  using decimal_ext_id [of triage_spec]
  by (simp add: lens) (simp add: triage_spec_def spec_validate_def)

lemma triage_fresh: "length_id 100 \<notin> ev_id ` set (log db7)"
  by (simp add: db7_def db7_at_def created_id_def lens length_id_eq_iff)

lemma append_triage: "append_event decimal_ext 9 triage_spec db7 = Inr db7_triaged"
proof -
  have "registry_apply (NewProjectionRegistry decimal_ext) (event_of 9 (length_id 100) triage_spec) (proj db7) =
      Inr (no_tables\<lparr>t_work_items := [item7_triaged]\<rparr>)"
    using proj_triage [of "length_id 100" created_id]
    by (simp add: registry_apply_kinds(8) triage_spec_def db7_def item7_triaged_def)
  then show ?thesis
    using triage_fresh
    by (simp add: append_event_def app_append_def Append_def triage_id db7_triaged_def)
qed

lemma get_item7: "get_work_item (db7_at i) 7 = Inr item7" "get_work_item db7_triaged 7 = Inr item7_triaged"
  by (simp_all add: get_work_item_def db7_at_def db7_triaged_def item7_def item7_triaged_def)

lemma transition_triage:
  "Transition decimal_ext 9 db7 [] 7 WorkItemTriaged ''seen'' agent9 = (Inr item7_triaged, db7_triaged)"
proof -
  have "appendWorkItemEventWithRateBudget decimal_ext 9 db7 item7 triage_spec [] agent9 =
      Inr (None, db7_triaged)"
    using triage_fresh enf [of created_id] cls
      append_triage [unfolded db7_def]
    by (simp add: appendWorkItemEventWithRateBudget_def triage_id db7_def)
  moreover have "convergenceChecksRequired item7 WorkItemTriaged = False"
    "CanTransition (wi_state item7) WorkItemTriaged" "wi_state item7 = WorkItemCaptured"
    "state_valid WorkItemTriaged" "wi_id item7 = 7"
    by code_simp+
  moreover have "get_work_item db7 7 = Inr item7" by (simp add: db7_def get_item7)
  ultimately show ?thesis
    by (simp add: Transition_def append_and_get_def rollback_def get_item7(2) triage_spec_def [symmetric]
        guard_err_def)
qed


section \<open>Properties\<close>

text \<open>
  C1: A successful transition moves exactly one item.  The target was reachable from the current
  state and its convergence checks were declared where they are due; then either the same
  request (it carries a discriminator) was already in the log and nothing changes, or one event
  is added to the log, the item has the new state and reason, entered now if the state changed,
  and every other item and every other table is as before.
\<close>

theorem transition_effect:
  assumes "Transition E now st disc wid dest reason actor = (Inr w, st')"
  shows "\<exists>current. get_work_item st wid = Inr current \<and> CanTransition (wi_state current) dest \<and>
    \<not> convergenceChecksRequired current dest \<and>
    (w = current \<and> st' = st \<and> disc \<noteq> [] \<or>
     (\<exists>ev. log st' = log st @ [ev] \<and> ev_occurred_at ev = now) \<and>
     wi_state w = dest \<and> wi_state_reason w = null_if_empty reason \<and> wi_updated_at w = now \<and>
     (wi_state current \<noteq> dest \<longrightarrow> wi_state_entered_at w = now) \<and>
     w = current\<lparr>wi_state := wi_state w, wi_state_reason := wi_state_reason w,
       wi_state_entered_at := wi_state_entered_at w, wi_updated_at := wi_updated_at w\<rparr> \<and>
     get_work_item st' wid = Inr w \<and>
     (\<forall>u. u \<noteq> wid \<longrightarrow> get_work_item st' u = get_work_item st u) \<and>
     proj st' = (proj st)\<lparr>t_work_items := t_work_items (proj st')\<rparr>)"
  using assms
proof (cases rule: Transition_Inr_cases)
  case (moved current ev)
  have "get_row wi_id wid (t_work_items (proj st)) = Some current"
    using moved(1) by (simp add: get_work_item_Inr)
  then have "get_work_item st' wid = Inr w" "u \<noteq> wid \<longrightarrow> get_work_item st' u = get_work_item st u" for u
    using moved by (simp_all add: get_work_item_def)
  then show ?thesis
    using moved by (intro exI [of _ current]) (auto simp: transition_row_def null_if_empty_def)
qed blast

theorem transition_effect_witness:
  "wi_state_reason item7_triaged = null_if_empty ''seen''"
  using transition_effect [OF transition_triage] by (auto simp: get_work_item_def)


lemma transition_missing:
  "Transition decimal_ext 9 db7 [] 8 WorkItemTriaged ''seen'' agent9 = (Inl ErrNotFound, db7)"
proof -
  have "get_work_item db7 8 = Inl ErrNotFound"
    by (simp add: get_work_item_def db7_def db7_at_def item7_def)
  moreover have "state_valid WorkItemTriaged" by code_simp
  ultimately show ?thesis by (simp add: Transition_def rollback_def guard_err_def)
qed


text \<open>
  C8: Over any sequence of successful transitions, by any actors and of any items, each item
  follows the lifecycle: it can be found, its state is reached by allowed moves only, and an item
  that was done, failed or canceled keeps that state for ever.
\<close>

theorem items_follow_lifecycle:
  assumes "transitions E st st'" "get_work_item st wid = Inr w" "state_valid (wi_state w)"
  shows "\<exists>w'. get_work_item st' wid = Inr w' \<and> lifecycle (wi_state w) (wi_state w') \<and>
    (state_terminal (wi_state w) \<longrightarrow> wi_state w' = wi_state w)"
  using transitions_lifecycle [OF assms] lifecycle_terminal by blast

theorem items_follow_lifecycle_witness:
  "\<exists>w'. get_work_item db7_triaged 7 = Inr w' \<and> lifecycle (wi_state item7) (wi_state w') \<and>
    (state_terminal (wi_state item7) \<longrightarrow> wi_state w' = wi_state item7)"
proof (rule items_follow_lifecycle)
  show "transitions decimal_ext db7 db7_triaged"
    by (rule transitions.step [OF transitions.start transition_triage])
  show "get_work_item db7 7 = Inr item7" by (simp add: db7_def get_item7)
  show "state_valid (wi_state item7)" by code_simp
qed

text \<open>
  C11: Spawning children keeps the graph of relations acyclic, so that an item is never its own
  ancestor.
\<close>

theorem spawning_keeps_acyclic:
  assumes "ext_ok E" "SpawnChildWithID E now st parentID childID inp = (Inr out, st')"
    and "acyclic (set (edges (proj st)))"
  shows "acyclic (set (edges (proj st')))"
  using assms by (rule SpawnChild_acyclic)

text \<open>
  A new child is only spawned below the child budget in force for the parent, that of the
  cultivar it was launched with or of the safety policy; children that stand for a request for
  human attention are not counted.
\<close>

theorem child_budget_respected:
  assumes "SpawnChildWithID E now st parentID childID inp = (Inr out, st')"
    and "\<not> childRelationExists (proj st) parentID childID"
  shows "\<exists>b. resolveChildCountBudget st parentID = Inr b \<and> countedChildCount E st parentID < xb_max b"
  using assms by (rule SpawnChild_budget)

text \<open>
  A token starts an item only below its budget of concurrently running items.
\<close>

theorem running_budget_respected:
  assumes "Transition E now st disc wid WorkItemRunning reason actor = (Inr w, st')"
    and "get_work_item st wid = Inr current" "wi_state current \<noteq> WorkItemRunning"
  shows "tok_id actor \<in> tok_id ` set (t_tokens (proj st)) \<and>
    (\<exists>b. resolveConcurrentRunningBudget st wid = Inr b \<and>
      runningCountForActor st wid (tok_id actor) < xb_max b)"
  using assms(1)
proof (cases rule: Transition_parts)
  case (ran current')
  then have "enforceConcurrentRunningBudget E now st current actor = Inr (None, st)"
    using assms(2,3) by simp
  then show ?thesis
    using get_work_item_id [OF assms(2)] exhaust_appends
    by (fastforce simp: enforceConcurrentRunningBudget_def bind_err_Inr Let_def lockActorToken_def
        split: if_splits)
qed simp_all

text \<open>
  C13: A progress event is only accepted while its item is below the hourly budget of the class
  of the event: the request was in the log before (and carries a discriminator), or it is the one
  new event and the hour, itself included, is within the budget.
\<close>

theorem event_rate_respected:
  assumes "AppendEvent E now st disc wid innerKind payload actor = (Inr (), st')"
  shows "st' = st \<and> disc \<noteq> [] \<or>
    (\<exists>ev c b. log st' = log st @ [ev] \<and> ClassifyItem ev = Some c \<and>
      resolveEventRateBudget st wid c = Inr b \<and>
      countedEventsInLastHourByClass st' now wid c \<le> xb_max b)"
proof -
  let ?s = "work_item_spec wid EventWorkItemEventAppended actor disc
    (JObj [(''inner_kind'', JStr innerKind), (''inner'', payload)])"
  obtain current x st1 where c: "get_work_item st wid = Inr current"
    and a: "appendWorkItemEventWithRateBudget E now st current ?s innerKind actor = Inr (x, st1)"
    and r: "x = None" "st' = st1"
    using assms by (auto simp: AppendEvent_def rollback_eq bind_err_Inr split: option.splits)
  from a show ?thesis
  proof (cases rule: appendWorkItemEvent_cases)
    case (appended i cls b)
    obtain p where p: "st1 = \<lparr>log = log st @ [as_stored (event_of now i ?s)], proj = p\<rparr>"
      by (rule append_event_fresh [OF appended(2-4)])
    have "ClassifyItem (as_stored (event_of now i ?s)) = Some cls"
      using appended(5) by (simp add: ClassifyItem_def stored_payload_def)
    moreover from this have "countedEventsInLastHourByClass st1 now wid cls \<le>
        countedEventsInLastHourByClass st now wid cls + 1"
      by (simp add: countedEventsInLastHourByClass_def p)
    ultimately show ?thesis
      using appended(6,7) get_work_item_id [OF c] r p by fastforce
  qed (use r in auto)
qed

definition desk :: db where
  "desk = \<lparr>log = [], proj = no_tables\<lparr>t_tokens := [agent9],
     t_work_items := [item7\<lparr>wi_state := WorkItemPlanned\<rparr>]\<rparr>\<rparr>"

abbreviation planned7 :: work_item where
  "planned7 \<equiv> item7\<lparr>wi_state := WorkItemPlanned\<rparr>"

definition child_input :: create_input where
  "child_input = \<lparr>ci_title = ''sub'', ci_body = [], ci_actor = agent9, ci_state = [], ci_checks = [],
     ci_human_review = [], ci_cultivar = [], ci_patience_seconds = 0, ci_escalation_rule = []\<rparr>"

definition child_payload :: json where
  "child_payload = JObj [(''title'', JStr ''sub''), (''body'', JStr []), (''state'', JStr WorkItemCaptured),
     (''suggested_convergence_checks'', JArr []), (''human_review_status'', JStr HumanReviewWavedThrough)]"

definition child_spec :: spec where
  "child_spec = work_item_spec 8 EventWorkItemCreated agent9 [] child_payload"

definition link_spec :: spec where
  "link_spec = work_item_spec 7 EventWorkItemRelationAdded agent9 [] (relation_json decimal_ext 7 8)"

definition run_spec :: spec where
  "run_spec = work_item_spec 7 EventWorkItemTransitioned agent9 []
     (transition_json WorkItemPlanned WorkItemRunning ''go'')"

definition note_payload :: json where
  "note_payload = JObj [(''inner_kind'', JStr ''note''), (''inner'', JNull)]"

definition progress_spec :: spec where
  "progress_spec = work_item_spec 7 EventWorkItemEventAppended agent9 [] note_payload"

definition child8 :: work_item where
  "child8 = \<lparr>wi_id = 8, wi_title = ''sub'', wi_body = [], wi_state = WorkItemCaptured,
     wi_state_reason = None, wi_checks = [], wi_human_review = HumanReviewWavedThrough,
     wi_created_by = Some 9, wi_created_at = 9, wi_state_entered_at = 9, wi_updated_at = 9\<rparr>"

definition child_tables :: tables where
  "child_tables = (proj desk)\<lparr>t_work_items := [planned7, child8]\<rparr>"

definition linked_tables :: tables where
  "linked_tables =
     child_tables\<lparr>t_relations := [\<lparr>rel_parent = 7, rel_child = 8, rel_created_at = 9\<rparr>]\<rparr>"

definition desk_child :: db where
  "desk_child = \<lparr>log = [as_stored (event_of 9 (length_id 161) child_spec)], proj = child_tables\<rparr>"

definition desk_linked :: db where
  "desk_linked = \<lparr>log = log desk_child @ [as_stored (event_of 9 (length_id 84) link_spec)],
     proj = linked_tables\<rparr>"

lemma spec_ids:
  "DeterministicID decimal_ext child_spec = Inr (length_id 161)"
  "DeterministicID decimal_ext link_spec = Inr (length_id 84)"
proof -
  have "length (id_preimage child_spec) = 161" "length (id_preimage link_spec) = 84" by code_simp+
  then show "DeterministicID decimal_ext child_spec = Inr (length_id 161)"
    "DeterministicID decimal_ext link_spec = Inr (length_id 84)"
    using decimal_ext_id [of child_spec] decimal_ext_id [of link_spec]
    by (simp_all add: child_spec_def link_spec_def spec_validate_def)
qed

lemma desk_budgets:
  "resolveChildCountBudget desk 7 = Inr (safety_budget 32)" "countedChildCount decimal_ext desk 7 = 0"
  "resolveConcurrentRunningBudget desk 7 = Inr (safety_budget 8)" "runningCountForActor desk 7 9 = 0"
  "lockActorToken desk 9 = Inr ()"
  "resolveEventRateBudget desk 7 KindClassLifecycle = Inr (safety_budget 120)"
  "resolveEventRateBudget desk 7 KindClassProgress = Inr (safety_budget 240)"
  "get_work_item desk 7 = Inr planned7"
  by code_simp+

lemma desk_no_events: "countedEventsInLastHourByClass desk now 7 c = 0"
  by (simp add: countedEventsInLastHourByClass_def desk_def)

lemma append_child:
  "app_append decimal_ext 9 desk child_spec = Inr (length_id 161, True, desk_child)"
proof -
  have "workItemCreatedProjector (event_of 9 i child_spec) (proj desk) = Inr child_tables" for i
    by code_simp
  then have "registry_apply (NewProjectionRegistry decimal_ext) (event_of 9 i child_spec) (proj desk) =
      Inr child_tables" for i
    by (simp add: registry_apply_kinds(7) child_spec_def)
  then show ?thesis by (simp add: app_append_def Append_def spec_ids desk_child_def) (simp add: desk_def)
qed

lemma append_link:
  "app_append decimal_ext 9 desk_child link_spec = Inr (length_id 84, True, desk_linked)"
proof -
  have "relationAddedProjector decimal_ext (event_of 9 i link_spec) child_tables = Inr linked_tables" for i
    by code_simp
  then have "registry_apply (NewProjectionRegistry decimal_ext) (event_of 9 i link_spec) child_tables =
      Inr linked_tables" for i
    by (simp add: registry_apply_kinds(11) link_spec_def)
  then show ?thesis
    by (simp add: app_append_def Append_def spec_ids desk_linked_def desk_child_def length_id_eq_iff)
qed

lemma spawn_desk:
  "SpawnChildWithID decimal_ext 9 desk 7 8 child_input = (Inr (child8, True), desk_linked)"
proof -
  have "prepare_create desk child_input = Inr child_payload" "childIsAncestorOf (proj desk) 8 7 = False"
    "childRelationExists (proj desk) 7 8 = False" "ci_actor child_input = agent9" "wi_id planned7 = 7"
    by code_simp+
  moreover from this have "enforceChildCountBudget decimal_ext 9 desk planned7 8 child_input = Inr (None, desk)"
    by (simp add: enforceChildCountBudget_def desk_budgets safety_budget_def)
  moreover have "get_work_item desk_linked 8 = Inr child8"
    by (simp add: get_work_item_def desk_linked_def linked_tables_def child_tables_def get_row_def
        child8_def item7_def)
  ultimately show ?thesis
    using append_child append_link
    by (simp add: SpawnChildWithID_def rollback_def guard_err_def desk_budgets
        child_spec_def [symmetric] link_spec_def [symmetric])
qed

theorem spawning_keeps_acyclic_witness: "acyclic (set (edges (proj desk_linked)))"
proof (rule spawning_keeps_acyclic [OF decimal_ext_ok spawn_desk])
  have "edges (proj desk) = []" by code_simp
  then show "acyclic (set (edges (proj desk)))" by (simp add: acyclic_def)
qed

theorem child_budget_respected_witness:
  "\<exists>b. resolveChildCountBudget desk 7 = Inr b \<and> countedChildCount decimal_ext desk 7 < xb_max b"
  by (rule child_budget_respected [OF spawn_desk]) code_simp

text \<open>A single append to the desk by a transition or a progress event.\<close>

lemma append_to_desk:
  assumes "registry_apply (NewProjectionRegistry decimal_ext) (event_of 9 (length_id n) s) (proj desk) = Inr p"
    and "DeterministicID decimal_ext s = Inr (length_id n)"
    and "ClassifyEvent (sp_kind s) (sp_payload s) = Some c"
    and "resolveEventRateBudget desk 7 c = Inr b" "0 < xb_max b"
  shows "appendWorkItemEventWithRateBudget decimal_ext 9 desk planned7 s k agent9 =
    Inr (None, \<lparr>log = [as_stored (event_of 9 (length_id n) s)], proj = p\<rparr>)"
proof -
  have "wi_id planned7 = 7" "log desk = []" by (simp_all add: item7_def desk_def)
  then show ?thesis
    using assms
    by (simp add: appendWorkItemEventWithRateBudget_def enforceEventRateBudget_def desk_no_events
        append_event_def app_append_def Append_def)
qed

definition running7 :: work_item where
  "running7 = item7\<lparr>wi_state := WorkItemRunning, wi_state_reason := Some ''go'',
     wi_state_entered_at := 9, wi_updated_at := 9\<rparr>"

lemma transition_run:
  "\<exists>st'. Transition decimal_ext 9 desk [] 7 WorkItemRunning ''go'' agent9 = (Inr running7, st')"
proof -
  have id: "\<exists>n. DeterministicID decimal_ext run_spec = Inr (length_id n)"
    using decimal_ext_id [of run_spec] by (auto simp: run_spec_def spec_validate_def)
  have p: "workItemTransitionedProjector (event_of 9 i run_spec) (proj desk) =
      Inr ((proj desk)\<lparr>t_work_items := [running7]\<rparr>)" for i
    by code_simp
  have cls: "ClassifyEvent (sp_kind run_spec) (sp_payload run_spec) = Some KindClassLifecycle" by code_simp
  obtain st' where a: "appendWorkItemEventWithRateBudget decimal_ext 9 desk planned7 run_spec [] agent9 =
      Inr (None, st')" "proj st' = (proj desk)\<lparr>t_work_items := [running7]\<rparr>"
    using append_to_desk [OF _ _ cls desk_budgets(6)] p id
    by (fastforce simp: registry_apply_kinds(8) run_spec_def safety_budget_def)
  have "get_work_item st' 7 = Inr running7"
    by (simp add: get_work_item_def a running7_def item7_def)
  moreover have "convergenceChecksRequired planned7 WorkItemRunning = False"
    "CanTransition (wi_state planned7) WorkItemRunning" "wi_state planned7 = WorkItemPlanned"
    "state_valid WorkItemRunning" "wi_id planned7 = 7" "tok_id agent9 = 9"
    by code_simp+
  moreover from this have "enforceConcurrentRunningBudget decimal_ext 9 desk planned7 agent9 = Inr (None, desk)"
    by (simp add: enforceConcurrentRunningBudget_def desk_budgets safety_budget_def)
  ultimately show ?thesis
    using a(1) by (simp add: Transition_def append_and_get_def rollback_def guard_err_def desk_budgets
        run_spec_def [symmetric])
qed

theorem running_budget_respected_witness:
  "9 \<in> tok_id ` set (t_tokens (proj desk)) \<and>
    (\<exists>b. resolveConcurrentRunningBudget desk 7 = Inr b \<and> runningCountForActor desk 7 9 < xb_max b)"
proof -
  obtain st' where "Transition decimal_ext 9 desk [] 7 WorkItemRunning ''go'' agent9 = (Inr running7, st')"
    using transition_run by blast
  from running_budget_respected [OF this desk_budgets(8)] show ?thesis by (simp add: agent9_def)
qed

theorem event_rate_respected_witness:
  "\<exists>st' ev c b. log st' = log desk @ [ev] \<and> ClassifyItem ev = Some c \<and>
      resolveEventRateBudget desk 7 c = Inr b \<and> countedEventsInLastHourByClass st' 9 7 c \<le> xb_max b"
proof -
  have id: "\<exists>n. DeterministicID decimal_ext progress_spec = Inr (length_id n)"
    using decimal_ext_id [of progress_spec] by (auto simp: progress_spec_def spec_validate_def)
  have p: "\<exists>q. workItemEventAppendedProjector (event_of 9 i progress_spec) (proj desk) = Inr q" for i
    by (simp add: workItemEventAppendedProjector_def progress_spec_def note_payload_def)
  have cls: "ClassifyEvent (sp_kind progress_spec) (sp_payload progress_spec) = Some KindClassProgress"
    by code_simp
  obtain st' where a: "appendWorkItemEventWithRateBudget decimal_ext 9 desk planned7 progress_spec ''note'' agent9 =
      Inr (None, st')"
    using append_to_desk [OF _ _ cls desk_budgets(7)] p id
    by (fastforce simp: registry_apply_kinds(9) progress_spec_def safety_budget_def)
  have "trim_space ''note'' \<noteq> []" by code_simp
  then have "AppendEvent decimal_ext 9 desk [] 7 ''note'' JNull agent9 = (Inr (), st')"
    using a by (simp add: AppendEvent_def rollback_def guard_err_def desk_budgets progress_spec_def
        note_payload_def)
  from event_rate_respected [OF this] show ?thesis by blast
qed

end
