(* ===== verification/Leases.thy ===== *)
theory Leases
  imports Tables
begin

text \<open>
  The contract of a leased queue, which internal/jobqueue and the outbox of internal/httpconnector
  share: an operation may grant a lease on one row until some time, a row under an unexpired
  lease is not granted again, and closed rows are never granted.  The lemmas of the locale speak
  about any sequence of operations by any number of workers.
\<close>

type_synonym grant = "time \<times> uuid \<times> time"

text \<open>ORDER BY ... LIMIT 1: the first row, for an order given as a test.\<close>

fun first_by :: "('r \<Rightarrow> 'r \<Rightarrow> bool) \<Rightarrow> 'r list \<Rightarrow> 'r option" where
  "first_by before [] = None"
| "first_by before (r # rs) = (case first_by before rs of
     None \<Rightarrow> Some r | Some s \<Rightarrow> if before r s then Some r else Some s)"

lemma first_by_None [simp]: "first_by before rs = None \<longleftrightarrow> rs = []"
  by (cases rs) (auto split: option.splits if_splits)

lemma first_by_member: "first_by before rs = Some r \<Longrightarrow> r \<in> set rs"
  by (induction rs arbitrary: r) (auto split: option.splits if_splits)

lemma first_by_least:
  assumes total: "\<And>a b. before a b \<or> before b a"
    and trans: "\<And>a b c. before a b \<Longrightarrow> before b c \<Longrightarrow> before a c"
  shows "first_by before rs = Some r \<Longrightarrow> s \<in> set rs \<Longrightarrow> before r s"
proof (induction rs arbitrary: r s)
  case (Cons x rs)
  show ?case
  proof (cases "first_by before rs")
    case None
    with Cons.prems total [of s s] show ?thesis by auto
  next
    case (Some k)
    with Cons.IH have k: "before k t" if "t \<in> set rs" for t using that by blast
    from Some Cons.prems k total [of x x] total [of x k] trans [of x k] show ?thesis
      by (auto split: if_splits)
  qed
qed simp

text \<open>
  A run of a queue: every operation has the time of its transaction (SQL now()) and either grants
  a lease (row, until) or not.
\<close>

fun run_queue ::
  "(time \<Rightarrow> 'op \<Rightarrow> 'r list \<Rightarrow> (uuid \<times> time) option \<times> 'r list) \<Rightarrow> (time \<times> 'op) list \<Rightarrow> 'r list \<Rightarrow>
   grant list \<times> 'r list" where
  "run_queue exec [] rows = ([], rows)"
| "run_queue exec ((now, op) # ops) rows =
     (case exec now op rows of (g, rows1) \<Rightarrow> (case run_queue exec ops rows1 of (gs, rows2) \<Rightarrow>
        ((case g of None \<Rightarrow> gs | Some (i, u) \<Rightarrow> (now, i, u) # gs), rows2)))"

definition leases_disjoint :: "grant list \<Rightarrow> bool" where
  "leases_disjoint = sorted_wrt (\<lambda>g h. fst (snd g) = fst (snd h) \<longrightarrow> snd (snd g) \<le> fst h)"

locale leased_queue =
  fixes ident :: "'r \<Rightarrow> uuid"
    and held :: "'r \<Rightarrow> time option"
    and closed :: "'r \<Rightarrow> bool"
    and exec :: "time \<Rightarrow> 'op \<Rightarrow> 'r list \<Rightarrow> (uuid \<times> time) option \<times> 'r list"
  assumes exec_grants: "distinct (map ident rows) \<Longrightarrow> exec now op rows = (Some (i, u), rows') \<Longrightarrow>
      \<exists>j j'. get_row ident i rows = Some j \<and> get_row ident i rows' = Some j' \<and> \<not> closed j \<and>
        (\<forall>v. held j = Some v \<longrightarrow> v \<le> now) \<and> held j' = Some u"
    and exec_keeps: "distinct (map ident rows) \<Longrightarrow> exec now op rows = (g, rows') \<Longrightarrow>
      get_row ident i rows = Some j \<Longrightarrow> map_option fst g \<noteq> Some i \<Longrightarrow>
      \<exists>j'. get_row ident i rows' = Some j' \<and> (closed j \<longrightarrow> closed j') \<and>
        (\<forall>u. held j = Some u \<longrightarrow> held j' = Some u \<or> closed j')"
    and exec_distinct: "distinct (map ident rows) \<Longrightarrow> exec now op rows = (g, rows') \<Longrightarrow>
      distinct (map ident rows')"
begin

lemma run_distinct:
  "distinct (map ident rows) \<Longrightarrow> run_queue exec ops rows = (gs, rows') \<Longrightarrow> distinct (map ident rows')"
proof (induction ops arbitrary: rows gs)
  case (Cons o1 ops)
  obtain now op where [simp]: "o1 = (now, op)" by (cases o1)
  obtain g rows1 where "exec now op rows = (g, rows1)" by fastforce
  with Cons exec_distinct [of rows now op g rows1] show ?case
    by (auto split: prod.splits)
qed simp

lemma grants_in_time:
  "run_queue exec ops rows = (gs, rows') \<Longrightarrow> (t, i, u) \<in> set gs \<Longrightarrow> t \<in> fst ` set ops"
proof (induction ops arbitrary: rows gs)
  case (Cons o1 ops)
  then show ?case by (cases o1) (fastforce split: prod.splits option.splits)
qed simp

lemma closed_never_granted:
  "run_queue exec ops rows = (gs, rows') \<Longrightarrow> distinct (map ident rows) \<Longrightarrow>
   get_row ident i rows = Some j \<Longrightarrow> closed j \<Longrightarrow> (t, i, u) \<notin> set gs"
proof (induction ops arbitrary: rows gs j)
  case (Cons o1 ops)
  obtain now op where o1 [simp]: "o1 = (now, op)" by (cases o1)
  obtain g rows1 where ex: "exec now op rows = (g, rows1)" by fastforce
  obtain gs1 where run: "run_queue exec ops rows1 = (gs1, rows')"
    and gs: "gs = (case g of None \<Rightarrow> gs1 | Some (k, u) \<Rightarrow> (now, k, u) # gs1)"
    using Cons.prems(1) ex by (auto split: prod.splits)
  have g: "map_option fst g \<noteq> Some i"
    using exec_grants [OF Cons.prems(2)] ex Cons.prems(3,4) by fastforce
  obtain j' where "get_row ident i rows1 = Some j'" "closed j'"
    using exec_keeps [OF Cons.prems(2) ex Cons.prems(3) g] Cons.prems(4) by blast
  then have "(t, i, u) \<notin> set gs1"
    using Cons.IH [OF run] exec_distinct [OF Cons.prems(2) ex] by blast
  with gs g show ?case by (auto split: option.splits)
qed simp

lemma held_not_granted:
  "run_queue exec ops rows = (gs, rows') \<Longrightarrow> distinct (map ident rows) \<Longrightarrow> sorted (map fst ops) \<Longrightarrow>
   get_row ident i rows = Some j \<Longrightarrow> held j = Some u \<Longrightarrow> (t, i, v) \<in> set gs \<Longrightarrow> u \<le> t"
proof (induction ops arbitrary: rows gs j)
  case (Cons o1 ops)
  obtain now op where o1 [simp]: "o1 = (now, op)" by (cases o1)
  obtain g rows1 where ex: "exec now op rows = (g, rows1)" by fastforce
  obtain gs1 where run: "run_queue exec ops rows1 = (gs1, rows')"
    and gs: "gs = (case g of None \<Rightarrow> gs1 | Some (k, u) \<Rightarrow> (now, k, u) # gs1)"
    using Cons.prems(1) ex by (auto split: prod.splits)
  have d1: "distinct (map ident rows1)" using exec_distinct [OF Cons.prems(2) ex] .
  show ?case
  proof (cases "map_option fst g = Some i")
    case True
    then obtain w where g: "g = Some (i, w)" by auto
    have "u \<le> now" using exec_grants [OF Cons.prems(2) ex [unfolded g]] Cons.prems(4,5) by auto
    moreover have "t = now \<or> t \<in> fst ` set ops"
      using gs g Cons.prems(6) grants_in_time [OF run] by auto
    ultimately show ?thesis using Cons.prems(3) by fastforce
  next
    case False
    then have t: "(t, i, v) \<in> set gs1" using gs Cons.prems(6) by (auto split: option.splits)
    obtain j' where j': "get_row ident i rows1 = Some j'" "held j' = Some u \<or> closed j'"
      using exec_keeps [OF Cons.prems(2) ex Cons.prems(4) False] Cons.prems(5) by blast
    with closed_never_granted [OF run d1 j'(1)] t have "held j' = Some u" by blast
    with Cons.IH [OF run d1 _ j'(1) _ t] Cons.prems(3) show ?thesis by simp
  qed
qed simp

lemma run_leases_disjoint:
  "run_queue exec ops rows = (gs, rows') \<Longrightarrow> distinct (map ident rows) \<Longrightarrow> sorted (map fst ops) \<Longrightarrow>
   leases_disjoint gs"
proof (induction ops arbitrary: rows gs)
  case (Cons o1 ops)
  obtain now op where o1 [simp]: "o1 = (now, op)" by (cases o1)
  obtain g rows1 where ex: "exec now op rows = (g, rows1)" by fastforce
  obtain gs1 where run: "run_queue exec ops rows1 = (gs1, rows')"
    and gs: "gs = (case g of None \<Rightarrow> gs1 | Some (k, u) \<Rightarrow> (now, k, u) # gs1)"
    using Cons.prems(1) ex by (auto split: prod.splits)
  have d1: "distinct (map ident rows1)" using exec_distinct [OF Cons.prems(2) ex] .
  have s1: "sorted (map fst ops)" using Cons.prems(3) by simp
  have tail: "leases_disjoint gs1" using Cons.IH [OF run d1 s1] .
  show ?case
  proof (cases g)
    case (Some iu)
    then obtain i u where g: "g = Some (i, u)" by (cases iu) auto
    obtain j' where "get_row ident i rows1 = Some j'" "held j' = Some u"
      using exec_grants [OF Cons.prems(2) ex [unfolded g]] by blast
    with held_not_granted [OF run d1 s1] tail gs g show ?thesis
      by (fastforce simp: leases_disjoint_def)
  qed (use tail gs in simp)
qed (simp add: leases_disjoint_def)

end

text \<open>Facts both instances use.\<close>

lemma distinct_get_row:
  "distinct (map key rows) \<Longrightarrow> r \<in> set rows \<Longrightarrow> get_row key (key r) rows = Some r"
  by (induction rows) (auto simp: get_row_def)

end
