(* ===== verification/Auth.thy ===== *)
theory Auth
  imports WorkitemProperties Leases
begin

text \<open>
  internal/auth: bearer tokens.  token.go (the secret and its hash), service.go (minting,
  revoking, looking up) and the middleware that puts the authenticated token in front of a
  handler.  The 32 random bytes of a secret and the random id of a token are arguments.
\<close>

definition ErrRootExists :: err where
  "ErrRootExists = Err ''auth: root token already exists'' []"
definition ErrRootRequired :: err where
  "ErrRootRequired = Err ''auth: root token required'' []"
definition ErrTokenNotFound :: err where
  "ErrTokenNotFound = Err ''auth: token not found'' []"
definition ErrTokenShape :: err where
  "ErrTokenShape = Err ''auth: token has invalid shape'' []"
definition ErrTokenRevoked :: err where
  "ErrTokenRevoked = Err ''auth: token revoked'' []"
definition ErrInvalidToken :: err where
  "ErrInvalidToken = Err ''auth: invalid token'' []"

section \<open>Secrets\<close>

definition tokenPrefix :: string where "tokenPrefix = ''mrs_''"

definition HashSecret :: "ext \<Rightarrow> string \<Rightarrow> string" where
  "HashSecret E secret = sha256 E secret"

definition NewSecret :: "ext \<Rightarrow> string \<Rightarrow> string \<times> string" where
  "NewSecret E raw = (let secret = tokenPrefix @ raw_url_encode raw in (secret, HashSecret E secret))"

definition ValidSecretShape :: "string \<Rightarrow> bool" where
  "ValidSecretShape secret =
     (if \<not> has_prefix secret tokenPrefix then False
      else case raw_url_decode (trim_prefix secret tokenPrefix) of
        None \<Rightarrow> False
      | Some decoded \<Rightarrow> length decoded = 32)"

definition EqualHash :: "string \<Rightarrow> string \<Rightarrow> bool" where
  "EqualHash a b \<longleftrightarrow> length a = length b \<and> list_all2 (=) a b"

section \<open>Reads\<close>

text \<open>scanTokenRow: an invalid source reads as human.\<close>

definition scanTokenRow :: "token option \<Rightarrow> err + token" where
  "scanTokenRow row = (case row of
     None \<Rightarrow> Inl ErrTokenNotFound
   | Some tk \<Rightarrow> Inr (if source_valid (tok_source tk) then tk else tk\<lparr>tok_source := SourceHuman\<rparr>))"

definition scanToken :: "db \<Rightarrow> uuid \<Rightarrow> err + token" where
  "scanToken st i = scanTokenRow (get_row tok_id i (t_tokens (proj st)))"

definition GetToken :: "db \<Rightarrow> uuid \<Rightarrow> err + token" where
  "GetToken st i = scanToken st i"

definition ListTokens :: "db \<Rightarrow> token list" where
  "ListTokens st = map (\<lambda>tk. case scanTokenRow (Some tk) of Inr t \<Rightarrow> t | Inl _ \<Rightarrow> tk)
     (rev (sort_key tok_created_at (rev (t_tokens (proj st)))))"

definition Authenticate :: "ext \<Rightarrow> db \<Rightarrow> string \<Rightarrow> err + token" where
  "Authenticate E st secret =
     (if \<not> ValidSecretShape secret then Inl ErrTokenShape
      else let hash = HashSecret E secret in
        case scanTokenRow (get_row tok_hash hash (t_tokens (proj st))) of
          Inl e \<Rightarrow> Inl (if e = ErrTokenNotFound then ErrInvalidToken else e)
        | Inr tk \<Rightarrow>
            if \<not> EqualHash (tok_hash tk) hash then Inl ErrInvalidToken
            else if tok_revoked_at tk \<noteq> None then Inl ErrTokenRevoked
            else Inr tk)"

section \<open>Minting\<close>

definition sourceForToken :: "token option \<Rightarrow> string" where
  "sourceForToken tok = (case tok of
     None \<Rightarrow> SourceHuman
   | Some tk \<Rightarrow> if source_valid (tok_source tk) then tok_source tk else SourceHuman)"

record create_token_input =
  ct_name :: string
  ct_is_root :: bool
  ct_scopes :: "string list option"
  ct_source :: string
  ct_replace :: bool
  ct_actor :: "token option"

definition normalizeTokenSource :: "bool \<Rightarrow> string \<Rightarrow> err + string" where
  "normalizeTokenSource is_root source0 =
     (let tokenSource = (if source0 = [] then SourceHuman else source0) in
      if \<not> source_valid tokenSource then Inl (Err [] (''auth: invalid token source '' @ quote source0))
      else if is_root \<and> tokenSource \<noteq> SourceHuman
      then Inl (Err [] (''auth: root tokens must use source='' @ quote SourceHuman @ '', got '' @
        quote tokenSource))
      else Inr tokenSource)"

definition token_spec :: "uuid \<Rightarrow> string \<Rightarrow> token option \<Rightarrow> json \<Rightarrow> spec" where
  "token_spec i kind actor payload =
     \<lparr>sp_subject_kind = SubjectToken, sp_subject_id = i, sp_kind = kind,
      sp_source = sourceForToken actor, sp_actor = map_option tok_id actor, sp_payload = payload,
      sp_discriminator = []\<rparr>"

definition token_json :: "string \<Rightarrow> string \<Rightarrow> bool \<Rightarrow> string list option \<Rightarrow> string \<Rightarrow> json" where
  "token_json name hash is_root scopes source =
     JObj [(''name'', JStr name), (''hash'', JStr (std_encode hash)), (''is_root'', JBool is_root),
       (''scopes'', case scopes of None \<Rightarrow> JNull | Some ss \<Rightarrow> jstrs ss), (''source'', JStr source)]"

definition appendTokenCreated ::
  "ext \<Rightarrow> time \<Rightarrow> db \<Rightarrow> string \<Rightarrow> uuid \<Rightarrow> uuid \<Rightarrow> string \<Rightarrow> bool \<Rightarrow> string list option \<Rightarrow> string \<Rightarrow>
   token option \<Rightarrow> err + (token \<times> string) \<times> db"
where
  "appendTokenCreated E now st raw drawn i0 name is_root scopes source0 actor =
     bind_err (guard_err (name \<noteq> []) (Err [] ''auth: token name is required'')) (\<lambda>_.
     bind_err (normalizeTokenSource is_root source0) (\<lambda>source.
     let (secret, hash) = NewSecret E raw; i = (if i0 = uuid_nil then drawn else i0) in
     bind_err (append_event E now (token_spec i EventTokenCreated actor
       (token_json name hash is_root scopes source)) st) (\<lambda>st'.
     bind_err (scanToken st' i) (\<lambda>tk. Inr ((tk, secret), st')))))"

definition revoke_json :: "string \<Rightarrow> json" where
  "revoke_json reason = JObj [(''reason'', JStr reason)]"

definition live_root :: "token option \<Rightarrow> bool" where
  "live_root actor \<longleftrightarrow> (case actor of None \<Rightarrow> False
     | Some tk \<Rightarrow> tok_is_root tk \<and> tok_revoked_at tk = None)"

definition CreateToken ::
  "ext \<Rightarrow> time \<Rightarrow> db \<Rightarrow> string \<Rightarrow> uuid \<Rightarrow> create_token_input \<Rightarrow> (token \<times> string) outcome"
where
  "CreateToken E now st raw drawn inp = rollback st
     (bind_err (guard_err (ct_name inp \<noteq> []) (Err [] ''auth: token name is required'')) (\<lambda>_.
      bind_err (guard_err (ct_is_root inp \<or> live_root (ct_actor inp)) ErrRootRequired) (\<lambda>_.
      bind_err (if \<not> ct_is_root inp then Inr st
        else (case find active_root (t_tokens (proj st)) of
          None \<Rightarrow> Inr st
        | Some existing \<Rightarrow>
            if \<not> ct_replace inp then Inl ErrRootExists
            else if \<not> live_root (ct_actor inp) then Inl ErrRootRequired
            else append_event E now (token_spec (tok_id existing) EventTokenRevoked (ct_actor inp)
              (revoke_json ''replace_root'')) st)) (\<lambda>st1.
      bind_err (appendTokenCreated E now st1 raw drawn uuid_nil (ct_name inp) (ct_is_root inp)
        (ct_scopes inp) (ct_source inp) (ct_actor inp)) (\<lambda>(r, st2). Inr (Inr r, st2))))))"

definition CreateDelegatedToken ::
  "ext \<Rightarrow> time \<Rightarrow> db \<Rightarrow> string \<Rightarrow> uuid \<Rightarrow> uuid \<Rightarrow> string \<Rightarrow> string list option \<Rightarrow> string \<Rightarrow> token \<Rightarrow>
   err + (token \<times> string) \<times> db"
where
  "CreateDelegatedToken E now st raw drawn i name scopes source0 actor =
     (let source = (if source0 = [] then SourceAgent else source0) in
      bind_err (guard_err (tok_id actor \<noteq> uuid_nil) (Err [] ''auth: delegated token actor is required'')) (\<lambda>_.
      bind_err (guard_err (tok_revoked_at actor = None) (Err [] ''auth: delegated token actor is revoked'')) (\<lambda>_.
      bind_err (guard_err (\<not> tok_is_root actor)
        (Err [] ''auth: root token cannot use delegated subactor issuance'')) (\<lambda>_.
      bind_err (guard_err (tok_source actor = SourceAgent)
        (Err [] (''auth: delegated token actor must be source='' @ quote SourceAgent))) (\<lambda>_.
      bind_err (guard_err (source = SourceAgent)
        (Err [] (''auth: delegated token source must be '' @ quote SourceAgent))) (\<lambda>_.
      appendTokenCreated E now st raw drawn i name False scopes source (Some actor)))))))"

section \<open>Revoking\<close>

definition RevokeToken :: "ext \<Rightarrow> time \<Rightarrow> db \<Rightarrow> uuid \<Rightarrow> token \<Rightarrow> unit outcome" where
  "RevokeToken E now st i actor = rollback st
     (bind_err (guard_err (tok_is_root actor \<or> tok_id actor = i) ErrRootRequired) (\<lambda>_.
      bind_err (scanToken st i) (\<lambda>_.
      bind_err (append_event E now (token_spec i EventTokenRevoked (Some actor)
        (revoke_json ''operator_revoke'')) st) (\<lambda>st'. Inr (Inr (), st')))))"

fun revoke_each :: "ext \<Rightarrow> time \<Rightarrow> token \<Rightarrow> uuid list \<Rightarrow> db \<Rightarrow> err + db" where
  "revoke_each E now actor [] st = Inr st"
| "revoke_each E now actor (i # ids) st =
     bind_err (append_event E now (token_spec i EventTokenRevoked (Some actor)
       (revoke_json ''panic_revoke'')) st) (revoke_each E now actor ids)"

definition RevokeAllNonRoot :: "ext \<Rightarrow> time \<Rightarrow> db \<Rightarrow> token \<Rightarrow> uuid list outcome" where
  "RevokeAllNonRoot E now st actor = rollback st
     (bind_err (guard_err (live_root (Some actor)) ErrRootRequired) (\<lambda>_.
      let ids = map tok_id (sort_key tok_created_at (sort_key (\<lambda>tk. unat (tok_id tk))
        (filter (\<lambda>tk. \<not> tok_is_root tk \<and> tok_revoked_at tk = None) (t_tokens (proj st)))))
      in bind_err (revoke_each E now actor ids st) (\<lambda>st'. Inr (Inr ids, st'))))"

section \<open>The middleware\<close>

text \<open>Wrap: the handler runs with the token of the request, or a 401 with a code is written.\<close>

datatype 'a response = Handled 'a | AuthError nat string string

definition Wrap :: "ext \<Rightarrow> db \<Rightarrow> (token \<Rightarrow> 'a) \<Rightarrow> string \<Rightarrow> 'a response" where
  "Wrap E st handler header =
     (if header = [] \<or> \<not> has_prefix header ''Bearer ''
      then AuthError 401 ''missing_bearer_token'' ''missing bearer token''
      else case Authenticate E st (trim_space (trim_prefix header ''Bearer '')) of
        Inl e \<Rightarrow> if e = ErrTokenRevoked then AuthError 401 ''token_revoked'' ''token revoked''
          else AuthError 401 ''invalid_bearer_token'' ''invalid bearer token''
      | Inr tk \<Rightarrow> Handled (handler tk))"

section \<open>Hashes survive their encoding\<close>

lemma length_to6: "length (to6 bs) = length bs div 3 * 4 +
    (if length bs mod 3 = 0 then 0 else length bs mod 3 + 1)"
proof (induction bs rule: to6.induct)
  case (4 a b c r)
  have "Suc (Suc (Suc (length r))) div 3 = Suc (length r div 3)"
    "Suc (Suc (Suc (length r))) mod 3 = length r mod 3" by presburger+
  with 4 show ?case by simp
qed simp_all

lemma strip_padding_append:
  assumes "CHR ''='' \<notin> set e"
  shows "strip_padding (e @ padding n) = e"
proof -
  have "drop k e \<noteq> ''==''" "drop k e \<noteq> ''=''" for k
    using assms in_set_dropD [of "CHR ''=''" k e] by (metis list.set_intros(1))+
  moreover have "drop (length (e @ ''='') - 2) (e @ ''='') \<noteq> ''==''"
    using assms by (cases e rule: rev_cases) auto
  ultimately show ?thesis by (auto simp: strip_padding_def padding_def)
qed

lemma std_roundtrip [simp]: "std_decode (std_encode bs) = Some bs"
proof -
  have nl: "CHR 0x0A \<notin> set (std_alphabet @ ''='')" "CHR 0x0D \<notin> set (std_alphabet @ ''='')"
    "CHR ''='' \<notin> set std_alphabet" by code_simp+
  have e: "set (encode6 std_alphabet bs) \<subseteq> set std_alphabet"
    by (rule set_encode6) (simp add: alphabets)
  have "set (std_encode bs) \<subseteq> set (std_alphabet @ ''='')"
    using e by (auto simp: std_encode_def padding_def split: if_splits)
  with nl have keep: "no_newlines (std_encode bs) = std_encode bs"
    by (intro no_newlines_id [where cs = "std_alphabet @ ''=''"]) auto
  have "length (std_encode bs) = 4 * (length bs div 3 + (if length bs mod 3 = 0 then 0 else 1))"
  proof -
    consider "length bs mod 3 = 0" | "length bs mod 3 = 1" | "length bs mod 3 = 2" by linarith
    then show ?thesis by cases (simp_all add: std_encode_def encode6_def length_to6 padding_def)
  qed
  then have len: "length (std_encode bs) mod 4 = 0" by (simp only: mod_mult_self1_is_0)
  have "strip_padding (std_encode bs) = encode6 std_alphabet bs"
    unfolding std_encode_def by (rule strip_padding_append) (use e nl in auto)
  with keep len show ?thesis by (simp add: std_decode_def decode6_encode6 alphabets)
qed

section \<open>The table of tokens\<close>

definition tokens_ok :: "token list \<Rightarrow> bool" where
  "tokens_ok rows \<longleftrightarrow> distinct (map tok_id rows) \<and> distinct (map tok_hash rows) \<and>
     length (filter active_root rows) \<le> 1"

text \<open>A token keeps its identity and rights for ever and, once revoked, stays revoked.\<close>

definition token_le :: "token \<Rightarrow> token \<Rightarrow> bool" where
  "token_le a b \<longleftrightarrow> tok_id b = tok_id a \<and> tok_name b = tok_name a \<and> tok_hash b = tok_hash a \<and>
     tok_is_root b = tok_is_root a \<and> tok_scopes b = tok_scopes a \<and> tok_source b = tok_source a \<and>
     tok_created_at b = tok_created_at a \<and>
     (tok_revoked_at a \<noteq> None \<longrightarrow> tok_revoked_at b \<noteq> None)"

definition tokens_le :: "token list \<Rightarrow> token list \<Rightarrow> bool" where
  "tokens_le rows rows' \<longleftrightarrow> (\<forall>i a. get_row tok_id i rows = Some a \<longrightarrow>
     (\<exists>b. get_row tok_id i rows' = Some b \<and> token_le a b))"

lemma tokens_le_refl [simp]: "tokens_le rows rows"
  by (simp add: tokens_le_def token_le_def)

lemma token_le_trans: "token_le a b \<Longrightarrow> token_le b c \<Longrightarrow> token_le a c"
  by (simp add: token_le_def)

lemma tokens_le_trans: "tokens_le r s \<Longrightarrow> tokens_le s t \<Longrightarrow> tokens_le r t"
  unfolding tokens_le_def by (meson token_le_trans)

abbreviation revoke_row :: "event \<Rightarrow> token \<Rightarrow> token" where
  "revoke_row ev tk \<equiv> tk\<lparr>tok_revoked_at := Some (ev_occurred_at ev)\<rparr>"

lemma revoked_rows_ok:
  assumes "tokens_ok rows"
  shows "tokens_ok (update_row tok_id i (revoke_row ev) rows)"
proof -
  have "length (filter active_root (update_row tok_id i (revoke_row ev) rows)) \<le> length (filter active_root rows)"
    by (induction rows) (auto simp: update_row_def active_root_def)
  moreover have "map tok_hash (update_row tok_id i (revoke_row ev) rows) = map tok_hash rows"
    by (simp add: update_row_def)
  ultimately show ?thesis using assms by (simp add: tokens_ok_def)
qed

lemma revoked_rows_le: "tokens_le rows (update_row tok_id i (revoke_row ev) rows)"
  by (auto simp: tokens_le_def token_le_def)

lemma tokenCreated_cases:
  assumes "tokenCreatedProjector ev t = Inr t'"
  obtains (same) "t_tokens t' = t_tokens t"
  | (new) tk h where "t_tokens t' = t_tokens t @ [tk]" "tok_id tk = ev_subject_id ev"
      "tok_id tk \<notin> tok_id ` set (t_tokens t)" "tok_hash tk \<notin> tok_hash ` set (t_tokens t)"
      "tok_is_root tk \<longrightarrow> \<not> list_ex active_root (t_tokens t)" "tok_revoked_at tk = None"
      "jstring (jget (ev_payload ev) ''hash'') = Inr h" "std_decode h = Some (tok_hash tk)"
      "jstring (jget (ev_payload ev) ''name'') = Inr (tok_name tk)"
      "jboolean (jget (ev_payload ev) ''is_root'') = Inr (tok_is_root tk)"
      "jstrings (jget (ev_payload ev) ''scopes'') = Inr (tok_scopes tk)"
      "source_valid (tok_source tk)"
      "\<exists>s. jstring (jget (ev_payload ev) ''source'') = Inr s \<and>
         tok_source tk = (if s = [] then SourceHuman else s)"
proof (cases "t_tokens t' = t_tokens t")
  case False
  obtain name h is_root scopes source0 raw where
    r: "jstring (jget (ev_payload ev) ''name'') = Inr name"
      "jstring (jget (ev_payload ev) ''hash'') = Inr h"
      "jboolean (jget (ev_payload ev) ''is_root'') = Inr is_root"
      "jstrings (jget (ev_payload ev) ''scopes'') = Inr scopes" "std_decode h = Some raw"
      "jstring (jget (ev_payload ev) ''source'') = Inr source0"
    and src: "source_valid (if source0 = [] then SourceHuman else source0)"
    and rest: "(let tk = \<lparr>tok_id = ev_subject_id ev, tok_name = name, tok_hash = raw,
               tok_is_root = is_root, tok_scopes = scopes,
               tok_source = (if source0 = [] then SourceHuman else source0),
               tok_created_at = ev_occurred_at ev, tok_revoked_at = None\<rparr> in
         if tok_id tk \<in> tok_id ` set (t_tokens t) then Inr t
         else if raw \<in> tok_hash ` set (t_tokens t) then Inl (check_violation ''tokens_hash_key'')
         else if is_root \<and> list_ex active_root (t_tokens t)
           then Inl (check_violation ''tokens_single_active_root_idx'')
         else Inr (t\<lparr>t_tokens := insert_row tok_id tk (t_tokens t)\<rparr>)) = Inr t'"
    using assms unfolding tokenCreatedProjector_def Let_def
    by (elim bind_err_Inr_E) (auto simp: need_def split: option.splits)
  define tk where "tk = \<lparr>tok_id = ev_subject_id ev, tok_name = name, tok_hash = raw,
               tok_is_root = is_root, tok_scopes = scopes,
               tok_source = (if source0 = [] then SourceHuman else source0),
               tok_created_at = ev_occurred_at ev, tok_revoked_at = None\<rparr>"
  have f: "tok_id tk = ev_subject_id ev" "tok_name tk = name" "tok_hash tk = raw" "tok_is_root tk = is_root"
    "tok_scopes tk = scopes" "source_valid (tok_source tk)" "tok_revoked_at tk = None"
    using src by (simp_all add: tk_def)
  have fs: "\<exists>s. jstring (jget (ev_payload ev) ''source'') = Inr s \<and>
      tok_source tk = (if s = [] then SourceHuman else s)"
    using r(6) by (simp add: tk_def)
  from rest False have "tok_id tk \<notin> tok_id ` set (t_tokens t)" "raw \<notin> tok_hash ` set (t_tokens t)"
    "is_root \<longrightarrow> \<not> list_ex active_root (t_tokens t)" "t_tokens t' = t_tokens t @ [tk]"
    unfolding tk_def [symmetric] Let_def
    by (auto simp: insert_row_def split: if_splits)
  with f r fs new show thesis by simp
qed (rule same)

lemma created_rows_ok:
  assumes "tokenCreatedProjector ev t = Inr t'" "tokens_ok (t_tokens t)"
  shows "tokens_ok (t_tokens t')"
  using assms(1)
proof (cases rule: tokenCreated_cases)
  case (new tk h)
  have "filter active_root (t_tokens t) = []" if "active_root tk"
    using new(5) that by (auto simp: active_root_def filter_empty_conv list_ex_iff)
  with new assms(2) show ?thesis by (auto simp: tokens_ok_def)
qed (use assms(2) in simp)

lemma created_rows_le: "tokenCreatedProjector ev t = Inr t' \<Longrightarrow> tokens_le (t_tokens t) (t_tokens t')"
  by (erule tokenCreated_cases) (auto simp: tokens_le_def token_le_def get_row_append)

definition tokens_step :: "tables \<Rightarrow> tables \<Rightarrow> bool" where
  "tokens_step t t' \<longleftrightarrow> tokens_le (t_tokens t) (t_tokens t') \<and>
     (tokens_ok (t_tokens t) \<longrightarrow> tokens_ok (t_tokens t'))"

lemma apply_tokens_step:
  assumes "registry_apply (NewProjectionRegistry E) ev t = Inr t'"
  shows "tokens_step t t'"
proof (cases "ev_kind ev \<in> {EventTokenCreated, EventTokenRevoked}")
  case False
  with apply_keeps_tokens [OF assms] show ?thesis by (simp add: tokens_step_def)
next
  case True
  then consider "tokenCreatedProjector ev t = Inr t'" | "tokenRevokedProjector ev t = Inr t'"
    using assms by (auto simp: registry_apply_kinds)
  then show ?thesis
  proof cases
    case 1
    with created_rows_ok created_rows_le show ?thesis by (simp add: tokens_step_def)
  next
    case 2
    then show ?thesis
      by (auto simp: tokenRevokedProjector_def tokens_step_def revoked_rows_ok revoked_rows_le)
  qed
qed

lemma appends_tokens_step: "app_appends E now st st' \<Longrightarrow> tokens_step (proj st) (proj st')"
proof (induction rule: appends.induct)
  case (more st st' s i fresh st'')
  from more.hyps(2) have "tokens_step (proj st') (proj st'')"
  proof (cases rule: Append_cases)
    case (insert p)
    from apply_tokens_step [OF insert(4)] insert(5) show ?thesis by simp
  qed (simp add: tokens_step_def)
  with more.IH show ?case unfolding tokens_step_def by (blast intro: tokens_le_trans)
qed (simp add: tokens_step_def)

lemma history_tokens_ok: "app_history E st \<Longrightarrow> tokens_ok (t_tokens (proj st))"
  by (induction rule: history.induct)
     (auto simp: tokens_ok_def no_tables_def dest!: appends_tokens_step [unfolded tokens_step_def tokens_ok_def])

lemma later_tokens_step: "later E st st' \<Longrightarrow> tokens_step (proj st) (proj st')"
proof (induction rule: later.induct)
  case (tx st st1 t st2)
  with appends_tokens_step [OF tx(2)] show ?case
    unfolding tokens_step_def by (blast intro: tokens_le_trans)
qed (simp add: tokens_step_def)

section \<open>Looking up secrets\<close>

lemma EqualHash_iff [simp]: "EqualHash a b \<longleftrightarrow> a = b"
  by (auto simp: EqualHash_def list.rel_eq)

lemma Authenticate_Inr:
  "Authenticate E st secret = Inr tk \<longleftrightarrow> ValidSecretShape secret \<and>
     (\<exists>row. get_row tok_hash (HashSecret E secret) (t_tokens (proj st)) = Some row \<and>
        tok_revoked_at row = None \<and> scanTokenRow (Some row) = Inr tk)"
  by (auto simp: Authenticate_def Let_def scanTokenRow_def dest: get_row_Some
      split: option.splits sum.splits if_splits)

lemma NewSecret_shape:
  "length raw = 32 \<Longrightarrow> NewSecret E raw = (secret, hash) \<Longrightarrow> ValidSecretShape secret \<and> hash = HashSecret E secret"
  by (auto simp: NewSecret_def ValidSecretShape_def Let_def)

lemma unique_hash:
  assumes "tokens_ok rows" "get_row tok_id i rows = Some a"
  shows "get_row tok_hash (tok_hash a) rows = Some a"
  using assms distinct_get_row [of tok_hash rows a] get_row_Some [OF assms(2)]
  by (auto simp: tokens_ok_def)

lemma token_json_reads [simp]:
  "jget (token_json name hash is_root scopes source) ''name'' = JStr name"
  "jget (token_json name hash is_root scopes source) ''hash'' = JStr (std_encode hash)"
  "jget (token_json name hash is_root scopes source) ''is_root'' = JBool is_root"
  "jget (token_json name hash is_root scopes source) ''scopes'' =
     (case scopes of None \<Rightarrow> JNull | Some ss \<Rightarrow> jstrs ss)"
  "jget (token_json name hash is_root scopes source) ''source'' = JStr source"
  by (simp_all add: token_json_def)

lemma token_spec_sel [simp]:
  "sp_kind (token_spec i kind actor payload) = kind"
  "sp_subject_id (token_spec i kind actor payload) = i"
  "sp_payload (token_spec i kind actor payload) = payload"
  by (simp_all add: token_spec_def)

lemma json_scalars [simp]: "jstring (JStr s) = Inr s" "jboolean (JBool b) = Inr b"
  by (simp_all add: jstring_def jboolean_def)

lemma appendTokenCreated_new:
  assumes run: "appendTokenCreated E now st raw drawn i0 name is_root scopes source actor = Inr ((tk, secret), st')"
    and new: "(if i0 = uuid_nil then drawn else i0) \<notin> tok_id ` set (t_tokens (proj st))"
  shows "secret = fst (NewSecret E raw) \<and> app_appends E now st st' \<and>
    get_row tok_id (tok_id tk) (t_tokens (proj st')) = Some tk \<and> tok_hash tk = HashSecret E secret \<and>
    tok_id tk = (if i0 = uuid_nil then drawn else i0) \<and> tok_name tk = name \<and>
    tok_is_root tk = is_root \<and> tok_scopes tk = (case scopes of None \<Rightarrow> [] | Some ss \<Rightarrow> ss) \<and>
    tok_revoked_at tk = None \<and> source_valid (tok_source tk) \<and>
    tok_source tk = (if source = [] then SourceHuman else source)"
proof -
  let ?i = "if i0 = uuid_nil then drawn else i0"
  let ?secret = "fst (NewSecret E raw)" and ?hash = "HashSecret E (fst (NewSecret E raw))"
  obtain source' where app: "append_event E now (token_spec ?i EventTokenCreated actor
       (token_json name ?hash is_root scopes source')) st = Inr st'"
    and scan: "scanToken st' ?i = Inr tk" and sec: "secret = ?secret"
    and norm: "normalizeTokenSource is_root source = Inr source'"
    using run by (auto simp: appendTokenCreated_def bind_err_Inr NewSecret_def Let_def)
  have source': "source' = (if source = [] then SourceHuman else source)" "source' \<noteq> []"
    using norm by (auto simp: normalizeTokenSource_def Let_def source_valid_def split: if_splits)
  have none: "get_row tok_id ?i (t_tokens (proj st)) = None"
    using new by (simp only: get_row_None) auto
  from app obtain k fresh where "Append E (NewProjectionRegistry E) now st (token_spec ?i EventTokenCreated actor
       (token_json name ?hash is_root scopes source')) = Inr (k, fresh, st')"
    by (auto simp: append_event_def app_append_def map_sum_Inr)
  then show ?thesis
  proof (cases rule: Append_cases)
    case replay
    with scan none show ?thesis by (simp add: scanToken_def scanTokenRow_def)
  next
    case (insert p)
    let ?ev = "event_of now k (token_spec ?i EventTokenCreated actor
        (token_json name ?hash is_root scopes source'))"
    from insert(4) have "tokenCreatedProjector ?ev (proj st) = Inr p"
      by (simp add: registry_apply_kinds)
    then show ?thesis
    proof (cases rule: tokenCreated_cases)
      case same
      with scan none insert(5) show ?thesis by (simp add: scanToken_def scanTokenRow_def)
    next
      case (new row h)
      have "get_row tok_id ?i (t_tokens (proj st')) = Some row"
        using insert(5) new(1,2) none by (simp add: get_row_append)
      with scan new(12) have "tk = row" by (simp add: scanToken_def scanTokenRow_def)
      moreover have "tok_hash row = ?hash" using new(7,8) by (auto simp del: split_paired_All)
      moreover have "tok_scopes row = (case scopes of None \<Rightarrow> [] | Some ss \<Rightarrow> ss)"
        using new(11) by (auto simp: jstrs_def split: option.splits)
      ultimately show ?thesis
        using new(2,6,9,10,12,13) source' \<open>get_row tok_id ?i (t_tokens (proj st')) = Some row\<close> sec
          append_event_appends [OF app] by simp
    qed
  qed
qed

lemma revoke_keeps_ids:
  "append_event E now (token_spec i EventTokenRevoked actor j) st = Inr st1 \<Longrightarrow>
   tok_id ` set (t_tokens (proj st1)) = tok_id ` set (t_tokens (proj st))"
proof -
  assume "append_event E now (token_spec i EventTokenRevoked actor j) st = Inr st1"
  then obtain k fresh where "Append E (NewProjectionRegistry E) now st (token_spec i EventTokenRevoked actor j) =
      Inr (k, fresh, st1)" by (auto simp: append_event_def app_append_def map_sum_Inr)
  then show ?thesis
  proof (cases rule: Append_cases)
    case (insert p)
    then have "tokenRevokedProjector (event_of now k (token_spec i EventTokenRevoked actor j)) (proj st) = Inr p"
      by (simp add: registry_apply_kinds)
    then have "map tok_id (t_tokens p) = map tok_id (t_tokens (proj st))"
      by (auto simp: tokenRevokedProjector_def)
    then have "set (map tok_id (t_tokens p)) = set (map tok_id (t_tokens (proj st)))" by (simp only:)
    with insert(5) show ?thesis by simp
  qed simp
qed

lemma CreateToken_parts:
  assumes "CreateToken E now st raw drawn inp = (Inr r, st')"
  obtains st1 where "app_appends E now st st1"
    "tok_id ` set (t_tokens (proj st1)) = tok_id ` set (t_tokens (proj st))"
    "appendTokenCreated E now st1 raw drawn uuid_nil (ct_name inp) (ct_is_root inp)
        (ct_scopes inp) (ct_source inp) (ct_actor inp) = Inr (r, st')"
    "ct_is_root inp \<or> live_root (ct_actor inp)"
proof -
  obtain st1 where c: "appendTokenCreated E now st1 raw drawn uuid_nil (ct_name inp) (ct_is_root inp)
        (ct_scopes inp) (ct_source inp) (ct_actor inp) = Inr (r, st')"
    "ct_is_root inp \<or> live_root (ct_actor inp)"
    and s: "st1 = st \<or> (\<exists>i actor j. append_event E now (token_spec i EventTokenRevoked actor j) st = Inr st1)"
    using assms unfolding CreateToken_def rollback_eq
    by (auto simp: bind_err_Inr split: if_splits option.splits)
  from s have "app_appends E now st st1"
    "tok_id ` set (t_tokens (proj st1)) = tok_id ` set (t_tokens (proj st))"
    by (auto intro: appends.none dest: append_event_appends revoke_keeps_ids)
  with c that show thesis by blast
qed

section \<open>A first root token\<close>

definition root_input :: create_token_input where
  "root_input = \<lparr>ct_name = ''owner'', ct_is_root = True, ct_scopes = None, ct_source = [],
     ct_replace = False, ct_actor = None\<rparr>"

definition raw32 :: string where "raw32 = replicate 32 CHR ''x''"

definition root_secret :: string where "root_secret = fst (NewSecret decimal_ext raw32)"

definition root_spec :: spec where
  "root_spec = token_spec 1 EventTokenCreated None
     (token_json ''owner'' (HashSecret decimal_ext root_secret) True None SourceHuman)"

definition root1 :: token where
  "root1 = \<lparr>tok_id = 1, tok_name = ''owner'', tok_hash = HashSecret decimal_ext root_secret,
     tok_is_root = True, tok_scopes = [], tok_source = SourceHuman, tok_created_at = 5,
     tok_revoked_at = None\<rparr>"

definition root_db :: db where
  "root_db = \<lparr>log = [as_stored (event_of 5 (length_id (length (id_preimage root_spec))) root_spec)],
     proj = no_tables\<lparr>t_tokens := [root1]\<rparr>\<rparr>"

lemma root_appended: "append_event decimal_ext 5 root_spec (empty_store no_tables) = Inr root_db"
proof -
  have id: "DeterministicID decimal_ext root_spec = Inr (length_id (length (id_preimage root_spec)))"
    using decimal_ext_id [of root_spec]
    by (simp add: root_spec_def token_spec_def spec_validate_def sourceForToken_def source_valid_def)
  have "tokenCreatedProjector (event_of 5 i root_spec) no_tables = Inr (no_tables\<lparr>t_tokens := [root1]\<rparr>)" for i
    by code_simp
  then show ?thesis
    using id by (simp add: append_event_def app_append_def Append_def root_db_def registry_apply_kinds
        root_spec_def)
qed

lemma create_root:
  "CreateToken decimal_ext 5 (empty_store no_tables) raw32 1 root_input = (Inr (root1, root_secret), root_db)"
  using root_appended by (simp add: CreateToken_def root_input_def rollback_def guard_err_def no_tables_def
        appendTokenCreated_def normalizeTokenSource_def source_valid_def NewSecret_def Let_def
        root_secret_def root_spec_def scanToken_def scanTokenRow_def root_db_def root1_def)

section \<open>Properties\<close>

text \<open>C34: A minted secret works.  When CreateToken returns a token and its secret, the secret
  authenticates as exactly this token, which carries the requested name, scopes and root flag; and
  a token that is not root was minted by a root token that is not revoked.\<close>

theorem minted_secret_authenticates:
  assumes "app_history E st" "length raw = 32" "drawn \<notin> tok_id ` set (t_tokens (proj st))"
    and "CreateToken E now st raw drawn inp = (Inr (tk, secret), st')"
  shows "Authenticate E st' secret = Inr tk \<and> tok_name tk = ct_name inp \<and>
    tok_is_root tk = ct_is_root inp \<and> tok_scopes tk = (case ct_scopes inp of None \<Rightarrow> [] | Some ss \<Rightarrow> ss) \<and>
    (tok_is_root tk \<or> live_root (ct_actor inp))"
proof -
  obtain st1 where st1: "app_appends E now st st1"
    "tok_id ` set (t_tokens (proj st1)) = tok_id ` set (t_tokens (proj st))"
    and app: "appendTokenCreated E now st1 raw drawn uuid_nil (ct_name inp) (ct_is_root inp)
        (ct_scopes inp) (ct_source inp) (ct_actor inp) = Inr ((tk, secret), st')"
    and may: "ct_is_root inp \<or> live_root (ct_actor inp)"
    using assms(4) by (rule CreateToken_parts)
  have n: "secret = fst (NewSecret E raw)" "app_appends E now st1 st'"
    "get_row tok_id (tok_id tk) (t_tokens (proj st')) = Some tk" "tok_hash tk = HashSecret E secret"
    "tok_name tk = ct_name inp" "tok_is_root tk = ct_is_root inp"
    "tok_scopes tk = (case ct_scopes inp of None \<Rightarrow> [] | Some ss \<Rightarrow> ss)" "tok_revoked_at tk = None"
    "source_valid (tok_source tk)"
    using appendTokenCreated_new [OF app] assms(3) st1(2) by auto
  have "app_history E st'"
    using history.commit [OF history.commit [OF assms(1) st1(1)] n(2)] .
  then have "get_row tok_hash (HashSecret E secret) (t_tokens (proj st')) = Some tk"
    using unique_hash [OF history_tokens_ok n(3)] n(4) by simp
  moreover have "ValidSecretShape secret"
    using NewSecret_shape [OF assms(2)] n(1) by (metis prod.collapse)
  ultimately show ?thesis using n may by (simp add: Authenticate_Inr scanTokenRow_def)
qed

theorem minted_secret_authenticates_witness:
  "Authenticate decimal_ext root_db root_secret = Inr root1 \<and> tok_name root1 = ''owner''"
  using minted_secret_authenticates [OF history.empty _ _ create_root]
  by (simp add: raw32_def no_tables_def root_input_def)

text \<open>C33: Revocation is permanent.  Once a token is revoked, no later transaction of any kind makes its
  secret authenticate again.\<close>

theorem revocation_is_permanent:
  assumes "app_history E st" "GetToken st i = Inr tk" "tok_revoked_at tk \<noteq> None"
    and "later E st st'" "HashSecret E secret = tok_hash tk"
  shows "Authenticate E st' secret = Inl ErrTokenRevoked \<or> Authenticate E st' secret = Inl ErrTokenShape"
proof -
  obtain row where row: "get_row tok_id i (t_tokens (proj st)) = Some row" "tok_hash row = tok_hash tk"
    "tok_revoked_at row \<noteq> None"
    using assms(2,3) by (auto simp: GetToken_def scanToken_def scanTokenRow_def
        split: option.splits if_splits)
  obtain row' where row': "get_row tok_id i (t_tokens (proj st')) = Some row'" "tok_hash row' = tok_hash tk"
    "tok_revoked_at row' \<noteq> None" "tokens_ok (t_tokens (proj st'))"
    using later_tokens_step [OF assms(4)] row history_tokens_ok [OF assms(1)]
    by (fastforce simp: tokens_step_def tokens_le_def token_le_def)
  have "get_row tok_hash (HashSecret E secret) (t_tokens (proj st')) = Some row'"
    using unique_hash [OF row'(4,1)] row'(2) assms(5) by simp
  with row'(2,3) assms(5) show ?thesis
    by (auto simp: Authenticate_def Let_def scanTokenRow_def)
qed

definition revoke_spec :: spec where
  "revoke_spec = token_spec 1 EventTokenRevoked (Some root1) (revoke_json ''operator_revoke'')"

definition revoked_db :: db where
  "revoked_db = \<lparr>log = log root_db @ [as_stored (event_of 7 (length_id (length (id_preimage revoke_spec))) revoke_spec)],
     proj = no_tables\<lparr>t_tokens := [root1\<lparr>tok_revoked_at := Some 7\<rparr>]\<rparr>\<rparr>"

lemma revoke_lens: "length (id_preimage root_spec) mod 256 \<noteq> length (id_preimage revoke_spec) mod 256"
  by code_simp

lemma revoke_appended: "append_event decimal_ext 7 revoke_spec root_db = Inr revoked_db"
proof -
  have id: "DeterministicID decimal_ext revoke_spec = Inr (length_id (length (id_preimage revoke_spec)))"
    using decimal_ext_id [of revoke_spec]
    by (simp add: revoke_spec_def token_spec_def spec_validate_def sourceForToken_def source_valid_def root1_def)
  have "tokenRevokedProjector (event_of 7 i revoke_spec) (no_tables\<lparr>t_tokens := [root1]\<rparr>) =
      Inr (no_tables\<lparr>t_tokens := [root1\<lparr>tok_revoked_at := Some 7\<rparr>]\<rparr>)" for i by code_simp
  then show ?thesis
    using id revoke_lens
    by (simp add: append_event_def app_append_def Append_def root_db_def revoked_db_def registry_apply_kinds
        revoke_spec_def length_id_eq_iff)
qed

lemma revoke_root: "RevokeToken decimal_ext 7 root_db 1 root1 = (Inr (), revoked_db)"
  using revoke_appended by (simp add: RevokeToken_def rollback_def guard_err_def root_db_def revoke_spec_def
      scanToken_def scanTokenRow_def root1_def source_valid_def)

lemma revoked_history: "app_history decimal_ext revoked_db"
  by (rule history.commit [OF history.commit [OF history.empty [where ?p0.0 = no_tables]
        append_event_appends [OF root_appended]] append_event_appends [OF revoke_appended]])

lemma revoked_token: "GetToken revoked_db 1 = Inr (root1\<lparr>tok_revoked_at := Some 7\<rparr>)"
  by (simp add: GetToken_def scanToken_def scanTokenRow_def revoked_db_def root1_def source_valid_def)

theorem revocation_is_permanent_witness:
  "Authenticate decimal_ext revoked_db root_secret = Inl ErrTokenRevoked \<or>
   Authenticate decimal_ext revoked_db root_secret = Inl ErrTokenShape"
  using revocation_is_permanent [OF revoked_history revoked_token _ later.now]
  by (simp add: root1_def)

end
