(* ===== verification/Idempotency.thy ===== *)
theory Idempotency
  imports Decoder Auth Safety
begin

text \<open>
  internal/idempotency: middleware.go and context.go.  A request is identified by token, scope and
  key; the first conclusive response is recorded as an event and replayed until it expires.  The
  guarded handler (ExecuteInput.Run, or the wrapped http.Handler) is an argument: a function from
  the request identity and the database to its response and the database it leaves.  So is the
  wait for the advisory lock, during which other transactions commit.  The columns of type JSONB
  are read back as JSON values; the bytes that Postgres prints for them are not modelled.
\<close>

section \<open>The request context\<close>

record request =
  rq_token :: uuid
  rq_scope :: string
  rq_key :: string
  rq_hash :: string

definition identity_seed :: "ext \<Rightarrow> uuid \<Rightarrow> string \<Rightarrow> string \<Rightarrow> string" where
  "identity_seed E tokenID scope key = uuid_string E tokenID @ ''|'' @ scope @ ''|'' @ key"

definition SubjectID :: "ext \<Rightarrow> request option \<Rightarrow> string \<Rightarrow> uuid option" where
  "SubjectID E ctx label = (case ctx of
     None \<Rightarrow> None
   | Some req \<Rightarrow>
       if rq_token req = uuid_nil \<or> rq_scope req = [] \<or> rq_key req = [] \<or> label = [] then None
       else Some (uuid_sha1 E NameSpaceURL
         (identity_seed E (rq_token req) (rq_scope req) (rq_key req) @ ''|'' @
          std_encode (rq_hash req) @ ''|'' @ label)))"

definition EventDiscriminator :: "ext \<Rightarrow> request option \<Rightarrow> string option" where
  "EventDiscriminator E ctx = (case ctx of
     None \<Rightarrow> None
   | Some req \<Rightarrow>
       if rq_token req = uuid_nil \<or> rq_scope req = [] \<or> rq_key req = [] then None
       else Some (identity_seed E (rq_token req) (rq_scope req) (rq_key req)))"

text \<open>
  SetRecordedResponse appends to the empty prefix of the slice it replaces: an empty body leaves a
  nil slice nil, which recordedResponse reads as no override.
\<close>

definition SetRecordedResponse :: "string \<Rightarrow> string option \<Rightarrow> string option" where
  "SetRecordedResponse body override =
     (if body = [] \<and> override = None then None else Some body)"

definition recordedResponse :: "string list \<Rightarrow> string option" where
  "recordedResponse calls = fold SetRecordedResponse calls None"

section \<open>The hash of a request\<close>

definition request_value :: "string \<Rightarrow> json option" where
  "request_value body = Decode (if trim_space body = [] then ''{}'' else body)"

definition requestHash :: "ext \<Rightarrow> string \<Rightarrow> string option" where
  "requestHash E body = map_option (\<lambda>v. sha256 E (CanonicalJSON v)) (request_value body)"

text \<open>The advisory lock: the first eight bytes of a digest as a signed 64 bit number.\<close>

definition lockKeyFor :: "ext \<Rightarrow> uuid \<Rightarrow> string \<Rightarrow> string \<Rightarrow> int" where
  "lockKeyFor E tokenID scope key =
     sint (of_nat (undigits256 (map of_char
       (take 8 (sha256 E (identity_seed E tokenID scope key))))) :: 64 word)"

definition lockTryInitialBackoff :: time where "lockTryInitialBackoff = 1000000"
definition lockTryMaxBackoff :: time where "lockTryMaxBackoff = 50 * 1000000"

definition next_backoff :: "time \<Rightarrow> time" where
  "next_backoff b =
     (if b < lockTryMaxBackoff
      then (let b' = b * 2 in if b' > lockTryMaxBackoff then lockTryMaxBackoff else b') else b)"

text \<open>
  The loop of acquireLock: each try finds the lock free or held; a held lock is retried after the
  backoff.  The total time slept before the lock is taken, None when the tries run out.
\<close>

fun acquire_loop :: "bool list \<Rightarrow> time \<Rightarrow> time option" where
  "acquire_loop [] backoff = None"
| "acquire_loop (free # tries) backoff =
     (if free then Some 0
      else map_option (\<lambda>t. backoff + t) (acquire_loop tries (next_backoff backoff)))"

section \<open>The recorded responses\<close>

definition ErrConflict :: err where
  "ErrConflict = Err ''idempotency conflict'' []"

definition lookup ::
  "time \<Rightarrow> db \<Rightarrow> uuid \<Rightarrow> string \<Rightarrow> string \<Rightarrow> string \<Rightarrow> err + (int \<times> json) option"
where
  "lookup now st tokenID scope key hash =
     (case find (\<lambda>r. ik_id r = (tokenID, scope, key) \<and> ik_expires_at r > now)
        (t_idempotency (proj st)) of
        None \<Rightarrow> Inr None
      | Some r \<Rightarrow> if ik_request_hash r \<noteq> hash then Inl ErrConflict
                  else Inr (Some (ik_status r, ik_body r)))"

definition tokenSource :: "token \<Rightarrow> string" where
  "tokenSource tk = (if source_valid (tok_source tk) then tok_source tk else SourceHuman)"

definition recorded_subject :: "ext \<Rightarrow> uuid \<Rightarrow> string \<Rightarrow> string \<Rightarrow> uuid" where
  "recorded_subject E tokenID scope key =
     uuid_sha1 E NameSpaceURL (identity_seed E tokenID scope key)"

definition recorded_json ::
  "ext \<Rightarrow> uuid \<Rightarrow> string \<Rightarrow> string \<Rightarrow> string \<Rightarrow> int \<Rightarrow> json \<Rightarrow> json"
where
  "recorded_json E tokenID scope key hash status body =
     JObj [(''token_id'', juid E tokenID), (''scope'', JStr scope), (''key'', JStr key),
       (''request_hash'', JStr (std_encode hash)), (''response_status'', jint status),
       (''response_body'', body)]"

definition decoded_body :: "string \<Rightarrow> json" where
  "decoded_body body = (case Decode body of Some v \<Rightarrow> v | None \<Rightarrow> JObj [(''raw'', JStr body)])"

definition recorded_spec ::
  "ext \<Rightarrow> token \<Rightarrow> string \<Rightarrow> string \<Rightarrow> string \<Rightarrow> int \<Rightarrow> string \<Rightarrow> spec"
where
  "recorded_spec E tk scope key hash status body =
     \<lparr>sp_subject_kind = SubjectIdempotencyKey,
      sp_subject_id = recorded_subject E (tok_id tk) scope key,
      sp_kind = EventIdempotencyRecorded, sp_source = tokenSource tk, sp_actor = Some (tok_id tk),
      sp_payload = recorded_json E (tok_id tk) scope key hash status (decoded_body body),
      sp_discriminator = []\<rparr>"

definition record_response ::
  "ext \<Rightarrow> time \<Rightarrow> db \<Rightarrow> token \<Rightarrow> string \<Rightarrow> string \<Rightarrow> string \<Rightarrow> int \<Rightarrow> string \<Rightarrow> err + bool \<times> db"
where
  "record_response E now st tk scope key hash status body =
     map_sum id (\<lambda>(_, fresh, st'). (fresh, st'))
       (app_append E now st (recorded_spec E tk scope key hash status body))"

section \<open>Execute\<close>

text \<open>A response body: the bytes of the handler, or the column of the recorded row.\<close>

datatype body = Bytes string | Column json

record execute_input =
  ei_token :: token
  ei_scope :: string
  ei_key :: string
  ei_hash :: string

record execute_result =
  xr_status :: int
  xr_body :: body
  xr_replayed :: bool

text \<open>
  What a handler returns: an error, or the status, the body and its calls of SetRecordedResponse.
\<close>

type_synonym handler = "request \<Rightarrow> db \<Rightarrow> (err + int \<times> string \<times> string list) \<times> db"

text \<open>
  The clock readings of one call: the first lookup, the lookup under the lock, the append of the
  record, and the final lookup.
\<close>

record clock =
  at_first :: time
  at_locked :: time
  at_record :: time
  at_final :: time

definition idempotencyLookupError :: "err \<Rightarrow> err" where
  "idempotencyLookupError e =
     (if err_is e (sentinel ErrConflict)
      then Err [] ''idempotency_key_conflict: idempotency key reused with a different request body''
      else e)"

definition execute_guard :: "execute_input \<Rightarrow> err option" where
  "execute_guard inp =
     (if tok_id (ei_token inp) = uuid_nil then Some (Err [] ''idempotency token is required'')
      else if ei_scope inp = [] then Some (Err [] ''idempotency scope is required'')
      else if ei_key inp = [] then Some (Err [] ''idempotency key is required'')
      else if ei_hash inp = [] then Some (Err [] ''idempotency request hash is required'')
      else None)"

definition request_of :: "execute_input \<Rightarrow> request" where
  "request_of inp = \<lparr>rq_token = tok_id (ei_token inp), rq_scope = ei_scope inp,
     rq_key = ei_key inp, rq_hash = ei_hash inp\<rparr>"

definition lookup_input :: "time \<Rightarrow> db \<Rightarrow> execute_input \<Rightarrow> err + (int \<times> json) option" where
  "lookup_input now st inp =
     lookup now st (tok_id (ei_token inp)) (ei_scope inp) (ei_key inp) (ei_hash inp)"

text \<open>The part of Execute under the lock.\<close>

definition execute_locked ::
  "ext \<Rightarrow> clock \<Rightarrow> handler \<Rightarrow> execute_input \<Rightarrow> db \<Rightarrow> (err + execute_result) \<times> db"
where
  "execute_locked E ck run inp st =
     (case lookup_input (at_locked ck) st inp of
        Inl e \<Rightarrow> (Inl (idempotencyLookupError e), st)
      | Inr (Some (status, col)) \<Rightarrow>
          (Inr \<lparr>xr_status = status, xr_body = Column col, xr_replayed = True\<rparr>, st)
      | Inr None \<Rightarrow>
          (case run (request_of inp) st of
             (Inl e, st1) \<Rightarrow> (Inl e, st1)
           | (Inr (status0, bytes, calls), st1) \<Rightarrow>
               let status = (if status0 = 0 then 200 else status0)
               in if status \<ge> 500
                  then (Inr \<lparr>xr_status = status, xr_body = Bytes bytes, xr_replayed = False\<rparr>, st1)
                  else
                    let record_body = (case recordedResponse calls of Some b \<Rightarrow> b | None \<Rightarrow> bytes)
                    in case record_response E (at_record ck) st1 (ei_token inp) (ei_scope inp)
                         (ei_key inp) (ei_hash inp) status record_body of
                         Inl e \<Rightarrow> (Inl e, st1)
                       | Inr (fresh, st2) \<Rightarrow>
                           (case lookup_input (at_final ck) st2 inp of
                              Inr (Some (status', col)) \<Rightarrow>
                                (Inr \<lparr>xr_status = status', xr_body = Column col, xr_replayed = \<not> fresh\<rparr>, st2)
                            | _ \<Rightarrow>
                                (Inr \<lparr>xr_status = status, xr_body = Bytes record_body,
                                   xr_replayed = \<not> fresh\<rparr>, st2))))"

text \<open>
  The lock is taken after a wait that ends with an error (the context is cancelled) or with the
  database that the transactions committed meanwhile have left.
\<close>

definition Execute ::
  "ext \<Rightarrow> clock \<Rightarrow> (db \<Rightarrow> err + db) \<Rightarrow> handler \<Rightarrow> execute_input \<Rightarrow> db \<Rightarrow>
     (err + execute_result) \<times> db"
where
  "Execute E ck lock run inp st =
     (case execute_guard inp of
        Some e \<Rightarrow> (Inl e, st)
      | None \<Rightarrow>
          (case lookup_input (at_first ck) st inp of
             Inl e \<Rightarrow> (Inl (idempotencyLookupError e), st)
           | Inr (Some (status, col)) \<Rightarrow>
               (Inr \<lparr>xr_status = status, xr_body = Column col, xr_replayed = True\<rparr>, st)
           | Inr None \<Rightarrow>
               (case lock st of
                  Inl e \<Rightarrow> (Inl e, st)
                | Inr st' \<Rightarrow> execute_locked E ck run inp st')))"

section \<open>The HTTP middleware\<close>

record http_request =
  hr_method :: string
  hr_path :: string
  hr_key :: string
  hr_token :: "token option"
  hr_body :: "string option"

record http_response =
  rs_status :: int
  rs_header :: "(string \<times> string) list"
  rs_body :: body

text \<open>
  What the wrapped handler leaves in the recorder: status (200 unless it set one), header, body and
  its calls of SetRecordedResponse.
\<close>

type_synonym http_handler =
  "request option \<Rightarrow> string option \<Rightarrow> db \<Rightarrow> (int \<times> (string \<times> string) list \<times> string \<times> string list) \<times> db"

definition json_header :: "(string \<times> string) list" where
  "json_header = [(''Content-Type'', ''application/json; charset=utf-8'')]"

definition writeError :: "int \<Rightarrow> string \<Rightarrow> string \<Rightarrow> http_response" where
  "writeError status code message =
     \<lparr>rs_status = status, rs_header = json_header,
      rs_body = Bytes (''{'' @ quote ''error'' @ '':{'' @ quote ''code'' @ '':'' @ quote code @ '','' @
        quote ''message'' @ '':'' @ quote message @ ''}}'' @ [CHR 0x0A])\<rparr>"

definition writeLookupError :: "err \<Rightarrow> http_response" where
  "writeLookupError e =
     (if err_is e (sentinel ErrConflict)
      then writeError 422 ''idempotency_key_conflict'' ''idempotency key reused with a different request body''
      else writeError 500 ''idempotency_lookup_failed'' ''could not check idempotency key'')"

definition writeCachedResponse :: "int \<Rightarrow> json \<Rightarrow> http_response" where
  "writeCachedResponse status col =
     \<lparr>rs_status = status, rs_header = json_header @ [(''Idempotency-Replayed'', ''true'')],
      rs_body = Column col\<rparr>"

definition serve_locked ::
  "ext \<Rightarrow> clock \<Rightarrow> http_handler \<Rightarrow> token \<Rightarrow> string \<Rightarrow> string \<Rightarrow> string \<Rightarrow> string \<Rightarrow> db \<Rightarrow>
     http_response \<times> db"
where
  "serve_locked E ck handler tk scope key hash body st =
     (case lookup (at_locked ck) st (tok_id tk) scope key hash of
        Inl e \<Rightarrow> (writeLookupError e, st)
      | Inr (Some (status, col)) \<Rightarrow> (writeCachedResponse status col, st)
      | Inr None \<Rightarrow>
          (case handler (Some \<lparr>rq_token = tok_id tk, rq_scope = scope, rq_key = key, rq_hash = hash\<rparr>)
             (Some body) st of
             ((status, hdr, bytes, calls), st1) \<Rightarrow>
               let own = \<lparr>rs_status = status, rs_header = hdr, rs_body = Bytes bytes\<rparr>
               in if status \<ge> 500 then (own, st1)
                  else
                    let override = recordedResponse calls;
                        record_body = (case override of Some b \<Rightarrow> b | None \<Rightarrow> bytes)
                    in case record_response E (at_record ck) st1 tk scope key hash status record_body of
                         Inl e \<Rightarrow> (writeError 500 ''idempotency_record_failed'' ''could not record idempotency key'', st1)
                       | Inr (fresh, st2) \<Rightarrow>
                           if override \<noteq> None \<and> fresh then (own, st2)
                           else (case lookup (at_final ck) st2 (tok_id tk) scope key hash of
                                   Inr (Some (status', col)) \<Rightarrow>
                                     (\<lparr>rs_status = status',
                                        rs_header = (if fresh then [] else [(''Idempotency-Replayed'', ''true'')]) @ json_header,
                                        rs_body = Column col\<rparr>, st2)
                                 | _ \<Rightarrow> (own, st2))))"

definition Wrap ::
  "ext \<Rightarrow> clock \<Rightarrow> (db \<Rightarrow> err + db) \<Rightarrow> http_handler \<Rightarrow> http_request \<Rightarrow> db \<Rightarrow> http_response \<times> db"
where
  "Wrap E ck lock handler r st =
     (if hr_method r \<noteq> ''POST''
      then (case handler None (hr_body r) st of
              ((status, hdr, bytes, calls), st1) \<Rightarrow>
                (\<lparr>rs_status = status, rs_header = hdr, rs_body = Bytes bytes\<rparr>, st1))
      else case hr_token r of
        None \<Rightarrow> (writeError 401 ''missing_authenticated_token'' ''missing authenticated token'', st)
      | Some tk \<Rightarrow>
        if hr_key r = [] then (writeError 400 ''idempotency_key_required'' ''Idempotency-Key header is required'', st)
        else (case hr_body r of
          None \<Rightarrow> (writeError 400 ''invalid_request_body'' ''could not read request body'', st)
        | Some body \<Rightarrow>
          if int (length body) > po_max_body DefaultPolicy
          then (writeError 413 ''request_too_large'' ''request body exceeds resource safety limit'', st)
          else (case requestHash E body of
            None \<Rightarrow> (writeError 400 ''invalid_json'' ''request body must be valid JSON'', st)
          | Some hash \<Rightarrow>
            let scope = hr_method r @ '' '' @ hr_path r
            in case lookup (at_first ck) st (tok_id tk) scope (hr_key r) hash of
                 Inl e \<Rightarrow> (writeLookupError e, st)
               | Inr (Some (status, col)) \<Rightarrow> (writeCachedResponse status col, st)
               | Inr None \<Rightarrow>
                   (case lock st of
                      Inl e \<Rightarrow> (writeError 500 ''idempotency_lock_failed'' ''could not acquire idempotency lock'', st)
                    | Inr st' \<Rightarrow> serve_locked E ck handler tk scope (hr_key r) hash body st'))))"

section \<open>A recorded row stays\<close>

definition key_of :: "execute_input \<Rightarrow> uuid \<times> string \<times> string" where
  "key_of inp = (tok_id (ei_token inp), ei_scope inp, ei_key inp)"

definition pinned :: "uuid \<times> string \<times> string \<Rightarrow> string \<Rightarrow> int \<Rightarrow> json \<Rightarrow> time \<Rightarrow> db \<Rightarrow> bool" where
  "pinned k hash status col expires st \<longleftrightarrow>
     (\<exists>r. get_row ik_id k (t_idempotency (proj st)) = Some r \<and> ik_request_hash r = hash \<and>
        ik_status r = status \<and> ik_body r = col \<and> ik_expires_at r = expires)"

lemma find_conj: "find P xs = Some x \<Longrightarrow> Q x \<Longrightarrow> find (\<lambda>y. P y \<and> Q y) xs = Some x"
  by (induction xs) (auto split: if_split_asm)

lemma lookup_pinned:
  assumes "pinned (t, s, k) hash status col expires st" "now < expires"
  shows "lookup now st t s k hash' = (if hash' = hash then Inr (Some (status, col)) else Inl ErrConflict)"
proof -
  obtain r where r: "find (\<lambda>r. ik_id r = (t, s, k)) (t_idempotency (proj st)) = Some r"
    "ik_request_hash r = hash" "ik_status r = status" "ik_body r = col" "ik_expires_at r = expires"
    using assms(1) by (auto simp: pinned_def get_row_def)
  have "find (\<lambda>r. ik_id r = (t, s, k) \<and> ik_expires_at r > now) (t_idempotency (proj st)) = Some r"
    using find_conj [OF r(1)] r(5) assms(2) by simp
  then show ?thesis using r by (simp add: lookup_def)
qed

text \<open>The events that write the row of a key.\<close>

definition touches :: "ext \<Rightarrow> uuid \<times> string \<times> string \<Rightarrow> spec \<Rightarrow> bool" where
  "touches E k s \<longleftrightarrow> sp_kind s = EventIdempotencyRecorded \<and>
     juuid E (jget (sp_payload s) ''token_id'') = Inr (fst k) \<and>
     jstring (jget (sp_payload s) ''scope'') = Inr (fst (snd k)) \<and>
     jstring (jget (sp_payload s) ''key'') = Inr (snd (snd k))"

lemma idempotencyRecorded_cases:
  assumes "idempotencyRecordedProjector E ev t = Inr t'"
  obtains tid scope key hash raw status body expires where
    "juuid E (jget (ev_payload ev) ''token_id'') = Inr tid"
    "jstring (jget (ev_payload ev) ''scope'') = Inr scope"
    "jstring (jget (ev_payload ev) ''key'') = Inr key"
    "jstring (jget (ev_payload ev) ''request_hash'') = Inr hash" "std_decode hash = Some raw"
    "jinteger (jget (ev_payload ev) ''response_status'') = Inr status"
    "body = (case jraw (ev_payload ev) ''response_body'' of None \<Rightarrow> JObj [] | Some b \<Rightarrow> b)"
    "jget (ev_payload ev) ''expires_at'' = JNull \<longrightarrow> expires = ev_occurred_at ev + idempotency_ttl"
    "t' = t\<lparr>t_idempotency := upsert_row ik_id
       (\<lambda>r. r\<lparr>ik_request_hash := raw, ik_status := status, ik_body := body, ik_expires_at := expires\<rparr>)
       \<lparr>ik_token = tid, ik_scope = scope, ik_key = key, ik_request_hash = raw,
        ik_status = status, ik_body = body, ik_created_at = ev_occurred_at ev,
        ik_expires_at = expires\<rparr> (t_idempotency t)\<rparr>"
  using assms that unfolding idempotencyRecordedProjector_def Let_def need_def
  by (elim bind_err_Inr_E) (auto split: option.split_asm json.split_asm)

lemma ik_id_update [simp]:
  "ik_id (r\<lparr>ik_request_hash := a, ik_status := b, ik_body := c, ik_expires_at := d\<rparr>) = ik_id r"
  by (simp add: ik_id_def)

lemma append_keeps_pinned:
  assumes "app_append E now st s = Inr (i, fresh, st')" "\<not> touches E k s"
    and "pinned k hash status col expires st"
  shows "pinned k hash status col expires st'"
  using assms(1) unfolding app_append_def
proof (cases rule: Append_cases)
  case (insert p)
  have "get_row ik_id k (t_idempotency p) = get_row ik_id k (t_idempotency (proj st))"
  proof (cases "sp_kind s = EventIdempotencyRecorded")
    case False
    then show ?thesis using apply_keeps_idempotency [OF insert(4)] by simp
  next
    case True
    then have "idempotencyRecordedProjector E (event_of now i s) (proj st) = Inr p"
      using insert(4) by (simp add: registry_apply_kinds)
    then show ?thesis
    proof (cases rule: idempotencyRecorded_cases)
      case (1 tid scope key hash raw status body expires)
      with assms(2) True have "(tid, scope, key) \<noteq> k" by (auto simp: touches_def)
      then show ?thesis by (auto simp: 1(9) ik_id_def)
    qed
  qed
  then show ?thesis using assms(3) insert(5) by (simp add: pinned_def)
qed (use assms in simp)

lemma recorded_spec_reads [simp]:
  "sp_kind (recorded_spec E tk scope key hash status body) = EventIdempotencyRecorded"
  "sp_payload (recorded_spec E tk scope key hash status body) =
     recorded_json E (tok_id tk) scope key hash status (decoded_body body)"
  by (simp_all add: recorded_spec_def)

lemma recorded_json_reads [simp]:
  "jget (recorded_json E t scope key hash status col) ''token_id'' = juid E t"
  "jget (recorded_json E t scope key hash status col) ''scope'' = JStr scope"
  "jget (recorded_json E t scope key hash status col) ''key'' = JStr key"
  "jget (recorded_json E t scope key hash status col) ''request_hash'' = JStr (std_encode hash)"
  "jget (recorded_json E t scope key hash status col) ''response_status'' = jint status"
  "jget (recorded_json E t scope key hash status col) ''expires_at'' = JNull"
  "jraw (recorded_json E t scope key hash status col) ''response_body'' = Some col"
  by (simp_all add: recorded_json_def jraw_def)

lemma record_pins:
  assumes "ext_ok E" "record_response E now st tk scope key hash status body = Inr (True, st')"
  shows "pinned (tok_id tk, scope, key) hash status (decoded_body body) (now + idempotency_ttl) st'"
proof -
  let ?s = "recorded_spec E tk scope key hash status body"
  obtain i where "Append E (NewProjectionRegistry E) now st ?s = Inr (i, True, st')"
    using assms(2) by (auto simp: record_response_def app_append_def map_sum_Inr)
  then show ?thesis
  proof (cases rule: Append_cases)
    case (insert p)
    then have "idempotencyRecordedProjector E (event_of now i ?s) (proj st) = Inr p"
      by (simp add: registry_apply_kinds)
    then show ?thesis
    proof (cases rule: idempotencyRecorded_cases)
      case (1 tid scope' key' hash' raw status' body' expires')
      from 1(4) have "hash' = std_encode hash" by simp
      with 1 have "tid = tok_id tk" "scope' = scope" "key' = key" "raw = hash" "status' = status"
        "body' = decoded_body body" "expires' = now + idempotency_ttl"
        using assms(1) by simp_all
      then show ?thesis using 1(9) insert(5) by (auto simp: pinned_def ik_id_def split: option.split)
    qed
  qed simp
qed

text \<open>
  Everything that can happen to the database between the recording of a response and the end of its
  life: appends that do not write the row of the key, and requests with this key, from their first
  lookup or, when they had waited for the lock, from the lookup under it.
\<close>

inductive traffic :: "ext \<Rightarrow> uuid \<times> string \<times> string \<Rightarrow> time \<Rightarrow> db \<Rightarrow> db \<Rightarrow> bool"
  for E k expires where
  idle: "traffic E k expires st st"
| other: "traffic E k expires st st1 \<Longrightarrow> app_append E now st1 s = Inr (i, fresh, st2) \<Longrightarrow>
    \<not> touches E k s \<Longrightarrow> traffic E k expires st st2"
| repeated: "traffic E k expires st st1 \<Longrightarrow> key_of inp = k \<Longrightarrow> at_first ck < expires \<Longrightarrow>
    Execute E ck lock run inp st1 = (out, st2) \<Longrightarrow> traffic E k expires st st2"
| waiting: "traffic E k expires st st1 \<Longrightarrow> key_of inp = k \<Longrightarrow> at_locked ck < expires \<Longrightarrow>
    execute_locked E ck run inp st1 = (out, st2) \<Longrightarrow> traffic E k expires st st2"

definition answer :: "string \<Rightarrow> int \<Rightarrow> json \<Rightarrow> execute_input \<Rightarrow> err + execute_result" where
  "answer hash status col inp =
     (if ei_hash inp = hash then Inr \<lparr>xr_status = status, xr_body = Column col, xr_replayed = True\<rparr>
      else Inl (idempotencyLookupError ErrConflict))"

lemma lookup_input_pinned:
  "pinned (key_of inp) hash status col expires st \<Longrightarrow> now < expires \<Longrightarrow>
   lookup_input now st inp =
     (if ei_hash inp = hash then Inr (Some (status, col)) else Inl ErrConflict)"
  by (simp add: lookup_input_def key_of_def lookup_pinned)

lemma Execute_pinned:
  assumes "pinned (key_of inp) hash status col expires st" "at_first ck < expires"
  shows "snd (Execute E ck lock run inp st) = st"
    and "execute_guard inp = None \<Longrightarrow> Execute E ck lock run inp st = (answer hash status col inp, st)"
  using lookup_input_pinned [OF assms]
  by (auto simp: Execute_def answer_def split: option.split)

lemma execute_locked_pinned:
  assumes "pinned (key_of inp) hash status col expires st" "at_locked ck < expires"
  shows "execute_locked E ck run inp st = (answer hash status col inp, st)"
  using lookup_input_pinned [OF assms] by (simp add: execute_locked_def answer_def)

lemma traffic_keeps_pinned:
  "traffic E k expires st st' \<Longrightarrow> pinned k hash status col expires st \<Longrightarrow>
   pinned k hash status col expires st'"
proof (induction rule: traffic.induct)
  case (repeated st st1 inp ck lock run out st2)
  then show ?case using Execute_pinned(1) [of inp hash status col expires st1 ck E lock run] by simp
next
  case (waiting st st1 inp ck run out st2)
  then show ?case using execute_locked_pinned [of inp hash status col expires st1 ck E run] by simp
qed (auto intro: append_keeps_pinned)

text \<open>The recording run of Execute.\<close>

lemma Execute_fresh:
  assumes "ext_ok E" "Execute E ck lock run inp st = (Inr res, st')"
    and "\<not> xr_replayed res" "xr_status res < 500" "at_final ck < at_record ck + idempotency_ttl"
  obtains col where "xr_body res = Column col"
    "pinned (key_of inp) (ei_hash inp) (xr_status res) col (at_record ck + idempotency_ttl) st'"
proof -
  obtain st0 where locked: "execute_locked E ck run inp st0 = (Inr res, st')"
    using assms(2,3) by (auto simp: Execute_def split: option.split_asm sum.split_asm)
  have none: "lookup_input (at_locked ck) st0 inp = Inr None"
    using locked assms(3) by (auto simp: execute_locked_def split: option.split_asm sum.split_asm)
  obtain status0 bytes calls st1 where run: "run (request_of inp) st0 = (Inr (status0, bytes, calls), st1)"
    using locked none by (auto simp: execute_locked_def split: sum.split_asm prod.split_asm)
  define status where "status = (if status0 = 0 then 200 else status0)"
  define rb where "rb = (case recordedResponse calls of Some b \<Rightarrow> b | None \<Rightarrow> bytes)"
  have body: "(if status \<ge> 500
      then (Inr \<lparr>xr_status = status, xr_body = Bytes bytes, xr_replayed = False\<rparr>, st1)
      else case record_response E (at_record ck) st1 (ei_token inp) (ei_scope inp)
             (ei_key inp) (ei_hash inp) status rb of
             Inl e \<Rightarrow> (Inl e, st1)
           | Inr (fresh, st2) \<Rightarrow>
               (case lookup_input (at_final ck) st2 inp of
                  Inr (Some (status', col)) \<Rightarrow>
                    (Inr \<lparr>xr_status = status', xr_body = Column col, xr_replayed = \<not> fresh\<rparr>, st2)
                | _ \<Rightarrow> (Inr \<lparr>xr_status = status, xr_body = Bytes rb, xr_replayed = \<not> fresh\<rparr>, st2))) =
      (Inr res, st')"
    using locked unfolding execute_locked_def none Let_def status_def rb_def by (simp add: run)
  have small: "\<not> 500 \<le> status" using body assms(4) by (auto split: if_split_asm)
  obtain fresh where rec: "record_response E (at_record ck) st1 (ei_token inp) (ei_scope inp) (ei_key inp)
      (ei_hash inp) status rb = Inr (fresh, st')"
    and tail: "(case lookup_input (at_final ck) st' inp of
                  Inr (Some (status', col)) \<Rightarrow>
                    (Inr \<lparr>xr_status = status', xr_body = Column col, xr_replayed = \<not> fresh\<rparr>, st')
                | _ \<Rightarrow> (Inr \<lparr>xr_status = status, xr_body = Bytes rb, xr_replayed = \<not> fresh\<rparr>, st')) =
        (Inr res, st')"
    using body small by (auto split: option.split_asm sum.split_asm prod.split_asm)
  from tail assms(3) have fresh by (auto split: option.split_asm sum.split_asm prod.split_asm)
  with rec have pin: "pinned (key_of inp) (ei_hash inp) status (decoded_body rb)
      (at_record ck + idempotency_ttl) st'"
    using record_pins [OF assms(1)] by (simp add: key_of_def)
  with tail lookup_input_pinned [OF pin assms(5)]
  have "res = \<lparr>xr_status = status, xr_body = Column (decoded_body rb), xr_replayed = \<not> fresh\<rparr>" by simp
  with pin that show thesis by simp
qed

text \<open>
  C35: A concluded request is answered once.  When Execute ran the handler and recorded its answer,
  then until the record expires, whatever else happens and however often the request is repeated,
  concurrently or later, the same request gets the recorded answer and a request with the same key
  and another body is refused; in both cases no handler runs and nothing changes.
\<close>
theorem concluded_request_replays:
  assumes "ext_ok E" "Execute E ck lock run inp st = (Inr res, st1)"
    and "\<not> xr_replayed res" "xr_status res < 500" "at_final ck < at_record ck + idempotency_ttl"
    and "traffic E (key_of inp) (at_record ck + idempotency_ttl) st1 st2"
    and "key_of inp' = key_of inp" "execute_guard inp' = None"
    and "at_first ck' < at_record ck + idempotency_ttl"
  shows "Execute E ck' lock' run' inp' st2 =
    (if ei_hash inp' = ei_hash inp then Inr (res\<lparr>xr_replayed := True\<rparr>)
     else Inl (idempotencyLookupError ErrConflict), st2)"
proof -
  obtain col where col: "xr_body res = Column col"
    "pinned (key_of inp) (ei_hash inp) (xr_status res) col (at_record ck + idempotency_ttl) st1"
    using Execute_fresh [OF assms(1-5)] .
  have "pinned (key_of inp') (ei_hash inp) (xr_status res) col (at_record ck + idempotency_ttl) st2"
    using traffic_keeps_pinned [OF assms(6) col(2)] assms(7) by simp
  from Execute_pinned(2) [OF this assms(9,8)] show ?thesis
    using col(1) by (simp add: answer_def)
qed

definition post1 :: execute_input where
  "post1 = \<lparr>ei_token = root1, ei_scope = ''POST /v1/work-items'', ei_key = ''k1'', ei_hash = ''h''\<rparr>"

definition clock_at :: "time \<Rightarrow> clock" where
  "clock_at t = \<lparr>at_first = t, at_locked = t, at_record = t, at_final = t\<rparr>"

definition create7 :: handler where
  "create7 req st = (Inr (201, ''{}'', []), db7)"

definition recorded1 :: spec where
  "recorded1 = recorded_spec decimal_ext root1 ''POST /v1/work-items'' ''k1'' ''h'' 201 ''{}''"

lemma recorded1_id: "length (id_preimage recorded1) mod 256 \<noteq> length (id_preimage created_spec) mod 256"
  by code_simp

lemma recorded1_valid: "spec_validate recorded1 = None"
  by code_simp

lemma recorded1_applies:
  "\<exists>p. idempotencyRecordedProjector decimal_ext (event_of now i recorded1) t = Inr p"
proof -
  have "\<not> isl (idempotencyRecordedProjector decimal_ext (event_of now i recorded1) t)" by code_simp
  then show ?thesis by (auto simp: isl_def split: sum.splits)
       (metis sum.exhaust)
qed

lemma post1_recorded:
  "\<exists>res st1. Execute decimal_ext (clock_at 5) Inr create7 post1 (empty_store no_tables) = (Inr res, st1) \<and>
     \<not> xr_replayed res \<and> xr_status res = 201"
proof -
  let ?i = "length_id (length (id_preimage recorded1))"
  have id: "DeterministicID decimal_ext recorded1 = Inr ?i"
    by (rule decimal_ext_id [OF recorded1_valid])
  have "?i \<noteq> created_id" using recorded1_id by (simp add: created_id_def length_id_eq_iff)
  then have new: "?i \<notin> ev_id ` set (log db7)" by (simp add: db7_def db7_at_def)
  obtain p where p: "registry_apply (NewProjectionRegistry decimal_ext) (event_of 5 ?i recorded1) (proj db7) = Inr p"
    using recorded1_applies [of 5 ?i "proj db7"] by (auto simp: registry_apply_kinds recorded1_def)
  define st1 where "st1 = \<lparr>log = log db7 @ [as_stored (event_of 5 ?i recorded1)], proj = p\<rparr>"
  have rec: "record_response decimal_ext 5 db7 root1 ''POST /v1/work-items'' ''k1'' ''h'' 201 ''{}'' = Inr (True, st1)"
    using id new p by (simp add: record_response_def app_append_def Append_def st1_def flip: recorded1_def)
  have "pinned (key_of post1) ''h'' 201 (decoded_body ''{}'') (5 + idempotency_ttl) st1"
    using record_pins [OF decimal_ext_ok rec] by (simp add: key_of_def post1_def)
  from lookup_input_pinned [OF this, of 5]
  have "lookup_input 5 st1 post1 = Inr (Some (201, decoded_body ''{}''))"
    by (simp add: idempotency_ttl_def post1_def)
  moreover have "lookup_input 5 (empty_store no_tables) post1 = Inr None"
    by (simp add: lookup_input_def lookup_def no_tables_def)
  moreover have "execute_guard post1 = None" by (simp add: execute_guard_def post1_def root1_def)
  ultimately show ?thesis
    using rec by (simp add: Execute_def execute_locked_def clock_at_def create7_def recordedResponse_def)
      (simp add: post1_def)
qed

theorem concluded_request_replays_witness:
  "\<exists>res st1. Execute decimal_ext (clock_at 5) Inr create7 post1 (empty_store no_tables) = (Inr res, st1) \<and>
     Execute decimal_ext (clock_at 9) Inr create7 post1 st1 = (Inr (res\<lparr>xr_replayed := True\<rparr>), st1)"
proof -
  obtain res st1 where r: "Execute decimal_ext (clock_at 5) Inr create7 post1 (empty_store no_tables) = (Inr res, st1)"
    "\<not> xr_replayed res" "xr_status res = 201"
    using post1_recorded by blast
  have "Execute decimal_ext (clock_at 9) Inr create7 post1 st1 =
    (if ei_hash post1 = ei_hash post1 then Inr (res\<lparr>xr_replayed := True\<rparr>)
     else Inl (idempotencyLookupError ErrConflict), st1)"
    by (rule concluded_request_replays [OF decimal_ext_ok r(1,2) _ _ traffic.idle])
       (simp_all add: r(3) clock_at_def idempotency_ttl_def execute_guard_def post1_def root1_def)
  with r(1) show ?thesis by auto
qed

text \<open>
  The request hash stands for the decoded body: unless SHA-256 collides on their canonical
  encodings, two accepted bodies have the same hash exactly when they decode to the same JSON value
  up to the order of keys, a blank body and null counting as the empty object.
\<close>
theorem request_hash_identifies:
  assumes "request_value a = Some v" "request_value b = Some w"
    and "sha256 E (CanonicalJSON v) = sha256 E (CanonicalJSON w) \<Longrightarrow> CanonicalJSON v = CanonicalJSON w"
  shows "requestHash E a = requestHash E b \<longleftrightarrow> same_value (stored_payload v) (stored_payload w)"
proof -
  have "jwf v" "jwf w"
    using assms(1,2) by (auto simp: request_value_def dest!: Decode_ok intro: value_ok_jwf split: if_split_asm)
  then have "CanonicalJSON v = CanonicalJSON w \<longleftrightarrow> same_value (stored_payload v) (stored_payload w)"
    by (rule CanonicalJSON_eq_iff)
  then show ?thesis using assms by (auto simp: requestHash_def)
qed

definition swapped_body :: string where
  "swapped_body = ''{'' @ [QUOTE] @ ''a'' @ [QUOTE] @ '':'' @ [QUOTE, BSL] @ ''u00E9'' @ [QUOTE] @ '','' @
     [QUOTE] @ ''b'' @ [QUOTE] @ '':[1,2.5e3]}''"

definition swapped_value :: json where
  "swapped_value = JObj [(''a'', JStr [CHR 0xC3, CHR 0xA9]), (''b'', JArr [JNum ''1'', JNum ''2.5e3''])]"

theorem request_hash_identifies_witness:
  "requestHash decimal_ext pair_body = requestHash decimal_ext swapped_body \<longleftrightarrow>
     same_value (stored_payload pair_value) (stored_payload swapped_value)"
proof (rule request_hash_identifies)
  have "trim_space pair_body \<noteq> []" by code_simp
  then show "request_value pair_body = Some pair_value"
    using pair_body_decodes by (simp add: request_value_def)
  have "trim_space swapped_body \<noteq> []" by code_simp
  moreover have "Decode swapped_body = Some swapped_value" by code_simp
  ultimately show "request_value swapped_body = Some swapped_value"
    by (simp add: request_value_def)
  show "CanonicalJSON pair_value = CanonicalJSON swapped_value"
    by (simp add: CanonicalJSON_def pair_value_def swapped_value_def sort_key_def)
qed

end
