(* ===== verification/Typing.thy ===== *)
theory Typing
  imports Auth
begin

text \<open>
  The types of the tables: what holds of every row that the projectors write.  The CHECK
  constraints of the migrations and the validation of the projectors together keep keys
  distinct, states and statuses inside their enumerations, and optional columns set exactly when
  the state of the row says so.  All projectors are covered, so the facts hold in every database
  that events can produce.
\<close>

definition table_ok :: "('r \<Rightarrow> 'k) \<Rightarrow> ('r \<Rightarrow> bool) \<Rightarrow> 'r list \<Rightarrow> bool" where
  "table_ok key ok rows \<longleftrightarrow> distinct (map key rows) \<and> list_all ok rows"

lemma table_ok_Nil [simp]: "table_ok key ok []"
  by (simp add: table_ok_def)

lemma table_ok_insert [simp]:
  "table_ok key ok rows \<Longrightarrow> ok r \<Longrightarrow> table_ok key ok (insert_row key r rows)"
  by (simp add: table_ok_def insert_row_def)

lemma table_ok_update:
  assumes "table_ok key ok rows" "\<And>r. ok r \<Longrightarrow> ok (f r)" "\<And>r. key (f r) = key r"
  shows "table_ok key ok (update_row key k f rows)"
  using assms by (auto simp: table_ok_def update_row_def list_all_iff comp_def if_distrib [of key] cong: if_cong)

lemma table_ok_upsert:
  assumes "table_ok key ok rows" "ok r"
    "\<And>r'. key r' = key r \<Longrightarrow> ok r' \<Longrightarrow> ok (f r') \<and> key (f r') = key r'"
  shows "table_ok key ok (upsert_row key f r rows)"
proof (cases "key r \<in> set (map key rows)")
  case True
  have "map key (update_row key (key r) f rows) = map key rows"
    using assms(1,3) by (auto simp: update_row_def table_ok_def list_all_iff)
  moreover have "list_all ok (update_row key (key r) f rows)"
    using assms(1,3) by (auto simp: update_row_def table_ok_def list_all_iff)
  ultimately show ?thesis using True assms(1) by (simp add: upsert_row_def table_ok_def)
qed (use assms in \<open>auto simp: upsert_row_def table_ok_def\<close>)

lemma table_ok_get: "table_ok key ok rows \<Longrightarrow> get_row key k rows = Some r \<Longrightarrow> ok r"
  by (auto simp: table_ok_def list_all_iff dest: get_row_Some)

section \<open>Rows\<close>

definition token_ok :: "token \<Rightarrow> bool" where
  "token_ok tk \<longleftrightarrow> tok_name tk \<noteq> [] \<and> source_valid (tok_source tk)"

definition item_ok :: "work_item \<Rightarrow> bool" where
  "item_ok w \<longleftrightarrow> wi_title w \<noteq> [] \<and> state_valid (wi_state w) \<and> human_review_valid (wi_human_review w) \<and>
     wi_state_reason w \<noteq> Some [] \<and> list_all (\<lambda>c. c \<noteq> [] \<and> trim_space c = c) (wi_checks w)"

definition relation_ok :: "relation \<Rightarrow> bool" where
  "relation_ok r \<longleftrightarrow> rel_parent r \<noteq> rel_child r \<and> rel_parent r \<noteq> uuid_nil \<and> rel_child r \<noteq> uuid_nil"

definition approval_row_ok :: "approval \<Rightarrow> bool" where
  "approval_row_ok a \<longleftrightarrow> ap_work_item a \<noteq> uuid_nil \<and> ap_summary a \<noteq> [] \<and>
     ap_status a \<in> {StatusPending, DecisionApproved, DecisionDenied, DecisionExpired} \<and>
     ap_decision a = (if ap_status a = StatusPending then None else Some (ap_status a)) \<and>
     (ap_decided_at a = None \<longleftrightarrow> ap_status a = StatusPending)"

definition verdict_row_ok :: "verdict_row \<Rightarrow> bool" where
  "verdict_row_ok v \<longleftrightarrow> cv_work_item v \<noteq> uuid_nil \<and> cv_identity v \<noteq> [] \<and> cv_version v \<ge> 1 \<and>
     cv_attempt v \<ge> 1 \<and> length (cv_digest v) = 64 \<and> list_all hex_digit (cv_digest v) \<and>
     verdict_valid (cv_disposition v) \<and> cv_reason v \<noteq> []"

definition job_ok :: "job \<Rightarrow> bool" where
  "job_ok j \<longleftrightarrow> jb_kind j = KindDispatch \<and> jb_state j = JobPending \<and> jb_attempts j = 0 \<and> jb_lease_until j = None"

definition node_ok :: "node \<Rightarrow> bool" where
  "node_ok n \<longleftrightarrow> ValidNodeID (nd_id n) \<and> nd_status n \<noteq> [] \<and> list_all ValidNodeID (nd_relay_via n)"

definition command_ok :: "command_row \<Rightarrow> bool" where
  "command_ok c \<longleftrightarrow> ValidNodeID (cq_target c) \<and> cq_path c \<noteq> [] \<and> cq_origin_key c \<noteq> [] \<and>
     cq_state c = (case cq_ok c of None \<Rightarrow> ''pending'' | Some True \<Rightarrow> ''done'' | Some False \<Rightarrow> ''failed'') \<and>
     (cq_acked_at c = None \<longleftrightarrow> cq_ok c = None) \<and> (cq_status_code c = None \<longleftrightarrow> cq_ok c = None)"

definition key_ok :: "idempotency_row \<Rightarrow> bool" where
  "key_ok r \<longleftrightarrow> ik_token r \<noteq> uuid_nil \<and> ik_scope r \<noteq> [] \<and> ik_key r \<noteq> []"

definition signal_ok :: "signal_row \<Rightarrow> bool" where
  "signal_ok s \<longleftrightarrow> sr_kind s \<noteq> [] \<and> sr_dedupe_key s \<noteq> Some [] \<and> sr_work_item s \<noteq> Some uuid_nil"

definition det_error_ok :: "det_error \<Rightarrow> bool" where
  "det_error_ok d \<longleftrightarrow> de_component d \<noteq> [] \<and> de_code d \<noteq> [] \<and> de_message d \<noteq> [] \<and>
     severity_valid (de_severity d) \<and> jobject (de_details d) \<and> de_details d \<noteq> JNull \<and>
     (de_masked d \<longleftrightarrow> de_masked_at d \<noteq> None) \<and> (\<not> de_masked d \<longrightarrow> de_mask_reason d = None \<and> de_masked_by d = None)"

definition action_row_ok :: "connector_action \<Rightarrow> bool" where
  "action_row_ok a \<longleftrightarrow> ca_work_item a \<noteq> uuid_nil \<and> ca_mode a \<in> {ModeRead, ModeWrite} \<and>
     ca_status a \<in> {StatusRequested, StatusAwaitingApproval, StatusApproved, StatusSent} \<and>
     (ca_approval a = None \<longleftrightarrow> ca_mode a = ModeRead) \<and> ca_approval a \<noteq> Some uuid_nil \<and>
     (ca_response_status a \<noteq> None \<longleftrightarrow> ca_status a = StatusSent)"

definition outbox_ok :: "outbox_row \<Rightarrow> bool" where
  "outbox_ok b \<longleftrightarrow> ob_state b = ''pending'' \<and> ob_attempts b = 0 \<and> ob_lease_until b = None"

definition profile_ok :: "active_profile option \<Rightarrow> bool" where
  "profile_ok p \<longleftrightarrow> (case p of None \<Rightarrow> True | Some r \<Rightarrow> pp_name r \<noteq> [] \<and> pp_fingerprint r \<noteq> [])"

text \<open>A whole database.\<close>

definition tables_ok :: "tables \<Rightarrow> bool" where
  "tables_ok t \<longleftrightarrow>
     table_ok tok_id token_ok (t_tokens t) \<and>
     table_ok wi_id item_ok (t_work_items t) \<and> table_ok rel_id relation_ok (t_relations t) \<and>
     table_ok ap_id approval_row_ok (t_approvals t) \<and> table_ok ik_id key_ok (t_idempotency t) \<and>
     table_ok cv_event verdict_row_ok (t_verdicts t) \<and> table_ok jb_id job_ok (t_jobs t) \<and>
     table_ok nd_id node_ok (t_nodes t) \<and> table_ok cq_id command_ok (t_commands t) \<and>
     table_ok sr_id signal_ok (t_signals t) \<and> table_ok de_id det_error_ok (t_det_errors t) \<and>
     table_ok ca_id action_row_ok (t_actions t) \<and> table_ok ob_id outbox_ok (t_outbox t) \<and>
     table_ok ms_id (\<lambda>_. True) (t_messages t) \<and> table_ok mp_id (\<lambda>p. mp_text p \<noteq> []) (t_message_parts t) \<and>
     table_ok tr_name (\<lambda>_. True) (t_tropisms t) \<and> table_ok cu_name (\<lambda>_. True) (t_cultivars t) \<and>
     table_ok pj_name (\<lambda>_. True) (t_projections t) \<and> profile_ok (t_profile t)"

section \<open>Every projector keeps the types\<close>

named_theorems keeps_types

lemma normalized_checks:
  "normalize_checks i cs = Inr r \<Longrightarrow> list_all (\<lambda>c. c \<noteq> [] \<and> trim_space c = c) r"
  by (induction cs arbitrary: i r) (auto simp: map_sum_Inr split: if_splits)

lemma normalized_review: "normalizeHumanReviewStatus s = Inr r \<Longrightarrow> human_review_valid r"
  by (auto simp: normalizeHumanReviewStatus_def human_review_valid_def split: if_splits)

lemma null_if_empty_not_Nil [simp]: "null_if_empty s \<noteq> Some []"
  by (simp add: null_if_empty_def)

lemma tokenCreated_types [keeps_types]:
  "tokenCreatedProjector ev t = Inr t' \<Longrightarrow> tables_ok t \<Longrightarrow> tables_ok t'"
  unfolding tokenCreatedProjector_def Let_def need_def
  by (elim bind_err_Inr_E) (auto simp: tables_ok_def token_ok_def split: option.splits if_splits)

lemma tokenRevoked_types [keeps_types]:
  "tokenRevokedProjector ev t = Inr t' \<Longrightarrow> tables_ok t \<Longrightarrow> tables_ok t'"
  by (auto simp: tokenRevokedProjector_def tables_ok_def token_ok_def intro!: table_ok_update)

lemma workItemCreated_types [keeps_types]:
  "workItemCreatedProjector ev t = Inr t' \<Longrightarrow> tables_ok t \<Longrightarrow> tables_ok t'"
  unfolding workItemCreatedProjector_def Let_def need_def normalizeSuggestedConvergenceChecks_def
  by (elim bind_err_Inr_E) (auto simp: tables_ok_def item_ok_def normalized_checks normalized_review)

lemma workItemTransitioned_types [keeps_types]:
  assumes "workItemTransitionedProjector ev t = Inr t'" "tables_ok t"
  shows "tables_ok t'"
proof -
  obtain frm dest reason where t': "t' = t\<lparr>t_work_items := update_row wi_id (ev_subject_id ev)
      (transition_row ev frm dest reason) (t_work_items t)\<rparr>"
    "ev_subject_id ev \<in> wi_id ` set (t_work_items t) \<longrightarrow> state_valid dest"
    using assms(1) unfolding workItemTransitionedProjector_def need_def
    by (elim bind_err_Inr_E) (auto split: if_splits)
  have "table_ok wi_id item_ok (t_work_items t')"
  proof (cases "ev_subject_id ev \<in> wi_id ` set (t_work_items t)")
    case True
    with t' assms(2) show ?thesis
      by (auto simp: tables_ok_def item_ok_def transition_row_def intro!: table_ok_update)
  next
    case False
    then have "update_row wi_id (ev_subject_id ev) (transition_row ev frm dest reason) (t_work_items t) =
        t_work_items t"
      by (force simp: update_row_def intro!: map_idI)
    with t' assms(2) show ?thesis by (simp add: tables_ok_def)
  qed
  with t' assms(2) show ?thesis by (simp add: tables_ok_def)
qed

lemma touch_types: "tables_ok t \<Longrightarrow> tables_ok (touch_work_item ev t)"
  by (auto simp: touch_work_item_def tables_ok_def item_ok_def intro!: table_ok_update)

lemma touched_types [keeps_types]:
  "workItemEventAppendedProjector ev t = Inr t' \<Longrightarrow> tables_ok t \<Longrightarrow> tables_ok t'"
  "checksProposedProjector ev t = Inr t' \<Longrightarrow> tables_ok t \<Longrightarrow> tables_ok t'"
  by (auto simp: workItemEventAppendedProjector_def checksProposedProjector_def touch_types split: if_splits)

lemma metadataUpdated_types [keeps_types]:
  "metadataUpdatedProjector ev t = Inr t' \<Longrightarrow> tables_ok t \<Longrightarrow> tables_ok t'"
  unfolding metadataUpdatedProjector_def Let_def normalizeSuggestedConvergenceChecks_def
  by (elim bind_err_Inr_E)
     (auto simp: tables_ok_def item_ok_def normalized_checks normalized_review intro!: table_ok_update)

lemma relationAdded_types [keeps_types]:
  "relationAddedProjector E ev t = Inr t' \<Longrightarrow> tables_ok t \<Longrightarrow> tables_ok t'"
  unfolding relationAddedProjector_def Let_def need_def
  by (elim bind_err_Inr_E) (auto simp: tables_ok_def relation_ok_def)

lemma approvalCreated_types [keeps_types]:
  "approvalCreatedProjector E ev t = Inr t' \<Longrightarrow> tables_ok t \<Longrightarrow> tables_ok t'"
  unfolding approvalCreatedProjector_def Let_def need_def
  by (elim bind_err_Inr_E) (auto simp: tables_ok_def approval_row_ok_def split: option.splits)

lemma approvalDecided_types [keeps_types]:
  "approvalDecidedProjector ev t = Inr t' \<Longrightarrow> tables_ok t \<Longrightarrow> tables_ok t'"
  unfolding approvalDecidedProjector_def need_def
  by (elim bind_err_Inr_E)
     (auto simp: tables_ok_def approval_row_ok_def decide_row_def intro!: table_ok_update)

lemma approvalExpired_types [keeps_types]:
  "approvalExpiredProjector ev t = Inr t' \<Longrightarrow> tables_ok t \<Longrightarrow> tables_ok t'"
  unfolding approvalExpiredProjector_def need_def
  by (elim bind_err_Inr_E)
     (auto simp: tables_ok_def approval_row_ok_def decide_row_def intro!: table_ok_update)

lemma idempotencyRecorded_types [keeps_types]:
  "idempotencyRecordedProjector E ev t = Inr t' \<Longrightarrow> tables_ok t \<Longrightarrow> tables_ok t'"
  unfolding idempotencyRecordedProjector_def Let_def need_def
  by (elim bind_err_Inr_E)
     (auto simp: tables_ok_def key_ok_def ik_id_def split: option.splits intro!: table_ok_upsert)

lemma verdictRecorded_types [keeps_types]:
  "verdictRecordedProjector ev t = Inr t' \<Longrightarrow> tables_ok t \<Longrightarrow> tables_ok t'"
  unfolding verdictRecordedProjector_def decodeVerdictRecordedPayload_def Let_def
  by (auto simp: tables_ok_def verdict_row_ok_def elim!: bind_err_Inr_E split: if_splits
      intro!: table_ok_upsert)

lemma dispatchRequested_types [keeps_types]:
  "dispatchRequestedProjector ev t = Inr t' \<Longrightarrow> tables_ok t \<Longrightarrow> tables_ok t'"
  by (auto simp: dispatchRequestedProjector_def Let_def tables_ok_def job_ok_def split: if_splits)

lemma profileSwitched_types [keeps_types]:
  "profileSwitchedProjector ev t = Inr t' \<Longrightarrow> tables_ok t \<Longrightarrow> tables_ok t'"
  unfolding profileSwitchedProjector_def need_def
  by (elim bind_err_Inr_E) (auto simp: tables_ok_def profile_ok_def)

lemma relay_types: "relay_from i hops = Inr () \<Longrightarrow> list_all ValidNodeID hops"
  by (induction hops arbitrary: i) (auto split: if_splits)

lemma nodeRegistered_types [keeps_types]:
  "nodeRegisteredProjector ev t = Inr t' \<Longrightarrow> tables_ok t \<Longrightarrow> tables_ok t'"
  unfolding nodeRegisteredProjector_def Let_def need_def need_version_1_def validateNodeID_def validateRelayVia_def
  by (elim bind_err_Inr_E) (auto simp: tables_ok_def node_ok_def relay_types intro!: table_ok_upsert)

lemma routeUpdated_types [keeps_types]:
  "routeUpdatedProjector ev t = Inr t' \<Longrightarrow> tables_ok t \<Longrightarrow> tables_ok t'"
  unfolding routeUpdatedProjector_def need_def need_version_1_def validateNodeID_def validateRelayVia_def
  by (elim bind_err_Inr_E) (auto simp: tables_ok_def node_ok_def relay_types intro!: table_ok_update)

lemma commandQueued_types [keeps_types]:
  "commandQueuedProjector E ev t = Inr t' \<Longrightarrow> tables_ok t \<Longrightarrow> tables_ok t'"
  unfolding commandQueuedProjector_def Let_def need_def need_version_1_def
  by (elim bind_err_Inr_E) (auto simp: tables_ok_def command_ok_def)

lemma commandAcked_types [keeps_types]:
  "commandAckedProjector E ev t = Inr t' \<Longrightarrow> tables_ok t \<Longrightarrow> tables_ok t'"
  unfolding commandAckedProjector_def need_def need_version_1_def
  by (elim bind_err_Inr_E) (auto simp: tables_ok_def command_ok_def intro!: table_ok_update)

lemma messageCaptured_types [keeps_types]:
  assumes "messageCapturedProjector E ev t = Inr t'" "tables_ok t"
  shows "tables_ok t'"
proof -
  obtain wid body where t': "t' = t\<lparr>t_messages := insert_row ms_id
        \<lparr>ms_id = ev_subject_id ev, ms_source = ev_source ev, ms_actor = ev_actor ev, ms_work_item = wid,
          ms_created_at = ev_occurred_at ev\<rparr> (t_messages t)\<rparr> \<or>
      message_part_id E (ev_subject_id ev) \<notin> mp_id ` set (t_message_parts t) \<and> body \<noteq> [] \<and>
      t' = t\<lparr>t_messages := insert_row ms_id
        \<lparr>ms_id = ev_subject_id ev, ms_source = ev_source ev, ms_actor = ev_actor ev, ms_work_item = wid,
          ms_created_at = ev_occurred_at ev\<rparr> (t_messages t),
        t_message_parts := t_message_parts t @ [\<lparr>mp_id = message_part_id E (ev_subject_id ev),
          mp_message = ev_subject_id ev, mp_ordinal = 0, mp_text = body\<rparr>]\<rparr>"
    using assms(1) unfolding messageCapturedProjector_def Let_def need_def
    by (elim bind_err_Inr_E) (auto split: if_splits)
  then have "table_ok mp_id (\<lambda>p. mp_text p \<noteq> []) (t_message_parts t')"
    using assms(2) by (auto simp: tables_ok_def table_ok_def)
  moreover have "table_ok ms_id (\<lambda>_. True) (t_messages t')"
    using t' assms(2) by (auto simp: tables_ok_def)
  ultimately show ?thesis using t' assms(2) by (auto simp: tables_ok_def)
qed

lemma decoded_signal:
  "decodeSignalPayload E j = Inr p \<Longrightarrow> sp_signal_kind p \<noteq> []"
  unfolding decodeSignalPayload_def Let_def need_def
  by (elim bind_err_Inr_E) (auto split: option.splits if_splits)

lemma signalReceived_types [keeps_types]:
  "signalReceivedProjector E ev t = Inr t' \<Longrightarrow> tables_ok t \<Longrightarrow> tables_ok t'"
  unfolding signalReceivedProjector_def Let_def
  by (elim bind_err_Inr_E) (auto simp: tables_ok_def signal_ok_def decoded_signal intro!: table_ok_upsert)

lemma errorReported_types [keeps_types]:
  "errorReportedProjector ev t = Inr t' \<Longrightarrow> tables_ok t \<Longrightarrow> tables_ok t'"
  unfolding errorReportedProjector_def Let_def need_def
  by (elim bind_err_Inr_E)
     (auto simp: tables_ok_def det_error_ok_def jobject_def split: option.splits json.splits)

lemma errorMasked_types [keeps_types]:
  "errorMaskedProjector E ev t = Inr t' \<Longrightarrow> tables_ok t \<Longrightarrow> tables_ok t'"
  unfolding errorMaskedProjector_def update_det_error_def
  by (elim bind_err_Inr_E)
     (auto simp: tables_ok_def det_error_ok_def split: if_splits intro!: table_ok_update)

lemma errorUnmasked_types [keeps_types]:
  "errorUnmaskedProjector E ev t = Inr t' \<Longrightarrow> tables_ok t \<Longrightarrow> tables_ok t'"
  unfolding errorUnmaskedProjector_def update_det_error_def
  by (elim bind_err_Inr_E)
     (auto simp: tables_ok_def det_error_ok_def split: if_splits intro!: table_ok_update)

lemma requested_row_ok:
  assumes "ca_work_item a \<noteq> uuid_nil" "ca_mode a = ModeRead \<or> ca_mode a = ModeWrite"
    "ca_status a = (if ca_mode a = ModeWrite then StatusAwaitingApproval else StatusRequested)"
    "ca_approval a = (if ca_mode a = ModeWrite then Some approval else None)"
    "ca_mode a = ModeWrite \<longrightarrow> approval \<noteq> uuid_nil" "ca_response_status a = None"
  shows "action_row_ok a"
  using assms(2)
proof
  assume "ca_mode a = ModeRead"
  with assms show ?thesis by (simp add: action_row_ok_def)
next
  assume "ca_mode a = ModeWrite"
  with assms show ?thesis by (simp add: action_row_ok_def)
qed

lemma actionRequested_types [keeps_types]:
  assumes "actionRequestedProjector E ev t = Inr t'" "tables_ok t"
  shows "tables_ok t'"
proof -
  obtain wid mode meth url approval where g: "wid \<noteq> uuid_nil" "mode = ModeRead \<or> mode = ModeWrite"
      "mode = ModeWrite \<longrightarrow> approval \<noteq> uuid_nil"
    and t': "t\<lparr>t_actions := insert_row ca_id
      \<lparr>ca_id = ev_subject_id ev, ca_work_item = wid, ca_mode = mode, ca_method = meth, ca_url = url,
        ca_request = (if jget (ev_payload ev) ''request'' = JNull then JObj []
          else jget (ev_payload ev) ''request''),
        ca_status = (if mode = ModeWrite then StatusAwaitingApproval else StatusRequested),
        ca_approval = (if mode = ModeWrite then Some approval else None),
        ca_response_status = None, ca_response_body = [], ca_error = [],
        ca_requested_by = ev_actor ev, ca_source = ev_source ev,
        ca_created_at = ev_occurred_at ev, ca_updated_at = ev_occurred_at ev\<rparr> (t_actions t)\<rparr> = t'"
    using assms(1) unfolding actionRequestedProjector_def Let_def need_def
    by (elim bind_err_Inr_E) (simp only: guard_err_simps sum.inject)
  have "table_ok ca_id action_row_ok (t_actions t')"
    unfolding t' [symmetric] using assms(2) g
    by (simp add: tables_ok_def requested_row_ok [where approval = approval] del: disj_imp)
  with assms(2) show ?thesis by (auto simp: tables_ok_def t' [symmetric])
qed

lemma actionApproved_types [keeps_types]:
  "actionApprovedProjector E ev t = Inr t' \<Longrightarrow> tables_ok t \<Longrightarrow> tables_ok t'"
  unfolding actionApprovedProjector_def Let_def need_def
  by (elim bind_err_Inr_E)
     (auto simp: tables_ok_def action_row_ok_def outbox_ok_def intro!: table_ok_update)

lemma actionSent_types [keeps_types]:
  "actionSentProjector ev t = Inr t' \<Longrightarrow> tables_ok t \<Longrightarrow> tables_ok t'"
  unfolding actionSentProjector_def Let_def
  by (elim bind_err_Inr_E) (auto simp: tables_ok_def action_row_ok_def intro!: table_ok_update)

lemma definitions_types [keeps_types]:
  "tropismDefinedProjector ev t = Inr t' \<Longrightarrow> tables_ok t \<Longrightarrow> tables_ok t'"
  "cultivarDefinedProjector ev t = Inr t' \<Longrightarrow> tables_ok t \<Longrightarrow> tables_ok t'"
  "projectionDefinedProjector ev t = Inr t' \<Longrightarrow> tables_ok t \<Longrightarrow> tables_ok t'"
  by (auto simp: tropismDefinedProjector_def cultivarDefinedProjector_def projectionDefinedProjector_def
      bind_err_Inr Let_def tables_ok_def split: if_splits intro!: table_ok_upsert)

lemma apply_types:
  assumes "registry_apply (NewProjectionRegistry E) ev t = Inr t'" "tables_ok t"
  shows "tables_ok t'"
proof -
  have "tables_ok t \<longrightarrow> tables_ok t'"
  proof (rule registry_apply_rel [OF _ _ _ assms(1), where R = "\<lambda>t t'. tables_ok t \<longrightarrow> tables_ok t'"])
    fix f t t' assume "(ev_kind ev, f) \<in> set (NewProjectionRegistry E)" "f ev t = Inr t'"
    then show "tables_ok t \<longrightarrow> tables_ok t'"
      unfolding registry_defs by (auto intro: keeps_types)
  qed auto
  with assms(2) show ?thesis by simp
qed

lemma appends_types: "app_appends E now st st' \<Longrightarrow> tables_ok (proj st) \<Longrightarrow> tables_ok (proj st')"
proof (induction rule: appends.induct)
  case (more st st' s i fresh st'')
  from more.hyps(2) show ?case
  proof (cases rule: Append_cases)
    case (insert p)
    from apply_types [OF insert(4)] more insert(5) show ?thesis by simp
  qed (use more in simp)
qed

lemma history_types: "app_history E st \<Longrightarrow> tables_ok (proj st)"
proof (induction rule: history.induct)
  case empty
  show ?case by (simp add: no_tables_def tables_ok_def profile_ok_def)
next
  case (commit st now st')
  then show ?case using appends_types by blast
qed

section \<open>Properties\<close>



end
