(* ===== verification/Escalations.thy ===== *)
theory Escalations
  imports Typing
begin

text \<open>
  internal/escalations/service.go: the handoff of a work item to the human operator.  A request
  records the escalation, creates a work item for the human, links it below the escalated item,
  marks the item blocked and moves it to the state blocked, all in one transaction.  The ids of
  the escalation and of the human's item are hashes of the request, so that a repeated request
  finds the first one.
\<close>

abbreviation ErrEscalationNotFound :: err where
  "ErrEscalationNotFound \<equiv> Err ''escalations: work_item not found'' []"

record escalation_input =
  es_work_item :: uuid
  es_reason :: string
  es_summary :: string
  es_actor :: token

record escalation_result =
  er_escalation :: uuid
  er_human :: uuid
  er_fresh :: bool

text \<open>Unlike the other services, this one takes the source system for an actor without one.\<close>

definition escalationSource :: "token \<Rightarrow> string" where
  "escalationSource actor =
     (if source_valid (tok_source actor) then tok_source actor else SourceSystem)"

definition escalated_spec :: "string \<Rightarrow> uuid \<Rightarrow> string \<Rightarrow> token \<Rightarrow> json \<Rightarrow> spec" where
  "escalated_spec subject i kind actor payload =
     \<lparr>sp_subject_kind = subject, sp_subject_id = i, sp_kind = kind,
      sp_source = escalationSource actor, sp_actor = Some (tok_id actor), sp_payload = payload,
      sp_discriminator = []\<rparr>"

definition escalated_item :: "db \<Rightarrow> uuid \<Rightarrow> err + work_item" where
  "escalated_item st wid = (case get_row wi_id wid (t_work_items (proj st)) of
     Some w \<Rightarrow> Inr w | None \<Rightarrow> Inl ErrEscalationNotFound)"

definition existingEscalation :: "ext \<Rightarrow> db \<Rightarrow> uuid \<Rightarrow> err + uuid option" where
  "existingEscalation E st escalationID =
     (case find (is_event SubjectEscalation escalationID EventEscalationRequested) (log st) of
        None \<Rightarrow> Inr None
      | Some e \<Rightarrow>
          bind_err (guard_err (jobject (ev_payload e)) ErrDecode) (\<lambda>_.
          bind_err (juuid E (jget (ev_payload e) ''human_work_item_id'')) (\<lambda>humanID.
          bind_err (guard_err (humanID \<noteq> uuid_nil)
            (Err [] ''escalations: existing escalation missing human_work_item_id'')) (\<lambda>_.
          Inr (Some humanID)))))"

definition review_json :: "work_item \<Rightarrow> json" where
  "review_json parent = JObj [(''from'', metadata_json (wi_checks parent) (wi_human_review parent)),
     (''to'', metadata_json (wi_checks parent) HumanReviewBlocked)]"

definition RequestInTx ::
  "ext \<Rightarrow> time \<Rightarrow> db \<Rightarrow> escalation_input \<Rightarrow> err + escalation_result \<times> db"
where
  "RequestInTx E now st inp =
     bind_err (guard_err (es_work_item inp \<noteq> uuid_nil) (Err [] ''escalations: work_item_id is required'')) (\<lambda>_.
     let reason = trim_space (es_reason inp) in
     bind_err (guard_err (reason \<noteq> []) (Err [] ''escalations: reason is required'')) (\<lambda>_.
     let summary0 = trim_space (es_summary inp);
         summary = (if summary0 = [] then reason else summary0) in
     bind_err (escalated_item st (es_work_item inp)) (\<lambda>parent.
     let escalationID = deterministicEscalationID E (es_work_item inp) reason summary;
         humanID = deterministicHumanWorkItemID E escalationID;
         actor = es_actor inp in
     bind_err (existingEscalation E st escalationID) (\<lambda>existing.
     case existing of
       Some h \<Rightarrow> Inr (\<lparr>er_escalation = escalationID, er_human = h, er_fresh = False\<rparr>, st)
     | None \<Rightarrow>
        bind_err (app_append E now st (escalated_spec SubjectEscalation escalationID
          EventEscalationRequested actor (escalation_json E parent humanID reason summary))) (\<lambda>(eventID, fresh, st1).
        bind_err (guard_err (eventID \<noteq> uuid_nil)
          (Err [] ''escalations: failed to append escalation event'')) (\<lambda>_.
        bind_err (append_event E now (escalated_spec SubjectWorkItem humanID EventWorkItemCreated actor
          (human_item_json E parent reason summary)) st1) (\<lambda>st2.
        bind_err (append_event E now (escalated_spec SubjectWorkItem (es_work_item inp)
          EventWorkItemRelationAdded actor (relation_json E (es_work_item inp) humanID)) st2) (\<lambda>st3.
        bind_err (append_event E now (escalated_spec SubjectWorkItem (es_work_item inp)
          EventWorkItemMetadataUpdated actor (review_json parent)) st3) (\<lambda>st4.
        bind_err (if wi_state parent \<noteq> WorkItemBlocked
          then append_event E now (escalated_spec SubjectWorkItem (es_work_item inp)
            EventWorkItemTransitioned actor (transition_json (wi_state parent) WorkItemBlocked
              (''human escalation requested: '' @ reason))) st4
          else Inr st4) (\<lambda>st5.
        Inr (\<lparr>er_escalation = escalationID, er_human = humanID, er_fresh = fresh\<rparr>, st5)))))))))))"

definition RequestEscalation ::
  "ext \<Rightarrow> time \<Rightarrow> db \<Rightarrow> escalation_input \<Rightarrow> escalation_result outcome"
where
  "RequestEscalation E now st inp = rollback st
     (bind_err (guard_err (es_work_item inp \<noteq> uuid_nil) (Err [] ''escalations: work_item_id is required'')) (\<lambda>_.
      bind_err (guard_err (trim_space (es_reason inp) \<noteq> []) (Err [] ''escalations: reason is required'')) (\<lambda>_.
      bind_err (RequestInTx E now st inp) (\<lambda>(r, st'). Inr (Inr r, st')))))"

section \<open>Facts\<close>

lemma escalated_spec_sel [simp]:
  "sp_subject_kind (escalated_spec subject i kind actor payload) = subject"
  "sp_subject_id (escalated_spec subject i kind actor payload) = i"
  "sp_kind (escalated_spec subject i kind actor payload) = kind"
  "sp_payload (escalated_spec subject i kind actor payload) = payload"
  "sp_discriminator (escalated_spec subject i kind actor payload) = []"
  by (simp_all add: escalated_spec_def)

lemma RequestInTx_cases:
  assumes "RequestInTx E now st inp = Inr (r, st')"
  obtains (known) parent reason summary where
      "reason = trim_space (es_reason inp)" "reason \<noteq> []" "es_work_item inp \<noteq> uuid_nil"
      "summary = (if trim_space (es_summary inp) = [] then reason else trim_space (es_summary inp))"
      "escalated_item st (es_work_item inp) = Inr parent"
      "er_escalation r = deterministicEscalationID E (es_work_item inp) reason summary"
      "existingEscalation E st (er_escalation r) = Inr (Some (er_human r))" "\<not> er_fresh r" "st' = st"
  | (new) parent reason summary eventID st1 st2 st3 st4 where
      "reason = trim_space (es_reason inp)" "reason \<noteq> []" "es_work_item inp \<noteq> uuid_nil"
      "summary = (if trim_space (es_summary inp) = [] then reason else trim_space (es_summary inp))"
      "escalated_item st (es_work_item inp) = Inr parent"
      "er_escalation r = deterministicEscalationID E (es_work_item inp) reason summary"
      "existingEscalation E st (er_escalation r) = Inr None"
      "er_human r = deterministicHumanWorkItemID E (er_escalation r)"
      "app_append E now st (escalated_spec SubjectEscalation (er_escalation r) EventEscalationRequested
         (es_actor inp) (escalation_json E parent (er_human r) reason summary)) = Inr (eventID, er_fresh r, st1)"
      "append_event E now (escalated_spec SubjectWorkItem (er_human r) EventWorkItemCreated (es_actor inp)
         (human_item_json E parent reason summary)) st1 = Inr st2"
      "append_event E now (escalated_spec SubjectWorkItem (es_work_item inp) EventWorkItemRelationAdded
         (es_actor inp) (relation_json E (es_work_item inp) (er_human r))) st2 = Inr st3"
      "append_event E now (escalated_spec SubjectWorkItem (es_work_item inp) EventWorkItemMetadataUpdated
         (es_actor inp) (review_json parent)) st3 = Inr st4"
      "wi_state parent = WorkItemBlocked \<and> st' = st4 \<or> wi_state parent \<noteq> WorkItemBlocked \<and>
       append_event E now (escalated_spec SubjectWorkItem (es_work_item inp) EventWorkItemTransitioned
         (es_actor inp) (transition_json (wi_state parent) WorkItemBlocked
           (''human escalation requested: '' @ reason))) st4 = Inr st'"
proof -
  let ?reason = "trim_space (es_reason inp)"
  let ?summary = "if trim_space (es_summary inp) = [] then ?reason else trim_space (es_summary inp)"
  let ?i = "deterministicEscalationID E (es_work_item inp) ?reason ?summary"
  obtain parent existing where pre: "es_work_item inp \<noteq> uuid_nil" "?reason \<noteq> []"
    "escalated_item st (es_work_item inp) = Inr parent" "existingEscalation E st ?i = Inr existing"
    using assms unfolding RequestInTx_def Let_def by (elim bind_err_Inr_E) auto
  show thesis
  proof (cases existing)
    case (Some h)
    with assms pre have "r = \<lparr>er_escalation = ?i, er_human = h, er_fresh = False\<rparr>" "st' = st"
      by (auto simp: RequestInTx_def Let_def guard_err_def)
    with Some pre show thesis by (intro known [of ?reason ?summary parent]) auto
  next
    case None
    let ?h = "deterministicHumanWorkItemID E ?i"
    from assms pre None obtain eventID fresh st1 st2 st3 st4 where
      "app_append E now st (escalated_spec SubjectEscalation ?i EventEscalationRequested
         (es_actor inp) (escalation_json E parent ?h ?reason ?summary)) = Inr (eventID, fresh, st1)"
      "append_event E now (escalated_spec SubjectWorkItem ?h EventWorkItemCreated (es_actor inp)
         (human_item_json E parent ?reason ?summary)) st1 = Inr st2"
      "append_event E now (escalated_spec SubjectWorkItem (es_work_item inp) EventWorkItemRelationAdded
         (es_actor inp) (relation_json E (es_work_item inp) ?h)) st2 = Inr st3"
      "append_event E now (escalated_spec SubjectWorkItem (es_work_item inp) EventWorkItemMetadataUpdated
         (es_actor inp) (review_json parent)) st3 = Inr st4"
      "wi_state parent = WorkItemBlocked \<and> st' = st4 \<or> wi_state parent \<noteq> WorkItemBlocked \<and>
       append_event E now (escalated_spec SubjectWorkItem (es_work_item inp) EventWorkItemTransitioned
         (es_actor inp) (transition_json (wi_state parent) WorkItemBlocked
           (''human escalation requested: '' @ ?reason))) st4 = Inr st'"
      "r = \<lparr>er_escalation = ?i, er_human = ?h, er_fresh = fresh\<rparr>"
      unfolding RequestInTx_def Let_def
      by (elim bind_err_Inr_E) (auto simp: bind_err_Inr split: prod.splits if_splits)
    with pre None show thesis by (intro new [of ?reason ?summary parent]) auto
  qed
qed

lemma RequestInTx_appends:
  "RequestInTx E now st inp = Inr (r, st') \<Longrightarrow> app_appends E now st st'"
proof (erule RequestInTx_cases)
  fix parent reason summary eventID st1 st2 st3 st4
  assume "app_append E now st (escalated_spec SubjectEscalation (er_escalation r) EventEscalationRequested
      (es_actor inp) (escalation_json E parent (er_human r) reason summary)) = Inr (eventID, er_fresh r, st1)"
    "append_event E now (escalated_spec SubjectWorkItem (er_human r) EventWorkItemCreated (es_actor inp)
      (human_item_json E parent reason summary)) st1 = Inr st2"
    "append_event E now (escalated_spec SubjectWorkItem (es_work_item inp) EventWorkItemRelationAdded
      (es_actor inp) (relation_json E (es_work_item inp) (er_human r))) st2 = Inr st3"
    "append_event E now (escalated_spec SubjectWorkItem (es_work_item inp) EventWorkItemMetadataUpdated
      (es_actor inp) (review_json parent)) st3 = Inr st4"
    "wi_state parent = WorkItemBlocked \<and> st' = st4 \<or> wi_state parent \<noteq> WorkItemBlocked \<and>
       append_event E now (escalated_spec SubjectWorkItem (es_work_item inp) EventWorkItemTransitioned
         (es_actor inp) (transition_json (wi_state parent) WorkItemBlocked
           (''human escalation requested: '' @ reason))) st4 = Inr st'"
  then show "app_appends E now st st'"
    by (meson app_append_appends append_event_appends appends_trans)
qed (simp add: appends.none)

lemma escalated_item_iff:
  "(\<exists>w. escalated_item st i = Inr w) \<longleftrightarrow> i \<in> set (map wi_id (t_work_items (proj st)))"
  using get_row_None [of wi_id i "t_work_items (proj st)"]
  by (auto simp: escalated_item_def split: option.splits)

lemma escalation_json_reads [simp]:
  "jobject (escalation_json E parent humanID reason summary)"
  "jget (escalation_json E parent humanID reason summary) ''human_work_item_id'' = juid E humanID"
  by (simp_all add: escalation_json_def)

lemma existingEscalation_None:
  "existingEscalation E st i = Inr None \<longleftrightarrow>
     find (is_event SubjectEscalation i EventEscalationRequested) (log st) = None"
  by (auto simp: existingEscalation_def bind_err_Inr split: option.splits)

lemma append_event_subject:
  "append_event E now s st = Inr st' \<Longrightarrow> sp_subject_id s \<noteq> uuid_nil"
  by (auto simp: append_event_def map_sum_Inr app_append_def Append_def DeterministicID_def
      spec_validate_def split: sum.splits option.splits if_splits)

text \<open>A recorded escalation is found from then on.\<close>

lemma recorded_escalation_found:
  assumes "ext_ok E" "existingEscalation E st i = Inr None" "h \<noteq> uuid_nil"
    and "app_append E now st (escalated_spec SubjectEscalation i EventEscalationRequested actor
      (escalation_json E parent h reason summary)) = Inr (k, True, st1)"
    and "log st2 = log st1 @ evs"
  shows "existingEscalation E st2 i = Inr (Some h)"
  using assms(4) unfolding app_append_def
proof (cases rule: Append_cases)
  case (insert p)
  let ?s = "escalated_spec SubjectEscalation i EventEscalationRequested actor
      (escalation_json E parent h reason summary)"
  have "is_event SubjectEscalation i EventEscalationRequested (as_stored (event_of now k ?s))"
    by (simp add: is_event_def)
  then have "find (is_event SubjectEscalation i EventEscalationRequested) (log st2) =
      Some (as_stored (event_of now k ?s))"
    using assms(2,5) insert(5) by (simp add: existingEscalation_None find_append)
  then show ?thesis using assms(1,3) by (simp add: existingEscalation_def guard_err_def)
qed simp

section \<open>A valid request goes through\<close>

lemma append_ok:
  assumes "spec_validate s = None" "\<And>i. \<exists>p. registry_apply (NewProjectionRegistry E) (event_of now i s) (proj st) = Inr p"
  shows "\<exists>i fresh st'. app_append E now st s = Inr (i, fresh, st')"
proof -
  obtain i where i: "DeterministicID E s = Inr i" using assms(1) by (simp add: DeterministicID_def)
  obtain p where "registry_apply (NewProjectionRegistry E) (event_of now i s) (proj st) = Inr p"
    using assms(2) by blast
  with i show ?thesis
    by (cases "i \<in> ev_id ` set (log st)") (auto simp: app_append_def Append_def intro: exI [of _ True] exI [of _ False])
qed

lemma append_event_ok:
  assumes "spec_validate s = None" "\<And>i. \<exists>p. registry_apply (NewProjectionRegistry E) (event_of now i s) (proj st) = Inr p"
  shows "\<exists>st'. append_event E now s st = Inr st'"
  using append_ok [OF assms] by (auto simp: append_event_def)

lemma checks_renormalize:
  "list_all (\<lambda>c. c \<noteq> [] \<and> trim_space c = c) cs \<Longrightarrow> normalize_checks i cs = Inr cs"
  by (induction cs arbitrary: i) auto

lemma escalated_spec_valid:
  "i \<noteq> uuid_nil \<Longrightarrow> subject \<noteq> [] \<Longrightarrow> kind \<noteq> [] \<Longrightarrow> spec_validate (escalated_spec subject i kind actor payload) = None"
  by (simp add: spec_validate_def escalated_spec_def escalationSource_def source_valid_def)

lemma escalation_requested_applies:
  "ev_kind ev = EventEscalationRequested \<Longrightarrow> registry_apply (NewProjectionRegistry E) ev t = Inr t"
  by (simp add: registry_apply_def registry_defs)

lemma jstrs_reads [simp]: "jstrings (jstrs ss) = Inr ss"
  by (simp add: jstrings_def jstrs_def)

lemma human_item_applies:
  "\<exists>p. registry_apply (NewProjectionRegistry E) (event_of now i
    (escalated_spec SubjectWorkItem h EventWorkItemCreated actor (human_item_json E parent reason summary))) t = Inr p"
proof -
  have "normalizeSuggestedConvergenceChecks [''human_response_recorded''] = Inr [''human_response_recorded'']"
    by code_simp
  then show ?thesis
    by (simp add: registry_apply_kinds workItemCreatedProjector_def human_item_json_def guard_err_def need_def
        normalizeHumanReviewStatus_def human_review_valid_def state_valid_def Let_def)
qed

lemma relation_applies:
  assumes "ext_ok E" "parent \<noteq> uuid_nil" "child \<noteq> uuid_nil" "parent \<noteq> child"
  shows "\<exists>p. registry_apply (NewProjectionRegistry E) (event_of now i
    (escalated_spec SubjectWorkItem w EventWorkItemRelationAdded actor (relation_json E parent child))) t = Inr p"
  using assms by (simp add: registry_apply_kinds relationAddedProjector_def guard_err_def need_def Let_def)

lemma review_applies:
  assumes "item_ok parent"
  shows "\<exists>p. registry_apply (NewProjectionRegistry E) (event_of now i
    (escalated_spec SubjectWorkItem w EventWorkItemMetadataUpdated actor (review_json parent))) t = Inr p"
proof -
  have "normalizeSuggestedConvergenceChecks (wi_checks parent) = Inr (wi_checks parent)"
    using assms by (simp add: item_ok_def normalizeSuggestedConvergenceChecks_def checks_renormalize)
  then show ?thesis
    by (simp add: registry_apply_kinds metadataUpdatedProjector_def review_json_def metadata_json_def
        guard_err_def normalizeHumanReviewStatus_def human_review_valid_def Let_def)
qed

lemma blocking_applies:
  "\<exists>p. registry_apply (NewProjectionRegistry E) (event_of now i
    (escalated_spec SubjectWorkItem w EventWorkItemTransitioned actor
      (transition_json frm WorkItemBlocked reason))) t = Inr p"
  by (simp add: registry_apply_kinds workItemTransitionedProjector_def guard_err_def need_def state_valid_def)

lemma RequestInTx_ok:
  assumes "ext_ok E" "tables_ok (proj st)" "es_work_item inp \<in> wi_id ` set (t_work_items (proj st))"
    and "es_work_item inp \<noteq> uuid_nil" "trim_space (es_reason inp) \<noteq> []"
    and i: "i = deterministicEscalationID E (es_work_item inp) (trim_space (es_reason inp))
        (if trim_space (es_summary inp) = [] then trim_space (es_reason inp) else trim_space (es_summary inp))"
    and h: "h = deterministicHumanWorkItemID E i"
    and "i \<noteq> uuid_nil" "h \<noteq> uuid_nil" "h \<noteq> es_work_item inp"
    and "find (is_event SubjectEscalation i EventEscalationRequested) (log st) = None"
  obtains fresh st' where "RequestInTx E now st inp =
    Inr (\<lparr>er_escalation = i, er_human = h, er_fresh = fresh\<rparr>, st')"
proof -
  let ?reason = "trim_space (es_reason inp)"
  let ?summary = "if trim_space (es_summary inp) = [] then ?reason else trim_space (es_summary inp)"
  obtain parent where p: "escalated_item st (es_work_item inp) = Inr parent"
    using assms(3) escalated_item_iff by force
  then have ok: "item_ok parent"
    using assms(2) by (auto simp: escalated_item_def tables_ok_def dest: table_ok_get split: option.splits)
  have none: "existingEscalation E st i = Inr None"
    using assms(11) by (simp add: existingEscalation_None)
  obtain k fresh st1 where s1: "app_append E now st (escalated_spec SubjectEscalation i
      EventEscalationRequested (es_actor inp) (escalation_json E parent h ?reason ?summary)) = Inr (k, fresh, st1)"
    using append_ok [of "escalated_spec SubjectEscalation i EventEscalationRequested (es_actor inp)
        (escalation_json E parent h ?reason ?summary)" E now st]
      escalated_spec_valid assms(8) escalation_requested_applies by fastforce
  have k: "k \<noteq> uuid_nil"
    using s1 DeterministicID_not_nil [OF assms(1)] by (auto simp: app_append_def elim!: Append_cases)
  obtain st2 where s2: "append_event E now (escalated_spec SubjectWorkItem h EventWorkItemCreated
      (es_actor inp) (human_item_json E parent ?reason ?summary)) st1 = Inr st2"
    using append_event_ok [OF escalated_spec_valid human_item_applies] assms(9) by fastforce
  obtain st3 where s3: "append_event E now (escalated_spec SubjectWorkItem (es_work_item inp)
      EventWorkItemRelationAdded (es_actor inp) (relation_json E (es_work_item inp) h)) st2 = Inr st3"
    using append_event_ok [OF escalated_spec_valid relation_applies [OF assms(1,4,9)]] assms(4,10) by fastforce
  obtain st4 where s4: "append_event E now (escalated_spec SubjectWorkItem (es_work_item inp)
      EventWorkItemMetadataUpdated (es_actor inp) (review_json parent)) st3 = Inr st4"
    using append_event_ok [OF escalated_spec_valid review_applies [OF ok]] assms(4) by fastforce
  obtain st5 where s5: "append_event E now (escalated_spec SubjectWorkItem (es_work_item inp)
      EventWorkItemTransitioned (es_actor inp) (transition_json (wi_state parent) WorkItemBlocked
        (''human escalation requested: '' @ ?reason))) st4 = Inr st5"
    using append_event_ok [OF escalated_spec_valid blocking_applies] assms(4) by fastforce
  show thesis
    using that [of fresh "if wi_state parent = WorkItemBlocked then st4 else st5"]
      assms(4,5) p none [unfolded i] s1 [unfolded i h] s2 [unfolded i h] s3 [unfolded i h] s4 s5 k
    by (simp add: RequestInTx_def Let_def guard_err_def i h)
qed

section \<open>Properties\<close>

text \<open>C30: An escalation happens once.  After a request has recorded an escalation, the same request, made
  by anyone at any later time and whatever happened in between, records nothing and reports the same
  escalation and the same work item of the human.\<close>

theorem escalation_happens_once:
  assumes "ext_ok E" "RequestEscalation E now st inp = (Inr r, st1)" "er_fresh r" "later E st1 st2"
  shows "RequestEscalation E now' st2 (inp\<lparr>es_actor := anyone\<rparr>) = (Inr (r\<lparr>er_fresh := False\<rparr>), st2)"
proof -
  have "RequestInTx E now st inp = Inr (r, st1)"
    using assms(2) unfolding RequestEscalation_def rollback_eq by (auto simp: bind_err_Inr)
  then show ?thesis
  proof (cases rule: RequestInTx_cases)
    case (new parent reason summary eventID s1 s2 s3 s4)
    have "prefix (log s1) (log s4)"
      using append_event_prefix [OF new(10)] append_event_prefix [OF new(11)]
        append_event_prefix [OF new(12)] by (meson prefix_order.trans)
    moreover have "prefix (log s4) (log st1)"
      using new(13) append_event_prefix by blast
    ultimately obtain evs where log: "log st2 = log s1 @ evs"
      using later_prefix [OF assms(4)] by (meson prefix_def prefix_order.trans)
    have ex: "existingEscalation E st2 (er_escalation r) = Inr (Some (er_human r))"
      using recorded_escalation_found [OF assms(1) new(7) _ _ log] new(9) assms(3)
        append_event_subject [OF new(10)] by simp
    have "es_work_item inp \<in> set (map wi_id (t_work_items (proj st2)))"
      using new(5) escalated_item_iff RequestInTx_appends [THEN appends_keep_items]
        \<open>RequestInTx E now st inp = Inr (r, st1)\<close> later_items [OF assms(4)] by blast
    then obtain w where "escalated_item st2 (es_work_item inp) = Inr w"
      using escalated_item_iff by blast
    with ex new(1-4,6) show ?thesis
      by (simp add: RequestEscalation_def RequestInTx_def Let_def guard_err_def rollback_def split: if_splits)
  qed (use assms(3) in simp)
qed

definition attention7 :: escalation_input where
  "attention7 = \<lparr>es_work_item = 7, es_reason = ''stuck'', es_summary = [], es_actor = agent9\<rparr>"

lemma attention7_ids:
  "trim_space ''stuck'' = ''stuck''" "trim_space ([]::string) = []"
  "deterministicEscalationID decimal_ext 7 ''stuck'' ''stuck'' = 34"
  "deterministicHumanWorkItemID decimal_ext 34 = 39"
  by code_simp+

lemma attention7_request:
  assumes "tables_ok (proj st)" "7 \<in> wi_id ` set (t_work_items (proj st))"
    "find (is_event SubjectEscalation 34 EventEscalationRequested) (log st) = None"
  shows "\<exists>fresh st'. RequestEscalation decimal_ext now st attention7 =
    (Inr \<lparr>er_escalation = 34, er_human = 39, er_fresh = fresh\<rparr>, st')"
proof -
  obtain fresh st' where "RequestInTx decimal_ext now st attention7 =
      Inr (\<lparr>er_escalation = 34, er_human = 39, er_fresh = fresh\<rparr>, st')"
    using RequestInTx_ok [OF decimal_ext_ok assms(1), of attention7 34 39 now] assms(2,3)
    by (auto simp: attention7_def attention7_ids)
  then show ?thesis
    by (auto simp: RequestEscalation_def rollback_def attention7_def attention7_ids guard_err_def)
qed

theorem escalation_happens_once_witness:
  "\<exists>r st1. RequestEscalation decimal_ext 9 desk attention7 = (Inr r, st1) \<and>
    RequestEscalation decimal_ext 11 st1 (attention7\<lparr>es_actor := agent9\<lparr>tok_id := 5\<rparr>\<rparr>) = (Inr (r\<lparr>er_fresh := False\<rparr>), st1)"
proof -
  have "tables_ok (proj desk)" by code_simp
  then obtain fresh st1 where r: "RequestEscalation decimal_ext 9 desk attention7 =
      (Inr \<lparr>er_escalation = 34, er_human = 39, er_fresh = fresh\<rparr>, st1)"
    using attention7_request [of desk 9] by (auto simp: desk_def item7_def)
  then have "RequestInTx decimal_ext 9 desk attention7 = Inr (\<lparr>er_escalation = 34, er_human = 39, er_fresh = fresh\<rparr>, st1)"
    unfolding RequestEscalation_def rollback_eq by (auto simp: bind_err_Inr)
  then have "fresh"
    by (cases rule: RequestInTx_cases)
       (auto simp: existingEscalation_def desk_def app_append_def elim!: Append_cases)
  then show ?thesis
    using escalation_happens_once [OF decimal_ext_ok r _ later.now, of 11 "agent9\<lparr>tok_id := 5\<rparr>"] r by auto
qed



end
