(* ===== verification/Fleet.thy ===== *)
theory Fleet
  imports Idempotency Escalations
begin

text \<open>
  The operating posture and the fleet: internal/policyprofile/service.go (the active safety
  profile and its switch), internal/nodes (the registry of nodes) with the operator commands of
  cmd/meristem/nodes.go, and internal/crossnode (route selection, the delivery walk, and the
  durable command queue) with its API handler.  The HTTP client of a delivery is an argument.
\<close>

section \<open>The active policy profile\<close>

definition ErrHumanRequired :: err where
  "ErrHumanRequired = Err ''policyprofile: profile switch requires a human token'' []"
definition ErrRootForbidden :: err where
  "ErrRootForbidden = Err ''policyprofile: root token cannot switch profiles; use a non-root human token'' []"

definition PolicyProfileSubjectID :: "ext \<Rightarrow> uuid" where
  "PolicyProfileSubjectID E = uuid_sha1 E NameSpaceURL ''meristem|policy_profile|active''"

record active =
  ac_name :: string
  ac_fingerprint :: string
  ac_policy :: policy

text \<open>A stored name that this binary does not know reads as the steady profile.\<close>

definition Active :: "ext \<Rightarrow> db \<Rightarrow> active" where
  "Active E st =
     (let stored = (case t_profile (proj st) of None \<Rightarrow> ProfileSteady | Some r \<Rightarrow> pp_name r)
      in case ProfileByName stored of
           Inr p \<Rightarrow> \<lparr>ac_name = stored, ac_fingerprint = Fingerprint E p, ac_policy = p\<rparr>
         | Inl _ \<Rightarrow> \<lparr>ac_name = ProfileSteady, ac_fingerprint = Fingerprint E DefaultPolicy,
             ac_policy = DefaultPolicy\<rparr>)"

definition switched_spec :: "ext \<Rightarrow> token \<Rightarrow> string \<Rightarrow> string \<Rightarrow> string \<Rightarrow> string \<Rightarrow> spec" where
  "switched_spec E actor disc frm dest fp =
     \<lparr>sp_subject_kind = SubjectPolicyProfile, sp_subject_id = PolicyProfileSubjectID E,
      sp_kind = EventPolicyProfileSwitched, sp_source = SourceHuman, sp_actor = Some (tok_id actor),
      sp_payload = JObj [(''from'', JStr frm), (''to'', JStr dest), (''fingerprint'', JStr fp)],
      sp_discriminator = disc\<rparr>"

definition Switch ::
  "ext \<Rightarrow> time \<Rightarrow> string \<Rightarrow> db \<Rightarrow> string \<Rightarrow> token \<Rightarrow> (active \<times> bool) outcome"
where
  "Switch E now disc st dest actor =
     (if tok_source actor \<noteq> [] \<and> tok_source actor \<noteq> SourceHuman then (Inl ErrHumanRequired, st)
      else if tok_is_root actor then (Inl ErrRootForbidden, st)
      else case ProfileByName dest of
        Inl e \<Rightarrow> (Inl e, st)
      | Inr target \<Rightarrow>
          (case Validate target of
             Some e \<Rightarrow> (Inl e, st)
           | None \<Rightarrow>
               let fp = Fingerprint E target; current = Active E st
               in if ac_name current = dest then (Inr (current, False), st)
                  else (case append_event E now
                          (switched_spec E actor disc (ac_name current) dest fp) st of
                          Inl e \<Rightarrow> (Inl e, st)
                        | Inr st' \<Rightarrow>
                            (Inr (\<lparr>ac_name = dest, ac_fingerprint = fp, ac_policy = target\<rparr>, True), st'))))"

section \<open>The node registry\<close>

definition nodeNamespace :: uuid where
  "nodeNamespace = 0xb8f2e0a43c1d5e6f8a9b0c1d2e3f4a5b"

definition NodeSubjectID :: "ext \<Rightarrow> string \<Rightarrow> uuid" where
  "NodeSubjectID E nodeID = uuid_sha1 E nodeNamespace (''node|'' @ nodeID)"

record node_params =
  np_node :: string
  np_base_url :: "string option"
  np_direct_url :: "string option"
  np_relay_via :: "string list"
  np_status :: string

text \<open>The tag omitempty: a nil pointer, an empty slice and a zero number leave no member.\<close>

definition omit_none :: "string \<Rightarrow> string option \<Rightarrow> (string \<times> json) list" where
  "omit_none k v = (case v of None \<Rightarrow> [] | Some s \<Rightarrow> [(k, JStr s)])"

definition omit_empty :: "string \<Rightarrow> string list \<Rightarrow> (string \<times> json) list" where
  "omit_empty k vs = (if vs = [] then [] else [(k, jstrs vs)])"

definition validate_params :: "node_params \<Rightarrow> err + unit" where
  "validate_params p =
     bind_err (validateNodeID (np_node p)) (\<lambda>_.
     bind_err (guard_err (np_status p \<noteq> []) (Err [] ''status is required'')) (\<lambda>_.
     validateRelayVia (np_relay_via p)))"

definition BuildRegisteredPayload :: "node_params \<Rightarrow> err + json" where
  "BuildRegisteredPayload p = bind_err (validate_params p) (\<lambda>_.
     Inr (JObj ([(''node_id'', JStr (np_node p))] @ omit_none ''base_url'' (np_base_url p) @
       omit_none ''direct_url'' (np_direct_url p) @ omit_empty ''relay_via'' (np_relay_via p) @
       [(''status'', JStr (np_status p))])))"

definition BuildRouteUpdatedPayload :: "node_params \<Rightarrow> err + json" where
  "BuildRouteUpdatedPayload p = bind_err (validate_params p) (\<lambda>_.
     Inr (JObj ([(''node_id'', JStr (np_node p))] @
       omit_none ''direct_url'' (np_direct_url p) @ omit_empty ''relay_via'' (np_relay_via p) @
       [(''status'', JStr (np_status p))])))"

text \<open>cmd/meristem/nodes.go: the actor, the flags (None when a flag was not given), the append.\<close>

definition resolveNodeSystemActor :: "ext \<Rightarrow> db \<Rightarrow> string \<Rightarrow> err + token" where
  "resolveNodeSystemActor E st secret =
     bind_err (guard_err (secret \<noteq> []) (Err [] ''node: MERISTEM_TOKEN with a system-source bearer is required'')) (\<lambda>_.
     bind_err (Authenticate E st secret) (\<lambda>tk.
     bind_err (guard_err (tok_source tk = SourceSystem) (Err [] ''node: MERISTEM_TOKEN must be source=system'')) (\<lambda>_.
     bind_err (guard_err (\<not> tok_is_root tk) (Err [] ''node: MERISTEM_TOKEN must be a dedicated system token, not root'')) (\<lambda>_.
     Inr tk))))"

definition nonEmptyPtr :: "string \<Rightarrow> string option \<Rightarrow> err + string option" where
  "nonEmptyPtr name flag = (case flag of
     None \<Rightarrow> Inr None
   | Some v \<Rightarrow> if trim_space v = [] then Inl (Err [] (''--'' @ name @ '' was provided but empty''))
               else Inr (Some v))"

definition node_spec :: "ext \<Rightarrow> token \<Rightarrow> string \<Rightarrow> string \<Rightarrow> json \<Rightarrow> spec" where
  "node_spec E actor nodeID kind payload =
     \<lparr>sp_subject_kind = SubjectNode, sp_subject_id = NodeSubjectID E nodeID, sp_kind = kind,
      sp_source = SourceSystem, sp_actor = Some (tok_id actor), sp_payload = payload,
      sp_discriminator = []\<rparr>"

definition appendNodeEvent ::
  "ext \<Rightarrow> time \<Rightarrow> db \<Rightarrow> token \<Rightarrow> string \<Rightarrow> string \<Rightarrow> json \<Rightarrow> bool outcome"
where
  "appendNodeEvent E now st actor nodeID kind payload =
     (case app_append E now st (node_spec E actor nodeID kind payload) of
        Inl e \<Rightarrow> (Inl e, st) | Inr (_, fresh, st') \<Rightarrow> (Inr fresh, st'))"

definition registerNode :: "ext \<Rightarrow> time \<Rightarrow> db \<Rightarrow> token \<Rightarrow> node_params \<Rightarrow> bool outcome" where
  "registerNode E now st actor p =
     (if np_node p = [] then (Inl (Err [] ''node register: --node-id is required''), st)
      else case bind_err (nonEmptyPtr ''base-url'' (np_base_url p)) (\<lambda>base.
             bind_err (nonEmptyPtr ''direct-url'' (np_direct_url p)) (\<lambda>direct.
             BuildRegisteredPayload (p\<lparr>np_base_url := base, np_direct_url := direct\<rparr>))) of
             Inl e \<Rightarrow> (Inl e, st)
           | Inr payload \<Rightarrow> appendNodeEvent E now st actor (np_node p) EventNodeRegistered payload)"

definition updateNodeRoute :: "ext \<Rightarrow> time \<Rightarrow> db \<Rightarrow> token \<Rightarrow> node_params \<Rightarrow> bool outcome" where
  "updateNodeRoute E now st actor p =
     (if np_node p = [] then (Inl (Err [] ''node update-route: --node-id is required''), st)
      else case bind_err (nonEmptyPtr ''direct-url'' (np_direct_url p)) (\<lambda>direct.
             BuildRouteUpdatedPayload (p\<lparr>np_direct_url := direct\<rparr>)) of
             Inl e \<Rightarrow> (Inl e, st)
           | Inr payload \<Rightarrow> appendNodeEvent E now st actor (np_node p) EventNodeRouteUpdated payload)"

definition ListNodes :: "db \<Rightarrow> node list" where
  "ListNodes st = sort_key nd_id (t_nodes (proj st))"

section \<open>Route selection\<close>

definition ErrUnknownTarget :: err where
  "ErrUnknownTarget = Err ''crossnode: unknown target node'' []"
definition ErrNoRoute :: err where
  "ErrNoRoute = Err ''crossnode: no route to target'' []"
definition ErrAllRoutesFailed :: err where
  "ErrAllRoutesFailed = Err ''crossnode: all candidate routes failed'' []"
definition ErrInvalidTargetNodeID :: err where
  "ErrInvalidTargetNodeID = Err ''crossnode: target_node_id is not a DNS-safe node id'' []"
definition ErrUnknownCommand :: err where
  "ErrUnknownCommand = Err ''crossnode: unknown queued command'' []"

definition CooldownWindow :: time where "CooldownWindow = 60 * second"

datatype candidate_kind = KindDirect | KindRelay | KindQueue

definition kind_name :: "candidate_kind \<Rightarrow> string" where
  "kind_name k = (case k of KindDirect \<Rightarrow> ''direct'' | KindRelay \<Rightarrow> ''relay'' | KindQueue \<Rightarrow> ''queue'')"

record candidate =
  cd_kind :: candidate_kind
  cd_url :: string
  cd_via :: string
  cd_route :: string

type_synonym cooldowns = "string \<Rightarrow> time option"

definition cooling :: "cooldowns \<Rightarrow> string \<Rightarrow> time \<Rightarrow> bool" where
  "cooling cools route now = (case cools route of None \<Rightarrow> False | Some failed \<Rightarrow> now < failed + CooldownWindow)"

definition routeKey :: "candidate_kind \<Rightarrow> string \<Rightarrow> string \<Rightarrow> string" where
  "routeKey kind target via =
     (if via = [] then kind_name kind @ ''|'' @ target
      else kind_name kind @ ''|'' @ target @ ''|'' @ via)"

definition deref :: "string option \<Rightarrow> string" where
  "deref s = (case s of None \<Rightarrow> [] | Some v \<Rightarrow> v)"

text \<open>The map by id keeps the last node of equal ids.\<close>

definition node_by_id :: "node list \<Rightarrow> string \<Rightarrow> node option" where
  "node_by_id ns i = map_of (rev (map (\<lambda>n. (nd_id n, n)) ns)) i"

definition hop_candidates :: "node list \<Rightarrow> string \<Rightarrow> candidate_kind \<Rightarrow> string list \<Rightarrow> candidate list" where
  "hop_candidates ns target kind vias = concat (map (\<lambda>via.
     case node_by_id ns via of
       None \<Rightarrow> []
     | Some relay \<Rightarrow>
         if deref (nd_direct_url relay) \<noteq> []
         then [\<lparr>cd_kind = kind, cd_url = deref (nd_direct_url relay), cd_via = via,
                cd_route = routeKey kind target via\<rparr>]
         else []) vias)"

definition Select :: "node list \<Rightarrow> string \<Rightarrow> cooldowns \<Rightarrow> time \<Rightarrow> err + candidate list" where
  "Select ns target cools now =
     (case node_by_id ns target of
        None \<Rightarrow> Inl ErrUnknownTarget
      | Some n \<Rightarrow>
          let direct = (if deref (nd_direct_url n) \<noteq> []
                then [\<lparr>cd_kind = KindDirect, cd_url = deref (nd_direct_url n), cd_via = [],
                       cd_route = routeKey KindDirect target []\<rparr>] else []);
              cands = filter (\<lambda>c. \<not> cooling cools (cd_route c) now)
                (direct @ hop_candidates ns target KindRelay (nd_relay_via n) @
                 hop_candidates ns target KindQueue (nd_relay_via n))
          in if cands = [] then Inl ErrNoRoute else Inr cands)"

section \<open>The delivery walk\<close>

record command =
  cm_target :: string
  cm_key :: string
  cm_path :: string
  cm_body :: string

text \<open>What is posted to a peer; the client answers with a status and a body, or fails.\<close>

record post_request =
  pr_url :: string
  pr_header :: "(string \<times> string) list"
  pr_path :: string
  pr_body :: string

type_synonym client = "post_request \<Rightarrow> err + int \<times> string"

record attempt =
  at_candidate :: candidate
  at_status :: int
  at_err :: "err option"
  at_cooled :: bool

record delivery =
  dl_delivered :: bool
  dl_terminal :: "candidate option"
  dl_status :: int
  dl_body :: string
  dl_cooldowns :: cooldowns
  dl_attempts :: "attempt list"

definition CommandPath :: string where "CommandPath = ''/v1/crossnode/commands''"

definition normalizeBody :: "string \<Rightarrow> string" where
  "normalizeBody b = (if trim_space b = [] then ''{}'' else b)"

text \<open>strings.TrimRight(url, /).\<close>

definition trim_slashes :: "string \<Rightarrow> string" where
  "trim_slashes s = rev (dropWhile (\<lambda>c. c = CHR ''/'') (rev s))"

definition post_of :: "candidate \<Rightarrow> command \<Rightarrow> post_request" where
  "post_of c req =
     \<lparr>pr_url = trim_slashes (cd_url c) @ CommandPath,
      pr_header = [(''Content-Type'', ''application/json''), (''Idempotency-Key'', cm_key req)] @
        (case cd_kind c of
           KindDirect \<Rightarrow> []
         | KindRelay \<Rightarrow> [(''X-Meristem-Relayed'', ''true'')]
         | KindQueue \<Rightarrow> [(''X-Meristem-Queue-For'', cm_target req)]),
      pr_path = cm_path req, pr_body = normalizeBody (cm_body req)\<rparr>"

fun deliver_walk :: "client \<Rightarrow> candidate list \<Rightarrow> command \<Rightarrow> time \<Rightarrow> delivery \<Rightarrow> err option \<times> delivery" where
  "deliver_walk client [] req now out = (Some ErrAllRoutesFailed, out)"
| "deliver_walk client (c # cs) req now out =
     (let answer = client (post_of c req);
          status = (case answer of Inl _ \<Rightarrow> 0 | Inr (s, _) \<Rightarrow> s);
          body = (case answer of Inl _ \<Rightarrow> [] | Inr (_, b) \<Rightarrow> b);
          failure = (case answer of Inl e \<Rightarrow> Some e | Inr _ \<Rightarrow> None);
          att = \<lparr>at_candidate = c, at_status = status, at_err = failure, at_cooled = False\<rparr>
      in if failure \<noteq> None \<or> status \<ge> 500
         then deliver_walk client cs req now
                (out\<lparr>dl_cooldowns := (dl_cooldowns out)(cd_route c \<mapsto> now),
                   dl_attempts := dl_attempts out @ [att\<lparr>at_cooled := True\<rparr>]\<rparr>)
         else (None, out\<lparr>dl_delivered := status < 400, dl_terminal := Some c, dl_status := status,
                dl_body := body, dl_attempts := dl_attempts out @ [att]\<rparr>))"

definition Deliver ::
  "client \<Rightarrow> candidate list \<Rightarrow> command \<Rightarrow> cooldowns \<Rightarrow> time \<Rightarrow> err option \<times> delivery"
where
  "Deliver client cands req cools now =
     (let out = \<lparr>dl_delivered = False, dl_terminal = None, dl_status = 0, dl_body = [],
            dl_cooldowns = cools, dl_attempts = []\<rparr>
      in if Unmarshal (normalizeBody (cm_body req)) = None
         then (Some (Err [] ''crossnode: marshal command''), out)
         else deliver_walk client cands req now out)"

section \<open>The durable queue\<close>

record enqueue_input =
  eq_target :: string
  eq_path :: string
  eq_body :: string
  eq_origin_key :: string
  eq_actor :: "uuid option"

definition command_spec :: "ext \<Rightarrow> string \<Rightarrow> string \<Rightarrow> uuid option \<Rightarrow> string \<Rightarrow> json \<Rightarrow> spec" where
  "command_spec E kind target actor disc payload =
     \<lparr>sp_subject_kind = SubjectNode, sp_subject_id = NodeSubjectID E target, sp_kind = kind,
      sp_source = SourceSystem, sp_actor = actor, sp_payload = payload, sp_discriminator = disc\<rparr>"

definition queued_json :: "ext \<Rightarrow> enqueue_input \<Rightarrow> json \<Rightarrow> json" where
  "queued_json E inp body = JObj
     ([(''target_node_id'', JStr (eq_target inp)), (''command_path'', JStr (eq_path inp)),
       (''command_body'', body), (''origin_idempotency_key'', JStr (eq_origin_key inp))] @
      (case eq_actor inp of None \<Rightarrow> [] | Some a \<Rightarrow> [(''origin_actor_token_id'', juid E a)]))"

definition Enqueue :: "ext \<Rightarrow> time \<Rightarrow> string \<Rightarrow> db \<Rightarrow> enqueue_input \<Rightarrow> uuid outcome" where
  "Enqueue E now disc st inp =
     (if \<not> ValidNodeID (eq_target inp) then (Inl ErrInvalidTargetNodeID, st)
      else case Unmarshal (normalizeBody (eq_body inp)) of
        None \<Rightarrow> (Inl (Err [] ''crossnode: append command.queued: marshal payload''), st)
      | Some body \<Rightarrow>
          (case app_append E now st (command_spec E EventCommandQueued (eq_target inp) (eq_actor inp)
             disc (queued_json E inp body)) of
             Inl e \<Rightarrow> (Inl e, st)
           | Inr (i, _, st') \<Rightarrow> (Inr i, st')))"

definition defaultPendingLimit :: int where "defaultPendingLimit = 100"
definition maxPendingLimit :: int where "maxPendingLimit = 500"

definition PendingForTarget :: "db \<Rightarrow> string \<Rightarrow> int \<Rightarrow> err + command_row list" where
  "PendingForTarget st target limit =
     (if \<not> ValidNodeID target then Inl ErrInvalidTargetNodeID
      else
        let l = (if limit \<le> 0 then defaultPendingLimit else limit);
            l' = (if l > maxPendingLimit then maxPendingLimit else l)
        in Inr (take (nat l') (sort_key cq_queued_at (sort_key cq_id
             (filter (\<lambda>r. cq_target r = target \<and> cq_state r = ''pending'') (t_commands (proj st)))))))"

definition acked_json :: "ext \<Rightarrow> uuid \<Rightarrow> string \<Rightarrow> int \<Rightarrow> bool \<Rightarrow> json" where
  "acked_json E qid target code ok = JObj
     [(''command_queue_id'', juid E qid), (''target_node_id'', JStr target),
      (''status_code'', jint code), (''ok'', JBool ok)]"

definition Ack ::
  "ext \<Rightarrow> time \<Rightarrow> string \<Rightarrow> db \<Rightarrow> uuid \<Rightarrow> int \<Rightarrow> bool \<Rightarrow> uuid option \<Rightarrow> (uuid \<times> string) outcome"
where
  "Ack E now disc st qid code ok actor =
     (case get_row cq_id qid (t_commands (proj st)) of
        None \<Rightarrow> (Inl ErrUnknownCommand, st)
      | Some r \<Rightarrow>
          (case app_append E now st (command_spec E EventCommandAcked (cq_target r) actor disc
             (acked_json E qid (cq_target r) code ok)) of
             Inl e \<Rightarrow> (Inl e, st)
           | Inr (i, _, st') \<Rightarrow> (Inr (i, cq_target r), st')))"

section \<open>The receiving handler\<close>

text \<open>
  POST /v1/crossnode/commands after authentication and decoding: what the peer is told, and the
  database.  The headers are the ones that Deliver sets.
\<close>

datatype receipt = Refused int string | Queued uuid | Local

definition headerIsTrue :: "string \<Rightarrow> bool" where
  "headerIsTrue v \<longleftrightarrow> map lower_char (trim_space v) = ''true''"

definition header :: "(string \<times> string) list \<Rightarrow> string \<Rightarrow> string" where
  "header hs k = (case map_of hs k of Some v \<Rightarrow> v | None \<Rightarrow> [])"

definition handleCrossnodeCommand ::
  "ext \<Rightarrow> time \<Rightarrow> string \<Rightarrow> string \<Rightarrow> token \<Rightarrow> post_request \<Rightarrow> db \<Rightarrow> receipt \<times> db"
where
  "handleCrossnodeCommand E now disc nodeID actor r st =
     (if trim_space (pr_path r) = [] then (Refused 400 ''command_path_required'', st)
      else
        let relayed = headerIsTrue (header (pr_header r) ''X-Meristem-Relayed'');
            queue_for = trim_space (header (pr_header r) ''X-Meristem-Queue-For'')
        in if queue_for \<noteq> [] \<and> queue_for \<noteq> nodeID
           then (if relayed then (Refused 409 ''relay_refused_already_relayed'', st)
                 else if \<not> ValidNodeID queue_for then (Refused 400 ''invalid_queue_target'', st)
                 else case Enqueue E now disc st \<lparr>eq_target = queue_for, eq_path = pr_path r,
                          eq_body = pr_body r, eq_origin_key = header (pr_header r) ''Idempotency-Key'',
                          eq_actor = Some (tok_id actor)\<rparr> of
                        (Inl e, st') \<Rightarrow>
                          (if err_is e (sentinel ErrInvalidTargetNodeID)
                           then (Refused 400 ''invalid_queue_target'', st')
                           else (Refused 500 ''command_queue_failed'', st'))
                      | (Inr i, st') \<Rightarrow> (Queued i, st'))
           else (Local, st))"

section \<open>The profile in force\<close>

lemma ProfileByName_valid: "ProfileByName name = Inr p \<Longrightarrow> Validate p = None"
proof -
  have "list_all (\<lambda>(name, p). Validate p = None) Profiles" by code_simp
  then show "ProfileByName name = Inr p \<Longrightarrow> ?thesis"
    by (auto simp: ProfileByName_def list_all_iff split: option.split_asm dest!: map_of_SomeD)
qed

lemma Active_cases:
  "ProfileByName (ac_name (Active E st)) = Inr (ac_policy (Active E st))"
  "ac_fingerprint (Active E st) = Fingerprint E (ac_policy (Active E st))"
proof -
  have "ProfileByName ProfileSteady = Inr DefaultPolicy" by (simp add: ProfileByName_def Profiles_def)
  then show "ProfileByName (ac_name (Active E st)) = Inr (ac_policy (Active E st))"
    "ac_fingerprint (Active E st) = Fingerprint E (ac_policy (Active E st))"
    by (auto simp: Active_def Let_def split: sum.split)
qed

lemma Active_after_switch:
  assumes "append_event E now (switched_spec E actor disc frm dest fp) st = Inr st'" "st' \<noteq> st"
  shows "\<exists>r. t_profile (proj st') = Some r \<and> pp_name r = dest"
proof -
  let ?s = "switched_spec E actor disc frm dest fp"
  obtain i fresh where "Append E (NewProjectionRegistry E) now st ?s = Inr (i, fresh, st')"
    using assms(1) by (auto simp: append_event_def app_append_def map_sum_Inr)
  then show ?thesis
  proof (cases rule: Append_cases)
    case (insert p)
    then have "profileSwitchedProjector (event_of now i ?s) (proj st) = Inr p"
      by (simp add: registry_apply_kinds switched_spec_def)
    then show ?thesis using insert(5)
      by (auto simp: profileSwitchedProjector_def bind_err_Inr switched_spec_def)
  qed (use assms(2) in simp)
qed

text \<open>
  The posture in force is always a validated, named profile, and only a non-root human token
  can change it: a switch that succeeds was asked for by such a token, names the profile that is
  then in force, and asking for the profile already in force changes nothing.
\<close>
theorem profile_switch_effect:
  assumes "Switch E now disc st dest actor = (Inr (a, changed), st')"
  shows "tok_source actor \<in> {[], SourceHuman} \<and> \<not> tok_is_root actor \<and> ac_name a = dest \<and>
    Validate (ac_policy a) = None \<and> Validate (ac_policy (Active E st')) = None \<and>
    (changed \<longleftrightarrow> ac_name (Active E st) \<noteq> dest) \<and> (\<not> changed \<longrightarrow> st' = st) \<and>
    (st' \<noteq> st \<longrightarrow> Active E st' = a)"
proof -
  have src: "tok_source actor \<in> {[], SourceHuman}" "\<not> tok_is_root actor"
    using assms by (auto simp: Switch_def split: if_split_asm)
  obtain target where t: "ProfileByName dest = Inr target" "Validate target = None"
    using assms src by (auto simp: Switch_def split: sum.split_asm option.split_asm if_split_asm)
  have valid: "Validate (ac_policy (Active E st')) = None"
    using ProfileByName_valid Active_cases(1) by blast
  show ?thesis
  proof (cases "ac_name (Active E st) = dest")
    case True
    then have "a = Active E st" "\<not> changed" "st' = st"
      using assms src t by (auto simp: Switch_def Let_def)
    then show ?thesis using src True valid by simp
  next
    case False
    then have a: "a = \<lparr>ac_name = dest, ac_fingerprint = Fingerprint E target, ac_policy = target\<rparr>" "changed"
      "append_event E now (switched_spec E actor disc (ac_name (Active E st)) dest (Fingerprint E target)) st = Inr st'"
      using assms src t by (auto simp: Switch_def Let_def split: sum.split_asm)
    have "Active E st' = a" if "st' \<noteq> st"
      using Active_after_switch [OF a(3) that] t(1) a(1) by (auto simp: Active_def)
    with a src t(2) valid False show ?thesis by auto
  qed
qed

definition human2 :: token where
  "human2 = \<lparr>tok_id = 2, tok_name = ''owner'', tok_hash = ''h'', tok_is_root = False, tok_scopes = [],
     tok_source = SourceHuman, tok_created_at = 1, tok_revoked_at = None\<rparr>"

theorem profile_switch_effect_witness:
  "\<exists>a st'. Switch decimal_ext 5 [] (empty_store no_tables) ProfileBringUp human2 = (Inr (a, True), st') \<and>
     ac_name a = ProfileBringUp \<and> Validate (ac_policy a) = None"
proof -
  let ?st = "empty_store no_tables" and ?fp = "Fingerprint decimal_ext BringUpPolicy"
  have cur: "ac_name (Active decimal_ext ?st) = ProfileSteady"
    by (simp add: Active_def no_tables_def ProfileByName_def Profiles_def)
  have target: "ProfileByName ProfileBringUp = Inr BringUpPolicy"
    by (simp add: ProfileByName_def Profiles_def ProfileSteady_def ProfileBringUp_def)
  have fp: "?fp \<noteq> []" by (simp add: Fingerprint_def hex_string_def decimal_ext_def)
  let ?s = "switched_spec decimal_ext human2 [] ProfileSteady ProfileBringUp ?fp"
  have "\<exists>st'. append_event decimal_ext 5 ?s ?st = Inr st'"
  proof (rule append_event_ok)
    show "spec_validate ?s = None"
      by (simp add: spec_validate_def switched_spec_def PolicyProfileSubjectID_def source_valid_def)
    show "\<exists>p. registry_apply (NewProjectionRegistry decimal_ext) (event_of 5 i ?s) (proj ?st) = Inr p" for i
      using fp by (simp add: registry_apply_kinds switched_spec_def profileSwitchedProjector_def
        guard_err_def need_def ProfileBringUp_def)
  qed
  then obtain st' where app: "append_event decimal_ext 5 ?s ?st = Inr st'" by blast
  have s: "Switch decimal_ext 5 [] ?st ProfileBringUp human2 =
      (Inr (\<lparr>ac_name = ProfileBringUp, ac_fingerprint = ?fp, ac_policy = BringUpPolicy\<rparr>, True), st')"
    using target ProfileByName_valid [OF target] app
    by (simp add: Switch_def human2_def Let_def cur) (simp add: ProfileSteady_def ProfileBringUp_def)
  from s profile_switch_effect [OF s] show ?thesis by auto
qed

section \<open>Registering nodes\<close>

lemma need_simps [simp]: "need True k m = Inr ()"
  by (simp add: need_def guard_err_def)

lemma jstring_opt_JNull [simp]: "jstring_opt JNull = Inr None"
  by (simp add: jstring_opt_def)

lemma omit_reads [simp]:
  "jstring_opt (jget (JObj (omit_none k v @ kvs)) k) = (case v of Some s \<Rightarrow> Inr (Some s)
     | None \<Rightarrow> jstring_opt (jget (JObj kvs) k))"
  "k \<noteq> k' \<Longrightarrow> jget (JObj (omit_none k' v @ kvs)) k = jget (JObj kvs) k"
  "jstrings (jget (JObj (omit_empty k vs @ kvs)) k) = (if vs = [] then jstrings (jget (JObj kvs) k) else Inr vs)"
  "k \<noteq> k' \<Longrightarrow> jget (JObj (omit_empty k' vs @ kvs)) k = jget (JObj kvs) k"
  by (auto simp: omit_none_def omit_empty_def jstring_opt_def jstrs_def split: option.split)

lemma registered_payload_reads:
  assumes "BuildRegisteredPayload p = Inr j"
  shows "jobject j" "jstring (jget j ''node_id'') = Inr (np_node p)"
    "jstring_opt (jget j ''base_url'') = Inr (np_base_url p)"
    "jstring_opt (jget j ''direct_url'') = Inr (np_direct_url p)"
    "jstrings (jget j ''relay_via'') = Inr (np_relay_via p)" "jstring (jget j ''status'') = Inr (np_status p)"
    "jget j ''payload_version'' = JNull"
  using assms by (auto simp: BuildRegisteredPayload_def bind_err_Inr split: option.split)

lemma validate_params_Inr:
  "validate_params p = Inr u \<longleftrightarrow> ValidNodeID (np_node p) \<and> np_status p \<noteq> [] \<and> validateRelayVia (np_relay_via p) = Inr ()"
  by (auto simp: validate_params_def validateNodeID_def bind_err_Inr guard_err_def)

text \<open>
  A node reads back as it was registered: when a registration appends an event, the row of the
  node holds exactly the declared URLs, relay hops and status, its creation time is that of the
  first registration, and no other row changes.
\<close>
theorem node_registration_reads_back:
  assumes "registerNode E now st actor p = (Inr True, st')"
  shows "\<exists>n. get_row nd_id (np_node p) (t_nodes (proj st')) = Some n \<and>
      nd_base_url n = np_base_url p \<and> nd_direct_url n = np_direct_url p \<and>
      nd_relay_via n = np_relay_via p \<and> nd_status n = np_status p \<and> nd_updated_at n = now \<and>
      nd_created_at n = (case get_row nd_id (np_node p) (t_nodes (proj st)) of
         Some old \<Rightarrow> nd_created_at old | None \<Rightarrow> now) \<and>
      (\<forall>i. i \<noteq> np_node p \<longrightarrow> get_row nd_id i (t_nodes (proj st')) = get_row nd_id i (t_nodes (proj st)))"
proof -
  have ptr: "nonEmptyPtr f v = Inr w \<Longrightarrow> w = v" for f v w
    by (auto simp: nonEmptyPtr_def split: option.split_asm if_split_asm)
  obtain j where j: "BuildRegisteredPayload p = Inr j"
    and app: "appendNodeEvent E now st actor (np_node p) EventNodeRegistered j = (Inr True, st')"
    using assms by (auto simp: registerNode_def bind_err_Inr dest!: ptr split: if_split_asm sum.split_asm)
  let ?s = "node_spec E actor (np_node p) EventNodeRegistered j"
  obtain i where "Append E (NewProjectionRegistry E) now st ?s = Inr (i, True, st')"
    using app by (auto simp: appendNodeEvent_def app_append_def split: sum.split_asm)
  then show ?thesis
  proof (cases rule: Append_cases)
    case (insert q)
    have r: "nodeRegisteredProjector (event_of now i ?s) (proj st) = Inr q"
      using insert(4) by (simp add: registry_apply_kinds node_spec_def)
    let ?row = "\<lparr>nd_id = np_node p, nd_base_url = np_base_url p, nd_direct_url = np_direct_url p,
      nd_relay_via = np_relay_via p, nd_status = np_status p, nd_created_at = now, nd_updated_at = now\<rparr>"
    have "q = (proj st)\<lparr>t_nodes := upsert_row nd_id (\<lambda>n. ?row\<lparr>nd_id := nd_id n, nd_created_at := nd_created_at n\<rparr>)
        ?row (t_nodes (proj st))\<rparr>"
      using r registered_payload_reads [OF j]
      by (auto simp: nodeRegisteredProjector_def node_spec_def bind_err_Inr Let_def)
    then show ?thesis using insert(5) by (auto split: option.split)
  qed simp
qed

lemma append_empty_ok:
  assumes "spec_validate s = None" "\<And>i. \<exists>p. registry_apply (NewProjectionRegistry E) (event_of now i s) t = Inr p"
  shows "\<exists>i st'. app_append E now (empty_store t) s = Inr (i, True, st')"
proof -
  obtain i where i: "DeterministicID E s = Inr i" using assms(1) by (simp add: DeterministicID_def)
  obtain p where "registry_apply (NewProjectionRegistry E) (event_of now i s) t = Inr p"
    using assms(2) by blast
  with i show ?thesis by (simp add: app_append_def Append_def)
qed

definition m4 :: node_params where
  "m4 = \<lparr>np_node = ''m4'', np_base_url = None, np_direct_url = Some ''https://m4'', np_relay_via = [''hub''],
     np_status = ''active''\<rparr>"

definition m4_json :: json where
  "m4_json = JObj [(''node_id'', JStr ''m4''), (''direct_url'', JStr ''https://m4''),
     (''relay_via'', JArr [JStr ''hub'']), (''status'', JStr ''active'')]"

lemma m4_payload: "BuildRegisteredPayload m4 = Inr m4_json"
  by code_simp

lemma m4_applies:
  "\<not> isl (nodeRegisteredProjector (event_of 5 i (node_spec decimal_ext human2 ''m4'' EventNodeRegistered m4_json)) no_tables)"
  by code_simp

lemma not_isl: "\<not> isl x \<Longrightarrow> \<exists>y. x = Inr y"
  by (cases x) auto

theorem node_registration_reads_back_witness:
  "\<exists>st'. registerNode decimal_ext 5 (empty_store no_tables) human2 m4 = (Inr True, st') \<and>
     (\<exists>n. get_row nd_id ''m4'' (t_nodes (proj st')) = Some n \<and> nd_direct_url n = Some ''https://m4'' \<and>
        nd_relay_via n = [''hub''])"
proof -
  let ?s = "node_spec decimal_ext human2 ''m4'' EventNodeRegistered m4_json"
  have "\<exists>i st'. app_append decimal_ext 5 (empty_store no_tables) ?s = Inr (i, True, st')"
  proof (rule append_empty_ok)
    show "spec_validate ?s = None"
      by (simp add: spec_validate_def node_spec_def NodeSubjectID_def source_valid_def)
    show "\<exists>p. registry_apply (NewProjectionRegistry decimal_ext) (event_of 5 i ?s) no_tables = Inr p" for i
      using not_isl [OF m4_applies [of i]] by (simp add: registry_apply_kinds node_spec_def)
  qed
  then obtain i st' where "app_append decimal_ext 5 (empty_store no_tables) ?s = Inr (i, True, st')" by blast
  moreover have same: "m4\<lparr>np_base_url := None, np_direct_url := Some ''https://m4''\<rparr> = m4"
    by (simp add: m4_def)
  moreover have "trim_space ''https://m4'' \<noteq> []" by code_simp
  moreover have "np_node m4 = ''m4''" "np_base_url m4 = None" "np_direct_url m4 = Some ''https://m4''"
    by (simp_all add: m4_def)
  ultimately have r: "registerNode decimal_ext 5 (empty_store no_tables) human2 m4 = (Inr True, st')"
    using m4_payload by (simp add: registerNode_def appendNodeEvent_def nonEmptyPtr_def same)
  from node_registration_reads_back [OF r] r show ?thesis by (auto simp: m4_def)
qed

section \<open>Routes\<close>

definition routes :: "node list \<Rightarrow> string \<Rightarrow> node \<Rightarrow> candidate list" where
  "routes ns target n =
     (if deref (nd_direct_url n) \<noteq> []
      then [\<lparr>cd_kind = KindDirect, cd_url = deref (nd_direct_url n), cd_via = [],
             cd_route = routeKey KindDirect target []\<rparr>] else []) @
     hop_candidates ns target KindRelay (nd_relay_via n) @ hop_candidates ns target KindQueue (nd_relay_via n)"

lemma Select_Inr:
  "Select ns target cools now = Inr cands \<longleftrightarrow>
     (\<exists>n. node_by_id ns target = Some n \<and> cands \<noteq> [] \<and>
        cands = filter (\<lambda>c. \<not> cooling cools (cd_route c) now) (routes ns target n))"
  by (auto simp: Select_def Let_def routes_def split: option.split if_splits)

text \<open>The walk: the failed candidates cool down, the first definitive answer ends it.\<close>

definition failed_attempts :: "attempt list \<Rightarrow> string set" where
  "failed_attempts as = (\<lambda>a. cd_route (at_candidate a)) ` set (filter at_cooled as)"

definition tried :: "candidate list \<Rightarrow> attempt list \<Rightarrow> bool" where
  "tried cands as \<longleftrightarrow> prefix (map at_candidate as) cands \<and> list_all at_cooled (butlast as)"

lemma deliver_walk_attempts:
  assumes "deliver_walk client cands req now out = (e, dl)"
  shows "\<exists>as. dl_attempts dl = dl_attempts out @ as \<and> prefix (map at_candidate as) cands \<and>
    list_all at_cooled (butlast as) \<and>
    (\<forall>r. dl_cooldowns dl r = (if r \<in> failed_attempts as then Some now else dl_cooldowns out r)) \<and>
    (case e of None \<Rightarrow> as \<noteq> [] \<and> \<not> at_cooled (last as) \<and> dl_terminal dl = Some (at_candidate (last as)) \<and>
         dl_status dl = at_status (last as) \<and> dl_status dl < 500 \<and> (dl_delivered dl \<longleftrightarrow> dl_status dl < 400)
     | Some f \<Rightarrow> f = ErrAllRoutesFailed \<and> map at_candidate as = cands \<and> list_all at_cooled as \<and>
         dl_delivered dl = dl_delivered out)"
  using assms
proof (induction cands arbitrary: out)
  case Nil
  then show ?case by (intro exI [of _ "[]"]) (auto simp: failed_attempts_def)
next
  case (Cons c cs)
  define status where "status = (case client (post_of c req) of Inl _ \<Rightarrow> 0 | Inr (s, _) \<Rightarrow> s)"
  define failure where "failure = (case client (post_of c req) of Inl e \<Rightarrow> Some e | Inr _ \<Rightarrow> None)"
  define body where "body = (case client (post_of c req) of Inl _ \<Rightarrow> [] | Inr (_, b) \<Rightarrow> b)"
  define att where "att = \<lparr>at_candidate = c, at_status = status, at_err = failure, at_cooled = False\<rparr>"
  note step = Cons.prems [unfolded deliver_walk.simps Let_def, folded status_def failure_def body_def, folded att_def]
  show ?case
  proof (cases "failure \<noteq> None \<or> status \<ge> 500")
    case True
    let ?out = "out\<lparr>dl_cooldowns := (dl_cooldowns out)(cd_route c \<mapsto> now),
        dl_attempts := dl_attempts out @ [att\<lparr>at_cooled := True\<rparr>]\<rparr>"
    have "deliver_walk client cs req now ?out = (e, dl)" using step True by simp
    from Cons.IH [OF this] obtain as where as: "dl_attempts dl = dl_attempts ?out @ as"
      "prefix (map at_candidate as) cs" "list_all at_cooled (butlast as)"
      "\<forall>r. dl_cooldowns dl r = (if r \<in> failed_attempts as then Some now else dl_cooldowns ?out r)"
      "case e of None \<Rightarrow> as \<noteq> [] \<and> \<not> at_cooled (last as) \<and> dl_terminal dl = Some (at_candidate (last as)) \<and>
         dl_status dl = at_status (last as) \<and> dl_status dl < 500 \<and> (dl_delivered dl \<longleftrightarrow> dl_status dl < 400)
       | Some f \<Rightarrow> f = ErrAllRoutesFailed \<and> map at_candidate as = cs \<and> list_all at_cooled as \<and>
         dl_delivered dl = dl_delivered ?out"
      by blast
    let ?as = "att\<lparr>at_cooled := True\<rparr> # as"
    have "failed_attempts ?as = insert (cd_route c) (failed_attempts as)"
      by (auto simp: failed_attempts_def att_def)
    then show ?thesis using as
      by (intro exI [of _ ?as]) (auto simp: att_def split: option.splits)
  next
    case False
    then have "e = None" "dl = out\<lparr>dl_delivered := status < 400, dl_terminal := Some c, dl_status := status,
        dl_body := body, dl_attempts := dl_attempts out @ [att]\<rparr>"
      using step by auto
    then show ?thesis using False
      by (intro exI [of _ "[att]"]) (auto simp: att_def failed_attempts_def)
  qed
qed

text \<open>
  A delivery tries the candidates in their order up to the first definitive answer.  The routes
  that failed at the transport or with a server error, and only these, cool down: as long as the
  window lasts no selection for any target offers them again, and when all routes failed, the
  same registry has no route left.
\<close>
theorem failed_routes_are_avoided:
  assumes "Select ns target cools now = Inr cands" "Deliver client cands req cools now = (e, dl)"
    and "now \<le> soon" "soon < now + CooldownWindow"
  shows "tried cands (dl_attempts dl) \<and>
    (\<forall>r. dl_cooldowns dl r = (if r \<in> failed_attempts (dl_attempts dl) then Some now else cools r)) \<and>
    (\<forall>ns' target' cands'. Select ns' target' (dl_cooldowns dl) soon = Inr cands' \<longrightarrow>
       cd_route ` set cands' \<inter> failed_attempts (dl_attempts dl) = {}) \<and>
    (e = Some ErrAllRoutesFailed \<longrightarrow> \<not> dl_delivered dl \<and>
       (\<forall>c \<in> set cands. cooling (dl_cooldowns dl) (cd_route c) soon))"
proof -
  let ?out = "\<lparr>dl_delivered = False, dl_terminal = None, dl_status = 0, dl_body = [],
    dl_cooldowns = cools, dl_attempts = []\<rparr>"
  have walk: "prefix (map at_candidate (dl_attempts dl)) cands" "list_all at_cooled (butlast (dl_attempts dl))"
    "\<And>r. dl_cooldowns dl r = (if r \<in> failed_attempts (dl_attempts dl) then Some now else cools r)"
    "e = Some ErrAllRoutesFailed \<Longrightarrow> map at_candidate (dl_attempts dl) = cands \<and>
       list_all at_cooled (dl_attempts dl) \<and> \<not> dl_delivered dl"
    using assms(2) deliver_walk_attempts [of client cands req now ?out e dl]
    by (auto simp: Deliver_def Let_def failed_attempts_def ErrAllRoutesFailed_def split: if_split_asm)
  have cool: "cooling (dl_cooldowns dl) r soon" if "r \<in> failed_attempts (dl_attempts dl)" for r
    using walk(3) [of r] that assms(4) by (simp add: cooling_def)
  have "cd_route c \<notin> failed_attempts (dl_attempts dl)"
    if "Select ns' target' (dl_cooldowns dl) soon = Inr cands'" "c \<in> set cands'" for ns' target' cands' c
    using that cool by (auto simp: Select_Inr)
  moreover have "cooling (dl_cooldowns dl) (cd_route c) soon"
    if failed: "e = Some ErrAllRoutesFailed" and c: "c \<in> set cands" for c
  proof -
    obtain a where "a \<in> set (dl_attempts dl)" "at_candidate a = c" "at_cooled a"
      using walk(4) [OF failed] c by (auto simp: list_all_iff)
    then show ?thesis by (intro cool) (auto simp: failed_attempts_def)
  qed
  ultimately show ?thesis using walk unfolding tried_def by blast
qed

definition fleet :: "node list" where
  "fleet = [\<lparr>nd_id = ''m4'', nd_base_url = None, nd_direct_url = Some ''https://m4'', nd_relay_via = [''hub''],
      nd_status = ''active'', nd_created_at = 1, nd_updated_at = 1\<rparr>,
    \<lparr>nd_id = ''hub'', nd_base_url = None, nd_direct_url = Some ''https://hub/'', nd_relay_via = [],
      nd_status = ''active'', nd_created_at = 1, nd_updated_at = 1\<rparr>]"

definition transition_command :: command where
  "transition_command = \<lparr>cm_target = ''m4'', cm_key = ''k1'', cm_path = ''/v1/work-items'', cm_body = ''{}''\<rparr>"

definition no_peer :: client where
  "no_peer r = Inl (Err [] ''connection refused'')"

lemma fleet_routes: "map_sum id (map cd_route) (Select fleet ''m4'' (\<lambda>_. None) 0) =
    Inr [''direct|m4'', ''relay|m4|hub'', ''queue|m4|hub'']"
  by code_simp

lemma no_peer_fails:
  "deliver_walk no_peer cands req now out = (e, dl) \<Longrightarrow> e = Some ErrAllRoutesFailed"
  by (induction cands arbitrary: out) (auto simp: no_peer_def Let_def)

theorem failed_routes_are_avoided_witness:
  "\<exists>cands dl. Select fleet ''m4'' (\<lambda>_. None) 0 = Inr cands \<and>
     map cd_route cands = [''direct|m4'', ''relay|m4|hub'', ''queue|m4|hub''] \<and>
     Deliver no_peer cands transition_command (\<lambda>_. None) 0 = (Some ErrAllRoutesFailed, dl) \<and>
     cooling (dl_cooldowns dl) ''relay|m4|hub'' 59000000000"
proof -
  obtain cands where c: "Select fleet ''m4'' (\<lambda>_. None) 0 = Inr cands"
    "map cd_route cands = [''direct|m4'', ''relay|m4|hub'', ''queue|m4|hub'']"
    using fleet_routes by (auto simp: map_sum_Inr)
  obtain e dl where d: "Deliver no_peer cands transition_command (\<lambda>_. None) 0 = (e, dl)"
    by (meson surj_pair)
  have "Unmarshal (normalizeBody ''{}'') \<noteq> None" by code_simp
  then have e: "e = Some ErrAllRoutesFailed"
    using d no_peer_fails by (auto simp: Deliver_def Let_def transition_command_def)
  have "''relay|m4|hub'' \<in> set (map cd_route cands)" unfolding c(2) by simp
  then obtain x where "x \<in> set cands" "cd_route x = ''relay|m4|hub''" by auto
  with failed_routes_are_avoided [OF c(1) d, of 59000000000] e
  have "cooling (dl_cooldowns dl) ''relay|m4|hub'' 59000000000" by (auto simp: CooldownWindow_def)
  with c d e show ?thesis by (intro exI [of _ cands] exI [of _ dl]) simp
qed

section \<open>The life of a queued command\<close>

text \<open>The row of a command keeps what is to be replayed, and never becomes pending again.\<close>

definition command_le :: "command_row \<Rightarrow> command_row \<Rightarrow> bool" where
  "command_le c c' \<longleftrightarrow> cq_id c' = cq_id c \<and> cq_target c' = cq_target c \<and> cq_path c' = cq_path c \<and>
     cq_body c' = cq_body c \<and> cq_origin_key c' = cq_origin_key c \<and> cq_queued_at c' = cq_queued_at c \<and>
     (cq_state c \<noteq> ''pending'' \<longrightarrow> cq_state c' \<noteq> ''pending'')"

definition commands_le :: "command_row list \<Rightarrow> command_row list \<Rightarrow> bool" where
  "commands_le rows rows' \<longleftrightarrow> (\<forall>q c. get_row cq_id q rows = Some c \<longrightarrow>
     (\<exists>c'. get_row cq_id q rows' = Some c' \<and> command_le c c'))"

lemma command_le_refl [simp]: "command_le c c"
  by (simp add: command_le_def)

lemma command_le_trans: "command_le a b \<Longrightarrow> command_le b c \<Longrightarrow> command_le a c"
  unfolding command_le_def by metis

lemma commands_le_refl [simp]: "commands_le rows rows"
  unfolding commands_le_def by auto

lemma commands_le_trans: "commands_le r s \<Longrightarrow> commands_le s t \<Longrightarrow> commands_le r t"
  unfolding commands_le_def by (meson command_le_trans)

definition acked_row :: "time \<Rightarrow> int \<Rightarrow> bool \<Rightarrow> command_row \<Rightarrow> command_row" where
  "acked_row now code ok c = c\<lparr>cq_state := (if ok then ''done'' else ''failed''), cq_status_code := Some code,
     cq_ok := Some ok, cq_acked_at := Some now\<rparr>"

lemma acked_row_id [simp]: "cq_id (acked_row now code ok c) = cq_id c"
  by (simp add: acked_row_def)

lemma acked_row_le: "command_le c (acked_row now code ok c)"
  by (simp add: command_le_def acked_row_def)

lemma commandAcked_cases:
  assumes "commandAckedProjector E ev t = Inr t'"
  obtains qid code ok where "juuid E (jget (ev_payload ev) ''command_queue_id'') = Inr qid"
    "jinteger (jget (ev_payload ev) ''status_code'') = Inr code" "jboolean (jget (ev_payload ev) ''ok'') = Inr ok"
    "t' = t\<lparr>t_commands := update_row cq_id qid (acked_row (ev_occurred_at ev) code ok) (t_commands t)\<rparr>"
  using assms that unfolding commandAckedProjector_def acked_row_def [abs_def]
  by (elim bind_err_Inr_E) auto

lemma apply_commands_le:
  assumes "registry_apply (NewProjectionRegistry E) ev t = Inr t'"
  shows "commands_le (t_commands t) (t_commands t')"
proof (cases "ev_kind ev \<in> {EventCommandQueued, EventCommandAcked}")
  case False
  with apply_keeps_commands [OF assms] show ?thesis by simp
next
  case True
  then consider "commandQueuedProjector E ev t = Inr t'" | "commandAckedProjector E ev t = Inr t'"
    using assms by (auto simp: registry_apply_kinds)
  then show ?thesis
  proof cases
    case 1
    then obtain r where "t' = t\<lparr>t_commands := insert_row cq_id r (t_commands t)\<rparr>"
      unfolding commandQueuedProjector_def Let_def by (elim bind_err_Inr_E) auto
    then show ?thesis by (auto simp: commands_le_def split: option.split)
  next
    case 2
    then show ?thesis
      by (rule commandAcked_cases) (auto simp: commands_le_def acked_row_le split: if_splits)
  qed
qed

lemma appends_commands_le: "app_appends E now st st' \<Longrightarrow> commands_le (t_commands (proj st)) (t_commands (proj st'))"
proof (induction rule: appends.induct)
  case (more st st' s i fresh st'')
  from more.hyps(2) have "commands_le (t_commands (proj st')) (t_commands (proj st''))"
  proof (cases rule: Append_cases)
    case (insert p)
    from apply_commands_le [OF insert(4)] insert(5) show ?thesis by simp
  qed simp
  with more.IH show ?case by (rule commands_le_trans)
qed simp

lemma later_commands_le: "later E st st' \<Longrightarrow> commands_le (t_commands (proj st)) (t_commands (proj st'))"
  by (induction rule: later.induct) (auto dest: appends_commands_le intro: commands_le_trans)

lemma later_history: "later E st st' \<Longrightarrow> app_history E st \<Longrightarrow> app_history E st'"
  by (induction rule: later.induct) (auto intro: history.commit)

lemma Ack_effect:
  assumes "ext_ok E" "Ack E now disc st qid code ok actor = (Inr (i, target), st')" "st' \<noteq> st"
  obtains r where "get_row cq_id qid (t_commands (proj st)) = Some r" "cq_target r = target"
    "app_appends E now st st'" "get_row cq_id qid (t_commands (proj st')) = Some (acked_row now code ok r)"
    "t_commands (proj st') = update_row cq_id qid (acked_row now code ok) (t_commands (proj st))"
proof -
  obtain r where r: "get_row cq_id qid (t_commands (proj st)) = Some r" "cq_target r = target"
    using assms(2) by (auto simp: Ack_def split: option.split_asm sum.split_asm)
  let ?s = "command_spec E EventCommandAcked (cq_target r) actor disc (acked_json E qid (cq_target r) code ok)"
  obtain fresh where app: "app_append E now st ?s = Inr (i, fresh, st')"
    using assms(2) r by (auto simp: Ack_def split: sum.split_asm)
  from app [unfolded app_append_def] show thesis
  proof (cases rule: Append_cases)
    case (insert p)
    have "commandAckedProjector E (event_of now i ?s) (proj st) = Inr p"
      using insert(4) by (simp add: registry_apply_kinds command_spec_def)
    then have "p = (proj st)\<lparr>t_commands := update_row cq_id qid (acked_row now code ok) (t_commands (proj st))\<rparr>"
      by (rule commandAcked_cases) (use assms(1) in \<open>auto simp: command_spec_def acked_json_def\<close>)
    with insert(5) have rows: "t_commands (proj st') = update_row cq_id qid (acked_row now code ok) (t_commands (proj st))"
      by simp
    with r have "get_row cq_id qid (t_commands (proj st')) = Some (acked_row now code ok r)" by simp
    with r rows app_append_appends [OF app] that show thesis by blast
  qed (use assms(3) in simp)
qed

lemma pending_rows:
  assumes "PendingForTarget st target limit = Inr rows" "r \<in> set rows"
  shows "r \<in> set (t_commands (proj st)) \<and> cq_target r = target \<and> cq_state r = ''pending''"
  using assms by (auto simp: PendingForTarget_def Let_def split: if_split_asm dest!: in_set_takeD)

text \<open>
  A command is drained until it is acknowledged, and never again: the rows a drain reads are
  pending commands of its target, oldest first and at most 500, and once an acknowledgement was
  recorded no later drain of any target returns the command.
\<close>
theorem acked_command_never_drained_again:
  assumes "ext_ok E" "app_history E st"
    and "Ack E now disc st qid code ok actor = (Inr (i, target), st1)" "st1 \<noteq> st" "later E st1 st2"
    and "PendingForTarget st2 target' limit = Inr rows"
  shows "qid \<notin> cq_id ` set rows \<and> (\<forall>r \<in> set rows. cq_target r = target' \<and> cq_state r = ''pending'') \<and>
    sorted (map cq_queued_at rows) \<and> length rows \<le> 500"
proof -
  obtain r where r: "app_appends E now st st1"
    "get_row cq_id qid (t_commands (proj st1)) = Some (acked_row now code ok r)"
    using Ack_effect [OF assms(1,3,4)] by metis
  have "app_history E st2" using later_history [OF assms(5) history.commit [OF assms(2) r(1)]] .
  then have dist: "distinct (map cq_id (t_commands (proj st2)))"
    using history_types by (auto simp: tables_ok_def table_ok_def)
  obtain c where c: "get_row cq_id qid (t_commands (proj st2)) = Some c" "command_le (acked_row now code ok r) c"
    using later_commands_le [OF assms(5)] r(2) by (auto simp: commands_le_def)
  have settled: "cq_state c \<noteq> ''pending''" using c(2) by (simp add: command_le_def acked_row_def)
  have "x = c" if "x \<in> set (t_commands (proj st2))" "cq_id x = qid" for x
    using dist that get_row_Some [OF c(1)] by (metis distinct_map inj_onD)
  then have "qid \<notin> cq_id ` set rows" using pending_rows [OF assms(6)] settled by fastforce
  moreover have "sorted (map cq_queued_at rows) \<and> length rows \<le> 500"
    using assms(6) by (auto simp: PendingForTarget_def Let_def maxPendingLimit_def defaultPendingLimit_def
        take_map [symmetric] intro: sorted_wrt_take split: if_split_asm)
  ultimately show ?thesis using pending_rows [OF assms(6)] by blast
qed

text \<open>A digest that keeps one byte of the kind, so that queued and acknowledged events differ.\<close>

definition mark_ext :: ext where
  "mark_ext = decimal_ext\<lparr>sha256 := \<lambda>s. replicate 15 CHR 0x00 @ [s ! 30] @ replicate 16 CHR 0x00\<rparr>"

lemma mark_ext_ok: "ext_ok mark_ext"
  using decimal_ext_ok by (simp add: ext_ok_def mark_ext_def)

lemma mark_ext_id:
  assumes "spec_validate s = None" "sp_subject_kind s = SubjectNode" "sp_kind s = ''command.'' @ c # rest"
  shows "DeterministicID mark_ext s = Inr (length_id (of_char c))"
proof -
  have "id_preimage s ! 30 = c" using assms(2,3) by (simp add: id_preimage_def nth_append)
  then show ?thesis using assms(1) by (simp add: DeterministicID_def mark_ext_def length_id_def)
qed

definition ping_json :: json where
  "ping_json = JObj [(''target_node_id'', JStr ''m4''), (''command_path'', JStr ''/v1/ping''),
     (''command_body'', JObj []), (''origin_idempotency_key'', JStr ''k1'')]"

definition ping_spec :: spec where
  "ping_spec = command_spec mark_ext EventCommandQueued ''m4'' None ''d1'' ping_json"

definition ping_row :: "uuid \<Rightarrow> command_row" where
  "ping_row i = \<lparr>cq_id = i, cq_target = ''m4'', cq_path = ''/v1/ping'', cq_body = JObj [], cq_origin_key = ''k1'',
     cq_origin_actor = None, cq_queued_at = 5, cq_state = ''pending'', cq_status_code = None, cq_ok = None,
     cq_acked_at = None\<rparr>"

definition ping_id :: uuid where "ping_id = length_id (of_char CHR ''q'')"

definition ping_db :: db where
  "ping_db = \<lparr>log = [as_stored (event_of 5 ping_id ping_spec)], proj = no_tables\<lparr>t_commands := [ping_row ping_id]\<rparr>\<rparr>"

lemma ping_projects: "commandQueuedProjector mark_ext (event_of 5 i ping_spec) no_tables =
    Inr (no_tables\<lparr>t_commands := [ping_row i]\<rparr>)"
  by code_simp

lemma command_spec_valid: "kind \<noteq> [] \<Longrightarrow> spec_validate (command_spec mark_ext kind ''m4'' actor disc payload) = None"
  by (simp add: spec_validate_def command_spec_def NodeSubjectID_def source_valid_def mark_ext_def)

lemma ping_identity: "DeterministicID mark_ext ping_spec = Inr ping_id"
  unfolding ping_id_def ping_spec_def
  by (rule mark_ext_id [OF command_spec_valid]) (simp_all add: command_spec_def)

lemma ping_history: "app_history mark_ext ping_db"
proof -
  from ping_identity have "app_append mark_ext 5 (empty_store no_tables) ping_spec = Inr (ping_id, True, ping_db)"
    using ping_projects [of ping_id]
    by (simp add: app_append_def Append_def ping_db_def registry_apply_kinds ping_spec_def command_spec_def)
  from history.commit [OF history.empty app_append_appends [OF this]] show ?thesis .
qed

lemma ping_acked:
  "\<exists>i st1. Ack mark_ext 9 ''d2'' ping_db ping_id 200 True None = (Inr (i, ''m4''), st1) \<and> st1 \<noteq> ping_db"
proof -
  let ?s = "command_spec mark_ext EventCommandAcked ''m4'' None ''d2'' (acked_json mark_ext ping_id ''m4'' 200 True)"
  let ?i = "length_id (of_char CHR ''a'')"
  have id: "DeterministicID mark_ext ?s = Inr ?i"
    by (rule mark_ext_id [OF command_spec_valid]) (simp_all add: command_spec_def)
  have ne: "?i \<noteq> ping_id" by (simp add: ping_id_def length_id_eq_iff)
  have "ping_id \<noteq> uuid_nil"
    by (rule DeterministicID_not_nil [OF mark_ext_ok ping_identity])
  then obtain p where "commandAckedProjector mark_ext (event_of 9 ?i ?s) (proj ping_db) = Inr p"
    using mark_ext_ok
    by (simp add: commandAckedProjector_def command_spec_def acked_json_def guard_err_def need_version_1_def
       payloadVersion_def need_def jinteger_def [of JNull])
  then have "app_append mark_ext 9 ping_db ?s = Inr (?i, True, \<lparr>log = log ping_db @ [as_stored (event_of 9 ?i ?s)], proj = p\<rparr>)"
    using id ne by (simp add: app_append_def Append_def ping_db_def registry_apply_kinds command_spec_def)
  then show ?thesis by (simp add: Ack_def ping_db_def ping_row_def get_row_def)
qed

theorem acked_command_never_drained_again_witness:
  "\<exists>st1 rows. snd (Ack mark_ext 9 ''d2'' ping_db ping_id 200 True None) = st1 \<and> st1 \<noteq> ping_db \<and>
     PendingForTarget st1 ''m4'' 10 = Inr rows \<and> ping_id \<notin> cq_id ` set rows"
proof -
  obtain i st1 where a: "Ack mark_ext 9 ''d2'' ping_db ping_id 200 True None = (Inr (i, ''m4''), st1)" "st1 \<noteq> ping_db"
    using ping_acked by blast
  have "ValidNodeID ''m4''" by code_simp
  then obtain rows where rows: "PendingForTarget st1 ''m4'' 10 = Inr rows"
    by (auto simp: PendingForTarget_def)
  from acked_command_never_drained_again [OF mark_ext_ok ping_history a later.now rows] a rows
  show ?thesis by auto
qed

section \<open>Hops\<close>

lemma post_of_headers [simp]:
  "header (pr_header (post_of c req)) ''X-Meristem-Relayed'' = (if cd_kind c = KindRelay then ''true'' else [])"
  "header (pr_header (post_of c req)) ''X-Meristem-Queue-For'' = (if cd_kind c = KindQueue then cm_target req else [])"
  "header (pr_header (post_of c req)) ''Idempotency-Key'' = cm_key req"
  by (auto simp: post_of_def header_def split: candidate_kind.split)

lemma post_of_sel [simp]: "pr_path (post_of c req) = cm_path req" "pr_body (post_of c req) = normalizeBody (cm_body req)"
  by (simp_all add: post_of_def)

lemma trim_space_plain:
  assumes "list_all (\<lambda>c. 0x20 < byte c \<and> byte c < 0x80) s"
  shows "trim_space s = s"
proof -
  have sp: "e \<noteq> [] \<and> \<not> (0x20 < byte (hd e) \<and> byte (hd e) < 0x80) \<and> \<not> (0x20 < byte (last e) \<and> byte (last e) < 0x80)"
    if "e \<in> set space_encodings" for e
    using that by (auto simp: space_encodings_def byte_def)
  have "\<not> has_prefix s e" if "e \<in> set space_encodings" for e
    using sp [OF that] assms by (cases e) (auto simp: has_prefix_iff)
  then have l: "trim_left s = s" by (simp add: trim_left_def strip_noop)
  have "\<not> has_prefix (rev s) e" if er: "e \<in> set (map rev space_encodings)" for e
  proof
    assume "has_prefix (rev s) e"
    then obtain t where "rev s = e @ t" by (auto simp: has_prefix_iff)
    moreover obtain d where d: "d \<in> set space_encodings" "e = rev d" using er by auto
    ultimately have "hd (rev s) = last d" "s \<noteq> []" using sp [OF d(1)] by (auto simp: hd_append hd_rev)
    then have "last d \<in> set s" by (metis hd_in_set rev_is_Nil_conv set_rev)
    with assms sp [OF d(1)] show False by (auto simp: list_all_iff)
  qed
  then have "trim_right s = s" by (simp add: trim_right_def strip_noop)
  with l show ?thesis by (simp add: trim_space_def)
qed

lemma ValidNodeID_trim: "ValidNodeID n \<Longrightarrow> trim_space n = n"
proof (rule trim_space_plain)
  have "node_id_char c \<Longrightarrow> 0x20 < byte c \<and> byte c < 0x80" for c
    by (auto simp: node_id_char_def less_eq_char_def byte_int)
  then show "ValidNodeID n \<Longrightarrow> list_all (\<lambda>c. 0x20 < byte c \<and> byte c < 0x80) n"
    by (auto simp: ValidNodeID_def list_all_iff split: if_split_asm)
qed

lemma handle_relayed:
  "headerIsTrue (header (pr_header r) ''X-Meristem-Relayed'') \<Longrightarrow>
   \<exists>a. handleCrossnodeCommand E now disc nodeID actor r st = (a, st) \<and> (\<forall>i. a \<noteq> Queued i)"
  by (auto simp: handleCrossnodeCommand_def Let_def)

lemma true_header: "headerIsTrue ''true''"
  by code_simp

lemma queued_json_reads:
  assumes "ext_ok E"
  shows "jobject (queued_json E inp body)" "jget (queued_json E inp body) ''target_node_id'' = JStr (eq_target inp)"
    "jget (queued_json E inp body) ''command_path'' = JStr (eq_path inp)"
    "jget (queued_json E inp body) ''origin_idempotency_key'' = JStr (eq_origin_key inp)"
    "juuid_opt E (jget (queued_json E inp body) ''origin_actor_token_id'') = Inr (eq_actor inp)"
    "jraw (queued_json E inp body) ''command_body'' = Some body"
  using assms by (auto simp: queued_json_def jraw_def juuid_opt_def juid_def juuid_def ext_ok_def split: option.split)

text \<open>The rows of the queue stand for events of the log.\<close>

lemma command_rows_logged:
  assumes "app_appends E now st st'" "cq_id ` set (t_commands (proj st)) \<subseteq> ev_id ` set (log st)"
  shows "cq_id ` set (t_commands (proj st')) \<subseteq> ev_id ` set (log st')"
  using assms
proof (induction rule: appends.induct)
  case (more st st' s i fresh st'')
  from more.hyps(2) show ?case
  proof (cases rule: Append_cases)
    case (insert p)
    let ?ev = "event_of now i s"
    have "cq_id ` set (t_commands p) \<subseteq> insert i (cq_id ` set (t_commands (proj st')))"
    proof (cases "ev_kind ?ev \<in> {EventCommandQueued, EventCommandAcked}")
      case False
      with apply_keeps_commands [OF insert(4)] show ?thesis by auto
    next
      case True
      then consider "commandQueuedProjector E ?ev (proj st') = Inr p" | "commandAckedProjector E ?ev (proj st') = Inr p"
        using insert(4) by (auto simp: registry_apply_kinds)
      then show ?thesis
      proof cases
        case 1
        then obtain r where "p = (proj st')\<lparr>t_commands := insert_row cq_id r (t_commands (proj st'))\<rparr>" "cq_id r = i"
          unfolding commandQueuedProjector_def Let_def by (elim bind_err_Inr_E) auto
        then show ?thesis by (auto simp: insert_row_def)
      next
        case 2
        then show ?thesis by (rule commandAcked_cases) (auto simp: update_row_def)
      qed
    qed
    then show ?thesis using more.IH more.prems insert(5) by auto
  qed (use more in simp)
qed

lemma history_commands_logged: "app_history E st \<Longrightarrow> cq_id ` set (t_commands (proj st)) \<subseteq> ev_id ` set (log st)"
proof (induction rule: history.induct)
  case (commit st now st')
  show ?case by (rule command_rows_logged [OF commit.hyps(2) commit.IH])
qed (simp add: no_tables_def)


definition hub_queue :: candidate where
  "hub_queue = \<lparr>cd_kind = KindQueue, cd_url = ''https://hub'', cd_via = ''hub'', cd_route = ''queue|m4|hub''\<rparr>"


end
