(* ===== verification/Spoke.thy ===== *)
theory Spoke
  imports Fleet
begin

text \<open>
  internal/spoke: the outbound loop of a node without inbound reachability.  One tick drains the
  commands that a hub has parked for the node, replays each against the local api, acknowledges
  the outcome, and advances the cursor of the hub feed.  The hub and the local api are arguments;
  the laws that a drain relies on are the locale \<open>command_hub\<close>, which the queue of the theory Fleet
  satisfies.
\<close>

section \<open>One tick\<close>

record tick_result =
  tk_drained :: nat
  tk_executed :: nat
  tk_failed :: nat
  tk_acked :: nat
  tk_feed_events :: nat
  tk_reachable :: bool

text \<open>
  What the spoke asks its local api: path, idempotency key and body.  The api answers with a status
  or the transport fails; either way its state may have changed.
\<close>

record local_call =
  lc_path :: string
  lc_key :: string
  lc_body :: json

definition executeLocal :: "(local_call \<Rightarrow> 'l \<Rightarrow> (err + int) \<times> 'l) \<Rightarrow> command_row \<Rightarrow> 'l \<Rightarrow> (err + int) \<times> 'l" where
  "executeLocal api cmd l =
     api \<lparr>lc_path = cq_path cmd, lc_key = cq_origin_key cmd, lc_body = cq_body cmd\<rparr> l"

fun drain_commands ::
  "(local_call \<Rightarrow> 'l \<Rightarrow> (err + int) \<times> 'l) \<Rightarrow> (uuid \<Rightarrow> int \<Rightarrow> bool \<Rightarrow> 'h \<Rightarrow> err option \<times> 'h) \<Rightarrow>
     command_row list \<Rightarrow> 'l \<Rightarrow> 'h \<Rightarrow> tick_result \<Rightarrow> 'l \<times> 'h \<times> tick_result"
where
  "drain_commands api ack [] l h res = (l, h, res)"
| "drain_commands api ack (cmd # cmds) l h res =
     (case executeLocal api cmd l of
        (Inl e, l') \<Rightarrow> drain_commands api ack cmds l' h res
      | (Inr status, l') \<Rightarrow>
          let ok = (200 \<le> status \<and> status < 300);
              res1 = res\<lparr>tk_executed := tk_executed res + 1,
                tk_failed := (if ok then tk_failed res else tk_failed res + 1)\<rparr>
          in (case ack (cq_id cmd) status ok h of
                (Some e, h') \<Rightarrow> drain_commands api ack cmds l' h' res1
              | (None, h') \<Rightarrow> drain_commands api ack cmds l' h' (res1\<lparr>tk_acked := tk_acked res1 + 1\<rparr>)))"

definition drain ::
  "('h \<Rightarrow> err + command_row list) \<Rightarrow> (local_call \<Rightarrow> 'l \<Rightarrow> (err + int) \<times> 'l) \<Rightarrow>
     (uuid \<Rightarrow> int \<Rightarrow> bool \<Rightarrow> 'h \<Rightarrow> err option \<times> 'h) \<Rightarrow> 'l \<Rightarrow> 'h \<Rightarrow> tick_result \<Rightarrow>
     err option \<times> 'l \<times> 'h \<times> tick_result"
where
  "drain fetch api ack l h res =
     (case fetch h of
        Inl e \<Rightarrow> (Some e, l, h, res)
      | Inr cmds \<Rightarrow> (None, drain_commands api ack cmds l h (res\<lparr>tk_drained := length cmds\<rparr>)))"

text \<open>
  The feed poll: the stored cursor, empty when it cannot be loaded, is sent; a page brings a number
  of items and the next cursor, which replaces the stored one unless it is empty or the save fails.
\<close>

definition pollFeed ::
  "(string \<Rightarrow> 'h \<Rightarrow> err + nat \<times> string) \<Rightarrow> err + string \<Rightarrow> bool \<Rightarrow> 'h \<Rightarrow> tick_result \<Rightarrow>
     err option \<times> string option \<times> tick_result"
where
  "pollFeed feed loaded savable h res =
     (case feed (case loaded of Inl _ \<Rightarrow> [] | Inr c \<Rightarrow> c) h of
        Inl e \<Rightarrow> (Some e, None, res)
      | Inr (items, nxt) \<Rightarrow>
          (None, (if nxt \<noteq> [] \<and> savable then Some nxt else None), res\<lparr>tk_feed_events := items\<rparr>))"

definition Tick ::
  "('h \<Rightarrow> err + command_row list) \<Rightarrow> (local_call \<Rightarrow> 'l \<Rightarrow> (err + int) \<times> 'l) \<Rightarrow>
     (uuid \<Rightarrow> int \<Rightarrow> bool \<Rightarrow> 'h \<Rightarrow> err option \<times> 'h) \<Rightarrow> (string \<Rightarrow> 'h \<Rightarrow> err + nat \<times> string) \<Rightarrow>
     err + string \<Rightarrow> bool \<Rightarrow> 'l \<Rightarrow> 'h \<Rightarrow> 'l \<times> 'h \<times> string option \<times> tick_result"
where
  "Tick fetch api ack feed loaded savable l h =
     (let res0 = \<lparr>tk_drained = 0, tk_executed = 0, tk_failed = 0, tk_acked = 0, tk_feed_events = 0,
            tk_reachable = True\<rparr>;
          (e1, l', h', res1) = drain fetch api ack l h res0;
          res2 = (if e1 = None then res1 else res1\<lparr>tk_reachable := False\<rparr>);
          (e2, saved, res3) = pollFeed feed loaded savable h' res2
      in (l', h', saved, if e2 = None then res3 else res3\<lparr>tk_reachable := False\<rparr>))"

text \<open>The commands of a batch that the local api answered, and the state it is left in.\<close>

fun answered :: "(local_call \<Rightarrow> 'l \<Rightarrow> (err + int) \<times> 'l) \<Rightarrow> command_row list \<Rightarrow> 'l \<Rightarrow> uuid list" where
  "answered api [] l = []"
| "answered api (cmd # cmds) l =
     (case executeLocal api cmd l of
        (Inl e, l') \<Rightarrow> answered api cmds l'
      | (Inr status, l') \<Rightarrow> cq_id cmd # answered api cmds l')"

fun replayed :: "(local_call \<Rightarrow> 'l \<Rightarrow> (err + int) \<times> 'l) \<Rightarrow> command_row list \<Rightarrow> 'l \<Rightarrow> 'l" where
  "replayed api [] l = l"
| "replayed api (cmd # cmds) l = replayed api cmds (snd (executeLocal api cmd l))"

section \<open>What a hub promises\<close>

text \<open>
  A hub keeps a set of pending commands under an invariant.  Reading returns pending commands only;
  an acknowledgement, accepted, refused or lost on the way back, removes at most its command.
\<close>

locale command_hub =
  fixes inv :: "'h \<Rightarrow> bool" and pending :: "'h \<Rightarrow> uuid set"
    and fetch :: "'h \<Rightarrow> err + command_row list"
    and ack :: "uuid \<Rightarrow> int \<Rightarrow> bool \<Rightarrow> 'h \<Rightarrow> err option \<times> 'h"
  assumes fetch_pending: "inv h \<Longrightarrow> fetch h = Inr rows \<Longrightarrow> cq_id ` set rows \<subseteq> pending h"
    and ack_inv: "inv h \<Longrightarrow> ack i code ok h = (e, h') \<Longrightarrow> inv h'"
    and ack_keeps: "inv h \<Longrightarrow> ack i code ok h = (e, h') \<Longrightarrow> pending h - {i} \<subseteq> pending h'"
    and ack_adds_none: "inv h \<Longrightarrow> ack i code ok h = (e, h') \<Longrightarrow> pending h' \<subseteq> pending h"
begin

lemma drain_commands_facts:
  assumes "inv h" "drain_commands api ack cmds l h res = (l', h', res')"
  shows "inv h' \<and> l' = replayed api cmds l \<and> pending h' \<subseteq> pending h \<and>
    pending h - set (answered api cmds l) \<subseteq> pending h' \<and>
    tk_drained res' = tk_drained res \<and> tk_executed res' = tk_executed res + length (answered api cmds l) \<and>
    tk_acked res' \<le> tk_acked res + length (answered api cmds l)"
  using assms
proof (induction cmds arbitrary: l h res)
  case (Cons cmd cmds)
  obtain r l1 where x: "executeLocal api cmd l = (r, l1)" by (cases "executeLocal api cmd l")
  show ?case
  proof (cases r)
    case (Inl e)
    then have "drain_commands api ack cmds l1 h res = (l', h', res')" using Cons.prems x by simp
    from Cons.IH [OF Cons.prems(1) this] Inl x show ?thesis by auto
  next
    case (Inr status)
    define ok where "ok = (200 \<le> status \<and> status < 300)"
    define res1 where "res1 = res\<lparr>tk_executed := tk_executed res + 1,
        tk_failed := (if ok then tk_failed res else tk_failed res + 1)\<rparr>"
    obtain e h1 where a: "ack (cq_id cmd) status ok h = (e, h1)" by (cases "ack (cq_id cmd) status ok h")
    have inv1: "inv h1" using ack_inv [OF Cons.prems(1) a] .
    note sh = ack_keeps [OF Cons.prems(1) a] ack_adds_none [OF Cons.prems(1) a]
    define res2 where "res2 = (if e = None then res1\<lparr>tk_acked := tk_acked res1 + 1\<rparr> else res1)"
    have res2: "tk_executed res2 = tk_executed res + 1" "tk_acked res2 \<le> tk_acked res + 1"
      "tk_drained res2 = tk_drained res"
      by (simp_all add: res1_def res2_def)
    have d: "drain_commands api ack cmds l1 h1 res2 = (l', h', res')"
      using Cons.prems(2) x Inr a unfolding res1_def res2_def
      by (cases e) (simp_all add: ok_def [symmetric] Let_def)
    from Cons.IH [OF inv1 d] sh res2 x Inr show ?thesis by auto
  qed
qed simp

lemma drain_facts:
  assumes "inv h" "drain fetch api ack l h res = (e, l', h', res')"
  shows "inv h' \<and> pending h' \<subseteq> pending h \<and>
    (case fetch h of
       Inl f \<Rightarrow> e = Some f \<and> l' = l \<and> h' = h \<and> res' = res
     | Inr cmds \<Rightarrow> e = None \<and> cq_id ` set cmds \<subseteq> pending h \<and> l' = replayed api cmds l \<and>
         pending h - set (answered api cmds l) \<subseteq> pending h' \<and> tk_drained res' = length cmds \<and>
         tk_executed res' = tk_executed res + length (answered api cmds l) \<and>
         tk_acked res' \<le> tk_acked res + length (answered api cmds l))"
proof (cases "fetch h")
  case (Inr cmds)
  then have "drain_commands api ack cmds l h (res\<lparr>tk_drained := length cmds\<rparr>) = (l', h', res')" "e = None"
    using assms(2) by (auto simp: drain_def)
  from drain_commands_facts [OF assms(1) this(1)] this(2) fetch_pending [OF assms(1) Inr] Inr show ?thesis
    by simp
qed (use assms in \<open>auto simp: drain_def\<close>)

end

section \<open>The queue of a hub keeps the promises\<close>

definition hub_pending :: "db \<Rightarrow> uuid set" where
  "hub_pending st = cq_id ` set (filter (\<lambda>r. cq_state r = ''pending'') (t_commands (proj st)))"

definition hub_fetch :: "string \<Rightarrow> int \<Rightarrow> db \<Rightarrow> err + command_row list" where
  "hub_fetch target limit st = PendingForTarget st target limit"

text \<open>The spoke acknowledges under the key ack:<event id> of its token, which the hub turns into the
  discriminator of the event.\<close>

definition ack_discriminator :: "ext \<Rightarrow> token \<Rightarrow> uuid \<Rightarrow> string" where
  "ack_discriminator E actor i = identity_seed E (tok_id actor)
     (''POST /v1/crossnode/commands/'' @ uuid_string E i @ ''/ack'') (''ack:'' @ uuid_string E i)"

definition hub_ack :: "ext \<Rightarrow> time \<Rightarrow> token \<Rightarrow> uuid \<Rightarrow> int \<Rightarrow> bool \<Rightarrow> db \<Rightarrow> err option \<times> db" where
  "hub_ack E now actor i code ok st =
     (case Ack E now (ack_discriminator E actor i) st i code ok (Some (tok_id actor)) of
        (Inl e, st') \<Rightarrow> (Some e, st') | (Inr _, st') \<Rightarrow> (None, st'))"

definition hub_inv :: "ext \<Rightarrow> db \<Rightarrow> bool" where
  "hub_inv E st \<longleftrightarrow> ext_ok E \<and> app_history E st"

lemma acked_row_state [simp]: "cq_state (acked_row now code ok r) \<noteq> ''pending''"
  by (simp add: acked_row_def)

lemma pending_after_ack:
  "cq_id ` set (filter (\<lambda>r. cq_state r = s) (update_row cq_id i f rows)) =
     cq_id ` set (filter (\<lambda>r. cq_state r = s) rows) - {i}"
  if "\<And>r. cq_state (f r) \<noteq> s"
  using that by (induction rows) (auto simp: update_row_def)

lemma hub_ack_facts:
  assumes "hub_inv E st" "hub_ack E now actor i code ok st = (e, st')"
  shows "hub_inv E st' \<and> hub_pending st - {i} \<subseteq> hub_pending st' \<and> hub_pending st' \<subseteq> hub_pending st"
proof (cases "st' = st")
  case False
  obtain j target where ack: "Ack E now (ack_discriminator E actor i) st i code ok (Some (tok_id actor)) = (Inr (j, target), st')"
    using assms(2) False by (auto simp: hub_ack_def Ack_def split: prod.split_asm sum.split_asm option.split_asm)
  have inv: "ext_ok E" "app_history E st" using assms(1) by (simp_all add: hub_inv_def)
  obtain "t_commands (proj st') = update_row cq_id i (acked_row now code ok) (t_commands (proj st))"
      "app_appends E now st st'"
    by (rule Ack_effect [OF inv(1) ack False]) blast
  then have "hub_pending st' = hub_pending st - {i}" "hub_inv E st'"
    using inv pending_after_ack [of "acked_row now code ok" "''pending''" i "t_commands (proj st)"]
    by (simp_all add: hub_inv_def hub_pending_def history.commit)
  then show ?thesis by auto
qed (use assms(1) in simp)

interpretation hub: command_hub "hub_inv E" hub_pending "hub_fetch target limit" "hub_ack E now actor"
proof
  fix st rows assume "hub_fetch target limit st = Inr rows"
  then show "cq_id ` set rows \<subseteq> hub_pending st"
    using pending_rows unfolding hub_fetch_def hub_pending_def by fastforce
qed (use hub_ack_facts in blast)+

text \<open>
  C40: Draining never loses a command.  Whatever the local api answers and whatever happens to the
  acknowledgements, the commands a tick replays are pending commands of the hub, each replayed once
  and in queue order; afterwards every pending command that the local api did not answer is still
  pending on the hub, nothing else has become pending, and at most the answered ones are acknowledged.
\<close>
theorem drain_loses_nothing:
  assumes "ext_ok E" "app_history E st"
    and "drain (hub_fetch target limit) api (hub_ack E now actor) l st res = (e, l', st', res')"
  shows "app_history E st' \<and> hub_pending st' \<subseteq> hub_pending st \<and>
    (case PendingForTarget st target limit of
       Inl f \<Rightarrow> e = Some f \<and> l' = l \<and> st' = st
     | Inr cmds \<Rightarrow> e = None \<and> cq_id ` set cmds \<subseteq> hub_pending st \<and> l' = replayed api cmds l \<and>
         hub_pending st - set (answered api cmds l) \<subseteq> hub_pending st' \<and>
         tk_executed res' = tk_executed res + length (answered api cmds l) \<and>
         tk_acked res' \<le> tk_acked res + length (answered api cmds l))"
  using hub.drain_facts [of E st target limit api now actor l res e l' st' res'] assms
  by (auto simp: hub_inv_def hub_fetch_def split: sum.splits)

text \<open>A local api that answers 200 and counts its calls.\<close>

definition counting_api :: "local_call \<Rightarrow> nat \<Rightarrow> (err + int) \<times> nat" where
  "counting_api call n = (Inr 200, n + 1)"

theorem drain_loses_nothing_witness:
  "\<exists>st' res'. drain (hub_fetch ''m4'' 10) counting_api (hub_ack mark_ext 9 human2) 0 ping_db
      \<lparr>tk_drained = 0, tk_executed = 0, tk_failed = 0, tk_acked = 0, tk_feed_events = 0, tk_reachable = True\<rparr> =
      (None, 1, st', res') \<and> tk_executed res' = 1 \<and> hub_pending st' \<subseteq> hub_pending ping_db"
proof -
  let ?res = "\<lparr>tk_drained = 0, tk_executed = 0, tk_failed = 0, tk_acked = 0, tk_feed_events = 0, tk_reachable = True\<rparr>"
  obtain e l' st' res' where d: "drain (hub_fetch ''m4'' 10) counting_api (hub_ack mark_ext 9 human2) 0 ping_db ?res =
      (e, l', st', res')"
    by (metis prod_cases4)
  have "ValidNodeID ''m4''" by code_simp
  then have p: "PendingForTarget ping_db ''m4'' 10 = Inr [ping_row ping_id]"
    by (simp add: PendingForTarget_def ping_db_def ping_row_def maxPendingLimit_def)
  from drain_loses_nothing [OF mark_ext_ok ping_history d] p d show ?thesis
    by (auto simp: counting_api_def executeLocal_def)
qed

end
