(* ===== verification/Reporting.thy ===== *)
theory Reporting
  imports Fleet
begin

text \<open>
  internal/errorreporting: reports of the deterministic layer.  service.go records, masks, unmasks
  and reads them; access.go is the privacy reducer, which decides from the scopes of a token which
  reports and which fields of their details it sees.  The column details is read as a JSON value,
  a report under the id that newSubjectID draws.
\<close>

abbreviation ErrReportNotFound :: err where
  "ErrReportNotFound \<equiv> Err ''errorreporting: deterministic error not found'' []"
abbreviation ErrComponentRequired :: err where
  "ErrComponentRequired \<equiv> Err ''errorreporting: component is required'' []"
abbreviation ErrCodeRequired :: err where
  "ErrCodeRequired \<equiv> Err ''errorreporting: code is required'' []"
abbreviation ErrMessageRequired :: err where
  "ErrMessageRequired \<equiv> Err ''errorreporting: message is required'' []"
definition ErrInvalidSeverity :: string where
  "ErrInvalidSeverity = ''errorreporting: invalid severity''"
abbreviation ErrInvalidDetails :: err where
  "ErrInvalidDetails \<equiv> Err ''errorreporting: details must be a JSON object'' []"
abbreviation ErrReportAccessDenied :: err where
  "ErrReportAccessDenied \<equiv> Err ''errorreporting: access denied'' []"

section \<open>Recording, masking and reading\<close>

record report_input =
  rp_component :: string
  rp_code :: string
  rp_message :: string
  rp_severity :: string
  rp_details :: string
  rp_actor :: token

record mask_input =
  mk_reason :: string
  mk_actor :: token

record report_options =
  lo_include_masked :: bool
  lo_limit :: int

definition reportSource :: "token \<Rightarrow> string" where
  "reportSource actor =
     (if source_valid (tok_source actor) then tok_source actor else SourceSystem)"

definition report_spec :: "uuid \<Rightarrow> string \<Rightarrow> token \<Rightarrow> json \<Rightarrow> spec" where
  "report_spec i kind actor payload =
     \<lparr>sp_subject_kind = SubjectDeterministicError, sp_subject_id = i, sp_kind = kind,
      sp_source = reportSource actor, sp_actor = Some (tok_id actor), sp_payload = payload,
      sp_discriminator = []\<rparr>"

text \<open>One JSON object and nothing else; blank details are the empty object.\<close>

definition normalizeDetails :: "string \<Rightarrow> err + json" where
  "normalizeDetails raw =
     (if trim_space raw = [] then Inr (JObj [])
      else case Unmarshal (trim_space raw) of
        Some (JObj kvs) \<Rightarrow> Inr (JObj kvs)
      | _ \<Rightarrow> Inl ErrInvalidDetails)"

definition GetReport :: "db \<Rightarrow> uuid \<Rightarrow> err + det_error" where
  "GetReport st i = (case get_row de_id i (t_det_errors (proj st)) of
     Some d \<Rightarrow> Inr d | None \<Rightarrow> Inl ErrReportNotFound)"

definition Report :: "ext \<Rightarrow> time \<Rightarrow> db \<Rightarrow> uuid \<Rightarrow> report_input \<Rightarrow> det_error outcome" where
  "Report E now st i inp =
     (let component = trim_space (rp_component inp);
          code = trim_space (rp_code inp);
          message = trim_space (rp_message inp);
          severity = or_default (rp_severity inp) ''error''
      in case bind_err (normalizeDetails (rp_details inp)) (\<lambda>details.
           bind_err (guard_err (component \<noteq> []) ErrComponentRequired) (\<lambda>_.
           bind_err (guard_err (code \<noteq> []) ErrCodeRequired) (\<lambda>_.
           bind_err (guard_err (message \<noteq> []) ErrMessageRequired) (\<lambda>_.
           bind_err (guard_err (severity_valid severity)
             (Err ErrInvalidSeverity ('': '' @ quote severity))) (\<lambda>_.
           app_append E now st (report_spec i EventDeterministicErrorReported (rp_actor inp)
             (JObj [(''component'', JStr component), (''code'', JStr code), (''message'', JStr message),
                (''severity'', JStr severity), (''details'', details)]))))))) of
           Inl e \<Rightarrow> (Inl e, st)
         | Inr (_, _, st') \<Rightarrow> (GetReport st' i, st'))"

definition setMasked :: "ext \<Rightarrow> time \<Rightarrow> db \<Rightarrow> uuid \<Rightarrow> bool \<Rightarrow> mask_input \<Rightarrow> det_error outcome" where
  "setMasked E now st i masked inp =
     (case GetReport st i of
        Inl e \<Rightarrow> (Inl e, st)
      | Inr _ \<Rightarrow>
          (case app_append E now st (report_spec i
              (if masked then EventDeterministicErrorMasked else EventDeterministicErrorUnmasked)
              (mk_actor inp) (JObj [(''reason'', JStr (trim_space (mk_reason inp)))])) of
             Inl e \<Rightarrow> (Inl e, st)
           | Inr (_, _, st') \<Rightarrow> (GetReport st' i, st')))"

definition Mask :: "ext \<Rightarrow> time \<Rightarrow> db \<Rightarrow> uuid \<Rightarrow> mask_input \<Rightarrow> det_error outcome" where
  "Mask E now st i inp = setMasked E now st i True inp"

definition Unmask :: "ext \<Rightarrow> time \<Rightarrow> db \<Rightarrow> uuid \<Rightarrow> mask_input \<Rightarrow> det_error outcome" where
  "Unmask E now st i inp = setMasked E now st i False inp"

text \<open>ORDER BY updated_at DESC; rows of the same time keep the order of the table.\<close>

definition ListReports :: "db \<Rightarrow> report_options \<Rightarrow> det_error list" where
  "ListReports st opts =
     (let limit = (if lo_limit opts \<le> 0 \<or> lo_limit opts > 200 then 50 else lo_limit opts) in
      take (nat limit) (sort_key (\<lambda>d. - de_updated_at d)
        (filter (\<lambda>d. lo_include_masked opts \<or> \<not> de_masked d) (t_det_errors (proj st)))))"

section \<open>The privacy reducer\<close>

abbreviation ScopeLogsRead :: string where "ScopeLogsRead \<equiv> ''logs.read''"
abbreviation ScopeLogsReadDetails :: string where "ScopeLogsReadDetails \<equiv> ''logs.read_details''"
abbreviation ScopeLogsReadRestricted :: string where "ScopeLogsReadRestricted \<equiv> ''logs.read_restricted''"
abbreviation ScopeLogsReadMasked :: string where "ScopeLogsReadMasked \<equiv> ''logs.read_masked''"
abbreviation ScopeLogsReadAll :: string where "ScopeLogsReadAll \<equiv> ''logs.read_all''"
abbreviation detailsVisibilityKey :: string where "detailsVisibilityKey \<equiv> ''_visibility''"

record access_policy =
  lp_read :: bool
  lp_details :: bool
  lp_restricted :: bool
  lp_masked :: bool

definition scopeSet :: "string list \<Rightarrow> string set" where
  "scopeSet scopes = set (filter (\<lambda>s. s \<noteq> []) (map trim_space scopes))"

definition PolicyForToken :: "token \<Rightarrow> access_policy" where
  "PolicyForToken tk =
     (if tok_is_root tk then \<lparr>lp_read = True, lp_details = True, lp_restricted = True, lp_masked = True\<rparr>
      else
        let has = (\<lambda>s. s \<in> scopeSet (tok_scopes tk));
            readAll = has ScopeLogsReadAll;
            readRestricted = (readAll \<or> has ScopeLogsReadRestricted);
            readDetails = (readRestricted \<or> has ScopeLogsReadDetails);
            readMasked = (readAll \<or> has ScopeLogsReadMasked)
        in \<lparr>lp_read = readAll \<or> has ScopeLogsRead \<or> readDetails \<or> readRestricted \<or> readMasked,
            lp_details = readDetails, lp_restricted = readRestricted, lp_masked = readMasked\<rparr>)"

definition allowsDetailLabel :: "access_policy \<Rightarrow> string \<Rightarrow> bool" where
  "allowsDetailLabel p label =
     (let l = to_lower (trim_space label) in
      if l = ''public'' then lp_read p
      else if l = [] \<or> l = ''internal'' then lp_details p
      else lp_restricted p)"

text \<open>
  The member \<open>_visibility\<close> decoded into a map of strings: what is not a string reads as the empty
  one, and a member that is not an object tags nothing.
\<close>

definition detail_tag :: "json \<Rightarrow> string \<Rightarrow> string" where
  "detail_tag details key = (case jget details detailsVisibilityKey of
     JObj ls \<Rightarrow> (case map_of ls key of Some (JStr s) \<Rightarrow> s | _ \<Rightarrow> [])
   | _ \<Rightarrow> [])"

definition detail_label :: "json \<Rightarrow> string \<Rightarrow> string" where
  "detail_label details key =
     (let tagged = trim_space (detail_tag details key) in
      if tagged \<noteq> [] then to_lower tagged else ''internal'')"

definition shows_detail :: "access_policy \<Rightarrow> json \<Rightarrow> string \<Rightarrow> bool" where
  "shows_detail p details key \<longleftrightarrow>
     key \<noteq> detailsVisibilityKey \<and> allowsDetailLabel p (detail_label details key)"

text \<open>json.Marshal writes the members of a map in the order of their keys.\<close>

definition FilterDetails :: "access_policy \<Rightarrow> json \<Rightarrow> json" where
  "FilterDetails p details = (case details of
     JObj kvs \<Rightarrow> JObj (map (\<lambda>k. (k, jget details k))
       (sort_strings (remdups (filter (shows_detail p details) (map fst kvs)))))
   | _ \<Rightarrow> JObj [])"

definition policy_filter :: "access_policy \<Rightarrow> det_error \<Rightarrow> det_error" where
  "policy_filter p d = d\<lparr>de_details := FilterDetails p (de_details d)\<rparr>"

definition GetForAccessor :: "db \<Rightarrow> uuid \<Rightarrow> token \<Rightarrow> err + det_error" where
  "GetForAccessor st i accessor =
     (let p = PolicyForToken accessor in
      bind_err (guard_err (lp_read p) ErrReportAccessDenied) (\<lambda>_.
      bind_err (GetReport st i) (\<lambda>d.
      bind_err (guard_err (\<not> (de_masked d \<and> \<not> lp_masked p)) ErrReportNotFound) (\<lambda>_.
      Inr (policy_filter p d)))))"

definition ListForAccessor :: "db \<Rightarrow> report_options \<Rightarrow> token \<Rightarrow> err + det_error list" where
  "ListForAccessor st opts accessor =
     (let p = PolicyForToken accessor in
      bind_err (guard_err (lp_read p) ErrReportAccessDenied) (\<lambda>_.
      bind_err (guard_err (\<not> (lo_include_masked opts \<and> \<not> lp_masked p)) ErrReportAccessDenied) (\<lambda>_.
      Inr (map (policy_filter p) (ListReports st opts)))))"

section \<open>What an accessor cannot see\<close>

text \<open>
  Two details agree for a policy when they carry the same tags and the same values under the keys
  that the policy shows.  Two reports are alike when only their details differ, in this way; the
  masked reports do not count for a policy that hides them.
\<close>

definition details_alike :: "access_policy \<Rightarrow> json \<Rightarrow> json \<Rightarrow> bool" where
  "details_alike p d d' \<longleftrightarrow> jget d detailsVisibilityKey = jget d' detailsVisibilityKey \<and>
     (\<forall>k. shows_detail p d k \<longrightarrow> jraw d k = jraw d' k)"

definition report_alike :: "access_policy \<Rightarrow> det_error \<Rightarrow> det_error \<Rightarrow> bool" where
  "report_alike p r r' \<longleftrightarrow>
     r' = r\<lparr>de_details := de_details r'\<rparr> \<and> details_alike p (de_details r) (de_details r')"

definition unhidden :: "access_policy \<Rightarrow> db \<Rightarrow> det_error list" where
  "unhidden p st = filter (\<lambda>d. de_masked d \<longrightarrow> lp_masked p) (t_det_errors (proj st))"

lemma jget_raw: "jget d k = (case jraw d k of Some v \<Rightarrow> v | None \<Rightarrow> JNull)"
  by (auto simp: jget_def jraw_def split: json.splits option.splits)

lemma FilterDetails_keys:
  "FilterDetails p d = JObj (map (\<lambda>k. (k, jget d k))
     (sorted_list_of_set {k. shows_detail p d k \<and> jraw d k \<noteq> None}))"
proof (cases d)
  case (JObj kvs)
  have "set (filter (shows_detail p d) (map fst kvs)) = {k. shows_detail p d k \<and> jraw d k \<noteq> None}"
    using JObj by (auto simp: jraw_def map_of_eq_None_iff)
  then show ?thesis
    using sorted_list_of_set_sort_remdups [of "filter (shows_detail p d) (map fst kvs)"] JObj
    by (simp add: FilterDetails_def sort_strings_def)
qed (simp_all add: FilterDetails_def jraw_def)

lemma FilterDetails_alike:
  assumes "details_alike p d d'"
  shows "FilterDetails p d = FilterDetails p d'"
proof -
  have tags: "shows_detail p d k = shows_detail p d' k" for k
    using assms by (simp add: details_alike_def shows_detail_def detail_label_def detail_tag_def)
  have vals: "jraw d k = jraw d' k" if "shows_detail p d k" for k
    using assms that by (simp add: details_alike_def)
  have keys: "{k. shows_detail p d k \<and> jraw d k \<noteq> None} = {k. shows_detail p d' k \<and> jraw d' k \<noteq> None}"
    using tags vals by auto
  have fin: "finite {k. shows_detail p d k \<and> jraw d k \<noteq> None}"
    by (rule finite_subset [of _ "case d of JObj kvs \<Rightarrow> fst ` set kvs | _ \<Rightarrow> {}"])
       (auto simp: jraw_def split: json.splits dest: map_of_SomeD intro: rev_image_eqI)
  have "map (\<lambda>k. (k, jget d k)) (sorted_list_of_set {k. shows_detail p d k \<and> jraw d k \<noteq> None}) =
      map (\<lambda>k. (k, jget d' k)) (sorted_list_of_set {k. shows_detail p d k \<and> jraw d k \<noteq> None})"
    using fin vals by (intro map_cong refl) (auto simp: jget_raw)
  then show ?thesis by (simp only: FilterDetails_keys keys)
qed

lemma report_alike_filter: "report_alike p r r' \<Longrightarrow> policy_filter p r = policy_filter p r'"
  unfolding report_alike_def policy_filter_def
  by (metis FilterDetails_alike det_error.surjective det_error.update_convs(6))

lemma insort_key_map:
  "map g (insort_key f x xs) = insort_key h (g x) (map g xs)" if "\<And>x. h (g x) = f x"
  by (induction xs) (simp_all add: that)

lemma sort_key_map: "map g (sort_key f xs) = sort_key h (map g xs)" if "\<And>x. h (g x) = f x"
  by (induction xs) (simp_all add: insort_key_map [of h g f, OF that])

lemma filter_map_inv: "map g (filter P xs) = filter Q (map g xs)" if "\<And>x. Q (g x) = P x"
  by (induction xs) (simp_all add: that)

lemma policy_filter_sel [simp]:
  "de_id (policy_filter p d) = de_id d" "de_masked (policy_filter p d) = de_masked d"
  "de_updated_at (policy_filter p d) = de_updated_at d"
  by (simp_all add: policy_filter_def)

text \<open>Both reading operations look at the filtered unhidden reports only.\<close>

lemma ListForAccessor_unhidden:
  "ListForAccessor st opts tk =
     (let p = PolicyForToken tk; limit = (if lo_limit opts \<le> 0 \<or> lo_limit opts > 200 then 50 else lo_limit opts) in
      bind_err (guard_err (lp_read p) ErrReportAccessDenied) (\<lambda>_.
      bind_err (guard_err (\<not> (lo_include_masked opts \<and> \<not> lp_masked p)) ErrReportAccessDenied) (\<lambda>_.
      Inr (take (nat limit) (sort_key (\<lambda>d. - de_updated_at d)
        (filter (\<lambda>d. lo_include_masked opts \<or> \<not> de_masked d) (map (policy_filter p) (unhidden p st))))))))"
proof -
  let ?p = "PolicyForToken tk"
  let ?Q = "\<lambda>d. lo_include_masked opts \<or> \<not> de_masked d"
  have "map (policy_filter ?p) (ListReports st opts) =
      take (nat (if lo_limit opts \<le> 0 \<or> lo_limit opts > 200 then 50 else lo_limit opts))
        (sort_key (\<lambda>d. - de_updated_at d) (filter ?Q (map (policy_filter ?p) (t_det_errors (proj st)))))"
    by (simp add: ListReports_def Let_def take_map [symmetric]
        sort_key_map [where h = "\<lambda>d. - de_updated_at d"] filter_map_inv [where Q = ?Q])
  moreover have "filter ?Q (map (policy_filter ?p) (t_det_errors (proj st))) =
      filter ?Q (map (policy_filter ?p) (unhidden ?p st))"
    if "\<not> (lo_include_masked opts \<and> \<not> lp_masked ?p)"
    using that by (auto simp: unhidden_def filter_map o_def intro!: arg_cong [of _ _ "map _"] filter_cong)
  ultimately show ?thesis
    by (auto simp: ListForAccessor_def Let_def guard_err_def)
qed

lemma get_row_filter:
  assumes "distinct (map key rows)" "\<And>x. key (g x) = key x"
  shows "get_row key i (map g (filter P rows)) =
    (case get_row key i rows of Some d \<Rightarrow> if P d then Some (g d) else None | None \<Rightarrow> None)"
  using assms(1)
proof (induction rows)
  case (Cons a rows)
  show ?case
  proof (cases "key a = i")
    case True
    then have n: "get_row key i rows = None" using Cons.prems by (simp add: get_row_None)
    then have "get_row key i (map g (filter P rows)) = None" using Cons by simp
    with n True show ?thesis by (simp add: get_row_def assms(2))
  qed (use Cons in \<open>auto simp: get_row_def assms(2)\<close>)
qed (simp add: get_row_def)

lemma GetForAccessor_unhidden:
  assumes "distinct (map de_id (t_det_errors (proj st)))"
  shows "GetForAccessor st i tk =
     (let p = PolicyForToken tk in
      bind_err (guard_err (lp_read p) ErrReportAccessDenied) (\<lambda>_.
      case get_row de_id i (map (policy_filter p) (unhidden p st)) of
        Some d \<Rightarrow> Inr d | None \<Rightarrow> Inl ErrReportNotFound))"
proof -
  let ?p = "PolicyForToken tk"
  have "get_row de_id i (map (policy_filter ?p) (unhidden ?p st)) =
      (case get_row de_id i (t_det_errors (proj st)) of
         Some d \<Rightarrow> if de_masked d \<longrightarrow> lp_masked ?p then Some (policy_filter ?p d) else None
       | None \<Rightarrow> None)"
    unfolding unhidden_def by (rule get_row_filter [OF assms]) simp
  then show ?thesis
    by (auto simp: GetForAccessor_def GetReport_def Let_def guard_err_def split: option.splits)
qed

text \<open>
  C17: Noninterference of the error log.  If two databases hold, in the same order, the same reports up
  to masked reports and detail fields that the token's scopes do not show (secret fields may have
  other values, or exist in one database only), then no read of that token tells them apart.
\<close>
theorem error_details_noninterference:
  assumes "app_history E st" "app_history E' st'"
    and "list_all2 (report_alike (PolicyForToken tk)) (unhidden (PolicyForToken tk) st)
      (unhidden (PolicyForToken tk) st')"
  shows "GetForAccessor st i tk = GetForAccessor st' i tk \<and>
    ListForAccessor st opts tk = ListForAccessor st' opts tk"
proof -
  have same: "map (policy_filter (PolicyForToken tk)) (unhidden (PolicyForToken tk) st) =
      map (policy_filter (PolicyForToken tk)) (unhidden (PolicyForToken tk) st')"
    using assms(3) by (induction rule: list_all2_induct) (simp_all add: report_alike_filter)
  have "distinct (map de_id (t_det_errors (proj st)))" "distinct (map de_id (t_det_errors (proj st')))"
    using history_types [OF assms(1)] history_types [OF assms(2)] by (simp_all add: tables_ok_def table_ok_def)
  then show ?thesis
    by (simp add: GetForAccessor_unhidden ListForAccessor_unhidden Let_def same)
qed

text \<open>Two databases with one report, whose unlabelled field differs.\<close>

definition reader :: token where
  "reader = human2\<lparr>tok_scopes := [ScopeLogsRead]\<rparr>"

definition report_details :: "string \<Rightarrow> json" where
  "report_details secret = JObj [(''m'', JStr ''x''), (''_visibility'', JObj [(''m'', JStr ''Public'')]),
     (''k'', JStr secret)]"

definition reported_spec :: "string \<Rightarrow> spec" where
  "reported_spec secret = report_spec 4 EventDeterministicErrorReported reader
     (JObj [(''component'', JStr ''c''), (''code'', JStr ''e''), (''message'', JStr ''w''),
        (''severity'', JStr ''error''), (''details'', report_details secret)])"

definition reported_row :: "string \<Rightarrow> det_error" where
  "reported_row secret = \<lparr>de_id = 4, de_component = ''c'', de_code = ''e'', de_message = ''w'',
     de_severity = ''error'', de_details = report_details secret, de_reported_by = Some (tok_id reader),
     de_reported_at = 5, de_updated_at = 5, de_masked = False, de_mask_reason = None,
     de_masked_by = None, de_masked_at = None\<rparr>"

lemma reported_projects:
  "errorReportedProjector (event_of 5 i (reported_spec secret)) no_tables =
     Inr (no_tables\<lparr>t_det_errors := [reported_row secret]\<rparr>)"
  by code_simp

lemma reported_history:
  "\<exists>st. app_history decimal_ext st \<and> proj st = no_tables\<lparr>t_det_errors := [reported_row secret]\<rparr>"
proof -
  let ?s = "reported_spec secret"
  have ap: "registry_apply (NewProjectionRegistry decimal_ext) (event_of 5 i ?s) no_tables =
      Inr (no_tables\<lparr>t_det_errors := [reported_row secret]\<rparr>)" for i
    using reported_projects by (simp add: registry_apply_kinds reported_spec_def report_spec_def)
  have "spec_validate ?s = None"
    by (simp add: spec_validate_def reported_spec_def report_spec_def reportSource_def source_valid_def)
  then obtain i st where a: "app_append decimal_ext 5 (empty_store no_tables) ?s = Inr (i, True, st)"
    using append_empty_ok ap by blast
  have "proj st = no_tables\<lparr>t_det_errors := [reported_row secret]\<rparr>"
    using a [unfolded app_append_def] ap by (cases rule: Append_cases) auto
  with history.commit [OF history.empty app_append_appends [OF a]] show ?thesis by blast
qed

theorem error_details_noninterference_witness:
  "\<exists>st st'. t_det_errors (proj st) \<noteq> t_det_errors (proj st') \<and>
     GetForAccessor st 4 reader = GetForAccessor st' 4 reader \<and> \<not> isl (GetForAccessor st 4 reader)"
proof -
  obtain st st' where st: "app_history decimal_ext st" "proj st = no_tables\<lparr>t_det_errors := [reported_row ''a'']\<rparr>"
    and st': "app_history decimal_ext st'" "proj st' = no_tables\<lparr>t_det_errors := [reported_row ''b'']\<rparr>"
    using reported_history by meson
  have p: "PolicyForToken reader = \<lparr>lp_read = True, lp_details = False, lp_restricted = False, lp_masked = False\<rparr>"
    by code_simp
  have k: "\<not> shows_detail (PolicyForToken reader) (report_details s) ''k''" for s
    unfolding p report_details_def by code_simp
  have "report_alike (PolicyForToken reader) (reported_row ''a'') (reported_row ''b'')"
    using k by (auto simp: report_alike_def details_alike_def reported_row_def report_details_def jraw_def)
  then have alike: "list_all2 (report_alike (PolicyForToken reader)) (unhidden (PolicyForToken reader) st)
      (unhidden (PolicyForToken reader) st')"
    using st(2) st'(2) by (simp add: unhidden_def reported_row_def)
  have "t_det_errors (proj st) \<noteq> t_det_errors (proj st')"
    using st(2) st'(2) by (simp add: reported_row_def report_details_def)
  moreover have "\<not> isl (GetForAccessor st 4 reader)"
    using st(2) p by (simp add: GetForAccessor_def GetReport_def reported_row_def get_row_def Let_def guard_err_def)
  ultimately show ?thesis using error_details_noninterference [OF st(1) st'(1) alike] by blast
qed

section \<open>A mask that is used again\<close>

text \<open>
  The event of a mask carries its reason and no discriminator.  Masking a report once more for the
  same reason collapses onto the first event, although it was unmasked in between.
\<close>

theorem repeated_mask_changes_nothing:
  assumes "setMasked E now st i masked inp = (Inr d, st1)" "later E st1 st2"
    and "trim_space (mk_reason inp') = trim_space (mk_reason inp)"
  shows "setMasked E now' st2 i masked inp' = (GetReport st2 i, st2)"
proof -
  let ?s = "\<lambda>inp. report_spec i (if masked then EventDeterministicErrorMasked else EventDeterministicErrorUnmasked)
      (mk_actor inp) (JObj [(''reason'', JStr (trim_space (mk_reason inp)))])"
  obtain j fresh where a: "Append E (NewProjectionRegistry E) now st (?s inp) = Inr (j, fresh, st1)"
    using assms(1) by (auto simp: setMasked_def app_append_def split: sum.split_asm)
  then have j: "DeterministicID E (?s inp) = Inr j" "j \<in> ev_id ` set (log st1)" by (auto elim!: Append_cases)
  have "prefix (log st1) (log st2)" by (rule later_prefix [OF assms(2)])
  then have "j \<in> ev_id ` set (log st2)" using j(2) by (auto simp: prefix_def)
  moreover have "DeterministicID E (?s inp') = Inr j"
    using j(1) assms(3)
    by (auto simp: DeterministicID_def report_spec_def spec_validate_def id_preimage_def reportSource_def
        source_valid_def split: if_split_asm option.split_asm)
  ultimately have "app_append E now' st2 (?s inp') = Inr (j, False, st2)" by (simp add: app_append_def Append_def)
  then show ?thesis by (cases "GetReport st2 i") (simp_all add: setMasked_def)
qed

definition mask_noise :: mask_input where
  "mask_noise = \<lparr>mk_reason = ''noise'', mk_actor = human2\<rparr>"

definition reported_db :: db where
  "reported_db = empty_store (no_tables\<lparr>t_det_errors := [reported_row ''a'']\<rparr>)"

definition mask_spec :: "string \<Rightarrow> spec" where
  "mask_spec kind = report_spec 4 kind human2 (JObj [(''reason'', JStr ''noise'')])"

lemma mask_ids:
  "DeterministicID decimal_ext (mask_spec EventDeterministicErrorMasked) = Inr (length_id 82)"
  "DeterministicID decimal_ext (mask_spec EventDeterministicErrorUnmasked) = Inr (length_id 84)"
proof -
  have "length (id_preimage (mask_spec EventDeterministicErrorMasked)) mod 256 = 82"
    "length (id_preimage (mask_spec EventDeterministicErrorUnmasked)) mod 256 = 84" by code_simp+
  then show "DeterministicID decimal_ext (mask_spec EventDeterministicErrorMasked) = Inr (length_id 82)"
    "DeterministicID decimal_ext (mask_spec EventDeterministicErrorUnmasked) = Inr (length_id 84)"
    by (simp_all add: decimal_ext_id mask_spec_def report_spec_def spec_validate_def reportSource_def
        source_valid_def length_id_eq_iff)
qed

text \<open>Masked, unmasked, masked again for the same reason: the report stays unmasked.\<close>

theorem mask_lost_example:
  "\<exists>d1 d2 d3 st1 st2. Mask decimal_ext 6 reported_db 4 mask_noise = (Inr d1, st1) \<and> de_masked d1 \<and>
     Unmask decimal_ext 7 st1 4 mask_noise = (Inr d2, st2) \<and> \<not> de_masked d2 \<and>
     Mask decimal_ext 8 st2 4 mask_noise = (Inr d3, st2) \<and> \<not> de_masked d3"
proof -
  let ?r = "trim_space ''noise''"
  have r: "?r = ''noise''" by code_simp
  have h: "tok_id human2 = 2" by code_simp
  have d: "decodeReasonPayload (JObj [(''reason'', JStr ''noise'')]) = Inr ''noise''" by code_simp
  let ?m = "mask_spec EventDeterministicErrorMasked" and ?u = "mask_spec EventDeterministicErrorUnmasked"
  let ?row0 = "reported_row ''a''"
  let ?row1 = "?row0\<lparr>de_masked := True, de_mask_reason := Some ''noise'', de_masked_by := Some 2,
      de_masked_at := Some 6, de_updated_at := 6\<rparr>"
  let ?row2 = "?row1\<lparr>de_masked := False, de_mask_reason := None, de_masked_by := None,
      de_masked_at := None, de_updated_at := 7\<rparr>"
  let ?st1 = "\<lparr>log = [as_stored (event_of 6 (length_id 82) ?m)], proj = no_tables\<lparr>t_det_errors := [?row1]\<rparr>\<rparr>"
  let ?st2 = "\<lparr>log = [as_stored (event_of 6 (length_id 82) ?m), as_stored (event_of 7 (length_id 84) ?u)],
      proj = no_tables\<lparr>t_det_errors := [?row2]\<rparr>\<rparr>"
  have p1: "errorMaskedProjector decimal_ext (event_of 6 i ?m) (proj reported_db) = Inr (proj ?st1)" for i
    using d h by (simp add: errorMaskedProjector_def update_det_error_def update_row_def mask_spec_def report_spec_def
        reported_db_def reported_row_def guard_err_def null_if_empty_def)
  have p2: "errorUnmaskedProjector decimal_ext (event_of 7 i ?u) (proj ?st1) = Inr (proj ?st2)" for i
    using d h by (simp add: errorUnmaskedProjector_def update_det_error_def update_row_def mask_spec_def report_spec_def
        reported_row_def guard_err_def)
  have k: "sp_kind ?m = EventDeterministicErrorMasked" "sp_kind ?u = EventDeterministicErrorUnmasked"
    by (simp_all add: mask_spec_def report_spec_def)
  have a1: "app_append decimal_ext 6 reported_db ?m = Inr (length_id 82, True, ?st1)"
    using p1 [of "length_id 82"] by (simp add: app_append_def Append_def mask_ids registry_apply_kinds k reported_db_def)
  have a2: "app_append decimal_ext 7 ?st1 ?u = Inr (length_id 84, True, ?st2)"
    using p2 [of "length_id 84"] by (simp add: app_append_def Append_def mask_ids registry_apply_kinds k length_id_eq_iff)
  have g: "GetReport reported_db 4 = Inr ?row0" "GetReport ?st1 4 = Inr ?row1" "GetReport ?st2 4 = Inr ?row2"
    by (simp_all add: GetReport_def reported_db_def get_row_def reported_row_def)
  have m1: "Mask decimal_ext 6 reported_db 4 mask_noise = (Inr ?row1, ?st1)"
    using a1 g r by (simp add: Mask_def setMasked_def mask_noise_def mask_spec_def)
  have m2: "Unmask decimal_ext 7 ?st1 4 mask_noise = (Inr ?row2, ?st2)"
    using a2 g r by (simp add: Unmask_def setMasked_def mask_noise_def mask_spec_def)
  have "later decimal_ext ?st1 ?st2"
    by (rule later.tx [OF later.now app_append_appends [OF a2]])
  from repeated_mask_changes_nothing [OF m1 [unfolded Mask_def] this]
  have "Mask decimal_ext 8 ?st2 4 mask_noise = (Inr ?row2, ?st2)" using g(3) by (simp add: Mask_def)
  with m1 m2 show ?thesis by (intro exI conjI) (assumption | simp add: reported_row_def)+
qed

end
