(* ===== verification/Reception.thy ===== *)
theory Reception
  imports Fleet
begin

text \<open>
  How work comes in: internal/signals/service.go (reports of other programs, deduplicated onto live
  work items and metered per token) and internal/inbox/service.go (text that a person captures).
  One transaction each.  The ids that newSubjectID draws and the clock of the process, where it is
  not that of the database, are arguments.
\<close>

definition ErrSignalKindRequired :: err where
  "ErrSignalKindRequired = Err ''signals: signal_kind is required'' []"
definition ErrWorkSpecRequired :: err where
  "ErrWorkSpecRequired = Err ''signals: work_spec is required'' []"
definition ErrWorkSpecInvalid :: string where
  "ErrWorkSpecInvalid = ''signals: work_spec must be valid JSON''"
definition ErrWorkSpecMissingTitle :: err where
  "ErrWorkSpecMissingTitle = Err ''signals: work_spec.title is required'' []"
definition ErrSignalItemBudgetExhausted :: string where
  "ErrSignalItemBudgetExhausted = ''signals: source-token signal admission budget exhausted''"

record source_metadata =
  sm_kind :: string
  sm_identifier :: string
  sm_external_ref :: string

record receive_input =
  rc_kind :: string
  rc_dedupe_key :: string
  rc_source :: source_metadata
  rc_work_spec :: string

record receive_result =
  rr_signal :: uuid
  rr_signal_event :: uuid
  rr_work_item :: uuid
  rr_work_item_event :: uuid
  rr_created :: bool
  rr_fingerprint :: string
  rr_dedupe_key :: string
  rr_kind :: string

section \<open>The work spec\<close>

text \<open>A nil slice is None: it is written as null, an empty one as [].\<close>

record work_spec_header =
  wh_title :: string
  wh_objective :: string
  wh_details :: string
  wh_criteria :: "string list option"

definition decodeWorkSpecHeader :: "json \<Rightarrow> err + work_spec_header" where
  "decodeWorkSpecHeader j =
     map_sum (\<lambda>e. Err ErrWorkSpecInvalid ('': '' @ err_message e)) id
       (bind_err (guard_err (jobject j) ErrDecode) (\<lambda>_.
        bind_err (jstring (jget j ''title'')) (\<lambda>title.
        bind_err (jstring (jget j ''objective'')) (\<lambda>objective.
        bind_err (jstring (jget j ''details'')) (\<lambda>details.
        bind_err (jstrings (jget j ''acceptance_criteria'')) (\<lambda>criteria.
        Inr \<lparr>wh_title = title, wh_objective = objective, wh_details = details,
          wh_criteria = (if jget j ''acceptance_criteria'' = JNull then None else Some criteria)\<rparr>))))))"

definition workItemBodyFrom :: "work_spec_header \<Rightarrow> string" where
  "workItemBodyFrom h = (if trim_space (wh_objective h) \<noteq> [] then wh_objective h else wh_details h)"

definition computeFingerprint :: "ext \<Rightarrow> json \<Rightarrow> string" where
  "computeFingerprint E v = hex_string (sha256 E (CanonicalJSON v))"

definition sourceMetadataPayload :: "source_metadata \<Rightarrow> (string \<times> json) list" where
  "sourceMetadataPayload m = str_field ''kind'' (sm_kind m) @
     str_field ''identifier'' (sm_identifier m) @ str_field ''external_ref'' (sm_external_ref m)"

section \<open>Admission\<close>

definition signalItemBudget :: "ext \<Rightarrow> db \<Rightarrow> int" where
  "signalItemBudget E st = po_max_signal_items (ac_policy (Active E st))"

definition admitItemCreation :: "int \<Rightarrow> int \<Rightarrow> bool" where
  "admitItemCreation createdThisHour mx \<longleftrightarrow> createdThisHour < mx"

definition countCreatingSignalsLastHour :: "db \<Rightarrow> time \<Rightarrow> uuid \<Rightarrow> int" where
  "countCreatingSignalsLastHour st now actor =
     int (length (filter (\<lambda>r. sr_actor r = Some actor \<and> sr_created_work_item r \<and>
       sr_received_at r \<ge> now - hour) (t_signals (proj st))))"

definition live_item :: "tables \<Rightarrow> uuid \<Rightarrow> bool" where
  "live_item t wid = (case get_row wi_id wid (t_work_items t) of
     None \<Rightarrow> False | Some w \<Rightarrow> wi_state w \<notin> set [WorkItemDone, WorkItemFailed, WorkItemCanceled])"

text \<open>ORDER BY received_at DESC LIMIT 1; among equal times the first row of the table.\<close>

definition lookupLiveWorkItem :: "db \<Rightarrow> string \<Rightarrow> uuid option" where
  "lookupLiveWorkItem st key =
     (if key = [] then None
      else case sort_key (\<lambda>r. - sr_received_at r)
          (filter (\<lambda>r. sr_dedupe_key r = Some key \<and>
             (case sr_work_item r of None \<Rightarrow> False | Some w \<Rightarrow> live_item (proj st) w))
           (t_signals (proj st))) of
        [] \<Rightarrow> None
      | r # _ \<Rightarrow> sr_work_item r)"

definition dedupeLockKeyFor :: "ext \<Rightarrow> string \<Rightarrow> int" where
  "dedupeLockKeyFor E key =
     sint (of_nat (undigits256 (map of_char (take 8 (sha256 E (''signals.dedupe|'' @ key))))) :: 64 word)"

definition signalBudgetEscalationID :: "ext \<Rightarrow> uuid \<Rightarrow> string \<Rightarrow> uuid" where
  "signalBudgetEscalationID E actor bucket = uuid_sha1 E NameSpaceURL
     (join [CHR 0x00] [''meristem'', ''escalation'', ''signal-admission-budget'', uuid_string E actor, bucket])"

definition signalBudgetHumanWorkItemID :: "ext \<Rightarrow> uuid \<Rightarrow> uuid" where
  "signalBudgetHumanWorkItemID E escalationID = uuid_sha1 E NameSpaceURL
     (join [CHR 0x00] [''meristem'', ''escalation'', ''human-work-item'', uuid_string E escalationID])"

definition signalBudgetHumanWorkItemBody :: "ext \<Rightarrow> uuid \<Rightarrow> string \<Rightarrow> string \<Rightarrow> string" where
  "signalBudgetHumanWorkItemBody E actor reason summary =
     ''Escalation requested for source token '' @ uuid_string E actor @ ''.'' @ newlines @
     ''Reason: '' @ reason @ newlines @ ''Summary: '' @ summary @ newlines @
     ''Investigate the reporter behind this token (a bug rotating dedupe_keys, or abuse). Signals are still recorded for audit; work_item creation from this token resumes automatically once its trailing-hour creation count falls back below budget.''"

definition signal_spec :: "string \<Rightarrow> uuid \<Rightarrow> string \<Rightarrow> token \<Rightarrow> json \<Rightarrow> spec" where
  "signal_spec subject i kind actor payload =
     \<lparr>sp_subject_kind = subject, sp_subject_id = i, sp_kind = kind, sp_source = sourceForActor actor,
      sp_actor = Some (tok_id actor), sp_payload = payload, sp_discriminator = []\<rparr>"

definition signal_budget :: string where
  "signal_budget = ''max_signal_items_per_token_per_hour''"

definition budget_reason :: string where
  "budget_reason = ''signal admission budget exhausted: '' @ signal_budget"

definition budget_summary :: "ext \<Rightarrow> token \<Rightarrow> int \<Rightarrow> int \<Rightarrow> string" where
  "budget_summary E actor current mx = ''Source token '' @ uuid_string E (tok_id actor) @
     '' exceeded its signal admission budget: created_work_items_last_hour='' @ itoa current @
     '' max='' @ itoa mx @ '' window_seconds=3600. New work_item creation from this token's signals is being refused; recorded signals remain in the audit log.''"

definition budget_escalation_json :: "ext \<Rightarrow> uuid \<Rightarrow> token \<Rightarrow> string \<Rightarrow> string \<Rightarrow> string \<Rightarrow> int \<Rightarrow> int \<Rightarrow> json" where
  "budget_escalation_json E humanID actor reason summary bucket current mx =
     JObj [(''human_work_item_id'', juid E humanID), (''reason'', JStr reason), (''summary'', JStr summary),
       (''source_token_id'', juid E (tok_id actor)), (''budget'', JStr signal_budget),
       (''current_signal_items'', jint current), (signal_budget, jint mx),
       (''window_seconds'', jint 3600), (''hour_bucket'', JStr bucket)]"

definition budget_human_json :: "ext \<Rightarrow> token \<Rightarrow> string \<Rightarrow> string \<Rightarrow> json" where
  "budget_human_json E actor reason summary =
     JObj [(''title'', JStr ''Human attention: signal admission budget exhausted''),
       (''body'', JStr (signalBudgetHumanWorkItemBody E (tok_id actor) reason summary)),
       (''state'', JStr WorkItemCaptured),
       (''suggested_convergence_checks'', jstrs [''human_response_recorded'']),
       (''human_review_status'', JStr HumanReviewBlocked)]"

definition raiseSignalBudgetEscalation ::
  "ext \<Rightarrow> time \<Rightarrow> time \<Rightarrow> db \<Rightarrow> token \<Rightarrow> int \<Rightarrow> int \<Rightarrow> err + db"
where
  "raiseSignalBudgetEscalation E wall now st actor current mx =
     (let bucket = time_format E (wall - wall mod hour);
          escalationID = signalBudgetEscalationID E (tok_id actor) bucket;
          humanID = signalBudgetHumanWorkItemID E escalationID;
          summary = budget_summary E actor current mx
      in if escalationExists st escalationID then Inr st
         else
           bind_err (append_event E now (signal_spec SubjectEscalation escalationID EventEscalationRequested actor
             (budget_escalation_json E humanID actor budget_reason summary bucket current mx)) st) (\<lambda>st1.
           append_event E now (signal_spec SubjectWorkItem humanID EventWorkItemCreated actor
             (budget_human_json E actor budget_reason summary)) st1))"

definition recordSignalBudgetExhausted ::
  "ext \<Rightarrow> time \<Rightarrow> time \<Rightarrow> db \<Rightarrow> token \<Rightarrow> uuid \<Rightarrow> int \<Rightarrow> int \<Rightarrow> err + db"
where
  "recordSignalBudgetExhausted E wall now st actor signalID current mx =
     bind_err (append_event E now (signal_spec SubjectSignal signalID EventXylemExhausted actor
       (JObj [(''budget'', JStr signal_budget), (''current_signal_items'', jint current),
          (signal_budget, jint mx), (''window_seconds'', jint 3600),
          (''budget_source'', JStr ''safety_policy''),
          (''escalation_rule'', JStr EscalationRuleHandToHuman), (''actor_token_id'', juid E (tok_id actor)),
          (''refused_signal_id'', juid E signalID),
          (''count_scope'', JStr ''same_source_token_created_work_items_last_hour'')])) st) (\<lambda>st1.
     raiseSignalBudgetEscalation E wall now st1 actor current mx)"

section \<open>Receiving a signal\<close>

text \<open>Where a signal goes: a live item, a new item (with its event), or nowhere.\<close>

datatype target = Linked uuid | Created uuid uuid | Refused int

definition signal_item_json :: "work_spec_header \<Rightarrow> json" where
  "signal_item_json h =
     JObj [(''title'', JStr (trim_space (wh_title h))), (''body'', JStr (workItemBodyFrom h)),
       (''state'', JStr WorkItemCaptured),
       (''suggested_convergence_checks'', case wh_criteria h of None \<Rightarrow> JNull | Some cs \<Rightarrow> jstrs cs),
       (''human_review_status'', JStr HumanReviewWavedThrough)]"

definition resolve_target ::
  "ext \<Rightarrow> time \<Rightarrow> time \<Rightarrow> db \<Rightarrow> uuid \<Rightarrow> uuid \<Rightarrow> token \<Rightarrow> string \<Rightarrow> work_spec_header \<Rightarrow> int \<Rightarrow> err + target \<times> db"
where
  "resolve_target E wall now st signalID workItemID actor key h mx =
     (case lookupLiveWorkItem st key of
        Some w \<Rightarrow> Inr (Linked w, st)
      | None \<Rightarrow>
          let current = countCreatingSignalsLastHour st now (tok_id actor) in
          if admitItemCreation current mx
          then bind_err (app_append E now st (signal_spec SubjectWorkItem workItemID EventWorkItemCreated
                 actor (signal_item_json h))) (\<lambda>(eventID, _, st1). Inr (Created workItemID eventID, st1))
          else bind_err (recordSignalBudgetExhausted E wall now st actor signalID current mx)
                 (\<lambda>st1. Inr (Refused current, st1)))"

definition signal_json_of ::
  "ext \<Rightarrow> string \<Rightarrow> string \<Rightarrow> source_metadata \<Rightarrow> json \<Rightarrow> target \<Rightarrow> json"
where
  "signal_json_of E kind key source v tgt =
     JObj ([(''signal_kind'', JStr kind), (''fingerprint'', JStr (computeFingerprint E v)), (''work_spec'', v),
        (''created_work_item'', JBool (case tgt of Created _ _ \<Rightarrow> True | _ \<Rightarrow> False))] @
       (case tgt of
          Linked w \<Rightarrow> [(''work_item_id'', juid E w)]
        | Created w _ \<Rightarrow> [(''work_item_id'', juid E w)]
        | Refused _ \<Rightarrow> [(''item_creation_admitted'', JBool False)]) @
       str_field ''dedupe_key'' key @
       (if source \<noteq> \<lparr>sm_kind = [], sm_identifier = [], sm_external_ref = []\<rparr>
        then [(''source_metadata'', JObj (sourceMetadataPayload source))] else []))"

definition receive_result_of :: "ext \<Rightarrow> uuid \<Rightarrow> uuid \<Rightarrow> string \<Rightarrow> string \<Rightarrow> json \<Rightarrow> target \<Rightarrow> receive_result" where
  "receive_result_of E signalID eventID kind key v tgt =
     \<lparr>rr_signal = signalID, rr_signal_event = eventID,
      rr_work_item = (case tgt of Linked w \<Rightarrow> w | Created w _ \<Rightarrow> w | Refused _ \<Rightarrow> uuid_nil),
      rr_work_item_event = (case tgt of Created _ e \<Rightarrow> e | _ \<Rightarrow> uuid_nil),
      rr_created = (case tgt of Created _ _ \<Rightarrow> True | _ \<Rightarrow> False),
      rr_fingerprint = computeFingerprint E v, rr_dedupe_key = key, rr_kind = kind\<rparr>"

definition budget_err :: "ext \<Rightarrow> uuid \<Rightarrow> token \<Rightarrow> int \<Rightarrow> target \<Rightarrow> err option" where
  "budget_err E signalID actor mx tgt =
     (case tgt of Refused current \<Rightarrow> Some (Err ErrSignalItemBudgetExhausted
        ('': source token '' @ uuid_string E (tok_id actor) @
         '' exceeded the signal admission budget (created_last_hour='' @ itoa current @ '' max='' @ itoa mx @
         '' window=1h); signal '' @ uuid_string E signalID @ '' recorded for audit, work_item creation refused''))
      | _ \<Rightarrow> None)"

text \<open>A refusal commits and returns both the result and its error.\<close>

definition Receive ::
  "ext \<Rightarrow> time \<Rightarrow> time \<Rightarrow> db \<Rightarrow> uuid \<Rightarrow> uuid \<Rightarrow> token \<Rightarrow> receive_input \<Rightarrow> (receive_result \<times> err option) outcome"
where
  "Receive E wall now st signalID workItemID actor inp =
     (let kind = trim_space (rc_kind inp); key = trim_space (rc_dedupe_key inp) in rollback st
       (bind_err (guard_err (kind \<noteq> []) ErrSignalKindRequired) (\<lambda>_.
        bind_err (guard_err (trim_space (rc_work_spec inp) \<noteq> []) ErrWorkSpecRequired) (\<lambda>_.
        case Unmarshal (rc_work_spec inp) of
          None \<Rightarrow> Inl (Err ErrWorkSpecInvalid [])
        | Some v \<Rightarrow>
            bind_err (decodeWorkSpecHeader v) (\<lambda>h.
            bind_err (guard_err (trim_space (wh_title h) \<noteq> []) ErrWorkSpecMissingTitle) (\<lambda>_.
            let mx = signalItemBudget E st in
            bind_err (resolve_target E wall now st signalID workItemID actor key h mx) (\<lambda>(tgt, st1).
            bind_err (app_append E now st1 (signal_spec SubjectSignal signalID EventSignalReceived actor
              (signal_json_of E kind key (rc_source inp) v tgt))) (\<lambda>(eventID, _, st2).
            Inr (Inr (receive_result_of E signalID eventID kind key v tgt,
              budget_err E signalID actor mx tgt), st2)))))))))"

section \<open>Capturing text\<close>

record capture_result =
  cp_message :: uuid
  cp_work_item :: uuid
  cp_at :: time

definition CaptureText ::
  "ext \<Rightarrow> time \<Rightarrow> db \<Rightarrow> uuid \<Rightarrow> uuid \<Rightarrow> token \<Rightarrow> string \<Rightarrow> capture_result outcome"
where
  "CaptureText E now st messageID workItemID actor input =
     (let body = trim_space input; title = (if length body > 80 then take 80 body else body) in rollback st
       (bind_err (guard_err (body \<noteq> []) (Err [] ''inbox: text is required'')) (\<lambda>_.
        bind_err (append_event E now (signal_spec SubjectWorkItem workItemID EventWorkItemCreated actor
          (JObj [(''title'', JStr title), (''body'', JStr body), (''state'', JStr WorkItemCaptured),
             (''suggested_convergence_checks'', jstrs []),
             (''human_review_status'', JStr HumanReviewWavedThrough)])) st) (\<lambda>st1.
        bind_err (append_event E now (signal_spec SubjectMessage messageID EventMessageCaptured actor
          (JObj [(''work_item_id'', juid E workItemID), (''text'', JStr body)])) st1) (\<lambda>st2.
        case get_row wi_id workItemID (t_work_items (proj st2)) of
          None \<Rightarrow> Inr (Inl (Err [] ''inbox: read captured work item timestamp''), st2)
        | Some w \<Rightarrow> Inr (Inr \<lparr>cp_message = messageID, cp_work_item = workItemID, cp_at = wi_created_at w\<rparr>, st2))))))"

section \<open>What a reception does to the tables\<close>

definition live_links :: "tables \<Rightarrow> string \<Rightarrow> uuid set" where
  "live_links t key = {w. \<exists>r \<in> set (t_signals t).
     sr_dedupe_key r = Some key \<and> sr_work_item r = Some w \<and> live_item t w}"

definition one_live :: "tables \<Rightarrow> bool" where
  "one_live t \<longleftrightarrow> (\<forall>key. \<forall>w \<in> live_links t key. \<forall>w' \<in> live_links t key. w = w')"

text \<open>The foreign key of signals.work_item_id.\<close>

definition links_ok :: "tables \<Rightarrow> bool" where
  "links_ok t \<longleftrightarrow> (\<forall>r \<in> set (t_signals t). \<forall>w. sr_work_item r = Some w \<longrightarrow> w \<in> wi_id ` set (t_work_items t))"

lemma sort_key_head: "sort_key f xs = y # ys \<Longrightarrow> y \<in> set xs"
  by (metis list.set_intros(1) set_sort)

lemma lookup_Some:
  assumes "lookupLiveWorkItem st key = Some w"
  shows "key \<noteq> [] \<and> w \<in> live_links (proj st) key"
proof -
  obtain r rs where r: "sort_key (\<lambda>r. - sr_received_at r) (filter (\<lambda>r. sr_dedupe_key r = Some key \<and>
      (case sr_work_item r of None \<Rightarrow> False | Some w \<Rightarrow> live_item (proj st) w)) (t_signals (proj st))) = r # rs"
    and "sr_work_item r = Some w" "key \<noteq> []"
    using assms by (auto simp: lookupLiveWorkItem_def split: if_split_asm list.split_asm)
  moreover have "r \<in> set (filter (\<lambda>r. sr_dedupe_key r = Some key \<and>
      (case sr_work_item r of None \<Rightarrow> False | Some w \<Rightarrow> live_item (proj st) w)) (t_signals (proj st)))"
    by (rule sort_key_head [OF r])
  ultimately show ?thesis by (auto simp: live_links_def)
qed

lemma lookup_None:
  assumes "lookupLiveWorkItem st key = None" "key \<noteq> []"
  shows "live_links (proj st) key = {}"
proof -
  let ?rows = "filter (\<lambda>r. sr_dedupe_key r = Some key \<and>
      (case sr_work_item r of None \<Rightarrow> False | Some w \<Rightarrow> live_item (proj st) w)) (t_signals (proj st))"
  have "sort_key (\<lambda>r. - sr_received_at r) ?rows = []"
  proof (cases "sort_key (\<lambda>r. - sr_received_at r) ?rows")
    case (Cons r rs)
    from sort_key_head [OF Cons] have "r \<in> set ?rows" .
    with assms Cons show ?thesis by (auto simp: lookupLiveWorkItem_def split: option.split_asm)
  qed
  then have "set ?rows = {}" using set_sort [of "\<lambda>r. - sr_received_at r" ?rows] by simp
  then show ?thesis by (auto simp: live_links_def filter_empty_conv)
qed

text \<open>Appends that touch no signal and add at most one work item.\<close>

definition items_grow :: "tables \<Rightarrow> tables \<Rightarrow> bool" where
  "items_grow t t' \<longleftrightarrow> t_signals t' = t_signals t \<and> (t_work_items t' = t_work_items t \<or>
     (\<exists>row. wi_id row \<notin> wi_id ` set (t_work_items t) \<and> t_work_items t' = t_work_items t @ [row]))"

lemma items_grow_refl [simp]: "items_grow t t"
  by (simp add: items_grow_def)

lemma signal_spec_sel [simp]:
  "sp_subject_kind (signal_spec subject i kind actor payload) = subject"
  "sp_subject_id (signal_spec subject i kind actor payload) = i"
  "sp_kind (signal_spec subject i kind actor payload) = kind"
  "sp_actor (signal_spec subject i kind actor payload) = Some (tok_id actor)"
  "sp_payload (signal_spec subject i kind actor payload) = payload"
  "sp_discriminator (signal_spec subject i kind actor payload) = []"
  by (simp_all add: signal_spec_def)

lemma items_grow_insert: "items_grow t (t\<lparr>t_work_items := insert_row wi_id row (t_work_items t)\<rparr>)"
  by (auto simp: items_grow_def insert_row_def)

lemma created_grows:
  assumes "app_append E now st (signal_spec subject i EventWorkItemCreated actor payload) = Inr (e, fresh, st')"
  shows "items_grow (proj st) (proj st')"
  using assms [unfolded app_append_def]
proof (cases rule: Append_cases)
  case (insert p)
  have "workItemCreatedProjector (event_of now e (signal_spec subject i EventWorkItemCreated actor payload)) (proj st) = Inr p"
    using insert(4) by (simp add: registry_apply_kinds)
  then have "items_grow (proj st) p"
    unfolding workItemCreatedProjector_def Let_def
    by (elim bind_err_Inr_E) (auto simp only: sum.inject intro!: items_grow_insert)
  with insert(5) show ?thesis by simp
qed simp

lemma silent_append:
  assumes "append_event E now s st = Inr st'" "sp_kind s \<notin> set work_item_kinds" "sp_kind s \<noteq> EventSignalReceived"
  shows "t_signals (proj st') = t_signals (proj st)" "t_work_items (proj st') = t_work_items (proj st)"
proof -
  obtain i fresh where "Append E (NewProjectionRegistry E) now st s = Inr (i, fresh, st')"
    using assms(1) by (auto simp: append_event_def app_append_def map_sum_Inr)
  then have "t_signals (proj st') = t_signals (proj st) \<and> t_work_items (proj st') = t_work_items (proj st)"
  proof (cases rule: Append_cases)
    case (insert p)
    then show ?thesis
      using apply_keeps_signals [OF insert(4)] apply_keeps_work_items [OF insert(4)] assms(2,3) by simp
  qed simp
  then show "t_signals (proj st') = t_signals (proj st)" "t_work_items (proj st') = t_work_items (proj st)" by simp_all
qed

lemma append_event_Inr:
  "append_event E now s st = Inr st' \<longleftrightarrow> (\<exists>i fresh. app_append E now st s = Inr (i, fresh, st'))"
  by (auto simp: append_event_def map_sum_Inr)

lemma raise_parts:
  "raiseSignalBudgetEscalation E wall now st actor current mx = Inr st' \<Longrightarrow> st' = st \<or>
   (\<exists>i j payload payload' st2.
      append_event E now (signal_spec SubjectEscalation i EventEscalationRequested actor payload) st = Inr st2 \<and>
      append_event E now (signal_spec SubjectWorkItem j EventWorkItemCreated actor payload') st2 = Inr st')"
  unfolding raiseSignalBudgetEscalation_def Let_def
  by (split if_split_asm) (simp, elim conjE bind_err_Inr_E, blast)

lemma refusal_grows:
  assumes "recordSignalBudgetExhausted E wall now st actor signalID current mx = Inr st'"
  shows "items_grow (proj st) (proj st') \<and> app_appends E now st st'"
proof -
  obtain st1 where st1: "append_event E now (signal_spec SubjectSignal signalID EventXylemExhausted actor
       (JObj [(''budget'', JStr signal_budget), (''current_signal_items'', jint current),
          (signal_budget, jint mx), (''window_seconds'', jint 3600),
          (''budget_source'', JStr ''safety_policy''),
          (''escalation_rule'', JStr EscalationRuleHandToHuman), (''actor_token_id'', juid E (tok_id actor)),
          (''refused_signal_id'', juid E signalID),
          (''count_scope'', JStr ''same_source_token_created_work_items_last_hour'')])) st = Inr st1"
    and raised: "raiseSignalBudgetEscalation E wall now st1 actor current mx = Inr st'"
    using assms unfolding recordSignalBudgetExhausted_def by (elim bind_err_Inr_E)
  have 1: "t_signals (proj st1) = t_signals (proj st)" "t_work_items (proj st1) = t_work_items (proj st)"
    using silent_append [OF st1] by (simp_all add: work_item_kinds_def)
  have a1: "app_appends E now st st1" by (rule append_event_appends [OF st1])
  show ?thesis
  proof (cases "st' = st1")
    case False
    then obtain i j payload payload' st2 where
        s1: "append_event E now (signal_spec SubjectEscalation i EventEscalationRequested actor payload) st1 = Inr st2"
      and s2: "append_event E now (signal_spec SubjectWorkItem j EventWorkItemCreated actor payload') st2 = Inr st'"
      using raise_parts [OF raised] by blast
    have 2: "t_signals (proj st2) = t_signals (proj st1)" "t_work_items (proj st2) = t_work_items (proj st1)"
      using silent_append [OF s1] by (simp_all add: work_item_kinds_def)
    have "items_grow (proj st2) (proj st')"
      using s2 created_grows by (auto simp: append_event_Inr)
    moreover have "app_appends E now st st'"
      using a1 append_event_appends [OF s1] append_event_appends [OF s2] by (blast intro: appends_trans)
    ultimately show ?thesis using 1 2 by (simp add: items_grow_def)
  qed (use 1 a1 in \<open>simp add: items_grow_def\<close>)
qed

lemma resolve_target_cases:
  assumes "resolve_target E wall now st signalID workItemID actor key h mx = Inr (tgt, st1)"
  obtains (linked) w where "tgt = Linked w" "st1 = st" "lookupLiveWorkItem st key = Some w"
  | (created) e fresh where "tgt = Created workItemID e" "lookupLiveWorkItem st key = None"
      "countCreatingSignalsLastHour st now (tok_id actor) < mx"
      "app_append E now st (signal_spec SubjectWorkItem workItemID EventWorkItemCreated actor (signal_item_json h)) =
         Inr (e, fresh, st1)"
      "items_grow (proj st) (proj st1)" "app_appends E now st st1"
  | (refused) "tgt = Refused (countCreatingSignalsLastHour st now (tok_id actor))"
      "lookupLiveWorkItem st key = None" "mx \<le> countCreatingSignalsLastHour st now (tok_id actor)"
      "items_grow (proj st) (proj st1)" "app_appends E now st st1"
proof (cases "lookupLiveWorkItem st key")
  case (Some w)
  with assms show thesis by (intro that(1)) (auto simp: resolve_target_def)
next
  case None
  show thesis
  proof (cases "countCreatingSignalsLastHour st now (tok_id actor) < mx")
    case True
    with assms None obtain e fresh where "tgt = Created workItemID e"
      and a: "app_append E now st (signal_spec SubjectWorkItem workItemID EventWorkItemCreated actor (signal_item_json h)) =
         Inr (e, fresh, st1)"
      by (auto simp: resolve_target_def admitItemCreation_def Let_def elim!: bind_err_Inr_E)
    with None True created_grows [OF a] app_append_appends [OF a] that(2) show thesis by blast
  next
    case False
    with assms None have "tgt = Refused (countCreatingSignalsLastHour st now (tok_id actor))"
      and r: "recordSignalBudgetExhausted E wall now st actor signalID
        (countCreatingSignalsLastHour st now (tok_id actor)) mx = Inr st1"
      by (auto simp: resolve_target_def admitItemCreation_def Let_def elim!: bind_err_Inr_E)
    with None False refusal_grows [OF r] that(3) show thesis by simp
  qed
qed

text \<open>The row that a signal event writes.\<close>

definition target_item :: "target \<Rightarrow> uuid option" where
  "target_item tgt = (case tgt of Linked w \<Rightarrow> Some w | Created w _ \<Rightarrow> Some w | Refused _ \<Rightarrow> None)"

definition target_created :: "target \<Rightarrow> bool" where
  "target_created tgt \<longleftrightarrow> (case tgt of Created _ _ \<Rightarrow> True | _ \<Rightarrow> False)"

definition signal_row_for :: "time \<Rightarrow> uuid \<Rightarrow> token \<Rightarrow> string \<Rightarrow> target \<Rightarrow> signal_row \<Rightarrow> bool" where
  "signal_row_for now i actor key tgt row \<longleftrightarrow> sr_id row = i \<and> sr_received_at row = now \<and>
     sr_actor row = Some (tok_id actor) \<and> sr_dedupe_key row = null_if_empty key \<and>
     sr_created_work_item row = target_created tgt \<and> sr_work_item row = target_item tgt"

lemma str_field_simps: "str_field k [] = []" "v \<noteq> [] \<Longrightarrow> str_field k v = [(k, JStr v)]"
  by (simp_all add: str_field_def)

lemma signal_json_reads [simp]:
  "jget (signal_json_of E kind key source v tgt) ''dedupe_key'' = (if key = [] then JNull else JStr key)"
  "jget (signal_json_of E kind key source v tgt) ''created_work_item'' = JBool (target_created tgt)"
  "jget (signal_json_of E kind key source v tgt) ''work_item_id'' =
     (case target_item tgt of Some w \<Rightarrow> juid E w | None \<Rightarrow> JNull)"
  by (cases tgt; cases "key = []";
      simp add: signal_json_of_def jget_def str_field_simps target_created_def target_item_def)+

lemma decoded_signal_json:
  assumes "ext_ok E" "decodeSignalPayload E (signal_json_of E kind key source v tgt) = Inr p"
  shows "sp_dedupe_key p = key" "sp_created_work_item p = target_created tgt"
    "(if sp_work_item p = uuid_nil then None else Some (sp_work_item p)) = target_item tgt"
proof -
  from assms(2) have "sp_dedupe_key p = key \<and> sp_created_work_item p = target_created tgt \<and>
      (case target_item tgt of None \<Rightarrow> sp_work_item p = uuid_nil | Some w \<Rightarrow> sp_work_item p = w \<and>
        (admitted p \<longrightarrow> w \<noteq> uuid_nil) \<and> (\<not> admitted p \<longrightarrow> w = uuid_nil)) \<and>
      jboolean_opt (jget (signal_json_of E kind key source v tgt) ''item_creation_admitted'') = Inr (sp_admitted p)"
    unfolding decodeSignalPayload_def
    by (elim bind_err_Inr_E)
       (auto simp: Let_def juuid_juid [OF assms(1)] juuid_def [of E JNull] split: option.split_asm if_split_asm)
  then show "sp_dedupe_key p = key" "sp_created_work_item p = target_created tgt"
    "(if sp_work_item p = uuid_nil then None else Some (sp_work_item p)) = target_item tgt"
    by (cases tgt; auto simp: admitted_def target_item_def signal_json_of_def jget_def str_field_def
        jboolean_opt_def split: if_split_asm option.split_asm)+
qed

lemma signal_appended:
  assumes "ext_ok E"
    and "app_append E now st (signal_spec SubjectSignal i EventSignalReceived actor
      (signal_json_of E kind key source v tgt)) = Inr (e, fresh, st')"
  obtains (replay) "st' = st"
  | (row) row where "signal_row_for now i actor key tgt row"
      "t_signals (proj st') = upsert_row sr_id (\<lambda>_. row) row (t_signals (proj st))"
      "t_work_items (proj st') = t_work_items (proj st)"
  using assms(2) [unfolded app_append_def]
proof (cases rule: Append_cases)
  case (insert p)
  let ?s = "signal_spec SubjectSignal i EventSignalReceived actor (signal_json_of E kind key source v tgt)"
  have "signalReceivedProjector E (event_of now e ?s) (proj st) = Inr p"
    using insert(4) by (simp add: registry_apply_kinds)
  then obtain d where d: "decodeSignalPayload E (signal_json_of E kind key source v tgt) = Inr d"
    and p: "p = (proj st)\<lparr>t_signals := upsert_row sr_id (\<lambda>_. \<lparr>sr_id = i, sr_received_at = now,
           sr_actor = Some (tok_id actor), sr_source = sp_source ?s, sr_kind = sp_signal_kind d,
           sr_dedupe_key = null_if_empty (sp_dedupe_key d), sr_fingerprint = sp_fingerprint d,
           sr_work_spec = sp_work_spec d,
           sr_work_item = (if sp_work_item d = uuid_nil then None else Some (sp_work_item d)),
           sr_created_work_item = sp_created_work_item d\<rparr>) \<lparr>sr_id = i, sr_received_at = now,
           sr_actor = Some (tok_id actor), sr_source = sp_source ?s, sr_kind = sp_signal_kind d,
           sr_dedupe_key = null_if_empty (sp_dedupe_key d), sr_fingerprint = sp_fingerprint d,
           sr_work_spec = sp_work_spec d,
           sr_work_item = (if sp_work_item d = uuid_nil then None else Some (sp_work_item d)),
           sr_created_work_item = sp_created_work_item d\<rparr> (t_signals (proj st))\<rparr>"
    unfolding signalReceivedProjector_def Let_def by (elim bind_err_Inr_E) simp
  show thesis
    by (rule row) (use insert(5) p decoded_signal_json [OF assms(1) d] in \<open>simp_all add: signal_row_for_def\<close>)
qed (rule replay)

lemma Receive_cases:
  assumes "Receive E wall now st signalID workItemID actor inp = (out, st')"
  obtains (failed) e where "out = Inl e" "st' = st"
  | (received) v h tgt st1 e fresh where
      "out = Inr (receive_result_of E signalID e (trim_space (rc_kind inp)) (trim_space (rc_dedupe_key inp)) v tgt,
         budget_err E signalID actor (signalItemBudget E st) tgt)"
      "resolve_target E wall now st signalID workItemID actor (trim_space (rc_dedupe_key inp)) h
         (signalItemBudget E st) = Inr (tgt, st1)"
      "app_append E now st1 (signal_spec SubjectSignal signalID EventSignalReceived actor
         (signal_json_of E (trim_space (rc_kind inp)) (trim_space (rc_dedupe_key inp)) (rc_source inp) v tgt)) =
         Inr (e, fresh, st')"
proof (cases out)
  case (Inl e)
  then have "st' = st"
    using assms unfolding Receive_def Let_def rollback_eq
    by (auto simp: rollback_eq elim!: bind_err_Inr_E split: option.split_asm)
  with Inl failed show thesis by blast
next
  case (Inr x)
  then show thesis
    using assms unfolding Receive_def Let_def
    by (auto simp: rollback_eq elim!: bind_err_Inr_E split: option.split_asm intro: received)
qed

lemma set_upsert_row: "set (upsert_row key (\<lambda>_. r) r rows) \<subseteq> insert r (set rows)"
  by (auto simp: upsert_row_def update_row_def)

lemma live_item_grow:
  assumes "items_grow t t'" "w \<in> wi_id ` set (t_work_items t)"
  shows "live_item t' w \<longleftrightarrow> live_item t w"
  using assms by (auto simp: items_grow_def live_item_def get_row_append split: option.splits
      dest!: get_row_None [THEN iffD1])

lemma live_links_grow:
  assumes "links_ok t" "items_grow t t'"
  shows "live_links t' key \<subseteq> live_links t key"
  using assms live_item_grow [OF assms(2)] by (fastforce simp: live_links_def links_ok_def items_grow_def)

lemma live_links_row:
  assumes "t_signals t' = upsert_row sr_id (\<lambda>_. row) row (t_signals t)" "t_work_items t' = t_work_items t"
  shows "live_links t' key \<subseteq> live_links t key \<union>
    {w. sr_dedupe_key row = Some key \<and> sr_work_item row = Some w}"
  using set_upsert_row [of sr_id row "t_signals t"] assms
  by (fastforce simp: live_links_def live_item_def)

lemma Receive_one_live:
  assumes "ext_ok E" "Receive E wall now st signalID workItemID actor inp = (out, st')"
    and "links_ok (proj st)" "one_live (proj st)"
  shows "one_live (proj st')"
  using assms(2)
proof (cases rule: Receive_cases)
  case (received v h tgt st1 e fresh)
  let ?key = "trim_space (rc_dedupe_key inp)"
  have grow: "items_grow (proj st) (proj st1)"
    and known: "key = ?key \<Longrightarrow> key \<noteq> [] \<Longrightarrow> target_item tgt = Some w \<Longrightarrow>
      live_links (proj st) key = {} \<or> w \<in> live_links (proj st) key" for key w
    using received(2)
    by (auto elim!: resolve_target_cases simp: target_item_def dest: lookup_Some lookup_None)
  note old = live_links_grow [OF assms(3) grow]
  from assms(1) received(3) show ?thesis
  proof (cases rule: signal_appended)
    case replay
    then show ?thesis using old assms(4) unfolding one_live_def by blast
  next
    case (row row)
    note new = live_links_row [OF row(2,3)]
    have key: "key = ?key \<and> key \<noteq> []" if "sr_dedupe_key row = Some key" for key
      using row(1) that by (auto simp: signal_row_for_def null_if_empty_def split: if_split_asm)
    have item: "sr_work_item row = target_item tgt" using row(1) by (simp add: signal_row_for_def)
    have only: "x = y" if "x \<in> live_links (proj st) key" "y \<in> live_links (proj st) key" for key x y
      using assms(4) that unfolding one_live_def by blast
    show ?thesis unfolding one_live_def
    proof (intro allI ballI)
      fix key x y assume xy: "x \<in> live_links (proj st') key" "y \<in> live_links (proj st') key"
      have old_or_row: "z \<in> live_links (proj st) key \<or>
          sr_dedupe_key row = Some key \<and> target_item tgt = Some z" if "z \<in> live_links (proj st') key" for z
        using that new old item by fastforce
      show "x = y"
      proof (cases "sr_dedupe_key row = Some key")
        case True
        from old_or_row [OF xy(1)] old_or_row [OF xy(2)] show ?thesis
          using known [of key x] known [of key y] key [OF True] only by auto
      next
        case False
        with old_or_row [OF xy(1)] old_or_row [OF xy(2)] only show ?thesis by simp
      qed
    qed
  qed
qed (use assms(4) in simp)

section \<open>One live item per dedupe key\<close>

text \<open>Other transactions that touch no signal and revive no item.\<close>

definition keeps_terminal :: "tables \<Rightarrow> tables \<Rightarrow> bool" where
  "keeps_terminal t t' \<longleftrightarrow> t_signals t' = t_signals t \<and>
     (\<forall>w \<in> wi_id ` set (t_work_items t). live_item t' w \<longrightarrow> live_item t w)"

text \<open>
  Any number of receptions by any tokens, and other such transactions, in any order.  Each commit
  satisfies the foreign key of the signals table.
\<close>

inductive dedupe_run :: "ext \<Rightarrow> db \<Rightarrow> db \<Rightarrow> bool" for E where
  start: "dedupe_run E st st"
| receive: "dedupe_run E st st1 \<Longrightarrow> Receive E wall now st1 signalID workItemID actor inp = (out, st2) \<Longrightarrow>
    links_ok (proj st2) \<Longrightarrow> dedupe_run E st st2"
| other: "dedupe_run E st st1 \<Longrightarrow> app_appends E now st1 st2 \<Longrightarrow> keeps_terminal (proj st1) (proj st2) \<Longrightarrow>
    links_ok (proj st2) \<Longrightarrow> dedupe_run E st st2"

lemma keeps_terminal_links:
  "links_ok t \<Longrightarrow> keeps_terminal t t' \<Longrightarrow> live_links t' key \<subseteq> live_links t key"
  by (fastforce simp: keeps_terminal_def live_links_def links_ok_def)

lemma Transition_keeps_terminal:
  assumes "Transition E now st disc wid dest reason actor = (Inr w, st')"
  shows "keeps_terminal (proj st) (proj st')"
  using assms
proof (cases rule: Transition_Inr_cases)
  case (moved current ev)
  have "live_item (proj st') i \<longrightarrow> live_item (proj st) i" for i
    using moved CanTransition_terminal [of "wi_state current" dest]
    by (auto simp: live_item_def get_work_item_Inr transition_row_def state_terminal_def split: option.splits)
  then show ?thesis using moved by (simp add: keeps_terminal_def)
qed (simp add: keeps_terminal_def)

lemma dedupe_run_keeps:
  "dedupe_run E st st' \<Longrightarrow> ext_ok E \<Longrightarrow> links_ok (proj st) \<Longrightarrow> one_live (proj st) \<Longrightarrow>
   links_ok (proj st') \<and> one_live (proj st')"
proof (induction rule: dedupe_run.induct)
  case (receive st st1 wall now signalID workItemID actor inp out st2)
  then show ?case using Receive_one_live by blast
next
  case (other st st1 now st2)
  then show ?case using keeps_terminal_links unfolding one_live_def by blast
qed simp_all


text \<open>A report that comes in again while its item is live.\<close>

definition report1 :: receive_input where
  "report1 = \<lparr>rc_kind = ''ci'', rc_dedupe_key = ''k'', rc_source = \<lparr>sm_kind = [], sm_identifier = [], sm_external_ref = []\<rparr>,
     rc_work_spec = ''{'' @ [QUOTE] @ ''title'' @ [QUOTE] @ '':'' @ [QUOTE] @ ''t'' @ [QUOTE] @ ''}''\<rparr>"

definition spec1 :: json where
  "spec1 = JObj [(''title'', JStr ''t'')]"

definition header1 :: work_spec_header where
  "header1 = \<lparr>wh_title = ''t'', wh_objective = [], wh_details = [], wh_criteria = None\<rparr>"

definition first_signal :: signal_row where
  "first_signal = \<lparr>sr_id = 5, sr_received_at = 5, sr_actor = Some 2, sr_source = SourceHuman, sr_kind = ''ci'',
     sr_dedupe_key = Some ''k'', sr_fingerprint = [], sr_work_spec = spec1, sr_work_item = Some 7,
     sr_created_work_item = True\<rparr>"

definition signal_db :: db where
  "signal_db = empty_store (no_tables\<lparr>t_work_items := [item7], t_signals := [first_signal]\<rparr>)"

lemma report1_parts:
  "trim_space (rc_kind report1) = ''ci''" "trim_space (rc_dedupe_key report1) = ''k''"
  "trim_space (rc_work_spec report1) \<noteq> []" "Unmarshal (rc_work_spec report1) = Some spec1"
  "decodeWorkSpecHeader spec1 = Inr header1" "trim_space (wh_title header1) \<noteq> []"
  by code_simp+

lemma report1_target:
  "resolve_target decimal_ext 9 9 signal_db 6 8 human2 ''k'' header1 mx = Inr (Linked 7, signal_db)"
  by (simp add: resolve_target_def lookupLiveWorkItem_def signal_db_def first_signal_def live_item_def
      item7_def get_row_def)

lemma report1_received:
  "\<exists>out st'. Receive decimal_ext 9 9 signal_db 6 8 human2 report1 = (Inr out, st') \<and> st' \<noteq> signal_db"
proof -
  let ?s = "signal_spec SubjectSignal 6 EventSignalReceived human2
      (signal_json_of decimal_ext ''ci'' ''k'' (rc_source report1) spec1 (Linked 7))"
  have "\<not> isl (signalReceivedProjector decimal_ext (event_of 9 i ?s) (proj signal_db))" for i
    by code_simp
  then have "\<exists>p. signalReceivedProjector decimal_ext (event_of 9 i ?s) (proj signal_db) = Inr p" for i
    by (rule not_isl)
  then have "\<exists>p. registry_apply (NewProjectionRegistry decimal_ext) (event_of 9 i ?s) (proj signal_db) = Inr p" for i
    by (simp add: registry_apply_kinds signal_spec_def)
  moreover have "spec_validate ?s = None"
    by (simp add: spec_validate_def signal_spec_def)
  ultimately obtain i st' where a: "app_append decimal_ext 9 signal_db ?s = Inr (i, True, st')"
    using append_empty_ok [of ?s decimal_ext 9 "proj signal_db"] by (auto simp: signal_db_def)
  then have "st' \<noteq> signal_db"
    by (auto simp: app_append_def signal_db_def elim!: Append_cases)
  with a show ?thesis
    by (simp add: Receive_def Let_def report1_parts report1_target guard_err_def rollback_def)
qed


section \<open>Metered admission\<close>

text \<open>
  A history in which time does not run backwards, every active profile admits at most \<open>M\<close> items per
  token and hour, and signals are written by Receive only.
\<close>

inductive metered :: "ext \<Rightarrow> int \<Rightarrow> time \<Rightarrow> db \<Rightarrow> bool" for E M where
  start: "app_history E st \<Longrightarrow> t_signals (proj st) = [] \<Longrightarrow> metered E M now st"
| receive: "metered E M now st \<Longrightarrow> now \<le> now' \<Longrightarrow> signalItemBudget E st \<le> M \<Longrightarrow>
    Receive E wall now' st signalID workItemID actor inp = (out, st') \<Longrightarrow> metered E M now' st'"
| other: "metered E M now st \<Longrightarrow> now \<le> now' \<Longrightarrow> app_appends E now' st st' \<Longrightarrow>
    t_signals (proj st') = t_signals (proj st) \<Longrightarrow> metered E M now' st'"

definition created_between :: "tables \<Rightarrow> uuid \<Rightarrow> time \<Rightarrow> time \<Rightarrow> int" where
  "created_between t actor a b =
     int (length (filter (\<lambda>r. sr_actor r = Some actor \<and> sr_created_work_item r \<and>
       a \<le> sr_received_at r \<and> sr_received_at r \<le> b) (t_signals t)))"

lemma filter_length_mono: "(\<And>x. x \<in> set xs \<Longrightarrow> P x \<Longrightarrow> Q x) \<Longrightarrow> length (filter P xs) \<le> length (filter Q xs)"
  by (induction xs) auto

lemma filter_update_row_length:
  assumes "distinct (map key rows)"
  shows "length (filter P (update_row key k (\<lambda>_. r) rows)) \<le> length (filter P rows) + (if P r then 1 else 0)"
  using assms
proof (induction rows)
  case (Cons a rows)
  have step: "update_row key k (\<lambda>_. r) (a # rows) =
      (if key a = k then r # rows else a # update_row key k (\<lambda>_. r) rows)"
    using Cons.prems by (auto simp: update_row_def intro!: map_idI) (metis image_eqI)
  show ?case unfolding step using Cons by auto
qed (simp add: update_row_def)

lemma filter_upsert_row_length:
  assumes "distinct (map key rows)"
  shows "length (filter P (upsert_row key (\<lambda>_. r) r rows)) \<le> length (filter P rows) + (if P r then 1 else 0)"
proof (cases "key r \<in> set (map key rows)")
  case True
  then show ?thesis unfolding upsert_row_def using filter_update_row_length [OF assms] by (simp only: if_True)
qed (simp add: upsert_row_def)

lemma Receive_appends:
  assumes "Receive E wall now st signalID workItemID actor inp = (out, st')"
  shows "app_appends E now st st'"
  using assms
proof (cases rule: Receive_cases)
  case (received v h tgt st1 e fresh)
  have "app_appends E now st st1"
    using received(2) by (auto elim!: resolve_target_cases intro: appends.none)
  with app_append_appends [OF received(3)] show ?thesis by (rule appends_trans)
qed (simp add: appends.none)

lemma metered_history: "metered E M now st \<Longrightarrow> app_history E st"
  by (induction rule: metered.induct) (blast intro: history.commit Receive_appends)+

lemma Receive_signals:
  assumes "ext_ok E" "Receive E wall now st signalID workItemID actor inp = (out, st')"
  obtains (same) "t_signals (proj st') = t_signals (proj st)"
  | (row) row where "t_signals (proj st') = upsert_row sr_id (\<lambda>_. row) row (t_signals (proj st))"
      "sr_received_at row = now" "sr_actor row = Some (tok_id actor)"
      "sr_created_work_item row \<Longrightarrow> countCreatingSignalsLastHour st now (tok_id actor) < signalItemBudget E st"
  using assms(2)
proof (cases rule: Receive_cases)
  case (received v h tgt st1 e fresh)
  have st1: "t_signals (proj st1) = t_signals (proj st)"
    and admitted: "target_created tgt \<Longrightarrow>
      countCreatingSignalsLastHour st now (tok_id actor) < signalItemBudget E st"
    using received(2) by (auto elim!: resolve_target_cases simp: target_created_def items_grow_def)
  from assms(1) received(3) show thesis
  proof (cases rule: signal_appended)
    case replay
    with st1 same show thesis by simp
  next
    case (row row)
    show thesis by (rule that(2) [of row]) (use st1 admitted row in \<open>auto simp: signal_row_for_def\<close>)
  qed
qed (use same in simp)

lemma metered_invariant:
  assumes "metered E M now st" "ext_ok E" "0 \<le> M"
  shows "(\<forall>r \<in> set (t_signals (proj st)). sr_received_at r \<le> now) \<and>
    (\<forall>actor x. created_between (proj st) actor (x - hour) x \<le> M)"
  using assms
proof (induction rule: metered.induct)
  case (start st now)
  then show ?case by (simp add: created_between_def)
next
  case (receive now st now' wall signalID workItemID actor inp out st')
  then have IH: "\<forall>r \<in> set (t_signals (proj st)). sr_received_at r \<le> now"
      "\<And>actor x. created_between (proj st) actor (x - hour) x \<le> M" by blast+
  have dist: "distinct (map sr_id (t_signals (proj st)))"
    using history_types [OF metered_history [OF receive.hyps(1)]] by (simp add: tables_ok_def table_ok_def)
  from receive.prems(1) receive.hyps(4) show ?case
  proof (cases rule: Receive_signals)
    case same
    with IH receive.hyps(2) show ?thesis by (force simp: created_between_def)
  next
    case (row row)
    have times: "\<forall>r \<in> set (t_signals (proj st')). sr_received_at r \<le> now'"
      using IH(1) receive.hyps(2) row(1,2) set_upsert_row [of sr_id row "t_signals (proj st)"] by fastforce
    have "created_between (proj st') a (x - hour) x \<le> M" for a x
    proof -
      let ?P = "\<lambda>r. sr_actor r = Some a \<and> sr_created_work_item r \<and>
        x - hour \<le> sr_received_at r \<and> sr_received_at r \<le> x"
      have le: "created_between (proj st') a (x - hour) x \<le>
          created_between (proj st) a (x - hour) x + (if ?P row then 1 else 0)"
        using filter_upsert_row_length [OF dist, of ?P row] row(1) by (auto simp: created_between_def)
      show ?thesis
      proof (cases "?P row")
        case True
        then have "a = tok_id actor" "now' \<le> x" using row(2,3) by simp_all
        have "length (filter ?P (t_signals (proj st))) \<le>
            length (filter (\<lambda>r. sr_actor r = Some a \<and> sr_created_work_item r \<and>
              sr_received_at r \<ge> now' - hour) (t_signals (proj st)))"
          by (rule filter_length_mono) (use \<open>now' \<le> x\<close> in auto)
        then have "created_between (proj st) a (x - hour) x \<le> countCreatingSignalsLastHour st now' a"
          by (simp add: created_between_def countCreatingSignalsLastHour_def)
        moreover have "countCreatingSignalsLastHour st now' a < M"
          using row(4) True receive.hyps(3) \<open>a = tok_id actor\<close> by simp
        ultimately show ?thesis using le True by simp
      next
        case False
        with le IH(2) [of a x] show ?thesis by simp
      qed
    qed
    with times show ?thesis by blast
  qed
next
  case (other now st now' st')
  then show ?case by (force simp: created_between_def)
qed


lemma steady_profile: "ProfileByName ProfileSteady = Inr DefaultPolicy"
  by code_simp


end
