(* ===== verification/Proposals.thy ===== *)
theory Proposals
  imports Fleet "HOL-Library.AList"
begin

text \<open>
  internal/convergence/checks_proposal.go: a convergence scribe proposes the checks of a work item
  that has none.  The proposal is validated, reduced by the reducer checks_proposal, and its verdict
  decides in the same transaction whether the parent takes the checks over and the scribe's own
  item is finished, or blocked when its attempts are used up.  The order in which Go walks over a
  map is the argument \<open>iter\<close>.
\<close>

abbreviation ScribeChildCheck :: string where "ScribeChildCheck \<equiv> ''query:parent_checks_defined''"
abbreviation checksProposalMaxAttempts :: int where "checksProposalMaxAttempts \<equiv> 3"
abbreviation checkClassMachine :: string where "checkClassMachine \<equiv> ''machine''"
abbreviation checkClassHuman :: string where "checkClassHuman \<equiv> ''human''"
abbreviation checkPrefixCommand :: string where "checkPrefixCommand \<equiv> ''cmd:''"
abbreviation checkPrefixEvent :: string where "checkPrefixEvent \<equiv> ''event:''"
abbreviation checkPrefixQuery :: string where "checkPrefixQuery \<equiv> ''query:''"
abbreviation checkPrefixHuman :: string where "checkPrefixHuman \<equiv> ''human-ack:''"

definition ErrChecksProposalNotFound :: string where
  "ErrChecksProposalNotFound = ''convergence: work item not found''"

section \<open>Validation\<close>

record check_classification =
  cl_check :: string
  cl_class :: string

record proposal_input =
  pi_of :: uuid
  pi_checks :: "string list"
  pi_classified :: "check_classification list"
  pi_rationale :: string
  pi_cultivar :: string

record validation =
  va_accept :: bool
  va_reason :: string
  va_checks :: "string list"

definition KnownQueryCheck :: "string \<Rightarrow> bool" where
  "KnownQueryCheck name \<longleftrightarrow> name = ''parent_checks_defined''"

definition hasMachineCheckPrefix :: "string \<Rightarrow> bool" where
  "hasMachineCheckPrefix check \<longleftrightarrow> has_prefix check checkPrefixCommand \<or>
     has_prefix check checkPrefixEvent \<or> has_prefix check checkPrefixQuery"

definition hasKnownCheckPrefix :: "string \<Rightarrow> bool" where
  "hasKnownCheckPrefix check \<longleftrightarrow> hasMachineCheckPrefix check \<or> has_prefix check checkPrefixHuman"

definition refused :: "string \<Rightarrow> validation" where
  "refused reason = \<lparr>va_accept = False, va_reason = reason, va_checks = []\<rparr>"

text \<open>The first loop: the checks in order, trimmed; the index is that of the blank one.\<close>

fun collect_checks :: "int \<Rightarrow> string list \<Rightarrow> string list \<Rightarrow> string + string list" where
  "collect_checks i seen [] = Inr seen"
| "collect_checks i seen (check # rest) =
     (let trimmed = trim_space check in
      if trimmed = [] then Inl (''blank_check:'' @ itoa i)
      else if trimmed \<in> set seen then Inl (''duplicate_check:'' @ trimmed)
      else collect_checks (i + 1) (seen @ [trimmed]) rest)"

text \<open>The second loop fills the map from checks to classes; a blank class is overwritten.\<close>

fun collect_classes ::
  "(string \<times> string) list \<Rightarrow> check_classification list \<Rightarrow> string + (string \<times> string) list" where
  "collect_classes m [] = Inr m"
| "collect_classes m (entry # rest) =
     (let check = trim_space (cl_check entry); class = trim_space (cl_class entry) in
      if check = [] then Inl ''blank_classified_check''
      else if (case map_of m check of None \<Rightarrow> False | Some c \<Rightarrow> c \<noteq> [])
        then Inl (''duplicate_classification:'' @ check)
      else collect_classes (AList.update check class m) rest)"

text \<open>What the last loop says of a check: its complaint, or None.\<close>

definition check_complaint :: "(string \<times> string) list \<Rightarrow> string \<Rightarrow> string option" where
  "check_complaint m check =
     (let class = (case map_of m check of None \<Rightarrow> [] | Some c \<Rightarrow> c) in
      if class = [] then Some (''missing_classification:'' @ check)
      else if \<not> hasKnownCheckPrefix check then Some (''unclassified_check:'' @ check)
      else if class = checkClassMachine \<and> \<not> hasMachineCheckPrefix check
        then Some (''classification_mismatch:'' @ check)
      else if class = checkClassHuman \<and> \<not> has_prefix check checkPrefixHuman
        then Some (''classification_mismatch:'' @ check)
      else if class \<noteq> checkClassMachine \<and> class \<noteq> checkClassHuman
        then Some (''invalid_classification:'' @ check)
      else if has_prefix check checkPrefixQuery \<and> \<not> KnownQueryCheck (trim_prefix check checkPrefixQuery)
        then Some (''unknown_query_check:'' @ trim_prefix check checkPrefixQuery)
      else None)"

fun first_complaint :: "('a \<Rightarrow> 'b option) \<Rightarrow> 'a list \<Rightarrow> 'b option" where
  "first_complaint f [] = None"
| "first_complaint f (x # xs) = (case f x of Some e \<Rightarrow> Some e | None \<Rightarrow> first_complaint f xs)"

definition ValidateChecksProposal ::
  "(string list \<Rightarrow> string list) \<Rightarrow> proposal_input \<Rightarrow> bool \<Rightarrow> bool \<Rightarrow> validation"
where
  "ValidateChecksProposal iter inp parentAlreadyDefined scribeChildValid =
     (if \<not> scribeChildValid then refused ''invalid_scribe_child''
      else if parentAlreadyDefined then refused ''checks_already_defined''
      else case collect_checks 0 [] (pi_checks inp) of
        Inl reason \<Rightarrow> refused reason
      | Inr checks \<Rightarrow>
          if checks = [] then refused ''empty_checks''
          else case collect_classes [] (pi_classified inp) of
            Inl reason \<Rightarrow> refused reason
          | Inr m \<Rightarrow>
              (case find (\<lambda>c. c \<notin> set checks) (iter (map fst m)) of
                 Some c \<Rightarrow> refused (''classification_for_unknown_check:'' @ c)
               | None \<Rightarrow>
                   (case first_complaint (check_complaint m) checks of
                      Some reason \<Rightarrow> refused reason
                    | None \<Rightarrow> \<lparr>va_accept = True, va_reason = ''checks proposal validated'',
                        va_checks = checks\<rparr>)))"

section \<open>The proposal\<close>

record proposal_result =
  pr_parent :: uuid
  pr_child :: uuid
  pr_event :: uuid
  pr_fresh :: bool
  pr_verdict_event :: uuid
  pr_verdict_fresh :: bool
  pr_verdict :: verdict
  pr_applied :: bool
  pr_stale :: bool
  pr_exhausted :: bool

text \<open>The latest verdict of a reducer on an item; Worker.thy reads the table in the same way.\<close>

record verdict_record =
  vr_attempt :: int
  vr_digest :: string
  vr_verdict :: verdict

definition ScribeChildID :: "ext \<Rightarrow> uuid \<Rightarrow> uuid" where
  "ScribeChildID E parentID =
     uuid_sha1 E NameSpaceURL (uuid_string E parentID @ ''|convergence-scribe|1'')"

text \<open>A nil slice is written as null; in.Checks and in.Classified are copied onto nil slices.\<close>

definition json_slice :: "json list \<Rightarrow> json" where
  "json_slice js = (if js = [] then JNull else JArr js)"

definition proposal_json :: "ext \<Rightarrow> proposal_input \<Rightarrow> json" where
  "proposal_json E inp =
     JObj [(''proposal_of'', juid E (pi_of inp)), (''checks'', json_slice (map JStr (pi_checks inp))),
       (''classified'', json_slice (map (\<lambda>c. JObj [(''check'', JStr (cl_check c)),
          (''class'', JStr (cl_class c))]) (pi_classified inp))),
       (''rationale'', JStr (trim_space (pi_rationale inp))),
       (''cultivar'', JStr (trim_space (pi_cultivar inp)))]"

definition checksProposalPayloadDigest :: "ext \<Rightarrow> json \<Rightarrow> string" where
  "checksProposalPayloadDigest E payload = hex_digest E payload"

definition checksProposalSignals :: "ext \<Rightarrow> json \<Rightarrow> validation \<Rightarrow> signal list" where
  "checksProposalSignals E payload v =
     [\<lparr>sg_kind = checksProposalValidKind, sg_model = [], sg_prompt_version = [], sg_sample_id = [],
       sg_pass = Some (va_accept v), sg_score = None,
       sg_raw = or_default (va_reason v) ''proposal validation failed''\<rparr>,
      \<lparr>sg_kind = ''checks_proposal.payload'', sg_model = [], sg_prompt_version = [], sg_sample_id = [],
       sg_pass = None, sg_score = None, sg_raw = checksProposalPayloadDigest E payload\<rparr>]"

definition scanProposalWorkItem :: "ext \<Rightarrow> db \<Rightarrow> uuid \<Rightarrow> err + work_item" where
  "scanProposalWorkItem E st i = (case get_row wi_id i (t_work_items (proj st)) of
     Some w \<Rightarrow> Inr w
   | None \<Rightarrow> Inl (Err ErrChecksProposalNotFound ('': '' @ uuid_string E i)))"

text \<open>The scribe's item, if the proposal names it and it is a child of the parent.\<close>

definition scanScribeChild :: "db \<Rightarrow> uuid \<Rightarrow> uuid \<Rightarrow> uuid \<Rightarrow> work_item option" where
  "scanScribeChild st parentID expectedChildID proposalOf =
     (if proposalOf = uuid_nil \<or> proposalOf \<noteq> expectedChildID then None
      else if (parentID, proposalOf) \<in> set (edges (proj st))
        then get_row wi_id proposalOf (t_work_items (proj st))
      else None)"

definition latest_verdict :: "db \<Rightarrow> uuid \<Rightarrow> reducer \<Rightarrow> verdict_record option" where
  "latest_verdict st wid r =
     (case sort_key (\<lambda>v. - cv_attempt v) (sort_key (\<lambda>v. - cv_at v)
         (filter (\<lambda>v. cv_work_item v = wid \<and> cv_identity v = re_identity r \<and> cv_version v = re_version r)
           (t_verdicts (proj st)))) of
        [] \<Rightarrow> None
      | v # _ \<Rightarrow> Some \<lparr>vr_attempt = cv_attempt v, vr_digest = cv_digest v,
          vr_verdict = verdict_of (cv_disposition v) (cv_reason v)\<rparr>)"

definition next_attempt :: "verdict_record option \<Rightarrow> int" where
  "next_attempt prev = (case prev of None \<Rightarrow> 1 | Some v \<Rightarrow> vr_attempt v + 1)"

definition latestChecksProposalVerdict :: "db \<Rightarrow> uuid \<Rightarrow> verdict_record option" where
  "latestChecksProposalVerdict st wid = latest_verdict st wid ChecksProposal"

definition proposal_spec :: "string \<Rightarrow> token \<Rightarrow> uuid \<Rightarrow> string \<Rightarrow> string \<Rightarrow> json \<Rightarrow> spec" where
  "proposal_spec source actor wid kind disc payload =
     \<lparr>sp_subject_kind = SubjectWorkItem, sp_subject_id = wid, sp_kind = kind, sp_source = source,
      sp_actor = Some (tok_id actor), sp_payload = payload, sp_discriminator = disc\<rparr>"

definition appendMetadataUpdated ::
  "ext \<Rightarrow> time \<Rightarrow> token \<Rightarrow> string \<Rightarrow> work_item \<Rightarrow> string list \<Rightarrow> string \<Rightarrow> db \<Rightarrow> err + db"
where
  "appendMetadataUpdated E now actor disc current checks review st =
     append_event E now (proposal_spec SourceSystem actor (wi_id current) EventWorkItemMetadataUpdated disc
       (JObj [(''from'', metadata_json (wi_checks current) (wi_human_review current)),
          (''to'', metadata_json checks review)])) st"

definition appendTransitioned ::
  "ext \<Rightarrow> time \<Rightarrow> token \<Rightarrow> string \<Rightarrow> work_item \<Rightarrow> string \<Rightarrow> string \<Rightarrow> db \<Rightarrow> err + db"
where
  "appendTransitioned E now actor disc current dest reason st =
     (if wi_state current = dest then Inr st
      else if \<not> CanTransition (wi_state current) dest then Inr st
      else append_event E now (proposal_spec SourceSystem actor (wi_id current) EventWorkItemTransitioned disc
        (transition_json (wi_state current) dest reason)) st)"

text \<open>The switch on the validation: the effects of the verdict, and whether it applied or gave up.\<close>

definition proposal_effects ::
  "ext \<Rightarrow> time \<Rightarrow> token \<Rightarrow> string \<Rightarrow> work_item \<Rightarrow> work_item option \<Rightarrow> validation \<Rightarrow> reduction \<Rightarrow> db \<Rightarrow>
   err + bool \<times> bool \<times> db"
where
  "proposal_effects E now actor disc parent child v red st =
     (if va_accept v then
        bind_err (appendMetadataUpdated E now actor disc parent (va_checks v) (wi_human_review parent) st) (\<lambda>st1.
        bind_err (case child of None \<Rightarrow> Inr st1
          | Some c \<Rightarrow> appendTransitioned E now actor disc c WorkItemDone ''checks proposal accepted'' st1) (\<lambda>st2.
        Inr (True, False, st2)))
      else if va_reason v = ''checks_already_defined'' then
        bind_err (case child of None \<Rightarrow> Inr st
          | Some c \<Rightarrow> appendTransitioned E now actor disc c WorkItemDone ''parent checks already defined'' st) (\<lambda>st1.
        Inr (False, False, st1))
      else case child of
        Some c \<Rightarrow>
          if vd_disposition (rd_verdict red) = VerdictReject \<and> rd_attempt red \<ge> checksProposalMaxAttempts then
            bind_err (appendMetadataUpdated E now actor disc c (wi_checks c) HumanReviewBlocked st) (\<lambda>st1.
            bind_err (appendTransitioned E now actor disc c WorkItemBlocked
              ''checks proposal budget exhausted'' st1) (\<lambda>st2.
            Inr (False, True, st2)))
          else Inr (False, False, st)
      | None \<Rightarrow> Inr (False, False, st))"

definition conclude_proposal ::
  "ext \<Rightarrow> time \<Rightarrow> token \<Rightarrow> string \<Rightarrow> uuid \<Rightarrow> work_item \<Rightarrow> work_item option \<Rightarrow> validation \<Rightarrow> reduction \<Rightarrow>
   proposal_result \<Rightarrow> db \<Rightarrow> err + proposal_result outcome"
where
  "conclude_proposal E now actor disc parentID parent child v red result st =
     bind_err (AppendVerdict E (NewProjectionRegistry E) now st SourceSystem (Some (tok_id actor)) parentID red)
       (\<lambda>(verdictID, verdictFresh, st1).
     bind_err (proposal_effects E now actor disc parent child v red st1) (\<lambda>(applied, exhausted, st2).
     Inr (Inr (result\<lparr>pr_verdict_event := verdictID, pr_verdict_fresh := verdictFresh,
       pr_applied := applied, pr_exhausted := exhausted\<rparr>), st2)))"

text \<open>A proposal that was already rejected with the same inputs is stale and consumes no attempt.\<close>

definition decide_proposal ::
  "ext \<Rightarrow> time \<Rightarrow> token \<Rightarrow> string \<Rightarrow> uuid \<Rightarrow> work_item \<Rightarrow> work_item option \<Rightarrow> validation \<Rightarrow> reduction \<Rightarrow>
   verdict_record option \<Rightarrow> proposal_result \<Rightarrow> db \<Rightarrow> err + proposal_result outcome"
where
  "decide_proposal E now actor disc parentID parent child v red prev result st =
     (case prev of
        Some l \<Rightarrow>
          if vr_digest l = rd_digest red \<and> vd_disposition (vr_verdict l) = VerdictReject
          then Inr (Inr (result\<lparr>pr_stale := True, pr_verdict := vr_verdict l\<rparr>), st)
          else conclude_proposal E now actor disc parentID parent child v red result st
      | None \<Rightarrow> conclude_proposal E now actor disc parentID parent child v red result st)"

definition ProposeChecks ::
  "ext \<Rightarrow> (string list \<Rightarrow> string list) \<Rightarrow> time \<Rightarrow> db \<Rightarrow> string \<Rightarrow> uuid \<Rightarrow> proposal_input \<Rightarrow> token \<Rightarrow>
   proposal_result outcome"
where
  "ProposeChecks E iter now st disc parentID inp actor = rollback st
     (bind_err (guard_err (parentID \<noteq> uuid_nil)
        (Err ErrChecksProposalNotFound '': parent id is required'')) (\<lambda>_.
      bind_err (scanProposalWorkItem E st parentID) (\<lambda>parent.
      let child = scanScribeChild st parentID (ScribeChildID E parentID) (pi_of inp);
          payload = proposal_json E inp in
      bind_err (app_append E now st (proposal_spec (sourceForActor actor) actor parentID
        EventConvergenceChecksProposed disc payload)) (\<lambda>(eventID, fresh, st1).
      let v = ValidateChecksProposal iter inp (wi_checks parent \<noteq> []) (child \<noteq> None);
          prev = latestChecksProposalVerdict st1 parentID in
      bind_err (Run E ChecksProposal (checksProposalSignals E payload v) (next_attempt prev)) (\<lambda>red.
      let result = \<lparr>pr_parent = parentID, pr_child = pi_of inp, pr_event = eventID, pr_fresh = fresh,
            pr_verdict_event = uuid_nil, pr_verdict_fresh = False, pr_verdict = rd_verdict red,
            pr_applied = False, pr_stale = False, pr_exhausted = False\<rparr> in
      decide_proposal E now actor disc parentID parent child v red prev result st1)))))"


section \<open>Which proposals are accepted\<close>

lemma collect_checks_Inr:
  assumes "distinct seen"
  shows "collect_checks i seen cs = Inr out \<longleftrightarrow>
    [] \<notin> trim_space ` set cs \<and> distinct (seen @ map trim_space cs) \<and> out = seen @ map trim_space cs"
  using assms by (induction cs arbitrary: i seen) (auto simp: Let_def)

lemma update_new: "k \<notin> fst ` set m \<Longrightarrow> AList.update k v m = m @ [(k, v)]"
  by (induction m) auto

lemma collect_classes_Inr:
  assumes "distinct (map fst m @ map (trim_space \<circ> cl_check) es)"
  shows "collect_classes m es = Inr m' \<longleftrightarrow> [] \<notin> (trim_space \<circ> cl_check) ` set es \<and>
    m' = m @ map (\<lambda>e. (trim_space (cl_check e), trim_space (cl_class e))) es"
  using assms
proof (induction es arbitrary: m)
  case (Cons e es)
  then have new: "trim_space (cl_check e) \<notin> fst ` set m" by auto
  then have "map_of m (trim_space (cl_check e)) = None" by (simp add: map_of_eq_None_iff)
  with Cons.IH [of "m @ [(trim_space (cl_check e), trim_space (cl_class e))]"] Cons.prems show ?case
    by (auto simp: Let_def update_new [OF new])
qed auto

lemma first_complaint_None: "first_complaint f xs = None \<longleftrightarrow> (\<forall>x \<in> set xs. f x = None)"
  by (induction xs) (auto split: option.splits)

text \<open>A class fits a check.\<close>

definition class_fits :: "string \<Rightarrow> string \<Rightarrow> bool" where
  "class_fits check class \<longleftrightarrow>
     class = checkClassMachine \<and> (has_prefix check checkPrefixCommand \<or> has_prefix check checkPrefixEvent \<or>
       check = ScribeChildCheck) \<or>
     class = checkClassHuman \<and> has_prefix check checkPrefixHuman"

lemma known_query:
  "has_prefix check checkPrefixQuery \<and> KnownQueryCheck (trim_prefix check checkPrefixQuery) \<longleftrightarrow>
   check = ScribeChildCheck"
  by (auto simp: has_prefix_iff KnownQueryCheck_def trim_prefix_def)

lemma prefixes_apart:
  "has_prefix check checkPrefixHuman \<Longrightarrow> \<not> has_prefix check checkPrefixQuery"
  "has_prefix check checkPrefixCommand \<Longrightarrow> \<not> has_prefix check checkPrefixQuery"
  "has_prefix check checkPrefixEvent \<Longrightarrow> \<not> has_prefix check checkPrefixQuery"
  by (auto simp: has_prefix_iff)

lemma check_complaint_None:
  "check_complaint m check = None \<longleftrightarrow> (\<exists>class. map_of m check = Some class \<and> class_fits check class)"
proof (cases "map_of m check")
  case (Some cls)
  then show ?thesis
    using known_query [of check] prefixes_apart [of check]
    by (auto simp: check_complaint_def Let_def class_fits_def hasKnownCheckPrefix_def hasMachineCheckPrefix_def)
qed (simp add: check_complaint_def)

lemma matched_classes:
  assumes "\<And>e e'. e \<in> S \<Longrightarrow> e' \<in> S \<Longrightarrow> f e = f e' \<Longrightarrow> g e = g e'"
  shows "f ` S \<subseteq> C \<and> (\<forall>c \<in> C. \<exists>e \<in> S. c = f e \<and> P c (g e)) \<longleftrightarrow> f ` S = C \<and> (\<forall>e \<in> S. P (f e) (g e))"
proof (intro iffI conjI)
  assume *: "f ` S \<subseteq> C \<and> (\<forall>c \<in> C. \<exists>e \<in> S. c = f e \<and> P c (g e))"
  then show "f ` S = C" by auto
  show "\<forall>e \<in> S. P (f e) (g e)"
  proof
    fix e assume "e \<in> S"
    with * obtain e' where "e' \<in> S" "f e = f e'" "P (f e) (g e')" by blast
    with assms [OF \<open>e \<in> S\<close>] show "P (f e) (g e)" by simp
  qed
qed auto

lemma conj_matched:
  "(K \<subseteq> C \<and> Q \<longleftrightarrow> K = C \<and> R) \<Longrightarrow>
   (a \<and> b \<and> x \<notin> C \<and> d \<and> e \<and> x \<notin> K \<and> K \<subseteq> C \<and> Q) \<longleftrightarrow> (a \<and> b \<and> e \<and> x \<notin> C \<and> d \<and> K = C \<and> R)"
  by blast


definition proposal1 :: proposal_input where
  "proposal1 = \<lparr>pi_of = 9, pi_checks = ['' cmd:make test'', ''human-ack:ship it''],
     pi_classified = [\<lparr>cl_check = ''human-ack:ship it'', cl_class = ''human''\<rparr>,
       \<lparr>cl_check = ''cmd:make test'', cl_class = ''machine''\<rparr>], pi_rationale = [], pi_cultivar = []\<rparr>"


section \<open>What a proposal changes\<close>

definition same_checks :: "tables \<Rightarrow> tables \<Rightarrow> bool" where
  "same_checks t t' \<longleftrightarrow> (\<forall>i. map_option wi_checks (get_row wi_id i (t_work_items t')) =
     map_option wi_checks (get_row wi_id i (t_work_items t)))"

lemma same_checks_refl [simp]: "same_checks t t"
  by (simp add: same_checks_def)

lemma same_checks_trans: "same_checks t t1 \<Longrightarrow> same_checks t1 t2 \<Longrightarrow> same_checks t t2"
  by (simp add: same_checks_def)

lemma same_checks_update:
  "(\<And>w. wi_id (f w) = wi_id w) \<Longrightarrow> (\<And>w. wi_checks (f w) = wi_checks w) \<Longrightarrow>
   same_checks t (t\<lparr>t_work_items := update_row wi_id k f (t_work_items t)\<rparr>)"
  by (simp add: same_checks_def option.map_comp comp_def)

lemma proposal_spec_sel [simp]:
  "sp_subject_kind (proposal_spec source actor wid kind disc payload) = SubjectWorkItem"
  "sp_subject_id (proposal_spec source actor wid kind disc payload) = wid"
  "sp_kind (proposal_spec source actor wid kind disc payload) = kind"
  "sp_payload (proposal_spec source actor wid kind disc payload) = payload"
  by (simp_all add: proposal_spec_def)

lemma proposed_same_checks:
  assumes "app_append E now st (proposal_spec source actor wid EventConvergenceChecksProposed disc payload) =
    Inr (i, fresh, st')"
  shows "same_checks (proj st) (proj st')"
  using assms [unfolded app_append_def]
proof (cases rule: Append_cases)
  case (insert p)
  then have "p = touch_work_item (event_of now i
      (proposal_spec source actor wid EventConvergenceChecksProposed disc payload)) (proj st)"
    by (simp add: registry_apply_kinds checksProposedProjector_def)
  with insert show ?thesis by (simp add: touch_work_item_def same_checks_update)
qed simp

lemma append_event_cases:
  assumes "append_event E now s st = Inr st'"
  obtains (replay) "st' = st"
  | (insert) i p where "registry_apply (NewProjectionRegistry E) (event_of now i s) (proj st) = Inr p" "proj st' = p"
proof -
  obtain i fresh where "Append E (NewProjectionRegistry E) now st s = Inr (i, fresh, st')"
    using assms by (auto simp: append_event_def app_append_def map_sum_Inr)
  then show thesis by (cases rule: Append_cases) (use replay insert in auto)
qed

lemma wi_checks_transition_row [simp]: "wi_checks (transition_row ev frm dest reason w) = wi_checks w"
  by (simp add: transition_row_def)

lemma transitioned_same_checks:
  "appendTransitioned E now actor disc c dest reason st = Inr st' \<Longrightarrow> same_checks (proj st) (proj st')"
proof (cases "wi_state c = dest \<or> \<not> CanTransition (wi_state c) dest")
  case False
  assume "appendTransitioned E now actor disc c dest reason st = Inr st'"
  with False have "append_event E now (proposal_spec SourceSystem actor (wi_id c) EventWorkItemTransitioned disc
      (transition_json (wi_state c) dest reason)) st = Inr st'" by (simp add: appendTransitioned_def)
  then show ?thesis
  proof (cases rule: append_event_cases)
    case (insert i p)
    then have p: "(proj st)\<lparr>t_work_items := update_row wi_id (wi_id c) (transition_row (event_of now i
        (proposal_spec SourceSystem actor (wi_id c) EventWorkItemTransitioned disc
          (transition_json (wi_state c) dest reason))) (wi_state c) dest reason) (t_work_items (proj st))\<rparr> = p"
      by (auto simp: registry_apply_kinds workItemTransitionedProjector_def bind_err_Inr split: if_split_asm)
    show ?thesis unfolding insert(2) p [symmetric] by (rule same_checks_update) simp_all
  qed simp
qed (auto simp: appendTransitioned_def split: if_splits)

lemma verdict_spec_kind:
  "VerdictEventSpec source actor wid red = Inr s \<Longrightarrow> sp_kind s = EventConvergenceVerdictRecorded"
  by (auto simp: VerdictEventSpec_def bind_err_Inr split: if_split_asm)

lemma verdict_same_checks:
  assumes "AppendVerdict E (NewProjectionRegistry E) now st source actor wid red = Inr (i, fresh, st')"
  shows "same_checks (proj st) (proj st')"
proof -
  obtain s where "VerdictEventSpec source actor wid red = Inr s"
      and s: "Append E (NewProjectionRegistry E) now st s = Inr (i, fresh, st')"
    using assms by (auto simp: AppendVerdict_def bind_err_Inr)
  then have k: "sp_kind s = EventConvergenceVerdictRecorded" by (simp add: verdict_spec_kind)
  from s show ?thesis
  proof (cases rule: Append_cases)
    case (insert p)
    have "ev_kind (event_of now i s) \<notin> set work_item_kinds" by (simp add: k work_item_kinds_def)
    then have "t_work_items p = t_work_items (proj st)" by (rule apply_keeps_work_items [OF insert(4)])
    with insert show ?thesis by (simp add: same_checks_def)
  qed simp
qed

lemma metadata_updated:
  assumes "appendMetadataUpdated E now actor disc c checks review st = Inr st'"
    and "list_all (\<lambda>c. c \<noteq> [] \<and> trim_space c = c) checks" "human_review_valid review"
  shows "map_option wi_checks (get_row wi_id i (t_work_items (proj st'))) =
      map_option wi_checks (get_row wi_id i (t_work_items (proj st))) \<or>
    i = wi_id c \<and> map_option wi_checks (get_row wi_id i (t_work_items (proj st'))) =
      map_option (\<lambda>_. checks) (get_row wi_id i (t_work_items (proj st)))"
proof -
  have n: "normalizeSuggestedConvergenceChecks checks = Inr checks" "normalizeHumanReviewStatus review = Inr review"
    using assms(2,3) by (auto simp: normalizeSuggestedConvergenceChecks_def checks_renormalize
        normalizeHumanReviewStatus_def human_review_valid_def)
  from assms(1) [unfolded appendMetadataUpdated_def] show ?thesis
  proof (cases rule: append_event_cases)
    case (insert j p)
    then have "p = (proj st)\<lparr>t_work_items := update_row wi_id (wi_id c)
        (\<lambda>w. w\<lparr>wi_checks := checks, wi_human_review := review, wi_updated_at := now\<rparr>) (t_work_items (proj st))\<rparr>"
      by (simp add: registry_apply_kinds metadataUpdatedProjector_def metadata_json_def n Let_def guard_err_def)
    with insert(2) show ?thesis by (auto simp: option.map_comp comp_def)
  qed simp
qed

lemma accepted_checks:
  assumes "va_accept (ValidateChecksProposal iter inp defd valid)"
  shows "\<not> defd \<and> va_checks (ValidateChecksProposal iter inp defd valid) = map trim_space (pi_checks inp) \<and>
    list_all (\<lambda>c. c \<noteq> [] \<and> trim_space c = c) (map trim_space (pi_checks inp))"
proof -
  from assms have "\<not> defd" "valid" by (auto simp: ValidateChecksProposal_def refused_def split: if_split_asm)
  with assms obtain cs where cs: "collect_checks 0 [] (pi_checks inp) = Inr cs"
    by (cases "collect_checks 0 [] (pi_checks inp)") (auto simp: ValidateChecksProposal_def refused_def)
  with assms \<open>\<not> defd\<close> \<open>valid\<close> have "va_checks (ValidateChecksProposal iter inp defd valid) = cs"
    by (auto simp: ValidateChecksProposal_def refused_def split: if_splits sum.splits option.splits)
  with cs \<open>\<not> defd\<close> show ?thesis
    using collect_checks_Inr [of "[]" 0 "pi_checks inp" cs] by (auto simp: list_all_iff image_iff)
qed

abbreviation checks_at :: "db \<Rightarrow> uuid \<Rightarrow> string list option" where
  "checks_at st i \<equiv> map_option wi_checks (get_row wi_id i (t_work_items (proj st)))"

lemma proposal_effects_checks:
  assumes "proposal_effects E now actor disc parent child v red st = Inr (applied, exhausted, st')"
    and "va_accept v \<Longrightarrow> list_all (\<lambda>c. c \<noteq> [] \<and> trim_space c = c) (va_checks v)" "item_ok parent"
    and "\<And>c. child = Some c \<Longrightarrow> item_ok c \<and> checks_at st (wi_id c) = Some (wi_checks c)"
  shows "checks_at st' i = checks_at st i \<or>
    applied \<and> va_accept v \<and> i = wi_id parent \<and> checks_at st' i = map_option (\<lambda>_. va_checks v) (checks_at st i)"
proof (cases "va_accept v")
  case True
  with assms(1) obtain st1 where 1: "applied"
      "appendMetadataUpdated E now actor disc parent (va_checks v) (wi_human_review parent) st = Inr st1"
      and 2: "same_checks (proj st1) (proj st')"
    by (auto simp: proposal_effects_def bind_err_Inr dest: transitioned_same_checks split: option.splits)
  have "checks_at st1 i = checks_at st i \<or>
      i = wi_id parent \<and> checks_at st1 i = map_option (\<lambda>_. va_checks v) (get_row wi_id i (t_work_items (proj st)))"
    by (rule metadata_updated [OF 1(2)]) (use True assms(2,3) in \<open>auto simp: item_ok_def\<close>)
  with 2 True 1(1) show ?thesis by (auto simp: same_checks_def option.map_comp comp_def)
next
  case False
  show ?thesis
  proof (cases "va_reason v = ''checks_already_defined'' \<or> child = None")
    case True
    with False assms(1) have "same_checks (proj st) (proj st')"
      by (auto simp: proposal_effects_def bind_err_Inr dest: transitioned_same_checks split: option.splits if_splits)
    then show ?thesis by (simp add: same_checks_def)
  next
    case other: False
    then obtain c where c: "child = Some c" by blast
    show ?thesis
    proof (cases "st' = st")
      case changed: False
      with False other c assms(1) obtain st1 where
          1: "appendMetadataUpdated E now actor disc c (wi_checks c) HumanReviewBlocked st = Inr st1"
          and 2: "same_checks (proj st1) (proj st')"
        by (auto simp: proposal_effects_def bind_err_Inr dest: transitioned_same_checks split: if_splits)
      have "checks_at st1 i = checks_at st i \<or>
          i = wi_id c \<and> checks_at st1 i = map_option (\<lambda>_. wi_checks c) (get_row wi_id i (t_work_items (proj st)))"
        by (rule metadata_updated [OF 1]) (use assms(4) [OF c] in \<open>auto simp: item_ok_def human_review_valid_def\<close>)
      with 2 assms(4) [OF c] show ?thesis by (auto simp: same_checks_def)
    qed simp
  qed
qed

lemma ProposeChecks_cases:
  assumes "ProposeChecks E iter now st disc parentID inp actor = (r, st')"
  obtains (failed) e where "r = Inl e" "st' = st"
  | (stale) j fresh out where "r = Inr out" "\<not> pr_applied out"
      "app_append E now st (proposal_spec (sourceForActor actor) actor parentID
        EventConvergenceChecksProposed disc (proposal_json E inp)) = Inr (j, fresh, st')"
  | (concluded) parent child v red j fresh st1 k verdictFresh st2 applied exhausted out where "r = Inr out"
      "scanProposalWorkItem E st parentID = Inr parent"
      "child = scanScribeChild st parentID (ScribeChildID E parentID) (pi_of inp)"
      "v = ValidateChecksProposal iter inp (wi_checks parent \<noteq> []) (child \<noteq> None)"
      "app_append E now st (proposal_spec (sourceForActor actor) actor parentID
        EventConvergenceChecksProposed disc (proposal_json E inp)) = Inr (j, fresh, st1)"
      "AppendVerdict E (NewProjectionRegistry E) now st1 SourceSystem (Some (tok_id actor)) parentID red =
        Inr (k, verdictFresh, st2)"
      "proposal_effects E now actor disc parent child v red st2 = Inr (applied, exhausted, st')"
      "pr_applied out = applied" "rd_verdict red = checks_proposal_reduce (checksProposalSignals E (proposal_json E inp) v)"
proof (cases r)
  case (Inl e)
  with assms have "st' = st"
    by (auto simp: ProposeChecks_def rollback_eq bind_err_Inr Let_def decide_proposal_def conclude_proposal_def
        split: option.splits if_splits)
  with Inl failed show thesis by blast
next
  case (Inr out)
  let ?payload = "proposal_json E inp"
  let ?child = "scanScribeChild st parentID (ScribeChildID E parentID) (pi_of inp)"
  let ?v = "\<lambda>parent. ValidateChecksProposal iter inp (wi_checks parent \<noteq> []) (?child \<noteq> None)"
  from assms [unfolded Inr ProposeChecks_def rollback_eq Let_def] obtain parent j fresh st1 red R where
      1: "scanProposalWorkItem E st parentID = Inr parent"
      and 2: "app_append E now st (proposal_spec (sourceForActor actor) actor parentID
        EventConvergenceChecksProposed disc ?payload) = Inr (j, fresh, st1)"
      and v: "Run E ChecksProposal (checksProposalSignals E ?payload (?v parent))
          (next_attempt (latestChecksProposalVerdict st1 parentID)) = Inr red"
      and step: "decide_proposal E now actor disc parentID parent ?child (?v parent) red
          (latestChecksProposalVerdict st1 parentID) R st1 = Inr (Inr out, st')"
      and R: "\<not> pr_applied R"
    by (clarsimp simp: bind_err_Inr simp del: not_None_eq)
  from step R have 3: "(st' = st1 \<and> \<not> pr_applied out) \<or>
      conclude_proposal E now actor disc parentID parent ?child (?v parent) red R st1 = Inr (Inr out, st')"
    by (auto simp: decide_proposal_def split: option.split_asm if_split_asm)
  from v have red: "rd_verdict red = checks_proposal_reduce (checksProposalSignals E ?payload (?v parent))"
    by (auto simp: Run_def ChecksProposal_def Let_def split: if_split_asm)
  from 3 show thesis
  proof
    assume "st' = st1 \<and> \<not> pr_applied out"
    with stale Inr 2 show thesis by blast
  next
    assume "conclude_proposal E now actor disc parentID parent ?child (?v parent) red R st1 = Inr (Inr out, st')"
    with concluded [OF Inr 1 refl refl 2 _ _ _ red] show thesis
      by (auto simp: conclude_proposal_def bind_err_Inr)
  qed
qed

text \<open>
  C19: A proposal never overwrites checks.  Whatever proposals are made, an item keeps the checks it
  has; only a parent that had none gets exactly the trimmed checks of an accepted proposal, which
  is then reported as applied.
\<close>
theorem proposals_fill_missing_checks_only:
  assumes "app_history E st" "ProposeChecks E iter now st disc parentID inp actor = (r, st')"
    and "get_work_item st i = Inr w"
  shows "\<exists>w'. get_work_item st' i = Inr w' \<and> (wi_checks w' = wi_checks w \<or>
    i = parentID \<and> wi_checks w = [] \<and> wi_checks w' = map trim_space (pi_checks inp) \<and>
    (\<exists>out. r = Inr out \<and> pr_applied out))"
  using assms(2)
proof (cases rule: ProposeChecks_cases)
  case (stale j fresh out)
  from proposed_same_checks [OF stale(3)] assms(3) show ?thesis
    by (auto simp: same_checks_def get_work_item_Inr dest!: spec [of _ i])
next
  case (concluded parent child v red j fresh st1 k vf st2 applied exhausted out)
  have typed: "table_ok wi_id item_ok (t_work_items (proj st))"
    using history_types [OF assms(1)] by (simp add: tables_ok_def)
  have parent: "get_row wi_id parentID (t_work_items (proj st)) = Some parent"
    using concluded(2) by (auto simp: scanProposalWorkItem_def split: option.split_asm)
  have same: "checks_at st2 x = checks_at st x" for x
    using same_checks_trans [OF proposed_same_checks [OF concluded(5)] verdict_same_checks [OF concluded(6)]]
    by (simp add: same_checks_def)
  have v: "va_accept v \<Longrightarrow> wi_checks parent = [] \<and> va_checks v = map trim_space (pi_checks inp) \<and>
      list_all (\<lambda>c. c \<noteq> [] \<and> trim_space c = c) (va_checks v)"
    using accepted_checks [of iter inp] unfolding concluded(4) by auto
  have "checks_at st' i = checks_at st2 i \<or> applied \<and> va_accept v \<and> i = wi_id parent \<and>
      checks_at st' i = map_option (\<lambda>_. va_checks v) (checks_at st2 i)"
  proof (rule proposal_effects_checks [OF concluded(7)])
    show "item_ok parent" by (rule table_ok_get [OF typed parent])
  next
    fix c assume "child = Some c"
    then have c: "get_row wi_id (pi_of inp) (t_work_items (proj st)) = Some c"
      using concluded(3) by (auto simp: scanScribeChild_def split: if_split_asm)
    then have "wi_id c = pi_of inp" using get_row_Some by fast
    with c same show "item_ok c \<and> checks_at st2 (wi_id c) = Some (wi_checks c)"
      using table_ok_get [OF typed c] by simp
  qed (use v in blast)
  moreover have "wi_id parent = parentID" using parent get_row_Some by fast
  moreover have "checks_at st i = Some (wi_checks w)" using assms(3) by (simp add: get_work_item_Inr)
  ultimately have "checks_at st' i = Some (wi_checks w) \<or>
      i = parentID \<and> applied \<and> va_accept v \<and> checks_at st' i = Some (map trim_space (pi_checks inp))"
    using same v by auto
  moreover have "i = parentID \<Longrightarrow> parent = w" using parent assms(3) by (simp add: get_work_item_Inr)
  ultimately show ?thesis using v concluded(1,8) by (auto simp: get_work_item_Inr)
qed (use assms(3) in auto)

section \<open>Every reduction can be recorded\<close>

lemma hex_string_shape: "length (hex_string bs) = 2 * length bs" "list_all hex_digit (hex_string bs)"
proof (induction bs)
  case (Cons c bs)
  have "hex_digit (hex_char n)" if "n < 16" for n
    using less_16_list [OF that] by (auto simp: hex_char_def hex_digit_def less_eq_char_def)
  moreover have "(of_char c :: nat) div 16 < 16" "(of_char c :: nat) mod 16 < 16"
    using nat_of_char_less_256 [of c] by (simp_all add: less_mult_imp_div_less)
  ultimately show "list_all hex_digit (hex_string (c # bs))" using Cons(2) by (simp add: hex_string_def)
  show "length (hex_string (c # bs)) = 2 * length (c # bs)" using Cons(1) by (simp add: hex_string_def)
qed (simp_all add: hex_string_def)

context reducer
begin

lemma verdict_reads_back:
  assumes "ext_ok E" "Run E r sigs attempt = Inr red"
  shows "decodeVerdictRecordedPayload (EventPayload red) =
    Inr \<lparr>vp_identity = re_identity r, vp_version = re_version r, vp_attempt = attempt,
      vp_digest = digestReductionInputs E sigs (re_config r), vp_disposition = vd_disposition (re_reduce r sigs),
      vp_reason = vd_reason (re_reduce r sigs), vp_config = JObj (re_config r),
      vp_signals = JArr (map payload_signal sigs)\<rparr>"
proof -
  have a: "1 \<le> attempt" using assms(2) Run_Inr_iff by blast
  have d: "length (digestReductionInputs E sigs (re_config r)) = 64"
      "list_all hex_digit (digestReductionInputs E sigs (re_config r))"
    using assms(1) by (simp_all add: digestReductionInputs_def hex_digest_def hex_string_shape ext_ok_def)
  then have "digestReductionInputs E sigs (re_config r) \<noteq> []" by auto
  with a d identity version disposition reason Run_total [OF a, of E sigs] assms(2) show ?thesis
    by (simp add: EventPayload_def decodeVerdictRecordedPayload_def guard_err_def jraw_def)
qed

end

text \<open>So the worker and the scribe can always record their verdicts.\<close>

lemma AppendVerdict_ok:
  assumes "decodeVerdictRecordedPayload (EventPayload red) = Inr p" "source_valid source" "wid \<noteq> uuid_nil"
  shows "\<exists>i fresh st'. AppendVerdict E (NewProjectionRegistry E) now st source actor wid red = Inr (i, fresh, st')"
proof -
  let ?s = "\<lparr>sp_subject_kind = SubjectConvergence, sp_subject_id = wid,
    sp_kind = EventConvergenceVerdictRecorded, sp_source = source, sp_actor = actor,
    sp_payload = EventPayload red, sp_discriminator = []\<rparr>"
  have "\<exists>i fresh st'. app_append E now st ?s = Inr (i, fresh, st')"
  proof (rule append_ok)
    show "spec_validate ?s = None" using assms(2,3) by (simp add: spec_validate_def)
    show "\<exists>p. registry_apply (NewProjectionRegistry E) (event_of now i ?s) (proj st) = Inr p" for i
      using assms(1,3) by (simp add: registry_apply_kinds verdictRecordedProjector_def Let_def)
  qed
  with assms show ?thesis by (simp add: AppendVerdict_def VerdictEventSpec_def app_append_def)
qed

lemma proposal1_runs: "\<exists>out st'. ProposeChecks decimal_ext rev 9 db7 [] 7 proposal1 human2 = (Inr out, st')"
proof -
  let ?s = "proposal_spec (sourceForActor human2) human2 7 EventConvergenceChecksProposed []
    (proposal_json decimal_ext proposal1)"
  let ?v = "refused ''invalid_scribe_child''"
  have valid: "spec_validate ?s = None"
    by (simp add: spec_validate_def proposal_spec_def)
  have "\<exists>i fresh st'. app_append decimal_ext 9 db7 ?s = Inr (i, fresh, st')"
    by (rule append_ok [OF valid]) (simp add: registry_apply_kinds checksProposedProjector_def)
  then obtain i fresh st1 where a: "app_append decimal_ext 9 db7 ?s = Inr (i, fresh, st1)" by blast
  have "t_verdicts (proj st1) = []"
    using a [unfolded app_append_def]
  proof (cases rule: Append_cases)
    case (insert p)
    from apply_keeps_verdicts [OF insert(4)] insert(5) show ?thesis by (simp add: db7_def db7_at_def no_tables_def)
  qed (simp add: db7_def db7_at_def no_tables_def)
  then have last: "latestChecksProposalVerdict st1 7 = None"
    by (simp add: latestChecksProposalVerdict_def latest_verdict_def)
  obtain red where red: "Run decimal_ext ChecksProposal (checksProposalSignals decimal_ext
      (proposal_json decimal_ext proposal1) ?v) 1 = Inr red"
    using checks_proposal.Run_total [of 1] by auto
  obtain j vf st2 where "AppendVerdict decimal_ext (NewProjectionRegistry decimal_ext) 9 st1 SourceSystem
      (Some (tok_id human2)) 7 red = Inr (j, vf, st2)"
    using AppendVerdict_ok [OF checks_proposal.verdict_reads_back [OF decimal_ext_ok red]] source_valid_def
    by fastforce
  moreover have "scanScribeChild db7 7 x (pi_of proposal1) = None" for x
    by (simp add: scanScribeChild_def edges_def db7_def db7_at_def no_tables_def)
  moreover have "scanProposalWorkItem decimal_ext db7 7 = Inr item7"
    by (simp add: scanProposalWorkItem_def db7_def db7_at_def item7_def)
  ultimately show ?thesis using a last red
    by (simp add: ProposeChecks_def Let_def ValidateChecksProposal_def next_attempt_def decide_proposal_def
        conclude_proposal_def proposal_effects_def rollback_def refused_def guard_err_def)
qed

theorem proposals_fill_missing_checks_only_witness:
  "\<exists>out st' w'. ProposeChecks decimal_ext rev 9 db7 [] 7 proposal1 human2 = (Inr out, st') \<and>
     get_work_item st' 7 = Inr w' \<and> (wi_checks w' = [] \<or> pr_applied out)"
proof -
  obtain out st' where r: "ProposeChecks decimal_ext rev 9 db7 [] 7 proposal1 human2 = (Inr out, st')"
    using proposal1_runs by blast
  have "get_work_item db7 7 = Inr item7" by (simp add: get_work_item_Inr db7_def db7_at_def item7_def)
  from proposals_fill_missing_checks_only [OF history_db7 r this] r show ?thesis
    by (auto simp: item7_def)
qed



end
