(* ===== verification/Worker.thy ===== *)
theory Worker
  imports Proposals
begin

text \<open>
  internal/worker: the passes of one scan of the worker, in the order of ScanOnce: scribes for
  items without checks, reviewers for finished implementations, dispatch of items that wait for an
  agent, convergence of running items, and patience with every item that does not move.  The last
  section is the read model of breaches (patience_attention.go).

  Each effect is a transaction of its own.  Its time is \<open>clk st\<close> where \<open>st\<close> is the database at its
  start, for an arbitrary function clk; \<open>now\<close> is the clock of the worker.  encoding/json turns the
  numbers of a free-form object into float64: \<open>fl\<close> gives the text of the nearest float64, None when
  there is none.
\<close>

section \<open>One effect after the other\<close>

text \<open>The loop of a pass over its candidates: counters, the error that ends it, the database.\<close>

type_synonym 'r pass = "'r \<times> err option \<times> db"

fun for_each :: "('c \<Rightarrow> 'r \<Rightarrow> db \<Rightarrow> 'r pass) \<Rightarrow> 'c list \<Rightarrow> 'r \<Rightarrow> db \<Rightarrow> 'r pass" where
  "for_each f [] r st = (r, None, st)"
| "for_each f (c # cs) r st = (case f c r st of
     (r', Some e, st') \<Rightarrow> (r', Some e, st')
   | (r', None, st') \<Rightarrow> for_each f cs r' st')"

record worker =
  wk_actor :: uuid
  wk_budgets :: "(string \<times> time) list"

text \<open>The token that the worker acts as; the other services read its id and source only.\<close>

definition worker_token :: "worker \<Rightarrow> token" where
  "worker_token W = \<lparr>tok_id = wk_actor W, tok_name = [], tok_hash = [], tok_is_root = False,
     tok_scopes = [], tok_source = SourceSystem, tok_created_at = 0, tok_revoked_at = None\<rparr>"

definition worker_spec :: "worker \<Rightarrow> uuid \<Rightarrow> string \<Rightarrow> json \<Rightarrow> spec" where
  "worker_spec W wid kind payload =
     \<lparr>sp_subject_kind = SubjectWorkItem, sp_subject_id = wid, sp_kind = kind, sp_source = SourceSystem,
      sp_actor = Some (wk_actor W), sp_payload = payload, sp_discriminator = []\<rparr>"

text \<open>The payloads of the joined work_item.created events, None for the empty left join.\<close>

definition created_payloads :: "db \<Rightarrow> uuid \<Rightarrow> json option list" where
  "created_payloads st wid = (case filter (is_event SubjectWorkItem wid EventWorkItemCreated) (log st) of
     [] \<Rightarrow> [None] | es \<Rightarrow> map (\<lambda>e. Some (ev_payload e)) es)"

definition unix :: "time \<Rightarrow> int" where
  "unix t = t div second"

definition cultivar_ref :: "cultivar \<Rightarrow> string" where
  "cultivar_ref c = cu_name c @ ''@'' @ itoa (cu_version c)"

section \<open>Scribes\<close>

record spawn_result =
  sp_scanned :: int
  sp_spawned :: int
  sp_present :: int

definition scribeCultivarName :: string where "scribeCultivarName = ''convergence-scribe''"

definition by_update :: "db \<Rightarrow> (work_item \<Rightarrow> bool) \<Rightarrow> work_item list" where
  "by_update st P = sort_key wi_updated_at (filter P (t_work_items (proj st)))"

definition scribeCandidates :: "db \<Rightarrow> work_item list" where
  "scribeCandidates st = by_update st (\<lambda>w. wi_state w \<in> set [WorkItemCaptured, WorkItemTriaged] \<and>
     wi_human_review w \<noteq> HumanReviewBlocked \<and> wi_checks w = [])"

definition scribeChildTitle :: "string \<Rightarrow> string" where
  "scribeChildTitle parentTitle =
     (let title = ''Define convergence for: '' @ trim_space parentTitle in
      if length title \<le> 120 then title else trim_space (take 117 title) @ ''...'')"

definition newline :: string where "newline = [CHR 0x0A]"

definition parent_lines :: "ext \<Rightarrow> work_item \<Rightarrow> string" where
  "parent_lines E w = ''Parent work_item: '' @ uuid_string E (wi_id w) @ newline @
     ''Parent state: '' @ wi_state w @ newline @ ''Parent title: '' @ trim_space (wi_title w) @ newline"

definition scribeChildBody :: "ext \<Rightarrow> work_item \<Rightarrow> string \<Rightarrow> string" where
  "scribeChildBody E w cultivar =
     (let body0 = trim_space (wi_body w);
          body = (if length body0 > 1200 then trim_space (take 1200 body0) @ ''...'' else body0);
          contract = JObj [
            (''checks'', jstrs [''cmd:<deterministic command>'', ''event:<event kind>'', ScribeChildCheck,
               ''human-ack:<owner decision>'']),
            (''classes'', jstrs [''machine'', ''human'']), (''cultivar'', JStr cultivar),
            (''endpoint'', JStr (''/v1/work-items/'' @ uuid_string E (wi_id w) @ ''/convergence-proposal'')),
            (''event'', JStr EventConvergenceChecksProposed),
            (''proposal_of'', juid E (ScribeChildID E (wi_id w)))]
      in parent_lines E w @ ''Parent body excerpt:'' @ newline @ body @ newline @ newline @
         ''Proposal contract: '' @ print_json contract)"

definition child_input :: "worker \<Rightarrow> string \<Rightarrow> string \<Rightarrow> string \<Rightarrow> string \<Rightarrow> create_input" where
  "child_input W title body check cultivar =
     \<lparr>ci_title = title, ci_body = body, ci_actor = worker_token W, ci_state = WorkItemTriaged,
      ci_checks = [check], ci_human_review = HumanReviewWavedThrough, ci_cultivar = cultivar,
      ci_patience_seconds = 0, ci_escalation_rule = []\<rparr>"

definition spawn_step ::
  "ext \<Rightarrow> (db \<Rightarrow> time) \<Rightarrow> (uuid \<Rightarrow> uuid) \<Rightarrow> (work_item \<Rightarrow> db \<Rightarrow> err + create_input) \<Rightarrow> work_item \<Rightarrow>
   spawn_result \<Rightarrow> db \<Rightarrow> spawn_result pass"
where
  "spawn_step E clk childID inp w r st =
     (case inp w st of
        Inl e \<Rightarrow> (r, Some e, st)
      | Inr i \<Rightarrow>
          (case SpawnChildWithID E (clk st) st (wi_id w) (childID (wi_id w)) i of
             (Inl e, st') \<Rightarrow> (r, Some e, st')
           | (Inr (_, fresh), st') \<Rightarrow>
               (if fresh then r\<lparr>sp_spawned := sp_spawned r + 1\<rparr>
                else r\<lparr>sp_present := sp_present r + 1\<rparr>, None, st')))"

text \<open>A name resolves to the reference of its latest version.\<close>

definition resolve_cultivar :: "db \<Rightarrow> string \<Rightarrow> err + string" where
  "resolve_cultivar st name = map_sum id cultivar_ref (GetCultivar (proj st) name)"

definition scanScribes :: "ext \<Rightarrow> (db \<Rightarrow> time) \<Rightarrow> worker \<Rightarrow> db \<Rightarrow> spawn_result pass" where
  "scanScribes E clk W st =
     (let candidates = scribeCandidates st;
          present = filter (\<lambda>w. childRelationExists (proj st) (wi_id w) (ScribeChildID E (wi_id w))) candidates;
          pending = filter (\<lambda>w. \<not> childRelationExists (proj st) (wi_id w) (ScribeChildID E (wi_id w))) candidates;
          r = \<lparr>sp_scanned = int (length candidates), sp_spawned = 0, sp_present = int (length present)\<rparr>
      in if pending = [] then (r, None, st)
         else case resolve_cultivar st scribeCultivarName of
           Inl e \<Rightarrow> (r, Some e, st)
         | Inr cultivar \<Rightarrow>
             for_each (spawn_step E clk (ScribeChildID E) (\<lambda>w _. Inr (child_input W (scribeChildTitle (wi_title w))
               (scribeChildBody E w cultivar) ScribeChildCheck cultivar))) pending r st)"

section \<open>Reviewers\<close>

definition reviewerCultivarName :: string where "reviewerCultivarName = ''reviewer''"
definition reviewChildCheck :: string where "reviewChildCheck = ''event:review.verdict_recorded''"
definition implementation_ready :: string where "implementation_ready = ''coordination.implementation_ready''"

definition reviewChildID :: "ext \<Rightarrow> uuid \<Rightarrow> uuid" where
  "reviewChildID E parentID = uuid_sha1 E NameSpaceURL (uuid_string E parentID @ ''|reviewer|v1'')"

definition is_array :: "json \<Rightarrow> bool" where
  "is_array j \<longleftrightarrow> (case j of JArr _ \<Rightarrow> True | _ \<Rightarrow> False)"

definition review_marker :: "uuid \<Rightarrow> event \<Rightarrow> bool" where
  "review_marker wid e \<longleftrightarrow> is_event SubjectWorkItem wid EventWorkItemEventAppended e \<and>
     (jtext (ev_payload e) ''inner_kind'' = Some implementation_ready \<or>
      is_array (jget (jget (ev_payload e) ''inner'') ''commits'') \<or> is_array (jget (ev_payload e) ''commits''))"

text \<open>split_part(s, '@', 1)\<close>

definition before_at :: "string \<Rightarrow> string" where
  "before_at s = (case cut CHR ''@'' s of None \<Rightarrow> s | Some (a, _) \<Rightarrow> a)"

definition reviewCandidates :: "db \<Rightarrow> work_item list" where
  "reviewCandidates st = by_update st (\<lambda>w. wi_state w = WorkItemDone \<and> wi_human_review w \<noteq> HumanReviewBlocked \<and>
     list_ex (review_marker (wi_id w)) (log st) \<and>
     \<not> list_ex (\<lambda>e. is_event SubjectWorkItem (wi_id w) EventWorkItemCreated e \<and>
         map_option before_at (jtext (ev_payload e) ''cultivar'') = Some reviewerCultivarName) (log st))"

fun numbers :: "json \<Rightarrow> string list" where
  "numbers (JNum t) = [t]"
| "numbers (JArr js) = concat (map numbers js)"
| "numbers (JObj kvs) = concat (map (\<lambda>kv. numbers (snd kv)) kvs)"
| "numbers _ = []"

text \<open>Whether a value can be decoded into an interface value.\<close>

definition floats_ok :: "(string \<Rightarrow> string option) \<Rightarrow> json \<Rightarrow> bool" where
  "floats_ok fl j \<longleftrightarrow> list_all (\<lambda>t. fl t \<noteq> None) (numbers j)"

definition compactCommitRefs :: "string list \<Rightarrow> string list" where
  "compactCommitRefs xs = filter (\<lambda>s. s \<noteq> []) (map trim_space xs)"

definition commit_ref :: "json \<Rightarrow> string list" where
  "commit_ref j = (case j of
     JStr s \<Rightarrow> [s]
   | JObj kvs \<Rightarrow> take 1 (concat (map (\<lambda>k. case jget j k of JStr s \<Rightarrow> [s] | _ \<Rightarrow> [])
       [''sha'', ''commit'', ''hash'', ''ref'']))
   | _ \<Rightarrow> [])"

definition commitRefsFromRaw :: "(string \<Rightarrow> string option) \<Rightarrow> json \<Rightarrow> string list" where
  "commitRefsFromRaw fl raw = (case jstrings raw of
     Inr values \<Rightarrow> compactCommitRefs values
   | Inl _ \<Rightarrow> (case raw of
       JArr js \<Rightarrow> if floats_ok fl raw then compactCommitRefs (concat (map commit_ref js)) else []
     | _ \<Rightarrow> []))"

definition single_commit :: "string \<Rightarrow> string list" where
  "single_commit commit = (if trim_space commit \<noteq> [] then [trim_space commit] else [])"

text \<open>The commits that one marker names, in the order in which they are looked up.\<close>

definition marker_commits :: "(string \<Rightarrow> string option) \<Rightarrow> json \<Rightarrow> err + string list" where
  "marker_commits fl payload =
     bind_err (guard_err (jobject payload) ErrDecode) (\<lambda>_.
     bind_err (jstring (jget payload ''inner_kind'')) (\<lambda>_.
     bind_err (jstring (jget payload ''commit'')) (\<lambda>commit.
     Inr (commitRefsFromRaw fl (jget payload ''commits'') @ single_commit commit @
       (let inner = jget payload ''inner'' in
        if \<not> jobject inner then []
        else case jstring (jget inner ''commit'') of
          Inl _ \<Rightarrow> []
        | Inr c \<Rightarrow> commitRefsFromRaw fl (jget inner ''commits'') @ single_commit c)))))"

fun collect_commits :: "(string \<Rightarrow> string option) \<Rightarrow> json list \<Rightarrow> string list \<Rightarrow> err + string list" where
  "collect_commits fl [] seen = Inr seen"
| "collect_commits fl (p # ps) seen =
     bind_err (marker_commits fl p) (\<lambda>cs.
     collect_commits fl ps (fold (\<lambda>c acc. if c \<in> set acc then acc else acc @ [c]) cs seen))"

definition reviewEvidence :: "(string \<Rightarrow> string option) \<Rightarrow> db \<Rightarrow> uuid \<Rightarrow> err + bool \<times> string list" where
  "reviewEvidence fl st wid =
     (let ps = map ev_payload (sort_key ev_occurred_at (filter (review_marker wid) (log st))) in
      bind_err (collect_commits fl ps []) (\<lambda>commits.
      Inr (list_ex (\<lambda>p. jget p ''inner_kind'' = JStr implementation_ready) ps, commits)))"

text \<open>utf8.RuneStart: not a continuation byte.\<close>

definition rune_start :: "char \<Rightarrow> bool" where
  "rune_start c \<longleftrightarrow> (of_char c :: nat) div 64 \<noteq> 2"

fun rune_cut :: "string \<Rightarrow> nat \<Rightarrow> nat" where
  "rune_cut s 0 = 0"
| "rune_cut s (Suc n) = (if rune_start (s ! Suc n) then Suc n else rune_cut s n)"

definition truncateRuneSafe :: "string \<Rightarrow> nat \<Rightarrow> string" where
  "truncateRuneSafe s n = (if length s \<le> n then s else take (rune_cut s n) s)"

definition reviewChildTitle :: "string \<Rightarrow> string" where
  "reviewChildTitle parentTitle =
     (let title = ''Review implementation: '' @ trim_space parentTitle in
      if length title \<le> 120 then title else trim_space (truncateRuneSafe title 117) @ ''...'')"

definition reviewChildBody :: "ext \<Rightarrow> work_item \<Rightarrow> bool \<times> string list \<Rightarrow> string \<Rightarrow> string" where
  "reviewChildBody E w evidence cultivar =
     (let body0 = trim_space (wi_body w);
          body = (if length body0 > 1200 then trim_space (truncateRuneSafe body0 1200) @ ''...'' else body0);
          commits = (if snd evidence = [] then [''<not provided; inspect implementation_ready evidence>'']
            else snd evidence);
          contract = JObj [(''check_signal'', JObj [(''pass'', JBool True)]),
            (''check_signal_kind'', JStr (''checklist.item:'' @ reviewChildCheck)), (''cultivar'', JStr cultivar),
            (''parent_work_item_id'', juid E (wi_id w)), (''review_child_id'', juid E (reviewChildID E (wi_id w))),
            (''verdict_inner_kind'', JStr ''review.verdict_recorded''),
            (''verdicts'', jstrs [''accepted'', ''accepted_with_finding'', ''blocking_finding''])]
      in parent_lines E w @ ''Implementation marker present: '' @ (if fst evidence then ''true'' else ''false'') @
         newline @ ''Commit refs: '' @ join '', '' commits @ newline @ ''Parent body excerpt:'' @ newline @ body @
         newline @ newline @ ''Review contract: '' @ print_json contract)"

definition scanReviews :: "ext \<Rightarrow> (string \<Rightarrow> string option) \<Rightarrow> (db \<Rightarrow> time) \<Rightarrow> worker \<Rightarrow> db \<Rightarrow> spawn_result pass" where
  "scanReviews E fl clk W st =
     (let candidates = reviewCandidates st;
          present = filter (\<lambda>w. childRelationExists (proj st) (wi_id w) (reviewChildID E (wi_id w))) candidates;
          pending = filter (\<lambda>w. \<not> childRelationExists (proj st) (wi_id w) (reviewChildID E (wi_id w))) candidates;
          r = \<lparr>sp_scanned = int (length candidates), sp_spawned = 0, sp_present = int (length present)\<rparr>
      in if pending = [] then (r, None, st)
         else case resolve_cultivar st reviewerCultivarName of
           Inl e \<Rightarrow> (r, Some e, st)
         | Inr cultivar \<Rightarrow>
             for_each (spawn_step E clk (reviewChildID E) (\<lambda>w st1.
               bind_err (reviewEvidence fl st1 (wi_id w)) (\<lambda>evidence.
               Inr (child_input W (reviewChildTitle (wi_title w)) (reviewChildBody E w evidence cultivar)
                 reviewChildCheck cultivar)))) pending r st)"

section \<open>Dispatch\<close>

record dispatch_candidate =
  dc_id :: uuid
  dc_state :: string
  dc_entered :: time
  dc_cultivar :: string

record dispatch_result =
  dr_scanned :: int
  dr_requested :: int
  dr_already :: int
  dr_missing :: int

definition defaultDispatchCultivarName :: string where "defaultDispatchCultivarName = ''checklist-worker''"
definition dispatchReasonAgentAttentionRequested :: string where
  "dispatchReasonAgentAttentionRequested = ''agent_attention_requested''"

definition dispatchCultivarFromCreatedPayload :: "json option \<Rightarrow> string" where
  "dispatchCultivarFromCreatedPayload raw = (case raw of
     None \<Rightarrow> []
   | Some p \<Rightarrow> if \<not> jobject p then []
       else (case jstring (jget p ''cultivar'') of Inl _ \<Rightarrow> [] | Inr c \<Rightarrow> trim_space c))"

definition dispatchCandidates :: "db \<Rightarrow> dispatch_candidate list" where
  "dispatchCandidates st =
     concat (map (\<lambda>w. map (\<lambda>p. \<lparr>dc_id = wi_id w, dc_state = wi_state w, dc_entered = wi_state_entered_at w,
         dc_cultivar = dispatchCultivarFromCreatedPayload p\<rparr>) (created_payloads st (wi_id w)))
       (by_update st (\<lambda>w. wi_state w \<in> set [WorkItemCaptured, WorkItemTriaged, WorkItemPlanned] \<and>
          wi_human_review w \<noteq> HumanReviewBlocked \<and> wi_checks w \<noteq> [])))"

definition dispatch_json :: "ext \<Rightarrow> dispatch_candidate \<Rightarrow> string \<Rightarrow> string \<Rightarrow> json" where
  "dispatch_json E c cultivar reason =
     JObj [(''work_item_id'', juid E (dc_id c)), (''state'', JStr (dc_state c)),
       (''state_entered_at_unix'', jint (unix (dc_entered c))), (''cultivar'', JStr cultivar),
       (''reason'', JStr reason), (''source_reconciler_pass'', JStr ''dispatch'')]"

definition appendDispatch ::
  "ext \<Rightarrow> (db \<Rightarrow> time) \<Rightarrow> worker \<Rightarrow> dispatch_candidate \<Rightarrow> string \<Rightarrow> string \<Rightarrow> db \<Rightarrow> bool outcome"
where
  "appendDispatch E clk W c cultivar reason st = rollback st
     (bind_err (app_append E (clk st) st (worker_spec W (dc_id c) EventDispatchRequested
        (dispatch_json E c cultivar reason))) (\<lambda>(_, fresh, st'). Inr (Inr fresh, st')))"

definition resolveDispatchCultivar :: "db \<Rightarrow> err + string" where
  "resolveDispatchCultivar st = resolve_cultivar st defaultDispatchCultivarName"

text \<open>The default cultivar is looked up once; an empty string stands for not yet.\<close>

definition dispatch_step ::
  "ext \<Rightarrow> (db \<Rightarrow> time) \<Rightarrow> worker \<Rightarrow> dispatch_candidate \<Rightarrow> dispatch_result \<times> string \<Rightarrow> db \<Rightarrow>
   (dispatch_result \<times> string) pass"
where
  "dispatch_step E clk W c rd st =
     (let (r, default) = rd;
          own = trim_space (dc_cultivar c) in
      case (if own \<noteq> [] then Inr (own, default)
            else if default \<noteq> [] then Inr (default, default)
            else map_sum id (\<lambda>d. (d, d)) (resolveDispatchCultivar st)) of
        Inl e \<Rightarrow> ((r\<lparr>dr_missing := dr_missing r + 1\<rparr>, default), Some e, st)
      | Inr (cultivar, default') \<Rightarrow>
          (case appendDispatch E clk W c cultivar dispatchReasonAgentAttentionRequested st of
             (Inl e, st') \<Rightarrow> ((r, default'), Some e, st')
           | (Inr fresh, st') \<Rightarrow>
               ((if fresh then r\<lparr>dr_requested := dr_requested r + 1\<rparr>
                 else r\<lparr>dr_already := dr_already r + 1\<rparr>, default'), None, st')))"

definition scanDispatch :: "ext \<Rightarrow> (db \<Rightarrow> time) \<Rightarrow> worker \<Rightarrow> db \<Rightarrow> dispatch_result pass" where
  "scanDispatch E clk W st =
     (let candidates = dispatchCandidates st;
          r = \<lparr>dr_scanned = int (length candidates), dr_requested = 0, dr_already = 0, dr_missing = 0\<rparr>
      in case for_each (dispatch_step E clk W) candidates (r, []) st of
           ((r', _), e, st') \<Rightarrow> (r', e, st'))"

section \<open>Convergence\<close>

record convergence_result =
  cr_scanned :: int
  cr_recorded :: int
  cr_already :: int
  cr_stale :: int
  cr_accepts :: int
  cr_retries :: int
  cr_escalations :: int

record convergence_decision =
  cd_append :: bool
  cd_stale :: bool
  cd_outcome :: string
  cd_attempt :: int
  cd_escalation :: string
  cd_verdict :: verdict

definition defaultConvergenceBudget :: budget where
  "defaultConvergenceBudget = \<lparr>bu_max_attempts = 3, bu_escalation = EscalateHandToHuman\<rparr>"

definition convergenceCandidates :: "db \<Rightarrow> (uuid \<times> string list) list" where
  "convergenceCandidates st = map (\<lambda>w. (wi_id w, wi_checks w))
     (filter (\<lambda>w. wi_checks w \<noteq> []) (by_update st (\<lambda>w. wi_state w = WorkItemRunning)))"

definition parsePass :: "json \<Rightarrow> bool option" where
  "parsePass p = (case jget p ''pass'' of JBool b \<Rightarrow> Some b | _ \<Rightarrow> None)"

definition parseScore :: "(string \<Rightarrow> string option) \<Rightarrow> json \<Rightarrow> string option" where
  "parseScore fl p = (case jget p ''score'' of JNum t \<Rightarrow> fl t | _ \<Rightarrow> None)"

definition parse_text :: "json \<Rightarrow> string \<Rightarrow> string" where
  "parse_text p k = (case jget p k of JStr s \<Rightarrow> trim_space s | _ \<Rightarrow> [])"

definition parseSignalRaw :: "json \<Rightarrow> string" where
  "parseSignalRaw p = parse_text p ''raw''"

text \<open>A signal with its source, if the payload reads as one.\<close>

definition toConvergenceSignal :: "(string \<Rightarrow> string option) \<Rightarrow> string \<Rightarrow> json \<Rightarrow> signal option" where
  "toConvergenceSignal fl kind p =
     (if parsePass p = None \<and> parseScore fl p = None \<and> parseSignalRaw p = [] then None
      else Some \<lparr>sg_kind = kind, sg_model = parse_text p ''model'',
        sg_prompt_version = parse_text p ''prompt_version'', sg_sample_id = parse_text p ''sample_id'',
        sg_pass = parsePass p, sg_score = parseScore fl p, sg_raw = parseSignalRaw p\<rparr>)"

definition toConvergenceSignalFromSignalRow ::
  "(string \<Rightarrow> string option) \<Rightarrow> string \<Rightarrow> string \<Rightarrow> json \<Rightarrow> signal option"
where
  "toConvergenceSignalFromSignalRow fl kind source p =
     (if kind = [] then None
      else if parsePass p = None \<and> parseScore fl p = None \<and> parseSignalRaw p = [] \<and> source = [] then None
      else Some \<lparr>sg_kind = kind, sg_model = source, sg_prompt_version = [], sg_sample_id = [],
        sg_pass = parsePass p, sg_score = parseScore fl p, sg_raw = parseSignalRaw p\<rparr>)"

text \<open>json.Unmarshal into a map[string]any; null leaves the nil map.\<close>

definition decode_map :: "(string \<Rightarrow> string option) \<Rightarrow> json \<Rightarrow> err + json" where
  "decode_map fl j = (if jobject j \<and> floats_ok fl j then Inr j else Inl ErrDecode)"

definition appended_signal :: "(string \<Rightarrow> string option) \<Rightarrow> event \<Rightarrow> err + signal option" where
  "appended_signal fl e =
     bind_err (guard_err (jobject (ev_payload e)) ErrDecode) (\<lambda>_.
     bind_err (jstring (jget (ev_payload e) ''inner_kind'')) (\<lambda>kind.
     bind_err (decode_map fl (jget (ev_payload e) ''inner'')) (\<lambda>inner.
     Inr (if kind = [] \<or> inner = JNull then None else toConvergenceSignal fl kind inner))))"

definition row_signal :: "(string \<Rightarrow> string option) \<Rightarrow> signal_row \<Rightarrow> err + signal option" where
  "row_signal fl r = bind_err (decode_map fl (sr_work_spec r)) (\<lambda>p.
     Inr (toConvergenceSignalFromSignalRow fl (sr_kind r) (sr_source r) p))"

fun collect_signals :: "('a \<Rightarrow> err + signal option) \<Rightarrow> 'a list \<Rightarrow> err + signal list" where
  "collect_signals f [] = Inr []"
| "collect_signals f (x # xs) =
     bind_err (f x) (\<lambda>s. bind_err (collect_signals f xs) (\<lambda>ss.
     Inr (case s of None \<Rightarrow> ss | Some s \<Rightarrow> s # ss)))"

definition convergenceSignalsFromEventAppended ::
  "(string \<Rightarrow> string option) \<Rightarrow> db \<Rightarrow> uuid \<Rightarrow> err + signal list" where
  "convergenceSignalsFromEventAppended fl st wid = collect_signals (appended_signal fl)
     (sort_key ev_occurred_at (filter (is_event SubjectWorkItem wid EventWorkItemEventAppended) (log st)))"

definition convergenceSignalsFromSignalsTable ::
  "(string \<Rightarrow> string option) \<Rightarrow> db \<Rightarrow> uuid \<Rightarrow> err + signal list" where
  "convergenceSignalsFromSignalsTable fl st wid = collect_signals (row_signal fl)
     (sort_key sr_received_at (filter (\<lambda>r. sr_work_item r = Some wid) (t_signals (proj st))))"

definition evaluateBuiltinQueryCheck :: "db \<Rightarrow> uuid \<Rightarrow> string \<Rightarrow> bool" where
  "evaluateBuiltinQueryCheck st wid name \<longleftrightarrow> name = ''parent_checks_defined'' \<and>
     list_ex (\<lambda>r. rel_child r = wid \<and> (case get_row wi_id (rel_parent r) (t_work_items (proj st)) of
       None \<Rightarrow> False | Some parent \<Rightarrow> wi_checks parent \<noteq> [])) (t_relations (proj st))"

definition convergenceSignalsFromBuiltinQueries :: "db \<Rightarrow> uuid \<Rightarrow> string list \<Rightarrow> signal list" where
  "convergenceSignalsFromBuiltinQueries st wid checks =
     map (\<lambda>check. \<lparr>sg_kind = ''checklist.item:'' @ check, sg_model = [], sg_prompt_version = [],
         sg_sample_id = [], sg_pass = Some (evaluateBuiltinQueryCheck st wid (trim_prefix check ''query:'')),
         sg_score = None, sg_raw = []\<rparr>)
       (filter (\<lambda>check. has_prefix check ''query:'' \<and> KnownQueryCheck (trim_prefix check ''query:'')) checks)"

definition convergenceSignalsForItem ::
  "(string \<Rightarrow> string option) \<Rightarrow> db \<Rightarrow> uuid \<Rightarrow> string list \<Rightarrow> err + signal list" where
  "convergenceSignalsForItem fl st wid checks =
     bind_err (convergenceSignalsFromEventAppended fl st wid) (\<lambda>a.
     bind_err (convergenceSignalsFromSignalsTable fl st wid) (\<lambda>b.
     Inr (a @ b @ convergenceSignalsFromBuiltinQueries st wid checks)))"

definition decideConvergenceStep :: "verdict_record option \<Rightarrow> reduction \<Rightarrow> budget \<Rightarrow> convergence_decision" where
  "decideConvergenceStep prev current budget =
     (let fresh = (case budget_next budget (rd_verdict current) (rd_attempt current) of (outcome, rule) \<Rightarrow>
            \<lparr>cd_append = True, cd_stale = False, cd_outcome = outcome, cd_attempt = rd_attempt current,
             cd_escalation = rule, cd_verdict = rd_verdict current\<rparr>) in
      case prev of
        None \<Rightarrow> fresh
      | Some l \<Rightarrow>
          if vr_digest l = rd_digest current
          then (case budget_next budget (vr_verdict l) (vr_attempt l) of (outcome, rule) \<Rightarrow>
            if outcome = OutcomeRetry
            then \<lparr>cd_append = False, cd_stale = True, cd_outcome = outcome, cd_attempt = vr_attempt l,
              cd_escalation = [], cd_verdict = vr_verdict l\<rparr>
            else \<lparr>cd_append = False, cd_stale = False, cd_outcome = outcome, cd_attempt = vr_attempt l,
              cd_escalation = rule, cd_verdict = vr_verdict l\<rparr>)
          else fresh)"

definition escalationReason :: "int \<Rightarrow> string \<Rightarrow> string" where
  "escalationReason attempt reason =
     (if reason = [] then ''convergence escalated at attempt '' @ itoa attempt @ '' after bounded budget exhaustion''
      else ''convergence escalated at attempt '' @ itoa attempt @ '' ('' @ reason @ '')'')"

definition convergenceReason :: "string \<Rightarrow> int \<Rightarrow> string \<Rightarrow> string" where
  "convergenceReason kind attempt reason =
     (if reason \<noteq> [] then ''convergence '' @ kind @ '' attempt '' @ itoa attempt @ '': '' @ reason
      else ''convergence '' @ kind @ '' attempt '' @ itoa attempt)"

definition shouldIgnoreConvergenceTransitionError :: "err \<Rightarrow> bool" where
  "shouldIgnoreConvergenceTransitionError e \<longleftrightarrow>
     err_is e (sentinel ErrNotFound) \<or> str_contains (err_message e) ''invalid transition from''"

definition emitConvergenceVerdict ::
  "ext \<Rightarrow> (db \<Rightarrow> time) \<Rightarrow> worker \<Rightarrow> uuid \<Rightarrow> reduction \<Rightarrow> db \<Rightarrow> bool outcome"
where
  "emitConvergenceVerdict E clk W wid red st = rollback st
     (bind_err (AppendVerdict E (NewProjectionRegistry E) (clk st) st SourceSystem (Some (wk_actor W)) wid red)
       (\<lambda>(_, fresh, st'). Inr (Inr fresh, st')))"

definition setBlockedForConvergence ::
  "ext \<Rightarrow> (db \<Rightarrow> time) \<Rightarrow> worker \<Rightarrow> uuid \<Rightarrow> string list \<Rightarrow> db \<Rightarrow> work_item outcome"
where
  "setBlockedForConvergence E clk W wid checks st =
     UpdateMetadata E (clk st) st [] wid checks HumanReviewBlocked (worker_token W)"

definition escalateConvergence ::
  "ext \<Rightarrow> (db \<Rightarrow> time) \<Rightarrow> worker \<Rightarrow> uuid \<Rightarrow> string list \<Rightarrow> int \<Rightarrow> string \<Rightarrow> string \<Rightarrow> db \<Rightarrow> work_item outcome"
where
  "escalateConvergence E clk W wid checks attempt rule verdictReason st =
     (let reason = escalationReason attempt verdictReason in
      if rule = EscalateFail
      then Transition E (clk st) st [] wid WorkItemFailed reason (worker_token W)
      else if rule = EscalateHandToHuman \<or> rule = EscalateRequestApproval
      then (case setBlockedForConvergence E clk W wid checks st of
          (Inl e, st1) \<Rightarrow> (Inl e, st1)
        | (Inr _, st1) \<Rightarrow> Transition E (clk st1) st1 [] wid WorkItemBlocked reason (worker_token W))
      else (Inl (Err [] (''unsupported escalation rule '' @ quote rule @ '' for '' @ uuid_string E wid)), st))"

definition latestConvergenceVerdict :: "db \<Rightarrow> uuid \<Rightarrow> reducer \<Rightarrow> verdict_record option" where
  "latestConvergenceVerdict st wid r = latest_verdict st wid r"

text \<open>An outcome that fails is ignored when the item has moved or gone meanwhile.\<close>

definition settle_outcome ::
  "(convergence_result \<Rightarrow> convergence_result) \<Rightarrow> convergence_result \<Rightarrow> work_item outcome \<Rightarrow>
   convergence_result pass"
where
  "settle_outcome tally r out = (case out of
     (Inr _, st) \<Rightarrow> (tally r, None, st)
   | (Inl e, st) \<Rightarrow> (r, if shouldIgnoreConvergenceTransitionError e then None else Some e, st))"

definition act_on_decision ::
  "ext \<Rightarrow> (db \<Rightarrow> time) \<Rightarrow> worker \<Rightarrow> uuid \<Rightarrow> string list \<Rightarrow> convergence_decision \<Rightarrow> convergence_result \<Rightarrow> db \<Rightarrow>
   convergence_result pass"
where
  "act_on_decision E clk W wid checks d r st =
     (if cd_outcome d = OutcomeAccept then
        settle_outcome (\<lambda>r. r\<lparr>cr_accepts := cr_accepts r + 1\<rparr>) r
          (Transition E (clk st) st [] wid WorkItemDone
            (convergenceReason ''accept'' (cd_attempt d) (vd_reason (cd_verdict d))) (worker_token W))
      else if cd_outcome d = OutcomeRetry then (r\<lparr>cr_retries := cr_retries r + 1\<rparr>, None, st)
      else if cd_outcome d = OutcomeEscalate then
        settle_outcome (\<lambda>r. r\<lparr>cr_escalations := cr_escalations r + 1\<rparr>) r
          (escalateConvergence E clk W wid checks (cd_attempt d) (cd_escalation d) (vd_reason (cd_verdict d)) st)
      else (r, None, st))"

definition convergence_step ::
  "ext \<Rightarrow> (string \<Rightarrow> string option) \<Rightarrow> (db \<Rightarrow> time) \<Rightarrow> worker \<Rightarrow> uuid \<times> string list \<Rightarrow> convergence_result \<Rightarrow> db \<Rightarrow>
   convergence_result pass"
where
  "convergence_step E fl clk W c r st =
     (let (wid, checks) = c; reducer = AllPassChecklist checks;
          prev = latestConvergenceVerdict st wid reducer in
      case bind_err (convergenceSignalsForItem fl st wid checks)
             (\<lambda>sigs. Run E reducer sigs (next_attempt prev)) of
        Inl e \<Rightarrow> (r, Some e, st)
      | Inr red \<Rightarrow>
          let d = decideConvergenceStep prev red defaultConvergenceBudget in
          if cd_stale d then (r\<lparr>cr_stale := cr_stale r + 1\<rparr>, None, st)
          else if cd_append d then
            (case emitConvergenceVerdict E clk W wid red st of
               (Inl e, st1) \<Rightarrow> (r, Some e, st1)
             | (Inr fresh, st1) \<Rightarrow> act_on_decision E clk W wid checks d
                 (if fresh then r\<lparr>cr_recorded := cr_recorded r + 1\<rparr> else r\<lparr>cr_already := cr_already r + 1\<rparr>) st1)
          else act_on_decision E clk W wid checks d r st)"

definition scanConvergence ::
  "ext \<Rightarrow> (string \<Rightarrow> string option) \<Rightarrow> (db \<Rightarrow> time) \<Rightarrow> worker \<Rightarrow> db \<Rightarrow> convergence_result pass"
where
  "scanConvergence E fl clk W st =
     (let r0 = \<lparr>cr_scanned = 0, cr_recorded = 0, cr_already = 0, cr_stale = 0, cr_accepts = 0,
            cr_retries = 0, cr_escalations = 0\<rparr> in
      case budget_validate defaultConvergenceBudget of
        Some e \<Rightarrow> (r0, Some e, st)
      | None \<Rightarrow>
          let candidates = convergenceCandidates st in
          for_each (convergence_step E fl clk W) candidates
            (r0\<lparr>cr_scanned := int (length candidates)\<rparr>) st)"

section \<open>Patience\<close>

record candidate_item =
  bc_id :: uuid
  bc_state :: string
  bc_entered :: time
  bc_review :: string
  bc_budget :: time
  bc_source :: string
  bc_rule :: string
  bc_cultivar :: string

record breach =
  br_candidate :: candidate_item
  br_budget :: time
  br_age :: time

definition DefaultBudgets :: "(string \<times> time) list" where
  "DefaultBudgets = po_patience DefaultPolicy"

text \<open>The check of New, over the budgets in the order in which the map is walked.\<close>

definition budget_complaint :: "string \<times> time \<Rightarrow> err option" where
  "budget_complaint sd =
     (let (state, dur) = sd in
      if \<not> state_valid state then Some (Err [] (''worker: budget for unknown state '' @ quote state))
      else if state_terminal state
        then Some (Err [] (''worker: budget for terminal state '' @ quote state @ '' is meaningless''))
      else if dur < 0 then Some (Err [] (''worker: negative budget for state '' @ quote state))
      else None)"

definition validate_budgets :: "(string \<times> time) list \<Rightarrow> err option" where
  "validate_budgets budgets = first_complaint budget_complaint budgets"

definition NewWorker :: "uuid option \<Rightarrow> (string \<times> time) list \<Rightarrow> err + worker" where
  "NewWorker actor budgets = (case actor of
     None \<Rightarrow> Inl (Err [] ''worker: system actor token id is required'')
   | Some a \<Rightarrow>
       if a = uuid_nil then Inl (Err [] ''worker: system actor token id is required'')
       else (case validate_budgets budgets of
         Some e \<Rightarrow> Inl e
       | None \<Rightarrow> Inr \<lparr>wk_actor = a, wk_budgets = budgets\<rparr>))"

definition capPatienceBudgetSeconds :: "int \<Rightarrow> time" where
  "capPatienceBudgetSeconds seconds =
     (if seconds > MaxPatienceBudget div second then MaxPatienceBudget else seconds * second)"

record patience =
  pa_budget :: time
  pa_source :: string
  pa_rule :: string
  pa_cultivar :: string

definition decodeLaunchMetadata :: "json \<Rightarrow> err + string \<times> int \<times> string" where
  "decodeLaunchMetadata raw =
     bind_err (guard_err (jobject raw) ErrDecode) (\<lambda>_.
     bind_err (jstring (jget raw ''cultivar'')) (\<lambda>cultivar.
     bind_err (jinteger (jget raw ''patience_budget_seconds'')) (\<lambda>seconds.
     bind_err (jstring (jget raw ''escalation_rule'')) (\<lambda>rule.
     Inr (trim_space cultivar, seconds, rule)))))"

definition resolvePatienceRule :: "worker \<Rightarrow> db \<Rightarrow> string \<Rightarrow> json \<Rightarrow> err + patience" where
  "resolvePatienceRule W st state raw =
     bind_err (decodeLaunchMetadata raw) (\<lambda>(ref, seconds, rule0).
     let rule = (if rule0 = [] then EscalationRuleHandToHuman else rule0) in
     bind_err (guard_err (escalation_rule_valid rule) (Err [] (''invalid escalation_rule '' @ quote rule))) (\<lambda>_.
     bind_err (guard_err (seconds \<ge> 0) (Err [] ''patience_budget_seconds must be >= 0'')) (\<lambda>_.
     if seconds > 0 then
       Inr \<lparr>pa_budget = capPatienceBudgetSeconds seconds, pa_source = ''item'', pa_rule = rule, pa_cultivar = ref\<rparr>
     else if ref \<noteq> [] \<and> state = WorkItemRunning then
       bind_err (GetCultivarRef st ref) (\<lambda>c.
       bind_err (guard_err (xy_max_wall_seconds (cu_xylem c) > 0)
         (Err [] (''cultivar '' @ cultivar_ref c @ '' has non-positive xylem.max_wall_seconds''))) (\<lambda>_.
       Inr \<lparr>pa_budget = capPatienceBudgetSeconds (xy_max_wall_seconds (cu_xylem c)), pa_source = ''cultivar'',
         pa_rule = rule, pa_cultivar = cultivar_ref c\<rparr>))
     else Inr \<lparr>pa_budget = map_int (wk_budgets W) state, pa_source = ''policy_profile'', pa_rule = rule,
       pa_cultivar = ref\<rparr>)))"

fun resolve_rows :: "worker \<Rightarrow> db \<Rightarrow> (work_item \<times> json) list \<Rightarrow> err + candidate_item list" where
  "resolve_rows W st [] = Inr []"
| "resolve_rows W st ((w, raw) # rows) =
     bind_err (resolvePatienceRule W st (wi_state w) raw) (\<lambda>p.
     bind_err (resolve_rows W st rows) (\<lambda>cs.
     Inr (\<lparr>bc_id = wi_id w, bc_state = wi_state w, bc_entered = wi_state_entered_at w,
       bc_review = wi_human_review w, bc_budget = pa_budget p, bc_source = pa_source p, bc_rule = pa_rule p,
       bc_cultivar = pa_cultivar p\<rparr> # cs)))"

text \<open>COALESCE(created.payload, '{}')\<close>

definition breach_rows :: "db \<Rightarrow> (work_item \<times> json) list" where
  "breach_rows st =
     concat (map (\<lambda>w. map (\<lambda>p. (w, case p of None \<Rightarrow> JObj [] | Some j \<Rightarrow> j)) (created_payloads st (wi_id w)))
       (sort_key wi_state_entered_at
         (filter (\<lambda>w. wi_state w \<in> set nonTerminalStates) (t_work_items (proj st)))))"

definition breachCandidates :: "worker \<Rightarrow> db \<Rightarrow> err + candidate_item list" where
  "breachCandidates W st = resolve_rows W st (breach_rows st)"

definition EvaluateBreaches :: "time \<Rightarrow> candidate_item list \<Rightarrow> breach list" where
  "EvaluateBreaches now cs =
     map (\<lambda>c. \<lparr>br_candidate = c, br_budget = bc_budget c, br_age = now - bc_entered c\<rparr>)
       (filter (\<lambda>c. \<not> bc_budget c \<le> 0 \<and> \<not> now - bc_entered c \<le> bc_budget c) cs)"

definition breach_json :: "breach \<Rightarrow> json" where
  "breach_json b = (let c = br_candidate b in
     JObj [(''state'', JStr (bc_state c)), (''budget_seconds'', jint (br_budget b div second)),
       (''budget_source'', JStr (bc_source c)), (''escalation_rule'', JStr (bc_rule c)),
       (''state_entered_at_unix'', jint (unix (bc_entered c))), (''cultivar'', JStr (bc_cultivar c))])"

definition breach_spec :: "worker \<Rightarrow> breach \<Rightarrow> spec" where
  "breach_spec W b = worker_spec W (bc_id (br_candidate b)) EventPatienceBreached (breach_json b)"

definition emitBreach :: "ext \<Rightarrow> (db \<Rightarrow> time) \<Rightarrow> worker \<Rightarrow> breach \<Rightarrow> db \<Rightarrow> bool outcome" where
  "emitBreach E clk W b st = rollback st
     (bind_err (app_append E (clk st) st (breach_spec W b)) (\<lambda>(_, fresh, st'). Inr (Inr fresh, st')))"

text \<open>time.Duration.String, for a budget, which is positive.\<close>

definition trim_zeros :: "string \<Rightarrow> string" where
  "trim_zeros ds = rev (dropWhile (\<lambda>c. c = CHR ''0'') (rev ds))"

definition pad_zeros :: "nat \<Rightarrow> string \<Rightarrow> string" where
  "pad_zeros n ds = replicate (n - length ds) CHR ''0'' @ ds"

definition fraction :: "int \<Rightarrow> nat \<Rightarrow> string" where
  "fraction v digits =
     (let ds = trim_zeros (pad_zeros digits (itoa v)) in if ds = [] then [] else CHR ''.'' # ds)"

definition duration_string :: "time \<Rightarrow> string" where
  "duration_string d =
     (if d = 0 then ''0s''
      else if d < microsecond then itoa d @ ''ns''
      else if d < 1000 * microsecond
        then itoa (d div microsecond) @ fraction (d mod microsecond) 3 @ [CHR 0xC2, CHR 0xB5, CHR ''s'']
      else if d < second
        then itoa (d div (1000 * microsecond)) @ fraction (d mod (1000 * microsecond)) 6 @ ''ms''
      else
        (if d < minute then [] else (if d < hour then [] else itoa (d div hour) @ ''h'') @
           itoa (d div minute mod 60) @ ''m'') @
        itoa (d div second mod 60) @ fraction (d mod second) 9 @ ''s'')"

definition patienceEscalationReason :: "breach \<Rightarrow> string" where
  "patienceEscalationReason b = (let c = br_candidate b in
     ''patience budget breached: state='' @ bc_state c @ '' budget_seconds='' @ itoa (br_budget b div second) @
     '' budget_source='' @ bc_source c @ '' escalation_rule='' @ bc_rule c @
     '' state_entered_at_unix='' @ itoa (unix (bc_entered c)))"

definition patienceEscalationSummary :: "breach \<Rightarrow> string" where
  "patienceEscalationSummary b = (let c = br_candidate b in
     ''Worker metronome observed state '' @ bc_state c @ '' past its '' @ duration_string (br_budget b) @
     '' patience budget ('' @ bc_source c @ ''). State epoch: state_entered_at_unix='' @
     itoa (unix (bc_entered c)) @ ''. Declared timeout rule: '' @ bc_rule c @ ''.'')"

definition escalateBreach :: "ext \<Rightarrow> (db \<Rightarrow> time) \<Rightarrow> worker \<Rightarrow> breach \<Rightarrow> db \<Rightarrow> bool outcome" where
  "escalateBreach E clk W b st =
     (if bc_rule (br_candidate b) \<noteq> EscalationRuleHandToHuman
      then (Inl (Err [] (''unknown escalation rule '' @ quote (bc_rule (br_candidate b)))), st)
      else case RequestEscalation E (clk st) st \<lparr>es_work_item = bc_id (br_candidate b),
          es_reason = patienceEscalationReason b, es_summary = patienceEscalationSummary b,
          es_actor = worker_token W\<rparr> of (r, st') \<Rightarrow> (map_sum id er_fresh r, st'))"

definition preClaimDispatchState :: "string \<Rightarrow> bool" where
  "preClaimDispatchState state \<longleftrightarrow> state \<in> set [WorkItemCaptured, WorkItemTriaged, WorkItemPlanned]"

definition isHumanAttentionCultivarRef :: "string \<Rightarrow> bool" where
  "isHumanAttentionCultivarRef ref \<longleftrightarrow> before_at (trim_space ref) = ''human-attention''"

definition shouldRoutePatienceBreachToDispatch :: "breach \<Rightarrow> bool" where
  "shouldRoutePatienceBreachToDispatch b \<longleftrightarrow>
     (let cultivar = trim_space (bc_cultivar (br_candidate b)) in
      preClaimDispatchState (bc_state (br_candidate b)) \<and> cultivar \<noteq> [] \<and>
      \<not> isHumanAttentionCultivarRef cultivar)"

definition breach_dispatch :: "breach \<Rightarrow> dispatch_candidate" where
  "breach_dispatch b = (let c = br_candidate b in
     \<lparr>dc_id = bc_id c, dc_state = bc_state c, dc_entered = bc_entered c,
      dc_cultivar = trim_space (bc_cultivar c)\<rparr>)"

definition dispatchPatienceBreach :: "ext \<Rightarrow> (db \<Rightarrow> time) \<Rightarrow> worker \<Rightarrow> breach \<Rightarrow> db \<Rightarrow> bool outcome" where
  "dispatchPatienceBreach E clk W b st =
     (let d = breach_dispatch b in
      if dc_cultivar d = [] then (Inl (Err [] ''dispatch patience breach: cultivar is required''), st)
      else appendDispatch E clk W d (dc_cultivar d) dispatchReasonAgentAttentionRequested st)"

section \<open>The scan\<close>

record breach_result =
  bk_scanned :: int
  bk_emitted :: int
  bk_already :: int
  bk_escalated :: int
  bk_escalated_already :: int
  bk_awaiting_human :: int
  bk_dispatched :: int
  bk_dispatched_already :: int

record scan_result =
  so_scribes :: spawn_result
  so_scribes_skipped :: bool
  so_reviews :: spawn_result
  so_reviews_skipped :: bool
  so_dispatch :: dispatch_result
  so_convergence :: convergence_result
  so_breaches :: breach_result

text \<open>One of two counters, by whether the effect was fresh.\<close>

definition tally_fresh ::
  "(breach_result \<Rightarrow> breach_result) \<Rightarrow> (breach_result \<Rightarrow> breach_result) \<Rightarrow> breach_result \<Rightarrow> bool outcome \<Rightarrow>
   breach_result pass"
where
  "tally_fresh new old r out = (case out of
     (Inl e, st) \<Rightarrow> (r, Some e, st)
   | (Inr fresh, st) \<Rightarrow> (if fresh then new r else old r, None, st))"

definition route_breach ::
  "ext \<Rightarrow> (db \<Rightarrow> time) \<Rightarrow> worker \<Rightarrow> breach \<Rightarrow> breach_result \<Rightarrow> db \<Rightarrow> breach_result pass"
where
  "route_breach E clk W b r st =
     (if bc_review (br_candidate b) = HumanReviewBlocked
      then (r\<lparr>bk_awaiting_human := bk_awaiting_human r + 1\<rparr>, None, st)
      else if shouldRoutePatienceBreachToDispatch b
      then tally_fresh (\<lambda>r. r\<lparr>bk_dispatched := bk_dispatched r + 1\<rparr>)
        (\<lambda>r. r\<lparr>bk_dispatched_already := bk_dispatched_already r + 1\<rparr>) r (dispatchPatienceBreach E clk W b st)
      else tally_fresh (\<lambda>r. r\<lparr>bk_escalated := bk_escalated r + 1\<rparr>)
        (\<lambda>r. r\<lparr>bk_escalated_already := bk_escalated_already r + 1\<rparr>) r (escalateBreach E clk W b st))"

definition breach_step ::
  "ext \<Rightarrow> (db \<Rightarrow> time) \<Rightarrow> worker \<Rightarrow> breach \<Rightarrow> breach_result \<Rightarrow> db \<Rightarrow> breach_result pass"
where
  "breach_step E clk W b r st =
     (case tally_fresh (\<lambda>r. r\<lparr>bk_emitted := bk_emitted r + 1\<rparr>)
          (\<lambda>r. r\<lparr>bk_already := bk_already r + 1\<rparr>) r (emitBreach E clk W b st) of
        (r1, Some e, st1) \<Rightarrow> (r1, Some e, st1)
      | (r1, None, st1) \<Rightarrow> route_breach E clk W b r1 st1)"

definition no_spawns :: spawn_result where
  "no_spawns = \<lparr>sp_scanned = 0, sp_spawned = 0, sp_present = 0\<rparr>"

definition no_convergence :: convergence_result where
  "no_convergence = \<lparr>cr_scanned = 0, cr_recorded = 0, cr_already = 0, cr_stale = 0, cr_accepts = 0,
     cr_retries = 0, cr_escalations = 0\<rparr>"

definition no_breaches :: breach_result where
  "no_breaches = \<lparr>bk_scanned = 0, bk_emitted = 0, bk_already = 0, bk_escalated = 0,
     bk_escalated_already = 0, bk_awaiting_human = 0, bk_dispatched = 0, bk_dispatched_already = 0\<rparr>"

definition empty_scan :: scan_result where
  "empty_scan = \<lparr>so_scribes = no_spawns, so_scribes_skipped = False, so_reviews = no_spawns,
     so_reviews_skipped = False,
     so_dispatch = \<lparr>dr_scanned = 0, dr_requested = 0, dr_already = 0, dr_missing = 0\<rparr>,
     so_convergence = no_convergence, so_breaches = no_breaches\<rparr>"

definition scanBreaches :: "ext \<Rightarrow> (db \<Rightarrow> time) \<Rightarrow> worker \<Rightarrow> time \<Rightarrow> candidate_item list \<Rightarrow> db \<Rightarrow> breach_result pass" where
  "scanBreaches E clk W now candidates st =
     for_each (breach_step E clk W) (EvaluateBreaches now candidates)
       (no_breaches\<lparr>bk_scanned := int (length candidates)\<rparr>) st"

text \<open>An unknown cultivar stops a pass; any other error stops the scan.\<close>

definition stops :: "err option \<Rightarrow> bool" where
  "stops e = (case e of None \<Rightarrow> False | Some e \<Rightarrow> \<not> err_is e ErrUnknownCultivar)"

definition ScanOnce ::
  "ext \<Rightarrow> (string \<Rightarrow> string option) \<Rightarrow> (db \<Rightarrow> time) \<Rightarrow> worker \<Rightarrow> time \<Rightarrow> db \<Rightarrow> scan_result pass"
where
  "ScanOnce E fl clk W now st =
     (case scanScribes E clk W st of (s, e1, st1) \<Rightarrow>
      let out1 = empty_scan\<lparr>so_scribes := s\<rparr> in
      if stops e1 then (out1, e1, st1) else
      case scanReviews E fl clk W st1 of (v, e2, st2) \<Rightarrow>
      let out2 = out1\<lparr>so_scribes_skipped := e1 \<noteq> None, so_reviews := v\<rparr> in
      if stops e2 then (out2, e2, st2) else
      case scanDispatch E clk W st2 of (d, e3, st3) \<Rightarrow>
      let out3 = out2\<lparr>so_reviews_skipped := e2 \<noteq> None, so_dispatch := d\<rparr> in
      if stops e3 then (out3, e3, st3) else
      case scanConvergence E fl clk W st3 of
        (_, Some e, st4) \<Rightarrow> (out3, Some e, st4)
      | (c, None, st4) \<Rightarrow>
          let out4 = out3\<lparr>so_convergence := c\<rparr> in
          case breachCandidates W st4 of
            Inl e \<Rightarrow> (empty_scan, Some e, st4)
          | Inr candidates \<Rightarrow>
              (case scanBreaches E clk W now candidates st4 of (b, e5, st5) \<Rightarrow>
                 (out4\<lparr>so_breaches := b\<rparr>, e5, st5)))"

section \<open>Breaches as attention\<close>

abbreviation PatienceAttentionOpen :: string where "PatienceAttentionOpen \<equiv> ''open''"
abbreviation PatienceAttentionResolved :: string where "PatienceAttentionResolved \<equiv> ''resolved''"

record patience_attention =
  at_event :: uuid
  at_item :: uuid
  at_breached :: time
  at_state :: string
  at_budget_seconds :: int
  at_source :: string
  at_rule :: string
  at_entered_unix :: int
  at_cultivar :: string
  at_current :: "(string \<times> time) option"
  at_status :: string

definition attention_limit :: "int \<Rightarrow> int" where
  "attention_limit limit0 =
     (let limit = (if limit0 \<le> 0 then 100 else limit0) in if limit > 500 then 500 else limit)"

text \<open>LEFT JOIN work_items: the state that the item is in now and when it entered it.\<close>

definition current_epoch :: "db \<Rightarrow> event \<Rightarrow> (string \<times> time) option" where
  "current_epoch st e = map_option (\<lambda>w. (wi_state w, wi_state_entered_at w))
     (get_row wi_id (ev_subject_id e) (t_work_items (proj st)))"

text \<open>The WHERE clause; the cast of a text that is no number fails the query.\<close>

definition epoch_matches :: "db \<Rightarrow> event \<Rightarrow> err + bool" where
  "epoch_matches st e = (case current_epoch st e of
     None \<Rightarrow> Inr False
   | Some (state, entered) \<Rightarrow>
       if jtext (ev_payload e) ''state'' \<noteq> Some state then Inr False
       else (case jtext (ev_payload e) ''state_entered_at_unix'' of
         None \<Rightarrow> Inr False
       | Some t \<Rightarrow> (case parse_int t of
           None \<Rightarrow> Inl (Err [] ''invalid input syntax for type bigint'')
         | Some i \<Rightarrow> Inr (unix entered = i))))"

fun filter_rows :: "('a \<Rightarrow> err + bool) \<Rightarrow> 'a list \<Rightarrow> err + 'a list" where
  "filter_rows f [] = Inr []"
| "filter_rows f (x # xs) = bind_err (f x) (\<lambda>keep. bind_err (filter_rows f xs) (\<lambda>ys.
     Inr (if keep then x # ys else ys)))"

fun map_rows :: "('a \<Rightarrow> err + 'b) \<Rightarrow> 'a list \<Rightarrow> err + 'b list" where
  "map_rows f [] = Inr []"
| "map_rows f (x # xs) = bind_err (f x) (\<lambda>y. bind_err (map_rows f xs) (\<lambda>ys. Inr (y # ys)))"

definition attention_of :: "db \<Rightarrow> event \<Rightarrow> err + patience_attention" where
  "attention_of st e =
     (let p = ev_payload e in
     bind_err (guard_err (jobject p) ErrDecode) (\<lambda>_.
     bind_err (jstring (jget p ''state'')) (\<lambda>state.
     bind_err (jinteger (jget p ''budget_seconds'')) (\<lambda>seconds.
     bind_err (jstring (jget p ''budget_source'')) (\<lambda>source.
     bind_err (jstring (jget p ''escalation_rule'')) (\<lambda>rule.
     bind_err (jinteger (jget p ''state_entered_at_unix'')) (\<lambda>entered.
     bind_err (jstring (jget p ''cultivar'')) (\<lambda>cultivar.
     Inr \<lparr>at_event = ev_id e, at_item = ev_subject_id e, at_breached = ev_occurred_at e, at_state = state,
       at_budget_seconds = seconds, at_source = source, at_rule = rule, at_entered_unix = entered,
       at_cultivar = cultivar, at_current = current_epoch st e,
       at_status = (case current_epoch st e of
          None \<Rightarrow> PatienceAttentionResolved
        | Some (s, t) \<Rightarrow> if s = state \<and> unix t = entered then PatienceAttentionOpen
            else PatienceAttentionResolved)\<rparr>))))))))"

text \<open>ORDER BY seq DESC\<close>

definition breach_events :: "db \<Rightarrow> event list" where
  "breach_events st =
     rev (filter (\<lambda>e. ev_subject_kind e = SubjectWorkItem \<and> ev_kind e = EventPatienceBreached) (log st))"

definition ListPatienceAttention :: "db \<Rightarrow> int \<Rightarrow> bool \<Rightarrow> err + patience_attention list" where
  "ListPatienceAttention st limit includeResolved =
     bind_err (if includeResolved then Inr (breach_events st) else filter_rows (epoch_matches st) (breach_events st))
       (\<lambda>rows. map_rows (attention_of st) (take (nat (attention_limit limit)) rows))"

end
