(* ===== verification/WorkerProperties.thy ===== *)
theory WorkerProperties
  imports Worker
begin

text \<open>
  What a scan of the worker guarantees: it extends the log transaction by transaction, it leaves no
  overdue item alone, it moves nothing to done that did not converge, and it records no verdict twice.
\<close>

abbreviation exact :: "string \<Rightarrow> string option" where "exact \<equiv> Some"
abbreviation clock9 :: "db \<Rightarrow> time" where "clock9 \<equiv> \<lambda>_. 9"

section \<open>Every effect extends the log\<close>

lemma later_tx: "app_appends E t st st' \<Longrightarrow> later E st st'"
  by (rule later.tx [OF later.now])

lemma later_trans: "later E st1 st2 \<Longrightarrow> later E st st1 \<Longrightarrow> later E st st2"
  by (induction rule: later.induct) (auto intro: later.tx)

lemma for_each_later:
  assumes "\<And>c r st r' e st'. f c r st = (r', e, st') \<Longrightarrow> later E st st'"
  shows "for_each f cs r st = (r', e, st') \<Longrightarrow> later E st st'"
proof (induction cs arbitrary: r st)
  case (Cons c cs)
  obtain r1 e1 st1 where s: "f c r st = (r1, e1, st1)" by (cases "f c r st") auto
  with Cons.prems Cons.IH [of r1 st1] assms [OF s] show ?case
    by (cases e1) (auto intro: later_trans)
qed (simp add: later.now)

lemma SpawnChild_later: "SpawnChildWithID E now st parent child inp = (r, st') \<Longrightarrow> later E st st'"
  by (rule later_tx) (rule SpawnChild_appends)

lemma spawn_step_later: "spawn_step E clk childID inp w r st = (r', e, st') \<Longrightarrow> later E st st'"
  by (auto simp: spawn_step_def later.now dest: SpawnChild_later split: sum.split_asm prod.split_asm)

lemma spawn_loop_later:
  "for_each (spawn_step E clk childID inp) cs r st = (r', e, st') \<Longrightarrow> later E st st'"
  by (erule for_each_later [rotated]) (rule spawn_step_later)

lemma scanScribes_later: "scanScribes E clk W st = (r, e, st') \<Longrightarrow> later E st st'"
  by (auto simp: scanScribes_def Let_def later.now split: if_split_asm sum.split_asm
      dest: spawn_loop_later)

lemma scanReviews_later: "scanReviews E fl clk W st = (r, e, st') \<Longrightarrow> later E st st'"
  by (auto simp: scanReviews_def Let_def later.now split: if_split_asm sum.split_asm
      dest: spawn_loop_later)

text \<open>An event of this identity is in the log.\<close>

definition logged :: "ext \<Rightarrow> spec \<Rightarrow> db \<Rightarrow> bool" where
  "logged E s st \<longleftrightarrow> (\<exists>i. DeterministicID E s = Inr i \<and> i \<in> ev_id ` set (log st))"

lemma logged_later: "logged E s st \<Longrightarrow> later E st st' \<Longrightarrow> logged E s st'"
  using later_prefix [of E st st'] by (auto simp: logged_def prefix_def image_iff)

lemma append_logged: "app_append E now st s = Inr (i, fresh, st') \<Longrightarrow> logged E s st' \<and> later E st st'"
proof
  assume a: "app_append E now st s = Inr (i, fresh, st')"
  then show "later E st st'" by (rule later_tx [OF app_append_appends])
  show "logged E s st'" using a by (auto simp: logged_def app_append_def elim!: Append_cases)
qed

lemma appendDispatch_facts:
  assumes "appendDispatch E clk W c cultivar reason st = (r, st')"
  shows "later E st st'"
    and "r = Inr fresh \<Longrightarrow> logged E (worker_spec W (dc_id c) EventDispatchRequested (dispatch_json E c cultivar reason)) st'"
  using assms by (cases r; auto simp: appendDispatch_def rollback_eq bind_err_Inr later.now dest: append_logged)+

lemma dispatch_step_later: "dispatch_step E clk W c rd st = (r', e, st') \<Longrightarrow> later E st st'"
  by (auto simp: dispatch_step_def Let_def later.now dest: appendDispatch_facts(1)
      split: prod.split_asm sum.split_asm if_split_asm)

lemma dispatch_loop_later:
  "for_each (dispatch_step E clk W) cs r st = (r', e, st') \<Longrightarrow> later E st st'"
  by (erule for_each_later [rotated]) (rule dispatch_step_later)

lemma scanDispatch_later: "scanDispatch E clk W st = (r, e, st') \<Longrightarrow> later E st st'"
  by (auto simp: scanDispatch_def Let_def split: prod.split_asm dest: dispatch_loop_later)

lemma UpdateMetadata_later: "UpdateMetadata E now st disc wid checks review actor = (r, st') \<Longrightarrow> later E st st'"
  by (cases r) (auto simp: UpdateMetadata_def rollback_eq bind_err_Inr later.now
      intro: later_tx dest: append_and_get_appends)

lemma Transition_later: "Transition E now st disc wid dest reason actor = (r, st') \<Longrightarrow> later E st st'"
  by (rule later_tx) (rule Transition_appends)

lemma emitConvergenceVerdict_facts:
  assumes "emitConvergenceVerdict E clk W wid red st = (r, st')"
  shows "later E st st'"
    and "r = Inr fresh \<Longrightarrow> \<exists>s. VerdictEventSpec SourceSystem (Some (wk_actor W)) wid red = Inr s \<and> logged E s st'"
  using assms by (cases r; auto simp: emitConvergenceVerdict_def rollback_eq bind_err_Inr later.now AppendVerdict_def
      dest: append_logged [unfolded app_append_def])+

lemma escalateConvergence_later:
  "escalateConvergence E clk W wid checks attempt rule reason st = (r, st') \<Longrightarrow> later E st st'"
  by (auto simp: escalateConvergence_def setBlockedForConvergence_def Let_def later.now
      dest: Transition_later UpdateMetadata_later intro: later_trans
      split: if_split_asm prod.split_asm sum.split_asm)

lemma settle_outcome_db: "settle_outcome tally r (x, st) = (r', e, st') \<Longrightarrow> st' = st"
  by (cases x) (auto simp: settle_outcome_def)

lemma act_on_decision_later:
  "act_on_decision E clk W wid checks d r st = (r', e, st') \<Longrightarrow> later E st st'"
proof -
  assume a: "act_on_decision E clk W wid checks d r st = (r', e, st')"
  have t: "Transition E (clk st) st [] wid dest reason (worker_token W) = (x, st1) \<Longrightarrow>
      settle_outcome tally r (x, st1) = (r', e, st') \<Longrightarrow> later E st st'" for dest reason tally x st1
    using Transition_later settle_outcome_db by metis
  have u: "escalateConvergence E clk W wid checks attempt rule reason st = (x, st1) \<Longrightarrow>
      settle_outcome tally r (x, st1) = (r', e, st') \<Longrightarrow> later E st st'" for attempt rule reason tally x st1
    using escalateConvergence_later settle_outcome_db by metis
  from a show ?thesis unfolding act_on_decision_def
    using t [OF prod.collapse [symmetric]] u [OF prod.collapse [symmetric]]
    by (simp add: later.now split: if_split_asm)
qed

lemma convergence_step_later: "convergence_step E fl clk W c r st = (r', e, st') \<Longrightarrow> later E st st'"
  by (auto simp: convergence_step_def Let_def later.now
      dest: act_on_decision_later emitConvergenceVerdict_facts(1) intro: later_trans
      split: if_split_asm prod.split_asm sum.split_asm)

lemma convergence_loop_later:
  "for_each (convergence_step E fl clk W) cs r st = (r', e, st') \<Longrightarrow> later E st st'"
  by (erule for_each_later [rotated]) (rule convergence_step_later)

lemma scanConvergence_later: "scanConvergence E fl clk W st = (r, e, st') \<Longrightarrow> later E st st'"
  by (auto simp: scanConvergence_def Let_def later.now split: option.split_asm
      dest: convergence_loop_later)

section \<open>No item waits for ever\<close>

text \<open>What the log holds once a breach was handled: the breach, and where it went.\<close>

definition breach_escalation :: "ext \<Rightarrow> breach \<Rightarrow> uuid" where
  "breach_escalation E b = deterministicEscalationID E (bc_id (br_candidate b))
     (trim_space (patienceEscalationReason b))
     (if trim_space (patienceEscalationSummary b) = [] then trim_space (patienceEscalationReason b)
      else trim_space (patienceEscalationSummary b))"

definition escalated :: "ext \<Rightarrow> worker \<Rightarrow> breach \<Rightarrow> db \<Rightarrow> bool" where
  "escalated E W b st \<longleftrightarrow> escalationExists st (breach_escalation E b) \<or>
     (\<exists>payload. logged E (escalated_spec SubjectEscalation (breach_escalation E b) EventEscalationRequested
        (worker_token W) payload) st)"

definition breach_handled :: "ext \<Rightarrow> worker \<Rightarrow> breach \<Rightarrow> db \<Rightarrow> bool" where
  "breach_handled E W b st \<longleftrightarrow> logged E (breach_spec W b) st \<and>
     (if bc_review (br_candidate b) = HumanReviewBlocked then True
      else if shouldRoutePatienceBreachToDispatch b
      then logged E (worker_spec W (bc_id (br_candidate b)) EventDispatchRequested
        (dispatch_json E (breach_dispatch b) (trim_space (bc_cultivar (br_candidate b)))
          dispatchReasonAgentAttentionRequested)) st
      else escalated E W b st)"

lemma escalationExists_later: "escalationExists st i \<Longrightarrow> later E st st' \<Longrightarrow> escalationExists st' i"
  using later_prefix [of E st st'] by (auto simp: escalationExists_def prefix_def)

lemma escalated_later: "escalated E W b st \<Longrightarrow> later E st st' \<Longrightarrow> escalated E W b st'"
  unfolding escalated_def using escalationExists_later logged_later by blast

lemma breach_handled_later: "breach_handled E W b st \<Longrightarrow> later E st st' \<Longrightarrow> breach_handled E W b st'"
  unfolding breach_handled_def using escalated_later logged_later by auto

lemma emitBreach_facts:
  assumes "emitBreach E clk W b st = (r, st')"
  shows "later E st st'" and "r = Inr fresh \<Longrightarrow> logged E (breach_spec W b) st'"
  using assms by (cases r; auto simp: emitBreach_def rollback_eq bind_err_Inr later.now dest: append_logged)+

lemma RequestEscalation_later: "RequestEscalation E now st inp = (r, st') \<Longrightarrow> later E st st'"
  by (cases r) (auto simp: RequestEscalation_def rollback_eq bind_err_Inr later.now
      intro: later_tx dest: RequestInTx_appends)

lemma escalateBreach_facts:
  assumes "escalateBreach E clk W b st = (r, st')"
  shows "later E st st'" and "r = Inr fresh \<Longrightarrow> escalated E W b st'"
proof -
  let ?inp = "\<lparr>es_work_item = bc_id (br_candidate b), es_reason = patienceEscalationReason b,
    es_summary = patienceEscalationSummary b, es_actor = worker_token W\<rparr>"
  show "later E st st'"
    using assms by (auto simp: escalateBreach_def later.now dest: RequestEscalation_later
        split: if_split_asm prod.split_asm)
  assume "r = Inr fresh"
  with assms obtain res where "RequestInTx E (clk st) st ?inp = Inr (res, st')"
    by (auto simp: escalateBreach_def RequestEscalation_def rollback_eq bind_err_Inr map_sum_Inr
        split: if_split_asm prod.split_asm)
  then show "escalated E W b st'"
  proof (cases rule: RequestInTx_cases)
    case (known parent reason summary)
    then have "er_escalation res = breach_escalation E b" by (simp add: breach_escalation_def)
    with known have "find (is_event SubjectEscalation (breach_escalation E b) EventEscalationRequested) (log st) \<noteq> None"
      by (auto simp: existingEscalation_def split: option.split_asm)
    then show ?thesis using known
      by (auto simp: escalated_def escalationExists_def list_ex_iff find_None_iff)
  next
    case (new parent reason summary eventID st1 st2 st3 st4)
    then have i: "er_escalation res = breach_escalation E b" by (simp add: breach_escalation_def)
    have 1: "later E st1 st2" "later E st2 st3" "later E st3 st4"
      using new(10-12) by (auto intro: later_tx dest: append_event_appends)
    have 2: "later E st4 st'" using new(13) by (auto intro: later_tx later.now dest: append_event_appends)
    have "later E st1 st'" by (rule later_trans [OF 2 later_trans [OF 1(3) later_trans [OF 1(2,1)]]])
    with append_logged [OF new(9)] i show ?thesis
      unfolding escalated_def using logged_later by fastforce
  qed
qed

lemma tally_fresh_out: "tally_fresh new old r (x, st) = (r', e, st') \<Longrightarrow> st' = st \<and> (e = None \<longleftrightarrow> (\<exists>fresh. x = Inr fresh))"
  by (cases x) (auto simp: tally_fresh_def split: if_split_asm)

lemma dispatchPatienceBreach_facts:
  assumes "dispatchPatienceBreach E clk W b st = (r, st')"
  shows "later E st st'" and "r = Inr fresh \<Longrightarrow> logged E (worker_spec W (bc_id (br_candidate b)) EventDispatchRequested
    (dispatch_json E (breach_dispatch b) (trim_space (bc_cultivar (br_candidate b)))
      dispatchReasonAgentAttentionRequested)) st'"
proof -
  have d: "dc_id (breach_dispatch b) = bc_id (br_candidate b)"
    "dc_cultivar (breach_dispatch b) = trim_space (bc_cultivar (br_candidate b))"
    by (simp_all add: breach_dispatch_def Let_def)
  have *: "(\<exists>e. r = Inl e) \<and> st' = st \<or> appendDispatch E clk W (breach_dispatch b)
      (trim_space (bc_cultivar (br_candidate b))) dispatchReasonAgentAttentionRequested st = (r, st')"
    using assms by (auto simp: dispatchPatienceBreach_def Let_def d split: if_split_asm)
  then show "later E st st'" using appendDispatch_facts(1) later.now by blast
  assume "r = Inr fresh"
  with * show "logged E (worker_spec W (bc_id (br_candidate b)) EventDispatchRequested
    (dispatch_json E (breach_dispatch b) (trim_space (bc_cultivar (br_candidate b)))
      dispatchReasonAgentAttentionRequested)) st'"
    using appendDispatch_facts(2) d(1) by fastforce
qed

lemma route_breach_facts:
  assumes "route_breach E clk W b r st = (r', e, st')"
  shows "later E st st'" and "e = None \<Longrightarrow> logged E (breach_spec W b) st \<Longrightarrow> breach_handled E W b st'"
proof -
  obtain x st1 where d: "dispatchPatienceBreach E clk W b st = (x, st1)" by fastforce
  obtain y st2 where s: "escalateBreach E clk W b st = (y, st2)" by fastforce
  note outs = dispatchPatienceBreach_facts [OF d] escalateBreach_facts [OF s]
  show "later E st st'"
    using assms d s outs by (auto simp: route_breach_def later.now dest!: tally_fresh_out split: if_split_asm)
  then show "e = None \<Longrightarrow> logged E (breach_spec W b) st \<Longrightarrow> breach_handled E W b st'"
    using assms d s outs logged_later
    by (auto simp: route_breach_def breach_handled_def dest!: tally_fresh_out split: if_split_asm)
qed

lemma breach_step_facts:
  assumes "breach_step E clk W b r st = (r', e, st')"
  shows "later E st st'" and "e = None \<Longrightarrow> breach_handled E W b st'"
proof -
  obtain x st1 where x: "emitBreach E clk W b st = (x, st1)" by fastforce
  obtain r1 e1 st2 where t: "tally_fresh (\<lambda>r. r\<lparr>bk_emitted := bk_emitted r + 1\<rparr>)
      (\<lambda>r. r\<lparr>bk_already := bk_already r + 1\<rparr>) r (x, st1) = (r1, e1, st2)" by (rule prod_cases3)
  note t' = tally_fresh_out [OF t] emitBreach_facts [OF x]
  show "later E st st'"
    using assms x t t' by (auto simp: breach_step_def split: option.split_asm
        intro: later_trans dest: route_breach_facts(1))
  show "e = None \<Longrightarrow> breach_handled E W b st'"
    using assms x t t' by (auto simp: breach_step_def split: option.split_asm dest: route_breach_facts(2))
qed

lemma breach_loop_later: "for_each (breach_step E clk W) bs r st = (r', e, st') \<Longrightarrow> later E st st'"
  by (erule for_each_later [rotated]) (rule breach_step_facts(1))

lemma breach_loop_handled:
  "for_each (breach_step E clk W) bs r st = (r', None, st') \<Longrightarrow> b \<in> set bs \<Longrightarrow> breach_handled E W b st'"
proof (induction bs arbitrary: r st)
  case (Cons c bs)
  obtain r1 e1 st1 where c: "breach_step E clk W c r st = (r1, e1, st1)" by (rule prod_cases3)
  with Cons.prems(1) have rest: "e1 = None" "for_each (breach_step E clk W) bs r1 st1 = (r', None, st')"
    by (auto split: option.split_asm)
  show ?case
  proof (cases "b = c")
    case True
    with breach_step_facts(2) [OF c rest(1)] breach_loop_later [OF rest(2)] show ?thesis
      by (simp add: breach_handled_later)
  next
    case False
    with Cons.IH [OF rest(2)] Cons.prems(2) show ?thesis by simp
  qed
qed simp

lemma scanBreaches_facts:
  assumes "scanBreaches E clk W now cs st = (r, e, st')"
  shows "later E st st'"
    and "e = None \<Longrightarrow> c \<in> set cs \<Longrightarrow> 0 < bc_budget c \<Longrightarrow> bc_budget c < now - bc_entered c \<Longrightarrow>
      breach_handled E W \<lparr>br_candidate = c, br_budget = bc_budget c, br_age = now - bc_entered c\<rparr> st'"
proof -
  have loop: "for_each (breach_step E clk W) (EvaluateBreaches now cs)
      (no_breaches\<lparr>bk_scanned := int (length cs)\<rparr>) st = (r, e, st')"
    using assms by (simp add: scanBreaches_def)
  then show "later E st st'" by (rule breach_loop_later)
  assume "e = None" "c \<in> set cs" "0 < bc_budget c" "bc_budget c < now - bc_entered c"
  with loop show "breach_handled E W \<lparr>br_candidate = c, br_budget = bc_budget c, br_age = now - bc_entered c\<rparr> st'"
    by (auto simp: EvaluateBreaches_def intro: breach_loop_handled)
qed

text \<open>The budget of an item is its own, that of its cultivar or that of the policy.\<close>

definition budgets_within :: "worker \<Rightarrow> bool" where
  "budgets_within W \<longleftrightarrow> (\<forall>s \<in> set nonTerminalStates. 0 < map_int (wk_budgets W) s \<and>
     map_int (wk_budgets W) s \<le> MaxPatienceBudget)"

lemma cap_bounds: "0 < s \<Longrightarrow> 0 < capPatienceBudgetSeconds s \<and> capPatienceBudgetSeconds s \<le> MaxPatienceBudget"
  by (auto simp: capPatienceBudgetSeconds_def MaxPatienceBudget_def)

lemma resolvePatienceRule_bounds:
  assumes "budgets_within W" "state \<in> set nonTerminalStates" "resolvePatienceRule W st state raw = Inr p"
  shows "0 < pa_budget p \<and> pa_budget p \<le> MaxPatienceBudget"
  using assms cap_bounds
  by (auto simp: resolvePatienceRule_def Let_def bind_err_Inr guard_err_def budgets_within_def split: if_split_asm)

lemma resolve_rows_covers:
  assumes "resolve_rows W st rows = Inr cs" "(w, raw) \<in> set rows"
  shows "\<exists>c \<in> set cs. \<exists>p. resolvePatienceRule W st (wi_state w) raw = Inr p \<and> bc_id c = wi_id w \<and>
    bc_state c = wi_state w \<and> bc_entered c = wi_state_entered_at w \<and> bc_review c = wi_human_review w \<and>
    bc_budget c = pa_budget p"
  using assms
proof (induction rows arbitrary: cs)
  case (Cons row rows)
  then show ?case by (cases row) (fastforce simp: bind_err_Inr)
qed simp

lemma breachCandidates_cover:
  assumes "breachCandidates W st = Inr cs" "budgets_within W" "w \<in> set (t_work_items (proj st))"
    and "wi_state w \<in> set nonTerminalStates"
  shows "\<exists>c \<in> set cs. bc_id c = wi_id w \<and> bc_state c = wi_state w \<and> bc_entered c = wi_state_entered_at w \<and>
    bc_review c = wi_human_review w \<and> 0 < bc_budget c \<and> bc_budget c \<le> MaxPatienceBudget"
proof -
  have "created_payloads st (wi_id w) \<noteq> []" by (auto simp: created_payloads_def split: list.split)
  then obtain p where "p \<in> set (created_payloads st (wi_id w))" using list.set_intros(1) by (metis neq_Nil_conv)
  with assms(3,4) have "(w, case p of None \<Rightarrow> JObj [] | Some j \<Rightarrow> j) \<in> set (breach_rows st)"
    by (auto simp: breach_rows_def)
  with resolve_rows_covers assms(1) show ?thesis
    using resolvePatienceRule_bounds [OF assms(2,4)] by (fastforce simp: breachCandidates_def)
qed

lemma ScanOnce_done:
  assumes "ScanOnce E fl clk W now st = (out, None, st')"
  obtains st1 cs r where "later E st st1" "breachCandidates W st1 = Inr cs"
    "scanBreaches E clk W now cs st1 = (r, None, st')"
proof -
  obtain s e1 st1 where 1: "scanScribes E clk W st = (s, e1, st1)" by (rule prod_cases3)
  obtain v e2 st2 where 2: "scanReviews E fl clk W st1 = (v, e2, st2)" by (rule prod_cases3)
  obtain d e3 st3 where 3: "scanDispatch E clk W st2 = (d, e3, st3)" by (rule prod_cases3)
  obtain c e4 st4 where 4: "scanConvergence E fl clk W st3 = (c, e4, st4)" by (rule prod_cases3)
  have l: "later E st st4"
    by (rule later_trans [OF scanConvergence_later [OF 4] later_trans [OF scanDispatch_later [OF 3]
          later_trans [OF scanReviews_later [OF 2] scanScribes_later [OF 1]]]])
  have none: "\<not> stops e1" "\<not> stops e2" "\<not> stops e3" "e4 = None"
    using assms 1 2 3 4 by (auto simp: ScanOnce_def Let_def stops_def split: if_split_asm option.split_asm)
  obtain cs where "breachCandidates W st4 = Inr cs"
    using assms none 1 2 3 4 by (cases "breachCandidates W st4") (auto simp: ScanOnce_def Let_def)
  moreover obtain r e5 st5 where "scanBreaches E clk W now cs st4 = (r, e5, st5)" by (rule prod_cases3)
  ultimately show thesis using that l assms none 1 2 3 4 by (auto simp: ScanOnce_def Let_def)
qed


definition waiting7 :: db where
  "waiting7 = \<lparr>log = [], proj = no_tables\<lparr>t_work_items := [item7\<lparr>wi_human_review := HumanReviewBlocked\<rparr>]\<rparr>\<rparr>"

definition worker3 :: worker where
  "worker3 = \<lparr>wk_actor = 3, wk_budgets = DefaultBudgets\<rparr>"

definition breach7 :: breach where
  "breach7 = \<lparr>br_candidate = \<lparr>bc_id = 7, bc_state = WorkItemCaptured, bc_entered = 5,
     bc_review = HumanReviewBlocked, bc_budget = 24 * hour, bc_source = ''policy_profile'',
     bc_rule = EscalationRuleHandToHuman, bc_cultivar = []\<rparr>, br_budget = 24 * hour, br_age = 48 * hour\<rparr>"

lemma breach_recordable:
  assumes "bc_id (br_candidate b) \<noteq> uuid_nil"
  shows "\<exists>fresh st'. emitBreach E clk W b st = (Inr fresh, st')"
proof -
  have "\<exists>i fresh st'. app_append E (clk st) st (breach_spec W b) = Inr (i, fresh, st')"
    by (rule append_ok)
       (use assms in \<open>simp_all add: breach_spec_def worker_spec_def spec_validate_def source_valid_def registry_apply_def registry_defs\<close>)
  then show ?thesis by (auto simp: emitBreach_def rollback_def)
qed

lemma waiting7_passes:
  "scanScribes E clk W waiting7 = (no_spawns, None, waiting7)"
  "scanReviews E fl clk W waiting7 = (no_spawns, None, waiting7)"
  "scanDispatch E clk W waiting7 = (so_dispatch empty_scan, None, waiting7)"
  "scanConvergence E fl clk W waiting7 = (no_convergence, None, waiting7)"
  by (simp_all add: scanScribes_def scribeCandidates_def scanReviews_def reviewCandidates_def scanDispatch_def
      dispatchCandidates_def scanConvergence_def convergenceCandidates_def by_update_def waiting7_def item7_def
      no_tables_def no_spawns_def no_convergence_def empty_scan_def budget_validate_def defaultConvergenceBudget_def escalation_valid_def Let_def)

lemma waiting7_breaches:
  "map_sum id (EvaluateBreaches (48 * hour + 5)) (breachCandidates worker3 waiting7) = Inr [breach7]"
  by code_simp


section \<open>Done only by convergence\<close>

definition done_event :: "event \<Rightarrow> bool" where
  "done_event e \<longleftrightarrow> ev_kind e = EventWorkItemTransitioned \<and> jget (ev_payload e) ''to'' = JStr WorkItemDone"

definition no_done :: "db \<Rightarrow> db \<Rightarrow> bool" where
  "no_done st st' \<longleftrightarrow> filter done_event (log st') = filter done_event (log st)"

definition done_by :: "uuid \<Rightarrow> db \<Rightarrow> db \<Rightarrow> bool" where
  "done_by wid st st' \<longleftrightarrow> (\<exists>es. filter done_event (log st') = filter done_event (log st) @ es \<and>
     (\<forall>e \<in> set es. ev_subject_id e = wid))"

definition done_spec :: "spec \<Rightarrow> bool" where
  "done_spec s \<longleftrightarrow> sp_kind s = EventWorkItemTransitioned \<and> jget (sp_payload s) ''to'' = JStr WorkItemDone"

lemma no_done_refl [simp]: "no_done st st"
  by (simp add: no_done_def)

lemma no_done_trans: "no_done st st1 \<Longrightarrow> no_done st1 st2 \<Longrightarrow> no_done st st2"
  by (simp add: no_done_def)

lemma not_done_spec [simp]:
  "sp_kind s \<noteq> EventWorkItemTransitioned \<Longrightarrow> \<not> done_spec s"
  "\<not> done_spec (work_item_spec wid kind actor disc (transition_json frm WorkItemBlocked reason))"
  "\<not> done_spec (escalated_spec subject i kind actor (transition_json frm WorkItemBlocked reason))"
  by (auto simp: done_spec_def)

lemma app_append_no_done:
  assumes "app_append E now st s = Inr (i, fresh, st')"
  shows "no_done st st' \<or> done_spec s \<and> done_by (sp_subject_id s) st st'"
  using assms unfolding app_append_def
proof (cases rule: Append_cases)
  case (insert p)
  then show ?thesis
    by (auto simp: no_done_def done_by_def done_spec_def done_event_def)
qed simp

lemma append_no_done: "app_append E now st s = Inr (i, fresh, st') \<Longrightarrow> \<not> done_spec s \<Longrightarrow> no_done st st'"
  using app_append_no_done by blast

lemma append_event_no_done: "append_event E now s st = Inr st' \<Longrightarrow> \<not> done_spec s \<Longrightarrow> no_done st st'"
  by (auto simp: append_event_def map_sum_Inr dest: append_no_done)

lemma requestXylemEscalation_no_done:
  assumes "requestXylemEscalationInTx E now st parent reason summary actor = Inr st'"
  shows "no_done st st'"
  using assms unfolding requestXylemEscalationInTx_def Let_def
  by (auto simp: bind_err_Inr no_done_def [of st st'] split: if_splits
      dest!: append_event_no_done [unfolded no_done_def])

lemma exhaust_no_done:
  "exhaust E now st item actor b payload reason summary msg = Inr (r, st') \<Longrightarrow> no_done st st'"
  unfolding exhaust_def
  by (auto simp: bind_err_Inr dest!: append_event_no_done requestXylemEscalation_no_done intro: no_done_trans)

lemma enforce_no_done:
  "enforceChildCountBudget E now st parent childID inp = Inr (x, st') \<Longrightarrow> no_done st st'"
  "enforceConcurrentRunningBudget E now st item actor = Inr (x, st') \<Longrightarrow> no_done st st'"
  "enforceEventRateBudget E now st item eventID kind innerKind class actor = Inr (x, st') \<Longrightarrow> no_done st st'"
  unfolding enforceChildCountBudget_def enforceConcurrentRunningBudget_def enforceEventRateBudget_def
  by (auto simp: bind_err_Inr Let_def split: if_splits dest: exhaust_no_done)

lemma no_done_by: "no_done st st' \<Longrightarrow> done_by wid st st'"
  by (simp add: no_done_def done_by_def)

lemma appendWorkItemEvent_no_done:
  assumes "appendWorkItemEventWithRateBudget E now st item s innerKind actor = Inr (x, st')"
  shows "no_done st st' \<or> done_spec s \<and> done_by (sp_subject_id s) st st'"
proof -
  have "no_done st st' \<or> append_event E now s st = Inr st'"
    using assms
  proof (cases rule: appendWorkItemEvent_cases)
    case (exhausted e)
    with assms enforce_no_done(3) show ?thesis
      by (fastforce simp: appendWorkItemEventWithRateBudget_def bind_err_Inr map_sum_Inr
          split: if_split_asm option.split_asm)
  qed auto
  then show ?thesis by (auto simp: append_event_def map_sum_Inr dest: app_append_no_done)
qed

lemma append_and_get_no_done:
  "append_and_get E now st current s innerKind actor = Inr (r, st') \<Longrightarrow>
   no_done st st' \<or> done_spec s \<and> done_by (sp_subject_id s) st st'"
  by (auto simp: append_and_get_def bind_err_Inr split: option.split_asm dest!: appendWorkItemEvent_no_done)

lemma UpdateMetadata_no_done:
  "UpdateMetadata E now st disc wid checks review actor = (r, st') \<Longrightarrow> no_done st st'"
  by (cases r) (auto simp: UpdateMetadata_def rollback_eq bind_err_Inr dest!: append_and_get_no_done)

lemma Transition_no_done:
  assumes "Transition E now st disc wid dest reason actor = (r, st')"
  shows "no_done st st' \<or> dest = WorkItemDone \<and> done_by wid st st'"
proof (cases "st' = st")
  case False
  with assms obtain current x st1 where
      x: "(if dest = WorkItemRunning \<and> wi_state current \<noteq> WorkItemRunning
        then enforceConcurrentRunningBudget E now st current actor else Inr (None, st)) = Inr (x, st1)"
    and k: "(case x of Some e \<Rightarrow> Inr (Inl e, st1) | None \<Rightarrow> append_and_get E now st1 current
          (work_item_spec wid EventWorkItemTransitioned actor disc
            (transition_json (wi_state current) dest reason)) [] actor) = Inr (r, st')"
    by (cases r) (auto simp: Transition_def rollback_eq bind_err_Inr)
  have "no_done st st1" using x enforce_no_done(2) by (auto split: if_split_asm)
  then show ?thesis using k
    by (auto simp: no_done_def done_by_def done_spec_def split: option.split_asm dest!: append_and_get_no_done)
qed simp

lemma SpawnChild_no_done:
  assumes "SpawnChildWithID E now st parent child inp = (r, st')"
  shows "no_done st st'"
proof (cases "st' = st")
  case False
  with assms obtain item x st1 where
      x: "(if childRelationExists (proj st) parent child then Inr (None, st)
        else enforceChildCountBudget E now st item child inp) = Inr (x, st1)"
    and k: "x \<noteq> None \<and> st' = st1 \<or> (\<exists>payload i f st2 j g.
        app_append E now st1 (work_item_spec child EventWorkItemCreated (ci_actor inp) [] payload) = Inr (i, f, st2) \<and>
        app_append E now st2 (work_item_spec parent EventWorkItemRelationAdded (ci_actor inp) []
            (relation_json E parent child)) = Inr (j, g, st'))"
    by (cases r) (auto simp: SpawnChildWithID_def rollback_eq bind_err_Inr split: option.split_asm, (metis)+)
  have "no_done st st1" using x enforce_no_done(1) by (auto split: if_split_asm)
  then show ?thesis using k by (auto simp: no_done_def dest!: append_no_done [unfolded no_done_def])
qed simp

lemma RequestEscalation_no_done: "RequestEscalation E now st inp = (r, st') \<Longrightarrow> no_done st st'"
proof (cases r)
  case (Inr res)
  assume "RequestEscalation E now st inp = (r, st')"
  with Inr have "RequestInTx E now st inp = Inr (res, st')"
    by (auto simp: RequestEscalation_def rollback_eq bind_err_Inr)
  then show ?thesis
    by (cases rule: RequestInTx_cases)
       (auto simp: no_done_def dest!: append_event_no_done [unfolded no_done_def] append_no_done [unfolded no_done_def])
qed (auto simp: RequestEscalation_def rollback_eq bind_err_Inr)

lemma for_each_no_done:
  assumes "\<And>c r st r' e st'. f c r st = (r', e, st') \<Longrightarrow> no_done st st'"
  shows "for_each f cs r st = (r', e, st') \<Longrightarrow> no_done st st'"
proof (induction cs arbitrary: r st)
  case (Cons c cs)
  obtain r1 e1 st1 where s: "f c r st = (r1, e1, st1)" by (rule prod_cases3)
  with Cons.prems Cons.IH [of r1 st1] assms [OF s] show ?case
    by (cases e1) (auto simp: no_done_def)
qed simp

lemma spawn_loop_no_done:
  "for_each (spawn_step E clk childID inp) cs r st = (r', e, st') \<Longrightarrow> no_done st st'"
  by (erule for_each_no_done [rotated])
     (auto simp: spawn_step_def dest: SpawnChild_no_done split: sum.split_asm prod.split_asm)

lemma scanScribes_no_done: "scanScribes E clk W st = (r, e, st') \<Longrightarrow> no_done st st'"
  by (auto simp: scanScribes_def Let_def split: if_split_asm sum.split_asm dest: spawn_loop_no_done)

lemma scanReviews_no_done: "scanReviews E fl clk W st = (r, e, st') \<Longrightarrow> no_done st st'"
  by (auto simp: scanReviews_def Let_def split: if_split_asm sum.split_asm dest: spawn_loop_no_done)

lemma worker_append_no_done:
  "rollback st (bind_err (app_append E t st (worker_spec W wid kind payload)) (\<lambda>(_, fresh, st'). Inr (Inr fresh, st'))) =
     (r, st') \<Longrightarrow> kind \<noteq> EventWorkItemTransitioned \<Longrightarrow> no_done st st'"
  by (cases r) (auto simp: rollback_eq bind_err_Inr worker_spec_def dest!: append_no_done)

lemma appendDispatch_no_done: "appendDispatch E clk W c cultivar reason st = (r, st') \<Longrightarrow> no_done st st'"
  unfolding appendDispatch_def by (erule worker_append_no_done) simp

lemma scanDispatch_no_done: "scanDispatch E clk W st = (r, e, st') \<Longrightarrow> no_done st st'"
proof -
  assume "scanDispatch E clk W st = (r, e, st')"
  then obtain r1 where "for_each (dispatch_step E clk W) (dispatchCandidates st)
      (\<lparr>dr_scanned = int (length (dispatchCandidates st)), dr_requested = 0, dr_already = 0, dr_missing = 0\<rparr>, []) st
      = (r1, e, st')"
    by (auto simp: scanDispatch_def Let_def split: prod.split_asm)
  then show "no_done st st'"
    by (rule for_each_no_done [rotated])
       (auto simp: dispatch_step_def Let_def dest: appendDispatch_no_done
         split: prod.split_asm sum.split_asm if_split_asm)
qed

lemma breach_step_no_done: "breach_step E clk W b r st = (r', e, st') \<Longrightarrow> no_done st st'"
proof -
  assume s: "breach_step E clk W b r st = (r', e, st')"
  obtain x st1 where x: "emitBreach E clk W b st = (x, st1)" by fastforce
  obtain r1 e1 st2 where t: "tally_fresh (\<lambda>r. r\<lparr>bk_emitted := bk_emitted r + 1\<rparr>)
      (\<lambda>r. r\<lparr>bk_already := bk_already r + 1\<rparr>) r (x, st1) = (r1, e1, st2)" by (rule prod_cases3)
  have 1: "no_done st st2" using x tally_fresh_out [OF t] worker_append_no_done
    by (fastforce simp: emitBreach_def breach_spec_def)
  have 2: "no_done st2 st3" if "route_breach E clk W b r1 st2 = (r', e, st3)" for st3
  proof -
    obtain y st4 where d: "dispatchPatienceBreach E clk W b st2 = (y, st4)" by fastforce
    obtain z st5 where z: "escalateBreach E clk W b st2 = (z, st5)" by fastforce
    have "no_done st2 st4" using d
      by (auto simp: dispatchPatienceBreach_def Let_def split: if_split_asm dest: appendDispatch_no_done)
    moreover have "no_done st2 st5" using z
      by (auto simp: escalateBreach_def split: if_split_asm prod.split_asm dest: RequestEscalation_no_done)
    ultimately show ?thesis using that d z
      by (auto simp: route_breach_def dest!: tally_fresh_out split: if_split_asm)
  qed
  show "no_done st st'" using s x t 1 2
    by (auto simp: breach_step_def split: option.split_asm intro: no_done_trans)
qed

lemma scanBreaches_no_done: "scanBreaches E clk W now cs st = (r, e, st') \<Longrightarrow> no_done st st'"
  unfolding scanBreaches_def by (erule for_each_no_done [rotated]) (rule breach_step_no_done)

lemma emitConvergenceVerdict_no_done:
  "emitConvergenceVerdict E clk W wid red st = (r, st') \<Longrightarrow> no_done st st'"
  by (cases r) (auto simp: emitConvergenceVerdict_def rollback_eq bind_err_Inr AppendVerdict_def VerdictEventSpec_def
      dest!: append_no_done [unfolded app_append_def] split: if_split_asm)

lemma escalateConvergence_no_done:
  "escalateConvergence E clk W wid checks attempt rule reason st = (r, st') \<Longrightarrow> no_done st st'"
  by (auto simp: escalateConvergence_def setBlockedForConvergence_def Let_def
      dest!: Transition_no_done UpdateMetadata_no_done intro: no_done_trans
      split: if_split_asm prod.split_asm sum.split_asm)

lemma act_on_decision_no_done:
  assumes "act_on_decision E clk W wid checks d r st = (r', e, st')"
  shows "no_done st st' \<or> cd_outcome d = OutcomeAccept \<and> done_by wid st st'"
proof -
  have t: "settle_outcome tally r out = (r', e, st') \<Longrightarrow> snd out = st'" for tally out
    using settle_outcome_db [of tally r "fst out" "snd out" r' e st'] by simp
  have T: "no_done st (snd (Transition E now st disc wid dest reason actor)) \<or>
      done_by wid st (snd (Transition E now st disc wid dest reason actor))" for now disc dest reason actor
    using Transition_no_done [OF prod.collapse [symmetric]] by blast
  have N: "no_done st (snd (escalateConvergence E clk W wid checks attempt rule reason st))" for attempt rule reason
    using escalateConvergence_no_done [OF prod.collapse [symmetric]] .
  show ?thesis
    using assms N unfolding act_on_decision_def by (auto split: if_split_asm dest!: t) (use T in blast)+
qed

text \<open>
  The checks of an item pass on its signals, or a verdict on exactly these inputs accepted it before.
\<close>

definition converged ::
  "ext \<Rightarrow> (string \<Rightarrow> string option) \<Rightarrow> db \<Rightarrow> uuid \<Rightarrow> string list \<Rightarrow> bool"
where
  "converged E fl st wid checks \<longleftrightarrow> (\<exists>sigs. convergenceSignalsForItem fl st wid checks = Inr sigs \<and>
     (checks \<noteq> [] \<and> (\<forall>c \<in> set checks. check_reads sigs c True \<and> \<not> check_reads sigs c False) \<or>
      (\<exists>l. latestConvergenceVerdict st wid (AllPassChecklist checks) = Some l \<and>
         vd_disposition (vr_verdict l) = VerdictAccept \<and>
         vr_digest l = digestReductionInputs E sigs (re_config (AllPassChecklist checks)))))"

lemma decide_accept:
  assumes "cd_outcome (decideConvergenceStep prev red b) = OutcomeAccept"
  shows "vd_disposition (rd_verdict red) = VerdictAccept \<or>
    (\<exists>l. prev = Some l \<and> vr_digest l = rd_digest red \<and> vd_disposition (vr_verdict l) = VerdictAccept)"
  using assms by (auto simp: decideConvergenceStep_def Let_def budget_next_def split: if_split_asm option.split_asm)

lemma convergence_step_no_done:
  assumes "convergence_step E fl clk W c r st = (r', e, st')"
  shows "no_done st st' \<or> converged E fl st (fst c) (snd c) \<and> done_by (fst c) st st'"
proof -
  obtain wid checks where c: "c = (wid, checks)" by fastforce
  let ?prev = "latestConvergenceVerdict st wid (AllPassChecklist checks)"
  show ?thesis
  proof (cases "bind_err (convergenceSignalsForItem fl st wid checks)
      (\<lambda>sigs. Run E (AllPassChecklist checks) sigs (next_attempt ?prev))")
    case (Inl e)
    with assms c show ?thesis by (simp add: convergence_step_def Let_def)
  next
    case (Inr red)
    then obtain sigs where s: "convergenceSignalsForItem fl st wid checks = Inr sigs"
      "Run E (AllPassChecklist checks) sigs (next_attempt ?prev) = Inr red" by (auto simp: bind_err_Inr)
    let ?d = "decideConvergenceStep ?prev red defaultConvergenceBudget"
    obtain x st1 where v: "emitConvergenceVerdict E clk W wid red st = (x, st1)" by fastforce
    have "no_done st st' \<or> cd_outcome ?d = OutcomeAccept \<and> done_by wid st st'"
      using assms c s v emitConvergenceVerdict_no_done [OF v]
      by (auto simp: convergence_step_def Let_def no_done_def done_by_def
          split: if_split_asm sum.split_asm dest!: act_on_decision_no_done)
    moreover have "cd_outcome ?d = OutcomeAccept \<Longrightarrow> converged E fl st wid checks"
      using decide_accept [of ?prev red defaultConvergenceBudget] s
      by (auto simp: converged_def Run_def Let_def checklist_accept_iff split: if_split_asm)
    ultimately show ?thesis using c by auto
  qed
qed

lemma done_by_new:
  "done_by wid st st' \<Longrightarrow> ev \<in> set (log st') \<Longrightarrow> done_event ev \<Longrightarrow> ev \<notin> set (log st) \<Longrightarrow> ev_subject_id ev = wid"
proof -
  assume "done_by wid st st'" and e: "ev \<in> set (log st')" "done_event ev" "ev \<notin> set (log st)"
  then obtain es where es: "filter done_event (log st') = filter done_event (log st) @ es"
    "\<forall>e \<in> set es. ev_subject_id e = wid" by (auto simp: done_by_def)
  have "ev \<in> set (filter done_event (log st'))" using e by simp
  with es e show ?thesis by auto
qed

lemma no_done_old:
  assumes "no_done st st'" "ev \<in> set (log st')" "done_event ev"
  shows "ev \<in> set (log st)"
proof -
  have "ev \<in> set (filter done_event (log st'))" using assms by simp
  then have "ev \<in> set (filter done_event (log st))" using assms(1) by (simp only: no_done_def)
  then show ?thesis by simp
qed

lemma convergence_loop_done:
  assumes "for_each (convergence_step E fl clk W) cs r st = (r', e, st')"
    and "ev \<in> set (log st')" "done_event ev" "ev \<notin> set (log st)"
  shows "\<exists>c \<in> set cs. \<exists>st2. later E st st2 \<and> later E st2 st' \<and> ev \<notin> set (log st2) \<and> ev_subject_id ev = fst c \<and>
    converged E fl st2 (fst c) (snd c)"
  using assms
proof (induction cs arbitrary: r st)
  case (Cons c cs)
  obtain r1 e1 st1 where s: "convergence_step E fl clk W c r st = (r1, e1, st1)" by (rule prod_cases3)
  note l = convergence_step_later [OF s]
  have rest: "later E st1 st'"
    using Cons.prems(1) s convergence_loop_later by (cases e1) (auto intro: later.now)
  show ?case
  proof (cases "ev \<in> set (log st1)")
    case True
    with Cons.prems(3,4) have "ev_subject_id ev = fst c \<and> converged E fl st (fst c) (snd c)"
      using convergence_step_no_done [OF s] no_done_old done_by_new by blast
    moreover have "later E st st'" using later_trans [OF rest l] .
    ultimately show ?thesis using later.now Cons.prems(4) by auto
  next
    case False
    with Cons.prems s have "e1 = None" "for_each (convergence_step E fl clk W) cs r1 st1 = (r', e, st')"
      by (auto split: option.split_asm)
    from Cons.IH [OF this(2) Cons.prems(2,3) False] show ?thesis using later_trans [OF _ l] by fastforce
  qed
qed simp

lemma convergenceCandidates_running:
  "c \<in> set (convergenceCandidates st) \<Longrightarrow> \<exists>w \<in> set (t_work_items (proj st)).
     wi_id w = fst c \<and> wi_checks w = snd c \<and> wi_checks w \<noteq> [] \<and> wi_state w = WorkItemRunning"
  by (auto simp: convergenceCandidates_def by_update_def)

lemma scanConvergence_done:
  assumes "scanConvergence E fl clk W st = (r, e, st')"
    and "ev \<in> set (log st')" "done_event ev" "ev \<notin> set (log st)"
  shows "\<exists>w \<in> set (t_work_items (proj st)). \<exists>st2. later E st st2 \<and> later E st2 st' \<and>
    ev \<notin> set (log st2) \<and> ev_subject_id ev = wi_id w \<and> wi_state w = WorkItemRunning \<and> converged E fl st2 (wi_id w) (wi_checks w)"
proof -
  have "st' = st \<or> (\<exists>r0. for_each (convergence_step E fl clk W) (convergenceCandidates st) r0 st = (r, e, st'))"
    using assms(1) by (auto simp: scanConvergence_def Let_def split: option.split_asm)
  then obtain r0 where "for_each (convergence_step E fl clk W) (convergenceCandidates st) r0 st = (r, e, st')"
    using assms(2,4) by auto
  from convergence_loop_done [OF this assms(2-4)] obtain c st2 where c: "c \<in> set (convergenceCandidates st)"
    "later E st st2" "later E st2 st'" "ev \<notin> set (log st2)" "ev_subject_id ev = fst c"
    "converged E fl st2 (fst c) (snd c)" by blast
  from convergenceCandidates_running [OF c(1)] obtain w where "w \<in> set (t_work_items (proj st))"
    "wi_id w = fst c" "wi_checks w = snd c" "wi_state w = WorkItemRunning" by blast
  with c show ?thesis by (intro bexI [of _ w] exI [of _ st2]) simp_all
qed

text \<open>
  C5: The worker completes nothing by itself.  Whether the scan ends well or with an error, a
  transition to done that it adds to the log belongs to an item that was running at some point of the
  scan and converged: at a later point, still before the event, every check of the item passed on its
  signals and none failed, or a verdict that was recorded for exactly these signals and checks had
  accepted already.
\<close>
theorem done_only_by_convergence:
  assumes "ScanOnce E fl clk W now st = (out, e, st')"
    and "ev \<in> set (log st')" "ev \<notin> set (log st)" "ev_kind ev = EventWorkItemTransitioned"
    and "jget (ev_payload ev) ''to'' = JStr WorkItemDone"
  shows "\<exists>st1 st2. later E st st1 \<and> later E st1 st2 \<and> later E st2 st' \<and> ev \<notin> set (log st2) \<and>
    (\<exists>w \<in> set (t_work_items (proj st1)). wi_id w = ev_subject_id ev \<and> wi_state w = WorkItemRunning \<and>
       converged E fl st2 (wi_id w) (wi_checks w))"
proof -
  have d: "done_event ev" using assms(4,5) by (simp add: done_event_def)
  obtain s e1 st1 where 1: "scanScribes E clk W st = (s, e1, st1)" by (rule prod_cases3)
  obtain v e2 st2 where 2: "scanReviews E fl clk W st1 = (v, e2, st2)" by (rule prod_cases3)
  obtain k e3 st3 where 3: "scanDispatch E clk W st2 = (k, e3, st3)" by (rule prod_cases3)
  obtain c e4 st4 where 4: "scanConvergence E fl clk W st3 = (c, e4, st4)" by (rule prod_cases3)
  have "no_done st st3"
    using scanScribes_no_done [OF 1] scanReviews_no_done [OF 2] scanDispatch_no_done [OF 3] by (blast intro: no_done_trans)
  have old: "no_done st x \<Longrightarrow> ev \<notin> set (log x)" for x
    using no_done_old [OF _ _ d] assms(3) by blast
  have to3: "later E st st3" by (rule later_trans [OF scanDispatch_later [OF 3]
        later_trans [OF scanReviews_later [OF 2] scanScribes_later [OF 1]]])
  have "st' \<in> {st1, st2, st3, st4} \<or> (\<exists>cs b. scanBreaches E clk W now cs st4 = (b, e, st'))"
    using assms(1) 1 2 3 4
    by (auto simp: ScanOnce_def Let_def split: if_split_asm option.split_asm sum.split_asm prod.split_asm)
  moreover have "ev \<notin> set (log st1)" "ev \<notin> set (log st2)" "ev \<notin> set (log st3)"
    using old scanScribes_no_done [OF 1] scanReviews_no_done [OF 2] scanDispatch_no_done [OF 3] no_done_trans
    by blast+
  ultimately have tail: "later E st4 st'" "no_done st4 st'" "ev \<notin> set (log st3)"
    using assms(2) by (auto intro: later.now dest: scanBreaches_facts(1) scanBreaches_no_done)
  from no_done_old [OF tail(2) assms(2) d] have "ev \<in> set (log st4)" .
  from scanConvergence_done [OF 4 this d tail(3)] obtain w st5 where "w \<in> set (t_work_items (proj st3))"
    "later E st3 st5" "later E st5 st4" "ev \<notin> set (log st5)" "ev_subject_id ev = wi_id w"
    "wi_state w = WorkItemRunning" "converged E fl st5 (wi_id w) (wi_checks w)" by blast
  with to3 later_trans [OF tail(1)] show ?thesis by metis
qed

text \<open>An item whose verdict was recorded and whose transition is still due.\<close>

definition running_ok :: work_item where
  "running_ok = item7\<lparr>wi_state := WorkItemRunning, wi_checks := [''ok'']\<rparr>"

definition ok_signals :: "signal list" where
  "ok_signals = [\<lparr>sg_kind = ''checklist.item:ok'', sg_model = ''ci'', sg_prompt_version = [], sg_sample_id = [],
     sg_pass = Some True, sg_score = None, sg_raw = []\<rparr>]"

definition ok_verdict :: verdict_record where
  "ok_verdict = \<lparr>vr_attempt = 1,
     vr_digest = digestReductionInputs decimal_ext ok_signals (re_config (AllPassChecklist [''ok''])),
     vr_verdict = verdict_of VerdictAccept ''all 1 required checks passed''\<rparr>"

definition due7 :: db where
  "due7 = \<lparr>log = [], proj = no_tables\<lparr>t_work_items := [running_ok],
     t_signals := [\<lparr>sr_id = 4, sr_received_at = 6, sr_actor = None, sr_source = ''ci'',
       sr_kind = ''checklist.item:ok'', sr_dedupe_key = None, sr_fingerprint = [],
       sr_work_spec = JObj [(''pass'', JBool True)], sr_work_item = Some 7, sr_created_work_item = False\<rparr>],
     t_verdicts := [\<lparr>cv_event = 5, cv_work_item = 7, cv_identity = ''all_pass_checklist'', cv_version = 1,
       cv_attempt = 1, cv_digest = vr_digest ok_verdict, cv_disposition = VerdictAccept,
       cv_reason = ''all 1 required checks passed'', cv_config = JNull, cv_signals = JNull, cv_actor = Some 3,
       cv_source = SourceSystem, cv_at = 7\<rparr>]\<rparr>\<rparr>"

definition accept_spec :: spec where
  "accept_spec = work_item_spec 7 EventWorkItemTransitioned (worker_token worker3) []
     (transition_json WorkItemRunning WorkItemDone
       (convergenceReason ''accept'' 1 ''all 1 required checks passed''))"

lemma due7_signals: "convergenceSignalsForItem fl due7 7 [''ok''] = Inr ok_signals"
  by (simp add: convergenceSignalsForItem_def convergenceSignalsFromEventAppended_def
      convergenceSignalsFromSignalsTable_def convergenceSignalsFromBuiltinQueries_def due7_def no_tables_def
      row_signal_def decode_map_def floats_ok_def toConvergenceSignalFromSignalRow_def parsePass_def parseScore_def
      parseSignalRaw_def parse_text_def ok_signals_def has_prefix_def)

lemma due7_verdict: "latestConvergenceVerdict due7 7 (AllPassChecklist [''ok'']) = Some ok_verdict"
  by (simp add: latestConvergenceVerdict_def latest_verdict_def due7_def no_tables_def ok_verdict_def)

lemma due7_budget: "resolveEventRateBudget due7 7 KindClassLifecycle = Inr (safety_budget 120)"
proof -
  have l: "workItemLaunchMetadata due7 7 = Inr ([], [])"
    by (simp add: workItemLaunchMetadata_def due7_def earliest_event_def)
  have "launch_rule [] = Inr EscalationRuleHandToHuman" by code_simp
  moreover have "map_int (case po_max_events DefaultPolicy of None \<Rightarrow> [] | Some bs \<Rightarrow> bs) KindClassLifecycle = 120"
    by code_simp
  ultimately show ?thesis using l
    by (simp add: resolveEventRateBudget_def cultivar_override_def safety_budget_def Let_def)
qed

lemma due7_transition:
  "\<exists>w st' i. Transition decimal_ext now due7 [] 7 WorkItemDone
     (convergenceReason ''accept'' 1 ''all 1 required checks passed'') (worker_token worker3) = (Inr w, st') \<and>
     log st' = [as_stored (event_of now i accept_spec)] \<and>
     (\<forall>w \<in> set (t_work_items (proj st')). wi_state w = WorkItemDone)"
proof -
  let ?reason = "convergenceReason ''accept'' 1 ''all 1 required checks passed''"
  have valid: "spec_validate accept_spec = None"
    by (simp add: accept_spec_def spec_validate_def sourceForActor_def worker_token_def source_valid_def)
  obtain i where i: "DeterministicID decimal_ext accept_spec = Inr i"
    using valid by (simp add: DeterministicID_def)
  define p where "p = (proj due7)\<lparr>t_work_items := update_row wi_id 7
    (transition_row (event_of now i accept_spec) WorkItemRunning WorkItemDone ?reason) (t_work_items (proj due7))\<rparr>"
  define st' where "st' = \<lparr>log = [as_stored (event_of now i accept_spec)], proj = p\<rparr>"
  have "registry_apply (NewProjectionRegistry decimal_ext) (event_of now i accept_spec) (proj due7) = Inr p"
    by (simp add: registry_apply_kinds workItemTransitionedProjector_def accept_spec_def p_def due7_def
        running_ok_def item7_def no_tables_def guard_err_def need_def state_valid_def)
  then have a: "append_event decimal_ext now accept_spec due7 = Inr st'"
    using i by (simp add: append_event_def app_append_def Append_def st'_def due7_def)
  have "ClassifyEvent (sp_kind accept_spec) (sp_payload accept_spec) = Some KindClassLifecycle" by code_simp
  moreover have "enforceEventRateBudget decimal_ext now due7 running_ok i (sp_kind accept_spec) [] KindClassLifecycle
      (worker_token worker3) = Inr (None, due7)"
    using due7_budget by (simp add: enforceEventRateBudget_def running_ok_def item7_def safety_budget_def
        countedEventsInLastHourByClass_def due7_def)
  ultimately have b: "appendWorkItemEventWithRateBudget decimal_ext now due7 running_ok accept_spec []
      (worker_token worker3) = Inr (None, st')"
    using i a by (simp add: appendWorkItemEventWithRateBudget_def) (simp add: due7_def)
  have g: "get_work_item due7 7 = Inr running_ok" "\<exists>w. get_work_item st' 7 = Inr w"
    "\<forall>w \<in> set (t_work_items (proj st')). wi_state w = WorkItemDone"
    by (simp_all add: get_work_item_Inr st'_def p_def due7_def running_ok_def item7_def update_row_def transition_row_def)
  have "state_valid WorkItemDone" "CanTransition WorkItemRunning WorkItemDone" by code_simp+
  then show ?thesis using g b
    by (auto simp: Transition_def append_and_get_def rollback_def guard_err_def accept_spec_def [symmetric]
        convergenceChecksRequired_def running_ok_def item7_def st'_def)
qed

lemma due7_passes:
  "scanScribes E clk W due7 = (no_spawns, None, due7)"
  "scanReviews E fl clk W due7 = (no_spawns, None, due7)"
  "scanDispatch E clk W due7 = (so_dispatch empty_scan, None, due7)"
  "convergenceCandidates due7 = [(7, [''ok''])]"
  by (simp_all add: scanScribes_def scribeCandidates_def scanReviews_def reviewCandidates_def scanDispatch_def
      dispatchCandidates_def convergenceCandidates_def by_update_def due7_def running_ok_def item7_def
      no_tables_def no_spawns_def empty_scan_def Let_def)

lemma due7_converges:
  "\<exists>r st' i. scanConvergence decimal_ext fl clk worker3 due7 = (r, None, st') \<and>
     log st' = [as_stored (event_of (clk due7) i accept_spec)] \<and>
     (\<forall>w \<in> set (t_work_items (proj st')). wi_state w = WorkItemDone)"
proof -
  obtain w st' i where t: "Transition decimal_ext (clk due7) due7 [] 7 WorkItemDone
      (convergenceReason ''accept'' 1 ''all 1 required checks passed'') (worker_token worker3) = (Inr w, st')"
    and st': "log st' = [as_stored (event_of (clk due7) i accept_spec)]"
      "\<forall>w \<in> set (t_work_items (proj st')). wi_state w = WorkItemDone"
    using due7_transition [of "clk due7"] by blast
  obtain red where red: "Run decimal_ext (AllPassChecklist [''ok'']) ok_signals 2 = Inr red"
    using checklist.Run_total [of 2] by auto
  then have "rd_digest red = vr_digest ok_verdict"
    by (auto simp: Run_def Let_def ok_verdict_def split: if_split_asm)
  then have d: "decideConvergenceStep (Some ok_verdict) red defaultConvergenceBudget = \<lparr>cd_append = False,
      cd_stale = False, cd_outcome = OutcomeAccept, cd_attempt = 1, cd_escalation = [],
      cd_verdict = verdict_of VerdictAccept ''all 1 required checks passed''\<rparr>"
    by (simp add: decideConvergenceStep_def Let_def budget_next_def) (simp add: ok_verdict_def)
  have n: "next_attempt (Some ok_verdict) = 2" by (simp add: next_attempt_def ok_verdict_def)
  have "convergence_step decimal_ext fl clk worker3 (7, [''ok'']) r due7 =
      (r\<lparr>cr_accepts := cr_accepts r + 1\<rparr>, None, st')" for r
    using t by (simp add: convergence_step_def due7_signals due7_verdict n red d act_on_decision_def settle_outcome_def)
  then have "\<exists>r. scanConvergence decimal_ext fl clk worker3 due7 = (r, None, st')"
    by (simp add: scanConvergence_def due7_passes budget_validate_def defaultConvergenceBudget_def
        escalation_valid_def Let_def)
  with st' show ?thesis by blast
qed

theorem done_only_by_convergence_witness:
  "\<exists>out e st' ev. ScanOnce decimal_ext exact clock9 worker3 9 due7 = (out, e, st') \<and> ev \<in> set (log st') \<and>
     ev_subject_id ev = 7 \<and> (\<exists>st1 checks. later decimal_ext st1 st' \<and> ev \<notin> set (log st1) \<and>
       converged decimal_ext exact st1 7 checks)"
proof -
  obtain r st' i where c: "scanConvergence decimal_ext exact clock9 worker3 due7 = (r, None, st')"
    and l: "log st' = [as_stored (event_of (clock9 due7) i accept_spec)]"
    and w: "\<forall>w \<in> set (t_work_items (proj st')). wi_state w = WorkItemDone"
    using due7_converges by blast
  have "breach_rows st' = []" using w by (auto simp: breach_rows_def nonTerminalStates_def filter_empty_conv)
  then have "\<exists>out. ScanOnce decimal_ext exact clock9 worker3 9 due7 = (out, None, st')"
    by (simp add: ScanOnce_def Let_def due7_passes stops_def c breachCandidates_def scanBreaches_def EvaluateBreaches_def)
  then obtain out where s: "ScanOnce decimal_ext exact clock9 worker3 9 due7 = (out, None, st')" by blast
  let ?ev = "as_stored (event_of (clock9 due7) i accept_spec)"
  have ev: "?ev \<in> set (log st')" "?ev \<notin> set (log due7)" "ev_kind ?ev = EventWorkItemTransitioned"
    "jget (ev_payload ?ev) ''to'' = JStr WorkItemDone" "ev_subject_id ?ev = 7"
    using l by (simp_all add: accept_spec_def due7_def)
  from done_only_by_convergence [OF s ev(1-4)] obtain st1 st2 w where x: "later decimal_ext due7 st1"
    "later decimal_ext st1 st2" "later decimal_ext st2 st'" "?ev \<notin> set (log st2)"
    "w \<in> set (t_work_items (proj st1))" "wi_id w = 7" "wi_state w = WorkItemRunning"
    "converged decimal_ext exact st2 (wi_id w) (wi_checks w)" using ev(5) by auto
  have "converged decimal_ext exact st2 7 (wi_checks w)" using x(6,8) by simp
  then show ?thesis using s ev(1,5) x(3,4) by blast
qed

section \<open>Unchanged inputs\<close>

text \<open>A verdict on the same inputs is not taken twice: it is acted on, or it stands.\<close>

lemma convergence_step_known:
  assumes "convergenceSignalsForItem fl st wid checks = Inr sigs"
    and "latestConvergenceVerdict st wid (AllPassChecklist checks) = Some l"
    and "vr_digest l = digestReductionInputs E sigs (re_config (AllPassChecklist checks))" "0 \<le> vr_attempt l"
    and "budget_next defaultConvergenceBudget (vr_verdict l) (vr_attempt l) = (outcome, rule)"
  shows "convergence_step E fl clk W (wid, checks) r st =
    (if outcome = OutcomeRetry then (r\<lparr>cr_stale := cr_stale r + 1\<rparr>, None, st)
     else act_on_decision E clk W wid checks \<lparr>cd_append = False, cd_stale = False, cd_outcome = outcome,
       cd_attempt = vr_attempt l, cd_escalation = rule, cd_verdict = vr_verdict l\<rparr> r st)"
proof -
  obtain red where red: "Run E (AllPassChecklist checks) sigs (vr_attempt l + 1) = Inr red"
    using checklist.Run_total [of "vr_attempt l + 1"] assms(4) by auto
  then have "rd_digest red = vr_digest l" using assms(3) by (auto simp: Run_def Let_def split: if_split_asm)
  then show ?thesis using assms(5) red
    by (simp add: convergence_step_def Let_def assms(1,2) next_attempt_def decideConvergenceStep_def)
qed

text \<open>
  C22: New evidence is needed for a new attempt.  When the latest verdict of a running item rejected it
  on exactly the signals and checks that it has now, and attempts are left, the convergence step counts
  the item as stale and changes nothing: no second verdict, no attempt used up, no transition.
\<close>
theorem stale_inputs_change_nothing:
  assumes "convergenceSignalsForItem fl st wid checks = Inr sigs"
    and "latestConvergenceVerdict st wid (AllPassChecklist checks) = Some l"
    and "vr_digest l = digestReductionInputs E sigs (re_config (AllPassChecklist checks))"
    and "vd_disposition (vr_verdict l) = VerdictReject" "0 \<le> vr_attempt l" "vr_attempt l < 3"
  shows "convergence_step E fl clk W (wid, checks) r st = (r\<lparr>cr_stale := cr_stale r + 1\<rparr>, None, st)"
proof -
  have "budget_next defaultConvergenceBudget (vr_verdict l) (vr_attempt l) = (OutcomeRetry, [])"
    using assms(4,6) by (simp add: budget_next_def budget_exhausted_def defaultConvergenceBudget_def)
  from convergence_step_known [OF assms(1-3,5) this] show ?thesis by simp
qed

lemma set_str_contains: "str_contains s p \<Longrightarrow> set p \<subseteq> set s"
  by (induction s) (auto simp: has_prefix_iff Cons_eq_append_conv)

lemma str_contains_append:
  "str_contains (a @ u) p \<Longrightarrow> p \<noteq> [] \<Longrightarrow> last p \<notin> set u \<Longrightarrow> str_contains a p"
proof (induction a)
  case Nil
  then show ?case using set_str_contains [of u p] last_in_set by fastforce
next
  case (Cons c a)
  have "has_prefix (c # a) p" if h: "has_prefix (c # a @ u) p"
  proof -
    obtain r where r: "c # a @ u = p @ r" using h by (auto simp: has_prefix_iff)
    then obtain us where "c # a = p @ us \<or> p = (c # a) @ us \<and> u = us @ r"
      by (auto simp: append_eq_append_conv2 [of "c # a" u, simplified])
    then show ?thesis using Cons.prems(2,3) by (cases "us = []") (auto simp: has_prefix_iff)
  qed
  with Cons show ?case by auto
qed

lemma append_and_get_repeat:
  assumes "logged E s st" "sp_discriminator s = []"
  shows "append_and_get E now st current s innerKind actor =
    Inl (Err ErrUnexpectedEventDedupe ('': kind='' @ sp_kind s @ '' subject='' @ uuid_string E (sp_subject_id s)))"
  using assms by (auto simp: logged_def append_and_get_def appendWorkItemEventWithRateBudget_def)

definition blocked_spec :: "worker \<Rightarrow> uuid \<Rightarrow> string list \<Rightarrow> spec" where
  "blocked_spec W wid checks = work_item_spec wid EventWorkItemMetadataUpdated (worker_token W) []
     (JObj [(''from'', metadata_json checks HumanReviewBlocked), (''to'', metadata_json checks HumanReviewBlocked)])"

lemma dedupe_not_ignored:
  assumes "CHR ''m'' \<notin> set (uuid_string E wid)"
  shows "\<not> shouldIgnoreConvergenceTransitionError (Err ErrUnexpectedEventDedupe
    ('': kind='' @ EventWorkItemMetadataUpdated @ '' subject='' @ uuid_string E wid))"
proof -
  have "\<not> str_contains (ErrUnexpectedEventDedupe @ '': kind='' @ EventWorkItemMetadataUpdated @ '' subject='')
      ''invalid transition from''" by code_simp
  moreover have "last ''invalid transition from'' = CHR ''m''" by simp
  ultimately have "\<not> str_contains ((ErrUnexpectedEventDedupe @ '': kind='' @ EventWorkItemMetadataUpdated @ '' subject='') @
      uuid_string E wid) ''invalid transition from''" using assms str_contains_append by fastforce
  moreover have "ErrUnexpectedEventDedupe \<noteq> sentinel ErrNotFound" by code_simp
  ultimately show ?thesis
    by (simp add: shouldIgnoreConvergenceTransitionError_def err_is_def err_message_def)
qed


definition no_signals_verdict :: "int \<Rightarrow> verdict_record" where
  "no_signals_verdict n = \<lparr>vr_attempt = n,
     vr_digest = digestReductionInputs decimal_ext [] (re_config (AllPassChecklist [''ok''])),
     vr_verdict = verdict_of VerdictReject ''missing: ok''\<rparr>"

definition rejected7 :: "event list \<Rightarrow> int \<Rightarrow> db" where
  "rejected7 evs n = \<lparr>log = evs, proj = no_tables\<lparr>t_work_items := [running_ok\<lparr>wi_human_review := HumanReviewBlocked\<rparr>],
     t_verdicts := [\<lparr>cv_event = 5, cv_work_item = 7, cv_identity = ''all_pass_checklist'', cv_version = 1,
       cv_attempt = n, cv_digest = vr_digest (no_signals_verdict n), cv_disposition = VerdictReject,
       cv_reason = ''missing: ok'', cv_config = JNull, cv_signals = JNull, cv_actor = Some 3,
       cv_source = SourceSystem, cv_at = 7\<rparr>]\<rparr>\<rparr>"

lemma rejected7_reads:
  assumes "\<forall>e \<in> set evs. ev_kind e \<noteq> EventWorkItemEventAppended"
  shows "convergenceSignalsForItem fl (rejected7 evs n) 7 [''ok''] = Inr []"
    and "latestConvergenceVerdict (rejected7 evs n) 7 (AllPassChecklist [''ok'']) = Some (no_signals_verdict n)"
proof -
  have "filter (is_event SubjectWorkItem 7 EventWorkItemEventAppended) evs = []"
    using assms by (auto simp: is_event_def filter_empty_conv)
  then show "convergenceSignalsForItem fl (rejected7 evs n) 7 [''ok''] = Inr []"
    by (simp add: convergenceSignalsForItem_def convergenceSignalsFromEventAppended_def
        convergenceSignalsFromSignalsTable_def convergenceSignalsFromBuiltinQueries_def rejected7_def no_tables_def
        has_prefix_def)
qed (simp add: latestConvergenceVerdict_def latest_verdict_def rejected7_def no_tables_def no_signals_verdict_def)

theorem stale_inputs_change_nothing_witness:
  "convergence_step decimal_ext exact clock9 worker3 (7, [''ok'']) no_convergence (rejected7 [] 2) =
    (no_convergence\<lparr>cr_stale := 1\<rparr>, None, rejected7 [] 2)"
proof -
  have "vr_digest (no_signals_verdict 2) = digestReductionInputs decimal_ext [] (re_config (AllPassChecklist [''ok'']))"
    "vd_disposition (vr_verdict (no_signals_verdict 2)) = VerdictReject" "vr_attempt (no_signals_verdict 2) = 2"
    by (simp_all add: no_signals_verdict_def)
  from stale_inputs_change_nothing [OF rejected7_reads [of "[]"] this(1,2)] this(3) show ?thesis
    by (simp add: no_convergence_def)
qed


section \<open>Open breaches\<close>

lemma map_rows_take: "map_rows f xs = Inr ys \<Longrightarrow> map_rows f (take n xs) = Inr (take n ys)"
proof (induction xs arbitrary: ys n)
  case (Cons x xs)
  then show ?case by (cases n) (auto simp: bind_err_Inr)
qed simp

lemma filter_rows_agrees:
  "\<forall>x \<in> set xs. \<exists>y. f x = Inr y \<and> g x = Inr (P y) \<Longrightarrow>
   \<exists>ys zs. map_rows f xs = Inr ys \<and> filter_rows g xs = Inr zs \<and> map_rows f zs = Inr (filter P ys)"
  by (induction xs) fastforce+

lemma breach_json_reads [simp]:
  "jobject (breach_json b)" "jget (breach_json b) ''state'' = JStr (bc_state (br_candidate b))"
  "jget (breach_json b) ''budget_seconds'' = jint (br_budget b div second)"
  "jget (breach_json b) ''budget_source'' = JStr (bc_source (br_candidate b))"
  "jget (breach_json b) ''escalation_rule'' = JStr (bc_rule (br_candidate b))"
  "jget (breach_json b) ''state_entered_at_unix'' = jint (unix (bc_entered (br_candidate b)))"
  "jget (breach_json b) ''cultivar'' = JStr (bc_cultivar (br_candidate b))"
  by (simp_all add: breach_json_def Let_def)

lemma jtext_jint: "jget j k = jint i \<Longrightarrow> jtext j k = Some (itoa i)"
  by (simp add: jtext_def jint_def)

lemma attention_reads:
  assumes "ev_payload e = stored_payload (breach_json b)"
  shows "\<exists>a. attention_of st e = Inr a \<and> epoch_matches st e = Inr (at_status a = PatienceAttentionOpen) \<and>
    at_event a = ev_id e \<and> at_item a = ev_subject_id e \<and> at_state a = bc_state (br_candidate b) \<and>
    at_entered_unix a = unix (bc_entered (br_candidate b))"
proof -
  have "jtext (breach_json b) ''state_entered_at_unix'' = Some (itoa (unix (bc_entered (br_candidate b))))"
    "jtext (breach_json b) ''state'' = Some (bc_state (br_candidate b))"
    by (simp add: jtext_jint) (simp add: jtext_def)
  moreover have "jtext (stored_payload (breach_json b)) k = jtext (breach_json b) k" for k
    by (simp add: jtext_def)
  ultimately show ?thesis
    using assms by (auto simp: attention_of_def epoch_matches_def guard_err_def split: option.split)
qed

text \<open>
  C37: The two listings of breaches agree.  For breaches that the worker wrote, the query for open
  attention returns, up to its limit and in the same order, exactly the rows that the full listing
  marks open, so the epoch test of the SQL clause and the one of the Go code never differ.
\<close>
theorem open_attention_agrees:
  assumes "\<forall>e \<in> set (breach_events st). \<exists>b. ev_payload e = stored_payload (breach_json b)"
  shows "\<exists>rows. map at_event rows = map ev_id (breach_events st) \<and>
    ListPatienceAttention st limit True = Inr (take (nat (attention_limit limit)) rows) \<and>
    ListPatienceAttention st limit False =
      Inr (take (nat (attention_limit limit)) (filter (\<lambda>a. at_status a = PatienceAttentionOpen) rows))"
proof -
  have ok: "\<forall>e \<in> set (breach_events st). \<exists>a. attention_of st e = Inr a \<and>
      epoch_matches st e = Inr (at_status a = PatienceAttentionOpen)"
    using assms attention_reads by blast
  obtain rows open_events where r: "map_rows (attention_of st) (breach_events st) = Inr rows"
    "filter_rows (epoch_matches st) (breach_events st) = Inr open_events"
    "map_rows (attention_of st) open_events = Inr (filter (\<lambda>a. at_status a = PatienceAttentionOpen) rows)"
    using filter_rows_agrees [OF ok] by blast
  have "map_rows (attention_of st) es = Inr rs \<Longrightarrow> map at_event rs = map ev_id es" for es rs
    by (induction es arbitrary: rs) (auto simp: bind_err_Inr attention_of_def Let_def)
  with r map_rows_take [OF r(1)] map_rows_take [OF r(3)] show ?thesis
    by (intro exI [of _ rows]) (simp add: ListPatienceAttention_def)
qed

definition breached_log :: db where
  "breached_log = \<lparr>log = [as_stored (event_of 9 1 (breach_spec worker3 breach7)),
       as_stored (event_of 9 2 (breach_spec worker3 (breach7\<lparr>br_candidate := (br_candidate breach7)\<lparr>bc_state := WorkItemTriaged\<rparr>\<rparr>)))],
     proj = no_tables\<lparr>t_work_items := [item7]\<rparr>\<rparr>"

theorem open_attention_agrees_witness:
  "\<exists>rows. length rows = 2 \<and> ListPatienceAttention breached_log 10 False =
    Inr (take (nat (attention_limit 10)) (filter (\<lambda>a. at_status a = PatienceAttentionOpen) rows))"
proof -
  have b: "breach_events breached_log = rev (log breached_log)"
    by (simp add: breach_events_def breached_log_def breach_spec_def worker_spec_def)
  have "\<forall>e \<in> set (breach_events breached_log). \<exists>b. ev_payload e = stored_payload (breach_json b)"
    unfolding b by (auto simp: breached_log_def breach_spec_def worker_spec_def)
  from open_attention_agrees [OF this, of 10] obtain rows where r: "map at_event rows = map ev_id (breach_events breached_log)"
    "ListPatienceAttention breached_log 10 False =
      Inr (take (nat (attention_limit 10)) (filter (\<lambda>a. at_status a = PatienceAttentionOpen) rows))" by blast
  have "length (map at_event rows) = 2" unfolding r(1) b by (simp add: breached_log_def)
  with r(2) show ?thesis by auto
qed

end
