(* ===== verification/Jobqueue.thy ===== *)
theory Jobqueue
  imports Frames Leases
begin

text \<open>
  internal/jobqueue/jobqueue.go: leases on the rows of the job queue.  A claim sees the ids that
  other transactions hold locked (FOR UPDATE SKIP LOCKED) and takes the oldest ready job that is
  not among them.
\<close>

abbreviation JobLeased :: string where "JobLeased \<equiv> ''leased''"
abbreviation JobDone :: string where "JobDone \<equiv> ''done''"
abbreviation JobFailed :: string where "JobFailed \<equiv> ''failed''"
abbreviation JobCanceled :: string where "JobCanceled \<equiv> ''canceled''"

definition ErrInvalidLease :: err where
  "ErrInvalidLease = Err ''jobqueue: lease duration must be positive'' []"
definition ErrNoRows :: err where
  "ErrNoRows = Err ''no rows in result set'' []"

definition millisecond :: time where "millisecond = 1000000"

section \<open>Operations\<close>

definition job_ready :: "time \<Rightarrow> job \<Rightarrow> bool" where
  "job_ready now j \<longleftrightarrow> jb_state j = JobPending \<or>
     jb_state j = JobLeased \<and> (case jb_lease_until j of None \<Rightarrow> False | Some u \<Rightarrow> u \<le> now)"

definition job_before :: "job \<Rightarrow> job \<Rightarrow> bool" where
  "job_before a b \<longleftrightarrow> jb_created_at a < jb_created_at b \<or>
     jb_created_at a = jb_created_at b \<and> jb_id a \<le> jb_id b"

definition lease_job :: "time \<Rightarrow> int \<Rightarrow> job \<Rightarrow> job" where
  "lease_job now leaseMillis j = j\<lparr>jb_state := JobLeased, jb_attempts := jb_attempts j + 1,
     jb_lease_until := Some (now + leaseMillis * millisecond), jb_updated_at := now\<rparr>"

definition claimNextInTx :: "time \<Rightarrow> uuid set \<Rightarrow> int \<Rightarrow> job list \<Rightarrow> job option \<times> job list" where
  "claimNextInTx now locked leaseMillis jobs =
     (case first_by job_before (filter (\<lambda>j. job_ready now j \<and> jb_id j \<notin> locked) jobs) of
        None \<Rightarrow> (None, jobs)
      | Some j \<Rightarrow> (Some (lease_job now leaseMillis j),
          update_row jb_id (jb_id j) (lease_job now leaseMillis) jobs))"

definition ClaimNext :: "time \<Rightarrow> uuid set \<Rightarrow> time \<Rightarrow> job list \<Rightarrow> (err + job option) \<times> job list" where
  "ClaimNext now locked lease jobs =
     (if lease \<le> 0 then (Inl ErrInvalidLease, jobs)
      else
        let millis0 = lease div millisecond; millis = (if millis0 \<le> 0 then 1 else millis0)
        in case claimNextInTx now locked millis jobs of (r, jobs') \<Rightarrow> (Inr r, jobs'))"

definition markTerminal :: "time \<Rightarrow> string \<Rightarrow> uuid \<Rightarrow> job list \<Rightarrow> err option \<times> job list" where
  "markTerminal now state i jobs =
     (if list_ex (\<lambda>j. jb_id j = i \<and> jb_state j = JobLeased) jobs
      then (None, update_row jb_id i (\<lambda>j. if jb_state j = JobLeased
          then j\<lparr>jb_state := state, jb_lease_until := None, jb_updated_at := now\<rparr> else j) jobs)
      else (Some ErrNoRows, jobs))"

definition MarkDone :: "time \<Rightarrow> uuid \<Rightarrow> job list \<Rightarrow> err option \<times> job list" where
  "MarkDone now i jobs = markTerminal now JobDone i jobs"
definition MarkFailed :: "time \<Rightarrow> uuid \<Rightarrow> job list \<Rightarrow> err option \<times> job list" where
  "MarkFailed now i jobs = markTerminal now JobFailed i jobs"
definition MarkCanceled :: "time \<Rightarrow> uuid \<Rightarrow> job list \<Rightarrow> err option \<times> job list" where
  "MarkCanceled now i jobs = markTerminal now JobCanceled i jobs"

section \<open>Claims\<close>

lemma job_before_total: "job_before a b \<or> job_before b a"
  by (auto simp: job_before_def)

lemma job_before_trans: "job_before a b \<Longrightarrow> job_before b c \<Longrightarrow> job_before a c"
  by (auto simp: job_before_def)

lemma oldest_job_least: "first_by job_before js = Some j \<Longrightarrow> k \<in> set js \<Longrightarrow> job_before j k"
  by (rule first_by_least [OF job_before_total]) (auto intro: job_before_trans)

lemma jb_id_lease_job [simp]: "jb_id (lease_job now m j) = jb_id j"
  by (simp add: lease_job_def)

lemma claim_cases:
  assumes "ClaimNext now locked lease jobs = (Inr r, jobs')"
  obtains (idle) "r = None" "jobs' = jobs" "0 < lease"
      "\<forall>j \<in> set jobs. job_ready now j \<longrightarrow> jb_id j \<in> locked"
  | (claimed) j m where "0 < lease" "0 < m" "m * millisecond \<le> max lease millisecond"
      "j \<in> set jobs" "job_ready now j" "jb_id j \<notin> locked"
      "\<forall>k \<in> set jobs. job_ready now k \<longrightarrow> jb_id k \<notin> locked \<longrightarrow> job_before j k"
      "r = Some (lease_job now m j)" "jobs' = update_row jb_id (jb_id j) (lease_job now m) jobs"
proof -
  define m where "m = (if lease div millisecond \<le> 0 then 1 else lease div millisecond)"
  have pos: "0 < lease" using assms by (auto simp: ClaimNext_def split: if_splits)
  have m: "0 < m" by (simp add: m_def)
  have le: "m * millisecond \<le> max lease millisecond"
    by (auto simp: m_def millisecond_def)
  have c: "claimNextInTx now locked m jobs = (r, jobs')"
    using assms pos by (auto simp: ClaimNext_def m_def Let_def split: prod.splits)
  show thesis
  proof (cases "first_by job_before (filter (\<lambda>j. job_ready now j \<and> jb_id j \<notin> locked) jobs)")
    case None
    then have "\<forall>j \<in> set jobs. job_ready now j \<longrightarrow> jb_id j \<in> locked"
      by (auto simp: filter_empty_conv)
    with c None pos show thesis by (intro idle) (auto simp: claimNextInTx_def)
  next
    case (Some j)
    have "j \<in> set jobs" "job_ready now j" "jb_id j \<notin> locked"
      "\<forall>k \<in> set jobs. job_ready now k \<longrightarrow> jb_id k \<notin> locked \<longrightarrow> job_before j k"
      using first_by_member [OF Some] oldest_job_least [OF Some] by auto
    with c Some pos m le show thesis by (intro claimed) (auto simp: claimNextInTx_def)
  qed
qed

section \<open>Runs of the queue\<close>

text \<open>
  What workers and the dispatch projector do to the queue.  Locked is the set of row ids that
  other open transactions hold, which SKIP LOCKED skips; it is arbitrary.
\<close>

datatype job_op =
    ClaimJob "uuid set" time
  | FinishJob string uuid
  | DispatchJob event

definition job_step :: "time \<Rightarrow> job_op \<Rightarrow> job list \<Rightarrow> (uuid \<times> time) option \<times> job list" where
  "job_step now op jobs = (case op of
     ClaimJob locked lease \<Rightarrow> (case ClaimNext now locked lease jobs of
         (Inr (Some j), jobs') \<Rightarrow> (map_option (Pair (jb_id j)) (jb_lease_until j), jobs')
       | (_, jobs') \<Rightarrow> (None, jobs'))
   | FinishJob state i \<Rightarrow> (None, snd (
       if state = JobDone then MarkDone now i jobs
       else if state = JobFailed then MarkFailed now i jobs else MarkCanceled now i jobs))
   | DispatchJob ev \<Rightarrow> (None, (case dispatchRequestedProjector ev (no_tables\<lparr>t_jobs := jobs\<rparr>) of
         Inl _ \<Rightarrow> jobs | Inr t \<Rightarrow> t_jobs t)))"

definition job_held :: "job \<Rightarrow> time option" where
  "job_held j = (if jb_state j = JobLeased then jb_lease_until j else None)"

definition job_closed :: "job \<Rightarrow> bool" where
  "job_closed j \<longleftrightarrow> jb_state j \<in> {JobDone, JobFailed, JobCanceled}"

lemma jb_id_terminal [simp]:
  "jb_id (if jb_state j = JobLeased then j\<lparr>jb_state := s, jb_lease_until := None, jb_updated_at := n\<rparr>
     else j) = jb_id j"
  by simp

lemma markTerminal_map_id [simp]: "map jb_id (snd (markTerminal now s i jobs)) = map jb_id jobs"
  by (simp add: markTerminal_def)

lemma markTerminal_get_row:
  "get_row jb_id k (snd (markTerminal now s i jobs)) =
     map_option (\<lambda>j. if k = i \<and> jb_state j = JobLeased
       then j\<lparr>jb_state := s, jb_lease_until := None, jb_updated_at := now\<rparr> else j) (get_row jb_id k jobs)"
proof (cases "get_row jb_id k jobs")
  case (Some j)
  with get_row_Some [OF Some] show ?thesis
    by (auto simp: markTerminal_def list_ex_iff)
qed (auto simp: markTerminal_def)

lemma ClaimNext_error: "ClaimNext now locked lease jobs = (Inl e, jobs') \<Longrightarrow> jobs' = jobs"
  by (auto simp: ClaimNext_def Let_def split: if_splits prod.splits)

lemma job_claim_cases:
  assumes "job_step now (ClaimJob locked lease) jobs = (g, jobs')"
  obtains (none) "g = None" "jobs' = jobs"
  | (some) j m where "j \<in> set jobs" "job_ready now j" "0 < m"
      "g = Some (jb_id j, now + m * millisecond)"
      "jobs' = update_row jb_id (jb_id j) (lease_job now m) jobs"
proof -
  obtain r jobs1 where c: "ClaimNext now locked lease jobs = (r, jobs1)" by fastforce
  show thesis
  proof (cases r)
    case (Inl e)
    with c assms ClaimNext_error [of now locked lease jobs e jobs1] none show thesis
      by (auto simp: job_step_def)
  next
    case (Inr o1)
    with c have "ClaimNext now locked lease jobs = (Inr o1, jobs1)" by simp
    then show thesis
    proof (cases rule: claim_cases)
      case idle
      with assms c Inr none show thesis by (auto simp: job_step_def)
    next
      case (claimed j m)
      with assms c Inr some show thesis by (auto simp: job_step_def lease_job_def)
    qed
  qed
qed

lemma job_ready_not_held: "job_ready now j \<Longrightarrow> job_held j = Some v \<Longrightarrow> v \<le> now"
  by (auto simp: job_ready_def job_held_def split: if_splits option.splits)

lemma job_ready_open: "job_ready now j \<Longrightarrow> \<not> job_closed j"
  by (auto simp: job_ready_def job_closed_def)

lemma job_held_lease_job [simp]: "job_held (lease_job now m j) = Some (now + m * millisecond)"
  by (simp add: job_held_def lease_job_def)

lemma job_finish:
  "job_step now (FinishJob s i) jobs = (None, snd (markTerminal now
     (if s = JobDone then JobDone else if s = JobFailed then JobFailed else JobCanceled) i jobs))"
  by (simp add: job_step_def MarkDone_def MarkFailed_def MarkCanceled_def)

lemma job_dispatch_cases:
  assumes "job_step now (DispatchJob ev) jobs = (g, jobs')"
  obtains "g = None" "jobs' = jobs" | r where "g = None" "jobs' = insert_row jb_id r jobs"
  using assms by (auto simp: job_step_def dispatchRequestedProjector_def Let_def split: if_splits)

interpretation jq: leased_queue jb_id job_held job_closed job_step
proof
  fix rows now op i u rows'
  assume d: "distinct (map jb_id rows)" and st: "job_step now op rows = (Some (i, u), rows')"
  then obtain locked lease where [simp]: "op = ClaimJob locked lease"
    by (cases op) (auto simp: job_step_def)
  from st show "\<exists>j j'. get_row jb_id i rows = Some j \<and> get_row jb_id i rows' = Some j' \<and>
      \<not> job_closed j \<and> (\<forall>v. job_held j = Some v \<longrightarrow> v \<le> now) \<and> job_held j' = Some u"
    unfolding \<open>op = _\<close>
    by (cases rule: job_claim_cases)
      (auto simp: distinct_get_row [OF d] dest: job_ready_not_held job_ready_open)
next
  fix rows now op g rows' i j
  assume d: "distinct (map jb_id rows)" and st: "job_step now op rows = (g, rows')"
    and j: "get_row jb_id i rows = Some j" and g: "map_option fst g \<noteq> Some i"
  show "\<exists>j'. get_row jb_id i rows' = Some j' \<and> (job_closed j \<longrightarrow> job_closed j') \<and>
      (\<forall>u. job_held j = Some u \<longrightarrow> job_held j' = Some u \<or> job_closed j')"
  proof (cases op)
    case (ClaimJob locked lease)
    from st show ?thesis unfolding ClaimJob
      by (cases rule: job_claim_cases) (use j g in auto)
  next
    case (FinishJob s k)
    define e where "e = (if s = JobDone then JobDone else if s = JobFailed then JobFailed else JobCanceled)"
    have e: "e \<in> {JobDone, JobFailed, JobCanceled}" by (simp add: e_def)
    define j' where "j' = (if i = k \<and> jb_state j = JobLeased
      then j\<lparr>jb_state := e, jb_lease_until := None, jb_updated_at := now\<rparr> else j)"
    have "get_row jb_id i rows' = Some j'"
      using st j FinishJob by (auto simp: job_finish markTerminal_get_row e_def [symmetric] j'_def)
    moreover have "job_closed j \<Longrightarrow> job_closed j'" "job_held j = Some u \<Longrightarrow> job_held j' = Some u \<or> job_closed j'" for u
      using e by (auto simp: j'_def job_closed_def job_held_def split: if_splits)
    ultimately show ?thesis by blast
  next
    case (DispatchJob ev)
    from st show ?thesis unfolding DispatchJob
      by (cases rule: job_dispatch_cases) (use j in auto)
  qed
next
  fix rows now op g rows'
  assume d: "distinct (map jb_id rows)" and st: "job_step now op rows = (g, rows')"
  show "distinct (map jb_id rows')"
  proof (cases op)
    case (ClaimJob locked lease)
    from st show ?thesis unfolding ClaimJob
      by (cases rule: job_claim_cases) (use d in auto)
  next
    case (FinishJob s k)
    with st d show ?thesis by (auto simp: job_finish)
  next
    case (DispatchJob ev)
    from st show ?thesis unfolding DispatchJob
      by (cases rule: job_dispatch_cases) (use d in auto)
  qed
qed

text \<open>A queue with two pending jobs and one whose lease ran out at time 5000000.\<close>

definition waiting_job :: "nat \<Rightarrow> time \<Rightarrow> job" where
  "waiting_job n at = \<lparr>jb_id = of_nat n, jb_kind = KindDispatch, jb_work_item = 7, jb_state = JobPending,
     jb_payload = JObj [], jb_attempts = 0, jb_lease_until = None, jb_created_at = at,
     jb_updated_at = at\<rparr>"

definition queue3 :: "job list" where
  "queue3 = [waiting_job 1 300, waiting_job 2 200,
     (waiting_job 3 100)\<lparr>jb_state := JobLeased, jb_attempts := 1, jb_lease_until := Some 5000000\<rparr>]"

text \<open>Two workers: the second finds the oldest job locked, then leased; later it has expired.\<close>

definition queue3_ops :: "(time \<times> job_op) list" where
  "queue3_ops = [(6000000, ClaimJob {} 3000000), (6000000, ClaimJob {3} 3000000),
     (7000000, FinishJob JobDone 2), (9000000, ClaimJob {} 3000000), (9000001, ClaimJob {} 3000000)]"

lemma queue3_run:
  "fst (run_queue job_step queue3_ops queue3) =
     [(6000000, 3, 9000000), (6000000, 2, 9000000), (9000000, 3, 12000000), (9000001, 1, 12000001)]"
  by code_simp

text \<open>C25: However many workers claim, finish and dispatch jobs, in whatever order: a job that was
  claimed is not claimed again before the lease of that claim has run out.\<close>

theorem job_leases_disjoint:
  assumes "run_queue job_step ops jobs = (grants, jobs')"
    and "distinct (map jb_id jobs)" and "sorted (map fst ops)"
  shows "leases_disjoint grants"
  using jq.run_leases_disjoint [OF assms] .

theorem job_leases_disjoint_witness:
  "\<exists>grants. length grants = 4 \<and> fst (run_queue job_step queue3_ops queue3) = grants \<and>
     leases_disjoint grants"
proof -
  have "distinct (map jb_id queue3)" by code_simp
  moreover have "sorted (map fst queue3_ops)" by code_simp
  ultimately show ?thesis
    using job_leases_disjoint [where ops = queue3_ops and jobs = queue3, OF prod.collapse [symmetric]] queue3_run by simp
qed

text \<open>A job marked done, failed or canceled is never claimed again.\<close>

theorem finished_job_never_claimed:
  assumes "run_queue job_step ops jobs = (grants, jobs')"
    and "distinct (map jb_id jobs)"
    and "get_row jb_id i jobs = Some j" and "jb_state j \<in> {JobDone, JobFailed, JobCanceled}"
  shows "(t, i, u) \<notin> set grants"
  using jq.closed_never_granted [OF assms(1-3)] assms(4) by (simp add: job_closed_def)

theorem finished_job_never_claimed_witness:
  "(9000000, 1, 12000000) \<notin> set (fst (run_queue job_step queue3_ops
     [waiting_job 2 200, (waiting_job 1 100)\<lparr>jb_state := JobDone\<rparr>]))"
  by (rule finished_job_never_claimed [where j = "(waiting_job 1 100)\<lparr>jb_state := JobDone\<rparr>"])
    (auto simp: waiting_job_def get_row_def prod_eq_iff)

text \<open>A claim with a positive lease takes exactly the oldest ready job that no other
  transaction has locked, leases it for at least a millisecond, counts the attempt and changes no
  other job; it comes back empty exactly when every ready job is locked.\<close>

theorem claim_takes_oldest:
  assumes "ClaimNext now locked lease jobs = (Inr r, jobs')"
  shows "case r of
      None \<Rightarrow> jobs' = jobs \<and> list_all (\<lambda>j. \<not> job_ready now j \<or> jb_id j \<in> locked) jobs
    | Some j' \<Rightarrow> (\<exists>j \<in> set jobs. job_ready now j \<and> jb_id j \<notin> locked \<and> jb_id j' = jb_id j \<and>
        list_all (\<lambda>k. \<not> job_ready now k \<or> jb_id k \<in> locked \<or> job_before j k) jobs \<and>
        jb_attempts j' = jb_attempts j + 1 \<and> jb_state j' = JobLeased \<and>
        (\<exists>u \<ge> now + millisecond. jb_lease_until j' = Some u \<and> u \<le> now + max lease millisecond) \<and>
        filter (\<lambda>k. jb_id k \<noteq> jb_id j) jobs' = filter (\<lambda>k. jb_id k \<noteq> jb_id j) jobs)"
  using assms
proof (cases rule: claim_cases)
  case idle
  then show ?thesis by (auto simp: list_all_iff)
next
  case (claimed j m)
  have "1 * millisecond \<le> m * millisecond"
    using claimed(2) by (intro mult_right_mono) (auto simp: millisecond_def)
  moreover have "filter (\<lambda>k. jb_id k \<noteq> jb_id j) (update_row jb_id (jb_id j) f jobs) =
      filter (\<lambda>k. jb_id k \<noteq> jb_id j) jobs" if "\<And>k. jb_id (f k) = jb_id k" for f :: "job \<Rightarrow> job"
    by (induction jobs) (auto simp: update_row_def that)
  ultimately show ?thesis
    using claimed by (auto simp: list_all_iff lease_job_def intro!: bexI [of _ j])
qed

theorem claim_takes_oldest_witness:
  "\<exists>j. fst (ClaimNext 6000000 {3} 3000000 queue3) = Inr (Some j) \<and> jb_id j = 2 \<and>
     jb_attempts j = 1 \<and> (\<exists>k \<in> set queue3. jb_id j = jb_id k)"
proof -
  define j where "j = lease_job 6000000 3 (waiting_job 2 200)"
  have c: "ClaimNext 6000000 {3} 3000000 queue3 =
      (Inr (Some j), update_row jb_id 2 (lease_job 6000000 3) queue3)"
    unfolding j_def by code_simp
  have "jb_id j = 2 \<and> jb_attempts j = 1" unfolding j_def by code_simp
  with c claim_takes_oldest [OF c] show ?thesis by auto
qed

end
