(* ===== verification/Approvals.thy ===== *)
theory Approvals
  imports WorkitemProperties
begin

text \<open>
  internal/approvals/service.go: the default-deny decision on an external side effect.  Creating
  an approval moves its work item to awaiting_approval; a decision by another human moves it on.
  Every operation is one transaction; the clock of the service (time.Now) and the clock of the
  database (now()) are separate arguments, and so is the id that newSubjectID draws.
\<close>

definition ErrApprovalNotFound :: err where
  "ErrApprovalNotFound = Err ''approvals: not found'' []"
definition ErrActorRequired :: err where
  "ErrActorRequired = Err ''approvals: actor token is required'' []"
definition ErrInvalidApproval :: string where
  "ErrInvalidApproval = ''approvals: invalid request''"
definition ErrHumanDecisionToken :: err where
  "ErrHumanDecisionToken = Err ''approvals: decision requires a human non-root token'' []"
definition ErrSeparationOfDuties :: err where
  "ErrSeparationOfDuties = Err ''approvals: requesting token cannot decide the same approval'' []"
definition ErrAlreadyDecided :: err where
  "ErrAlreadyDecided = Err ''approvals: approval already decided'' []"
definition ErrInvalidDecision :: err where
  "ErrInvalidDecision = Err ''approvals: invalid decision'' []"

record approval_input =
  an_approval :: uuid
  an_work_item :: uuid
  an_summary :: string
  an_request :: json
  an_expires_in :: time
  an_actor :: token

record decision_input =
  dn_approval :: uuid
  dn_decision :: string
  dn_reason :: string
  dn_actor :: token

record approval_result =
  ar_approval :: approval
  ar_fresh :: bool
  ar_event :: uuid

section \<open>Reads\<close>

definition GetApproval :: "db \<Rightarrow> uuid \<Rightarrow> err + approval" where
  "GetApproval st i = (case get_row ap_id i (t_approvals (proj st)) of
     Some a \<Rightarrow> Inr a | None \<Rightarrow> Inl ErrApprovalNotFound)"

definition ListForWorkItem :: "db \<Rightarrow> uuid \<Rightarrow> approval list" where
  "ListForWorkItem st wid =
     rev (sort_key ap_updated_at (sort_key (\<lambda>a. unat (ap_id a))
       (filter (\<lambda>a. ap_work_item a = wid) (t_approvals (proj st)))))"

definition item_state :: "db \<Rightarrow> uuid \<Rightarrow> err + string" where
  "item_state st wid = (case get_row wi_id wid (t_work_items (proj st)) of
     Some w \<Rightarrow> Inr (wi_state w) | None \<Rightarrow> Inl ErrApprovalNotFound)"

section \<open>Create\<close>

definition approval_spec :: "uuid \<Rightarrow> string \<Rightarrow> token \<Rightarrow> string \<Rightarrow> json \<Rightarrow> spec" where
  "approval_spec i kind actor disc payload =
     \<lparr>sp_subject_kind = SubjectApproval, sp_subject_id = i, sp_kind = kind,
      sp_source = sourceForActor actor, sp_actor = Some (tok_id actor), sp_payload = payload,
      sp_discriminator = disc\<rparr>"

definition created_json :: "ext \<Rightarrow> uuid \<Rightarrow> string \<Rightarrow> json \<Rightarrow> time \<Rightarrow> json" where
  "created_json E wid summary request expiresAt =
     JObj [(''work_item_id'', juid E wid), (''summary'', JStr summary), (''request'', request),
       (''expires_at'', JStr (time_format E expiresAt))]"

definition approval_expiry :: "time \<Rightarrow> time \<Rightarrow> time" where
  "approval_expiry clock expiresIn =
     (let t = clock + (if expiresIn \<le> 0 then hour else expiresIn) in t - t mod 1000)"

definition CreateInTx ::
  "ext \<Rightarrow> time \<Rightarrow> time \<Rightarrow> db \<Rightarrow> string \<Rightarrow> uuid \<Rightarrow> approval_input \<Rightarrow> err + uuid \<times> uuid \<times> bool \<times> db"
where
  "CreateInTx E now clock st disc drawn inp =
     (let actor = an_actor inp; wid = an_work_item inp; summary = trim_space (an_summary inp);
          request = (if an_request inp = JNull then JObj [] else an_request inp);
          i = (if an_approval inp = uuid_nil then drawn else an_approval inp) in
     bind_err (guard_err (tok_id actor \<noteq> uuid_nil) ErrActorRequired) (\<lambda>_.
     bind_err (guard_err (wid \<noteq> uuid_nil) (Err ErrInvalidApproval '': work_item_id is required'')) (\<lambda>_.
     bind_err (guard_err (summary \<noteq> []) (Err ErrInvalidApproval '': summary is required'')) (\<lambda>_.
     bind_err (item_state st wid) (\<lambda>state.
     bind_err (guard_err (\<not> state_terminal state) (Err ErrInvalidApproval
       ('': cannot request approval for terminal work item '' @ uuid_string E wid))) (\<lambda>_.
     bind_err (app_append E now st (approval_spec i EventApprovalCreated actor []
       (created_json E wid summary request (approval_expiry clock (an_expires_in inp)))))
       (\<lambda>(eventID, fresh, st1).
     bind_err (if state \<noteq> WorkItemAwaitingApproval
       then append_event E now (work_item_spec wid EventWorkItemTransitioned actor disc
         (transition_json state WorkItemAwaitingApproval (''approval requested: '' @ summary))) st1
       else Inr st1) (\<lambda>st2.
     Inr (i, eventID, fresh, st2)))))))))"

definition CreateApproval ::
  "ext \<Rightarrow> time \<Rightarrow> time \<Rightarrow> db \<Rightarrow> string \<Rightarrow> uuid \<Rightarrow> approval_input \<Rightarrow> approval_result outcome"
where
  "CreateApproval E now clock st disc drawn inp =
     rollback st (bind_err (CreateInTx E now clock st disc drawn inp) (\<lambda>(i, eventID, fresh, st').
       Inr (map_sum id (\<lambda>a. \<lparr>ar_approval = a, ar_fresh = fresh, ar_event = eventID\<rparr>)
         (GetApproval st' i), st')))"

section \<open>Decide and expire\<close>

definition appendApprovalTransition ::
  "ext \<Rightarrow> time \<Rightarrow> db \<Rightarrow> token \<Rightarrow> uuid \<Rightarrow> string \<Rightarrow> string \<Rightarrow> string \<Rightarrow> err + db"
where
  "appendApprovalTransition E now st actor wid dest reason disc =
     bind_err (item_state st wid) (\<lambda>state.
     if state = dest then Inr st
     else if \<not> CanTransition state dest
     then Inl (Err [] (''approvals: invalid work item transition from '' @ state @ '' to '' @ dest))
     else append_event E now (work_item_spec wid EventWorkItemTransitioned actor disc
       (transition_json state dest reason)) st)"

definition settle ::
  "ext \<Rightarrow> time \<Rightarrow> db \<Rightarrow> string \<Rightarrow> token \<Rightarrow> approval \<Rightarrow> string \<Rightarrow> json \<Rightarrow> string \<Rightarrow> string \<Rightarrow>
   err + approval_result outcome"
where
  "settle E now st disc actor current kind payload dest stateReason =
     bind_err (app_append E now st (approval_spec (ap_id current) kind actor disc payload))
       (\<lambda>(eventID, fresh, st1).
     bind_err (appendApprovalTransition E now st1 actor (ap_work_item current) dest stateReason disc) (\<lambda>st2.
     Inr (map_sum id (\<lambda>a. \<lparr>ar_approval = a, ar_fresh = fresh, ar_event = eventID\<rparr>)
       (GetApproval st2 (ap_id current)), st2)))"

definition DecideApproval ::
  "ext \<Rightarrow> time \<Rightarrow> db \<Rightarrow> string \<Rightarrow> decision_input \<Rightarrow> approval_result outcome"
where
  "DecideApproval E now st disc inp = rollback st
     (let actor = dn_actor inp; decision = dn_decision inp in
     bind_err (guard_err (tok_id actor \<noteq> uuid_nil) ErrActorRequired) (\<lambda>_.
     bind_err (guard_err (\<not> tok_is_root actor \<and> tok_source actor = SourceHuman)
       ErrHumanDecisionToken) (\<lambda>_.
     bind_err (guard_err (dn_approval inp \<noteq> uuid_nil) (Err [] ''approvals: approval_id is required'')) (\<lambda>_.
     bind_err (guard_err (decision = DecisionApproved \<or> decision = DecisionDenied)
       ErrInvalidDecision) (\<lambda>_.
     bind_err (GetApproval st (dn_approval inp)) (\<lambda>current.
     bind_err (guard_err (ap_requested_by current \<noteq> Some (tok_id actor)) ErrSeparationOfDuties) (\<lambda>_.
     if ap_status current \<noteq> StatusPending
     then (if ap_decision current = Some decision
       then Inr (Inr \<lparr>ar_approval = current, ar_fresh = False, ar_event = uuid_nil\<rparr>, st)
       else Inl ErrAlreadyDecided)
     else settle E now st disc actor current EventApprovalDecided
       (JObj [(''work_item_id'', juid E (ap_work_item current)), (''decision'', JStr decision),
          (''reason'', JStr (trim_space (dn_reason inp)))])
       (if decision = DecisionDenied then WorkItemFailed else WorkItemRunning)
       (if decision = DecisionDenied then ''approval_denied'' else ''approval_approved''))))))))"

definition ExpireApproval ::
  "ext \<Rightarrow> time \<Rightarrow> db \<Rightarrow> string \<Rightarrow> uuid \<Rightarrow> string \<Rightarrow> token \<Rightarrow> approval_result outcome"
where
  "ExpireApproval E now st disc i reason0 actor = rollback st
     (bind_err (guard_err (tok_id actor \<noteq> uuid_nil) ErrActorRequired) (\<lambda>_.
     bind_err (guard_err (i \<noteq> uuid_nil) (Err [] ''approvals: approval_id is required'')) (\<lambda>_.
     bind_err (GetApproval st i) (\<lambda>current.
     if ap_status current \<noteq> StatusPending
     then (if ap_status current = DecisionExpired
       then Inr (Inr \<lparr>ar_approval = current, ar_fresh = False, ar_event = uuid_nil\<rparr>, st)
       else Inl ErrAlreadyDecided)
     else
       let trimmed = trim_space reason0;
           reason = (if trimmed = [] then ''approval_expired'' else trimmed)
       in settle E now st disc actor current EventApprovalExpired
         (JObj [(''work_item_id'', juid E (ap_work_item current)), (''reason'', JStr reason)])
         WorkItemBlocked ''approval_expired''))))"

section \<open>What an operation does to the approvals\<close>

definition approval_kinds :: "string list" where
  "approval_kinds = [EventApprovalCreated, EventApprovalDecided, EventApprovalExpired]"

text \<open>The abstract life of one approval: it is pending until one decision replaces it.\<close>

definition may_decide :: "approval \<Rightarrow> event \<Rightarrow> string \<Rightarrow> bool" where
  "may_decide a ev decision \<longleftrightarrow> decision = DecisionExpired \<or>
     (decision = DecisionApproved \<or> decision = DecisionDenied) \<and> ev_source ev = SourceHuman \<and>
     ev_actor ev \<noteq> None \<and> ev_actor ev \<noteq> ap_requested_by a"

inductive approvals_move :: "approval list \<Rightarrow> approval list \<Rightarrow> bool" where
  same: "approvals_move rows rows"
| created: "ap_status a = StatusPending \<Longrightarrow> ap_decision a = None \<Longrightarrow> ap_decided_by a = None \<Longrightarrow>
    ap_decision_source a = None \<Longrightarrow> approvals_move rows (insert_row ap_id a rows)"
| decided: "get_row ap_id i rows = Some a \<Longrightarrow> ap_status a = StatusPending \<Longrightarrow> may_decide a ev decision \<Longrightarrow>
    approvals_move rows (update_row ap_id i (decide_row ev decision reason) rows)"

lemma ap_id_decide_row [simp]: "ap_id (decide_row ev d r a) = ap_id a"
  by (simp add: decide_row_def)

lemma approval_spec_sel [simp]:
  "sp_subject_kind (approval_spec i kind actor disc payload) = SubjectApproval"
  "sp_subject_id (approval_spec i kind actor disc payload) = i"
  "sp_kind (approval_spec i kind actor disc payload) = kind"
  "sp_payload (approval_spec i kind actor disc payload) = payload"
  "sp_discriminator (approval_spec i kind actor disc payload) = disc"
  "sp_actor (approval_spec i kind actor disc payload) = Some (tok_id actor)"
  "sp_source (approval_spec i kind actor disc payload) = sourceForActor actor"
  by (simp_all add: approval_spec_def)

lemma app_append_keeps_approvals:
  assumes "app_append E now st s = Inr (i, fresh, st')" "sp_kind s \<notin> set approval_kinds"
  shows "t_approvals (proj st') = t_approvals (proj st)"
  using assms(1) unfolding app_append_def
proof (cases rule: Append_cases)
  case (insert p)
  from apply_keeps_approvals [OF insert(4)] assms(2) insert(5) show ?thesis
    by (simp add: approval_kinds_def)
qed simp

lemma append_event_keeps_approvals:
  "append_event E now s st = Inr st' \<Longrightarrow> sp_kind s \<notin> set approval_kinds \<Longrightarrow>
   t_approvals (proj st') = t_approvals (proj st)"
  by (auto simp: append_event_def map_sum_Inr dest: app_append_keeps_approvals)

lemma appendApprovalTransition_keeps:
  "appendApprovalTransition E now st actor wid dest reason disc = Inr st' \<Longrightarrow>
   t_approvals (proj st') = t_approvals (proj st)"
  by (auto simp: appendApprovalTransition_def bind_err_Inr approval_kinds_def split: if_splits
      dest!: append_event_keeps_approvals)

lemma append_created_rows:
  assumes "app_append E now st (approval_spec i EventApprovalCreated actor disc
      (created_json E wid summary request x)) = Inr (k, fresh, st')"
  obtains (replay) "st' = st"
  | (row) a where "t_approvals (proj st') = insert_row ap_id a (t_approvals (proj st))"
      "ap_id a = i" "ap_status a = StatusPending" "ap_decision a = None" "ap_decided_by a = None"
      "ap_decision_source a = None" "ap_request a = (if request = JNull then JObj [] else request)"
  using assms unfolding app_append_def
proof (cases rule: Append_cases)
  case (insert p)
  then have "approvalCreatedProjector E (event_of now k (approval_spec i EventApprovalCreated actor disc
      (created_json E wid summary request x))) (proj st) = Inr p"
    by (simp add: registry_apply_kinds)
  with insert(5) show thesis unfolding approvalCreatedProjector_def Let_def
    by (elim bind_err_Inr_E) (auto intro!: row simp: created_json_def split: option.splits)
qed (rule replay)

lemma append_created_move:
  assumes "app_append E now st (approval_spec i EventApprovalCreated actor disc
      (created_json E wid summary request x)) = Inr (k, fresh, st')"
  shows "approvals_move (t_approvals (proj st)) (t_approvals (proj st'))"
  using assms by (rule append_created_rows) (auto intro: approvals_move.intros)

lemma append_decided_move:
  assumes "app_append E now st (approval_spec i EventApprovalDecided actor disc
      (JObj [(''work_item_id'', w), (''decision'', JStr d), (''reason'', JStr r)])) = Inr (k, fresh, st')"
    and "get_row ap_id i (t_approvals (proj st)) = Some a" "ap_status a = StatusPending"
    and "tok_source actor = SourceHuman" "ap_requested_by a \<noteq> Some (tok_id actor)"
  shows "approvals_move (t_approvals (proj st)) (t_approvals (proj st'))"
  using assms(1) unfolding app_append_def
proof (cases rule: Append_cases)
  case (insert p)
  let ?ev = "event_of now k (approval_spec i EventApprovalDecided actor disc
      (JObj [(''work_item_id'', w), (''decision'', JStr d), (''reason'', JStr r)]))"
  from insert have "approvalDecidedProjector ?ev (proj st) = Inr p"
    by (simp add: registry_apply_kinds)
  then have p: "d = DecisionApproved \<or> d = DecisionDenied"
      "t_approvals p = update_row ap_id i (decide_row ?ev d r) (t_approvals (proj st))"
    by (auto simp: approvalDecidedProjector_def bind_err_Inr need_def)
  have "may_decide a ?ev d"
    using p(1) assms(4,5) by (auto simp: may_decide_def sourceForActor_def source_valid_def)
  with p(2) insert(5) assms(2,3) show ?thesis by (auto intro!: approvals_move.decided)
qed (simp add: approvals_move.same)

lemma append_expired_move:
  assumes "app_append E now st (approval_spec i EventApprovalExpired actor disc
      (JObj [(''work_item_id'', w), (''reason'', JStr r)])) = Inr (k, fresh, st')"
    and "get_row ap_id i (t_approvals (proj st)) = Some a" "ap_status a = StatusPending"
  shows "approvals_move (t_approvals (proj st)) (t_approvals (proj st'))"
  using assms(1) unfolding app_append_def
proof (cases rule: Append_cases)
  case (insert p)
  let ?ev = "event_of now k (approval_spec i EventApprovalExpired actor disc
      (JObj [(''work_item_id'', w), (''reason'', JStr r)]))"
  from insert have "approvalExpiredProjector ?ev (proj st) = Inr p"
    by (simp add: registry_apply_kinds)
  then have "t_approvals p = update_row ap_id i (decide_row ?ev DecisionExpired r) (t_approvals (proj st))"
    by (auto simp: approvalExpiredProjector_def bind_err_Inr)
  with insert(5) assms(2,3) show ?thesis
    by (auto intro!: approvals_move.decided simp: may_decide_def)
qed (simp add: approvals_move.same)

lemma GetApproval_Inr: "GetApproval st i = Inr a \<longleftrightarrow> get_row ap_id i (t_approvals (proj st)) = Some a"
  by (auto simp: GetApproval_def split: option.splits)

lemma CreateInTx_parts:
  assumes "CreateInTx E now clock st disc drawn inp = Inr (i, eventID, fresh, st')"
  obtains state st1 where "item_state st (an_work_item inp) = Inr state" "\<not> state_terminal state"
    "i = (if an_approval inp = uuid_nil then drawn else an_approval inp)"
    "app_append E now st (approval_spec i EventApprovalCreated (an_actor inp) []
       (created_json E (an_work_item inp) (trim_space (an_summary inp))
         (if an_request inp = JNull then JObj [] else an_request inp)
         (approval_expiry clock (an_expires_in inp)))) = Inr (eventID, fresh, st1)"
    "state \<noteq> WorkItemAwaitingApproval \<Longrightarrow> append_event E now (work_item_spec (an_work_item inp)
       EventWorkItemTransitioned (an_actor inp) disc (transition_json state WorkItemAwaitingApproval
         (''approval requested: '' @ trim_space (an_summary inp)))) st1 = Inr st'"
    "state = WorkItemAwaitingApproval \<Longrightarrow> st1 = st'"
  using assms unfolding CreateInTx_def Let_def
  by (elim bind_err_Inr_E) (auto split: if_splits elim!: bind_err_Inr_E)

lemma CreateInTx_move:
  assumes "CreateInTx E now clock st disc drawn inp = Inr (i, eventID, fresh, st')"
  shows "approvals_move (t_approvals (proj st)) (t_approvals (proj st'))"
proof -
  from assms obtain state st1 where
    "approvals_move (t_approvals (proj st)) (t_approvals (proj st1))"
    and t: "state \<noteq> WorkItemAwaitingApproval \<Longrightarrow> append_event E now (work_item_spec (an_work_item inp)
       EventWorkItemTransitioned (an_actor inp) disc (transition_json state WorkItemAwaitingApproval
         (''approval requested: '' @ trim_space (an_summary inp)))) st1 = Inr st'"
      "state = WorkItemAwaitingApproval \<Longrightarrow> st1 = st'"
    by (rule CreateInTx_parts) (blast intro: append_created_move)
  moreover have "t_approvals (proj st') = t_approvals (proj st1)"
    using t by (cases "state = WorkItemAwaitingApproval")
      (auto simp: approval_kinds_def dest!: append_event_keeps_approvals)
  ultimately show ?thesis by simp
qed

lemma CreateApproval_move:
  assumes "CreateApproval E now clock st disc drawn inp = (r, st')"
  shows "approvals_move (t_approvals (proj st)) (t_approvals (proj st'))"
  using assms
  by (cases r) (auto simp: CreateApproval_def rollback_eq bind_err_Inr approvals_move.same
      dest: CreateInTx_move)

lemma settle_decided_move:
  assumes "settle E now st disc actor a EventApprovalDecided
      (JObj [(''work_item_id'', w), (''decision'', JStr d), (''reason'', JStr r)]) dest sr = Inr (x, st')"
    and "get_row ap_id (ap_id a) (t_approvals (proj st)) = Some a" "ap_status a = StatusPending"
    and "tok_source actor = SourceHuman" "ap_requested_by a \<noteq> Some (tok_id actor)"
  shows "approvals_move (t_approvals (proj st)) (t_approvals (proj st'))"
proof -
  obtain k fresh st1 where c: "app_append E now st (approval_spec (ap_id a) EventApprovalDecided actor disc
      (JObj [(''work_item_id'', w), (''decision'', JStr d), (''reason'', JStr r)])) = Inr (k, fresh, st1)"
    and t: "appendApprovalTransition E now st1 actor (ap_work_item a) dest sr disc = Inr st'"
    using assms(1) by (auto simp: settle_def bind_err_Inr)
  from append_decided_move [OF c assms(2-5)] appendApprovalTransition_keeps [OF t] show ?thesis by simp
qed

lemma settle_expired_move:
  assumes "settle E now st disc actor a EventApprovalExpired
      (JObj [(''work_item_id'', w), (''reason'', JStr r)]) dest sr = Inr (x, st')"
    and "get_row ap_id (ap_id a) (t_approvals (proj st)) = Some a" "ap_status a = StatusPending"
  shows "approvals_move (t_approvals (proj st)) (t_approvals (proj st'))"
proof -
  obtain k fresh st1 where c: "app_append E now st (approval_spec (ap_id a) EventApprovalExpired actor disc
      (JObj [(''work_item_id'', w), (''reason'', JStr r)])) = Inr (k, fresh, st1)"
    and t: "appendApprovalTransition E now st1 actor (ap_work_item a) dest sr disc = Inr st'"
    using assms(1) by (auto simp: settle_def bind_err_Inr)
  from append_expired_move [OF c assms(2,3)] appendApprovalTransition_keeps [OF t] show ?thesis by simp
qed

lemma GetApproval_self:
  "GetApproval st i = Inr a \<Longrightarrow> get_row ap_id (ap_id a) (t_approvals (proj st)) = Some a"
  by (auto simp: GetApproval_Inr dest: get_row_Some)

lemma DecideApproval_cases:
  assumes "DecideApproval E now st disc inp = (r, st')"
  obtains (same) "st' = st"
  | (settled) current dest sr where "GetApproval st (dn_approval inp) = Inr current"
      "tok_source (dn_actor inp) = SourceHuman" "\<not> tok_is_root (dn_actor inp)"
      "ap_requested_by current \<noteq> Some (tok_id (dn_actor inp))" "ap_status current = StatusPending"
      "settle E now st disc (dn_actor inp) current EventApprovalDecided
        (JObj [(''work_item_id'', juid E (ap_work_item current)), (''decision'', JStr (dn_decision inp)),
          (''reason'', JStr (trim_space (dn_reason inp)))]) dest sr = Inr (r, st')"
  using assms unfolding DecideApproval_def Let_def
  by (cases r) (auto simp: rollback_eq bind_err_Inr split: if_splits)

lemma ExpireApproval_cases:
  assumes "ExpireApproval E now st disc i reason0 actor = (r, st')"
  obtains (same) "st' = st"
  | (settled) current reason where "GetApproval st i = Inr current" "ap_status current = StatusPending"
      "settle E now st disc actor current EventApprovalExpired
        (JObj [(''work_item_id'', juid E (ap_work_item current)), (''reason'', JStr reason)])
        WorkItemBlocked ''approval_expired'' = Inr (r, st')"
  using assms unfolding ExpireApproval_def Let_def
  by (cases r) (auto simp: rollback_eq bind_err_Inr split: if_splits)

lemma DecideApproval_move:
  assumes "DecideApproval E now st disc inp = (r, st')"
  shows "approvals_move (t_approvals (proj st)) (t_approvals (proj st'))"
  using assms
proof (cases rule: DecideApproval_cases)
  case (settled current dest sr)
  then show ?thesis by (intro settle_decided_move [OF settled(6) GetApproval_self]) simp_all
qed (simp add: approvals_move.same)

lemma ExpireApproval_move:
  assumes "ExpireApproval E now st disc i reason actor = (r, st')"
  shows "approvals_move (t_approvals (proj st)) (t_approvals (proj st'))"
  using assms
proof (cases rule: ExpireApproval_cases)
  case (settled current reason')
  then show ?thesis by (intro settle_expired_move [OF settled(3) GetApproval_self])
qed (simp add: approvals_move.same)

section \<open>Runs\<close>

text \<open>
  Anything that can happen to a database: the operations of the service with any arguments and
  whatever they return, and appends by every other part of the program.
\<close>

inductive approvals_run :: "ext \<Rightarrow> db \<Rightarrow> db \<Rightarrow> bool" for E where
  start: "approvals_run E st st"
| create: "approvals_run E st st1 \<Longrightarrow> CreateApproval E now clock st1 disc drawn inp = (r, st2) \<Longrightarrow>
    approvals_run E st st2"
| decide: "approvals_run E st st1 \<Longrightarrow> DecideApproval E now st1 disc dinp = (r, st2) \<Longrightarrow>
    approvals_run E st st2"
| expire: "approvals_run E st st1 \<Longrightarrow> ExpireApproval E now st1 disc i reason actor = (r, st2) \<Longrightarrow>
    approvals_run E st st2"
| other: "approvals_run E st st1 \<Longrightarrow> sp_kind s \<notin> set approval_kinds \<Longrightarrow>
    app_append E now st1 s = Inr (i, fresh, st2) \<Longrightarrow> approvals_run E st st2"

inductive approvals_moves :: "approval list \<Rightarrow> approval list \<Rightarrow> bool" where
  none: "approvals_moves rows rows"
| one: "approvals_moves rows rows1 \<Longrightarrow> approvals_move rows1 rows2 \<Longrightarrow> approvals_moves rows rows2"

lemma run_moves:
  "approvals_run E st st' \<Longrightarrow> approvals_moves (t_approvals (proj st)) (t_approvals (proj st'))"
  by (induction rule: approvals_run.induct)
     (auto intro: approvals_moves.intros approvals_move.same CreateApproval_move DecideApproval_move
      ExpireApproval_move dest: app_append_keeps_approvals)

lemma move_keeps_decided:
  "approvals_move rows rows' \<Longrightarrow> get_row ap_id i rows = Some a \<Longrightarrow> ap_status a \<noteq> StatusPending \<Longrightarrow>
   get_row ap_id i rows' = Some a"
  by (induction rule: approvals_move.induct) auto

lemma moves_keep_decided:
  "approvals_moves rows rows' \<Longrightarrow> get_row ap_id i rows = Some a \<Longrightarrow> ap_status a \<noteq> StatusPending \<Longrightarrow>
   get_row ap_id i rows' = Some a"
  by (induction rule: approvals_moves.induct) (blast intro: move_keeps_decided)+

definition soundly_decided :: "approval \<Rightarrow> bool" where
  "soundly_decided a \<longleftrightarrow>
     (case ap_decision a of
        None \<Rightarrow> ap_status a = StatusPending \<and> ap_decided_by a = None
      | Some d \<Rightarrow> ap_status a = d \<and> (d = DecisionExpired \<or>
          (d = DecisionApproved \<or> d = DecisionDenied) \<and> ap_decision_source a = Some SourceHuman \<and>
          ap_decided_by a \<noteq> None \<and> ap_decided_by a \<noteq> ap_requested_by a))"

definition all_sound :: "approval list \<Rightarrow> bool" where
  "all_sound rows \<longleftrightarrow> (\<forall>i a. get_row ap_id i rows = Some a \<longrightarrow> soundly_decided a)"

lemma decide_row_sound: "may_decide a ev d \<Longrightarrow> soundly_decided (decide_row ev d r a)"
  by (auto simp: may_decide_def soundly_decided_def decide_row_def)

lemma move_sound:
  assumes "approvals_move rows rows'" "all_sound rows"
  shows "all_sound rows'"
  using assms
proof cases
  case (created a)
  then have "soundly_decided a" by (simp add: soundly_decided_def)
  with created assms(2) show ?thesis by (auto simp: all_sound_def split: option.splits if_splits)
next
  case (decided i a ev d reason)
  with assms(2) show ?thesis by (auto simp: all_sound_def decide_row_sound)
qed simp

lemma moves_sound: "approvals_moves rows rows' \<Longrightarrow> all_sound rows \<Longrightarrow> all_sound rows'"
  by (induction rule: approvals_moves.induct) (auto intro: move_sound)

section \<open>Properties\<close>

definition human5 :: token where
  "human5 = agent9\<lparr>tok_id := 5, tok_source := SourceHuman, tok_is_root := False\<rparr>"

definition ask4 :: approval where
  "ask4 = \<lparr>ap_id = 4, ap_work_item = 7, ap_status = StatusPending, ap_summary = ''send'',
     ap_request = JObj [], ap_requested_by = Some 9, ap_requested_source = SourceAgent,
     ap_created_at = 5, ap_expires_at = 3600000000000, ap_decided_by = None,
     ap_decision_source = None, ap_decided_at = None, ap_decision = None,
     ap_decision_reason = [], ap_updated_at = 5\<rparr>"

definition ask_db :: db where
  "ask_db = \<lparr>log = [], proj = no_tables\<lparr>t_approvals := [ask4],
     t_work_items := [item7\<lparr>wi_state := WorkItemAwaitingApproval\<rparr>]\<rparr>\<rparr>"

definition approve4 :: decision_input where
  "approve4 = \<lparr>dn_approval = 4, dn_decision = DecisionApproved, dn_reason = ''fine'', dn_actor = human5\<rparr>"

text \<open>The same approval after human 5 approved it, with the item running again.\<close>

definition approved4 :: approval where
  "approved4 = ask4\<lparr>ap_status := DecisionApproved, ap_decided_by := Some 5,
     ap_decision_source := Some SourceHuman, ap_decided_at := Some 9,
     ap_decision := Some DecisionApproved, ap_decision_reason := ''fine'', ap_updated_at := 9\<rparr>"

definition decided_spec :: spec where
  "decided_spec = approval_spec 4 EventApprovalDecided human5 []
     (JObj [(''work_item_id'', juid decimal_ext 7), (''decision'', JStr DecisionApproved),
        (''reason'', JStr ''fine'')])"

definition resumed_spec :: spec where
  "resumed_spec = work_item_spec 7 EventWorkItemTransitioned human5 []
     (transition_json WorkItemAwaitingApproval WorkItemRunning ''approval_approved'')"

definition approved_tables :: tables where
  "approved_tables = no_tables\<lparr>t_approvals := [approved4],
     t_work_items := [item7\<lparr>wi_state := WorkItemAwaitingApproval\<rparr>]\<rparr>"

definition resumed_tables :: tables where
  "resumed_tables = no_tables\<lparr>t_approvals := [approved4],
     t_work_items := [item7\<lparr>wi_state := WorkItemRunning, wi_state_reason := Some ''approval_approved'',
       wi_state_entered_at := 9, wi_updated_at := 9\<rparr>]\<rparr>"

lemma approve_lens: "length (id_preimage decided_spec) = 101" "length (id_preimage resumed_spec) = 122"
  by code_simp+

lemma approve_projects:
  "approvalDecidedProjector (event_of 9 i decided_spec) (proj ask_db) = Inr approved_tables"
  "workItemTransitionedProjector (event_of 9 i resumed_spec) approved_tables = Inr resumed_tables"
  by code_simp+

definition approved_log :: "event list" where
  "approved_log = [as_stored (event_of 9 (length_id 101) decided_spec)]"

definition approved_db :: db where
  "approved_db = \<lparr>log = approved_log @ [as_stored (event_of 9 (length_id 122) resumed_spec)],
     proj = resumed_tables\<rparr>"

lemma approve_appends:
  "app_append decimal_ext 9 ask_db decided_spec =
     Inr (length_id 101, True, \<lparr>log = approved_log, proj = approved_tables\<rparr>)"
  "append_event decimal_ext 9 resumed_spec \<lparr>log = approved_log, proj = approved_tables\<rparr> = Inr approved_db"
proof -
  have 1: "DeterministicID decimal_ext decided_spec = Inr (length_id 101)"
    using decimal_ext_id [of decided_spec]
    by (simp add: approve_lens) (simp add: decided_spec_def spec_validate_def approval_spec_def)
  have 2: "DeterministicID decimal_ext resumed_spec = Inr (length_id 122)"
    using decimal_ext_id [of resumed_spec]
    by (simp add: approve_lens) (simp add: resumed_spec_def spec_validate_def work_item_spec_def)
  have k: "sp_kind decided_spec = EventApprovalDecided" "sp_kind resumed_spec = EventWorkItemTransitioned"
    by (simp_all add: decided_spec_def resumed_spec_def)
  show "app_append decimal_ext 9 ask_db decided_spec =
     Inr (length_id 101, True, \<lparr>log = approved_log, proj = approved_tables\<rparr>)"
    using 1 k approve_projects(1) registry_apply_kinds(4) [of "event_of 9 (length_id 101) decided_spec" decimal_ext]
    by (simp add: app_append_def Append_def ask_db_def approved_log_def)
  show "append_event decimal_ext 9 resumed_spec \<lparr>log = approved_log, proj = approved_tables\<rparr> =
      Inr approved_db"
    using 2 k approve_projects(2)
      registry_apply_kinds(8) [of "event_of 9 (length_id 122) resumed_spec" decimal_ext]
    by (simp add: append_event_def app_append_def Append_def approved_log_def approved_db_def length_id_eq_iff)
qed

lemma human5_may: "tok_id human5 \<noteq> uuid_nil" "\<not> tok_is_root human5" "tok_source human5 = SourceHuman"
  "tok_id human5 = 5" "trim_space ''fine'' = ''fine''"
  by code_simp+

lemma approve4_run:
  "DecideApproval decimal_ext 9 ask_db [] approve4 =
     (Inr \<lparr>ar_approval = approved4, ar_fresh = True, ar_event = length_id 101\<rparr>, approved_db)"
proof -
  have g: "GetApproval ask_db 4 = Inr ask4" "GetApproval approved_db 4 = Inr approved4"
    by (simp_all add: GetApproval_def ask_db_def approved_db_def resumed_tables_def ask4_def approved4_def)
  have it: "item_state \<lparr>log = approved_log, proj = approved_tables\<rparr> 7 = Inr WorkItemAwaitingApproval"
    by (simp add: item_state_def approved_tables_def item7_def)
  have ct: "CanTransition WorkItemAwaitingApproval WorkItemRunning" by code_simp
  have t: "appendApprovalTransition decimal_ext 9 \<lparr>log = approved_log, proj = approved_tables\<rparr> human5 7
      WorkItemRunning ''approval_approved'' [] = Inr approved_db"
    using approve_appends(2) ct by (simp add: appendApprovalTransition_def it resumed_spec_def)
  have "settle decimal_ext 9 ask_db [] human5 ask4 EventApprovalDecided
      (JObj [(''work_item_id'', juid decimal_ext 7), (''decision'', JStr DecisionApproved),
        (''reason'', JStr ''fine'')]) WorkItemRunning ''approval_approved'' =
      Inr (Inr \<lparr>ar_approval = approved4, ar_fresh = True, ar_event = length_id 101\<rparr>, approved_db)"
    using approve_appends(1) t g(2)
    by (simp add: settle_def decided_spec_def [symmetric] ask4_def)
  then show ?thesis
    using g(1) human5_may
    by (simp add: DecideApproval_def approve4_def rollback_def guard_err_def ask4_def)
qed

lemma approve4_trace: "approvals_run decimal_ext ask_db approved_db"
  by (rule approvals_run.decide [OF approvals_run.start approve4_run])

text \<open>C24: The service refines the abstract life of approvals.  Whatever sequence of creations,
  decisions, expirations and appends of other events runs, with whatever arguments and outcomes, the
  approvals table moves only by the abstract moves: a pending approval appears, or a pending
  approval is replaced by one permitted decision.\<close>

theorem approvals_refine_moves:
  assumes "approvals_run E st st'"
  shows "approvals_moves (t_approvals (proj st)) (t_approvals (proj st'))"
  using assms by (rule run_moves)

theorem approvals_refine_moves_witness: "approvals_moves [ask4] [approved4]"
  using approvals_refine_moves [OF approve4_trace]
  by (simp add: ask_db_def approved_db_def resumed_tables_def)

text \<open>C23: A decision is final: once an approval was approved, denied or expired, no later operation
  by anybody changes its row.\<close>

theorem decision_is_final:
  assumes "approvals_run E st st'" "GetApproval st i = Inr a" "ap_status a \<noteq> StatusPending"
  shows "GetApproval st' i = Inr a"
  using moves_keep_decided [OF run_moves [OF assms(1)]] assms(2,3) by (simp add: GetApproval_Inr)

text \<open>A later denial of the approved request is refused.\<close>

lemma deny_approved:
  "DecideApproval decimal_ext 11 approved_db [] (approve4\<lparr>dn_decision := DecisionDenied\<rparr>) =
     (Inl ErrAlreadyDecided, approved_db)"
proof -
  have "GetApproval approved_db 4 = Inr approved4"
    by (simp add: GetApproval_def approved_db_def resumed_tables_def ask4_def approved4_def)
  then show ?thesis
    using human5_may by (simp add: DecideApproval_def approve4_def rollback_def guard_err_def
        approved4_def ask4_def ErrAlreadyDecided_def)
qed

theorem decision_is_final_witness: "GetApproval approved_db 4 = Inr approved4"
proof (rule decision_is_final)
  show "approvals_run decimal_ext approved_db approved_db"
    by (rule approvals_run.decide [OF approvals_run.start deny_approved])
  show "GetApproval approved_db 4 = Inr approved4"
    by (simp add: GetApproval_def approved_db_def resumed_tables_def ask4_def approved4_def)
qed (simp add: approved4_def)

text \<open>C18: Separation of duties.  Starting from approvals that are pending or soundly decided, after
  any run every approved or denied approval was decided by a token, with a human source, that is
  not the token that requested it.\<close>

theorem approved_by_another_human:
  assumes "approvals_run E st st'" "all_sound (t_approvals (proj st))"
    and "GetApproval st' i = Inr a" "ap_status a = DecisionApproved \<or> ap_status a = DecisionDenied"
  shows "ap_decision_source a = Some SourceHuman \<and> ap_decided_by a \<noteq> None \<and>
    ap_decided_by a \<noteq> ap_requested_by a"
proof -
  have "soundly_decided a"
    using moves_sound [OF run_moves [OF assms(1)] assms(2)] assms(3)
    by (auto simp: all_sound_def GetApproval_Inr)
  with assms(4) show ?thesis by (auto simp: soundly_decided_def split: option.splits)
qed

theorem approved_by_another_human_witness:
  "ap_decision_source approved4 = Some SourceHuman \<and> ap_decided_by approved4 \<noteq> None \<and>
    ap_decided_by approved4 \<noteq> ap_requested_by approved4"
proof (rule approved_by_another_human [OF approve4_trace])
  show "all_sound (t_approvals (proj ask_db))"
    by (auto simp: all_sound_def ask_db_def soundly_decided_def ask4_def split: if_splits)
  show "GetApproval approved_db 4 = Inr approved4"
    by (simp add: GetApproval_def approved_db_def resumed_tables_def ask4_def approved4_def)
qed (simp add: approved4_def)

end
