(* ===== verification/Httpconnector.thy ===== *)
theory Httpconnector
  imports Approvals Jobqueue
begin

text \<open>
  internal/httpconnector/service.go: outgoing HTTP actions.  Reads are executed at once; a write
  waits for an approval, is then put into the outbox, and a worker leases it from there and sends
  it.  The HTTP client and url.Parse are arguments.  An operation returns its result, the
  database, and the calls it made to the outside world.
\<close>

definition ErrActionActorRequired :: err where
  "ErrActionActorRequired = Err ''httpconnector: actor token is required'' []"
definition ErrActionNotFound :: err where
  "ErrActionNotFound = Err ''httpconnector: action not found'' []"
definition ErrInvalidMode :: err where
  "ErrInvalidMode = Err ''httpconnector: invalid mode'' []"
definition ErrInvalidMethod :: string where
  "ErrInvalidMethod = ''httpconnector: invalid method''"
definition ErrInvalidURL :: err where
  "ErrInvalidURL = Err ''httpconnector: invalid url'' []"
definition ErrApprovalRequired :: err where
  "ErrApprovalRequired = Err ''httpconnector: approved approval is required before dispatch'' []"
definition ErrNoPendingOutbox :: err where
  "ErrNoPendingOutbox = Err ''httpconnector: no pending outbox event'' []"
definition ErrUnsupportedRequest :: string where
  "ErrUnsupportedRequest = ''httpconnector: unsupported request''"

record action_input =
  ai_action :: uuid
  ai_approval :: uuid
  ai_work_item :: uuid
  ai_mode :: string
  ai_method :: string
  ai_url :: string
  ai_body :: json
  ai_actor :: token

record normalized_request =
  nr_work_item :: uuid
  nr_mode :: string
  nr_method :: string
  nr_url :: string
  nr_request :: json

record http_call =
  hc_method :: string
  hc_url :: string
  hc_body :: json

text \<open>
  url.Parse gives scheme, host and the normalised string; the client answers a call with a status
  and the (first 4096 bytes of the) body, or an error.
\<close>

record http_ext =
  url_parse :: "string \<Rightarrow> (string \<times> string \<times> string) option"
  http_do :: "http_call \<Rightarrow> err + int \<times> string"

section \<open>Normalisation\<close>

definition read_methods :: "string list" where "read_methods = [''GET'', ''HEAD'']"
definition write_methods :: "string list" where
  "write_methods = [''POST'', ''PUT'', ''PATCH'', ''DELETE'']"

definition normalizeRequest :: "http_ext \<Rightarrow> action_input \<Rightarrow> err + normalized_request" where
  "normalizeRequest H inp =
     (let mode = to_lower (trim_space (ai_mode inp));
          method0 = to_upper (trim_space (ai_method inp));
          method = (if method0 \<noteq> [] then method0 else if mode = ModeRead then ''GET'' else ''POST'') in
     bind_err (guard_err (mode = ModeRead \<or> mode = ModeWrite) ErrInvalidMode) (\<lambda>_.
     bind_err (guard_err (mode = ModeRead \<longrightarrow> method \<in> set read_methods)
       (Err ErrInvalidMethod '': read mode accepts GET or HEAD'')) (\<lambda>_.
     bind_err (guard_err (mode = ModeWrite \<longrightarrow> method \<in> set write_methods)
       (Err ErrInvalidMethod '': write mode accepts POST, PUT, PATCH, or DELETE'')) (\<lambda>_.
     case url_parse H (trim_space (ai_url inp)) of
       None \<Rightarrow> Inl ErrInvalidURL
     | Some (scheme, host, url) \<Rightarrow>
         bind_err (guard_err (scheme \<noteq> [] \<and> host \<noteq> []) ErrInvalidURL) (\<lambda>_.
         bind_err (guard_err (scheme = ''http'' \<or> scheme = ''https'') ErrInvalidURL) (\<lambda>_.
         Inr \<lparr>nr_work_item = ai_work_item inp, nr_mode = mode, nr_method = method, nr_url = url,
           nr_request = (if ai_body inp = JNull then JObj [] else JObj [(''body'', ai_body inp)])\<rparr>))))))"

section \<open>Actions\<close>

definition GetAction :: "db \<Rightarrow> uuid \<Rightarrow> err + connector_action" where
  "GetAction st i = (case get_row ca_id i (t_actions (proj st)) of
     Some a \<Rightarrow> Inr a | None \<Rightarrow> Inl ErrActionNotFound)"

definition action_spec :: "uuid \<Rightarrow> string \<Rightarrow> token \<Rightarrow> string \<Rightarrow> json \<Rightarrow> spec" where
  "action_spec i kind actor disc payload =
     \<lparr>sp_subject_kind = SubjectHTTPConnectorAction, sp_subject_id = i, sp_kind = kind,
      sp_source = sourceForActor actor, sp_actor = Some (tok_id actor), sp_payload = payload,
      sp_discriminator = disc\<rparr>"

definition lockWorkItem :: "ext \<Rightarrow> db \<Rightarrow> uuid \<Rightarrow> err + unit" where
  "lockWorkItem E st wid = (case get_row wi_id wid (t_work_items (proj st)) of
     None \<Rightarrow> Inl ErrActionNotFound
   | Some w \<Rightarrow> guard_err (\<not> state_terminal (wi_state w))
       (Err ErrUnsupportedRequest '': terminal work item''))"

definition requestEventPayload :: "ext \<Rightarrow> normalized_request \<Rightarrow> uuid \<Rightarrow> json" where
  "requestEventPayload E n approvalID =
     JObj ([(''work_item_id'', juid E (nr_work_item n)), (''mode'', JStr (nr_mode n)),
        (''method'', JStr (nr_method n)), (''url'', JStr (nr_url n)), (''request'', nr_request n)] @
       (if approvalID \<noteq> uuid_nil then [(''approval_id'', juid E approvalID)] else []))"

text \<open>What the approver is shown.\<close>

definition approval_request_json :: "ext \<Rightarrow> uuid \<Rightarrow> string \<Rightarrow> string \<Rightarrow> json \<Rightarrow> json" where
  "approval_request_json E actionID method url request =
     JObj [(''connector'', JStr ''http''), (''action_id'', juid E actionID),
       (''method'', JStr method), (''url'', JStr url), (''request'', request)]"

record action_sent =
  as_action :: connector_action
  as_status :: int
  as_body :: string

type_synonym 'a effect = "(err + 'a) \<times> db \<times> http_call list"

definition executeAction ::
  "ext \<Rightarrow> http_ext \<Rightarrow> time \<Rightarrow> db \<Rightarrow> connector_action \<Rightarrow> token \<Rightarrow> action_sent effect"
where
  "executeAction E H now st action actor =
     (let req = ca_request action in
      if req \<noteq> JNull \<and> req \<noteq> JObj [] \<and> \<not> jobject req then (Inl ErrDecode, st, [])
      else
        let call = \<lparr>hc_method = ca_method action, hc_url = ca_url action, hc_body = jget req ''body''\<rparr>
        in case http_do H call of
          Inl e \<Rightarrow> (Inl e, st, [call])
        | Inr (status, body) \<Rightarrow>
            (case append_event E now (action_spec (ca_id action) EventHTTPConnectorActionSent actor
                (uuid_string E (ca_id action))
                (JObj [(''work_item_id'', juid E (ca_work_item action)),
                   (''response_status'', jint status), (''response_body'', JStr (take 4096 body))])) st of
              Inl e \<Rightarrow> (Inl e, st, [call])
            | Inr st' \<Rightarrow> (map_sum id (\<lambda>a. \<lparr>as_action = a, as_status = status, as_body = take 4096 body\<rparr>)
                (GetAction st' (ca_id action)), st', [call])))"

section \<open>Request\<close>

record request_result =
  rr_action :: connector_action
  rr_approval :: "approval option"
  rr_fresh :: bool
  rr_event :: uuid
  rr_approval_event :: uuid

text \<open>The first transaction: the approval of a write and the request itself.\<close>

definition request_in_tx ::
  "ext \<Rightarrow> time \<Rightarrow> time \<Rightarrow> db \<Rightarrow> string \<Rightarrow> uuid \<Rightarrow> uuid \<Rightarrow> normalized_request \<Rightarrow> token \<Rightarrow>
   err + uuid \<times> uuid \<times> bool \<times> db"
where
  "request_in_tx E now clock st disc actionID approvalID n actor =
     bind_err (lockWorkItem E st (nr_work_item n)) (\<lambda>_.
     bind_err (if nr_mode n = ModeWrite
       then bind_err (CreateInTx E now clock st disc approvalID
           \<lparr>an_approval = approvalID, an_work_item = nr_work_item n,
            an_summary = ''HTTP connector write '' @ nr_method n @ '' '' @ nr_url n,
            an_request = approval_request_json E actionID (nr_method n) (nr_url n) (nr_request n),
            an_expires_in = 0, an_actor = actor\<rparr>)
         (\<lambda>(_, approvalEvent, _, st1). Inr (approvalEvent, st1))
       else Inr (uuid_nil, st)) (\<lambda>(approvalEvent, st1).
     bind_err (app_append E now st1 (action_spec actionID EventHTTPConnectorActionRequested actor []
       (requestEventPayload E n approvalID))) (\<lambda>(eventID, fresh, st2).
     Inr (approvalEvent, eventID, fresh, st2))))"

definition RequestAction ::
  "ext \<Rightarrow> http_ext \<Rightarrow> time \<Rightarrow> time \<Rightarrow> time \<Rightarrow> db \<Rightarrow> string \<Rightarrow> uuid \<Rightarrow> uuid \<Rightarrow> action_input \<Rightarrow>
   request_result effect"
where
  "RequestAction E H now now' clock st disc drawnAction drawnApproval inp =
     (let actor = ai_actor inp in
      if tok_id actor = uuid_nil then (Inl ErrActionActorRequired, st, [])
      else if ai_work_item inp = uuid_nil
      then (Inl (Err ErrUnsupportedRequest '': work_item_id is required''), st, [])
      else case normalizeRequest H inp of
        Inl e \<Rightarrow> (Inl e, st, [])
      | Inr n \<Rightarrow>
          let actionID = (if ai_action inp = uuid_nil then drawnAction else ai_action inp);
              approvalID = (if nr_mode n = ModeWrite \<and> ai_approval inp = uuid_nil then drawnApproval
                else ai_approval inp)
          in case request_in_tx E now clock st disc actionID approvalID n actor of
            Inl e \<Rightarrow> (Inl e, st, [])
          | Inr (approvalEvent, eventID, fresh, st2) \<Rightarrow>
              (case GetAction st2 actionID of
                 Inl e \<Rightarrow> (Inl e, st2, [])
               | Inr action \<Rightarrow>
                   (case (case ca_approval action of None \<Rightarrow> Inr None
                       | Some p \<Rightarrow> map_sum id Some (GetApproval st2 p)) of
                      Inl e \<Rightarrow> (Inl e, st2, [])
                    | Inr approval \<Rightarrow>
                        if ca_mode action = ModeRead
                        then (case executeAction E H now' st2 action actor of
                            (Inl e, st3, calls) \<Rightarrow> (Inl e, st3, calls)
                          | (Inr sent, st3, calls) \<Rightarrow> (Inr \<lparr>rr_action = as_action sent,
                              rr_approval = approval, rr_fresh = fresh, rr_event = eventID,
                              rr_approval_event = approvalEvent\<rparr>, st3, calls))
                        else (Inr \<lparr>rr_action = action, rr_approval = approval, rr_fresh = fresh,
                          rr_event = eventID, rr_approval_event = approvalEvent\<rparr>, st2, []))))"

section \<open>The outbox\<close>

definition EnqueueApprovedWrite ::
  "ext \<Rightarrow> time \<Rightarrow> db \<Rightarrow> uuid \<Rightarrow> token \<Rightarrow> (connector_action \<times> bool \<times> uuid) outcome"
where
  "EnqueueApprovedWrite E now st actionID actor = rollback st
     (bind_err (guard_err (tok_id actor \<noteq> uuid_nil) ErrActionActorRequired) (\<lambda>_.
     bind_err (GetAction st actionID) (\<lambda>action.
     bind_err (guard_err (ca_mode action = ModeWrite) ErrInvalidMode) (\<lambda>_.
     if ca_status action = StatusSent \<or> ca_status action = StatusApproved
     then Inr (Inr (action, False, uuid_nil), st)
     else case ca_approval action of
       None \<Rightarrow> Inl ErrApprovalRequired
     | Some p \<Rightarrow>
         bind_err (GetApproval st p) (\<lambda>approval.
         bind_err (guard_err (ap_status approval = DecisionApproved) ErrApprovalRequired) (\<lambda>_.
         bind_err (app_append E now st (action_spec actionID EventHTTPConnectorActionApproved actor []
           (JObj [(''work_item_id'', juid E (ca_work_item action)), (''approval_id'', juid E p),
              (''method'', JStr (ca_method action)), (''url'', JStr (ca_url action)),
              (''request'', stored_payload (ca_request action))]))) (\<lambda>(eventID, fresh, st').
         Inr (map_sum id (\<lambda>a. (a, fresh, eventID)) (GetAction st' actionID), st'))))))))"

definition outbox_ready :: "time \<Rightarrow> outbox_row \<Rightarrow> bool" where
  "outbox_ready now o1 \<longleftrightarrow> ob_kind o1 = ''http_connector.write'' \<and>
     (ob_state o1 = ''pending'' \<or>
      ob_state o1 = ''leased'' \<and> (case ob_lease_until o1 of None \<Rightarrow> False | Some u \<Rightarrow> u \<le> now))"

definition outbox_before :: "outbox_row \<Rightarrow> outbox_row \<Rightarrow> bool" where
  "outbox_before a b \<longleftrightarrow> ob_created_at a < ob_created_at b \<or>
     ob_created_at a = ob_created_at b \<and> ob_id a \<le> ob_id b"

definition lease_outbox :: "time \<Rightarrow> int \<Rightarrow> outbox_row \<Rightarrow> outbox_row" where
  "lease_outbox now leaseMillis o1 = o1\<lparr>ob_state := ''leased'', ob_attempts := ob_attempts o1 + 1,
     ob_lease_until := Some (now + leaseMillis * millisecond), ob_updated_at := now\<rparr>"

definition claimOutbox ::
  "time \<Rightarrow> uuid set \<Rightarrow> time \<Rightarrow> outbox_row list \<Rightarrow> outbox_row option \<times> outbox_row list"
where
  "claimOutbox now locked lease rows =
     (let millis0 = lease div millisecond; millis = (if millis0 \<le> 0 then 1 else millis0) in
      case first_by outbox_before (filter (\<lambda>o1. outbox_ready now o1 \<and> ob_id o1 \<notin> locked) rows) of
        None \<Rightarrow> (None, rows)
      | Some o1 \<Rightarrow> (Some (lease_outbox now millis o1),
          update_row ob_id (ob_id o1) (lease_outbox now millis) rows))"

definition markOutboxSent :: "time \<Rightarrow> uuid \<Rightarrow> outbox_row list \<Rightarrow> outbox_row list" where
  "markOutboxSent now i rows = update_row ob_id i
     (\<lambda>o1. o1\<lparr>ob_state := ''sent'', ob_lease_until := None, ob_updated_at := now\<rparr>) rows"

abbreviation with_outbox :: "db \<Rightarrow> outbox_row list \<Rightarrow> db" where
  "with_outbox st rows \<equiv> st\<lparr>proj := (proj st)\<lparr>t_outbox := rows\<rparr>\<rparr>"

definition DispatchOnce ::
  "ext \<Rightarrow> http_ext \<Rightarrow> time \<Rightarrow> time \<Rightarrow> time \<Rightarrow> db \<Rightarrow> uuid set \<Rightarrow> token \<Rightarrow> time \<Rightarrow>
   (action_sent \<times> uuid) effect"
where
  "DispatchOnce E H now now' now'' st locked actor lease0 =
     (if tok_id actor = uuid_nil then (Inl ErrActionActorRequired, st, [])
      else
        let lease = (if lease0 \<le> 0 then hour div 60 else lease0) in
        case claimOutbox now locked lease (t_outbox (proj st)) of
          (None, rows) \<Rightarrow> (Inl ErrNoPendingOutbox, with_outbox st rows, [])
        | (Some o1, rows) \<Rightarrow>
            let st1 = with_outbox st rows in
            case GetAction st1 (ob_action o1) of
              Inl e \<Rightarrow> (Inl e, st1, [])
            | Inr action \<Rightarrow>
                (case executeAction E H now' st1 action actor of
                   (Inl e, st2, calls) \<Rightarrow> (Inl e, st2, calls)
                 | (Inr sent, st2, calls) \<Rightarrow>
                     (Inr (sent, ob_id o1),
                      with_outbox st2 (markOutboxSent now'' (ob_id o1) (t_outbox (proj st2))), calls)))"

section \<open>The outbox is a leased queue\<close>

datatype outbox_op =
    ClaimOutbox "uuid set" time
  | MarkSent uuid
  | PutOutbox outbox_row

definition outbox_step ::
  "time \<Rightarrow> outbox_op \<Rightarrow> outbox_row list \<Rightarrow> (uuid \<times> time) option \<times> outbox_row list"
where
  "outbox_step now op rows = (case op of
     ClaimOutbox locked lease \<Rightarrow> (case claimOutbox now locked lease rows of
         (None, rows') \<Rightarrow> (None, rows')
       | (Some o1, rows') \<Rightarrow> (map_option (Pair (ob_id o1)) (ob_lease_until o1), rows'))
   | MarkSent i \<Rightarrow> (None, markOutboxSent now i rows)
   | PutOutbox o1 \<Rightarrow> (None, insert_row ob_id o1 rows))"

definition outbox_held :: "outbox_row \<Rightarrow> time option" where
  "outbox_held o1 = (if ob_state o1 = ''leased'' then ob_lease_until o1 else None)"

definition outbox_closed :: "outbox_row \<Rightarrow> bool" where
  "outbox_closed o1 \<longleftrightarrow> ob_state o1 = ''sent''"

lemma outbox_ids [simp]:
  "ob_id (lease_outbox now m o1) = ob_id o1"
  "ob_id (o1\<lparr>ob_state := s, ob_lease_until := l, ob_updated_at := n\<rparr>) = ob_id o1"
  by (simp_all add: lease_outbox_def)

lemma claimOutbox_cases:
  assumes "claimOutbox now locked lease rows = (r, rows')"
  obtains (none) "r = None" "rows' = rows"
  | (some) o1 m where "o1 \<in> set rows" "outbox_ready now o1" "ob_id o1 \<notin> locked" "0 < m"
      "r = Some (lease_outbox now m o1)"
      "rows' = update_row ob_id (ob_id o1) (lease_outbox now m) rows"
proof -
  define m where "m = (if lease div millisecond \<le> 0 then 1 else lease div millisecond)"
  have m: "0 < m" by (simp add: m_def)
  show thesis
  proof (cases "first_by outbox_before (filter (\<lambda>o1. outbox_ready now o1 \<and> ob_id o1 \<notin> locked) rows)")
    case None
    with assms none show thesis by (auto simp: claimOutbox_def)
  next
    case (Some o1)
    with first_by_member [OF Some] m assms show thesis
      by (intro some [of o1 m]) (auto simp: claimOutbox_def Let_def m_def)
  qed
qed

lemma outbox_claim_cases:
  assumes "outbox_step now (ClaimOutbox locked lease) rows = (g, rows')"
  obtains (none) "g = None" "rows' = rows"
  | (some) o1 m where "o1 \<in> set rows" "outbox_ready now o1"
      "g = Some (ob_id o1, now + m * millisecond)"
      "rows' = update_row ob_id (ob_id o1) (lease_outbox now m) rows"
proof -
  obtain r rows1 where c: "claimOutbox now locked lease rows = (r, rows1)" by fastforce
  from c show thesis
  proof (cases rule: claimOutbox_cases)
    case none
    with c assms that(1) show thesis by (simp add: outbox_step_def)
  next
    case (some o1 m)
    with c assms have "g = Some (ob_id o1, now + m * millisecond)" "rows' = rows1"
      by (simp_all add: outbox_step_def) (simp add: lease_outbox_def)
    with some that(2) show thesis by blast
  qed
qed

lemma outbox_ready_not_held: "outbox_ready now o1 \<Longrightarrow> outbox_held o1 = Some v \<Longrightarrow> v \<le> now"
  by (auto simp: outbox_ready_def outbox_held_def split: option.splits)

lemma outbox_ready_open: "outbox_ready now o1 \<Longrightarrow> \<not> outbox_closed o1"
  by (auto simp: outbox_ready_def outbox_closed_def)

lemma outbox_held_lease [simp]: "outbox_held (lease_outbox now m o1) = Some (now + m * millisecond)"
  by (simp add: outbox_held_def lease_outbox_def)

interpretation oq: leased_queue ob_id outbox_held outbox_closed outbox_step
proof
  fix rows now op i u rows'
  assume d: "distinct (map ob_id rows)" and st: "outbox_step now op rows = (Some (i, u), rows')"
  then obtain locked lease where [simp]: "op = ClaimOutbox locked lease"
    by (cases op) (auto simp: outbox_step_def)
  from st show "\<exists>j j'. get_row ob_id i rows = Some j \<and> get_row ob_id i rows' = Some j' \<and>
      \<not> outbox_closed j \<and> (\<forall>v. outbox_held j = Some v \<longrightarrow> v \<le> now) \<and> outbox_held j' = Some u"
    unfolding \<open>op = _\<close>
    by (cases rule: outbox_claim_cases)
      (auto simp: distinct_get_row [OF d] dest: outbox_ready_not_held outbox_ready_open)
next
  fix rows now op g rows' i j
  assume d: "distinct (map ob_id rows)" and st: "outbox_step now op rows = (g, rows')"
    and j: "get_row ob_id i rows = Some j" and g: "map_option fst g \<noteq> Some i"
  show "\<exists>j'. get_row ob_id i rows' = Some j' \<and> (outbox_closed j \<longrightarrow> outbox_closed j') \<and>
      (\<forall>u. outbox_held j = Some u \<longrightarrow> outbox_held j' = Some u \<or> outbox_closed j')"
  proof (cases op)
    case (ClaimOutbox locked lease)
    from st show ?thesis unfolding ClaimOutbox
      by (cases rule: outbox_claim_cases) (use j g in auto)
  next
    case (MarkSent k)
    define j' where "j' = (if i = k
      then j\<lparr>ob_state := ''sent'', ob_lease_until := None, ob_updated_at := now\<rparr> else j)"
    have "get_row ob_id i rows' = Some j'"
      using st j MarkSent by (auto simp: outbox_step_def markOutboxSent_def j'_def)
    moreover have "outbox_closed j \<Longrightarrow> outbox_closed j'" "outbox_held j = Some u \<Longrightarrow> outbox_held j' = Some u \<or> outbox_closed j'" for u
      by (auto simp: j'_def outbox_closed_def)
    ultimately show ?thesis by blast
  qed (use st j in \<open>auto simp: outbox_step_def\<close>)
next
  fix rows now op g rows'
  assume d: "distinct (map ob_id rows)" and st: "outbox_step now op rows = (g, rows')"
  show "distinct (map ob_id rows')"
  proof (cases op)
    case (ClaimOutbox locked lease)
    from st show ?thesis unfolding ClaimOutbox
      by (cases rule: outbox_claim_cases) (use d in auto)
  qed (use st d in \<open>auto simp: outbox_step_def markOutboxSent_def\<close>)
qed

section \<open>No write without approval\<close>

text \<open>What an approver of an action has seen, and what must hold of the tables.\<close>

definition approval_covers :: "ext \<Rightarrow> approval list \<Rightarrow> connector_action \<Rightarrow> bool" where
  "approval_covers E approvals a \<longleftrightarrow> (\<exists>p ap. ca_approval a = Some p \<and> get_row ap_id p approvals = Some ap \<and>
     ap_request ap = approval_request_json E (ca_id a) (ca_method a) (ca_url a) (ca_request a))"

definition action_ok :: "ext \<Rightarrow> approval list \<Rightarrow> connector_action \<Rightarrow> bool" where
  "action_ok E approvals a \<longleftrightarrow>
     ca_mode a = ModeRead \<and> ca_method a \<in> set read_methods \<or>
     ca_mode a = ModeWrite \<and> approval_covers E approvals a"

definition cleared :: "approval list \<Rightarrow> connector_action \<Rightarrow> bool" where
  "cleared approvals a \<longleftrightarrow> ca_mode a = ModeWrite \<and> (\<exists>p ap. ca_approval a = Some p \<and>
     get_row ap_id p approvals = Some ap \<and> ap_status ap = DecisionApproved)"

definition connector_ok :: "ext \<Rightarrow> tables \<Rightarrow> bool" where
  "connector_ok E t \<longleftrightarrow> all_sound (t_approvals t) \<and>
     (\<forall>i a. get_row ca_id i (t_actions t) = Some a \<longrightarrow> action_ok E (t_approvals t) a) \<and>
     (\<forall>o1 \<in> set (t_outbox t). \<exists>a. get_row ca_id (ob_action o1) (t_actions t) = Some a \<and>
        cleared (t_approvals t) a)"

text \<open>A call that nobody had to approve, or that a human other than the requester approved.\<close>

definition call_allowed :: "ext \<Rightarrow> approval list \<Rightarrow> http_call \<Rightarrow> bool" where
  "call_allowed E approvals c \<longleftrightarrow> hc_method c \<in> set read_methods \<or>
     (\<exists>p ap i request. get_row ap_id p approvals = Some ap \<and> ap_status ap = DecisionApproved \<and>
        ap_request ap = approval_request_json E i (hc_method c) (hc_url c) request \<and>
        hc_body c = jget request ''body'')"

definition connector_kinds :: "string list" where
  "connector_kinds = [EventHTTPConnectorActionRequested, EventHTTPConnectorActionApproved,
     EventHTTPConnectorActionSent]"

lemma apply_keeps_connector:
  assumes "registry_apply (NewProjectionRegistry E) ev t = Inr t'" "ev_kind ev \<notin> set connector_kinds"
  shows "t_actions t' = t_actions t \<and> t_outbox t' = t_outbox t"
  by (rule registry_apply_rel [OF _ _ _ assms(1),
        where R = "\<lambda>t t'. t_actions t' = t_actions t \<and> t_outbox t' = t_outbox t"])
     (use assms(2) in \<open>auto simp: registry_defs connector_kinds_def
        dest: projector_frames [THEN arg_cong [where f = t_actions]]
          projector_frames [THEN arg_cong [where f = t_outbox]]\<close>)

lemma app_append_keeps_connector:
  assumes "app_append E now st s = Inr (i, fresh, st')" "sp_kind s \<notin> set connector_kinds"
  shows "t_actions (proj st') = t_actions (proj st) \<and> t_outbox (proj st') = t_outbox (proj st)"
  using assms(1) unfolding app_append_def
proof (cases rule: Append_cases)
  case (insert p)
  from apply_keeps_connector [OF insert(4)] assms(2) insert(5) show ?thesis by simp
qed simp

lemma append_event_keeps_connector:
  "append_event E now s st = Inr st' \<Longrightarrow> sp_kind s \<notin> set connector_kinds \<Longrightarrow>
   t_actions (proj st') = t_actions (proj st) \<and> t_outbox (proj st') = t_outbox (proj st)"
  unfolding append_event_def map_sum_Inr using app_append_keeps_connector by fastforce

text \<open>Approvals keep what they were asked for, and approved ones stay approved.\<close>

definition approval_le :: "approval \<Rightarrow> approval \<Rightarrow> bool" where
  "approval_le a a' \<longleftrightarrow> ap_request a' = ap_request a \<and>
     (ap_status a = DecisionApproved \<longrightarrow> ap_status a' = DecisionApproved)"

definition approvals_le :: "approval list \<Rightarrow> approval list \<Rightarrow> bool" where
  "approvals_le rows rows' \<longleftrightarrow> (\<forall>i a. get_row ap_id i rows = Some a \<longrightarrow>
     (\<exists>a'. get_row ap_id i rows' = Some a' \<and> approval_le a a'))"

lemma approvals_le_refl [simp]: "approvals_le rows rows"
  by (simp add: approvals_le_def approval_le_def)

lemma approval_le_trans: "approval_le a b \<Longrightarrow> approval_le b c \<Longrightarrow> approval_le a c"
  by (simp add: approval_le_def)

lemma approvals_le_trans: "approvals_le r s \<Longrightarrow> approvals_le s t \<Longrightarrow> approvals_le r t"
  unfolding approvals_le_def by (meson approval_le_trans)

lemma approvals_leD:
  assumes "approvals_le rows rows'" "get_row ap_id i rows = Some a"
  obtains a' where "get_row ap_id i rows' = Some a'" "ap_request a' = ap_request a"
    "ap_status a = DecisionApproved \<Longrightarrow> ap_status a' = DecisionApproved"
  using assms unfolding approvals_le_def approval_le_def by blast

lemma move_le: "approvals_move rows rows' \<Longrightarrow> approvals_le rows rows'"
proof (induction rule: approvals_move.induct)
  case (created a rows)
  then show ?case by (simp add: approvals_le_def approval_le_def)
next
  case (decided i rows a ev decision reason)
  then have "approval_le a (decide_row ev decision reason a)"
    by (simp add: decide_row_def approval_le_def)
  moreover have "approval_le b b" for b by (simp add: approval_le_def)
  ultimately show ?case using decided by (simp add: approvals_le_def)
qed simp

lemma call_allowed_mono:
  assumes "call_allowed E rows c" "approvals_le rows rows'"
  shows "call_allowed E rows' c"
proof (cases "hc_method c \<in> set read_methods")
  case False
  with assms(1) obtain p ap i request where "get_row ap_id p rows = Some ap"
      "ap_status ap = DecisionApproved"
      "ap_request ap = approval_request_json E i (hc_method c) (hc_url c) request"
      "hc_body c = jget request ''body''"
    unfolding call_allowed_def by blast
  moreover from approvals_leD [OF assms(2) this(1)] obtain a' where
    "get_row ap_id p rows' = Some a'" "ap_request a' = ap_request ap"
    "ap_status ap = DecisionApproved \<Longrightarrow> ap_status a' = DecisionApproved" by blast
  ultimately have "get_row ap_id p rows' = Some a' \<and> ap_status a' = DecisionApproved \<and>
      ap_request a' = approval_request_json E i (hc_method c) (hc_url c) request \<and>
      hc_body c = jget request ''body''" by simp
  then show ?thesis unfolding call_allowed_def by blast
qed (simp add: call_allowed_def)

lemma action_ok_mono: "action_ok E rows a \<Longrightarrow> approvals_le rows rows' \<Longrightarrow> action_ok E rows' a"
  unfolding action_ok_def approval_covers_def by (elim disjE exE conjE) (auto elim!: approvals_leD)

lemma cleared_mono: "cleared rows a \<Longrightarrow> approvals_le rows rows' \<Longrightarrow> cleared rows' a"
  unfolding cleared_def by (elim exE conjE) (auto elim!: approvals_leD)

lemma connector_ok_move:
  assumes "connector_ok E t" "approvals_move (t_approvals t) (t_approvals t')"
    and "t_actions t' = t_actions t" "t_outbox t' = t_outbox t"
  shows "connector_ok E t'"
  using assms(1,3,4) move_sound [OF assms(2)] move_le [OF assms(2)]
  unfolding connector_ok_def by (auto intro: action_ok_mono) (meson cleared_mono)

lemma connector_ok_other:
  assumes "app_append E now st s = Inr (i, fresh, st')" "connector_ok E (proj st)"
    and "sp_kind s \<notin> set connector_kinds" "sp_kind s \<notin> set approval_kinds"
  shows "connector_ok E (proj st')"
  using connector_ok_move [OF assms(2), of "proj st'"] app_append_keeps_connector [OF assms(1,3)]
    app_append_keeps_approvals [OF assms(1,4)] approvals_move.same by simp

text \<open>The operations on approvals leave the actions and the outbox alone.\<close>

lemma approval_spec_keeps_connector:
  "app_append E now st (approval_spec i kind actor disc j) = Inr (k, fresh, st') \<Longrightarrow>
   kind \<in> set approval_kinds \<Longrightarrow>
   t_actions (proj st') = t_actions (proj st) \<and> t_outbox (proj st') = t_outbox (proj st)"
  by (rule app_append_keeps_connector) (auto simp: approval_kinds_def connector_kinds_def)

lemma work_item_spec_keeps_connector:
  "append_event E now (work_item_spec wid EventWorkItemTransitioned actor disc j) st = Inr st' \<Longrightarrow>
   t_actions (proj st') = t_actions (proj st) \<and> t_outbox (proj st') = t_outbox (proj st)"
  by (rule append_event_keeps_connector) (auto simp: connector_kinds_def)

lemma CreateInTx_keeps_connector:
  assumes "CreateInTx E now clock st disc drawn inp = Inr (i, eventID, fresh, st')"
  shows "t_actions (proj st') = t_actions (proj st) \<and> t_outbox (proj st') = t_outbox (proj st)"
  using assms
proof (rule CreateInTx_parts)
  fix state st1 j
  assume c: "app_append E now st (approval_spec i EventApprovalCreated (an_actor inp) []
       (created_json E (an_work_item inp) (trim_space (an_summary inp))
         (if an_request inp = JNull then JObj [] else an_request inp)
         (approval_expiry clock (an_expires_in inp)))) = Inr (eventID, fresh, st1)"
    and t: "state \<noteq> WorkItemAwaitingApproval \<Longrightarrow> append_event E now (work_item_spec (an_work_item inp)
       EventWorkItemTransitioned (an_actor inp) disc (transition_json state WorkItemAwaitingApproval
         (''approval requested: '' @ trim_space (an_summary inp)))) st1 = Inr st'"
      "state = WorkItemAwaitingApproval \<Longrightarrow> st1 = st'"
  have "t_actions (proj st1) = t_actions (proj st) \<and> t_outbox (proj st1) = t_outbox (proj st)"
    by (rule approval_spec_keeps_connector [OF c]) (simp add: approval_kinds_def)
  with t show ?thesis
    by (cases "state = WorkItemAwaitingApproval") (auto dest: work_item_spec_keeps_connector)
qed

lemma settle_keeps_connector:
  assumes "settle E now st disc actor a kind j dest sr = Inr (x, st')" "kind \<in> set approval_kinds"
  shows "t_actions (proj st') = t_actions (proj st) \<and> t_outbox (proj st') = t_outbox (proj st)"
proof -
  obtain k fresh st1 where c: "app_append E now st (approval_spec (ap_id a) kind actor disc j) =
      Inr (k, fresh, st1)"
    and t: "appendApprovalTransition E now st1 actor (ap_work_item a) dest sr disc = Inr st'"
    using assms(1) by (auto simp: settle_def bind_err_Inr)
  have "t_actions (proj st') = t_actions (proj st1) \<and> t_outbox (proj st') = t_outbox (proj st1)"
    using t unfolding appendApprovalTransition_def
    by (auto simp: bind_err_Inr split: if_splits dest: work_item_spec_keeps_connector)
  with approval_spec_keeps_connector [OF c assms(2)] show ?thesis by simp
qed

lemma CreateApproval_keeps_connector:
  "CreateApproval E now clock st disc drawn ainp = (r, st') \<Longrightarrow>
   t_actions (proj st') = t_actions (proj st) \<and> t_outbox (proj st') = t_outbox (proj st)"
  unfolding CreateApproval_def
  by (cases r) (auto simp: rollback_eq bind_err_Inr dest: CreateInTx_keeps_connector)

lemma DecideApproval_keeps_connector:
  "DecideApproval E now st disc dinp = (r, st') \<Longrightarrow>
   t_actions (proj st') = t_actions (proj st) \<and> t_outbox (proj st') = t_outbox (proj st)"
  by (erule DecideApproval_cases) (auto dest: settle_keeps_connector simp: approval_kinds_def)

lemma ExpireApproval_keeps_connector:
  "ExpireApproval E now st disc i reason actor = (r, st') \<Longrightarrow>
   t_actions (proj st') = t_actions (proj st) \<and> t_outbox (proj st') = t_outbox (proj st)"
  by (erule ExpireApproval_cases) (auto dest: settle_keeps_connector simp: approval_kinds_def)

section \<open>What the appends of the connector do\<close>

definition same_request :: "connector_action \<Rightarrow> connector_action \<Rightarrow> bool" where
  "same_request a b \<longleftrightarrow> ca_id a = ca_id b \<and> ca_mode a = ca_mode b \<and> ca_method a = ca_method b \<and>
     ca_url a = ca_url b \<and> ca_request a = ca_request b \<and> ca_approval a = ca_approval b"

lemma same_request_ok:
  "same_request a b \<Longrightarrow> action_ok E rows a = action_ok E rows b"
  "same_request a b \<Longrightarrow> cleared rows a = cleared rows b"
  by (simp_all add: same_request_def action_ok_def approval_covers_def cleared_def)

lemma connector_ok_update:
  assumes ok: "connector_ok E t" and f: "\<And>a. same_request (f a) a"
    and t': "t_actions t' = update_row ca_id i f (t_actions t)" "t_approvals t' = t_approvals t"
    and out: "\<And>o1. o1 \<in> set (t_outbox t') \<Longrightarrow> o1 \<in> set (t_outbox t) \<or>
      (\<exists>a. get_row ca_id (ob_action o1) (t_actions t) = Some a \<and> cleared (t_approvals t) a)"
  shows "connector_ok E t'"
proof -
  have id: "ca_id (f a) = ca_id a" for a using f by (simp add: same_request_def)
  have got: "get_row ca_id k (t_actions t') =
      (if k = i then map_option f (get_row ca_id k (t_actions t)) else get_row ca_id k (t_actions t))" for k
    using id by (simp add: t')
  have "action_ok E (t_approvals t') a" if a: "get_row ca_id k (t_actions t') = Some a" for k a
  proof -
    obtain b where "get_row ca_id k (t_actions t) = Some b" "a = f b \<or> a = b"
      using a got by (auto split: if_splits)
    with ok t'(2) same_request_ok(1) [OF f] show ?thesis by (auto simp: connector_ok_def)
  qed
  moreover have "\<exists>a. get_row ca_id (ob_action o1) (t_actions t') = Some a \<and> cleared (t_approvals t') a"
    if o1: "o1 \<in> set (t_outbox t')" for o1
  proof -
    obtain a where "get_row ca_id (ob_action o1) (t_actions t) = Some a" "cleared (t_approvals t) a"
      using out [OF o1] ok by (auto simp: connector_ok_def)
    with got [of "ob_action o1"] t'(2) same_request_ok(2) [OF f] show ?thesis by auto
  qed
  ultimately show ?thesis using ok t'(2) by (simp add: connector_ok_def)
qed

lemma action_spec_sel [simp]:
  "sp_subject_kind (action_spec i kind actor disc payload) = SubjectHTTPConnectorAction"
  "sp_subject_id (action_spec i kind actor disc payload) = i"
  "sp_kind (action_spec i kind actor disc payload) = kind"
  "sp_payload (action_spec i kind actor disc payload) = payload"
  "sp_actor (action_spec i kind actor disc payload) = Some (tok_id actor)"
  by (simp_all add: action_spec_def)

lemma action_spec_keeps_approvals:
  "app_append E now st (action_spec i kind actor disc j) = Inr (k, fresh, st') \<Longrightarrow>
   kind \<in> set connector_kinds \<Longrightarrow> t_approvals (proj st') = t_approvals (proj st)"
  by (rule app_append_keeps_approvals) (auto simp: approval_kinds_def connector_kinds_def)

lemma append_sent_ok:
  assumes "append_event E now (action_spec i EventHTTPConnectorActionSent actor disc j) st = Inr st'"
    and ok: "connector_ok E (proj st)"
  shows "connector_ok E (proj st') \<and> t_approvals (proj st') = t_approvals (proj st)"
proof -
  obtain k fresh where app: "app_append E now st (action_spec i EventHTTPConnectorActionSent actor disc j) =
      Inr (k, fresh, st')"
    using assms(1) by (auto simp: append_event_def map_sum_Inr)
  have keeps: "t_approvals (proj st') = t_approvals (proj st)"
    by (rule action_spec_keeps_approvals [OF app]) (simp add: connector_kinds_def)
  from app have "connector_ok E (proj st')" unfolding app_append_def
  proof (cases rule: Append_cases)
    case (insert p)
    let ?ev = "event_of now k (action_spec i EventHTTPConnectorActionSent actor disc j)"
    from insert have "actionSentProjector ?ev (proj st) = Inr p" by (simp add: registry_apply_kinds)
    then obtain status body where p: "p = (proj st)\<lparr>t_actions := update_row ca_id i
        (\<lambda>a. a\<lparr>ca_status := StatusSent, ca_response_status := Some status, ca_response_body := body,
          ca_error := [], ca_updated_at := now\<rparr>) (t_actions (proj st))\<rparr>"
      unfolding actionSentProjector_def Let_def by (elim bind_err_Inr_E) auto
    show ?thesis
      by (rule connector_ok_update [OF ok, where i = i]) (use insert(5) p in \<open>auto simp: same_request_def\<close>)
  qed (use ok in simp)
  with keeps show ?thesis by simp
qed

lemma append_approved_ok:
  assumes app: "app_append E now st (action_spec i EventHTTPConnectorActionApproved actor disc j) = Inr (k, fresh, st')"
    and ok: "connector_ok E (proj st)"
    and a: "get_row ca_id i (t_actions (proj st)) = Some a" "cleared (t_approvals (proj st)) a"
  shows "connector_ok E (proj st') \<and> t_approvals (proj st') = t_approvals (proj st)"
proof -
  have keeps: "t_approvals (proj st') = t_approvals (proj st)"
    by (rule action_spec_keeps_approvals [OF app]) (simp add: connector_kinds_def)
  from app have "connector_ok E (proj st')" unfolding app_append_def
  proof (cases rule: Append_cases)
    case (insert p)
    let ?ev = "event_of now k (action_spec i EventHTTPConnectorActionApproved actor disc j)"
    let ?f = "\<lambda>a. if ca_status a \<noteq> StatusSent
        then a\<lparr>ca_status := StatusApproved, ca_updated_at := ev_occurred_at ?ev\<rparr> else a"
    from insert have "actionApprovedProjector E ?ev (proj st) = Inr p" by (simp add: registry_apply_kinds)
    then obtain row where p: "t_actions p = update_row ca_id i ?f (t_actions (proj st))"
        "t_outbox p = insert_row ob_id row (t_outbox (proj st))" "ob_action row = i"
      unfolding actionApprovedProjector_def Let_def by (elim bind_err_Inr_E) auto
    show ?thesis
    proof (rule connector_ok_update [OF ok, where i = i and f = ?f])
      show "t_approvals (proj st') = t_approvals (proj st)" by (rule keeps)
      fix o1 assume "o1 \<in> set (t_outbox (proj st'))"
      then have "o1 \<in> set (t_outbox (proj st)) \<or> o1 = row"
        using insert(5) p(2) by (auto dest: set_insert_row)
      with p(3) a show "o1 \<in> set (t_outbox (proj st)) \<or>
          (\<exists>a. get_row ca_id (ob_action o1) (t_actions (proj st)) = Some a \<and> cleared (t_approvals (proj st)) a)"
        by blast
    qed (use insert(5) p(1) in \<open>auto simp: same_request_def\<close>)
  qed (use ok in simp)
  with keeps show ?thesis by simp
qed

definition normalized :: "normalized_request \<Rightarrow> bool" where
  "normalized n \<longleftrightarrow> nr_request n \<noteq> JNull \<and>
     (nr_mode n = ModeRead \<and> nr_method n \<in> set read_methods \<or>
      nr_mode n = ModeWrite \<and> nr_method n \<in> set write_methods)"

lemma normalizeRequest_normalized: "normalizeRequest H inp = Inr n \<Longrightarrow> normalized n"
  unfolding normalizeRequest_def Let_def
  by (elim bind_err_Inr_E) (auto simp: normalized_def split: option.splits if_splits elim!: bind_err_Inr_E)

lemma requestEventPayload_reads [simp]:
  "jobject (requestEventPayload E n p)"
  "jget (requestEventPayload E n p) ''work_item_id'' = juid E (nr_work_item n)"
  "jget (requestEventPayload E n p) ''mode'' = JStr (nr_mode n)"
  "jget (requestEventPayload E n p) ''method'' = JStr (nr_method n)"
  "jget (requestEventPayload E n p) ''url'' = JStr (nr_url n)"
  "jget (requestEventPayload E n p) ''request'' = nr_request n"
  "jget (requestEventPayload E n p) ''approval_id'' = (if p \<noteq> uuid_nil then juid E p else JNull)"
  by (simp_all add: requestEventPayload_def)

lemma append_requested_rows:
  assumes "ext_ok E" and n: "normalized n"
    and app: "app_append E now st (action_spec i EventHTTPConnectorActionRequested actor []
        (requestEventPayload E n p)) = Inr (k, fresh, st')"
  obtains (replay) "st' = st"
  | (row) a where "t_actions (proj st') = insert_row ca_id a (t_actions (proj st))"
      "t_outbox (proj st') = t_outbox (proj st)" "ca_id a = i" "ca_mode a = nr_mode n"
      "ca_method a = nr_method n" "ca_url a = nr_url n" "ca_request a = nr_request n"
      "ca_approval a = (if nr_mode n = ModeWrite then Some p else None)"
  using app unfolding app_append_def
proof (cases rule: Append_cases)
  case (insert q)
  let ?ev = "event_of now k (action_spec i EventHTTPConnectorActionRequested actor []
        (requestEventPayload E n p))"
  from insert have q: "actionRequestedProjector E ?ev (proj st) = Inr q" by (simp add: registry_apply_kinds)
  have "juuid E JNull = Inr uuid_nil" by (simp add: juuid_def)
  with assms(1) q n insert(5) show thesis
    unfolding actionRequestedProjector_def Let_def
    by (elim bind_err_Inr_E) (auto intro!: row simp: normalized_def split: if_splits)
qed (rule replay)

text \<open>
  A request is made under ids that newSubjectID draws: it repeats an earlier action, or it is a
  read, or the id of its approval is new and its creation inserts the approval (the id of the
  creation event does not collide with another event).
\<close>

definition new_approval :: "db \<Rightarrow> db \<Rightarrow> uuid \<Rightarrow> bool" where
  "new_approval st st' p \<longleftrightarrow>
     p \<notin> ap_id ` set (t_approvals (proj st)) \<and> p \<in> ap_id ` set (t_approvals (proj st'))"

lemma connector_ok_insert:
  assumes "connector_ok E t" "t_actions t' = insert_row ca_id a (t_actions t)"
    and "t_outbox t' = t_outbox t" "t_approvals t' = t_approvals t"
    and new: "ca_id a \<notin> ca_id ` set (t_actions t) \<Longrightarrow> action_ok E (t_approvals t) a"
  shows "connector_ok E t'"
proof (cases "ca_id a \<in> ca_id ` set (t_actions t)")
  case True
  with assms(1-4) show ?thesis by (simp add: insert_row_def connector_ok_def)
next
  case False
  have "action_ok E (t_approvals t') b" if "get_row ca_id k (t_actions t') = Some b" for k b
    using that new [OF False] assms(1,2,4)
    by (auto simp: connector_ok_def split: option.splits if_splits)
  moreover have "\<exists>b. get_row ca_id (ob_action o1) (t_actions t') = Some b \<and> cleared (t_approvals t') b"
    if "o1 \<in> set (t_outbox t')" for o1
    using that assms(1-4) by (fastforce simp: connector_ok_def)
  ultimately show ?thesis using assms(1,4) by (simp add: connector_ok_def)
qed

lemma CreateInTx_ok:
  assumes c: "CreateInTx E now clock st disc p inp = Inr (i, eventID, fresh, st')"
    and "connector_ok E (proj st)"
  shows "connector_ok E (proj st')"
  using connector_ok_move [OF assms(2) CreateInTx_move [OF c]] CreateInTx_keeps_connector [OF c] by simp

lemma CreateInTx_new_row:
  assumes c: "CreateInTx E now clock st disc p inp = Inr (i, eventID, fresh, st')"
    and "an_approval inp = p" "an_request inp \<noteq> JNull" "new_approval st st' p"
  shows "\<exists>ap. get_row ap_id p (t_approvals (proj st')) = Some ap \<and> ap_request ap = an_request inp"
  using c
proof (rule CreateInTx_parts)
  fix state st1
  assume i: "i = (if an_approval inp = uuid_nil then p else an_approval inp)"
    and app: "app_append E now st (approval_spec i EventApprovalCreated (an_actor inp) []
       (created_json E (an_work_item inp) (trim_space (an_summary inp))
         (if an_request inp = JNull then JObj [] else an_request inp)
         (approval_expiry clock (an_expires_in inp)))) = Inr (eventID, fresh, st1)"
    and t: "state \<noteq> WorkItemAwaitingApproval \<Longrightarrow> append_event E now (work_item_spec (an_work_item inp)
       EventWorkItemTransitioned (an_actor inp) disc (transition_json state WorkItemAwaitingApproval
         (''approval requested: '' @ trim_space (an_summary inp)))) st1 = Inr st'"
      "state = WorkItemAwaitingApproval \<Longrightarrow> st1 = st'"
  have i: "i = p" using i assms(2) by simp
  have same: "t_approvals (proj st') = t_approvals (proj st1)"
    using t by (cases "state = WorkItemAwaitingApproval")
      (auto simp: approval_kinds_def dest!: append_event_keeps_approvals)
  from app show ?thesis
  proof (cases rule: append_created_rows)
    case replay
    with same assms(4) show ?thesis by (simp add: new_approval_def)
  next
    case (row a)
    have "get_row ap_id p (t_approvals (proj st)) = None"
      using assms(4) by (auto simp: new_approval_def get_row_None)
    with row i same assms(3) show ?thesis by simp
  qed
qed

lemma request_in_tx_ok:
  assumes "ext_ok E" and n: "normalized n"
    and run: "request_in_tx E now clock st disc i p n actor = Inr (approvalEvent, eventID, fresh, st')"
    and ok: "connector_ok E (proj st)"
    and ids: "i \<in> ca_id ` set (t_actions (proj st)) \<or> nr_mode n = ModeRead \<or> new_approval st st' p"
  shows "connector_ok E (proj st') \<and> approvals_le (t_approvals (proj st)) (t_approvals (proj st'))"
proof -
  let ?inp = "\<lparr>an_approval = p, an_work_item = nr_work_item n,
            an_summary = ''HTTP connector write '' @ nr_method n @ '' '' @ nr_url n,
            an_request = approval_request_json E i (nr_method n) (nr_url n) (nr_request n),
            an_expires_in = 0, an_actor = actor\<rparr>"
  obtain st1 where
    c: "if nr_mode n = ModeWrite
        then \<exists>j e fr. CreateInTx E now clock st disc p ?inp = Inr (j, e, fr, st1) else st1 = st"
    and app: "app_append E now st1 (action_spec i EventHTTPConnectorActionRequested actor []
        (requestEventPayload E n p)) = Inr (eventID, fresh, st')"
    using run unfolding request_in_tx_def
    by (elim bind_err_Inr_E) (auto split: if_splits elim!: bind_err_Inr_E)
  have keeps: "t_approvals (proj st') = t_approvals (proj st1)"
    by (rule action_spec_keeps_approvals [OF app]) (simp add: connector_kinds_def)
  have ok1: "connector_ok E (proj st1)" using c ok CreateInTx_ok by (auto split: if_splits)
  have le1: "approvals_le (t_approvals (proj st)) (t_approvals (proj st1))"
    using c CreateInTx_move move_le by (fastforce split: if_splits)
  have acts: "t_actions (proj st1) = t_actions (proj st)"
    using c CreateInTx_keeps_connector by (fastforce split: if_splits)
  from assms(1) n app have "connector_ok E (proj st')"
  proof (cases rule: append_requested_rows)
    case (row a)
    show ?thesis
    proof (rule connector_ok_insert [OF ok1 row(1,2) keeps])
      assume new: "ca_id a \<notin> ca_id ` set (t_actions (proj st1))"
      show "action_ok E (t_approvals (proj st1)) a"
      proof (cases "nr_mode n = ModeRead")
        case True
        with row n show ?thesis by (simp add: action_ok_def normalized_def)
      next
        case False
        with n have w: "nr_mode n = ModeWrite" by (auto simp: normalized_def)
        have "new_approval st st1 p"
          using ids new False acts keeps row(3) by (simp add: new_approval_def)
        with c w obtain ap where "get_row ap_id p (t_approvals (proj st1)) = Some ap"
            "ap_request ap = approval_request_json E i (nr_method n) (nr_url n) (nr_request n)"
          using CreateInTx_new_row [of E now clock st disc p ?inp]
          by (fastforce simp: approval_request_json_def)
        with row w show ?thesis by (simp add: action_ok_def approval_covers_def)
      qed
    qed
  qed (use ok1 in simp)
  with le1 keeps show ?thesis by simp
qed

lemma executeAction_keeps_approvals:
  "executeAction E H now st a actor = (r, st', calls) \<Longrightarrow>
   t_approvals (proj st') = t_approvals (proj st)"
  unfolding executeAction_def Let_def append_event_def
  by (auto simp: map_sum_Inr connector_kinds_def split: if_splits sum.splits
      dest!: action_spec_keeps_approvals)

lemma executeAction_ok:
  assumes ex: "executeAction E H now st a actor = (r, st', calls)" and ok: "connector_ok E (proj st)"
  shows "connector_ok E (proj st') \<and> t_approvals (proj st') = t_approvals (proj st) \<and>
    set calls \<subseteq> {\<lparr>hc_method = ca_method a, hc_url = ca_url a, hc_body = jget (ca_request a) ''body''\<rparr>}"
  using ex ok unfolding executeAction_def Let_def
  by (auto split: if_splits sum.splits dest: append_sent_ok)

lemma executed_call_allowed:
  assumes "executeAction E H now st a actor = (r, st', calls)" "connector_ok E (proj st)"
    and "action_ok E (t_approvals (proj st)) a"
    and "ca_mode a = ModeRead \<or> cleared (t_approvals (proj st)) a" "c \<in> set calls"
  shows "call_allowed E (t_approvals (proj st')) c"
proof -
  have c: "hc_method c = ca_method a" "hc_url c = ca_url a" "hc_body c = jget (ca_request a) ''body''"
    and same: "t_approvals (proj st') = t_approvals (proj st)"
    using executeAction_ok [OF assms(1,2)] assms(5) by auto
  show ?thesis
  proof (cases "ca_mode a = ModeRead")
    case True
    with assms(3) c show ?thesis by (auto simp: action_ok_def call_allowed_def)
  next
    case False
    with assms(3,4) obtain p ap where "get_row ap_id p (t_approvals (proj st)) = Some ap"
      "ap_request ap = approval_request_json E (ca_id a) (ca_method a) (ca_url a) (ca_request a)"
      "ap_status ap = DecisionApproved"
      by (auto simp: action_ok_def approval_covers_def cleared_def)
    with c same show ?thesis unfolding call_allowed_def by auto
  qed
qed

section \<open>Runs of the connector\<close>

definition request_ids :: "db \<Rightarrow> db \<Rightarrow> action_input \<Rightarrow> uuid \<Rightarrow> uuid \<Rightarrow> bool" where
  "request_ids st st' inp drawnAction drawnApproval \<longleftrightarrow>
     (if ai_action inp = uuid_nil then drawnAction else ai_action inp) \<in> ca_id ` set (t_actions (proj st)) \<or>
     to_lower (trim_space (ai_mode inp)) = ModeRead \<or>
     new_approval st st' (if ai_approval inp = uuid_nil then drawnApproval else ai_approval inp)"

inductive connector_run :: "ext \<Rightarrow> http_ext \<Rightarrow> db \<Rightarrow> http_call list \<Rightarrow> db \<Rightarrow> bool" for E H st where
  start: "connector_run E H st [] st"
| request: "connector_run E H st cs st1 \<Longrightarrow>
    RequestAction E H now now' clock st1 disc drawnAction drawnApproval ainp = (r1, st2, calls) \<Longrightarrow>
    request_ids st1 st2 ainp drawnAction drawnApproval \<Longrightarrow> connector_run E H st (cs @ calls) st2"
| enqueue: "connector_run E H st cs st1 \<Longrightarrow> EnqueueApprovedWrite E now st1 i actor = (r2, st2) \<Longrightarrow>
    connector_run E H st cs st2"
| dispatch: "connector_run E H st cs st1 \<Longrightarrow>
    DispatchOnce E H now now' now'' st1 locked actor lease = (r3, st2, calls) \<Longrightarrow>
    connector_run E H st (cs @ calls) st2"
| create: "connector_run E H st cs st1 \<Longrightarrow> CreateApproval E now clock st1 disc drawn pinp = (r, st2) \<Longrightarrow>
    connector_run E H st cs st2"
| decide: "connector_run E H st cs st1 \<Longrightarrow> DecideApproval E now st1 disc dinp = (r, st2) \<Longrightarrow>
    connector_run E H st cs st2"
| expire: "connector_run E H st cs st1 \<Longrightarrow> ExpireApproval E now st1 disc i reason actor = (r, st2) \<Longrightarrow>
    connector_run E H st cs st2"
| other: "connector_run E H st cs st1 \<Longrightarrow> app_append E now st1 s = Inr (i, fresh, st2) \<Longrightarrow>
    sp_kind s \<notin> set approval_kinds \<Longrightarrow> sp_kind s \<notin> set connector_kinds \<Longrightarrow>
    connector_run E H st cs st2"

text \<open>One step keeps the invariant and only makes allowed calls.\<close>

definition safe_step :: "ext \<Rightarrow> db \<Rightarrow> http_call list \<Rightarrow> db \<Rightarrow> bool" where
  "safe_step E st calls st' \<longleftrightarrow> connector_ok E (proj st') \<and>
     approvals_le (t_approvals (proj st)) (t_approvals (proj st')) \<and>
     list_all (call_allowed E (t_approvals (proj st'))) calls"

lemma safe_move:
  assumes "connector_ok E (proj st)" "approvals_move (t_approvals (proj st)) (t_approvals (proj st'))"
    and "t_actions (proj st') = t_actions (proj st) \<and> t_outbox (proj st') = t_outbox (proj st)"
  shows "safe_step E st [] st'"
  using connector_ok_move [OF assms(1,2)] move_le [OF assms(2)] assms(3) by (simp add: safe_step_def)

lemma GetAction_Inr: "GetAction st i = Inr a \<longleftrightarrow> get_row ca_id i (t_actions (proj st)) = Some a"
  by (auto simp: GetAction_def split: option.splits)

lemma safe_request:
  assumes "ext_ok E" and ok: "connector_ok E (proj st)"
    and run: "RequestAction E H now now' clock st disc drawnAction drawnApproval inp = (r, st', calls)"
    and ids: "request_ids st st' inp drawnAction drawnApproval"
  shows "safe_step E st calls st'"
proof (cases "st' = st \<and> calls = []")
  case True
  with ok show ?thesis by (simp add: safe_step_def)
next
  case False
  let ?i = "if ai_action inp = uuid_nil then drawnAction else ai_action inp"
  obtain n where n: "normalizeRequest H inp = Inr n"
    using run False by (auto simp: RequestAction_def Let_def split: if_splits sum.splits)
  let ?p = "if nr_mode n = ModeWrite \<and> ai_approval inp = uuid_nil then drawnApproval else ai_approval inp"
  obtain ae eid fresh st2 where
    tx: "request_in_tx E now clock st disc ?i ?p n (ai_actor inp) = Inr (ae, eid, fresh, st2)"
    using run False n by (auto simp: RequestAction_def Let_def split: if_splits sum.splits)
  have norm: "normalized n" using normalizeRequest_normalized [OF n] .
  have mode: "nr_mode n = to_lower (trim_space (ai_mode inp))"
    using n unfolding normalizeRequest_def Let_def
    by (elim bind_err_Inr_E) (auto split: option.splits elim!: bind_err_Inr_E)
  obtain a where rest: "st' = st2 \<and> calls = [] \<or> GetAction st2 ?i = Inr a \<and> ca_mode a = ModeRead \<and>
      (\<exists>x. executeAction E H now' st2 a (ai_actor inp) = (x, st', calls))"
    using run n tx False unfolding RequestAction_def Let_def
    by (auto split: if_splits sum.splits prod.splits option.splits)
  have same: "t_approvals (proj st') = t_approvals (proj st2)"
    using rest executeAction_keeps_approvals by blast
  have "nr_mode n = ModeRead \<or> nr_mode n = ModeWrite" using norm by (auto simp: normalized_def)
  then have tx_ok: "connector_ok E (proj st2)" "approvals_le (t_approvals (proj st)) (t_approvals (proj st2))"
    using request_in_tx_ok [OF assms(1) norm tx ok] ids mode same
    by (auto simp: request_ids_def new_approval_def)
  from rest show ?thesis
  proof
    assume "st' = st2 \<and> calls = []"
    with tx_ok show ?thesis by (simp add: safe_step_def)
  next
    assume "GetAction st2 ?i = Inr a \<and> ca_mode a = ModeRead \<and>
      (\<exists>x. executeAction E H now' st2 a (ai_actor inp) = (x, st', calls))"
    then obtain x where a: "GetAction st2 ?i = Inr a" "ca_mode a = ModeRead"
      and ex: "executeAction E H now' st2 a (ai_actor inp) = (x, st', calls)" by blast
    have "action_ok E (t_approvals (proj st2)) a"
      using a(1) tx_ok(1) by (auto simp: GetAction_Inr connector_ok_def)
    then have "c \<in> set calls \<Longrightarrow> call_allowed E (t_approvals (proj st')) c" for c
      using executed_call_allowed [OF ex tx_ok(1)] a(2) by blast
    with executeAction_ok [OF ex tx_ok(1)] tx_ok same show ?thesis
      by (simp add: safe_step_def list_all_iff)
  qed
qed

lemma safe_enqueue:
  assumes ok: "connector_ok E (proj st)" and run: "EnqueueApprovedWrite E now st i actor = (r, st')"
  shows "safe_step E st [] st'"
proof (cases "st' = st")
  case True
  with ok show ?thesis by (simp add: safe_step_def)
next
  case False
  with run obtain a p ap disc j k fresh where
    a: "GetAction st i = Inr a" "ca_mode a = ModeWrite" "ca_approval a = Some p"
      "GetApproval st p = Inr ap" "ap_status ap = DecisionApproved"
    and app: "app_append E now st (action_spec i EventHTTPConnectorActionApproved actor disc j) =
      Inr (k, fresh, st')"
    unfolding EnqueueApprovedWrite_def
    by (cases r) (auto simp: rollback_eq bind_err_Inr split: if_splits option.splits)
  have "cleared (t_approvals (proj st)) a"
    using a by (auto simp: cleared_def GetApproval_Inr)
  with append_approved_ok [OF app ok] a(1) show ?thesis
    by (simp add: GetAction_Inr safe_step_def)
qed

lemma connector_ok_outbox:
  assumes "connector_ok E t" "\<And>o1. o1 \<in> set rows \<Longrightarrow> ob_action o1 \<in> ob_action ` set (t_outbox t)"
  shows "connector_ok E (t\<lparr>t_outbox := rows\<rparr>)"
  using assms unfolding connector_ok_def by fastforce

lemma update_outbox_actions:
  "(\<And>o1. ob_action (f o1) = ob_action o1) \<Longrightarrow> o1 \<in> set (update_row ob_id i f rows) \<Longrightarrow>
   ob_action o1 \<in> ob_action ` set rows"
  by (auto dest!: set_update_row)

lemma markOutboxSent_actions:
  "o1 \<in> set (markOutboxSent now i rows) \<Longrightarrow> ob_action o1 \<in> ob_action ` set rows"
  unfolding markOutboxSent_def by (rule update_outbox_actions) simp_all

lemma safe_dispatch:
  assumes ok: "connector_ok E (proj st)"
    and run: "DispatchOnce E H now now' now'' st locked actor lease = (r, st', calls)"
  shows "safe_step E st calls st'"
proof (cases "st' = st \<and> calls = []")
  case True
  with ok show ?thesis by (simp add: safe_step_def)
next
  case False
  let ?lease = "if lease \<le> 0 then hour div 60 else lease"
  obtain c rows where c: "claimOutbox now locked ?lease (t_outbox (proj st)) = (c, rows)" by fastforce
  from c show ?thesis
  proof (cases rule: claimOutbox_cases)
    case none
    with run False c show ?thesis by (auto simp: DispatchOnce_def split: if_splits)
  next
    case (some o1 m)
    let ?st1 = "with_outbox st rows"
    have lease: "ob_action (lease_outbox now m k) = ob_action k" for k by (simp add: lease_outbox_def)
    have ok1: "connector_ok E (proj ?st1)"
      using connector_ok_outbox [OF ok] update_outbox_actions [of "lease_outbox now m", OF lease] some(6)
      by simp
    obtain a where a: "get_row ca_id (ob_action o1) (t_actions (proj st)) = Some a"
      "cleared (t_approvals (proj st)) a" "action_ok E (t_approvals (proj st)) a"
      using ok some(1) by (auto simp: connector_ok_def)
    obtain x st2 calls2 where ex: "executeAction E H now' ?st1 a actor = (x, st2, calls2)"
      by (metis prod_cases3)
    have st': "calls = calls2" "st' = st2 \<or>
        st' = with_outbox st2 (markOutboxSent now'' (ob_id o1) (t_outbox (proj st2)))"
      using run False c ex some a(1)
      by (auto simp: DispatchOnce_def Let_def GetAction_def lease split: if_splits sum.splits)
    have e: "connector_ok E (proj st2)" "t_approvals (proj st2) = t_approvals (proj st)"
      using executeAction_ok [OF ex ok1] by simp_all
    have "connector_ok E (proj st') \<and> t_approvals (proj st') = t_approvals (proj st)"
      using st'(2) e connector_ok_outbox [OF e(1) markOutboxSent_actions] by auto
    moreover have "call_allowed E (t_approvals (proj st2)) k" if "k \<in> set calls" for k
      using executed_call_allowed [OF ex ok1] a st'(1) that by simp
    ultimately show ?thesis using e(2) by (simp add: safe_step_def list_all_iff)
  qed
qed

lemma connector_run_safe:
  assumes "ext_ok E" "connector_ok E (proj st)"
  shows "connector_run E H st calls st' \<Longrightarrow> connector_ok E (proj st') \<and>
     list_all (call_allowed E (t_approvals (proj st'))) calls"
proof (induction rule: connector_run.induct)
  case (request cs st1 now now' clock disc drawnAction drawnApproval ainp r1 st2 calls)
  then have "safe_step E st1 calls st2" using safe_request assms(1) by blast
  with request.IH show ?case by (auto simp: safe_step_def list_all_iff intro: call_allowed_mono)
next
  case (enqueue cs st1 now i actor r2 st2)
  then have "safe_step E st1 [] st2" using safe_enqueue by blast
  with enqueue.IH show ?case by (auto simp: safe_step_def list_all_iff intro: call_allowed_mono)
next
  case (dispatch cs st1 now now' now'' locked actor lease r3 st2 calls)
  then have "safe_step E st1 calls st2" using safe_dispatch by blast
  with dispatch.IH show ?case by (auto simp: safe_step_def list_all_iff intro: call_allowed_mono)
next
  case (create cs st1 now clock disc drawn pinp r st2)
  then have "safe_step E st1 [] st2"
    using safe_move [OF _ CreateApproval_move [OF create(2)] CreateApproval_keeps_connector [OF create(2)]] create.IH by blast
  with create.IH show ?case by (auto simp: safe_step_def list_all_iff intro: call_allowed_mono)
next
  case (decide cs st1 now disc dinp r st2)
  then have "safe_step E st1 [] st2"
    using safe_move [OF _ DecideApproval_move [OF decide(2)] DecideApproval_keeps_connector [OF decide(2)]] decide.IH by blast
  with decide.IH show ?case by (auto simp: safe_step_def list_all_iff intro: call_allowed_mono)
next
  case (expire cs st1 now disc i reason actor r st2)
  then have "safe_step E st1 [] st2"
    using safe_move [OF _ ExpireApproval_move [OF expire(2)] ExpireApproval_keeps_connector [OF expire(2)]] expire.IH by blast
  with expire.IH show ?case by (auto simp: safe_step_def list_all_iff intro: call_allowed_mono)
next
  case (other cs st1 now s i fresh st2)
  have "safe_step E st1 [] st2"
    using connector_ok_other [OF other(2) _ other(4,3)] other.IH
      app_append_keeps_approvals [OF other(2,3)] by (simp add: safe_step_def)
  with other.IH show ?case by (auto simp: safe_step_def list_all_iff intro: call_allowed_mono)
qed (use assms in simp)

section \<open>A concrete dispatch\<close>

definition post8 :: connector_action where
  "post8 = \<lparr>ca_id = 8, ca_work_item = 7, ca_mode = ModeWrite, ca_method = ''POST'',
     ca_url = ''http://x/'', ca_request = JObj [(''body'', JStr ''b'')], ca_status = StatusApproved,
     ca_approval = Some 4, ca_response_status = None, ca_response_body = [], ca_error = [],
     ca_requested_by = Some 9, ca_source = SourceAgent, ca_created_at = 5, ca_updated_at = 9\<rparr>"

definition approved_post :: approval where
  "approved_post = approved4\<lparr>ap_request := approval_request_json decimal_ext 8 ''POST'' ''http://x/''
     (JObj [(''body'', JStr ''b'')])\<rparr>"

definition outbox8 :: outbox_row where
  "outbox8 = \<lparr>ob_id = 6, ob_kind = ''http_connector.write'', ob_action = 8, ob_state = ''pending'',
     ob_payload = JObj [], ob_attempts = 0, ob_lease_until = None, ob_created_at = 9, ob_updated_at = 9\<rparr>"

definition connector_db :: db where
  "connector_db = \<lparr>log = [], proj = no_tables\<lparr>t_approvals := [approved_post], t_actions := [post8],
     t_outbox := [outbox8]\<rparr>\<rparr>"

definition echo_http :: http_ext where
  "echo_http = \<lparr>url_parse = (\<lambda>u. Some (''http'', u, u)), http_do = (\<lambda>c. Inr (200, ''ok''))\<rparr>"

definition post_call :: http_call where
  "post_call = \<lparr>hc_method = ''POST'', hc_url = ''http://x/'', hc_body = JStr ''b''\<rparr>"

definition sent_spec :: spec where
  "sent_spec = action_spec 8 EventHTTPConnectorActionSent agent9 (uuid_string decimal_ext 8)
     (JObj [(''work_item_id'', juid decimal_ext 7), (''response_status'', jint 200),
        (''response_body'', JStr ''ok'')])"

definition leased_db :: db where
  "leased_db = with_outbox connector_db
     [outbox8\<lparr>ob_state := ''leased'', ob_attempts := 1, ob_lease_until := Some 60000000010,
        ob_updated_at := 10\<rparr>]"

lemma claim8:
  "claimOutbox 10 {} (hour div 60) (t_outbox (proj connector_db)) =
     (Some (outbox8\<lparr>ob_state := ''leased'', ob_attempts := 1, ob_lease_until := Some 60000000010,
        ob_updated_at := 10\<rparr>), t_outbox (proj leased_db))"
  by code_simp

lemma sent_projects:
  "\<exists>t. actionSentProjector (event_of 11 i sent_spec) (proj leased_db) = Inr t \<and>
     get_row ca_id 8 (t_actions t) = Some (post8\<lparr>ca_status := StatusSent, ca_response_status := Some 200,
       ca_response_body := ''ok'', ca_updated_at := 11\<rparr>)"
proof -
  have "jinteger (jint 200) = Inr 200" by code_simp
  then show ?thesis
    by (simp add: actionSentProjector_def sent_spec_def leased_db_def connector_db_def get_row_def
        update_row_def post8_def guard_err_def)
qed

lemma execute8:
  "\<exists>r st'. executeAction decimal_ext echo_http 11 leased_db post8 agent9 = (Inr r, st', [post_call])"
proof -
  have id: "DeterministicID decimal_ext sent_spec = Inr (length_id (length (id_preimage sent_spec)))"
    using decimal_ext_id [of sent_spec] by (simp add: sent_spec_def action_spec_def spec_validate_def)
  obtain t where t: "actionSentProjector (event_of 11 (length_id (length (id_preimage sent_spec))) sent_spec)
      (proj leased_db) = Inr t" "get_row ca_id 8 (t_actions t) \<noteq> None"
    using sent_projects [of "length_id (length (id_preimage sent_spec))"] by auto
  have "sp_kind sent_spec = EventHTTPConnectorActionSent" by (simp add: sent_spec_def)
  then obtain st' where st': "append_event decimal_ext 11 sent_spec leased_db = Inr st'" "proj st' = t"
    using id t(1) by (simp add: append_event_def app_append_def Append_def registry_apply_kinds
        leased_db_def connector_db_def)
  have "ca_request post8 = JObj [(''body'', JStr ''b'')]" "ca_id post8 = 8" "ca_work_item post8 = 7"
    "ca_method post8 = ''POST''" "ca_url post8 = ''http://x/''" "uuid_string decimal_ext 8 = ''8''"
    by (simp_all add: post8_def) code_simp
  moreover have "take 4096 ''ok'' = ''ok''" by simp
  ultimately show ?thesis
    using st' t(2) unfolding sent_spec_def
    by (auto simp: executeAction_def echo_http_def post_call_def GetAction_def)
qed

lemma dispatch8:
  "\<exists>r st'. DispatchOnce decimal_ext echo_http 10 11 12 connector_db {} agent9 0 = (r, st', [post_call])"
proof -
  have "tok_id agent9 \<noteq> uuid_nil" by code_simp
  moreover have "GetAction leased_db 8 = Inr post8" by code_simp
  moreover have "ob_action outbox8 = 8" by code_simp
  moreover obtain r st' where "executeAction decimal_ext echo_http 11 leased_db post8 agent9 =
      (Inr r, st', [post_call])" using execute8 by blast
  ultimately show ?thesis
    using claim8 by (simp add: DispatchOnce_def Let_def leased_db_def)
qed


lemma connector_db_ok: "connector_ok decimal_ext (proj connector_db)"
  by (auto simp: connector_ok_def connector_db_def all_sound_def soundly_decided_def approved_post_def
      approved4_def ask4_def action_ok_def approval_covers_def post8_def outbox8_def cleared_def
      split: if_splits)


text \<open>The outbox of the connector is leased exclusively: whatever sequence of claims, deliveries
  and new rows, a row that was claimed is not claimed again before its lease has run out, and a row
  that was sent is never claimed again.\<close>

theorem outbox_leases_disjoint:
  assumes "run_queue outbox_step ops rows = (grants, rows')"
    and "distinct (map ob_id rows)" "sorted (map fst ops)"
  shows "leases_disjoint grants \<and>
    (\<forall>i o1. get_row ob_id i rows = Some o1 \<and> ob_state o1 = ''sent'' \<longrightarrow> i \<notin> (fst \<circ> snd) ` set grants)"
  using oq.run_leases_disjoint [OF assms] oq.closed_never_granted [OF assms(1,2)]
  by (fastforce simp: outbox_closed_def)

definition outbox_ops :: "(time \<times> outbox_op) list" where
  "outbox_ops = [(10, ClaimOutbox {} 60000000000), (20, ClaimOutbox {} 60000000000),
     (60000000010, ClaimOutbox {} 60000000000), (60000000020, MarkSent 6)]"

theorem outbox_leases_disjoint_witness:
  "\<exists>grants. fst (run_queue outbox_step outbox_ops [outbox8]) = grants \<and>
     grants = [(10, 6, 60000000010), (60000000010, 6, 120000000010)] \<and> leases_disjoint grants"
proof -
  have "fst (run_queue outbox_step outbox_ops [outbox8]) =
      [(10, 6, 60000000010), (60000000010, 6, 120000000010)]" by code_simp
  moreover have "distinct (map ob_id [outbox8])" "sorted (map fst outbox_ops)" by code_simp+
  ultimately show ?thesis
    using outbox_leases_disjoint [where ops = outbox_ops and rows = "[outbox8]", OF prod.collapse [symmetric]]
    by simp
qed

end
