(* ===== verification/Grants.thy ===== *)
theory Grants
  imports Escalations
begin

text \<open>
  internal/grants: delegation of rights by an agent's token to a subactor.  reducer.go is the pure
  decision (grant, deny or escalate), service.go gathers what the decision needs from the database
  (the relation of the requested tree to the parent's trees, the delegation depth and its budget)
  and carries the decision out, in one transaction with the events that record it.  The random id
  of the grant and the random bytes of the new secret are arguments.
\<close>

section \<open>The decision\<close>

abbreviation TemplateSameTreeReadProgress :: string where
  "TemplateSameTreeReadProgress \<equiv> ''same_tree_read_progress''"
abbreviation TemplateSameTreeWorker :: string where
  "TemplateSameTreeWorker \<equiv> ''same_tree_worker''"

datatype disposition = DispositionGrant | DispositionDeny | DispositionEscalate

datatype tree_relation = TreeSame | TreeDescendant | TreeOutside | TreeUnknown

record grant_request =
  gq_parent :: token
  gq_template :: string
  gq_source :: string
  gq_tree_root :: uuid
  gq_scopes :: "string list"
  gq_relation :: tree_relation
  gq_depth_known :: bool
  gq_depth :: int
  gq_max_depth :: int
  gq_budget_source :: string
  gq_human_review :: string
  gq_approval_authority :: bool
  gq_logs_scope :: bool

record decision =
  dc_disposition :: disposition
  dc_reason :: string
  dc_scopes :: "string list"

definition deny :: "string \<Rightarrow> decision" where
  "deny reason = \<lparr>dc_disposition = DispositionDeny, dc_reason = reason, dc_scopes = []\<rparr>"

definition escalate :: "string \<Rightarrow> decision" where
  "escalate reason = \<lparr>dc_disposition = DispositionEscalate, dc_reason = reason, dc_scopes = []\<rparr>"

definition containsLogsScope :: "string list \<Rightarrow> bool" where
  "containsLogsScope scopes \<longleftrightarrow> list_ex (\<lambda>s. has_prefix s ''logs.'') scopes"

definition sameScopeSet :: "string list \<Rightarrow> string list \<Rightarrow> bool" where
  "sameScopeSet a b \<longleftrightarrow> length (remdups a) = length (remdups b) \<and> list_all (\<lambda>s. s \<in> set b) (remdups a)"

definition canonicalScopes :: "string list \<Rightarrow> string list" where
  "canonicalScopes scopes = sort_strings scopes"

definition tree_scope :: "ext \<Rightarrow> uuid \<Rightarrow> string" where
  "tree_scope E root = scopeWorkItemsTreePrefix @ uuid_string E root"

text \<open>The scopes of a template, and whether it may write.\<close>

definition templateScopeSet :: "ext \<Rightarrow> string \<Rightarrow> uuid \<Rightarrow> (string list \<times> bool) option" where
  "templateScopeSet E template root =
     (if template = TemplateSameTreeReadProgress
        then Some ([ScopeFeedReadAssigned, ScopeWorkItemsRead, tree_scope E root], False)
      else if template = TemplateSameTreeWorker
        then Some ([ScopeFeedReadAssigned, ScopeWorkItemsRead, ScopeWorkItemsWrite, tree_scope E root], True)
      else None)"

definition parentCoversTemplate ::
  "ext \<Rightarrow> string list \<Rightarrow> string list \<Rightarrow> uuid \<Rightarrow> tree_relation \<Rightarrow> bool"
where
  "parentCoversTemplate E parent grantScopes root relation =
     (let parentTreeOK = list_ex (\<lambda>s. s = tree_scope E root \<or>
            relation = TreeDescendant \<and> has_prefix s scopeWorkItemsTreePrefix) parent in
      if \<not> parentTreeOK then False
      else list_all (\<lambda>s. has_prefix s scopeWorkItemsTreePrefix \<or> s \<in> set parent \<or>
             s = ScopeFeedReadAssigned \<and> ScopeFeedRead \<in> set parent) grantScopes)"

definition depth_exceeded :: "grant_request \<Rightarrow> string" where
  "depth_exceeded req =
     (let source = trim_space (gq_budget_source req) in
      ''delegation_depth_exceeded: target depth '' @ itoa (gq_depth req) @ '' exceeds max '' @
        itoa (gq_max_depth req) @ '' from '' @ (if source = [] then ''unknown'' else source))"

definition Reduce :: "ext \<Rightarrow> grant_request \<Rightarrow> decision" where
  "Reduce E req =
     (let parent = gq_parent req in
      if tok_id parent = uuid_nil then deny ''parent token is required''
      else if tok_revoked_at parent \<noteq> None then deny ''parent token is revoked''
      else if tok_is_root parent then escalate ''root delegation requires operator path''
      else if tok_source parent \<noteq> SourceAgent then escalate ''only agent tokens may self-delegate subactors''
      else if gq_source req \<noteq> [] \<and> gq_source req \<noteq> SourceAgent
        then escalate ''subactor source must remain agent''
      else if tok_scopes parent = [] then escalate ''legacy unscoped parent token cannot self-delegate''
      else if gq_approval_authority req then escalate ''approval authority cannot be self-delegated''
      else if gq_logs_scope req \<or> containsLogsScope (gq_scopes req)
        then escalate ''logs visibility requires human approval''
      else if gq_tree_root req = uuid_nil then deny ''requested work_items.tree root is required''
      else if gq_relation req = TreeOutside
        then escalate ''requested tree root is outside parent assignment''
      else if gq_relation req = TreeUnknown then escalate ''requested tree relation is unknown''
      else if gq_depth_known req \<and> gq_depth req > gq_max_depth req then escalate (depth_exceeded req)
      else case templateScopeSet E (gq_template req) (gq_tree_root req) of
          None \<Rightarrow> deny (''unknown grant template '' @ quote (gq_template req))
        | Some (templateScopes, writeTemplate) \<Rightarrow>
            if gq_scopes req \<noteq> [] \<and> \<not> sameScopeSet (gq_scopes req) templateScopes
              then escalate ''requested scopes do not match the named grant template''
            else if writeTemplate \<and> gq_human_review req \<noteq> HumanReviewApproved
              then escalate ''write-capable subactor grants require explicit human approval''
            else if \<not> parentCoversTemplate E (tok_scopes parent) templateScopes (gq_tree_root req) (gq_relation req)
              then escalate ''requested grant is not a subset of parent token scopes''
            else \<lparr>dc_disposition = DispositionGrant,
              dc_reason = ''grant matches named template, same-tree policy, and parent scope subset'',
              dc_scopes = canonicalScopes templateScopes\<rparr>)"

section \<open>What the decision needs\<close>

abbreviation ErrGrantWorkItemNotFound :: err where
  "ErrGrantWorkItemNotFound \<equiv> Err ''grants: work_item not found'' []"
definition ErrInvalidGrant :: string where "ErrInvalidGrant = ''grants: invalid request''"

definition grantSource :: "token \<Rightarrow> string" where
  "grantSource actor = (if source_valid (tok_source actor) then tok_source actor else SourceAgent)"

fun check_scopes :: "nat \<Rightarrow> string list \<Rightarrow> err + string list" where
  "check_scopes i [] = Inr []"
| "check_scopes i (s # ss) =
     (if trim_space s = [] then Inl (Err ErrInvalidGrant ('': requested_scopes['' @ itoa (int i) @ ''] is blank''))
      else map_sum id (Cons (trim_space s)) (check_scopes (i + 1) ss))"

definition normalizeRequestedScopes :: "string list \<Rightarrow> err + string list" where
  "normalizeRequestedScopes scopes = map_sum id (\<lambda>ss. sort_strings (remdups ss)) (check_scopes 0 scopes)"

record grant_item =
  gi_item :: work_item
  gi_cultivar :: string

definition scanGrantWorkItem :: "db \<Rightarrow> uuid \<Rightarrow> err + grant_item" where
  "scanGrantWorkItem st wid =
     (case get_row wi_id wid (t_work_items (proj st)) of
        None \<Rightarrow> Inl ErrGrantWorkItemNotFound
      | Some w \<Rightarrow>
          let cultivar = (case find (is_event SubjectWorkItem wid EventWorkItemCreated) (log st) of
            None \<Rightarrow> []
          | Some e \<Rightarrow> (case jtext (ev_payload e) ''cultivar'' of None \<Rightarrow> [] | Some c \<Rightarrow> c)) in
          if \<not> human_review_valid (wi_human_review w)
          then Inl (Err ErrInvalidGrant ('': invalid human_review_status '' @ quote (wi_human_review w)))
          else Inr \<lparr>gi_item = w, gi_cultivar = cultivar\<rparr>)"

definition parentTreeRoots :: "ext \<Rightarrow> string list \<Rightarrow> uuid list" where
  "parentTreeRoots E scopes = tree_roots E scopes"

definition grantItemInTree :: "tables \<Rightarrow> uuid \<Rightarrow> uuid \<Rightarrow> bool" where
  "grantItemInTree t root target \<longleftrightarrow> target \<in> set (reach (edges t) [root])"

fun relation_to :: "tables \<Rightarrow> uuid \<Rightarrow> uuid list \<Rightarrow> tree_relation" where
  "relation_to t target [] = TreeOutside"
| "relation_to t target (root # roots) =
     (if root = target then TreeSame
      else if grantItemInTree t root target then TreeDescendant
      else relation_to t target roots)"

definition treeRelation :: "ext \<Rightarrow> tables \<Rightarrow> token \<Rightarrow> uuid \<Rightarrow> tree_relation" where
  "treeRelation E t parent target =
     (let roots = parentTreeRoots E (tok_scopes parent) in
      if roots = [] then TreeUnknown else relation_to t target roots)"

text \<open>
  The recursive query with UNION ALL walks the relations level by level and keeps duplicates; it
  ends when a level is empty.  On a cycle below the root it never ends: None.  In a graph without
  cycles no level after the number of edges is reached.
\<close>

definition children :: "(uuid \<times> uuid) list \<Rightarrow> uuid list \<Rightarrow> uuid list" where
  "children es level = concat (map (\<lambda>u. map snd (filter (\<lambda>e. fst e = u) es)) level)"

fun subtree_rows :: "nat \<Rightarrow> (uuid \<times> uuid) list \<Rightarrow> uuid list \<Rightarrow> nat \<Rightarrow> (uuid \<times> nat) list option" where
  "subtree_rows fuel es [] d = Some []"
| "subtree_rows 0 es level d = None"
| "subtree_rows (Suc fuel) es level d =
     map_option (\<lambda>rest. map (\<lambda>u. (u, d)) level @ rest) (subtree_rows fuel es (children es level) (Suc d))"

definition subtree_query :: "tables \<Rightarrow> uuid \<Rightarrow> (uuid \<times> nat) list option" where
  "subtree_query t root = subtree_rows (length (edges t) + 1) (edges t) [root] 0"

definition ErrQueryDiverges :: err where
  "ErrQueryDiverges = Err [] ''grants: delegation depth: query does not end''"

fun min_depth :: "(uuid \<times> nat) list \<Rightarrow> uuid \<Rightarrow> nat option" where
  "min_depth [] target = None"
| "min_depth ((u, d) # rows) target =
     (if u \<noteq> target then min_depth rows target
      else case min_depth rows target of None \<Rightarrow> Some d | Some m \<Rightarrow> Some (min d m))"

fun depth_over :: "tables \<Rightarrow> uuid \<Rightarrow> uuid list \<Rightarrow> nat option \<Rightarrow> err + nat option" where
  "depth_over t target [] best = Inr best"
| "depth_over t target (root # roots) best =
     (case subtree_query t root of
        None \<Rightarrow> Inl ErrQueryDiverges
      | Some rows \<Rightarrow> (case min_depth rows target of
          None \<Rightarrow> depth_over t target roots best
        | Some current \<Rightarrow> depth_over t target roots (case best of
              None \<Rightarrow> Some current | Some b \<Rightarrow> Some (if current < b then current else b))))"

definition delegationDepth :: "ext \<Rightarrow> tables \<Rightarrow> token \<Rightarrow> uuid \<Rightarrow> err + nat option" where
  "delegationDepth E t parent target = depth_over t target (parentTreeRoots E (tok_scopes parent)) None"

record depth_budget =
  db_depth :: "nat option"
  db_max_depth :: int
  db_source :: string
  db_cultivar :: string

definition delegationDepthBudget :: "ext \<Rightarrow> db \<Rightarrow> token \<Rightarrow> uuid \<Rightarrow> string \<Rightarrow> err + depth_budget" where
  "delegationDepthBudget E st parent target cultivar0 =
     (let cultivarRef = trim_space cultivar0 in
      bind_err (if cultivarRef = []
        then Inr (po_max_depth DefaultPolicy, ''safety_policy'', [])
        else bind_err (GetCultivarRef st cultivarRef) (\<lambda>item.
          let name = cu_name item @ ''@'' @ itoa (cu_version item) in
          Inr (xy_max_depth (cu_xylem item), ''cultivar:'' @ name, name))) (\<lambda>(max_depth, source, cultivar).
      bind_err (delegationDepth E (proj st) parent target) (\<lambda>depth.
      Inr \<lparr>db_depth = depth, db_max_depth = max_depth, db_source = source, db_cultivar = cultivar\<rparr>)))"

record evaluation =
  en_item :: work_item
  en_template :: string
  en_scopes :: "string list"
  en_relation :: tree_relation
  en_budget :: depth_budget
  en_decision :: decision

definition EvaluateInTx :: "ext \<Rightarrow> db \<Rightarrow> token \<Rightarrow> uuid \<Rightarrow> string \<Rightarrow> string list \<Rightarrow> err + evaluation" where
  "EvaluateInTx E st parent wid template scopes =
     bind_err (guard_err (tok_id parent \<noteq> uuid_nil) (Err ErrInvalidGrant '': parent token is required'')) (\<lambda>_.
     bind_err (guard_err (wid \<noteq> uuid_nil) (Err ErrInvalidGrant '': work_item_id is required'')) (\<lambda>_.
     bind_err (normalizeRequestedScopes scopes) (\<lambda>requestedScopes.
     bind_err (scanGrantWorkItem st wid) (\<lambda>item.
     let relation = treeRelation E (proj st) parent wid in
     bind_err (delegationDepthBudget E st parent wid (gi_cultivar item)) (\<lambda>budget.
     Inr \<lparr>en_item = gi_item item, en_template = template, en_scopes = requestedScopes,
       en_relation = relation, en_budget = budget,
       en_decision = Reduce E \<lparr>gq_parent = parent, gq_template = template, gq_source = SourceAgent,
         gq_tree_root = wid, gq_scopes = requestedScopes, gq_relation = relation,
         gq_depth_known = (db_depth budget \<noteq> None),
         gq_depth = (case db_depth budget of None \<Rightarrow> 0 | Some d \<Rightarrow> int d),
         gq_max_depth = db_max_depth budget, gq_budget_source = db_source budget,
         gq_human_review = wi_human_review (gi_item item), gq_approval_authority = False,
         gq_logs_scope = False\<rparr>\<rparr>)))))"

definition EvaluateGrant :: "ext \<Rightarrow> db \<Rightarrow> token \<Rightarrow> uuid \<Rightarrow> string \<Rightarrow> string list \<Rightarrow> err + evaluation" where
  "EvaluateGrant E st parent wid template scopes =
     bind_err (guard_err (tok_id parent \<noteq> uuid_nil) (Err ErrInvalidGrant '': parent token is required'')) (\<lambda>_.
     bind_err (guard_err (wid \<noteq> uuid_nil) (Err ErrInvalidGrant '': work_item_id is required'')) (\<lambda>_.
     EvaluateInTx E st parent wid template scopes))"

section \<open>Issuing\<close>

record issue_input =
  gs_parent :: token
  gs_work_item :: uuid
  gs_template :: string
  gs_scopes :: "string list"
  gs_name :: string

record issue_result =
  ir_grant :: uuid
  ir_work_item :: uuid
  ir_template :: string
  ir_disposition :: disposition
  ir_reason :: string
  ir_scopes :: "string list"
  ir_token :: "token option"
  ir_secret :: string
  ir_request_event :: uuid
  ir_outcome_event :: uuid
  ir_escalation :: uuid
  ir_human :: uuid

definition defaultSubactorName :: "ext \<Rightarrow> string \<Rightarrow> uuid \<Rightarrow> string" where
  "defaultSubactorName E template wid =
     (if template = [] then ''subactor'' else template) @ ''-'' @ take 8 (uuid_string E wid)"

definition grantEscalationSummary :: "ext \<Rightarrow> work_item \<Rightarrow> string \<Rightarrow> string \<Rightarrow> string" where
  "grantEscalationSummary E item template reason =
     ''Subactor grant '' @ quote template @ '' for work_item '' @ uuid_string E (wi_id item) @ '' ('' @
       wi_title item @ '') requires review: '' @ reason"

definition deterministicSubactorTokenID :: "ext \<Rightarrow> uuid \<Rightarrow> uuid" where
  "deterministicSubactorTokenID E grantID = uuid_sha1 E NameSpaceURL
     (''meristem'' @ [CHR 0x00] @ ''subactor-grant-token'' @ [CHR 0x00] @ uuid_string E grantID)"

definition grant_spec :: "uuid \<Rightarrow> string \<Rightarrow> token \<Rightarrow> json \<Rightarrow> spec" where
  "grant_spec grantID kind parent payload =
     \<lparr>sp_subject_kind = SubjectSubactorGrant, sp_subject_id = grantID, sp_kind = kind,
      sp_source = grantSource parent, sp_actor = Some (tok_id parent), sp_payload = payload,
      sp_discriminator = []\<rparr>"

fun relation_name :: "tree_relation \<Rightarrow> string" where
  "relation_name TreeSame = ''same''"
| "relation_name TreeDescendant = ''descendant''"
| "relation_name TreeOutside = ''outside''"
| "relation_name TreeUnknown = ''unknown''"

definition grant_request_json :: "ext \<Rightarrow> issue_input \<Rightarrow> string \<Rightarrow> evaluation \<Rightarrow> json" where
  "grant_request_json E inp tokenName ev =
     JObj ([(''parent_token_id'', juid E (tok_id (gs_parent inp))),
       (''work_item_id'', juid E (gs_work_item inp)), (''template'', JStr (gs_template inp)),
       (''requested_source'', JStr SourceAgent), (''requested_scopes'', jstrs (en_scopes ev)),
       (''token_name'', JStr tokenName), (''tree_relation'', JStr (relation_name (en_relation ev))),
       (''human_review_status'', JStr (wi_human_review (en_item ev))),
       (''delegation_depth_known'', JBool (db_depth (en_budget ev) \<noteq> None)),
       (''max_delegation_depth'', jint (db_max_depth (en_budget ev))),
       (''depth_budget_source'', JStr (db_source (en_budget ev)))] @
      (case db_depth (en_budget ev) of None \<Rightarrow> [] | Some d \<Rightarrow> [(''delegation_depth'', jint (int d))]) @
      (if db_cultivar (en_budget ev) \<noteq> [] then [(''cultivar'', JStr (db_cultivar (en_budget ev)))] else []))"

definition outcome_fields :: "ext \<Rightarrow> uuid \<Rightarrow> issue_input \<Rightarrow> string \<Rightarrow> (string \<times> json) list" where
  "outcome_fields E requestEventID inp reason =
     [(''request_event_id'', juid E requestEventID), (''work_item_id'', juid E (gs_work_item inp)),
      (''template'', JStr (gs_template inp)), (''reason'', JStr reason)]"

definition outcome_kinds :: "(string \<times> disposition) list" where
  "outcome_kinds = [(EventSubactorGrantGranted, DispositionGrant), (EventSubactorGrantDenied, DispositionDeny),
     (EventSubactorGrantEscalated, DispositionEscalate)]"

definition zero_time :: time where "zero_time = - 62135596800 * second"

text \<open>What an earlier call with the same grant id has decided; its secret is not recorded.\<close>

definition existingGrantRequestEvent :: "db \<Rightarrow> uuid \<Rightarrow> uuid" where
  "existingGrantRequestEvent st grantID =
     (case earliest_event (filter (is_event SubjectSubactorGrant grantID EventSubactorGrantRequested) (log st)) of
        None \<Rightarrow> uuid_nil | Some e \<Rightarrow> ev_id e)"

definition existingIssueResult :: "ext \<Rightarrow> db \<Rightarrow> uuid \<Rightarrow> err + issue_result option" where
  "existingIssueResult E st grantID =
     (case latest_event (filter (\<lambda>e. ev_subject_kind e = SubjectSubactorGrant \<and> ev_subject_id e = grantID \<and>
         ev_kind e \<in> fst ` set outcome_kinds) (log st)) of
        None \<Rightarrow> Inr None
      | Some e \<Rightarrow> let j = ev_payload e in
          bind_err (guard_err (jobject j) ErrDecode) (\<lambda>_.
          bind_err (juuid E (jget j ''work_item_id'')) (\<lambda>wid.
          bind_err (jstring (jget j ''template'')) (\<lambda>template.
          bind_err (jstring (jget j ''reason'')) (\<lambda>reason.
          bind_err (juuid E (jget j ''token_id'')) (\<lambda>tokenID.
          bind_err (jstring (jget j ''token_name'')) (\<lambda>tokenName.
          bind_err (jstrings (jget j ''scopes'')) (\<lambda>scopes.
          bind_err (juuid E (jget j ''escalation_id'')) (\<lambda>escalation.
          bind_err (juuid E (jget j ''human_work_item_id'')) (\<lambda>human.
          case map_of outcome_kinds (ev_kind e) of
            None \<Rightarrow> Inl (Err [] (''grants: unsupported existing outcome '' @ quote (ev_kind e)))
          | Some d \<Rightarrow> Inr (Some \<lparr>ir_grant = grantID, ir_work_item = wid, ir_template = template,
              ir_disposition = d, ir_reason = reason, ir_scopes = scopes,
              ir_token = (if d \<noteq> DispositionGrant then None
                else Some \<lparr>tok_id = tokenID, tok_name = tokenName, tok_hash = [], tok_is_root = False,
                  tok_scopes = scopes, tok_source = SourceAgent, tok_created_at = zero_time,
                  tok_revoked_at = None\<rparr>),
              ir_secret = [], ir_request_event = existingGrantRequestEvent st grantID,
              ir_outcome_event = ev_id e, ir_escalation = escalation, ir_human = human\<rparr>)))))))))))"

text \<open>The three ways a decision is carried out; each records its outcome event.\<close>

definition carry_out ::
  "ext \<Rightarrow> time \<Rightarrow> string \<Rightarrow> issue_input \<Rightarrow> string \<Rightarrow> evaluation \<Rightarrow> issue_result \<Rightarrow> db \<Rightarrow> err + issue_result \<times> db"
where
  "carry_out E now raw inp tokenName ev r st =
     (let reason = dc_reason (en_decision ev); scopes = dc_scopes (en_decision ev);
          parent = gs_parent inp; fields = outcome_fields E (ir_request_event r) inp reason in
      case dc_disposition (en_decision ev) of
        DispositionGrant \<Rightarrow>
          bind_err (CreateDelegatedToken E now st raw uuid_nil (deterministicSubactorTokenID E (ir_grant r))
            tokenName (Some scopes) SourceAgent parent) (\<lambda>((tk, secret), st1).
          bind_err (app_append E now st1 (grant_spec (ir_grant r) EventSubactorGrantGranted parent
            (JObj (fields @ [(''token_id'', juid E (tok_id tk)), (''token_name'', JStr (tok_name tk)),
               (''scopes'', jstrs scopes)])))) (\<lambda>(outcomeID, _, st2).
          Inr (r\<lparr>ir_outcome_event := outcomeID, ir_token := Some tk, ir_secret := secret\<rparr>, st2)))
      | DispositionDeny \<Rightarrow>
          bind_err (app_append E now st (grant_spec (ir_grant r) EventSubactorGrantDenied parent
            (JObj fields))) (\<lambda>(outcomeID, _, st2).
          Inr (r\<lparr>ir_outcome_event := outcomeID\<rparr>, st2))
      | DispositionEscalate \<Rightarrow>
          bind_err (RequestInTx E now st \<lparr>es_work_item = gs_work_item inp,
            es_reason = ''subactor grant requires review: '' @ reason,
            es_summary = grantEscalationSummary E (en_item ev) (gs_template inp) reason,
            es_actor = parent\<rparr>) (\<lambda>(esc, st1).
          bind_err (app_append E now st1 (grant_spec (ir_grant r) EventSubactorGrantEscalated parent
            (JObj (fields @ [(''escalation_id'', juid E (er_escalation esc)),
               (''human_work_item_id'', juid E (er_human esc))])))) (\<lambda>(outcomeID, _, st2).
          Inr (r\<lparr>ir_outcome_event := outcomeID, ir_escalation := er_escalation esc,
            ir_human := er_human esc\<rparr>, st2))))"

definition IssueGrant ::
  "ext \<Rightarrow> time \<Rightarrow> db \<Rightarrow> uuid \<Rightarrow> string \<Rightarrow> issue_input \<Rightarrow> issue_result outcome"
where
  "IssueGrant E now st grantID raw inp = rollback st
     (bind_err (guard_err (tok_id (gs_parent inp) \<noteq> uuid_nil)
        (Err ErrInvalidGrant '': parent token is required'')) (\<lambda>_.
      bind_err (guard_err (gs_work_item inp \<noteq> uuid_nil)
        (Err ErrInvalidGrant '': work_item_id is required'')) (\<lambda>_.
      let name0 = trim_space (gs_name inp);
          tokenName = (if name0 = [] then defaultSubactorName E (gs_template inp) (gs_work_item inp) else name0) in
      bind_err (existingIssueResult E st grantID) (\<lambda>existing.
      case existing of
        Some r \<Rightarrow> Inr (Inr r, st)
      | None \<Rightarrow>
          bind_err (EvaluateInTx E st (gs_parent inp) (gs_work_item inp) (gs_template inp) (gs_scopes inp)) (\<lambda>ev.
          bind_err (app_append E now st (grant_spec grantID EventSubactorGrantRequested (gs_parent inp)
            (grant_request_json E inp tokenName ev))) (\<lambda>(requestID, _, st1).
          bind_err (carry_out E now raw inp tokenName ev
            \<lparr>ir_grant = grantID, ir_work_item = gs_work_item inp, ir_template = gs_template inp,
             ir_disposition = dc_disposition (en_decision ev), ir_reason = dc_reason (en_decision ev),
             ir_scopes = dc_scopes (en_decision ev), ir_token = None, ir_secret = [],
             ir_request_event = requestID, ir_outcome_event = uuid_nil, ir_escalation = uuid_nil,
             ir_human = uuid_nil\<rparr> st1) (\<lambda>(r, st2).
          Inr (Inr r, st2))))))))"

section \<open>A grant, taken apart\<close>

lemma Reduce_grant:
  assumes "dc_disposition (Reduce E req) = DispositionGrant"
  obtains templateScopes writeTemplate where
    "tok_revoked_at (gq_parent req) = None" "\<not> tok_is_root (gq_parent req)"
    "tok_source (gq_parent req) = SourceAgent" "gq_tree_root req \<noteq> uuid_nil"
    "gq_relation req = TreeSame \<or> gq_relation req = TreeDescendant"
    "gq_depth_known req \<longrightarrow> gq_depth req \<le> gq_max_depth req"
    "templateScopeSet E (gq_template req) (gq_tree_root req) = Some (templateScopes, writeTemplate)"
    "writeTemplate \<longrightarrow> gq_human_review req = HumanReviewApproved"
    "parentCoversTemplate E (tok_scopes (gq_parent req)) templateScopes (gq_tree_root req) (gq_relation req)"
    "dc_scopes (Reduce E req) = sort_strings templateScopes"
proof -
  have d: "dc_disposition (deny m) \<noteq> DispositionGrant" "dc_disposition (escalate m) \<noteq> DispositionGrant" for m
    by (simp_all add: deny_def escalate_def)
  obtain ts w where f: "tok_id (gq_parent req) \<noteq> uuid_nil" "tok_revoked_at (gq_parent req) = None"
    "\<not> tok_is_root (gq_parent req)" "tok_source (gq_parent req) = SourceAgent"
    "gq_source req = [] \<or> gq_source req = SourceAgent" "tok_scopes (gq_parent req) \<noteq> []"
    "\<not> gq_approval_authority req" "\<not> gq_logs_scope req" "\<not> containsLogsScope (gq_scopes req)"
    "gq_tree_root req \<noteq> uuid_nil" "gq_relation req \<noteq> TreeOutside" "gq_relation req \<noteq> TreeUnknown"
    "gq_depth_known req \<longrightarrow> gq_depth req \<le> gq_max_depth req"
    "templateScopeSet E (gq_template req) (gq_tree_root req) = Some (ts, w)"
    "gq_scopes req = [] \<or> sameScopeSet (gq_scopes req) ts"
    "w \<longrightarrow> gq_human_review req = HumanReviewApproved"
    "parentCoversTemplate E (tok_scopes (gq_parent req)) ts (gq_tree_root req) (gq_relation req)"
    using assms unfolding Reduce_def Let_def
    by (simp add: d not_less del: not_None_eq split: if_split_asm option.split_asm prod.split_asm)
  have g: "(gq_source req \<noteq> [] \<and> gq_source req \<noteq> SourceAgent) = False"
    "(gq_scopes req \<noteq> [] \<and> \<not> sameScopeSet (gq_scopes req) ts) = False" using f(5,15) by blast+
  have g2: "(gq_depth_known req \<and> gq_max_depth req < gq_depth req) = False"
    "(w \<and> gq_human_review req \<noteq> HumanReviewApproved) = False" using f(13,16) by (auto simp: not_less)
  have "Reduce E req = \<lparr>dc_disposition = DispositionGrant,
      dc_reason = ''grant matches named template, same-tree policy, and parent scope subset'',
      dc_scopes = canonicalScopes ts\<rparr>"
    unfolding Reduce_def Let_def using f(1-4,6-12,14,17) by (simp add: g g2)
  with f show thesis
    by (intro that [of ts w]) (cases "gq_relation req"; simp add: canonicalScopes_def)+
qed

lemma tree_roots_set:
  "set (tree_roots E ss) = {u. u \<noteq> uuid_nil \<and> (\<exists>s \<in> set ss. has_prefix (trim_space s) scopeWorkItemsTreePrefix \<and>
     uuid_parse E (trim_prefix (trim_space s) scopeWorkItemsTreePrefix) = Some u)}"
  by (induction ss) (auto simp: Let_def split: option.splits)

lemma relation_to_reach:
  "relation_to t target roots \<in> {TreeSame, TreeDescendant} \<Longrightarrow>
   \<exists>root \<in> set roots. (root, target) \<in> (set (edges t))\<^sup>*"
  by (induction roots) (auto simp: grantItemInTree_def set_reach split: if_splits)

lemma treeRelation_in_tree:
  "treeRelation E t parent target \<in> {TreeSame, TreeDescendant} \<Longrightarrow> in_tree E t parent target"
  using relation_to_reach [of t target]
  by (fastforce simp: treeRelation_def Let_def in_tree_def workItemTreeRoots_def parentTreeRoots_def split: if_splits)

lemma plain_scopes:
  "trim_space ScopeFeedReadAssigned = ScopeFeedReadAssigned" "trim_space ScopeWorkItemsRead = ScopeWorkItemsRead"
  "trim_space ScopeWorkItemsWrite = ScopeWorkItemsWrite" "trim_space ScopeFeedRead = ScopeFeedRead"
  "\<not> has_prefix ScopeFeedReadAssigned scopeWorkItemsTreePrefix"
  "\<not> has_prefix ScopeWorkItemsRead scopeWorkItemsTreePrefix"
  "\<not> has_prefix ScopeWorkItemsWrite scopeWorkItemsTreePrefix"
  by code_simp+

section \<open>Attenuation\<close>

text \<open>A token that has at most the rights of another: what it may read, write, create and see.\<close>

definition attenuates :: "ext \<Rightarrow> tables \<Rightarrow> token \<Rightarrow> token \<Rightarrow> bool" where
  "attenuates E t child parent \<longleftrightarrow>
     (\<forall>u. CanReadWorkItem E t child u = None \<longrightarrow> CanReadWorkItem E t parent u = None) \<and>
     (\<forall>u. CanWriteWorkItem E t child u = None \<longrightarrow> CanWriteWorkItem E t parent u = None) \<and>
     (CanCreateWorkItem child = None \<longrightarrow> CanCreateWorkItem parent = None) \<and>
     (\<forall>tool. ToolVisible E child tool \<longrightarrow> ToolVisible E parent tool) \<and>
     (\<forall>items out. FilterFeedItems E t child items = Inr out \<longrightarrow>
        (\<exists>out'. FilterFeedItems E t parent items = Inr out' \<and> set out \<subseteq> set out'))"

text \<open>The scopes a template can grant.\<close>

definition template_scopes :: "ext \<Rightarrow> uuid \<Rightarrow> bool \<Rightarrow> string set" where
  "template_scopes E root w = {ScopeFeedReadAssigned, ScopeWorkItemsRead, tree_scope E root} \<union>
     (if w then {ScopeWorkItemsWrite} else {})"

lemma templateScopeSet_set:
  "templateScopeSet E template root = Some (ss, w) \<Longrightarrow> set ss = template_scopes E root w"
  by (auto simp: templateScopeSet_def template_scopes_def split: if_splits)

lemma template_plain:
  assumes "trim_space (tree_scope E root) = tree_scope E root" "s \<in> template_scopes E root w"
  shows "trim_space s = s" "s \<noteq> []"
proof -
  have "s = ScopeFeedReadAssigned \<or> s = ScopeWorkItemsRead \<or> s = ScopeWorkItemsWrite \<or> s = tree_scope E root"
    using assms(2) by (cases w) (simp_all only: template_scopes_def if_True if_False, blast+)
  then show "trim_space s = s" "s \<noteq> []"
    using assms(1) plain_scopes(1-3) by (auto simp only: tree_scope_def list.simps append.simps)
qed

text \<open>What a grant establishes: a subactor's token with the scopes of a template below a tree of its parent.\<close>

definition granted :: "ext \<Rightarrow> tables \<Rightarrow> token \<Rightarrow> token \<Rightarrow> uuid \<Rightarrow> bool \<Rightarrow> bool" where
  "granted E t child parent root w \<longleftrightarrow> ext_ok E \<and> trim_space (tree_scope E root) = tree_scope E root \<and>
     root \<noteq> uuid_nil \<and> \<not> tok_is_root child \<and> tok_source child = SourceAgent \<and>
     set (tok_scopes child) = template_scopes E root w \<and>
     tok_source parent = SourceAgent \<and> \<not> tok_is_root parent \<and> in_tree E t parent root \<and>
     ScopeWorkItemsRead \<in> set (tok_scopes parent) \<and>
     (w \<longrightarrow> ScopeWorkItemsWrite \<in> set (tok_scopes parent)) \<and>
     (ScopeFeedReadAssigned \<in> set (tok_scopes parent) \<or> ScopeFeedRead \<in> set (tok_scopes parent))"

lemma granted_facts:
  assumes "granted E t child parent root w"
  shows "ext_ok E" "trim_space (tree_scope E root) = tree_scope E root" "root \<noteq> uuid_nil"
    "\<not> tok_is_root child" "tok_source child = SourceAgent"
    "set (tok_scopes child) = template_scopes E root w" "tok_source parent = SourceAgent"
    "\<not> tok_is_root parent" "in_tree E t parent root" "ScopeWorkItemsRead \<in> set (tok_scopes parent)"
    "w \<Longrightarrow> ScopeWorkItemsWrite \<in> set (tok_scopes parent)"
    "ScopeFeedReadAssigned \<in> set (tok_scopes parent) \<or> ScopeFeedRead \<in> set (tok_scopes parent)"
  using assms unfolding granted_def by blast+

lemma tree_scope_prefix: "has_prefix (tree_scope E root) scopeWorkItemsTreePrefix"
  by (simp only: tree_scope_def has_prefix_append)

lemma child_scopes:
  assumes "granted E t child parent root w"
  shows "hasScope child s \<longleftrightarrow> s \<in> template_scopes E root w"
    "scopeSet (tok_scopes child) = template_scopes E root w" "\<not> legacyUnscoped child"
proof -
  note g = granted_facts [OF assms]
  note plain = template_plain [OF g(2)]
  show "hasScope child s \<longleftrightarrow> s \<in> template_scopes E root w"
    unfolding hasScope_def list_ex_iff g(6) using plain(1) by metis
  show "scopeSet (tok_scopes child) = template_scopes E root w"
    unfolding scopeSet_def g(6) using plain by force
  show "\<not> legacyUnscoped child"
    using plain [of ScopeWorkItemsRead] g(6)
    by (auto simp: legacyUnscoped_def list_all_iff template_scopes_def)
qed

lemma child_roots:
  assumes "granted E t child parent root w"
  shows "set (workItemTreeRoots E child) = {root}"
proof -
  note g = granted_facts [OF assms]
  have "uuid_parse E (trim_prefix (tree_scope E root) scopeWorkItemsTreePrefix) = Some root"
    using g(1) by (simp only: tree_scope_def trim_prefix_append ext_ok_def)
  then show ?thesis
    unfolding workItemTreeRoots_def tree_roots_set g(6)
    using g(3) tree_scope_prefix by (auto simp: template_scopes_def plain_scopes g(2))
qed

lemma child_tree:
  assumes "granted E t child parent root w" "in_tree E t child u"
  shows "in_tree E t parent u"
proof -
  have "(root, u) \<in> (set (edges t))\<^sup>*"
    using assms(2) by (simp add: in_tree_def child_roots [OF assms(1)])
  with granted_facts(9) [OF assms(1)] show ?thesis unfolding in_tree_def by (auto intro: rtrancl_trans)
qed

lemma exact_scope: "s \<in> set (tok_scopes tk) \<Longrightarrow> trim_space s = s \<Longrightarrow> hasScope tk s"
  by (auto simp: hasScope_def list_ex_iff)

lemma parent_scopes:
  assumes "granted E t child parent root w"
  shows "hasScope parent ScopeWorkItemsRead" "w \<Longrightarrow> hasScope parent ScopeWorkItemsWrite"
    "hasScope parent ScopeFeedReadAssigned \<or> hasScope parent ScopeFeedRead"
    "\<not> legacyUnscoped parent" "hasWorkItemTreeScope E parent"
proof -
  note g = granted_facts [OF assms]
  show r: "hasScope parent ScopeWorkItemsRead" by (rule exact_scope [OF g(10) plain_scopes(2)])
  show "w \<Longrightarrow> hasScope parent ScopeWorkItemsWrite" by (rule exact_scope [OF g(11) plain_scopes(3)])
  show "hasScope parent ScopeFeedReadAssigned \<or> hasScope parent ScopeFeedRead"
    using g(12) exact_scope plain_scopes by blast
  obtain c where "c \<in> set (tok_scopes parent)" "trim_space c = ScopeWorkItemsRead"
    using r by (auto simp: hasScope_def list_ex_iff)
  then have "c \<in> set (tok_scopes parent)" "trim_space c \<noteq> []" by simp_all
  then show "\<not> legacyUnscoped parent" unfolding legacyUnscoped_def list_all_iff by blast
  show "hasWorkItemTreeScope E parent" using g(9) by (auto simp: hasWorkItemTreeScope_def in_tree_def)
qed

lemma other_scope:
  assumes "granted E t child parent root w" "\<not> has_prefix s scopeWorkItemsTreePrefix"
    "s \<noteq> ScopeFeedReadAssigned" "s \<noteq> ScopeWorkItemsRead" "s \<noteq> ScopeWorkItemsWrite"
  shows "\<not> hasScope child s" "s \<notin> scopeSet (tok_scopes child)"
proof -
  have "tree_scope E root \<noteq> s" using assms(2) tree_scope_prefix by metis
  then show "\<not> hasScope child s" "s \<notin> scopeSet (tok_scopes child)"
    using assms(3-5) unfolding child_scopes [OF assms(1)] template_scopes_def
    by (cases w; simp only: if_True if_False; blast)+
qed

lemma child_not:
  assumes "granted E t child parent root w"
  shows "\<not> hasScope child ScopeWorkItemsReadAll" "\<not> hasScope child ScopeWorkItemsWriteAll"
    "\<not> hasScope child ScopeFeedRead" "\<not> hasScope child ScopeWorkItemsCreate"
    "\<not> hasScope child ScopePolicyProfileSwitch" "\<not> hasScope child ScopeRegistryWrite"
    "ScopeWorkItemsReadAll \<notin> scopeSet (tok_scopes child)" "ScopeWorkItemsWriteAll \<notin> scopeSet (tok_scopes child)"
    "ScopeFeedRead \<notin> scopeSet (tok_scopes child)" "ScopeWorkItemsCreate \<notin> scopeSet (tok_scopes child)"
    "''logs.read'' \<notin> scopeSet (tok_scopes child)" "''logs.read_details'' \<notin> scopeSet (tok_scopes child)"
    "''logs.read_restricted'' \<notin> scopeSet (tok_scopes child)" "''logs.read_masked'' \<notin> scopeSet (tok_scopes child)"
    "''logs.read_all'' \<notin> scopeSet (tok_scopes child)"
  by (rule other_scope [OF assms]; simp add: has_prefix_def)+

lemma child_write:
  assumes "granted E t child parent root w"
  shows "hasScope child ScopeWorkItemsWrite \<longleftrightarrow> w"
proof -
  have "tree_scope E root \<noteq> ScopeWorkItemsWrite" using plain_scopes(7) tree_scope_prefix by metis
  then show ?thesis unfolding child_scopes [OF assms] template_scopes_def by auto
qed

lemma child_feed:
  assumes "granted E t child parent root w" "FilterFeedItems E t child items = Inr out"
  shows "\<exists>out'. FilterFeedItems E t parent items = Inr out' \<and> set out \<subseteq> set out'"
proof -
  have "\<nexists>e. FilterFeedItems E t parent items = Inl e"
    using parent_scopes(3) [OF assms(1)] by (auto simp: FilterFeedItems_def Let_def split: if_splits)
  then obtain out' where out': "FilterFeedItems E t parent items = Inr out'"
    by (cases "FilterFeedItems E t parent items") auto
  have "set out \<subseteq> set out'"
    unfolding FilterFeedItems_pointwise [OF assms(2)] FilterFeedItems_pointwise [OF out']
    using child_tree [OF assms(1)] granted_facts(4) [OF assms(1)]
    by (auto simp: child_scopes(3) [OF assms(1)] child_not [OF assms(1)])
  with out' show ?thesis by blast
qed

lemma child_tools_cases:
  assumes "granted E t child parent root w" "ToolVisible E child tool"
  shows "tool = ''feed.read'' \<or> tool \<in> set tree_read_tools \<or> w \<and> tool \<in> set tree_write_tools"
proof (rule ccontr)
  assume "\<not> ?thesis"
  then have n: "tool \<noteq> ''feed.read''" "tool \<notin> set tree_read_tools" "\<not> w \<or> tool \<notin> set tree_write_tools"
    by blast+
  have "ScopeWorkItemsWrite \<in> scopeSet (tok_scopes child) \<longleftrightarrow> w"
    using child_write [OF assms(1)] by (simp add: hasScope_scopeSet)
  with assms(2) n show False
    using granted_facts(4,5) [OF assms(1)] child_scopes(3) [OF assms(1)]
    by (simp add: ToolVisible_def child_not [OF assms(1)] Let_def hasAny_def split: if_splits)
qed

lemma child_tools:
  assumes "granted E t child parent root w" "ToolVisible E child tool"
  shows "ToolVisible E parent tool"
proof -
  note g = granted_facts [OF assms(1)] and ps = parent_scopes [OF assms(1)]
  have s: "canReadWorkItems (scopeSet (tok_scopes parent))"
    "w \<Longrightarrow> ScopeWorkItemsWrite \<in> scopeSet (tok_scopes parent)"
    "ScopeFeedReadAssigned \<in> scopeSet (tok_scopes parent) \<or> ScopeFeedRead \<in> scopeSet (tok_scopes parent)"
    using ps(1-3) by (auto simp: canReadWorkItems_def hasScope_scopeSet)
  note p = ToolVisible_def g(7,8) ps(4,5) Let_def registry_define_tools_def
    log_read_tools_def tree_read_tools_def tree_write_tools_def
  from child_tools_cases [OF assms] show ?thesis
  proof (elim disjE conjE)
    assume "tool = ''feed.read''"
    with s(3) show ?thesis by (auto simp: p)
  next
    assume "tool \<in> set tree_read_tools"
    then show ?thesis unfolding tree_read_tools_def using s(1)
      by (simp only: set_simps insert_iff empty_iff simp_thms) (elim disjE; simp add: p)
  next
    assume "w" "tool \<in> set tree_write_tools"
    then show ?thesis unfolding tree_write_tools_def using s(2)
      by (simp only: set_simps insert_iff empty_iff simp_thms) (elim disjE; simp add: p)
  qed
qed

lemma granted_attenuates:
  assumes "granted E t child parent root w"
  shows "attenuates E t child parent"
proof -
  note g = granted_facts [OF assms] and ps = parent_scopes [OF assms] and cs = child_scopes [OF assms]
  have "CanReadWorkItem E t child u = None \<Longrightarrow> CanReadWorkItem E t parent u = None" for u
    using child_tree [OF assms] ps(1) g(4) cs(3) child_not(1,2) [OF assms]
    by (auto simp: CanReadWorkItem_None reads_all_def)
  moreover have "CanWriteWorkItem E t child u = None \<Longrightarrow> CanWriteWorkItem E t parent u = None" for u
    using child_tree [OF assms] ps(2) g(4) cs(3) child_not(2) [OF assms] child_write [OF assms]
    by (auto simp: CanWriteWorkItem_None writes_all_def)
  moreover have "CanCreateWorkItem child \<noteq> None"
    using g(4) cs(3) child_not(2,4) [OF assms] by (simp add: CanCreateWorkItem_def)
  ultimately show ?thesis
    unfolding attenuates_def using child_feed [OF assms] child_tools [OF assms] by blast
qed

section \<open>The delegation depth\<close>

lemma set_children: "set (children es level) = {v. \<exists>u \<in> set level. (u, v) \<in> set es}"
  by (force simp: children_def)

lemma relpow_front: "(\<exists>w. (u, w) \<in> R \<and> (w, v) \<in> R ^^ k) \<longleftrightarrow> (u, v) \<in> R ^^ Suc k"
  by (metis relpow_Suc_D2 relpow_Suc_I2)

lemma subtree_rows_iff:
  "subtree_rows f es level d = Some rows \<Longrightarrow>
   (v, n) \<in> set rows \<longleftrightarrow> d \<le> n \<and> (\<exists>u \<in> set level. (u, v) \<in> set es ^^ (n - d))"
proof (induction f es level d arbitrary: rows rule: subtree_rows.induct)
  case (3 f es u us d)
  let ?level = "u # us"
  obtain rest where rest: "subtree_rows f es (children es ?level) (Suc d) = Some rest"
    and rows: "rows = map (\<lambda>u. (u, d)) ?level @ rest"
    using "3.prems" by auto
  have step: "(\<exists>w \<in> set (children es ?level). (w, v) \<in> set es ^^ k) \<longleftrightarrow>
      (\<exists>x \<in> set ?level. (x, v) \<in> set es ^^ Suc k)" for k
    unfolding set_children relpow_front [symmetric] by blast
  have "(v, n) \<in> set rows \<longleftrightarrow> (v \<in> set ?level \<and> n = d) \<or>
      (Suc d \<le> n \<and> (\<exists>w \<in> set (children es ?level). (w, v) \<in> set es ^^ (n - Suc d)))"
    unfolding rows using "3.IH" [OF rest] by auto
  also have "\<dots> \<longleftrightarrow> d \<le> n \<and> (\<exists>x \<in> set ?level. (x, v) \<in> set es ^^ (n - d))"
  proof (cases "n \<le> d")
    case False
    then have "n - d = Suc (n - Suc d)" by simp
    with False step [of "n - Suc d"] show ?thesis by simp
  qed auto
  finally show ?case .
qed auto

lemma subtree_rows_ends:
  "(\<And>u v. u \<in> set level \<Longrightarrow> (u, v) \<notin> set es ^^ f) \<Longrightarrow> \<exists>rows. subtree_rows f es level d = Some rows"
proof (induction f arbitrary: level d)
  case 0
  then have "level = []" by (cases level) auto
  then show ?case by simp
next
  case (Suc f)
  show ?case
  proof (cases level)
    case (Cons u us)
    have "(w, v) \<notin> set es ^^ f" if "w \<in> set (children es level)" for w v
      using that Suc.prems unfolding set_children by (blast dest: relpow_Suc_I2)
    then obtain rows where "subtree_rows f es (children es level) (Suc d) = Some rows"
      using Suc.IH by blast
    with Cons show ?thesis by simp
  qed simp
qed

text \<open>A path without repeated vertices has at most as many steps as there are edges.\<close>

lemma acyclic_paths_end:
  assumes "acyclic R" "finite R" "card R < n"
  shows "(a, b) \<notin> R ^^ n"
proof
  assume "(a, b) \<in> R ^^ n"
  then obtain f where f: "\<And>i. i < n \<Longrightarrow> (f i, f (Suc i)) \<in> R"
    unfolding relpow_fun_conv by blast
  have "(\<lambda>i. (f i, f (Suc i))) ` {..<n} \<subseteq> R" using f by auto
  then have "\<not> inj_on (\<lambda>i. (f i, f (Suc i))) {..<n}"
    using card_inj_on_le [OF _ _ assms(2), of "\<lambda>i. (f i, f (Suc i))" "{..<n}"] assms(3) by auto
  then obtain i j where ij: "i < j" "j < n" "f i = f j"
    unfolding inj_on_def by (metis (no_types, lifting) lessThan_iff linorder_neqE_nat prod.inject)
  have "(f i, f (i + Suc k)) \<in> R\<^sup>+" if "i + Suc k \<le> n" for k
    using that
  proof (induction k)
    case (Suc k)
    then show ?case using f [of "i + Suc k"] by (auto intro: trancl_into_trancl)
  qed (use f [of i] in auto)
  from this [of "j - Suc i"] ij have "(f i, f i) \<in> R\<^sup>+" by simp
  with assms(1) show False by (simp add: acyclic_def)
qed

lemma subtree_query_ends:
  assumes "acyclic (set es)"
  shows "\<exists>rows. subtree_rows (length es + 1) es level d = Some rows"
  using acyclic_paths_end [OF assms] card_length [of es]
  by (intro subtree_rows_ends) (metis List.finite_set le_imp_less_Suc Suc_eq_plus1)

lemma min_depth_cases:
  "case min_depth rows target of
     None \<Rightarrow> \<forall>n. (target, n) \<notin> set rows
   | Some m \<Rightarrow> (target, m) \<in> set rows \<and> (\<forall>n. (target, n) \<in> set rows \<longrightarrow> m \<le> n)"
  by (induction rows target rule: min_depth.induct) (auto simp: min_def split: option.splits intro: order_trans)

definition distance_from :: "tables \<Rightarrow> uuid list \<Rightarrow> uuid \<Rightarrow> nat \<Rightarrow> bool" where
  "distance_from t roots target n \<longleftrightarrow> (\<exists>root \<in> set roots. (root, target) \<in> set (edges t) ^^ n)"

lemma depth_over_cases:
  "depth_over t target roots best = Inr d \<Longrightarrow>
   case d of
     None \<Rightarrow> best = None \<and> (\<forall>n. \<not> distance_from t roots target n)
   | Some m \<Rightarrow> (best = Some m \<or> distance_from t roots target m) \<and> (\<forall>k. best = Some k \<longrightarrow> m \<le> k) \<and>
       (\<forall>n. distance_from t roots target n \<longrightarrow> m \<le> n)"
proof (induction roots arbitrary: best)
  case (Cons root roots)
  obtain rows where rows: "subtree_query t root = Some rows"
    using Cons.prems by (auto split: option.splits)
  have iff: "(target, n) \<in> set rows \<longleftrightarrow> (root, target) \<in> set (edges t) ^^ n" for n
    using subtree_rows_iff [OF rows [unfolded subtree_query_def]] by simp
  have dist: "distance_from t (root # roots) target n \<longleftrightarrow>
      (root, target) \<in> set (edges t) ^^ n \<or> distance_from t roots target n" for n
    by (simp add: distance_from_def)
  show ?case
  proof (cases "min_depth rows target")
    case None
    then have "\<forall>n. (root, target) \<notin> set (edges t) ^^ n"
      using min_depth_cases [where rows = rows and target = target] iff by simp
    with None Cons.IH [of best] Cons.prems rows show ?thesis by (cases d) (simp_all add: dist)
  next
    case (Some c)
    then have c: "(root, target) \<in> set (edges t) ^^ c"
        "\<forall>n. (root, target) \<in> set (edges t) ^^ n \<longrightarrow> c \<le> n"
      using min_depth_cases [where rows = rows and target = target] iff by simp_all
    have "depth_over t target roots (case best of None \<Rightarrow> Some c
        | Some b \<Rightarrow> Some (if c < b then c else b)) = Inr d"
      using Cons.prems rows Some by simp
    from Cons.IH [OF this] c show ?thesis
      by (cases best; cases d) (auto simp: dist split: if_splits)
  qed
qed (auto simp: distance_from_def split: option.splits)

lemma depth_over_ends:
  "acyclic (set (edges t)) \<Longrightarrow> \<exists>d. depth_over t target roots best = Inr d"
proof (induction roots arbitrary: best)
  case (Cons root roots)
  obtain rows where "subtree_query t root = Some rows"
    using subtree_query_ends [OF Cons.prems] unfolding subtree_query_def by blast
  with Cons show ?case by (simp split: option.splits)
qed simp

lemma in_tree_distance:
  "in_tree E t parent u \<longleftrightarrow> (\<exists>n. distance_from t (parentTreeRoots E (tok_scopes parent)) u n)"
  by (auto simp: in_tree_def distance_from_def workItemTreeRoots_def parentTreeRoots_def rtrancl_power Image_iff)

section \<open>An evaluation that grants\<close>

lemma covers_scope:
  assumes "parentCoversTemplate E parent ss root relation" "s \<in> set ss"
    "\<not> has_prefix s scopeWorkItemsTreePrefix"
  shows "s \<in> set parent \<or> s = ScopeFeedReadAssigned \<and> ScopeFeedRead \<in> set parent"
  using assms by (auto simp: parentCoversTemplate_def Let_def list_all_iff split: if_splits)

lemma EvaluateInTx_parts:
  assumes "EvaluateInTx E st parent wid template scopes = Inr ev"
  obtains item :: grant_item where "get_row wi_id wid (t_work_items (proj st)) = Some (en_item ev)"
    "en_relation ev = treeRelation E (proj st) parent wid"
    "delegationDepth E (proj st) parent wid = Inr (db_depth (en_budget ev))"
    "delegationDepthBudget E st parent wid (gi_cultivar item) = Inr (en_budget ev)"
    "en_decision ev = Reduce E \<lparr>gq_parent = parent, gq_template = template, gq_source = SourceAgent,
         gq_tree_root = wid, gq_scopes = en_scopes ev, gq_relation = en_relation ev,
         gq_depth_known = (db_depth (en_budget ev) \<noteq> None),
         gq_depth = (case db_depth (en_budget ev) of None \<Rightarrow> 0 | Some d \<Rightarrow> int d),
         gq_max_depth = db_max_depth (en_budget ev), gq_budget_source = db_source (en_budget ev),
         gq_human_review = wi_human_review (en_item ev), gq_approval_authority = False,
         gq_logs_scope = False\<rparr>"
proof -
  obtain requestedScopes item budget where r: "scanGrantWorkItem st wid = Inr item"
      "delegationDepthBudget E st parent wid (gi_cultivar item) = Inr budget"
    and ev: "ev = \<lparr>en_item = gi_item item, en_template = template, en_scopes = requestedScopes,
       en_relation = treeRelation E (proj st) parent wid, en_budget = budget,
       en_decision = Reduce E \<lparr>gq_parent = parent, gq_template = template, gq_source = SourceAgent,
         gq_tree_root = wid, gq_scopes = requestedScopes, gq_relation = treeRelation E (proj st) parent wid,
         gq_depth_known = (db_depth budget \<noteq> None),
         gq_depth = (case db_depth budget of None \<Rightarrow> 0 | Some d \<Rightarrow> int d),
         gq_max_depth = db_max_depth budget, gq_budget_source = db_source budget,
         gq_human_review = wi_human_review (gi_item item), gq_approval_authority = False,
         gq_logs_scope = False\<rparr>\<rparr>"
    using assms unfolding EvaluateInTx_def Let_def
    by (elim bind_err_Inr_E) (simp only: sum.inject, blast)
  have "get_row wi_id wid (t_work_items (proj st)) = Some (gi_item item)"
    using r(1) by (auto simp: scanGrantWorkItem_def Let_def split: option.splits if_splits)
  moreover have "delegationDepth E (proj st) parent wid = Inr (db_depth budget)"
    using r(2) unfolding delegationDepthBudget_def Let_def by (elim bind_err_Inr_E) (auto split: prod.splits elim!: bind_err_Inr_E)
  ultimately show thesis using r(2) ev by (intro that [of item]) simp_all
qed

lemma evaluation_grant:
  assumes "EvaluateInTx E st parent wid template scopes = Inr ev"
    and "dc_disposition (en_decision ev) = DispositionGrant"
  obtains w where "tok_revoked_at parent = None" "\<not> tok_is_root parent" "tok_source parent = SourceAgent"
    "wid \<noteq> uuid_nil" "in_tree E (proj st) parent wid"
    "set (dc_scopes (en_decision ev)) = template_scopes E wid w"
    "w \<longrightarrow> wi_human_review (en_item ev) = HumanReviewApproved"
    "ScopeWorkItemsRead \<in> set (tok_scopes parent)"
    "w \<longrightarrow> ScopeWorkItemsWrite \<in> set (tok_scopes parent)"
    "ScopeFeedReadAssigned \<in> set (tok_scopes parent) \<or> ScopeFeedRead \<in> set (tok_scopes parent)"
    "\<And>d. db_depth (en_budget ev) = Some d \<Longrightarrow> int d \<le> db_max_depth (en_budget ev)"
proof -
  have ev: "en_relation ev = treeRelation E (proj st) parent wid"
    "en_decision ev = Reduce E \<lparr>gq_parent = parent, gq_template = template, gq_source = SourceAgent,
         gq_tree_root = wid, gq_scopes = en_scopes ev, gq_relation = en_relation ev,
         gq_depth_known = (db_depth (en_budget ev) \<noteq> None),
         gq_depth = (case db_depth (en_budget ev) of None \<Rightarrow> 0 | Some d \<Rightarrow> int d),
         gq_max_depth = db_max_depth (en_budget ev), gq_budget_source = db_source (en_budget ev),
         gq_human_review = wi_human_review (en_item ev), gq_approval_authority = False,
         gq_logs_scope = False\<rparr>" (is "_ = Reduce E ?req")
    using EvaluateInTx_parts [OF assms(1)] by metis+
  have "dc_disposition (Reduce E ?req) = DispositionGrant" using assms(2) ev(2) by simp
  then obtain ss w where g: "tok_revoked_at parent = None" "\<not> tok_is_root parent"
    "tok_source parent = SourceAgent" "wid \<noteq> uuid_nil"
    "en_relation ev = TreeSame \<or> en_relation ev = TreeDescendant"
    "gq_depth_known ?req \<longrightarrow> gq_depth ?req \<le> gq_max_depth ?req"
    "templateScopeSet E template wid = Some (ss, w)"
    "w \<longrightarrow> wi_human_review (en_item ev) = HumanReviewApproved"
    "parentCoversTemplate E (tok_scopes parent) ss wid (en_relation ev)"
    "dc_scopes (Reduce E ?req) = sort_strings ss"
    by (rule Reduce_grant) simp
  have ss: "set ss = template_scopes E wid w" using templateScopeSet_set [OF g(7)] .
  note c = covers_scope [OF g(9), unfolded ss]
  show thesis
  proof (rule that [of w])
    show "in_tree E (proj st) parent wid"
      using g(5) ev(1) by (intro treeRelation_in_tree) auto
    show "set (dc_scopes (en_decision ev)) = template_scopes E wid w"
      using ev(2) g(10) ss by simp
    show "ScopeWorkItemsRead \<in> set (tok_scopes parent)"
      using c [of ScopeWorkItemsRead] plain_scopes(6) by (auto simp: template_scopes_def)
    show "w \<longrightarrow> ScopeWorkItemsWrite \<in> set (tok_scopes parent)"
      using c [of ScopeWorkItemsWrite] plain_scopes(7) by (auto simp: template_scopes_def)
    show "ScopeFeedReadAssigned \<in> set (tok_scopes parent) \<or> ScopeFeedRead \<in> set (tok_scopes parent)"
      using c [of ScopeFeedReadAssigned] plain_scopes(5) by (auto simp: template_scopes_def)
    show "int d \<le> db_max_depth (en_budget ev)" if "db_depth (en_budget ev) = Some d" for d
      using g(6) that by simp
  qed (use g in auto)
qed

section \<open>Issuing, taken apart\<close>

lemma grant_spec_sel [simp]:
  "sp_kind (grant_spec i kind parent payload) = kind" "sp_subject_id (grant_spec i kind parent payload) = i"
  by (simp_all add: grant_spec_def)

lemma append_keeps_tokens:
  "app_append E now st s = Inr (i, fresh, st') \<Longrightarrow> sp_kind s \<noteq> EventTokenCreated \<Longrightarrow>
   sp_kind s \<noteq> EventTokenRevoked \<Longrightarrow> t_tokens (proj st') = t_tokens (proj st)"
  unfolding app_append_def by (erule Append_cases) (auto dest: apply_keeps_tokens)

lemma append_event_keeps_tokens:
  "append_event E now s st = Inr st' \<Longrightarrow> sp_kind s \<noteq> EventTokenCreated \<Longrightarrow>
   sp_kind s \<noteq> EventTokenRevoked \<Longrightarrow> t_tokens (proj st') = t_tokens (proj st)"
  by (auto simp: append_event_def map_sum_Inr dest: append_keeps_tokens)

lemma escalation_keeps_tokens:
  assumes "RequestInTx E now st inp = Inr (r, st')"
  shows "t_tokens (proj st') = t_tokens (proj st)"
  using assms
proof (cases rule: RequestInTx_cases)
  case (new parent reason summary eventID st1 st2 st3 st4)
  have "t_tokens (proj st') = t_tokens (proj st4)"
    using new(13) append_event_keeps_tokens [where st = st4 and st' = st'] by fastforce
  then show ?thesis
    using append_keeps_tokens [OF new(9)] append_event_keeps_tokens [OF new(10)]
      append_event_keeps_tokens [OF new(11)] append_event_keeps_tokens [OF new(12)] by simp
qed simp

lemma IssueGrant_new:
  assumes "IssueGrant E now st grantID raw inp = (Inr r, st')" "existingIssueResult E st grantID = Inr None"
  obtains ev requestID fresh st1 tokenName r0 where
    "EvaluateInTx E st (gs_parent inp) (gs_work_item inp) (gs_template inp) (gs_scopes inp) = Inr ev"
    "app_append E now st (grant_spec grantID EventSubactorGrantRequested (gs_parent inp)
       (grant_request_json E inp tokenName ev)) = Inr (requestID, fresh, st1)"
    "carry_out E now raw inp tokenName ev r0 st1 = Inr (r, st')"
    "ir_grant r0 = grantID" "ir_disposition r0 = dc_disposition (en_decision ev)"
    "ir_scopes r0 = dc_scopes (en_decision ev)" "ir_token r0 = None" "ir_secret r0 = []"
  using assms unfolding IssueGrant_def rollback_eq Let_def
  by (auto simp: bind_err_Inr intro!: that)

lemma CreateDelegatedToken_appends:
  "CreateDelegatedToken E now st raw drawn i name scopes source actor = Inr (x, st') \<Longrightarrow> app_appends E now st st'"
  unfolding CreateDelegatedToken_def appendTokenCreated_def Let_def
  by (cases "NewSecret E raw") (auto simp: bind_err_Inr dest!: append_event_appends)

lemma carry_out_appends:
  "carry_out E now raw inp tokenName ev r0 st = Inr (r, st') \<Longrightarrow> app_appends E now st st'"
  unfolding carry_out_def Let_def
  by (auto simp: bind_err_Inr split: disposition.splits prod.splits
      dest!: CreateDelegatedToken_appends app_append_appends RequestInTx_appends intro: appends_trans)

lemma carry_out_refused:
  assumes "carry_out E now raw inp tokenName ev r0 st = Inr (r, st')"
    and "dc_disposition (en_decision ev) \<noteq> DispositionGrant"
  shows "t_tokens (proj st') = t_tokens (proj st) \<and> ir_token r = ir_token r0 \<and> ir_secret r = ir_secret r0 \<and>
    ir_disposition r = ir_disposition r0"
  using assms unfolding carry_out_def Let_def
  by (auto simp: bind_err_Inr dest!: append_keeps_tokens escalation_keeps_tokens
      split: disposition.splits prod.splits)

lemma carry_out_grant:
  assumes "carry_out E now raw inp tokenName ev r0 st = Inr (r, st')"
    and "dc_disposition (en_decision ev) = DispositionGrant"
    and "deterministicSubactorTokenID E (ir_grant r0) \<noteq> uuid_nil"
    and "deterministicSubactorTokenID E (ir_grant r0) \<notin> tok_id ` set (t_tokens (proj st))"
  obtains tk where "ir_token r = Some tk" "ir_scopes r = ir_scopes r0" "ir_disposition r = ir_disposition r0"
    "get_row tok_id (tok_id tk) (t_tokens (proj st')) = Some tk"
    "tok_hash tk = HashSecret E (ir_secret r)" "ir_secret r = fst (NewSecret E raw)"
    "\<not> tok_is_root tk" "tok_source tk = SourceAgent" "tok_revoked_at tk = None"
    "tok_scopes tk = dc_scopes (en_decision ev)"
proof -
  let ?i = "deterministicSubactorTokenID E (ir_grant r0)"
  obtain tk secret st1 outcomeID fresh payload where
    c: "CreateDelegatedToken E now st raw uuid_nil ?i tokenName (Some (dc_scopes (en_decision ev)))
        SourceAgent (gs_parent inp) = Inr ((tk, secret), st1)"
    and a: "app_append E now st1 (grant_spec (ir_grant r0) EventSubactorGrantGranted (gs_parent inp) payload) =
        Inr (outcomeID, fresh, st')"
    and r: "r = r0\<lparr>ir_outcome_event := outcomeID, ir_token := Some tk, ir_secret := secret\<rparr>"
    using assms(1,2) unfolding carry_out_def Let_def
    by (auto simp: bind_err_Inr split: prod.splits)
  have "appendTokenCreated E now st raw uuid_nil ?i tokenName False (Some (dc_scopes (en_decision ev)))
      SourceAgent (Some (gs_parent inp)) = Inr ((tk, secret), st1)"
    using c unfolding CreateDelegatedToken_def Let_def by (auto simp: bind_err_Inr)
  from appendTokenCreated_new [OF this] assms(3,4)
  have "secret = fst (NewSecret E raw)" "get_row tok_id (tok_id tk) (t_tokens (proj st1)) = Some tk"
    "tok_hash tk = HashSecret E secret" "\<not> tok_is_root tk" "tok_scopes tk = dc_scopes (en_decision ev)"
    "tok_revoked_at tk = None" "tok_source tk = SourceAgent"
    by auto
  moreover have "t_tokens (proj st') = t_tokens (proj st1)"
    using append_keeps_tokens [OF a] by simp
  ultimately show thesis using r by (intro that [of tk]) simp_all
qed

lemma evaluation_granted:
  assumes "EvaluateInTx E st parent wid template scopes = Inr ev"
    and "dc_disposition (en_decision ev) = DispositionGrant"
    and "ext_ok E" "trim_space (tree_scope E wid) = tree_scope E wid"
    and "set (edges (proj st)) \<subseteq> set (edges t)"
    and "\<not> tok_is_root child" "tok_source child = SourceAgent" "tok_scopes child = dc_scopes (en_decision ev)"
  shows "\<exists>w. granted E t child parent wid w"
proof -
  obtain w where w: "\<not> tok_is_root parent" "tok_source parent = SourceAgent" "wid \<noteq> uuid_nil"
    "in_tree E (proj st) parent wid" "set (dc_scopes (en_decision ev)) = template_scopes E wid w"
    "ScopeWorkItemsRead \<in> set (tok_scopes parent)"
    "w \<longrightarrow> ScopeWorkItemsWrite \<in> set (tok_scopes parent)"
    "ScopeFeedReadAssigned \<in> set (tok_scopes parent) \<or> ScopeFeedRead \<in> set (tok_scopes parent)"
    using evaluation_grant [OF assms(1,2)] by metis
  have "in_tree E t parent wid" by (rule in_tree_mono [OF w(4) assms(5)]) simp
  with w assms(3-8) show ?thesis unfolding granted_def by auto
qed

section \<open>Properties\<close>

text \<open>C26: Delegation never adds rights.  The token that a granted request creates has, in the database of
  that moment and in every later one, at most the rights of the token it was delegated from: what it may
  read, write or create, the tools it is offered and the feed items it is shown.\<close>

theorem delegation_attenuates:
  assumes "ext_ok E" "trim_space (tree_scope E (gs_work_item inp)) = tree_scope E (gs_work_item inp)"
    and "existingIssueResult E st grantID = Inr None"
    and "deterministicSubactorTokenID E grantID \<noteq> uuid_nil"
    and "deterministicSubactorTokenID E grantID \<notin> tok_id ` set (t_tokens (proj st))"
    and "IssueGrant E now st grantID raw inp = (Inr r, st')" "ir_disposition r = DispositionGrant"
    and "later E st' st''"
  shows "\<exists>tk. ir_token r = Some tk \<and> get_row tok_id (tok_id tk) (t_tokens (proj st')) = Some tk \<and>
    tok_scopes tk = ir_scopes r \<and> tok_hash tk = HashSecret E (ir_secret r) \<and>
    attenuates E (proj st'') tk (gs_parent inp)"
proof -
  obtain ev requestID fresh st1 tokenName r0 where
    ev: "EvaluateInTx E st (gs_parent inp) (gs_work_item inp) (gs_template inp) (gs_scopes inp) = Inr ev"
    and a: "app_append E now st (grant_spec grantID EventSubactorGrantRequested (gs_parent inp)
       (grant_request_json E inp tokenName ev)) = Inr (requestID, fresh, st1)"
    and c: "carry_out E now raw inp tokenName ev r0 st1 = Inr (r, st')"
    and r0: "ir_grant r0 = grantID" "ir_disposition r0 = dc_disposition (en_decision ev)"
      "ir_scopes r0 = dc_scopes (en_decision ev)"
    using IssueGrant_new [OF assms(6,3)] by metis
  have d: "dc_disposition (en_decision ev) = DispositionGrant"
    using carry_out_refused [OF c] r0(2) assms(7) by force
  have toks: "t_tokens (proj st1) = t_tokens (proj st)" using append_keeps_tokens [OF a] by simp
  obtain tk where tk: "ir_token r = Some tk" "ir_scopes r = ir_scopes r0"
    "get_row tok_id (tok_id tk) (t_tokens (proj st')) = Some tk" "tok_hash tk = HashSecret E (ir_secret r)"
    "\<not> tok_is_root tk" "tok_source tk = SourceAgent" "tok_scopes tk = dc_scopes (en_decision ev)"
    by (rule carry_out_grant [OF c d]) (use assms(4,5) r0(1) toks in auto)
  have "edges (proj st1) = edges (proj st)" using append_keeps_edges [OF a] by simp
  then have "set (edges (proj st)) \<subseteq> set (edges (proj st''))"
    using later_edges [OF assms(8)] appends_edges [OF carry_out_appends [OF c]] by simp
  then obtain w where "granted E (proj st'') tk (gs_parent inp) (gs_work_item inp) w"
    using evaluation_granted [OF ev d assms(1,2) _ tk(5-7)] by blast
  with tk r0(3) show ?thesis by (auto intro: granted_attenuates)
qed

definition scoped9 :: token where
  "scoped9 = agent9\<lparr>tok_scopes := [ScopeWorkItemsRead, ScopeFeedReadAssigned, ''work_items.tree:7'']\<rparr>"

definition hall :: db where
  "hall = \<lparr>log = [], proj = no_tables\<lparr>t_tokens := [scoped9], t_work_items := [item7],
     t_relations := [\<lparr>rel_parent = 7, rel_child = 8, rel_created_at = 1\<rparr>]\<rparr>\<rparr>"

definition issue7 :: issue_input where
  "issue7 = \<lparr>gs_parent = scoped9, gs_work_item = 7, gs_template = TemplateSameTreeReadProgress,
     gs_scopes = [], gs_name = ''sub''\<rparr>"

definition ev7 :: evaluation where
  "ev7 = \<lparr>en_item = item7, en_template = TemplateSameTreeReadProgress, en_scopes = [],
     en_relation = TreeSame,
     en_budget = \<lparr>db_depth = Some 0, db_max_depth = po_max_depth DefaultPolicy, db_source = ''safety_policy'',
       db_cultivar = []\<rparr>,
     en_decision = \<lparr>dc_disposition = DispositionGrant,
       dc_reason = ''grant matches named template, same-tree policy, and parent scope subset'',
       dc_scopes = [ScopeFeedReadAssigned, ScopeWorkItemsRead, ''work_items.tree:7'']\<rparr>\<rparr>"

lemma evaluate7: "EvaluateInTx decimal_ext hall scoped9 7 TemplateSameTreeReadProgress [] = Inr ev7"
  by code_simp

definition request7 :: spec where
  "request7 = grant_spec 50 EventSubactorGrantRequested scoped9 (grant_request_json decimal_ext issue7 ''sub'' ev7)"

definition token7 :: spec where
  "token7 = token_spec 33 EventTokenCreated (Some scoped9)
     (token_json ''sub'' (HashSecret decimal_ext root_secret) False
       (Some (dc_scopes (en_decision ev7))) SourceAgent)"

lemma issue7_ids: "deterministicSubactorTokenID decimal_ext 50 = 33" "trim_space ''sub'' = ''sub''"
  "length (id_preimage request7) mod 256 \<noteq> length (id_preimage token7) mod 256"
  by code_simp+

definition tk7 :: token where
  "tk7 = \<lparr>tok_id = 33, tok_name = ''sub'', tok_hash = HashSecret decimal_ext root_secret,
     tok_is_root = False, tok_scopes = dc_scopes (en_decision ev7), tok_source = SourceAgent,
     tok_created_at = 9, tok_revoked_at = None\<rparr>"

definition hall1 :: db where
  "hall1 = \<lparr>log = [as_stored (event_of 9 (length_id (length (id_preimage request7))) request7)], proj = proj hall\<rparr>"

definition hall2 :: db where
  "hall2 = \<lparr>log = log hall1 @ [as_stored (event_of 9 (length_id (length (id_preimage token7))) token7)],
     proj = (proj hall)\<lparr>t_tokens := [scoped9, tk7]\<rparr>\<rparr>"

lemma subactor_kinds_apply:
  "ev_kind ev = EventSubactorGrantRequested \<Longrightarrow> registry_apply (NewProjectionRegistry E) ev t = Inr t"
  "ev_kind ev = EventSubactorGrantGranted \<Longrightarrow> registry_apply (NewProjectionRegistry E) ev t = Inr t"
  by (simp_all add: registry_apply_def registry_defs)

lemma grant_spec_valid: "i \<noteq> uuid_nil \<Longrightarrow> kind \<noteq> [] \<Longrightarrow> spec_validate (grant_spec i kind parent payload) = None"
  by (simp add: spec_validate_def grant_spec_def grantSource_def source_valid_def)

lemma requested7: "app_append decimal_ext 9 hall request7 = Inr (length_id (length (id_preimage request7)), True, hall1)"
proof -
  have "spec_validate request7 = None" by (simp add: request7_def grant_spec_valid)
  then have "DeterministicID decimal_ext request7 = Inr (length_id (length (id_preimage request7)))"
    by (rule decimal_ext_id)
  moreover have "registry_apply (NewProjectionRegistry decimal_ext) (event_of 9 i request7) t = Inr t" for i t
    by (rule subactor_kinds_apply(1)) (simp add: request7_def)
  ultimately show ?thesis by (simp add: app_append_def Append_def hall1_def hall_def)
qed

lemma minted7: "CreateDelegatedToken decimal_ext 9 hall1 raw32 uuid_nil 33 ''sub''
    (Some (dc_scopes (en_decision ev7))) SourceAgent scoped9 = Inr ((tk7, root_secret), hall2)"
proof -
  have "spec_validate token7 = None"
    by (simp add: token7_def token_spec_def spec_validate_def sourceForToken_def source_valid_def scoped9_def agent9_def)
  then have id: "DeterministicID decimal_ext token7 = Inr (length_id (length (id_preimage token7)))"
    by (rule decimal_ext_id)
  have "tokenCreatedProjector (event_of 9 i token7) (proj hall) = Inr ((proj hall)\<lparr>t_tokens := [scoped9, tk7]\<rparr>)" for i
    by code_simp
  then have "append_event decimal_ext 9 token7 hall1 = Inr hall2"
    using id issue7_ids(3) [symmetric]
    by (simp add: append_event_def app_append_def Append_def hall1_def hall2_def registry_apply_kinds
        token7_def [THEN arg_cong [where f = sp_kind], simplified] length_id_eq_iff)
  then show ?thesis
    by (simp add: CreateDelegatedToken_def appendTokenCreated_def guard_err_def Let_def normalizeTokenSource_def
        source_valid_def NewSecret_def root_secret_def [symmetric, unfolded NewSecret_def Let_def fst_conv]
        token7_def scanToken_def scanTokenRow_def hall2_def tk7_def scoped9_def agent9_def get_row_def)
qed

lemma issue7_runs:
  "\<exists>r st'. IssueGrant decimal_ext 9 hall 50 raw32 issue7 = (Inr r, st') \<and>
     ir_disposition r = DispositionGrant \<and> ir_scopes r = dc_scopes (en_decision ev7) \<and> ir_secret r = root_secret"
proof -
  have none: "existingIssueResult decimal_ext hall 50 = Inr None"
    by (simp add: existingIssueResult_def hall_def latest_event_def)
  have "\<exists>k fresh st'. app_append decimal_ext 9 hall2 (grant_spec 50 EventSubactorGrantGranted scoped9 payload) =
      Inr (k, fresh, st')" for payload
    by (rule append_ok) (simp_all add: grant_spec_valid subactor_kinds_apply)
  then obtain k fresh st' where granted: "app_append decimal_ext 9 hall2 (grant_spec 50 EventSubactorGrantGranted scoped9
      (JObj (outcome_fields decimal_ext (length_id (length (id_preimage request7))) issue7 (dc_reason (en_decision ev7)) @
        [(''token_id'', juid decimal_ext (tok_id tk7)), (''token_name'', JStr (tok_name tk7)),
         (''scopes'', jstrs (dc_scopes (en_decision ev7)))]))) = Inr (k, fresh, st')"
    by blast
  have sel: "gs_parent issue7 = scoped9" "gs_work_item issue7 = 7" "gs_template issue7 = TemplateSameTreeReadProgress"
    "gs_scopes issue7 = []" "gs_name issue7 = ''sub''" "tok_id scoped9 = 9"
    by (simp_all add: issue7_def scoped9_def agent9_def)
  have d: "dc_disposition (en_decision ev7) = DispositionGrant" by (simp add: ev7_def)
  show ?thesis
    using none evaluate7 requested7 minted7 granted
    by (simp add: IssueGrant_def rollback_def guard_err_def carry_out_def request7_def [symmetric] sel d Let_def
        issue7_ids(1,2))
qed

theorem delegation_attenuates_witness:
  "\<exists>r st' tk. IssueGrant decimal_ext 9 hall 50 raw32 issue7 = (Inr r, st') \<and> ir_token r = Some tk \<and>
     attenuates decimal_ext (proj st') tk scoped9"
proof -
  obtain r st' where run: "IssueGrant decimal_ext 9 hall 50 raw32 issue7 = (Inr r, st')"
    and d: "ir_disposition r = DispositionGrant"
    using issue7_runs by blast
  have "existingIssueResult decimal_ext hall 50 = Inr None"
    by (simp add: existingIssueResult_def hall_def latest_event_def)
  moreover have "trim_space (tree_scope decimal_ext (gs_work_item issue7)) = tree_scope decimal_ext (gs_work_item issue7)"
    by code_simp
  moreover have "33 \<notin> tok_id ` set (t_tokens (proj hall))"
    by (simp add: hall_def scoped9_def agent9_def)
  ultimately have "\<exists>tk. ir_token r = Some tk \<and> get_row tok_id (tok_id tk) (t_tokens (proj st')) = Some tk \<and>
      tok_scopes tk = ir_scopes r \<and> tok_hash tk = HashSecret decimal_ext (ir_secret r) \<and>
      attenuates decimal_ext (proj st') tk (gs_parent issue7)"
    using delegation_attenuates [OF decimal_ext_ok _ _ _ _ run d later.now] issue7_ids(1) by simp
  moreover have "gs_parent issue7 = scoped9" by (simp add: issue7_def)
  ultimately show ?thesis using run by auto
qed

text \<open>C27: A delegation stays within its budget.  A request is granted only for a work item that lies at most
  the budgeted number of relation steps below a tree root of the delegating token, and rights to write are
  granted only for items that a human has approved.\<close>

theorem granted_within_budget:
  assumes "EvaluateInTx E st parent wid template scopes = Inr ev"
    and "dc_disposition (en_decision ev) = DispositionGrant"
  shows "(\<exists>root \<in> set (workItemTreeRoots E parent). \<exists>n. (root, wid) \<in> set (edges (proj st)) ^^ n \<and>
      int n \<le> db_max_depth (en_budget ev)) \<and>
    (ScopeWorkItemsWrite \<in> set (dc_scopes (en_decision ev)) \<longrightarrow>
      (\<exists>w. get_row wi_id wid (t_work_items (proj st)) = Some w \<and> wi_human_review w = HumanReviewApproved))"
proof -
  obtain w where g: "in_tree E (proj st) parent wid"
    "set (dc_scopes (en_decision ev)) = template_scopes E wid w"
    "w \<longrightarrow> wi_human_review (en_item ev) = HumanReviewApproved"
    "\<And>d. db_depth (en_budget ev) = Some d \<Longrightarrow> int d \<le> db_max_depth (en_budget ev)"
    using evaluation_grant [OF assms] by metis
  obtain row: "get_row wi_id wid (t_work_items (proj st)) = Some (en_item ev)"
    and depth: "delegationDepth E (proj st) parent wid = Inr (db_depth (en_budget ev))"
    using EvaluateInTx_parts [OF assms(1)] by metis
  have dist: "parentTreeRoots E (tok_scopes parent) = workItemTreeRoots E parent"
    by (simp add: parentTreeRoots_def workItemTreeRoots_def)
  obtain d where "db_depth (en_budget ev) = Some d" "distance_from (proj st) (workItemTreeRoots E parent) wid d"
    using depth_over_cases [OF depth [unfolded delegationDepth_def]] g(1) in_tree_distance [of E "proj st" parent wid]
    by (auto simp: dist split: option.splits)
  moreover have "w" if "ScopeWorkItemsWrite \<in> set (dc_scopes (en_decision ev))"
  proof -
    have "tree_scope E wid \<noteq> ScopeWorkItemsWrite" using plain_scopes(7) tree_scope_prefix by metis
    then show ?thesis using that g(2) by (auto simp: template_scopes_def split: if_splits)
  qed
  ultimately show ?thesis using g(3,4) row by (auto simp: distance_from_def)
qed

theorem granted_within_budget_witness:
  "\<exists>root \<in> set (workItemTreeRoots decimal_ext scoped9). \<exists>n. (root, 7) \<in> set (edges (proj hall)) ^^ n \<and> int n \<le> 5"
proof -
  have "db_max_depth (en_budget ev7) = 5" by code_simp
  then show ?thesis using granted_within_budget [OF evaluate7] by (simp add: ev7_def)
qed

text \<open>C29: The recursive depth query ends on every acyclic graph of relations, and its result is the distance
  of the requested item from the nearest tree root of the delegating token, if there is one above it.\<close>

theorem delegation_depth_is_distance:
  assumes "acyclic (set (edges t))"
  shows "delegationDepth E t parent target = Inr (if in_tree E t parent target
    then Some (LEAST n. \<exists>root \<in> set (workItemTreeRoots E parent). (root, target) \<in> set (edges t) ^^ n)
    else None)"
proof -
  let ?roots = "parentTreeRoots E (tok_scopes parent)"
  obtain d where d: "delegationDepth E t parent target = Inr d"
    using depth_over_ends [OF assms] unfolding delegationDepth_def by blast
  have c: "case d of None \<Rightarrow> \<forall>n. \<not> distance_from t ?roots target n
    | Some m \<Rightarrow> distance_from t ?roots target m \<and> (\<forall>n. distance_from t ?roots target n \<longrightarrow> m \<le> n)"
    using depth_over_cases [OF d [unfolded delegationDepth_def]] by (auto split: option.splits)
  show ?thesis
  proof (cases d)
    case None
    with c d show ?thesis by (simp add: in_tree_distance)
  next
    case (Some m)
    with c have "(LEAST n. distance_from t ?roots target n) = m" by (intro Least_equality) auto
    with Some c d show ?thesis
      by (auto simp: in_tree_distance distance_from_def parentTreeRoots_def workItemTreeRoots_def)
  qed
qed

theorem delegation_depth_is_distance_witness:
  "\<exists>d. delegationDepth decimal_ext tree78 agent9 8 = Inr d"
proof -
  have "acyclic (set (edges tree78))"
    by (rule acyclicI) (auto simp: edges_def tree78_def trancl_insert)
  from delegation_depth_is_distance [OF this] show ?thesis by blast
qed

end
