(* ===== verification/Activation.thy ===== *)
theory Activation
  imports Grants Registry
begin

text \<open>
  internal/cultivaractivation: an agent asks to define a cultivar for a work item.  The grant reducer
  decides as for a subactor with the worker template, rootstock cultivars are denied, and a grant also
  needs that somebody else approved the work item.
\<close>

record activation_result =
  av_id :: uuid
  av_item :: uuid
  av_disposition :: disposition
  av_reason :: string
  av_scopes :: "string list"
  av_cultivar :: "cultivar option"
  av_request_event :: uuid
  av_outcome_event :: uuid
  av_escalation :: uuid
  av_human :: uuid

text \<open>strings.ReplaceAll for an old text that is not empty.\<close>

fun replace_all :: "string \<Rightarrow> string \<Rightarrow> string \<Rightarrow> string" where
  "replace_all old new [] = []"
| "replace_all old new (c # s) =
     (if has_prefix (c # s) old then new @ replace_all old new (drop (length old - 1) s)
      else c # replace_all old new s)"

definition resolveProfileScopes :: "ext \<Rightarrow> string list \<Rightarrow> uuid \<Rightarrow> string list" where
  "resolveProfileScopes E scopes root = map (replace_all ''{root}'' (uuid_string E root)) scopes"

text \<open>The events that approve a work item; the latest one counts.\<close>

definition approving :: "uuid \<Rightarrow> event \<Rightarrow> bool" where
  "approving wid e \<longleftrightarrow>
     is_event SubjectWorkItem wid EventWorkItemMetadataUpdated e \<and>
       jtext (jget (ev_payload e) ''to'') ''human_review_status'' = Some HumanReviewApproved \<or>
     is_event SubjectWorkItem wid EventWorkItemCreated e \<and>
       jtext (ev_payload e) ''human_review_status'' = Some HumanReviewApproved"

definition approvalSeparated :: "db \<Rightarrow> uuid \<Rightarrow> uuid \<Rightarrow> bool \<times> string" where
  "approvalSeparated st wid actorID = (case latest_event (filter (approving wid) (log st)) of
     None \<Rightarrow> (False, ''explicit human_review_status=approved event is required before cultivar activation'')
   | Some e \<Rightarrow>
       if ev_actor e = Some actorID
       then (False, ''cultivar proposer cannot approve its own activation work item'')
       else (True, []))"

definition activationSummary :: "string \<Rightarrow> cultivar \<Rightarrow> string \<Rightarrow> string" where
  "activationSummary title inp reason =
     (let name0 = trim_space (cu_name inp); name = (if name0 = [] then ''<unnamed>'' else name0) in
      ''Cultivar activation '' @ name @ ''@'' @ itoa (cu_version inp) @ '' for '' @ quote title @
      '' requires review: '' @ reason)"

definition activation_spec :: "uuid \<Rightarrow> string \<Rightarrow> token \<Rightarrow> json \<Rightarrow> spec" where
  "activation_spec i kind actor payload =
     \<lparr>sp_subject_kind = SubjectCultivarActivation, sp_subject_id = i, sp_kind = kind,
      sp_source = grantSource actor, sp_actor = Some (tok_id actor), sp_payload = payload,
      sp_discriminator = []\<rparr>"

definition activation_request_json :: "ext \<Rightarrow> token \<Rightarrow> uuid \<Rightarrow> cultivar \<Rightarrow> evaluation \<Rightarrow> json" where
  "activation_request_json E actor wid cul ev =
     JObj [(''work_item_id'', juid E wid), (''parent_token_id'', juid E (tok_id actor)),
       (''grant_reducer'', JStr ''subactor_grant.reduce''), (''grant_template'', JStr TemplateSameTreeWorker),
       (''requested_scopes'', jstrs (en_scopes ev)),
       (''tree_relation'', JStr (relation_name (en_relation ev))),
       (''human_review_status'', JStr (wi_human_review (en_item ev))),
       (''delegation_depth_known'', JBool (db_depth (en_budget ev) \<noteq> None)),
       (''delegation_depth'', jint (case db_depth (en_budget ev) of None \<Rightarrow> 0 | Some d \<Rightarrow> int d)),
       (''max_delegation_depth'', jint (db_max_depth (en_budget ev))),
       (''depth_budget_source'', JStr (db_source (en_budget ev))),
       (''proposed_cultivar_name'', JStr (trim_space (cu_name cul))),
       (''proposed_cultivar_version'', jint (cu_version cul)),
       (''proposed_rootstock'', JBool (cu_rootstock cul))]"

text \<open>The event_id column of a cultivar: the definition that was projected last.\<close>

definition cultivar_event :: "ext \<Rightarrow> db \<Rightarrow> string \<Rightarrow> uuid" where
  "cultivar_event E st name =
     (case rev (filter (is_event SubjectCultivar (CultivarSubjectID E name) EventCultivarDefined) (log st)) of
        [] \<Rightarrow> uuid_nil | e # _ \<Rightarrow> ev_id e)"

definition activation_decision :: "db \<Rightarrow> token \<Rightarrow> uuid \<Rightarrow> cultivar \<Rightarrow> decision \<Rightarrow> decision" where
  "activation_decision st actor wid cul d0 =
     (let d = (if cu_rootstock cul
          then deny ''rootstock cultivars cannot be activated by worker self-extension'' else d0) in
      if dc_disposition d = DispositionGrant then
        (case approvalSeparated st wid (tok_id actor) of
           (separated, reason) \<Rightarrow> if separated then d else escalate reason)
      else d)"

definition carry_activation ::
  "ext \<Rightarrow> time \<Rightarrow> token \<Rightarrow> uuid \<Rightarrow> cultivar \<Rightarrow> evaluation \<Rightarrow> activation_result \<Rightarrow> db \<Rightarrow>
   err + activation_result \<times> db"
where
  "carry_activation E now actor wid cul ev r st =
     (let reason = av_reason r;
          fields = [(''request_event_id'', juid E (av_request_event r)), (''work_item_id'', juid E wid),
            (''reason'', JStr reason)] in
      case av_disposition r of
        DispositionGrant \<Rightarrow>
          bind_err (DefineCultivarInTx E (NewProjectionRegistry E) now st actor cul) (\<lambda>(item, _, st1).
          bind_err (app_append E now st1 (activation_spec (av_id r) EventCultivarActivationGranted actor
            (JObj (fields @ [(''scopes'', jstrs (av_scopes r)),
               (''cultivar'', JStr (cu_name item @ ''@'' @ itoa (cu_version item))),
               (''cultivar_event_id'', juid E (cultivar_event E st1 (cu_name item)))])))) (\<lambda>(outcomeID, _, st2).
          Inr (r\<lparr>av_outcome_event := outcomeID, av_cultivar := Some item\<rparr>, st2)))
      | DispositionDeny \<Rightarrow>
          bind_err (app_append E now st (activation_spec (av_id r) EventCultivarActivationDenied actor
            (JObj fields))) (\<lambda>(outcomeID, _, st1).
          Inr (r\<lparr>av_outcome_event := outcomeID\<rparr>, st1))
      | DispositionEscalate \<Rightarrow>
          bind_err (RequestInTx E now st \<lparr>es_work_item = wid,
            es_reason = ''cultivar activation requires review: '' @ reason,
            es_summary = activationSummary (wi_title (en_item ev)) cul reason, es_actor = actor\<rparr>) (\<lambda>(esc, st1).
          bind_err (app_append E now st1 (activation_spec (av_id r) EventCultivarActivationEscalated actor
            (JObj (fields @ [(''escalation_id'', juid E (er_escalation esc)),
               (''human_work_item_id'', juid E (er_human esc))])))) (\<lambda>(outcomeID, _, st2).
          Inr (r\<lparr>av_outcome_event := outcomeID, av_escalation := er_escalation esc, av_human := er_human esc\<rparr>,
            st2))))"

definition Activate ::
  "ext \<Rightarrow> time \<Rightarrow> db \<Rightarrow> uuid \<Rightarrow> token \<Rightarrow> uuid \<Rightarrow> cultivar \<Rightarrow> activation_result outcome"
where
  "Activate E now st activationID actor wid cul = rollback st
     (bind_err (guard_err (tok_id actor \<noteq> uuid_nil) (Err [] ''cultivar activation: actor token is required'')) (\<lambda>_.
      bind_err (guard_err (wid \<noteq> uuid_nil) (Err [] ''cultivar activation: work_item_id is required'')) (\<lambda>_.
      bind_err (EvaluateInTx E st actor wid TemplateSameTreeWorker (resolveProfileScopes E (cu_scopes cul) wid)) (\<lambda>ev.
      let d = activation_decision st actor wid cul (en_decision ev) in
      bind_err (app_append E now st (activation_spec activationID EventCultivarActivationRequested actor
        (activation_request_json E actor wid cul ev))) (\<lambda>(requestID, _, st1).
      bind_err (carry_activation E now actor wid cul ev
        \<lparr>av_id = activationID, av_item = wid, av_disposition = dc_disposition d, av_reason = dc_reason d,
         av_scopes = dc_scopes d, av_cultivar = None, av_request_event = requestID,
         av_outcome_event = uuid_nil, av_escalation = uuid_nil, av_human = uuid_nil\<rparr> st1) (\<lambda>(r, st2).
      Inr (Inr r, st2)))))))"

section \<open>Who may extend the registry\<close>

lemma apply_keeps_cultivars:
  "registry_apply (NewProjectionRegistry E) ev t = Inr t' \<Longrightarrow>
   ev_kind ev \<noteq> EventCultivarDefined \<Longrightarrow> t_cultivars t' = t_cultivars t"
  by (rule registry_apply_rel [where R = "\<lambda>t t'. t_cultivars t' = t_cultivars t"])
     (auto simp: registry_defs dest: frames_cultivars)

lemma append_keeps_cultivars:
  "app_append E now st s = Inr (i, fresh, st') \<Longrightarrow> sp_kind s \<noteq> EventCultivarDefined \<Longrightarrow>
   t_cultivars (proj st') = t_cultivars (proj st)"
  unfolding app_append_def by (erule Append_cases) (auto dest: apply_keeps_cultivars)

lemma append_event_keeps_cultivars:
  "append_event E now s st = Inr st' \<Longrightarrow> sp_kind s \<noteq> EventCultivarDefined \<Longrightarrow>
   t_cultivars (proj st') = t_cultivars (proj st)"
  by (auto simp: append_event_def map_sum_Inr dest: append_keeps_cultivars)

lemma RequestInTx_keeps_cultivars:
  "RequestInTx E now st inp = Inr (r, st') \<Longrightarrow> t_cultivars (proj st') = t_cultivars (proj st)"
  by (erule RequestInTx_cases) (auto dest!: append_keeps_cultivars append_event_keeps_cultivars)

lemma activation_spec_sel [simp]:
  "sp_kind (activation_spec i kind actor payload) = kind"
  by (simp add: activation_spec_def)

lemma carry_activation_keeps:
  assumes "carry_activation E now actor wid cul ev r st = Inr (r', st')" "av_disposition r \<noteq> DispositionGrant"
  shows "t_cultivars (proj st') = t_cultivars (proj st)"
  using assms by (cases "av_disposition r")
    (auto simp: carry_activation_def Let_def bind_err_Inr dest!: append_keeps_cultivars RequestInTx_keeps_cultivars)

lemma activation_granted:
  assumes "dc_disposition (activation_decision st actor wid cul d) = DispositionGrant"
  shows "activation_decision st actor wid cul d = d" "\<not> cu_rootstock cul"
    "\<exists>e. latest_event (filter (approving wid) (log st)) = Some e \<and> ev_actor e \<noteq> Some (tok_id actor)"
  using assms by (auto simp: activation_decision_def approvalSeparated_def deny_def escalate_def Let_def
      split: if_split_asm option.split_asm prod.split_asm)

lemma worker_evaluation:
  assumes "EvaluateInTx E st parent wid TemplateSameTreeWorker scopes = Inr ev"
    and "dc_disposition (en_decision ev) = DispositionGrant"
  shows "tok_revoked_at parent = None" "\<not> tok_is_root parent" "tok_source parent = SourceAgent"
    "in_tree E (proj st) parent wid"
    "\<exists>w. get_row wi_id wid (t_work_items (proj st)) = Some w \<and> wi_human_review w = HumanReviewApproved"
proof -
  from assms(1) obtain item :: grant_item where w: "get_row wi_id wid (t_work_items (proj st)) = Some (en_item ev)"
    and rel: "en_relation ev = treeRelation E (proj st) parent wid"
    and ev: "en_decision ev = Reduce E \<lparr>gq_parent = parent, gq_template = TemplateSameTreeWorker,
         gq_source = SourceAgent, gq_tree_root = wid, gq_scopes = en_scopes ev, gq_relation = en_relation ev,
         gq_depth_known = (db_depth (en_budget ev) \<noteq> None),
         gq_depth = (case db_depth (en_budget ev) of None \<Rightarrow> 0 | Some d \<Rightarrow> int d),
         gq_max_depth = db_max_depth (en_budget ev), gq_budget_source = db_source (en_budget ev),
         gq_human_review = wi_human_review (en_item ev), gq_approval_authority = False,
         gq_logs_scope = False\<rparr>" (is "_ = Reduce E ?req")
    by (rule EvaluateInTx_parts)
  from assms(2) have "dc_disposition (Reduce E ?req) = DispositionGrant" unfolding ev .
  then show "tok_revoked_at parent = None" "\<not> tok_is_root parent" "tok_source parent = SourceAgent"
    "in_tree E (proj st) parent wid"
    "\<exists>w. get_row wi_id wid (t_work_items (proj st)) = Some w \<and> wi_human_review w = HumanReviewApproved"
    using w treeRelation_in_tree [of E "proj st" parent wid]
    by (auto simp: rel templateScopeSet_def elim!: Reduce_grant)
qed

lemma carry_activation_disposition:
  "carry_activation E now actor wid cul ev r st = Inr (r', st') \<Longrightarrow> av_disposition r' = av_disposition r"
  by (cases "av_disposition r") (auto simp: carry_activation_def Let_def bind_err_Inr)

text \<open>
  C28: An agent extends the registry only with the consent of somebody else.  If an activation changes
  the cultivars, then it was granted: the actor is a live agent token that is not root, the work item
  lies in its tree and is approved, the latest event that approved it came from another token, and the
  proposed cultivar is not a rootstock.
\<close>
theorem activation_needs_other_approval:
  assumes "Activate E now st i actor wid cul = (r, st')"
  shows "t_cultivars (proj st') = t_cultivars (proj st) \<or>
    (\<exists>out e w. r = Inr out \<and> av_disposition out = DispositionGrant \<and> \<not> cu_rootstock cul \<and>
       tok_revoked_at actor = None \<and> \<not> tok_is_root actor \<and> tok_source actor = SourceAgent \<and>
       in_tree E (proj st) actor wid \<and>
       get_row wi_id wid (t_work_items (proj st)) = Some w \<and> wi_human_review w = HumanReviewApproved \<and>
       latest_event (filter (approving wid) (log st)) = Some e \<and> ev_actor e \<noteq> Some (tok_id actor))"
proof (cases r)
  case (Inl err)
  with assms have "st' = st" by (auto simp: Activate_def rollback_eq bind_err_Inr Let_def)
  then show ?thesis by simp
next
  case (Inr out)
  with assms obtain ev requestID fresh st1 where ev: "EvaluateInTx E st actor wid TemplateSameTreeWorker
      (resolveProfileScopes E (cu_scopes cul) wid) = Inr ev"
    and a: "app_append E now st (activation_spec i EventCultivarActivationRequested actor
        (activation_request_json E actor wid cul ev)) = Inr (requestID, fresh, st1)"
    and c: "carry_activation E now actor wid cul ev
      (let d = activation_decision st actor wid cul (en_decision ev) in
        \<lparr>av_id = i, av_item = wid, av_disposition = dc_disposition d, av_reason = dc_reason d,
         av_scopes = dc_scopes d, av_cultivar = None, av_request_event = requestID,
         av_outcome_event = uuid_nil, av_escalation = uuid_nil, av_human = uuid_nil\<rparr>) st1 = Inr (out, st')"
    by (auto simp: Activate_def rollback_eq bind_err_Inr Let_def)
  let ?d = "activation_decision st actor wid cul (en_decision ev)"
  show ?thesis
  proof (cases "dc_disposition ?d = DispositionGrant")
    case False
    with carry_activation_keeps [OF c] append_keeps_cultivars [OF a] show ?thesis by (simp add: Let_def)
  next
    case True
    then have g: "dc_disposition (en_decision ev) = DispositionGrant" using activation_granted(1) by metis
    from carry_activation_disposition [OF c] True have "av_disposition out = DispositionGrant" by (simp add: Let_def)
    with Inr worker_evaluation [OF ev g] activation_granted(2,3) [OF True] show ?thesis by blast
  qed
qed

definition worker9 :: token where
  "worker9 = agent9\<lparr>tok_scopes := [ScopeFeedReadAssigned, ScopeWorkItemsRead, ScopeWorkItemsWrite, ''work_items.tree:7'']\<rparr>"

definition linter :: cultivar where
  "linter = \<lparr>cu_name = ''linter'', cu_version = 1, cu_rootstock = False, cu_tropism = (''checks'', 1),
     cu_briefing = ''lint'', cu_scopes = [ScopeFeedReadAssigned, ScopeWorkItemsRead, ScopeWorkItemsWrite,
       ''work_items.tree:{root}''],
     cu_xylem = \<lparr>xy_max_attempts = 3, xy_max_wall_seconds = 60, xy_max_depth = 1, xy_max_children = 0,
       xy_max_running = 0, xy_max_events = []\<rparr>,
     cu_phloem = ''sap'', cu_description = []\<rparr>"

definition studio :: "uuid \<Rightarrow> uuid \<Rightarrow> event list \<Rightarrow> db" where
  "studio i j evs = \<lparr>log = [event_of 1 i (definition_spec SubjectTropism 5 EventTropismDefined (agent9\<lparr>tok_id := 2\<rparr>)
         (JObj [(''name'', JStr ''checks''), (''version'', jint 1)])),
       event_of 2 j (work_item_spec 7 EventWorkItemMetadataUpdated (agent9\<lparr>tok_id := 2\<rparr>) []
         (JObj [(''to'', metadata_json [] HumanReviewApproved)]))] @ evs,
     proj = no_tables\<lparr>t_work_items := [item7\<lparr>wi_human_review := HumanReviewApproved\<rparr>]\<rparr>\<rparr>"

lemma studio_decision:
  "map_sum id (\<lambda>ev. dc_disposition (activation_decision (studio i j []) worker9 7 linter (en_decision ev)))
     (EvaluateInTx decimal_ext (studio i j []) worker9 7 TemplateSameTreeWorker (resolveProfileScopes decimal_ext (cu_scopes linter) 7))
   = Inr DispositionGrant"
  by code_simp

lemma linter_normal: "normalizeCultivarInput linter = Inr (linter, cultivar_payload linter)"
  by code_simp

lemma linter_projects:
  "cultivarDefinedProjector (event_of 9 i (definition_spec SubjectCultivar c EventCultivarDefined actor (cultivar_payload linter)))
     (no_tables\<lparr>t_work_items := ws\<rparr>) = Inr (no_tables\<lparr>t_work_items := ws, t_cultivars := [linter]\<rparr>)"
  by code_simp

lemma cultivar_kind_applies:
  "ev_kind ev = EventCultivarDefined \<Longrightarrow> registry_apply (NewProjectionRegistry E) ev t = cultivarDefinedProjector ev t"
  by (cases "cultivarDefinedProjector ev t") (simp_all add: registry_apply_def registry_defs)

lemma studio_tropism: "tropismVersionExists (studio i j evs) (cu_tropism linter)"
proof -
  have "names_version ''checks'' 1 (event_of 1 i (definition_spec SubjectTropism 5 EventTropismDefined
      (agent9\<lparr>tok_id := 2\<rparr>) (JObj [(''name'', JStr ''checks''), (''version'', jint 1)])))" by code_simp
  then show ?thesis by (simp add: tropismVersionExists_def studio_def linter_def definition_spec_def)
qed

definition studio_ev :: evaluation where
  "studio_ev = (case EvaluateInTx decimal_ext (studio 1 2 []) worker9 7 TemplateSameTreeWorker
     (resolveProfileScopes decimal_ext (cu_scopes linter) 7) of Inr ev \<Rightarrow> ev)"

definition ask_spec :: spec where
  "ask_spec = activation_spec 50 EventCultivarActivationRequested worker9
     (activation_request_json decimal_ext worker9 7 linter studio_ev)"

definition linter_spec :: spec where
  "linter_spec = definition_spec SubjectCultivar (CultivarSubjectID decimal_ext ''linter'') EventCultivarDefined
     worker9 (cultivar_payload linter)"

lemma studio_evaluation:
  "EvaluateInTx decimal_ext (studio i j []) worker9 7 TemplateSameTreeWorker
     (resolveProfileScopes decimal_ext (cu_scopes linter) 7) = Inr studio_ev"
  by code_simp

lemma studio_lengths:
  "length (id_preimage ask_spec) mod 256 \<notin> {2, 3}" "length (id_preimage linter_spec) mod 256 \<notin> {2, 3}"
  "length (id_preimage linter_spec) mod 256 \<noteq> length (id_preimage ask_spec) mod 256"
  by code_simp+

lemma activation_kinds_apply:
  "ev_kind ev = EventCultivarActivationRequested \<Longrightarrow> registry_apply (NewProjectionRegistry E) ev t = Inr t"
  "ev_kind ev = EventCultivarActivationGranted \<Longrightarrow> registry_apply (NewProjectionRegistry E) ev t = Inr t"
  by (simp_all add: registry_apply_def registry_defs)

lemma activation_appends:
  assumes "i \<noteq> uuid_nil" "kind \<in> {EventCultivarActivationRequested, EventCultivarActivationGranted}"
  shows "\<exists>j fresh evs. app_append E now st (activation_spec i kind actor payload) = Inr (j, fresh, st\<lparr>log := log st @ evs\<rparr>) \<and>
    (\<forall>e \<in> set evs. DeterministicID E (activation_spec i kind actor payload) = Inr (ev_id e))"
proof -
  let ?s = "activation_spec i kind actor payload"
  have noop: "registry_apply (NewProjectionRegistry E) (event_of now k ?s) t = Inr t" for k t
    using assms(2) activation_kinds_apply [of "event_of now k ?s"] by auto
  have "spec_validate ?s = None"
    using assms by (auto simp: activation_spec_def spec_validate_def grantSource_def source_valid_def)
  then obtain k where k: "DeterministicID E ?s = Inr k" by (simp add: DeterministicID_def)
  show ?thesis
  proof (cases "k \<in> ev_id ` set (log st)")
    case True
    then have "app_append E now st ?s = Inr (k, False, st\<lparr>log := log st @ []\<rparr>)"
      using k by (simp add: app_append_def Append_def)
    then show ?thesis by (intro exI [of _ k] exI [of _ False] exI [of _ "[]"]) (simp del: append_Nil2)
  next
    case False
    then have "app_append E now st ?s = Inr (k, True, st\<lparr>log := log st @ [as_stored (event_of now k ?s)]\<rparr>)"
      using k noop by (simp add: app_append_def Append_def)
    then show ?thesis using k by (intro exI [of _ k] exI [of _ True] exI) (rule conjI, assumption, simp)
  qed
qed

lemma studio_defines:
  assumes "\<forall>e \<in> set evs. DeterministicID decimal_ext ask_spec = Inr (ev_id e)"
  shows "\<exists>fresh st'. DefineCultivarInTx decimal_ext (NewProjectionRegistry decimal_ext) 9
    (studio (length_id 2) (length_id 3) evs) worker9 linter = Inr (linter, fresh, st') \<and> t_cultivars (proj st') = [linter]"
proof -
  let ?st = "studio (length_id 2) (length_id 3) evs" and ?n = "length_id (length (id_preimage linter_spec))"
  have ids: "DeterministicID decimal_ext linter_spec = Inr ?n"
  proof (rule decimal_ext_id)
    have "CultivarSubjectID decimal_ext ''linter'' \<noteq> uuid_nil" by code_simp
    then show "spec_validate linter_spec = None"
      by (simp add: linter_spec_def definition_spec_def spec_validate_def)
  qed
  have "DeterministicID decimal_ext ask_spec = Inr (length_id (length (id_preimage ask_spec)))"
    by (rule decimal_ext_id)
       (simp add: ask_spec_def activation_spec_def spec_validate_def grantSource_def source_valid_def)
  with assms have "\<forall>e \<in> set evs. ev_id e = length_id (length (id_preimage ask_spec))" by simp
  moreover have "?n \<noteq> length_id 2" "?n \<noteq> length_id 3" "?n \<noteq> length_id (length (id_preimage ask_spec))"
    using studio_lengths by (simp_all only: length_id_eq_iff) simp_all
  ultimately have "?n \<notin> ev_id ` set (log ?st)" by (auto simp: studio_def simp del: One_nat_def)
  moreover have "registry_apply (NewProjectionRegistry decimal_ext) (event_of 9 ?n linter_spec) (proj ?st) =
      Inr ((proj ?st)\<lparr>t_cultivars := [linter]\<rparr>)"
  proof -
    have "ev_kind (event_of 9 ?n linter_spec) = EventCultivarDefined" by (simp add: linter_spec_def definition_spec_def)
    from cultivar_kind_applies [OF this] show ?thesis
      using linter_projects by (simp only: linter_spec_def studio_def store.select_convs)
  qed
  ultimately have a: "Append decimal_ext (NewProjectionRegistry decimal_ext) 9 ?st linter_spec = Inr (?n, True,
      \<lparr>log = log ?st @ [as_stored (event_of 9 ?n linter_spec)], proj = (proj ?st)\<lparr>t_cultivars := [linter]\<rparr>\<rparr>)"
    using ids by (simp add: Append_def)
  have "tropismVersionExists ?st (cu_tropism linter)" using studio_tropism by blast
  moreover have "cu_name linter = ''linter''" "cu_version linter = 1" by (simp_all add: linter_def)
  moreover have "t_cultivars (proj ?st) = []" by (simp add: studio_def no_tables_def)
  ultimately show ?thesis using linter_normal a
    by (simp add: DefineCultivarInTx_def guard_err_def linter_spec_def get_row_def ex_bool_eq)
qed

theorem activation_needs_other_approval_witness:
  "\<exists>out st'. Activate decimal_ext 9 (studio (length_id 2) (length_id 3) []) 50 worker9 7 linter = (Inr out, st') \<and>
     t_cultivars (proj st') = [linter] \<and> av_disposition out = DispositionGrant \<and>
     (\<exists>e. latest_event (filter (approving 7) (log (studio (length_id 2) (length_id 3) []))) = Some e \<and> ev_actor e \<noteq> Some 9)"
proof -
  let ?st = "studio (length_id 2) (length_id 3)"
  have disp: "dc_disposition (activation_decision (?st []) worker9 7 linter (en_decision studio_ev)) = DispositionGrant"
    using studio_decision [of "length_id 2" "length_id 3"] by (simp add: studio_evaluation)
  obtain j f evs where ask: "app_append decimal_ext 9 (?st []) ask_spec = Inr (j, f, ?st evs)"
    "\<forall>e \<in> set evs. DeterministicID decimal_ext ask_spec = Inr (ev_id e)"
    using activation_appends [of 50 EventCultivarActivationRequested decimal_ext 9 "?st []" worker9]
    by (fastforce simp: ask_spec_def studio_def)
  obtain f' st1 where def: "DefineCultivarInTx decimal_ext (NewProjectionRegistry decimal_ext) 9 (?st evs) worker9 linter =
      Inr (linter, f', st1)" "t_cultivars (proj st1) = [linter]"
    using studio_defines [OF ask(2)] by blast
  have granted: "\<exists>k f evs'. app_append decimal_ext 9 st1 (activation_spec 50 EventCultivarActivationGranted worker9 payload) =
      Inr (k, f, st1\<lparr>log := log st1 @ evs'\<rparr>)" for payload
    using activation_appends [of 50 EventCultivarActivationGranted] by fastforce
  have "\<exists>out evs'. Activate decimal_ext 9 (?st []) 50 worker9 7 linter = (Inr out, st1\<lparr>log := log st1 @ evs'\<rparr>) \<and>
      av_disposition out = DispositionGrant"
  proof -
    have d: "activation_decision (?st []) worker9 7 linter (en_decision studio_ev) = en_decision studio_ev"
      by (rule activation_granted(1) [OF disp])
    have g: "dc_disposition (en_decision studio_ev) = DispositionGrant" using disp d by simp
    have w: "tok_id worker9 \<noteq> uuid_nil" by (simp add: worker9_def agent9_def)
    obtain k f3 evs' where k: "app_append decimal_ext 9 st1 (activation_spec 50 EventCultivarActivationGranted worker9
        (JObj ([(''request_event_id'', juid decimal_ext j), (''work_item_id'', juid decimal_ext 7),
            (''reason'', JStr (dc_reason (en_decision studio_ev)))] @
           [(''scopes'', jstrs (dc_scopes (en_decision studio_ev))),
            (''cultivar'', JStr (cu_name linter @ ''@'' @ itoa (cu_version linter))),
            (''cultivar_event_id'', juid decimal_ext (cultivar_event decimal_ext st1 (cu_name linter)))]))) =
        Inr (k, f3, st1\<lparr>log := log st1 @ evs'\<rparr>)"
      using granted by blast
    let ?r = "\<lparr>av_id = 50, av_item = 7, av_disposition = DispositionGrant, av_reason = dc_reason (en_decision studio_ev),
        av_scopes = dc_scopes (en_decision studio_ev), av_cultivar = None, av_request_event = j,
        av_outcome_event = uuid_nil, av_escalation = uuid_nil, av_human = uuid_nil\<rparr>"
    have "carry_activation decimal_ext 9 worker9 7 linter studio_ev ?r (?st evs) =
        Inr (?r\<lparr>av_outcome_event := k, av_cultivar := Some linter\<rparr>, st1\<lparr>log := log st1 @ evs'\<rparr>)"
      using k by (simp add: carry_activation_def Let_def def(1))
    then show ?thesis using ask(1) g w
      by (simp add: Activate_def rollback_def guard_err_def studio_evaluation Let_def d ask_spec_def [symmetric]) blast
  qed
  then obtain out evs' where out: "Activate decimal_ext 9 (?st []) 50 worker9 7 linter = (Inr out, st1\<lparr>log := log st1 @ evs'\<rparr>)"
    "av_disposition out = DispositionGrant" by blast
  have "t_cultivars (proj (?st [])) = []" "tok_id worker9 = 9" by (simp_all add: studio_def no_tables_def worker9_def agent9_def)
  with activation_needs_other_approval [OF out(1)] out def(2) show ?thesis by auto
qed

end
