(* ===== verification/Spec2Isabelle.thy ===== *)
theory Spec2Isabelle
  imports Prelude Graph Json Decoder Idempotency Fleet Spoke Reporting Reception Proposals Worker WorkerProperties Domain Events Tables Feed Safety Access Convergence Registry Cursor
    Projectors App Frames Intake ProjectionDefs Leases Jobqueue Workitems WorkitemFacts WorkitemProperties
    Approvals Httpconnector Auth Typing Escalations Grants Activation
begin

text \<open>
  Meristem (a Go program) coordinates the work of people and agents.  Everything that happens is an
  event in one Postgres log; the tables that the program reads are projections of that log.  A
  request comes in over HTTP or MCP with a bearer token and an idempotency key, a service checks it
  against the tables, appends events in one transaction, and the projectors update the tables in the
  same transaction.  A worker scans the tables and drives each work item to a terminal state.

  The parts, with the theory that models each and its sources under src/:

  \<^item> Prelude, Json, Decoder, Graph: strings, errors, times and UUIDs; JSON values with their canonical
    encoding (internal/events/canonical.go) and decoding (encoding/json); reachability for the
    recursive queries.
  \<^item> Domain, Events, Tables, Projectors, Intake, ProjectionDefs, App, Frames, Typing: internal/domain,
    internal/events, internal/projections and the projectors.go file of every package.  A database
    (type db) is the log in the order of its column seq together with one list of rows per table;
    Append is events.Writer.Append, app_append the same over the registry of all projectors.  Frames
    says which table a projector writes, Typing what holds of the rows.
  \<^item> Workitems, WorkitemFacts, WorkitemProperties: internal/workitems/service.go.
  \<^item> Approvals, Escalations, Grants, Auth, Access: the packages of these names under internal/;
    Activation: internal/cultivaractivation.
  \<^item> Feed, Cursor: internal/feed; ProjectionDefs: internal/projectiondefs; Registry: internal/registry.
  \<^item> Convergence and Safety: internal/convergence and internal/safety.
  \<^item> Leases, Jobqueue, Httpconnector: internal/jobqueue and internal/httpconnector, two queues that
    satisfy one contract of leases.
  \<^item> Idempotency: internal/idempotency, in front of every request that writes.
  \<^item> Fleet, Spoke: internal/policyprofile, internal/nodes with cmd/meristem/nodes.go,
    internal/crossnode with internal/api/crossnode.go, and internal/spoke.
  \<^item> Reporting: internal/errorreporting.  Reception: internal/signals and internal/inbox.
  \<^item> Proposals: internal/convergence/checks_proposal.go.  Worker, WorkerProperties: internal/worker, the
    loop that keeps items moving: one scan is five passes over candidates, and every effect of a pass
    is a transaction of its own (for_each threads counters, error and database through them).

  An operation of a service is a function of the clock, the database and its input; it returns its
  result (an error or a value) and the database that it commits, so that every early return of the
  code is a branch.  Ids and bytes that the code draws at random are arguments.  What lies outside
  src/ (SHA-256, UUID parsing and printing, the HTTP client, handlers behind the middleware) is an
  argument too; the record ext of Domain collects the hash and text functions, and ext_ok states
  what the program relies on: digests have 32 bytes, and printed UUIDs and times read back.

  The lemmas: Events shows that the identity of an event can be read back from its preimage, that
  appending is idempotent and that folding the log rebuilds the tables (the locale
  projection_registry, interpreted on the registry in App).  Typing gives the invariant of all tables.
  For every service there are elimination rules that take a successful run apart, effects on the
  tables, and the rules that hold over any later history (the relation later of WorkitemFacts).
  Locales state the interfaces: reducers (Convergence), leased queues (Leases), the
  hub of a spoke (Spoke); each is interpreted on the definitions of the code.

  Bounds: reach of Graph makes as many rounds as there are edges, which is enough because each round
  but the last adds a node; subtree_rows of Grants recurses at most one more time than there are
  edges, which on an acyclic relation is enough (delegation_depth_is_distance); the trimming loop has
  as much fuel as the string has bytes; items_lit of Decoder reads one item per byte, and the nesting
  bound of 10000 is that of encoding/json; the batches of the feed query end with the log.

  Not modelled: foreign keys of the tables (a rebuild does not have them either), the text that
  fmt.Errorf adds around an error on its way up, guards against services that were built without a
  pool or writer, failures of the database itself, the bytes that Postgres prints for JSONB columns,
  IEEE floating point (the reducer threshold_mean), the long poll of the feed, and a crash between
  two transactions, except where an operation is several transactions and says so.  Keys of JSON
  objects are matched exactly, while encoding/json also accepts another case for the members of a
  struct.  The HTTP and MCP transports, the command line and the exports are not modelled; they
  decode requests for the services above and print their results.
\<close>

end
